(* ===== verification/Prelude.thy ===== *)
theory Prelude
  imports Main "HOL-Library.AList" "HOL-Library.State_Monad"
begin

text \<open>
  The library every component shares: Go maps as association lists, Go slices that
  may be nil, results that are either an error or a value, and a small calculus of
  weakest preconditions for the deterministic state monad in which the stateful
  operations are written.
\<close>

named_theorems wp_simps "unfolding rules of the weakest-precondition calculus"
named_theorems pres_intro "introduction rules for invariants of monadic operations"
named_theorems gomap_simps "lookup after an update or a deletion"

section \<open>Go maps\<close>

text \<open>
  A Go \<open>map[K]V\<close> is an association list with at most one pair per key. The list
  order stands for the unspecified iteration order of the Go runtime.
\<close>

type_synonym ('k, 'v) gomap = "('k \<times> 'v) list"

definition mget :: "('k, 'v) gomap \<Rightarrow> 'k \<Rightarrow> 'v option" where
  "mget m k = map_of m k"

definition mput :: "'k \<Rightarrow> 'v \<Rightarrow> ('k, 'v) gomap \<Rightarrow> ('k, 'v) gomap" where
  "mput k v m = AList.update k v m"

definition mdel :: "'k \<Rightarrow> ('k, 'v) gomap \<Rightarrow> ('k, 'v) gomap" where
  "mdel k m = AList.delete k m"

definition mhas :: "('k, 'v) gomap \<Rightarrow> 'k \<Rightarrow> bool" where
  "mhas m k = (mget m k \<noteq> None)"

definition mwf :: "('k, 'v) gomap \<Rightarrow> bool" where
  "mwf m = distinct (map fst m)"

lemma mget_Nil [simp, gomap_simps]: "mget [] k = None"
  by (simp add: mget_def)

lemma mget_Cons [gomap_simps]: "mget ((k', v) # m) k = (if k' = k then Some v else mget m k)"
  by (simp add: mget_def)

lemma mget_mput [simp, gomap_simps]: "mget (mput k v m) k' = (if k' = k then Some v else mget m k')"
  by (simp add: mget_def mput_def update_conv')

lemma mget_mdel [simp, gomap_simps]: "mget (mdel k m) k' = (if k' = k then None else mget m k')"
  by (simp add: mget_def mdel_def delete_conv')

lemma mput_Nil [simp]: "mput k v [] = [(k, v)]"
  by (simp add: mput_def)

lemma mput_Cons: "mput k v (p # m) = (if fst p = k then (k, v) # m else p # mput k v m)"
  by (simp add: mput_def)

lemma mput_ne [simp]: "mput k v m \<noteq> []"
  by (cases m) (simp_all add: mput_Cons)

lemma mwf_Nil [simp]: "mwf []"
  by (simp add: mwf_def)

lemma mwf_mput [simp]: "mwf m \<Longrightarrow> mwf (mput k v m)"
  by (simp add: mwf_def mput_def distinct_update)

lemma mwf_mdel [simp]: "mwf m \<Longrightarrow> mwf (mdel k m)"
  by (simp add: mwf_def mdel_def distinct_delete)

lemma length_mdel_le: "length (mdel k m) \<le> length m"
  by (simp add: mdel_def length_delete_le)

lemma length_mdel_less: "mget m k \<noteq> None \<Longrightarrow> length (mdel k m) < length m"
  unfolding mdel_def mget_def
  by (induction m) (auto simp: AList.delete_eq intro: le_imp_less_Suc length_filter_le split: if_splits)

lemma length_mput: "length (mput k v m) = (if mget m k = None then Suc (length m) else length m)"
  unfolding mput_def mget_def by (induction m) auto

lemma mget_SomeD: "mget m k = Some v \<Longrightarrow> (k, v) \<in> set m"
  by (simp add: mget_def map_of_SomeD)

lemma mget_eq_Some_iff: "mwf m \<Longrightarrow> mget m k = Some v \<longleftrightarrow> (k, v) \<in> set m"
  by (simp add: mget_def mwf_def)

lemma set_mput: "mwf m \<Longrightarrow> set (mput k v m) = insert (k, v) {p \<in> set m. fst p \<noteq> k}"
  using mwf_mput [of m k v]
  by (auto simp: mget_eq_Some_iff [symmetric] split: if_splits)

section \<open>Slices that may be nil\<close>

type_synonym 'a slice = "'a list option"

definition elems :: "'a slice \<Rightarrow> 'a list" where
  "elems s = (case s of None \<Rightarrow> [] | Some xs \<Rightarrow> xs)"

lemma elems_simps [simp]: "elems None = []" "elems (Some xs) = xs"
  by (simp_all add: elems_def)

text \<open>A slice built by the code's \<open>if len(x) == 0 { return nil }\<close> idiom, and the
  effect of \<open>omitempty\<close> in a JSON round trip.\<close>

definition nil_if_empty :: "'a list \<Rightarrow> 'a slice" where
  "nil_if_empty xs = (if xs = [] then None else Some xs)"

lemma elems_nil_if_empty [simp]: "elems (nil_if_empty xs) = xs"
  by (simp add: nil_if_empty_def)

section \<open>The state monad: results and weakest preconditions\<close>

text \<open>
  An operation is a value of \<open>('s, 'a) state\<close>. A Go function that returns
  \<open>(value, error)\<close> yields \<open>'e + 'a\<close>; \<open>attempt\<close> is the code's
  \<open>if err != nil { return err }\<close>.
\<close>

definition ret :: "'a \<Rightarrow> ('s, 'a) state" where
  "ret = State_Monad.return"

definition ok :: "'a \<Rightarrow> ('s, 'e + 'a) state" where
  "ok x = State_Monad.return (Inr x)"

definition fail :: "'e \<Rightarrow> ('s, 'e + 'a) state" where
  "fail e = State_Monad.return (Inl e)"

definition attempt :: "('s, 'e + 'a) state \<Rightarrow> ('a \<Rightarrow> ('s, 'e + 'b) state) \<Rightarrow> ('s, 'e + 'b) state" where
  "attempt m f = State_Monad.bind m (\<lambda>r. case r of Inl e \<Rightarrow> State_Monad.return (Inl e) | Inr x \<Rightarrow> f x)"

definition gets :: "('s \<Rightarrow> 'a) \<Rightarrow> ('s, 'a) state" where
  "gets f = State (\<lambda>s. (f s, s))"

definition modify :: "('s \<Rightarrow> 's) \<Rightarrow> ('s, unit) state" where
  "modify f = State (\<lambda>s. ((), f s))"

text \<open>Run an operation on a part of the state, given by its projection and its update.\<close>

definition zoom :: "('s \<Rightarrow> 't) \<Rightarrow> ('t \<Rightarrow> 's \<Rightarrow> 's) \<Rightarrow> ('t, 'a) state \<Rightarrow> ('s, 'a) state" where
  "zoom prj upd m = State (\<lambda>s. case run_state m (prj s) of (a, t) \<Rightarrow> (a, upd t s))"

definition wp :: "('s, 'a) state \<Rightarrow> ('a \<Rightarrow> 's \<Rightarrow> bool) \<Rightarrow> 's \<Rightarrow> bool" where
  "wp m Q s = (case run_state m s of (a, s') \<Rightarrow> Q a s')"

lemma run_ret [simp]: "run_state (ret x) s = (x, s)"
  by (simp add: ret_def)

lemma run_ok [simp]: "run_state (ok x) s = (Inr x, s)"
  by (simp add: ok_def)

lemma run_fail [simp]: "run_state (fail e) s = (Inl e, s)"
  by (simp add: fail_def)

lemma run_gets [simp]: "run_state (gets f) s = (f s, s)"
  by (simp add: gets_def)

lemma run_modify [simp]: "run_state (modify f) s = ((), f s)"
  by (simp add: modify_def)

lemma run_zoom [simp]:
  "run_state (zoom prj upd m) s = (case run_state m (prj s) of (a, t) \<Rightarrow> (a, upd t s))"
  by (simp add: zoom_def)

lemma run_attempt [simp]:
  "run_state (attempt m f) s =
     (case run_state m s of (Inl e, s') \<Rightarrow> (Inl e, s') | (Inr x, s') \<Rightarrow> run_state (f x) s')"
  by (simp add: attempt_def split: prod.splits sum.splits)

lemma wp_ret [simp, wp_simps]: "wp (ret x) Q s = Q x s"
  by (simp add: wp_def)

lemma wp_return [simp, wp_simps]: "wp (State_Monad.return x) Q s = Q x s"
  by (simp add: wp_def)

lemma wp_ok [simp, wp_simps]: "wp (ok x) Q s = Q (Inr x) s"
  by (simp add: wp_def)

lemma wp_fail [simp, wp_simps]: "wp (fail e) Q s = Q (Inl e) s"
  by (simp add: wp_def)

lemma wp_gets [simp, wp_simps]: "wp (gets f) Q s = Q (f s) s"
  by (simp add: wp_def)

lemma wp_modify [simp, wp_simps]: "wp (modify f) Q s = Q () (f s)"
  by (simp add: wp_def)

lemma wp_bind [simp, wp_simps]: "wp (State_Monad.bind m f) Q s = wp m (\<lambda>a. wp (f a) Q) s"
  by (simp add: wp_def split: prod.splits)

lemma wp_attempt [simp, wp_simps]:
  "wp (attempt m f) Q s = wp m (\<lambda>r s'. case r of Inl e \<Rightarrow> Q (Inl e) s' | Inr x \<Rightarrow> wp (f x) Q s') s"
  by (simp add: wp_def split: prod.splits sum.splits)

lemma wp_zoom [simp, wp_simps]:
  "wp (zoom prj upd m) Q s = wp m (\<lambda>a t. Q a (upd t s)) (prj s)"
  by (simp add: wp_def split: prod.splits)

lemma wp_if [simp, wp_simps]: "wp (if b then m else n) Q s = (if b then wp m Q s else wp n Q s)"
  by simp

lemma wp_Let [simp, wp_simps]: "wp (Let x f) Q s = wp (f x) Q s"
  by (simp add: Let_def)

lemma wp_mono: "wp m P s \<Longrightarrow> (\<And>a s'. P a s' \<Longrightarrow> Q a s') \<Longrightarrow> wp m Q s"
  by (auto simp: wp_def)

lemma wp_conj: "wp m (\<lambda>a s'. P a s' \<and> Q a s') s = (wp m P s \<and> wp m Q s)"
  by (auto simp: wp_def)

lemma wp_run: "run_state m s = (a, s') \<Longrightarrow> wp m Q s = Q a s'"
  by (simp add: wp_def)

section \<open>Invariants of operations\<close>

definition preserves :: "('s \<Rightarrow> bool) \<Rightarrow> ('s, 'a) state \<Rightarrow> bool" where
  "preserves I m = (\<forall>s. I s \<longrightarrow> I (snd (run_state m s)))"

lemma preservesI: "(\<And>s. I s \<Longrightarrow> wp m (\<lambda>_. I) s) \<Longrightarrow> preserves I m"
  by (simp add: preserves_def wp_def case_prod_beta)

lemma preservesD: "preserves I m \<Longrightarrow> I s \<Longrightarrow> wp m (\<lambda>_. I) s"
  by (simp add: preserves_def wp_def case_prod_beta)

lemma preserves_ret [pres_intro, simp]: "preserves I (ret x)"
  by (simp add: preserves_def)

lemma preserves_return [pres_intro, simp]: "preserves I (State_Monad.return x)"
  by (simp add: preserves_def)

lemma preserves_ok [pres_intro, simp]: "preserves I (ok x)"
  by (simp add: preserves_def)

lemma preserves_fail [pres_intro, simp]: "preserves I (fail x)"
  by (simp add: preserves_def)

lemma preserves_gets [pres_intro, simp]: "preserves I (gets f)"
  by (simp add: preserves_def)

lemma preserves_modify [pres_intro]: "(\<And>s. I s \<Longrightarrow> I (f s)) \<Longrightarrow> preserves I (modify f)"
  by (simp add: preserves_def)

lemma preserves_bind [pres_intro]:
  "preserves I m \<Longrightarrow> (\<And>a. preserves I (f a)) \<Longrightarrow> preserves I (State_Monad.bind m f)"
  by (simp add: preserves_def case_prod_beta)

lemma preserves_attempt [pres_intro]:
  "preserves I m \<Longrightarrow> (\<And>a. preserves I (f a)) \<Longrightarrow> preserves I (attempt m f)"
  unfolding attempt_def by (rule preserves_bind) (auto split: sum.splits)

lemma preserves_if [pres_intro]:
  "(b \<Longrightarrow> preserves I m) \<Longrightarrow> (\<not> b \<Longrightarrow> preserves I n) \<Longrightarrow> preserves I (if b then m else n)"
  by simp

lemma preserves_Let [pres_intro]: "(\<And>x. x = e \<Longrightarrow> preserves I (f x)) \<Longrightarrow> preserves I (Let e f)"
  by (simp add: Let_def)

lemma preserves_case_option [pres_intro]:
  "(x = None \<Longrightarrow> preserves I m) \<Longrightarrow> (\<And>a. x = Some a \<Longrightarrow> preserves I (f a)) \<Longrightarrow>
   preserves I (case x of None \<Rightarrow> m | Some a \<Rightarrow> f a)"
  by (cases x) auto

lemma preserves_case_sum [pres_intro]:
  "(\<And>e. x = Inl e \<Longrightarrow> preserves I (g e)) \<Longrightarrow> (\<And>a. x = Inr a \<Longrightarrow> preserves I (f a)) \<Longrightarrow>
   preserves I (case x of Inl e \<Rightarrow> g e | Inr a \<Rightarrow> f a)"
  by (cases x) auto

lemma preserves_case_prod [pres_intro]:
  "(\<And>a b. x = (a, b) \<Longrightarrow> preserves I (f a b)) \<Longrightarrow> preserves I (case x of (a, b) \<Rightarrow> f a b)"
  by (cases x) auto

section \<open>Hoare triples\<close>

text \<open>\<open>triple P m Q\<close>: from a state with \<open>P\<close>, the operation ends in one with \<open>Q\<close>.\<close>

definition triple :: "('s \<Rightarrow> bool) \<Rightarrow> ('s, 'a) state \<Rightarrow> ('s \<Rightarrow> bool) \<Rightarrow> bool" where
  "triple P m Q = (\<forall>s. P s \<longrightarrow> wp m (\<lambda>_. Q) s)"

lemma triple_preserves: "preserves P m \<longleftrightarrow> triple P m P"
  by (simp add: preserves_def triple_def wp_def case_prod_beta)

lemma triple_bind_pre:
  "preserves P m \<Longrightarrow> (\<And>a. triple P (f a) Q) \<Longrightarrow> triple P (State_Monad.bind m f) Q"
  by (simp add: preserves_def triple_def wp_def case_prod_beta)

lemma triple_bind_post:
  "triple P m Q \<Longrightarrow> (\<And>a. preserves Q (f a)) \<Longrightarrow> triple P (State_Monad.bind m f) Q"
  by (simp add: preserves_def triple_def wp_def case_prod_beta)

lemma triple_return: "(\<And>s. P s \<Longrightarrow> Q s) \<Longrightarrow> triple P (State_Monad.return x) Q"
  by (simp add: triple_def)

lemma triple_attempt_pre:
  "preserves P m \<Longrightarrow> (\<And>s. P s \<Longrightarrow> Q s) \<Longrightarrow> (\<And>a. triple P (f a) Q) \<Longrightarrow> triple P (attempt m f) Q"
  unfolding attempt_def
  by (rule triple_bind_pre) (auto intro: triple_return split: sum.splits)

lemma triple_attempt_post:
  "triple P m Q \<Longrightarrow> (\<And>a. preserves Q (f a)) \<Longrightarrow> triple P (attempt m f) Q"
  unfolding attempt_def by (rule triple_bind_post) (auto split: sum.splits)

lemma triple_weaken: "(\<And>s. P s \<Longrightarrow> Q s) \<Longrightarrow> preserves Q m \<Longrightarrow> triple P m Q"
  by (simp add: preserves_def triple_def wp_def case_prod_beta)

lemma triple_Let: "(\<And>x. x = e \<Longrightarrow> triple P (f x) Q) \<Longrightarrow> triple P (Let e f) Q"
  by (simp add: Let_def)

lemma triple_case_option:
  "(x = None \<Longrightarrow> triple P m Q) \<Longrightarrow> (\<And>a. x = Some a \<Longrightarrow> triple P (f a) Q) \<Longrightarrow>
   triple P (case x of None \<Rightarrow> m | Some a \<Rightarrow> f a) Q"
  by (cases x) auto

end
