(* ===== verification/GoStrings.thy ===== *)
theory GoStrings
  imports Prelude "HOL-Library.Sublist"
begin

text \<open>
  The part of Go's \<open>strings\<close> package (and of \<open>strconv\<close>) that the components use.
  A Go string is a sequence of bytes, here a \<open>string\<close> whose characters are bytes. Case
  folding is the ASCII one; white space is the full Unicode set of \<open>unicode.IsSpace\<close>,
  in its UTF-8 encoding.
\<close>

section \<open>Prefixes, suffixes, cutting\<close>

definition has_prefix :: "string \<Rightarrow> string \<Rightarrow> bool" where
  "has_prefix s p = (take (length p) s = p)"

definition has_suffix :: "string \<Rightarrow> string \<Rightarrow> bool" where
  "has_suffix s p = has_prefix (rev s) (rev p)"

definition trim_prefix :: "string \<Rightarrow> string \<Rightarrow> string" where
  "trim_prefix s p = (if has_prefix s p then drop (length p) s else s)"

definition trim_suffix :: "string \<Rightarrow> string \<Rightarrow> string" where
  "trim_suffix s p = (if has_suffix s p then take (length s - length p) s else s)"

lemma has_prefix_iff: "has_prefix s p \<longleftrightarrow> (\<exists>r. s = p @ r)"
proof
  assume "has_prefix s p"
  then have "s = p @ drop (length p) s"
    unfolding has_prefix_def by (metis append_take_drop_id)
  then show "\<exists>r. s = p @ r" ..
qed (auto simp: has_prefix_def)

lemma has_prefix_append [simp]: "has_prefix (p @ r) p"
  by (simp add: has_prefix_def)

lemma has_prefix_Nil [simp]: "has_prefix s []"
  by (simp add: has_prefix_def)

lemma has_prefix_self [simp]: "has_prefix s s"
  by (simp add: has_prefix_def)

text \<open>\<open>strings.Cut\<close> at a one-byte separator: the text before and after its first
  occurrence.\<close>

fun cut :: "char \<Rightarrow> string \<Rightarrow> (string \<times> string) option" where
  "cut c [] = None"
| "cut c (x # xs) =
     (if x = c then Some ([], xs)
      else (case cut c xs of None \<Rightarrow> None | Some (a, b) \<Rightarrow> Some (x # a, b)))"

lemma cut_None_iff: "cut c s = None \<longleftrightarrow> c \<notin> set s"
  by (induction s) (auto split: option.splits)

lemma cut_append: "c \<notin> set a \<Longrightarrow> cut c (a @ c # b) = Some (a, b)"
  by (induction a) auto

lemma cut_SomeD: "cut c s = Some (a, b) \<Longrightarrow> s = a @ c # b \<and> c \<notin> set a"
  by (induction s arbitrary: a) (auto split: if_splits option.splits prod.splits)

lemma cut_Some_iff: "cut c s = Some (a, b) \<longleftrightarrow> s = a @ c # b \<and> c \<notin> set a"
  using cut_append cut_SomeD by metis

text \<open>\<open>strings.Split\<close> at a one-byte separator.\<close>

fun split_on :: "char \<Rightarrow> string \<Rightarrow> string list" where
  "split_on c [] = [[]]"
| "split_on c (x # xs) =
     (if x = c then [] # split_on c xs
      else (case split_on c xs of [] \<Rightarrow> [[x]] | p # ps \<Rightarrow> (x # p) # ps))"

fun join :: "string \<Rightarrow> string list \<Rightarrow> string" where
  "join sep [] = []"
| "join sep [x] = x"
| "join sep (x # y # xs) = x @ sep @ join sep (y # xs)"

lemma split_on_ne [simp]: "split_on c s \<noteq> []"
  by (induction s) (auto split: list.splits)

lemma join_Cons: "xs \<noteq> [] \<Longrightarrow> join sep (x # xs) = x @ sep @ join sep xs"
  by (cases xs) auto

lemma join_split_on: "join [c] (split_on c s) = s"
proof (induction s)
  case Nil
  then show ?case by simp
next
  case (Cons x xs)
  obtain p ps where p: "split_on c xs = p # ps"
    by (meson neq_Nil_conv split_on_ne)
  have "join [c] ((x # p) # ps) = x # join [c] (p # ps)"
    by (cases ps) auto
  then show ?case
    using Cons p by (auto simp: join_Cons)
qed

lemma split_on_no_sep: "p \<in> set (split_on c s) \<Longrightarrow> c \<notin> set p"
  by (induction s arbitrary: p) (auto split: list.splits if_splits)

section \<open>White space\<close>

text \<open>The UTF-8 encodings of the characters of \<open>unicode.IsSpace\<close>.\<close>

definition space_encodings :: "string list" where
  "space_encodings =
     [[CHR 0x09], [CHR 0x0A], [CHR 0x0B], [CHR 0x0C], [CHR 0x0D], [CHR 0x20],
      [CHR 0xC2, CHR 0x85], [CHR 0xC2, CHR 0xA0], [CHR 0xE1, CHR 0x9A, CHR 0x80],
      [CHR 0xE2, CHR 0x80, CHR 0x80], [CHR 0xE2, CHR 0x80, CHR 0x81],
      [CHR 0xE2, CHR 0x80, CHR 0x82], [CHR 0xE2, CHR 0x80, CHR 0x83],
      [CHR 0xE2, CHR 0x80, CHR 0x84], [CHR 0xE2, CHR 0x80, CHR 0x85],
      [CHR 0xE2, CHR 0x80, CHR 0x86], [CHR 0xE2, CHR 0x80, CHR 0x87],
      [CHR 0xE2, CHR 0x80, CHR 0x88], [CHR 0xE2, CHR 0x80, CHR 0x89],
      [CHR 0xE2, CHR 0x80, CHR 0x8A], [CHR 0xE2, CHR 0x80, CHR 0xA8],
      [CHR 0xE2, CHR 0x80, CHR 0xA9], [CHR 0xE2, CHR 0x80, CHR 0xAF],
      [CHR 0xE2, CHR 0x81, CHR 0x9F], [CHR 0xE3, CHR 0x80, CHR 0x80]]"

text \<open>Drop the first encoding of the list that is a prefix.\<close>

fun strip_one :: "string list \<Rightarrow> string \<Rightarrow> string option" where
  "strip_one [] s = None"
| "strip_one (e # es) s =
     (if e \<noteq> [] \<and> has_prefix s e then Some (drop (length e) s) else strip_one es s)"

lemma strip_one_shorter: "strip_one es s = Some r \<Longrightarrow> length r < length s"
proof (induction es)
  case (Cons e es)
  then show ?case
    by (auto simp: has_prefix_iff split: if_splits)
qed simp

function strip_all :: "string list \<Rightarrow> string \<Rightarrow> string" where
  "strip_all es s = (case strip_one es s of None \<Rightarrow> s | Some r \<Rightarrow> strip_all es r)"
  by pat_completeness auto
termination
  by (relation "measure (\<lambda>(es, s). length s)") (auto dest: strip_one_shorter)

declare strip_all.simps [simp del]

definition trim_left :: "string \<Rightarrow> string" where
  "trim_left s = strip_all space_encodings s"

definition trim_right :: "string \<Rightarrow> string" where
  "trim_right s = rev (strip_all (map rev space_encodings) (rev s))"

definition trim_space :: "string \<Rightarrow> string" where
  "trim_space s = trim_right (trim_left s)"

lemma strip_all_done [simp]: "strip_one es (strip_all es s) = None"
proof (induction es s rule: strip_all.induct)
  case (1 es s)
  show ?case
  proof (cases "strip_one es s")
    case None
    then show ?thesis by (simp add: strip_all.simps)
  next
    case (Some r)
    with 1 show ?thesis by (simp add: strip_all.simps [of es s])
  qed
qed

lemma strip_all_fixed: "strip_one es s = None \<Longrightarrow> strip_all es s = s"
  by (simp add: strip_all.simps)

lemma strip_all_idem [simp]: "strip_all es (strip_all es s) = strip_all es s"
  by (simp add: strip_all_fixed)

lemma strip_one_suffix: "strip_one es s = Some r \<Longrightarrow> \<exists>p. s = p @ r"
  by (induction es) (auto simp: has_prefix_iff split: if_splits)

lemma strip_all_suffix: "\<exists>p. s = p @ strip_all es s"
proof (induction es s rule: strip_all.induct)
  case (1 es s)
  show ?case
  proof (cases "strip_one es s")
    case None
    then show ?thesis by (simp add: strip_all.simps)
  next
    case (Some r)
    then obtain p q where "s = p @ r" "r = q @ strip_all es r"
      using 1 strip_one_suffix by blast
    moreover have "strip_all es s = strip_all es r"
      using Some by (subst strip_all.simps) simp
    ultimately have "s = (p @ q) @ strip_all es s"
      by simp
    then show ?thesis by blast
  qed
qed

lemma strip_one_prefix_None:
  assumes "strip_one es (p @ q) = None" shows "strip_one es p = None"
  using assms by (induction es) (auto simp: has_prefix_iff split: if_splits)

lemma trim_right_prefix: "\<exists>q. s = trim_right s @ q"
proof -
  obtain p where "rev s = p @ strip_all (map rev space_encodings) (rev s)"
    using strip_all_suffix by blast
  then have "rev (rev s) = trim_right s @ rev p"
    unfolding trim_right_def by (metis rev_append)
  then show ?thesis by auto
qed

lemma trim_right_idem [simp]: "trim_right (trim_right s) = trim_right s"
  by (simp add: trim_right_def)

lemma trim_left_trim_space [simp]: "trim_left (trim_space s) = trim_space s"
proof -
  obtain q where q: "trim_left s = trim_space s @ q"
    unfolding trim_space_def using trim_right_prefix by blast
  have "strip_one space_encodings (trim_left s) = None"
    by (simp add: trim_left_def)
  then have "strip_one space_encodings (trim_space s) = None"
    unfolding q by (rule strip_one_prefix_None)
  then show ?thesis by (simp add: trim_left_def strip_all_fixed)
qed

text \<open>Trimming twice is trimming once, which lets trimmed strings be compared freely.\<close>

lemma trim_space_idem [simp]: "trim_space (trim_space s) = trim_space s"
  by (subst trim_space_def) (simp, simp add: trim_space_def)

lemma trim_space_Nil [simp]: "trim_space [] = []"
  by (simp add: trim_space_def trim_left_def trim_right_def strip_all.simps space_encodings_def
      has_prefix_def)

section \<open>Case folding\<close>

definition lower_byte :: "char \<Rightarrow> char" where
  "lower_byte c =
     (let n = (of_char c :: nat) in if 65 \<le> n \<and> n \<le> 90 then char_of (n + 32) else c)"

definition to_lower :: "string \<Rightarrow> string" where
  "to_lower s = map lower_byte s"

definition equal_fold :: "string \<Rightarrow> string \<Rightarrow> bool" where
  "equal_fold s t = (to_lower s = to_lower t)"

lemma equal_fold_refl [simp]: "equal_fold s s"
  by (simp add: equal_fold_def)

lemma equal_fold_sym: "equal_fold s t \<Longrightarrow> equal_fold t s"
  by (simp add: equal_fold_def)

section \<open>Decimal numbers\<close>

text \<open>\<open>strconv.Itoa\<close> and the \<open>%d\<close> verb.\<close>

definition digit_char :: "nat \<Rightarrow> char" where
  "digit_char d = char_of (48 + d)"

fun dec_nat :: "nat \<Rightarrow> string" where
  "dec_nat n = (if n < 10 then [digit_char n] else dec_nat (n div 10) @ [digit_char (n mod 10)])"

declare dec_nat.simps [simp del]

definition itoa :: "int \<Rightarrow> string" where
  "itoa i = (if i < 0 then CHR ''-'' # dec_nat (nat (- i)) else dec_nat (nat i))"

lemma digit_char_inj: "d < 10 \<Longrightarrow> e < 10 \<Longrightarrow> digit_char d = digit_char e \<longleftrightarrow> d = e"
  unfolding digit_char_def by (auto simp: char_of_eq_iff take_bit_eq_mod)

lemma dec_nat_ne [simp]: "dec_nat n \<noteq> []"
  by (subst dec_nat.simps) simp

lemma dec_nat_inj: "dec_nat m = dec_nat n \<Longrightarrow> m = n"
proof (induction m arbitrary: n rule: dec_nat.induct)
  case (1 m)
  have small: "k < 10 \<longleftrightarrow> length (dec_nat k) = 1" for k
    using dec_nat_ne [of "k div 10"] by (subst dec_nat.simps) auto
  show ?case
  proof (cases "m < 10")
    case True
    with "1.prems" have "n < 10" using small by metis
    with True "1.prems" show ?thesis
      by (simp add: dec_nat.simps digit_char_inj)
  next
    case False
    with "1.prems" have n: "\<not> n < 10" using small by metis
    with False "1.prems" have "dec_nat (m div 10) = dec_nat (n div 10)"
      and "digit_char (m mod 10) = digit_char (n mod 10)"
      by (simp_all add: dec_nat.simps [of m] dec_nat.simps [of n])
    then have "m div 10 = n div 10" and "m mod 10 = n mod 10"
      using "1.IH" [OF False] by (auto simp: digit_char_inj)
    then show ?thesis by (metis div_mult_mod_eq)
  qed
qed

lemma dec_nat_no_minus: "CHR ''-'' \<notin> set (dec_nat n)"
proof (induction n rule: dec_nat.induct)
  case (1 n)
  have "digit_char d \<noteq> CHR ''-''" if "d < 10" for d
  proof
    assume "digit_char d = CHR ''-''"
    then have "(of_char (digit_char d) :: nat) = of_char CHR ''-''" by simp
    with that show False by (simp add: digit_char_def)
  qed
  then have d: "CHR ''-'' \<noteq> digit_char (n mod 10)" "n < 10 \<Longrightarrow> CHR ''-'' \<noteq> digit_char n"
    by (metis mod_less_divisor zero_less_numeral, metis)
  show ?case
  proof (cases "n < 10")
    case True
    then show ?thesis using d by (subst dec_nat.simps) simp
  next
    case False
    then show ?thesis using d "1.IH" by (subst dec_nat.simps) simp
  qed
qed

lemma itoa_inj: "itoa i = itoa j \<longleftrightarrow> i = j"
proof
  assume h: "itoa i = itoa j"
  have neg: "dec_nat m \<noteq> CHR ''-'' # t" for m t
    using dec_nat_no_minus [of m] by auto
  show "i = j"
  proof (cases "i < 0")
    case True
    have "j < 0" using True h neg [of "nat j" "dec_nat (nat (- i))"]
      by (simp add: itoa_def split: if_splits)
    with True h have "nat (- i) = nat (- j)"
      by (auto simp: itoa_def dest: dec_nat_inj)
    with True \<open>j < 0\<close> show ?thesis by simp
  next
    case False
    have "\<not> j < 0" using False h neg [of "nat i" "dec_nat (nat (- j))"] by (simp add: itoa_def split: if_splits)
    with False h have "nat i = nat j"
      by (auto simp: itoa_def dest: dec_nat_inj)
    with False \<open>\<not> j < 0\<close> show ?thesis by simp
  qed
qed simp

end
