(* ===== verification/Json.thy ===== *)
theory Json
  imports GoStrings Complex_Main
begin

text \<open>
  JSON documents as trees: what \<open>encoding/json\<close> exchanges between Go values and bytes.
  A tree is also what a Go \<open>any\<close> of JSON shape holds; there a number is a
  \<open>float64\<close> (\<open>JNum\<close>) when it came from a decoder and may be a Go integer
  (\<open>JInt\<close>) when the program put it there. Strings are valid UTF-8.
\<close>

datatype json =
    JNull
  | JBool bool
  | JNum rat
  | JInt int
  | JStr string
  | JArr "json list"
  | JObj "(string \<times> json) list"

type_synonym jobj = "(string \<times> json) list"

text \<open>
  A JSON round trip of an \<open>any\<close>: the structure is unchanged and every number comes
  back as a \<open>float64\<close>. (The rounding of integers beyond \<open>2 ^ 53\<close> is not modelled.)
\<close>

fun jclone :: "json \<Rightarrow> json" where
  "jclone (JInt i) = JNum (of_int i)"
| "jclone (JArr xs) = JArr (map jclone xs)"
| "jclone (JObj m) = JObj (map (\<lambda>(k, v). (k, jclone v)) m)"
| "jclone v = v"

definition jclone_obj :: "jobj \<Rightarrow> jobj" where
  "jclone_obj m = map (\<lambda>(k, v). (k, jclone v)) m"

text \<open>A \<open>map[string]any\<close> field tagged \<open>omitempty\<close>: an empty map comes back nil.\<close>

definition jclone_omitempty :: "jobj option \<Rightarrow> jobj option" where
  "jclone_omitempty m =
     (case m of None \<Rightarrow> None | Some kv \<Rightarrow> if kv = [] then None else Some (jclone_obj kv))"

text \<open>A bare \<open>map[string]any\<close>: nil is \<open>null\<close> and stays nil.\<close>

definition jclone_map :: "jobj option \<Rightarrow> jobj option" where
  "jclone_map m = map_option jclone_obj m"

lemma jclone_idem [simp]: "jclone (jclone v) = jclone v"
  by (induction v rule: jclone.induct) (auto simp: case_prod_beta)

lemma jclone_obj_idem [simp]: "jclone_obj (jclone_obj m) = jclone_obj m"
  by (induction m) (auto simp: jclone_obj_def)

lemma jclone_obj_Nil_iff [simp]: "jclone_obj m = [] \<longleftrightarrow> m = []"
  by (simp add: jclone_obj_def)

lemma jclone_omitempty_idem [simp]: "jclone_omitempty (jclone_omitempty m) = jclone_omitempty m"
  by (auto simp: jclone_omitempty_def split: option.splits list.splits)

lemma jclone_map_idem [simp]: "jclone_map (jclone_map m) = jclone_map m"
  by (cases m) (auto simp: jclone_map_def)

lemma map_fst_jclone_obj [simp]: "map fst (jclone_obj m) = map fst m"
  by (induction m) (auto simp: jclone_obj_def)

lemma mget_jclone_obj [simp]: "mget (jclone_obj m) k = map_option jclone (mget m k)"
  by (induction m) (auto simp: jclone_obj_def mget_def)

section \<open>Decoding the fields of a struct\<close>

text \<open>
  \<open>json.Unmarshal\<close> into a struct walks the members in order; a member whose key is the
  field's name up to case is stored in the field, so that the last one wins. A value of
  the wrong type is an error (\<open>None\<close>). \<open>null\<close> leaves a string, a bool or a struct
  field as it was. This is exact for documents in which no object repeats a member, also in another case:
  where a member of an object type is repeated, the code merges the objects into the map or struct it has
  already, and here the later one replaces the earlier one. Keys are compared with the case folding of ASCII.
\<close>

fun jfield :: "string \<Rightarrow> (json \<Rightarrow> 'a option) \<Rightarrow> 'a \<Rightarrow> jobj \<Rightarrow> 'a option" where
  "jfield n d acc [] = Some acc"
| "jfield n d acc ((k, v) # r) =
     (if equal_fold k n
      then (if v = JNull then jfield n d acc r
            else (case d v of None \<Rightarrow> None | Some a \<Rightarrow> jfield n d a r))
      else jfield n d acc r)"

text \<open>A field that \<open>null\<close> sets to its nil value: a pointer, a map or a slice.\<close>

fun jfield_nil :: "string \<Rightarrow> (json \<Rightarrow> 'a option) \<Rightarrow> 'a option \<Rightarrow> jobj \<Rightarrow> 'a option option" where
  "jfield_nil n d acc [] = Some acc"
| "jfield_nil n d acc ((k, v) # r) =
     (if equal_fold k n
      then (if v = JNull then jfield_nil n d None r
            else (case d v of None \<Rightarrow> None | Some a \<Rightarrow> jfield_nil n d (Some a) r))
      else jfield_nil n d acc r)"

text \<open>A \<open>json.RawMessage\<close> field keeps the member, \<open>null\<close> included.\<close>

fun jraw :: "string \<Rightarrow> json option \<Rightarrow> jobj \<Rightarrow> json option" where
  "jraw n acc [] = acc"
| "jraw n acc ((k, v) # r) = (if equal_fold k n then jraw n (Some v) r else jraw n acc r)"

fun as_string :: "json \<Rightarrow> string option" where
  "as_string (JStr s) = Some s"
| "as_string _ = None"

fun as_bool :: "json \<Rightarrow> bool option" where
  "as_bool (JBool b) = Some b"
| "as_bool _ = None"

fun as_obj :: "json \<Rightarrow> jobj option" where
  "as_obj (JObj m) = Some m"
| "as_obj _ = None"

fun as_arr :: "json \<Rightarrow> json list option" where
  "as_arr (JArr xs) = Some xs"
| "as_arr _ = None"

text \<open>The members of a document decoded into a struct: \<open>null\<close> is a no-op.\<close>

fun as_struct :: "json \<Rightarrow> jobj option" where
  "as_struct (JObj m) = Some m"
| "as_struct JNull = Some []"
| "as_struct _ = None"

definition jstring :: "string \<Rightarrow> jobj \<Rightarrow> string option" where
  "jstring n m = jfield n as_string [] m"

text \<open>\<open>map[string]any\<close>: the decoder's \<open>any\<close> values.\<close>

definition as_map :: "json \<Rightarrow> jobj option" where
  "as_map v = map_option jclone_obj (as_obj v)"

section \<open>Encoding\<close>

text \<open>A field tagged \<open>omitempty\<close> is present only when its value is not empty.\<close>

definition omit_str :: "string \<Rightarrow> string \<Rightarrow> jobj" where
  "omit_str n s = (if s = [] then [] else [(n, JStr s)])"

definition omit_opt :: "string \<Rightarrow> json option \<Rightarrow> jobj" where
  "omit_opt n v = (case v of None \<Rightarrow> [] | Some j \<Rightarrow> [(n, j)])"

definition json_of_map :: "jobj option \<Rightarrow> json" where
  "json_of_map m = (case m of None \<Rightarrow> JNull | Some kv \<Rightarrow> JObj kv)"

lemma jfield_append:
  "jfield n d acc (xs @ ys) =
     (case jfield n d acc xs of None \<Rightarrow> None | Some a \<Rightarrow> jfield n d a ys)"
  by (induction n d acc xs rule: jfield.induct) (auto split: option.splits)

lemma jfield_nil_append:
  "jfield_nil n d acc (xs @ ys) =
     (case jfield_nil n d acc xs of None \<Rightarrow> None | Some a \<Rightarrow> jfield_nil n d a ys)"
  by (induction n d acc xs rule: jfield_nil.induct) (auto split: option.splits)

lemma jfield_omit_str_same [simp]:
  "jfield n as_string [] (omit_str n s) = Some s"
  by (simp add: omit_str_def)

lemma jfield_omit_str_other [simp]:
  "\<not> equal_fold k n \<Longrightarrow> jfield n d acc (omit_str k s) = Some acc"
  by (simp add: omit_str_def)

lemma jfield_nil_omit_str_other [simp]:
  "\<not> equal_fold k n \<Longrightarrow> jfield_nil n d acc (omit_str k s) = Some acc"
  by (simp add: omit_str_def)

lemma jfield_omit_opt_other [simp]:
  "\<not> equal_fold k n \<Longrightarrow> jfield n d acc (omit_opt k v) = Some acc"
  by (simp add: omit_opt_def split: option.splits)

lemma jfield_nil_omit_opt_other [simp]:
  "\<not> equal_fold k n \<Longrightarrow> jfield_nil n d acc (omit_opt k v) = Some acc"
  by (simp add: omit_opt_def split: option.splits)

end
