(* ===== verification/Content.thy ===== *)
theory Content
  imports Json
begin

text \<open>
  Content blocks (\<open>pkg/core/types/content.go\<close>): the block types, their encoding to JSON
  and the lenient decoder \<open>UnmarshalContentBlock\<close>. The interface \<open>ContentBlock\<close> is
  one datatype with a constructor per struct and \<open>BNil\<close> for a nil interface value;
  blocks are held by value, as every decoder of the gateway produces them.
\<close>

section \<open>The block types\<close>

text \<open>The struct behind \<open>ImageSource\<close> and \<open>DocumentSource\<close>, and the one without a
  URL behind \<open>AudioSource\<close> and \<open>VideoSource\<close>.\<close>

record media_source =
  ms_type :: string
  ms_media_type :: string
  ms_data :: string
  ms_url :: string
  ms_asset_id :: string

record av_source =
  av_type :: string
  av_media_type :: string
  av_data :: string
  av_asset_id :: string

record search_entry =
  se_type :: string
  se_url :: string
  se_title :: string
  se_encrypted_content :: string
  se_page_age :: string

datatype block =
    BNil
  | TextBlock (tb_type: string) (tb_text: string)
  | ImageBlock (ib_type: string) (ib_source: media_source)
  | AudioBlock (ab_type: string) (ab_source: av_source) (ab_transcript: "string option")
  | AudioSTTBlock (as_type: string) (as_source: av_source) (as_language: string)
  | VideoBlock (vb_type: string) (vb_source: av_source)
  | DocumentBlock (db_type: string) (db_source: media_source) (db_filename: string)
  | ToolResultBlock (tr_type: string) (tr_tool_use_id: string) (tr_content: "block list")
      (tr_is_error: bool)
  | ToolUseBlock (tu_type: string) (tu_id: string) (tu_name: string) (tu_input: "jobj option")
  | ThinkingBlock (th_type: string) (th_thinking: string) (th_summary: "string option")
  | ServerToolUseBlock (st_type: string) (st_id: string) (st_name: string)
      (st_input: "jobj option")
  | WebSearchToolResultBlock (ws_type: string) (ws_tool_use_id: string)
      (ws_content: "search_entry list option")
  | UnknownContentBlock (uk_type: string) (uk_raw: "json option")

section \<open>Encoding\<close>

definition json_of_media_source :: "media_source \<Rightarrow> json" where
  "json_of_media_source s =
     JObj ([(''type'', JStr (ms_type s))] @ omit_str ''media_type'' (ms_media_type s)
           @ omit_str ''data'' (ms_data s) @ omit_str ''url'' (ms_url s)
           @ omit_str ''asset_id'' (ms_asset_id s))"

definition json_of_av_source :: "av_source \<Rightarrow> json" where
  "json_of_av_source s =
     JObj ([(''type'', JStr (av_type s))] @ omit_str ''media_type'' (av_media_type s)
           @ omit_str ''data'' (av_data s) @ omit_str ''asset_id'' (av_asset_id s))"

definition json_of_search_entry :: "search_entry \<Rightarrow> json" where
  "json_of_search_entry e =
     JObj ([(''type'', JStr (se_type e)), (''url'', JStr (se_url e)), (''title'', JStr (se_title e))]
           @ omit_str ''encrypted_content'' (se_encrypted_content e)
           @ omit_str ''page_age'' (se_page_age e))"

text \<open>\<open>json.Marshal\<close> of a block; the \<open>ToolResultBlock\<close> case is its own
  \<open>MarshalJSON\<close>, which leaves out an empty content and a false \<open>is_error\<close>.\<close>

fun json_of_block :: "block \<Rightarrow> json" where
  "json_of_block BNil = JNull"
| "json_of_block (TextBlock ty t) = JObj [(''type'', JStr ty), (''text'', JStr t)]"
| "json_of_block (ImageBlock ty s) =
     JObj [(''type'', JStr ty), (''source'', json_of_media_source s)]"
| "json_of_block (AudioBlock ty s tr) =
     JObj ([(''type'', JStr ty), (''source'', json_of_av_source s)]
           @ omit_opt ''transcript'' (map_option JStr tr))"
| "json_of_block (AudioSTTBlock ty s l) =
     JObj ([(''type'', JStr ty), (''source'', json_of_av_source s)] @ omit_str ''language'' l)"
| "json_of_block (VideoBlock ty s) =
     JObj [(''type'', JStr ty), (''source'', json_of_av_source s)]"
| "json_of_block (DocumentBlock ty s f) =
     JObj ([(''type'', JStr ty), (''source'', json_of_media_source s)] @ omit_str ''filename'' f)"
| "json_of_block (ToolResultBlock ty i c e) =
     JObj ((if c = [] then [] else [(''content'', JArr (map json_of_block c))])
           @ (if e then [(''is_error'', JBool True)] else [])
           @ [(''tool_use_id'', JStr i), (''type'', JStr ty)])"
| "json_of_block (ToolUseBlock ty i n inp) =
     JObj [(''type'', JStr ty), (''id'', JStr i), (''name'', JStr n), (''input'', json_of_map inp)]"
| "json_of_block (ThinkingBlock ty t s) =
     JObj ([(''type'', JStr ty), (''thinking'', JStr t)] @ omit_opt ''summary'' (map_option JStr s))"
| "json_of_block (ServerToolUseBlock ty i n inp) =
     JObj [(''type'', JStr ty), (''id'', JStr i), (''name'', JStr n), (''input'', json_of_map inp)]"
| "json_of_block (WebSearchToolResultBlock ty i c) =
     JObj [(''type'', JStr ty), (''tool_use_id'', JStr i),
           (''content'', case c of None \<Rightarrow> JNull | Some es \<Rightarrow> JArr (map json_of_search_entry es))]"
| "json_of_block (UnknownContentBlock ty r) =
     (case r of Some j \<Rightarrow> j | None \<Rightarrow> JObj [(''type'', JStr ty)])"

definition json_of_blocks :: "block slice \<Rightarrow> json" where
  "json_of_blocks s = (case s of None \<Rightarrow> JNull | Some bs \<Rightarrow> JArr (map json_of_block bs))"

section \<open>Decoding\<close>

definition media_source_of_json :: "json \<Rightarrow> media_source option" where
  "media_source_of_json j = do {
     m \<leftarrow> as_struct j;
     t \<leftarrow> jstring ''type'' m;
     mt \<leftarrow> jstring ''media_type'' m;
     d \<leftarrow> jstring ''data'' m;
     u \<leftarrow> jstring ''url'' m;
     a \<leftarrow> jstring ''asset_id'' m;
     Some \<lparr>ms_type = t, ms_media_type = mt, ms_data = d, ms_url = u, ms_asset_id = a\<rparr>
   }"

definition av_source_of_json :: "json \<Rightarrow> av_source option" where
  "av_source_of_json j = do {
     m \<leftarrow> as_struct j;
     t \<leftarrow> jstring ''type'' m;
     mt \<leftarrow> jstring ''media_type'' m;
     d \<leftarrow> jstring ''data'' m;
     a \<leftarrow> jstring ''asset_id'' m;
     Some \<lparr>av_type = t, av_media_type = mt, av_data = d, av_asset_id = a\<rparr>
   }"

definition search_entry_of_json :: "json \<Rightarrow> search_entry option" where
  "search_entry_of_json j = do {
     m \<leftarrow> as_struct j;
     t \<leftarrow> jstring ''type'' m;
     u \<leftarrow> jstring ''url'' m;
     ti \<leftarrow> jstring ''title'' m;
     e \<leftarrow> jstring ''encrypted_content'' m;
     p \<leftarrow> jstring ''page_age'' m;
     Some \<lparr>se_type = t, se_url = u, se_title = ti, se_encrypted_content = e, se_page_age = p\<rparr>
   }"

definition empty_media :: media_source where
  "empty_media = \<lparr>ms_type = [], ms_media_type = [], ms_data = [], ms_url = [], ms_asset_id = []\<rparr>"

definition empty_av :: av_source where
  "empty_av = \<lparr>av_type = [], av_media_type = [], av_data = [], av_asset_id = []\<rparr>"

definition jarr_of :: "(json \<Rightarrow> 'a option) \<Rightarrow> json \<Rightarrow> 'a list option" where
  "jarr_of f j = Option.bind (as_arr j) (\<lambda>xs. those (map f xs))"

lemma jfield_nil_arr_mem:
  "jfield_nil n as_arr acc m = Some (Some xs) \<Longrightarrow>
   acc = Some xs \<or> (\<exists>k. (k, JArr xs) \<in> set m)"
proof (induction m arbitrary: acc)
  case (Cons p r)
  obtain k v where p: "p = (k, v)" by (cases p)
  show ?case
    using Cons.prems Cons.IH unfolding p
    by (cases v) (fastforce split: if_splits)+
qed simp

lemma size_json_member: "(k, JArr xs) \<in> set m \<Longrightarrow> x \<in> set xs \<Longrightarrow> size x < size (JObj m)"
proof -
  assume kx: "(k, JArr xs) \<in> set m" and "x \<in> set xs"
  then have "size x < size (JArr xs)"
    by (simp add: less_Suc_eq_le size_list_estimation')
  also have "size (JArr xs) \<le> size_prod (\<lambda>x. 0) size (k, JArr xs)" by simp
  also have "\<dots> \<le> size_list (size_prod (\<lambda>x. 0) size) m"
    using kx by (simp add: size_list_estimation' [of _ m])
  also have "\<dots> < size (JObj m)" by simp
  finally show ?thesis .
qed

lemma tool_result_content_smaller:
  assumes "as_struct j = Some m" "jfield_nil ''content'' as_arr None m = Some c"
    and "x \<in> set (elems c)"
  shows "size x < size j"
proof -
  from assms(3) obtain xs where c: "c = Some xs" by (cases c) auto
  with assms(2) obtain k where k: "(k, JArr xs) \<in> set m"
    using jfield_nil_arr_mem by blast
  with assms(1) have "j = JObj m" by (cases j) auto
  with size_json_member [OF k] assms(3) c show ?thesis by simp
qed

function UnmarshalContentBlock :: "json \<Rightarrow> block option" where
  "UnmarshalContentBlock j =
     (case as_struct j of None \<Rightarrow> None | Some m \<Rightarrow>
      (case jstring ''type'' m of None \<Rightarrow> None | Some ty \<Rightarrow>
        (if ty = ''text'' then map_option (TextBlock ty) (jstring ''text'' m)
         else if ty = ''image'' then
           map_option (ImageBlock ty) (jfield ''source'' media_source_of_json empty_media m)
         else if ty = ''audio'' then do {
           s \<leftarrow> jfield ''source'' av_source_of_json empty_av m;
           t \<leftarrow> jfield_nil ''transcript'' as_string None m;
           Some (AudioBlock ty s t) }
         else if ty = ''audio_stt'' then do {
           s \<leftarrow> jfield ''source'' av_source_of_json empty_av m;
           l \<leftarrow> jstring ''language'' m;
           Some (AudioSTTBlock ty s l) }
         else if ty = ''video'' then
           map_option (VideoBlock ty) (jfield ''source'' av_source_of_json empty_av m)
         else if ty = ''document'' then do {
           s \<leftarrow> jfield ''source'' media_source_of_json empty_media m;
           f \<leftarrow> jstring ''filename'' m;
           Some (DocumentBlock ty s f) }
         else if ty = ''tool_result'' then
           (case (jstring ''tool_use_id'' m, jfield_nil ''content'' as_arr None m,
                  jfield ''is_error'' as_bool False m) of
              (Some i, Some c, Some e) \<Rightarrow>
                (case those (map UnmarshalContentBlock (elems c)) of
                   None \<Rightarrow> None
                 | Some bs \<Rightarrow> Some (ToolResultBlock ty i bs e))
            | _ \<Rightarrow> None)
         else if ty = ''tool_use'' then do {
           i \<leftarrow> jstring ''id'' m;
           n \<leftarrow> jstring ''name'' m;
           inp \<leftarrow> jfield_nil ''input'' as_map None m;
           Some (ToolUseBlock ty i n inp) }
         else if ty = ''thinking'' then do {
           t \<leftarrow> jstring ''thinking'' m;
           s \<leftarrow> jfield_nil ''summary'' as_string None m;
           Some (ThinkingBlock ty t s) }
         else if ty = ''server_tool_use'' then do {
           i \<leftarrow> jstring ''id'' m;
           n \<leftarrow> jstring ''name'' m;
           inp \<leftarrow> jfield_nil ''input'' as_map None m;
           Some (ServerToolUseBlock ty i n inp) }
         else if ty = ''web_search_tool_result'' then do {
           i \<leftarrow> jstring ''tool_use_id'' m;
           c \<leftarrow> jfield_nil ''content'' (jarr_of search_entry_of_json) None m;
           Some (WebSearchToolResultBlock ty i c) }
         else Some (UnknownContentBlock ty (Some j)))))"
  by pat_completeness auto
termination
  by (relation "measure size") (auto dest: tool_result_content_smaller [OF _ sym])

declare UnmarshalContentBlock.simps [simp del]

definition UnmarshalContentBlocks :: "json \<Rightarrow> block list option" where
  "UnmarshalContentBlocks j =
     (case j of
        JNull \<Rightarrow> Some []
      | JArr xs \<Rightarrow> those (map UnmarshalContentBlock xs)
      | _ \<Rightarrow> None)"

section \<open>The codec\<close>

text \<open>
  A block is well tagged when its \<open>Type\<close> field is the tag of its struct, its inputs
  hold decoder numbers only, and its unknown payload is an object of an unknown type.
\<close>

definition known_tags :: "string list" where
  "known_tags = [''text'', ''image'', ''audio'', ''audio_stt'', ''video'', ''document'',
     ''tool_result'', ''tool_use'', ''thinking'', ''server_tool_use'', ''web_search_tool_result'']"

fun well_tagged :: "block \<Rightarrow> bool" where
  "well_tagged BNil = False"
| "well_tagged (TextBlock ty _) = (ty = ''text'')"
| "well_tagged (ImageBlock ty _) = (ty = ''image'')"
| "well_tagged (AudioBlock ty _ _) = (ty = ''audio'')"
| "well_tagged (AudioSTTBlock ty _ _) = (ty = ''audio_stt'')"
| "well_tagged (VideoBlock ty _) = (ty = ''video'')"
| "well_tagged (DocumentBlock ty _ _) = (ty = ''document'')"
| "well_tagged (ToolResultBlock ty _ c _) = (ty = ''tool_result'' \<and> list_all well_tagged c)"
| "well_tagged (ToolUseBlock ty _ _ i) = (ty = ''tool_use'' \<and> jclone_map i = i)"
| "well_tagged (ThinkingBlock ty _ _) = (ty = ''thinking'')"
| "well_tagged (ServerToolUseBlock ty _ _ i) = (ty = ''server_tool_use'' \<and> jclone_map i = i)"
| "well_tagged (WebSearchToolResultBlock ty _ _) = (ty = ''web_search_tool_result'')"
| "well_tagged (UnknownContentBlock ty r) =
     (ty \<notin> set known_tags \<and>
      (case r of None \<Rightarrow> False
       | Some j \<Rightarrow> (\<exists>m. as_struct j = Some m \<and> jstring ''type'' m = Some ty)))"

lemmas fold_eval = equal_fold_def to_lower_def lower_byte_def

lemma json_of_source_not_null [simp]:
  "json_of_media_source s \<noteq> JNull" "json_of_av_source a \<noteq> JNull"
  by (simp_all add: json_of_media_source_def json_of_av_source_def)

lemma media_source_roundtrip [simp]:
  "media_source_of_json (json_of_media_source s) = Some s"
  by (cases s)
    (simp add: media_source_of_json_def json_of_media_source_def jstring_def jfield_append
      fold_eval)

lemma av_source_roundtrip [simp]: "av_source_of_json (json_of_av_source s) = Some s"
  by (cases s)
    (simp add: av_source_of_json_def json_of_av_source_def jstring_def jfield_append fold_eval)

lemma search_entry_roundtrip [simp]: "search_entry_of_json (json_of_search_entry e) = Some e"
  by (cases e)
    (simp add: search_entry_of_json_def json_of_search_entry_def jstring_def jfield_append
      fold_eval)

lemma those_map_inverse:
  "(\<And>x. x \<in> set xs \<Longrightarrow> f (g x) = Some x) \<Longrightarrow> those (map f (map g xs)) = Some xs"
  by (induction xs) auto

lemma those_map_Some: "those (map Some xs) = Some xs"
  by (induction xs) auto

lemma jarr_of_roundtrip:
  "(\<And>x. x \<in> set xs \<Longrightarrow> f (g x) = Some x) \<Longrightarrow> jarr_of f (JArr (map g xs)) = Some xs"
  unfolding jarr_of_def by (simp add: those_map_inverse del: map_map)

lemma known_tags_simp: "ty \<notin> set known_tags \<Longrightarrow>
  ty \<noteq> ''text'' \<and> ty \<noteq> ''image'' \<and> ty \<noteq> ''audio'' \<and> ty \<noteq> ''audio_stt'' \<and> ty \<noteq> ''video'' \<and>
  ty \<noteq> ''document'' \<and> ty \<noteq> ''tool_result'' \<and> ty \<noteq> ''tool_use'' \<and> ty \<noteq> ''thinking'' \<and>
  ty \<noteq> ''server_tool_use'' \<and> ty \<noteq> ''web_search_tool_result''"
  by (simp add: known_tags_def)

lemmas decode_unfold =
  UnmarshalContentBlock.simps [of "JObj m" for m] jstring_def jfield_append jfield_nil_append
  fold_eval

lemma block_roundtrip: "well_tagged b \<Longrightarrow> UnmarshalContentBlock (json_of_block b) = Some b"
proof (induction b)
  case BNil
  then show ?case by simp
next
  case (ToolResultBlock ty i c e)
  then have "those (map UnmarshalContentBlock (map json_of_block c)) = Some c"
    by (intro those_map_inverse) (auto simp: list_all_iff)
  then show ?case
    using ToolResultBlock.prems by (simp add: decode_unfold)
next
  case (ToolUseBlock ty i n inp)
  then show ?case
    by (cases inp) (simp_all add: decode_unfold json_of_map_def as_map_def jclone_map_def)
next
  case (ServerToolUseBlock ty i n inp)
  then show ?case
    by (cases inp) (simp_all add: decode_unfold json_of_map_def as_map_def jclone_map_def)
next
  case (AudioBlock ty s tr)
  then show ?case by (cases tr) (simp_all add: decode_unfold omit_opt_def)
next
  case (ThinkingBlock ty t su)
  then show ?case by (cases su) (simp_all add: decode_unfold omit_opt_def)
next
  case (WebSearchToolResultBlock ty i c)
  then show ?case
    by (cases c) (simp_all add: decode_unfold jarr_of_roundtrip)
next
  case (UnknownContentBlock ty r)
  then show ?case
    by (cases r)
      (auto simp: UnmarshalContentBlock.simps dest!: known_tags_simp)
qed (simp_all add: decode_unfold)

lemma blocks_roundtrip:
  "list_all well_tagged bs \<Longrightarrow> UnmarshalContentBlocks (json_of_blocks (Some bs)) = Some bs"
  unfolding UnmarshalContentBlocks_def json_of_blocks_def
  by (simp del: map_map, intro those_map_inverse) (auto simp: list_all_iff block_roundtrip)

section \<open>What a decoder yields\<close>

lemma jfield_nil_value:
  "jfield_nil n d acc m = Some r \<Longrightarrow> P None \<Longrightarrow> P acc \<Longrightarrow>
   (\<And>v a. d v = Some a \<Longrightarrow> P (Some a)) \<Longrightarrow> P r"
proof (induction n d acc m rule: jfield_nil.induct)
  case (2 n d acc k v r')
  then show ?case by (auto split: if_splits option.splits)
qed simp

lemma decoded_input_normal:
  "jfield_nil n as_map None m = Some inp \<Longrightarrow> jclone_map inp = inp"
  by (erule jfield_nil_value) (auto simp: as_map_def jclone_map_def)

lemma those_map_member:
  "those (map f xs) = Some ys \<Longrightarrow> y \<in> set ys \<Longrightarrow> \<exists>x \<in> set xs. f x = Some y"
  by (induction xs arbitrary: ys) (auto split: option.splits)

lemma decoded_well_tagged: "UnmarshalContentBlock j = Some b \<Longrightarrow> well_tagged b"
proof (induction j arbitrary: b rule: UnmarshalContentBlock.induct)
  case (1 j)
  obtain m where m: "as_struct j = Some m"
    using "1.prems" by (subst (asm) UnmarshalContentBlock.simps) (auto split: option.splits)
  obtain ty where ty: "jstring ''type'' m = Some ty"
    using "1.prems" m by (subst (asm) UnmarshalContentBlock.simps) (auto split: option.splits)
  show ?case
  proof (cases "ty = ''tool_result''")
    case True
    obtain i c e bs where c: "jfield_nil ''content'' as_arr None m = Some c"
        "those (map UnmarshalContentBlock (elems c)) = Some bs" and b: "b = ToolResultBlock ty i bs e"
        and i: "jstring ''tool_use_id'' m = Some i" "jfield ''is_error'' as_bool False m = Some e"
      using "1.prems" m ty True
      by (subst (asm) UnmarshalContentBlock.simps) (auto split: option.splits)
    have "well_tagged y" if y: "y \<in> set bs" for y
    proof -
      obtain x where "x \<in> set (elems c)" "UnmarshalContentBlock x = Some y"
        using those_map_member [OF c(2) y] by blast
      then show ?thesis using "1.IH" m ty True c(1) i by auto
    qed
    then show ?thesis using b True by (simp add: list_all_iff)
  next
    case False
    then show ?thesis
      using "1.prems" m ty
      by (subst (asm) UnmarshalContentBlock.simps)
        (auto simp: bind_eq_Some_conv known_tags_def decoded_input_normal split: option.splits if_splits)
  qed
qed

lemma decoded_blocks_well_tagged:
  "UnmarshalContentBlocks j = Some bs \<Longrightarrow> list_all well_tagged bs"
  unfolding UnmarshalContentBlocks_def
  by (cases j) (auto simp: list_all_iff dest!: those_map_member intro: decoded_well_tagged)

text \<open>C27. Content blocks survive the wire: decoding the JSON of a list of blocks gives the
  blocks back, tool results with their nested blocks included, when every block carries the
  tag of its type.\<close>

theorem content_blocks_roundtrip:
  assumes "list_all well_tagged bs"
  shows "UnmarshalContentBlocks (json_of_blocks (Some bs)) = Some bs"
  using assms by (rule blocks_roundtrip)


text \<open>Decoding is canonical: whatever a client sends, once decoded it is well tagged, and
  encoding and decoding it again does not change it any more.\<close>

theorem decoded_blocks_canonical:
  assumes "UnmarshalContentBlocks j = Some bs"
  shows "list_all well_tagged bs \<and> UnmarshalContentBlocks (json_of_blocks (Some bs)) = Some bs"
  using decoded_blocks_well_tagged [OF assms] by (simp add: blocks_roundtrip)

end
