(* ===== verification/Messages.thy ===== *)
theory Messages
  imports Content
begin

text \<open>
  Messages, token usage and model responses (\<open>pkg/core/types/message.go\<close>,
  \<open>usage.go\<close>, \<open>response.go\<close>): the flexible \<open>Content any\<close> of a message with its
  JSON codec, the addition of usages, and the tool calls of a response.
\<close>

section \<open>Messages\<close>

text \<open>What the \<open>any\<close> of a message content or of a system prompt can hold: nil, a
  string, one block, a slice of blocks, or another value of JSON shape.\<close>

datatype content =
    CNil
  | CStr string
  | CBlock block
  | CBlocks "block slice"
  | CJson json

record message =
  msg_Role :: string
  msg_Content :: content

definition text_block :: "string \<Rightarrow> block" where
  "text_block s = TextBlock ''text'' s"

fun ContentBlocks :: "message \<Rightarrow> block slice" where
  "ContentBlocks m =
     (case msg_Content m of
        CStr s \<Rightarrow> Some [text_block s]
      | CBlock b \<Rightarrow> Some [b]
      | CBlocks s \<Rightarrow> s
      | _ \<Rightarrow> None)"

fun block_text :: "block \<Rightarrow> string" where
  "block_text (TextBlock _ t) = t"
| "block_text _ = []"

fun message_TextContent :: "message \<Rightarrow> string" where
  "message_TextContent m =
     (case msg_Content m of
        CStr s \<Rightarrow> s
      | CBlock b \<Rightarrow> block_text b
      | CBlocks s \<Rightarrow> concat (map block_text (elems s))
      | _ \<Rightarrow> [])"

text \<open>\<open>Message.MarshalJSON\<close>: a single block is wrapped in an array, and of a generic
  slice only its content blocks are kept, of which a decoded JSON array has none.\<close>

fun json_of_content :: "content \<Rightarrow> json" where
  "json_of_content CNil = JNull"
| "json_of_content (CStr s) = JStr s"
| "json_of_content (CBlock b) = JArr [json_of_block b]"
| "json_of_content (CBlocks s) = json_of_blocks s"
| "json_of_content (CJson (JArr _)) = JArr []"
| "json_of_content (CJson v) = v"

definition message_MarshalJSON :: "message \<Rightarrow> json" where
  "message_MarshalJSON m =
     JObj [(''role'', JStr (msg_Role m)), (''content'', json_of_content (msg_Content m))]"

text \<open>\<open>Message.UnmarshalJSON\<close>: a missing content is an error, \<open>null\<close> decodes as the
  empty string.\<close>

definition message_UnmarshalJSON :: "json \<Rightarrow> message option" where
  "message_UnmarshalJSON j =
     (case as_struct j of None \<Rightarrow> None | Some m \<Rightarrow>
      (case jstring ''role'' m of None \<Rightarrow> None | Some r \<Rightarrow>
       (case jraw ''content'' None m of
          None \<Rightarrow> None
        | Some (JStr s) \<Rightarrow> Some \<lparr>msg_Role = r, msg_Content = CStr s\<rparr>
        | Some JNull \<Rightarrow> Some \<lparr>msg_Role = r, msg_Content = CStr []\<rparr>
        | Some v \<Rightarrow>
            map_option (\<lambda>bs. \<lparr>msg_Role = r, msg_Content = CBlocks (Some bs)\<rparr>)
              (UnmarshalContentBlocks v))))"

definition well_formed_content :: "content \<Rightarrow> bool" where
  "well_formed_content c =
     (case c of
        CStr _ \<Rightarrow> True
      | CBlocks (Some bs) \<Rightarrow> list_all well_tagged bs
      | _ \<Rightarrow> False)"

definition well_formed_message :: "message \<Rightarrow> bool" where
  "well_formed_message m = well_formed_content (msg_Content m)"

lemma message_roundtrip_aux:
  assumes "well_formed_message m"
  shows "message_UnmarshalJSON (message_MarshalJSON m) = Some m"
proof -
  obtain r c where m: "m = \<lparr>msg_Role = r, msg_Content = c\<rparr>" by (cases m)
  consider s where "c = CStr s" | bs where "c = CBlocks (Some bs)" "list_all well_tagged bs"
    using assms m by (cases c) (auto simp: well_formed_message_def well_formed_content_def
        split: option.splits)
  then show ?thesis
  proof cases
    case 1
    then show ?thesis
      by (simp add: m message_MarshalJSON_def message_UnmarshalJSON_def jstring_def fold_eval)
  next
    case 2
    then show ?thesis
      using blocks_roundtrip [of bs]
      by (simp add: m message_MarshalJSON_def message_UnmarshalJSON_def jstring_def fold_eval
          json_of_blocks_def)
  qed
qed

section \<open>Usage\<close>

text \<open>Costs are exact rationals: the rounding of \<open>float64\<close> is not modelled.\<close>

record usage =
  InputTokens :: int
  OutputTokens :: int
  TotalTokens :: int
  CacheReadTokens :: "int option"
  CacheWriteTokens :: "int option"
  CostUSD :: "rat option"

definition zero_usage :: usage where
  "zero_usage = \<lparr>InputTokens = 0, OutputTokens = 0, TotalTokens = 0, CacheReadTokens = None,
     CacheWriteTokens = None, CostUSD = None\<rparr>"

definition effective_total :: "usage \<Rightarrow> int" where
  "effective_total u =
     (if TotalTokens u = 0 \<and> (InputTokens u > 0 \<or> OutputTokens u > 0)
      then InputTokens u + OutputTokens u else TotalTokens u)"

definition add_opt :: "'a::monoid_add option \<Rightarrow> 'a option \<Rightarrow> 'a option" where
  "add_opt a b =
     (if a \<noteq> None \<or> b \<noteq> None
      then Some ((case a of None \<Rightarrow> 0 | Some x \<Rightarrow> x) + (case b of None \<Rightarrow> 0 | Some y \<Rightarrow> y))
      else None)"

definition usage_Add :: "usage \<Rightarrow> usage \<Rightarrow> usage" where
  "usage_Add u v =
     \<lparr>InputTokens = InputTokens u + InputTokens v,
      OutputTokens = OutputTokens u + OutputTokens v,
      TotalTokens = effective_total u + effective_total v,
      CacheReadTokens = add_opt (CacheReadTokens u) (CacheReadTokens v),
      CacheWriteTokens = add_opt (CacheWriteTokens u) (CacheWriteTokens v),
      CostUSD = add_opt (CostUSD u) (CostUSD v)\<rparr>"

definition usage_nonneg :: "usage \<Rightarrow> bool" where
  "usage_nonneg u = (0 \<le> InputTokens u \<and> 0 \<le> OutputTokens u \<and> 0 \<le> TotalTokens u)"

lemma effective_total_nonneg: "usage_nonneg u \<Longrightarrow> 0 \<le> effective_total u"
  by (auto simp: usage_nonneg_def effective_total_def)

lemma effective_total_Add:
  assumes "usage_nonneg u" "usage_nonneg v"
  shows "effective_total (usage_Add u v) = effective_total u + effective_total v"
  using assms by (auto simp: usage_nonneg_def effective_total_def usage_Add_def)

lemma usage_nonneg_Add: "usage_nonneg u \<Longrightarrow> usage_nonneg v \<Longrightarrow> usage_nonneg (usage_Add u v)"
  using effective_total_nonneg [of u] effective_total_nonneg [of v]
  by (simp add: usage_nonneg_def usage_Add_def)

lemma usage_nonneg_zero [simp]: "usage_nonneg zero_usage"
  by (simp add: usage_nonneg_def zero_usage_def)

lemma TotalTokens_Add [simp]:
  "TotalTokens (usage_Add u v) = effective_total u + effective_total v"
  by (simp add: usage_Add_def)

lemma add_opt_comm: "add_opt a b = add_opt (b :: 'a::comm_monoid_add option) a"
  by (cases a; cases b) (simp_all add: add_opt_def add.commute)

lemma usage_Add_comm: "usage_Add u v = usage_Add v u"
  by (simp add: usage_Add_def add_opt_comm add.commute)

section \<open>Responses\<close>

type_synonym stop_reason = string

definition StopReasonToolUse :: stop_reason where
  "StopReasonToolUse = ''tool_use''"

record message_response =
  resp_ID :: string
  resp_Type :: string
  resp_Role :: string
  resp_Model :: string
  resp_Content :: "block list"
  resp_StopReason :: stop_reason
  resp_StopSequence :: "string option"
  resp_Usage :: usage
  resp_Metadata :: "jobj option"

definition empty_response :: message_response where
  "empty_response = \<lparr>resp_ID = [], resp_Type = [], resp_Role = [], resp_Model = [],
     resp_Content = [], resp_StopReason = [], resp_StopSequence = None,
     resp_Usage = zero_usage, resp_Metadata = None\<rparr>"

text \<open>The struct \<open>ToolUseBlock\<close> outside the interface.\<close>

record tool_use =
  use_ID :: string
  use_Name :: string
  use_Input :: "jobj option"

fun as_tool_use :: "block \<Rightarrow> tool_use option" where
  "as_tool_use (ToolUseBlock _ i n inp) = Some \<lparr>use_ID = i, use_Name = n, use_Input = inp\<rparr>"
| "as_tool_use _ = None"

definition ToolUses :: "message_response \<Rightarrow> tool_use list" where
  "ToolUses r = List.map_filter as_tool_use (resp_Content r)"

definition HasToolUse :: "message_response \<Rightarrow> bool" where
  "HasToolUse r = list_ex (\<lambda>b. case b of ToolUseBlock _ _ _ _ \<Rightarrow> True | _ \<Rightarrow> False) (resp_Content r)"

definition response_TextContent :: "message_response \<Rightarrow> string" where
  "response_TextContent r = concat (map block_text (resp_Content r))"

lemma HasToolUse_iff: "HasToolUse r \<longleftrightarrow> ToolUses r \<noteq> []"
proof -
  have "list_ex (\<lambda>b. case b of ToolUseBlock _ _ _ _ \<Rightarrow> True | _ \<Rightarrow> False) bs \<longleftrightarrow>
        List.map_filter as_tool_use bs \<noteq> []" for bs
  proof (induction bs)
    case (Cons b bs)
    then show ?case by (cases b) (auto simp: map_filter_simps)
  qed (simp add: map_filter_simps)
  then show ?thesis by (simp add: HasToolUse_def ToolUses_def)
qed

text \<open>A message survives the wire, its content as a text or as blocks.\<close>

theorem message_roundtrip:
  assumes "well_formed_message m"
  shows "message_UnmarshalJSON (message_MarshalJSON m) = Some m"
  using assms by (rule message_roundtrip_aux)

lemma foldl_usage_total:
  "usage_nonneg u \<Longrightarrow> list_all usage_nonneg us \<Longrightarrow>
   effective_total (foldl usage_Add u us) = effective_total u + (\<Sum>v\<leftarrow>us. effective_total v)"
  by (induction us arbitrary: u) (simp_all add: usage_nonneg_Add effective_total_Add)

text \<open>Adding up the usage of the turns of a run adds up their total token counts.\<close>

theorem usage_sums_totals:
  assumes "list_all usage_nonneg us"
  shows "effective_total (foldl usage_Add zero_usage us) = (\<Sum>u\<leftarrow>us. effective_total u)"
  using foldl_usage_total [OF usage_nonneg_zero assms]
  by (simp add: effective_total_def zero_usage_def)

end
