(* ===== verification/ChainErrors.thy ===== *)
theory ChainErrors
  imports Json
begin

text \<open>
  Errors as values. The canonical error of the chain APIs
  (\<open>pkg/core/types/canonical_errors.go\<close>), the API error of \<open>pkg/core/errors.go\<close> and
  the Go \<open>error\<close> interface over them, with \<open>errors.Is\<close> through \<open>%w\<close> wrapping.
\<close>

section \<open>Canonical errors\<close>

text \<open>The string type \<open>ErrorCode\<close>: one constructor per constant, and any other string.\<close>

datatype ErrorCode =
    ErrorCodeAuthCredentialScopeDenied
  | ErrorCodeAuthResumeTokenInvalid
  | ErrorCodeAuthActorScopeDenied
  | ErrorCodeAuthChainAccessDenied
  | ErrorCodeChainAttachConflict
  | ErrorCodeChainReplayUnavailable
  | ErrorCodeChainExpired
  | ErrorCodeToolTimeout
  | ErrorCodeToolResultConflict
  | ErrorCodeTransportClientToolsRequireWS
  | ErrorCodeTransportBackpressureExceeded
  | ErrorCodeProtocolUnsupportedCapability
  | ErrorCodeProtocolUnknownFrame
  | ErrorCodeProtocolUnknownEvent
  | ErrorCodeQuotaRateLimited
  | ErrorCodeQuotaLimitExceeded
  | ErrorCodeAssetPayloadTooLarge
  | ErrorCodeOther string

fun error_code :: "ErrorCode \<Rightarrow> string" where
  "error_code ErrorCodeAuthCredentialScopeDenied = ''auth.credential_scope_denied''"
| "error_code ErrorCodeAuthResumeTokenInvalid = ''auth.resume_token_invalid''"
| "error_code ErrorCodeAuthActorScopeDenied = ''auth.actor_scope_denied''"
| "error_code ErrorCodeAuthChainAccessDenied = ''auth.chain_access_denied''"
| "error_code ErrorCodeChainAttachConflict = ''chain.attach_conflict''"
| "error_code ErrorCodeChainReplayUnavailable = ''chain.replay_unavailable''"
| "error_code ErrorCodeChainExpired = ''chain.expired''"
| "error_code ErrorCodeToolTimeout = ''tool.timeout''"
| "error_code ErrorCodeToolResultConflict = ''tool.result_conflict''"
| "error_code ErrorCodeTransportClientToolsRequireWS = ''transport.client_tools_require_websocket''"
| "error_code ErrorCodeTransportBackpressureExceeded = ''transport.backpressure_exceeded''"
| "error_code ErrorCodeProtocolUnsupportedCapability = ''protocol.unsupported_capability''"
| "error_code ErrorCodeProtocolUnknownFrame = ''protocol.unknown_frame_type''"
| "error_code ErrorCodeProtocolUnknownEvent = ''protocol.unknown_event_type''"
| "error_code ErrorCodeQuotaRateLimited = ''quota.rate_limited''"
| "error_code ErrorCodeQuotaLimitExceeded = ''quota.limit_exceeded''"
| "error_code ErrorCodeAssetPayloadTooLarge = ''asset.payload_too_large''"
| "error_code (ErrorCodeOther s) = s"

record canonical_error =
  err_Code :: ErrorCode
  err_Message :: string
  err_Retryable :: bool
  err_Fatal :: bool
  err_SuggestedAction :: string
  err_ChainID :: string
  err_RunID :: string
  err_ExecutionID :: string
  err_RetryAfter :: "int option"
  err_Details :: "jobj option"

definition NewCanonicalError :: "ErrorCode \<Rightarrow> string \<Rightarrow> canonical_error" where
  "NewCanonicalError c msg =
     \<lparr>err_Code = c, err_Message = msg, err_Retryable = False, err_Fatal = False,
      err_SuggestedAction = [], err_ChainID = [], err_RunID = [], err_ExecutionID = [],
      err_RetryAfter = None, err_Details = None\<rparr>"

definition WithChain :: "string \<Rightarrow> canonical_error \<Rightarrow> canonical_error" where
  "WithChain chainID e = e\<lparr>err_ChainID := chainID\<rparr>"

definition WithRun :: "string \<Rightarrow> canonical_error \<Rightarrow> canonical_error" where
  "WithRun runID e = e\<lparr>err_RunID := runID\<rparr>"

definition WithExecution :: "string \<Rightarrow> canonical_error \<Rightarrow> canonical_error" where
  "WithExecution executionID e = e\<lparr>err_ExecutionID := executionID\<rparr>"

definition canonical_Error :: "canonical_error \<Rightarrow> string" where
  "canonical_Error e =
     (if error_code (err_Code e) = [] then err_Message e
      else error_code (err_Code e) @ '': '' @ err_Message e)"

fun HTTPStatusForCanonicalError :: "ErrorCode \<Rightarrow> int" where
  "HTTPStatusForCanonicalError ErrorCodeAuthCredentialScopeDenied = 403"
| "HTTPStatusForCanonicalError ErrorCodeAuthResumeTokenInvalid = 401"
| "HTTPStatusForCanonicalError ErrorCodeAuthActorScopeDenied = 403"
| "HTTPStatusForCanonicalError ErrorCodeAuthChainAccessDenied = 403"
| "HTTPStatusForCanonicalError ErrorCodeChainAttachConflict = 409"
| "HTTPStatusForCanonicalError ErrorCodeChainReplayUnavailable = 412"
| "HTTPStatusForCanonicalError ErrorCodeChainExpired = 410"
| "HTTPStatusForCanonicalError ErrorCodeToolTimeout = 504"
| "HTTPStatusForCanonicalError ErrorCodeToolResultConflict = 409"
| "HTTPStatusForCanonicalError ErrorCodeTransportClientToolsRequireWS = 422"
| "HTTPStatusForCanonicalError ErrorCodeProtocolUnsupportedCapability = 422"
| "HTTPStatusForCanonicalError ErrorCodeQuotaRateLimited = 429"
| "HTTPStatusForCanonicalError ErrorCodeQuotaLimitExceeded = 429"
| "HTTPStatusForCanonicalError ErrorCodeAssetPayloadTooLarge = 413"
| "HTTPStatusForCanonicalError _ = 400"

lemma err_Code_simps [simp]:
  "err_Code (NewCanonicalError c msg) = c"
  "err_Code (WithChain x e) = err_Code e"
  "err_Code (WithRun x e) = err_Code e"
  "err_Code (WithExecution x e) = err_Code e"
  by (simp_all add: NewCanonicalError_def WithChain_def WithRun_def WithExecution_def)

lemma err_ChainID_simps [simp]:
  "err_ChainID (WithChain x e) = x"
  "err_ChainID (WithRun x e) = err_ChainID e"
  "err_ChainID (WithExecution x e) = err_ChainID e"
  by (simp_all add: WithChain_def WithRun_def WithExecution_def)

section \<open>API errors\<close>

datatype ErrorType =
    ErrInvalidRequest | ErrAuthentication | ErrPermission | ErrNotFoundType | ErrRateLimit
  | ErrAPI | ErrOverloaded | ErrProvider

fun error_type :: "ErrorType \<Rightarrow> string" where
  "error_type ErrInvalidRequest = ''invalid_request_error''"
| "error_type ErrAuthentication = ''authentication_error''"
| "error_type ErrPermission = ''permission_error''"
| "error_type ErrNotFoundType = ''not_found_error''"
| "error_type ErrRateLimit = ''rate_limit_error''"
| "error_type ErrAPI = ''api_error''"
| "error_type ErrOverloaded = ''overloaded_error''"
| "error_type ErrProvider = ''provider_error''"

record compat_issue =
  issue_Severity :: string
  issue_Param :: string
  issue_Code :: string
  issue_Message :: string

record core_error =
  ce_Type :: ErrorType
  ce_Message :: string
  ce_Param :: string
  ce_Code :: string
  ce_RequestID :: string
  ce_ProviderError :: "json option"
  ce_RetryAfter :: "int option"
  ce_CompatIssues :: "compat_issue list"

definition new_core_error :: "ErrorType \<Rightarrow> string \<Rightarrow> core_error" where
  "new_core_error t msg =
     \<lparr>ce_Type = t, ce_Message = msg, ce_Param = [], ce_Code = [], ce_RequestID = [],
      ce_ProviderError = None, ce_RetryAfter = None, ce_CompatIssues = []\<rparr>"

definition NewInvalidRequestError :: "string \<Rightarrow> core_error" where
  "NewInvalidRequestError msg = new_core_error ErrInvalidRequest msg"

definition NewInvalidRequestErrorWithParam :: "string \<Rightarrow> string \<Rightarrow> core_error" where
  "NewInvalidRequestErrorWithParam msg param =
     (new_core_error ErrInvalidRequest msg)\<lparr>ce_Param := param\<rparr>"

definition NewRateLimitError :: "string \<Rightarrow> int \<Rightarrow> core_error" where
  "NewRateLimitError msg retryAfter =
     (new_core_error ErrRateLimit msg)\<lparr>ce_RetryAfter := Some retryAfter\<rparr>"

definition core_Error :: "core_error \<Rightarrow> string" where
  "core_Error e =
     (if ce_Code e \<noteq> []
      then error_type (ce_Type e) @ '': '' @ ce_Message e @ '' (code: '' @ ce_Code e @ '')''
      else error_type (ce_Type e) @ '': '' @ ce_Message e)"

definition IsRetryable :: "core_error \<Rightarrow> bool" where
  "IsRetryable e = (ce_Type e \<in> {ErrRateLimit, ErrOverloaded, ErrAPI})"

section \<open>The error interface\<close>

text \<open>
  \<open>ErrNotFound\<close> is the sentinel of the chain store, \<open>WrapErr s e\<close> the error of
  \<open>fmt.Errorf("s: %w", e)\<close>, \<open>PlainErr\<close> any other error with its text.
\<close>

datatype gerr =
    ErrNotFound
  | CtxCanceled
  | CtxDeadlineExceeded
  | IOEOF
  | CanonicalErr canonical_error
  | CoreErr core_error
  | PlainErr string
  | WrapErr string gerr

fun errors_Is :: "gerr \<Rightarrow> gerr \<Rightarrow> bool" where
  "errors_Is (WrapErr s e) t = (WrapErr s e = t \<or> errors_Is e t)"
| "errors_Is e t = (e = t)"

fun error_text :: "gerr \<Rightarrow> string" where
  "error_text ErrNotFound = ''chain store: not found''"
| "error_text CtxCanceled = ''context canceled''"
| "error_text CtxDeadlineExceeded = ''context deadline exceeded''"
| "error_text IOEOF = ''EOF''"
| "error_text (CanonicalErr e) = canonical_Error e"
| "error_text (CoreErr e) = core_Error e"
| "error_text (PlainErr s) = s"
| "error_text (WrapErr s e) = s @ '': '' @ error_text e"

definition canonical :: "ErrorCode \<Rightarrow> string \<Rightarrow> gerr" where
  "canonical c msg = CanonicalErr (NewCanonicalError c msg)"

text \<open>Reading the canonical code of an error.\<close>

fun code_of :: "gerr \<Rightarrow> ErrorCode option" where
  "code_of (CanonicalErr e) = Some (err_Code e)"
| "code_of _ = None"

lemma code_of_canonical [simp]: "code_of (canonical c msg) = Some c"
  by (simp add: canonical_def)

lemma errors_Is_refl [simp]: "errors_Is e e"
  by (cases e) simp_all

end
