(* ===== verification/ChainTypes.thy ===== *)
theory ChainTypes
  imports Messages ChainErrors
begin

text \<open>
  The data of the chain APIs (\<open>pkg/core/types/chain_types.go\<close>, \<open>tool.go\<close>,
  \<open>request.go\<close>, \<open>voice.go\<close>) and the persistent records of the store
  (\<open>pkg/gateway/chains/store.go\<close>). Times are nanoseconds since the zero \<open>time.Time\<close>,
  which is 0; floating-point settings are exact rationals. A slice whose nil and empty
  values the code tells apart is an \<open>option\<close>.
\<close>

type_synonym time = int

section \<open>Enumerations\<close>

datatype ReplayStatus = ReplayStatusFull | ReplayStatusPartial | ReplayStatusNone

datatype AttachmentMode =
    AttachmentModeTurnWS | AttachmentModeStatefulHTTP | AttachmentModeStatefulSSE
  | AttachmentModeLiveWS

fun attachment_mode :: "AttachmentMode \<Rightarrow> string" where
  "attachment_mode AttachmentModeTurnWS = ''turn_ws''"
| "attachment_mode AttachmentModeStatefulHTTP = ''stateful_http''"
| "attachment_mode AttachmentModeStatefulSSE = ''stateful_sse''"
| "attachment_mode AttachmentModeLiveWS = ''live_ws''"

datatype ChainStatus =
    ChainStatusIdle | ChainStatusRunning | ChainStatusWaitingForClientTool | ChainStatusClosed
  | ChainStatusExpired

datatype RunStatus =
    RunStatusQueued | RunStatusRunning | RunStatusWaitingForClientTool | RunStatusCompleted
  | RunStatusCancelled | RunStatusFailed | RunStatusTimedOut

datatype ToolEffectClass =
    ToolEffectClassReadOnly | ToolEffectClassIdempotentWrite | ToolEffectClassNonIdempotentWrite
  | ToolEffectClassUnknown

text \<open>\<open>RunStopReason\<close>; \<open>RunStopReasonNone\<close> is the empty string.\<close>

datatype RunStopReason =
    RunStopReasonNone | RunStopReasonEndTurn | RunStopReasonMaxToolCalls | RunStopReasonMaxTurns
  | RunStopReasonMaxTokens | RunStopReasonTimeout | RunStopReasonCancelled | RunStopReasonError
  | RunStopReasonCustom

fun run_stop_reason :: "RunStopReason \<Rightarrow> string" where
  "run_stop_reason RunStopReasonNone = ''''"
| "run_stop_reason RunStopReasonEndTurn = ''end_turn''"
| "run_stop_reason RunStopReasonMaxToolCalls = ''max_tool_calls''"
| "run_stop_reason RunStopReasonMaxTurns = ''max_turns''"
| "run_stop_reason RunStopReasonMaxTokens = ''max_tokens''"
| "run_stop_reason RunStopReasonTimeout = ''timeout''"
| "run_stop_reason RunStopReasonCancelled = ''cancelled''"
| "run_stop_reason RunStopReasonError = ''error''"
| "run_stop_reason RunStopReasonCustom = ''custom''"

section \<open>Tools and request configuration\<close>

datatype json_schema =
  JSONSchema (js_Type: string) (js_Properties: "(string \<times> json_schema) list option")
    (js_Required: "string list option") (js_Description: string)
    (js_Enum: "string list option") (js_Items: "json_schema option")
    (js_AdditionalProperties: "bool option")

record tool =
  tool_Type :: string
  tool_Name :: string
  tool_Description :: string
  tool_InputSchema :: "json_schema option"
  tool_Config :: "json option"

definition ToolTypeFunction :: string where
  "ToolTypeFunction = ''function''"

definition ToolTypeWebSearch :: string where
  "ToolTypeWebSearch = ''web_search''"

definition ToolTypeWebFetch :: string where
  "ToolTypeWebFetch = ''web_fetch''"

definition ToolTypeCodeExecution :: string where
  "ToolTypeCodeExecution = ''code_execution''"

definition ToolTypeFileSearch :: string where
  "ToolTypeFileSearch = ''file_search''"

definition ToolTypeComputerUse :: string where
  "ToolTypeComputerUse = ''computer_use''"

definition ToolTypeTextEditor :: string where
  "ToolTypeTextEditor = ''text_editor''"

record tool_choice =
  tc_Type :: string
  tc_Name :: string

record output_format =
  of_Type :: string
  of_JSONSchema :: "json_schema option"

record output_config =
  oc_Modalities :: "string slice"
  oc_Image :: "string option"

record voice_output =
  vo_Voice :: string
  vo_Speed :: rat
  vo_Volume :: rat
  vo_Emotion :: string
  vo_Format :: string
  vo_SampleRate :: int

record voice_config =
  vc_Output :: "voice_output option"

record chain_defaults =
  cd_Model :: string
  cd_System :: content
  cd_Tools :: "tool slice"
  cd_GatewayTools :: "string slice"
  cd_GatewayToolConfig :: "jobj option"
  cd_ToolChoice :: "tool_choice option"
  cd_MaxTokens :: int
  cd_Temperature :: "rat option"
  cd_TopP :: "rat option"
  cd_TopK :: "int option"
  cd_StopSequences :: "string slice"
  cd_STTModel :: string
  cd_TTSModel :: string
  cd_OutputFormat :: "output_format option"
  cd_Output :: "output_config option"
  cd_Voice :: "voice_config option"
  cd_Extensions :: "jobj option"
  cd_Metadata :: "jobj option"

definition zero_defaults :: chain_defaults where
  "zero_defaults = \<lparr>cd_Model = [], cd_System = CNil, cd_Tools = None, cd_GatewayTools = None,
     cd_GatewayToolConfig = None, cd_ToolChoice = None, cd_MaxTokens = 0, cd_Temperature = None,
     cd_TopP = None, cd_TopK = None, cd_StopSequences = None, cd_STTModel = [], cd_TTSModel = [],
     cd_OutputFormat = None, cd_Output = None, cd_Voice = None, cd_Extensions = None,
     cd_Metadata = None\<rparr>"

section \<open>Session, chain and run records\<close>

record session_record =
  sess_ID :: string
  sess_OrgID :: string
  sess_ExternalSessionID :: string
  sess_CreatedByPrincipalID :: string
  sess_CreatedByPrincipalType :: string
  sess_ActorID :: string
  sess_Metadata :: "jobj option"
  sess_CreatedAt :: time
  sess_UpdatedAt :: time
  sess_LatestChainID :: string

record active_attachment =
  aa_Mode :: AttachmentMode
  aa_StartedAt :: time

record chain_record =
  ch_ID :: string
  ch_OrgID :: string
  ch_SessionID :: string
  ch_ExternalSessionID :: string
  ch_CreatedByPrincipalID :: string
  ch_CreatedByPrincipalType :: string
  ch_ActorID :: string
  ch_Status :: ChainStatus
  ch_ChainVersion :: int
  ch_ParentChainID :: string
  ch_ForkedFromRunID :: string
  ch_MessageCountCached :: int
  ch_TokenEstimateCached :: int
  ch_Defaults :: chain_defaults
  ch_Metadata :: "jobj option"
  ch_ActiveAttachment :: "active_attachment option"
  ch_CreatedAt :: time
  ch_UpdatedAt :: time

record run_record =
  run_ID :: string
  run_OrgID :: string
  run_ChainID :: string
  run_SessionID :: string
  run_ParentRunID :: string
  run_RerunOfRunID :: string
  run_IdempotencyKey :: string
  run_Provider :: string
  run_Model :: string
  run_Status :: RunStatus
  run_StopReason :: string
  run_ToolCount :: int
  run_DurationMS :: int
  run_Usage :: usage
  run_EffectiveConfig :: chain_defaults
  run_Metadata :: "jobj option"
  run_StartedAt :: time
  run_CompletedAt :: "time option"

record timeline_tool =
  tt_Name :: string
  tt_Args :: "jobj option"

record timeline_item =
  ti_ID :: string
  ti_Kind :: string
  ti_StepIndex :: int
  ti_StepID :: string
  ti_ExecutionID :: string
  ti_SequenceInRun :: int
  ti_SequenceInChain :: int
  ti_Content :: "block slice"
  ti_Tool :: "timeline_tool option"
  ti_AssetID :: string
  ti_CreatedAt :: time

record effective_request =
  er_RunID :: string
  er_Provider :: string
  er_Model :: string
  er_EffectiveConfig :: chain_defaults
  er_Messages :: "message list"

record chain_message =
  cm_ID :: string
  cm_ChainID :: string
  cm_RunID :: string
  cm_Role :: string
  cm_SequenceInChain :: int
  cm_Content :: content
  cm_CreatedAt :: time

record context_response =
  cx_ChainID :: string
  cx_Messages :: "message list"

record active_run_info =
  ari_RunID :: string
  ari_Status :: RunStatus
  ari_StartedAt :: time

section \<open>Attachment and idempotency records\<close>

record attachment_record =
  at_ID :: string
  at_OrgID :: string
  at_ChainID :: string
  at_PrincipalID :: string
  at_PrincipalType :: string
  at_ActorID :: string
  at_Role :: string
  at_Mode :: AttachmentMode
  at_Protocol :: string
  at_CredentialScopeJSON :: "jobj option"
  at_ResumeTokenHash :: string
  at_NodeID :: string
  at_CloseReason :: string
  at_StartedAt :: time
  at_EndedAt :: "time option"

record idempotency_scope =
  sc_OrgID :: string
  sc_PrincipalID :: string
  sc_ChainID :: string
  sc_Operation :: string
  sc_Key :: string

record idempotency_record =
  id_ID :: string
  id_OrgID :: string
  id_PrincipalID :: string
  id_ChainID :: string
  id_Operation :: string
  id_Key :: string
  id_RequestHash :: string
  id_ResultRef :: "jobj option"
  id_CreatedAt :: time
  id_ExpiresAt :: time

section \<open>Request payloads\<close>

record start_payload =
  sp_ExternalSessionID :: string
  sp_Defaults :: chain_defaults
  sp_History :: "message list"
  sp_Metadata :: "jobj option"

record attach_frame =
  af_ChainID :: string
  af_ResumeToken :: string
  af_AfterEventID :: int
  af_RequireExactReplay :: bool
  af_Takeover :: bool

record run_payload =
  rp_Input :: "message list"
  rp_Overrides :: "chain_defaults option"
  rp_Metadata :: "jobj option"

record fork_request =
  fr_History :: "message slice"
  fr_Defaults :: chain_defaults
  fr_Metadata :: "jobj option"
  fr_ForkedFromRunID :: string

record regenerate_request =
  rr_Defaults :: chain_defaults
  rr_Metadata :: "jobj option"

record fork_response =
  fk_ChainID :: string
  fk_SessionID :: string
  fk_ExternalSessionID :: string
  fk_ParentChainID :: string
  fk_ForkedFromRunID :: string
  fk_Defaults :: chain_defaults
  fk_ResumeToken :: string
  fk_Input :: "message list"

record tool_result_frame =
  tf_RunID :: string
  tf_ExecutionID :: string
  tf_Content :: "block slice"
  tf_IsError :: bool

section \<open>Run results\<close>

text \<open>The struct \<open>types.Error\<close>.\<close>

record api_error =
  ae_Type :: string
  ae_Message :: string
  ae_Param :: string
  ae_Code :: string
  ae_RequestID :: string
  ae_ProviderError :: "json option"
  ae_RetryAfter :: "int option"
  ae_CompatIssues :: "compat_issue list"

record run_tool_call =
  call_ID :: string
  call_Name :: string
  call_Input :: "jobj option"

record run_tool_result =
  res_ToolUseID :: string
  res_Content :: "block slice"
  res_IsError :: bool
  res_Error :: "api_error option"

record run_step =
  step_Index :: int
  step_Response :: "message_response option"
  step_ToolCalls :: "run_tool_call list"
  step_ToolResults :: "run_tool_result list"
  step_DurationMS :: int

record run_result =
  rs_Response :: "message_response option"
  rs_Steps :: "run_step list"
  rs_ToolCallCount :: int
  rs_TurnCount :: int
  rs_Usage :: usage
  rs_StopReason :: RunStopReason
  rs_Messages :: "message list"

definition empty_result :: run_result where
  "empty_result = \<lparr>rs_Response = None, rs_Steps = [], rs_ToolCallCount = 0, rs_TurnCount = 0,
     rs_Usage = zero_usage, rs_StopReason = RunStopReasonNone, rs_Messages = []\<rparr>"

end
