(* ===== verification/Accumulator.thy ===== *)
theory Accumulator
  imports ChainTypes
begin

text \<open>
  Provider stream events (\<open>pkg/core/types/stream.go\<close>) and the accumulator that rebuilds
  a response from them (\<open>pkg/gateway/runloop/accumulator.go\<close>). The parser of tool
  inputs, \<open>json.Unmarshal\<close> of a text into a \<open>map[string]any\<close>, is the argument
  \<open>parse\<close>: \<open>None\<close> is an error and \<open>Some None\<close> the nil map of \<open>null\<close>.
\<close>

section \<open>Stream events\<close>

datatype delta =
    TextDelta string
  | InputJSONDelta string
  | ThinkingDelta string
  | UnknownDelta string "json option"

datatype stream_event =
    MessageStartEvent message_response
  | ContentBlockStartEvent int block
  | ContentBlockDeltaEvent int delta
  | ContentBlockStopEvent int
  | MessageDeltaEvent stop_reason usage
  | MessageStopEvent
  | PingEvent
  | AudioChunkEvent string string int bool
  | AudioUnavailableEvent string string
  | ErrorEvent api_error
  | UnknownStreamEvent string "json option"

section \<open>The accumulator\<close>

record accumulator =
  acc_response :: message_response
  acc_content :: "block list"
  acc_buffers :: "(int, string) gomap"

definition NewStreamAccumulator :: accumulator where
  "NewStreamAccumulator =
     \<lparr>acc_response = empty_response, acc_content = [], acc_buffers = []\<rparr>"

definition ensureContentIndex :: "int \<Rightarrow> block list \<Rightarrow> block list" where
  "ensureContentIndex i bs = bs @ replicate (nat (i + 1) - length bs) BNil"

fun delta_block :: "delta \<Rightarrow> block \<Rightarrow> block" where
  "delta_block (TextDelta d) (TextBlock ty t) = TextBlock ty (t @ d)"
| "delta_block (ThinkingDelta d) (ThinkingBlock ty t s) = ThinkingBlock ty (t @ d) s"
| "delta_block _ b = b"

definition buffer_of :: "(int, string) gomap \<Rightarrow> int \<Rightarrow> string" where
  "buffer_of m i = (case mget m i of None \<Rightarrow> [] | Some s \<Rightarrow> s)"

definition applyDelta :: "int \<Rightarrow> delta \<Rightarrow> accumulator \<Rightarrow> accumulator" where
  "applyDelta i d a =
     (if i < 0 then a
      else (let bs = ensureContentIndex i (acc_content a) in
            a\<lparr>acc_content := bs[nat i := delta_block d (bs ! nat i)],
              acc_buffers :=
                (case d of
                   InputJSONDelta p \<Rightarrow> mput i (buffer_of (acc_buffers a) i @ p) (acc_buffers a)
                 | _ \<Rightarrow> acc_buffers a)\<rparr>))"

fun set_input :: "jobj option \<Rightarrow> block \<Rightarrow> block" where
  "set_input m (ToolUseBlock ty i n _) = ToolUseBlock ty i n m"
| "set_input m (ServerToolUseBlock ty i n _) = ServerToolUseBlock ty i n m"
| "set_input m b = b"

definition applyToolInput ::
  "(string \<Rightarrow> jobj option option) \<Rightarrow> int \<Rightarrow> accumulator \<Rightarrow> accumulator" where
  "applyToolInput parse i a =
     (case mget (acc_buffers a) i of
        None \<Rightarrow> a
      | Some raw \<Rightarrow>
          (let a' = a\<lparr>acc_buffers := mdel i (acc_buffers a)\<rparr> in
           if raw = [] \<or> i < 0 \<or> i \<ge> int (length (acc_content a)) then a'
           else (case parse raw of
                   None \<Rightarrow> a'
                 | Some m \<Rightarrow>
                     a'\<lparr>acc_content :=
                         (acc_content a)[nat i := set_input m (acc_content a ! nat i)]\<rparr>)))"

text \<open>\<open>Apply\<close>; \<open>None\<close> is the panic of the index expression: a block may start only at
  a non-negative index.\<close>

fun Apply :: "(string \<Rightarrow> jobj option option) \<Rightarrow> stream_event \<Rightarrow> accumulator \<Rightarrow> accumulator option" where
  "Apply parse (MessageStartEvent r) a = Some (a\<lparr>acc_response := r\<rparr>)"
| "Apply parse (ContentBlockStartEvent i b) a =
     (if i < 0 then None
      else Some (a\<lparr>acc_content := (ensureContentIndex i (acc_content a))[nat i := b]\<rparr>))"
| "Apply parse (ContentBlockDeltaEvent i d) a = Some (applyDelta i d a)"
| "Apply parse (ContentBlockStopEvent i) a = Some (applyToolInput parse i a)"
| "Apply parse (MessageDeltaEvent sr u) a =
     Some (a\<lparr>acc_response := (acc_response a)\<lparr>resp_StopReason := sr, resp_Usage := u\<rparr>\<rparr>)"
| "Apply parse _ a = Some a"

fun ApplyAll ::
  "(string \<Rightarrow> jobj option option) \<Rightarrow> stream_event list \<Rightarrow> accumulator \<Rightarrow> accumulator option" where
  "ApplyAll parse [] a = Some a"
| "ApplyAll parse (e # es) a = Option.bind (Apply parse e a) (ApplyAll parse es)"

definition flush :: "(string \<Rightarrow> jobj option option) \<Rightarrow> accumulator \<Rightarrow> accumulator" where
  "flush parse a = fold (\<lambda>i. applyToolInput parse i) (map fst (acc_buffers a)) a"

definition Response :: "(string \<Rightarrow> jobj option option) \<Rightarrow> accumulator \<Rightarrow> message_response" where
  "Response parse a =
     (let a' = flush parse a in (acc_response a')\<lparr>resp_Content := acc_content a'\<rparr>)"

section \<open>Block by block\<close>

text \<open>
  The reference: the block of one index (\<open>BNil\<close> when no event reached it, as for a
  padded nil interface value) and its pending input, driven only by the events of that
  index.
\<close>

type_synonym slot = "block \<times> string option"

fun slot_step :: "(string \<Rightarrow> jobj option option) \<Rightarrow> stream_event \<Rightarrow> slot \<Rightarrow> slot" where
  "slot_step parse (ContentBlockStartEvent _ b) (_, r) = (b, r)"
| "slot_step parse (ContentBlockDeltaEvent _ d) (b, r) =
     (delta_block d b,
      (case d of InputJSONDelta p \<Rightarrow> Some ((case r of None \<Rightarrow> [] | Some s \<Rightarrow> s) @ p) | _ \<Rightarrow> r))"
| "slot_step parse (ContentBlockStopEvent _) (b, r) =
     (case r of
        None \<Rightarrow> (b, None)
      | Some raw \<Rightarrow>
          (if raw = [] then (b, None)
           else (case parse raw of None \<Rightarrow> (b, None) | Some m \<Rightarrow> (set_input m b, None))))"
| "slot_step parse _ s = s"

fun event_index :: "stream_event \<Rightarrow> int option" where
  "event_index (ContentBlockStartEvent i _) = Some i"
| "event_index (ContentBlockDeltaEvent i _) = Some i"
| "event_index (ContentBlockStopEvent i) = Some i"
| "event_index _ = None"

definition block_at :: "block list \<Rightarrow> nat \<Rightarrow> block" where
  "block_at bs k = (if k < length bs then bs ! k else BNil)"

definition slot_of :: "accumulator \<Rightarrow> nat \<Rightarrow> slot" where
  "slot_of a k = (block_at (acc_content a) k, mget (acc_buffers a) (int k))"

lemma length_ensure: "length (ensureContentIndex i bs) = max (length bs) (nat (i + 1))"
  by (simp add: ensureContentIndex_def)

lemma block_at_ensure [simp]: "block_at (ensureContentIndex i bs) k = block_at bs k"
  by (auto simp: block_at_def ensureContentIndex_def nth_append)

lemma nth_ensure: "0 \<le> i \<Longrightarrow> ensureContentIndex i bs ! nat i = block_at bs (nat i)"
  by (auto simp: block_at_def ensureContentIndex_def nth_append)

lemma block_at_update_ensure:
  "0 \<le> i \<Longrightarrow> block_at ((ensureContentIndex i bs)[nat i := b]) k =
    (if int k = i then b else block_at bs k)"
  using block_at_ensure [of i bs k]
  by (auto simp: block_at_def length_ensure nat_eq_iff)

lemma slot_of_applyDelta:
  "slot_of (applyDelta i d a) k =
    (if int k = i then slot_step parse (ContentBlockDeltaEvent i d) (slot_of a k)
     else slot_of a k)"
  by (cases d)
    (auto simp: slot_of_def applyDelta_def Let_def block_at_update_ensure nth_ensure buffer_of_def)

lemma block_at_input:
  "\<not> i < 0 \<Longrightarrow> i < int (length bs) \<Longrightarrow>
   block_at (bs[nat i := set_input m (bs ! nat i)]) k =
     (if int k = i then set_input m (block_at bs k) else block_at bs k)"
  by (auto simp: block_at_def nat_eq_iff)

lemma set_input_out_of_range [simp]:
  "i \<ge> int (length bs) \<Longrightarrow> int k = i \<Longrightarrow> set_input m (block_at bs k) = block_at bs k"
  by (simp add: block_at_def)

lemma slot_of_applyToolInput:
  "slot_of (applyToolInput parse i a) k =
    (if int k = i then slot_step parse (ContentBlockStopEvent i) (slot_of a k)
     else slot_of a k)"
  by (auto simp: slot_of_def applyToolInput_def Let_def block_at_input not_le split: option.splits)

lemma slot_of_response [simp]: "slot_of (a\<lparr>acc_response := r\<rparr>) k = slot_of a k"
  by (simp add: slot_of_def)

lemma slot_of_Apply:
  "Apply parse e a = Some a' \<Longrightarrow>
   slot_of a' k =
     (if event_index e = Some (int k) then slot_step parse e (slot_of a k) else slot_of a k)"
proof (cases e)
  case (ContentBlockStartEvent i b)
  assume "Apply parse e a = Some a'"
  then show ?thesis
    using ContentBlockStartEvent block_at_update_ensure [of i "acc_content a" b k]
    by (auto simp: slot_of_def split: if_splits)
qed (auto simp: slot_of_applyDelta [where parse = parse] slot_of_applyToolInput)

definition events_at :: "nat \<Rightarrow> stream_event list \<Rightarrow> stream_event list" where
  "events_at k es = filter (\<lambda>e. event_index e = Some (int k)) es"

lemma slot_of_ApplyAll:
  "ApplyAll parse es a = Some a' \<Longrightarrow>
   slot_of a' k = fold (slot_step parse) (events_at k es) (slot_of a k)"
proof (induction es arbitrary: a)
  case (Cons e es)
  then obtain b where b: "Apply parse e a = Some b" "ApplyAll parse es b = Some a'"
    by (auto simp: bind_eq_Some_conv)
  show ?case
    using Cons.IH [OF b(2)] slot_of_Apply [OF b(1), of k] by (simp add: events_at_def)
qed (simp add: events_at_def)

definition stop_slot :: "(string \<Rightarrow> jobj option option) \<Rightarrow> slot \<Rightarrow> slot" where
  "stop_slot parse s = slot_step parse (ContentBlockStopEvent 0) s"

lemma slot_step_stop: "slot_step parse (ContentBlockStopEvent i) s = stop_slot parse s"
  by (cases s) (simp add: stop_slot_def)

lemma stop_slot_idem [simp]: "stop_slot parse (stop_slot parse s) = stop_slot parse s"
  by (cases s) (auto simp: stop_slot_def split: option.splits)

lemma stop_slot_none [simp]: "stop_slot parse (b, None) = (b, None)"
  by (simp add: stop_slot_def)

lemma slot_of_fold_stop:
  "slot_of (fold (applyToolInput parse) ks a) k =
     (if int k \<in> set ks then stop_slot parse (slot_of a k) else slot_of a k)"
  by (induction ks arbitrary: a) (auto simp: slot_of_applyToolInput slot_step_stop)

lemma slot_of_flush: "slot_of (flush parse a) k = stop_slot parse (slot_of a k)"
proof (cases "int k \<in> set (map fst (acc_buffers a))")
  case False
  then have "mget (acc_buffers a) (int k) = None"
    by (simp add: mget_def map_of_eq_None_iff)
  with False show ?thesis
    unfolding flush_def slot_of_fold_stop by (simp add: slot_of_def)
qed (simp add: flush_def slot_of_fold_stop)

lemma block_at_Response:
  "block_at (resp_Content (Response parse a)) k = fst (stop_slot parse (slot_of a k))"
  using arg_cong [OF slot_of_flush [of parse a k], of fst]
  by (simp add: Response_def Let_def slot_of_def)

lemma slot_of_new [simp]: "slot_of NewStreamAccumulator k = (BNil, None)"
  by (simp add: slot_of_def NewStreamAccumulator_def block_at_def)

lemma fold_text_deltas:
  "fold (slot_step parse) (map (\<lambda>t. ContentBlockDeltaEvent i (TextDelta t)) ts) (TextBlock ty s, r)
     = (TextBlock ty (s @ concat ts), r)"
  by (induction ts arbitrary: s) auto

lemma fold_input_deltas:
  "fold (slot_step parse) (map (\<lambda>p. ContentBlockDeltaEvent i (InputJSONDelta p)) ps)
     (ToolUseBlock ty u n m, Some s)
     = (ToolUseBlock ty u n m, Some (s @ concat ps))"
  by (induction ps arbitrary: s) auto

text \<open>The stream never panics when every block starts at a non-negative index.\<close>

lemma ApplyAll_total:
  "list_all (\<lambda>e. \<forall>i b. e = ContentBlockStartEvent i b \<longrightarrow> 0 \<le> i) es \<Longrightarrow>
   \<exists>a'. ApplyAll parse es a = Some a'"
proof (induction es arbitrary: a)
  case (Cons e es)
  then show ?case by (cases e) auto
qed simp

section \<open>The properties\<close>

text \<open>C25. Accumulating a provider stream treats each content index on its own: whatever
  the interleaving, the block the response has at an index is the one that the events of that
  index alone build, in their order, with its pending tool input parsed at the end. The
  accumulator panics only on a block that starts at a negative index.\<close>

theorem accumulator_per_index:
  "case ApplyAll parse es NewStreamAccumulator of
     None \<Rightarrow> \<exists>i b. ContentBlockStartEvent i b \<in> set es \<and> i < 0
   | Some a \<Rightarrow> block_at (resp_Content (Response parse a)) k =
       fst (stop_slot parse (fold (slot_step parse) (events_at k es) (BNil, None)))"
proof (cases "ApplyAll parse es NewStreamAccumulator")
  case None
  then have "\<not> list_all (\<lambda>e. \<forall>i b. e = ContentBlockStartEvent i b \<longrightarrow> 0 \<le> i) es"
    using ApplyAll_total [of es parse NewStreamAccumulator] by auto
  then show ?thesis using None by (auto simp: list_all_iff not_le)
qed (simp add: block_at_Response slot_of_ApplyAll)

text \<open>A tool call that is streamed in pieces ends up with the parsed concatenation of
  its input pieces, however other blocks are interleaved with it.\<close>

theorem streamed_tool_input:
  assumes "ApplyAll parse es NewStreamAccumulator = Some a"
    and "events_at k es = ContentBlockStartEvent (int k) (ToolUseBlock ty u n m0) #
       map (\<lambda>p. ContentBlockDeltaEvent (int k) (InputJSONDelta p)) (p # ps) @
       [ContentBlockStopEvent (int k)]"
    and "p @ concat ps \<noteq> []" "parse (p @ concat ps) = Some m"
  shows "block_at (resp_Content (Response parse a)) k = ToolUseBlock ty u n m"
  using assms by (auto simp: block_at_Response slot_of_ApplyAll fold_input_deltas stop_slot_def)

end
