(* ===== verification/Events.thy ===== *)
theory Events
  imports Accumulator
begin

text \<open>
  The events a run streams (\<open>pkg/core/types/run.go\<close>) and the server events of the chain
  websocket that carry them (\<open>pkg/core/types/chain_ws.go\<close>). The constant \<open>Type\<close>
  strings are the constructors.
\<close>

section \<open>Run stream events\<close>

datatype run_stream_event =
    RunStartEvent (rse_request_id: string) (rse_model: string) (rse_version: string)
  | RunStepStartEvent int
  | RunStreamEventWrapper stream_event
  | RunToolCallStartEvent string string "jobj option"
  | RunToolResultEvent string string "block slice" bool "api_error option"
  | RunStepCompleteEvent int "message_response option"
  | RunHistoryDeltaEvent int "message list"
  | RunCompleteEvent run_result
  | RunPingEvent
  | RunErrorEvent api_error
  | RunAudioChunkEvent string string int bool
  | RunAudioUnavailableEvent string string
  | UnknownRunStreamEvent string "json option"

section \<open>Chain server events\<close>

record started_event =
  se_EventID :: int
  se_ChainVersion :: int
  se_ChainID :: string
  se_SessionID :: string
  se_ExternalSessionID :: string
  se_ResumeToken :: string
  se_ActorID :: string
  se_AuthorizedProviders :: "string list"
  se_AuthorizedGatewayTools :: "string list"
  se_Defaults :: chain_defaults

record attached_event =
  ae_EventID :: int
  ae_ChainVersion :: int
  ae_ChainID :: string
  ae_SessionID :: string
  ae_ResumeToken :: string
  ae_ActorID :: string
  ae_AuthorizedProviders :: "string list"
  ae_AuthorizedGatewayTools :: "string list"
  ae_ReplayStatus :: ReplayStatus
  ae_ActiveRun :: "active_run_info option"

record updated_event =
  ue_EventID :: int
  ue_ChainVersion :: int
  ue_ChainID :: string
  ue_Defaults :: chain_defaults

record run_envelope =
  en_EventID :: int
  en_ChainVersion :: int
  en_RunID :: string
  en_ChainID :: string
  en_Event :: run_stream_event

record client_tool_call =
  ct_EventID :: int
  ct_ChainVersion :: int
  ct_RunID :: string
  ct_ChainID :: string
  ct_ExecutionID :: string
  ct_Name :: string
  ct_DeadlineAt :: time
  ct_Input :: "jobj option"
  ct_EffectClass :: ToolEffectClass

datatype server_event =
    ChainStartedEvent started_event
  | ChainAttachedEvent attached_event
  | ChainUpdatedEvent updated_event
  | RunEnvelopeEvent run_envelope
  | ClientToolCallEvent client_tool_call
  | ChainErrorEvent int int canonical_error

fun eventID :: "server_event \<Rightarrow> int" where
  "eventID (ChainStartedEvent e) = se_EventID e"
| "eventID (ChainAttachedEvent e) = ae_EventID e"
| "eventID (ChainUpdatedEvent e) = ue_EventID e"
| "eventID (RunEnvelopeEvent e) = en_EventID e"
| "eventID (ClientToolCallEvent e) = ct_EventID e"
| "eventID (ChainErrorEvent i _ _) = i"

text \<open>
  \<open>json.Marshal\<close> of a server event to bytes and \<open>UnmarshalChainServerEventStrict\<close>,
  as arguments of the operations that buffer and replay events.
\<close>

record event_codec =
  ec_marshal :: "server_event \<Rightarrow> gerr + string"
  ec_decode :: "string \<Rightarrow> gerr + server_event"

end
