(* ===== verification/HotChain.thy ===== *)
theory HotChain
  imports Events "HOL-Library.Sublist"
begin

text \<open>
  The replay buffer of a chain in memory (\<open>hotChain\<close> in
  \<open>pkg/gateway/chains/manager.go\<close>): events are buffered in the order they are emitted,
  bounded in number and in bytes, and replayed to a client that reattaches.
\<close>

section \<open>The buffer\<close>

record manager_config =
  ReplayEventLimit :: int
  ReplayByteLimit :: int
  ToolWaitTimeout :: int
  ChainIdleTTL :: int

definition second :: int where
  "second = 1000000000"

definition DefaultManagerConfig :: manager_config where
  "DefaultManagerConfig = \<lparr>ReplayEventLimit = 1024, ReplayByteLimit = 1048576,
     ToolWaitTimeout = 30 * second, ChainIdleTTL = 15 * 60 * second\<rparr>"

text \<open>The configuration \<open>NewManager\<close> keeps: the default one when a limit is not positive.\<close>

definition effective_config :: "manager_config \<Rightarrow> manager_config" where
  "effective_config cfg =
     (if ReplayEventLimit cfg \<le> 0 \<or> ReplayByteLimit cfg \<le> 0 \<or> ToolWaitTimeout cfg \<le> 0
         \<or> ChainIdleTTL cfg \<le> 0
      then DefaultManagerConfig else cfg)"

record replay_entry =
  re_EventID :: int
  re_Data :: string

record replay_buffer =
  rb_replay :: "replay_entry list"
  rb_bytes :: int

definition empty_buffer :: replay_buffer where
  "empty_buffer = \<lparr>rb_replay = [], rb_bytes = 0\<rparr>"

text \<open>The trimming loop of \<open>bufferAndEmit\<close>. It stops on an empty buffer, which the
  limits of \<open>NewManager\<close>, all positive, make true of the code (\<open>trim_replay_inv\<close>).\<close>

fun trim_replay :: "manager_config \<Rightarrow> int \<Rightarrow> replay_entry list \<Rightarrow> replay_buffer" where
  "trim_replay cfg bytes [] = \<lparr>rb_replay = [], rb_bytes = bytes\<rparr>"
| "trim_replay cfg bytes (e # es) =
     (if int (length (e # es)) > ReplayEventLimit cfg \<or> bytes > ReplayByteLimit cfg
      then trim_replay cfg (bytes - int (length (re_Data e))) es
      else \<lparr>rb_replay = e # es, rb_bytes = bytes\<rparr>)"

definition buffer_event ::
  "manager_config \<Rightarrow> event_codec \<Rightarrow> server_event \<Rightarrow> replay_buffer \<Rightarrow> gerr + replay_buffer" where
  "buffer_event cfg codec event b =
     (case ec_marshal codec event of
        Inl err \<Rightarrow> Inl err
      | Inr data \<Rightarrow>
          Inr (trim_replay cfg (rb_bytes b + int (length data))
                (rb_replay b @ [\<lparr>re_EventID = eventID event, re_Data = data\<rparr>])))"

definition replay_error :: canonical_error where
  "replay_error = NewCanonicalError ErrorCodeChainReplayUnavailable ''exact replay is unavailable''"

fun decode_all :: "event_codec \<Rightarrow> replay_entry list \<Rightarrow> server_event list" where
  "decode_all codec [] = []"
| "decode_all codec (e # es) =
     (case ec_decode codec (re_Data e) of
        Inl _ \<Rightarrow> decode_all codec es
      | Inr ev \<Rightarrow> ev # decode_all codec es)"

definition replayAfter ::
  "event_codec \<Rightarrow> int \<Rightarrow> bool \<Rightarrow> replay_buffer
     \<Rightarrow> canonical_error + ReplayStatus \<times> server_event list" where
  "replayAfter codec after exact b =
     (if after \<le> 0 then Inr (ReplayStatusNone, [])
      else (case rb_replay b of
              [] \<Rightarrow> if exact then Inl replay_error else Inr (ReplayStatusNone, [])
            | first # _ \<Rightarrow>
                (case dropWhile (\<lambda>e. re_EventID e \<le> after) (rb_replay b) of
                   [] \<Rightarrow> Inr (ReplayStatusNone, [])
                 | rest \<Rightarrow>
                     if re_EventID first > after + 1 then
                       (if exact then Inl replay_error else Inr (ReplayStatusPartial, []))
                     else Inr (ReplayStatusFull, decode_all codec rest))))"

section \<open>Bounds\<close>

definition total_bytes :: "replay_entry list \<Rightarrow> int" where
  "total_bytes es = (\<Sum>e\<leftarrow>es. int (length (re_Data e)))"

definition buffer_inv :: "manager_config \<Rightarrow> replay_buffer \<Rightarrow> bool" where
  "buffer_inv cfg b =
     (rb_bytes b = total_bytes (rb_replay b) \<and>
      int (length (rb_replay b)) \<le> ReplayEventLimit cfg \<and> rb_bytes b \<le> ReplayByteLimit cfg)"

definition config_ok :: "manager_config \<Rightarrow> bool" where
  "config_ok cfg = (0 < ReplayEventLimit cfg \<and> 0 < ReplayByteLimit cfg
     \<and> 0 < ToolWaitTimeout cfg \<and> 0 < ChainIdleTTL cfg)"

lemma config_ok_effective [simp]: "config_ok (effective_config cfg)"
  by (simp add: config_ok_def effective_config_def DefaultManagerConfig_def second_def)

lemma total_bytes_simps [simp]:
  "total_bytes [] = 0"
  "total_bytes (e # es) = int (length (re_Data e)) + total_bytes es"
  "total_bytes (xs @ ys) = total_bytes xs + total_bytes ys"
  by (simp_all add: total_bytes_def)

lemma buffer_inv_empty [simp]: "config_ok cfg \<Longrightarrow> buffer_inv cfg empty_buffer"
  by (simp add: buffer_inv_def config_ok_def empty_buffer_def)

lemma trim_replay_inv:
  "config_ok cfg \<Longrightarrow> bytes = total_bytes es \<Longrightarrow> buffer_inv cfg (trim_replay cfg bytes es)"
  by (induction es arbitrary: bytes) (auto simp: buffer_inv_def config_ok_def)

text \<open>The buffer keeps the longest suffix within the limits.\<close>

definition fits :: "manager_config \<Rightarrow> replay_entry list \<Rightarrow> bool" where
  "fits cfg es =
     (int (length es) \<le> ReplayEventLimit cfg \<and> total_bytes es \<le> ReplayByteLimit cfg)"

lemma trim_replay_Cons:
  "bytes = total_bytes (e # es) \<Longrightarrow>
   trim_replay cfg bytes (e # es) =
     (if fits cfg (e # es) then \<lparr>rb_replay = e # es, rb_bytes = bytes\<rparr>
      else trim_replay cfg (total_bytes es) es)"
  by (simp add: fits_def not_le)

lemma trim_replay_longest:
  assumes "config_ok cfg"
  shows "suffix (rb_replay (trim_replay cfg (total_bytes es) es)) es \<and>
    fits cfg (rb_replay (trim_replay cfg (total_bytes es) es)) \<and>
    (\<forall>s. suffix s es \<longrightarrow> fits cfg s \<longrightarrow> suffix s (rb_replay (trim_replay cfg (total_bytes es) es)))"
proof (induction es)
  case Nil
  then show ?case using assms by (simp add: fits_def config_ok_def)
next
  case (Cons e es)
  show ?case
  proof (cases "fits cfg (e # es)")
    case True
    then show ?thesis by (simp add: trim_replay_Cons del: trim_replay.simps total_bytes_simps)
  next
    case False
    then have t: "trim_replay cfg (total_bytes (e # es)) (e # es) =
        trim_replay cfg (total_bytes es) es"
      by (simp add: trim_replay_Cons del: trim_replay.simps total_bytes_simps)
    show ?thesis using Cons.IH False unfolding t by (auto simp: suffix_Cons)
  qed
qed

lemma buffer_event_inv:
  "config_ok cfg \<Longrightarrow> buffer_inv cfg b \<Longrightarrow> buffer_event cfg codec e b = Inr b' \<Longrightarrow> buffer_inv cfg b'"
  by (auto simp: buffer_event_def buffer_inv_def intro!: trim_replay_inv [unfolded buffer_inv_def]
      split: sum.splits)

section \<open>Replay\<close>

text \<open>A codec that encodes the given events and decodes what it encoded.\<close>

definition faithful_on :: "event_codec \<Rightarrow> server_event list \<Rightarrow> bool" where
  "faithful_on codec es =
     list_all (\<lambda>e. \<exists>d. ec_marshal codec e = Inr d \<and> ec_decode codec d = Inr e) es"

fun buffer_all ::
  "manager_config \<Rightarrow> event_codec \<Rightarrow> server_event list \<Rightarrow> replay_buffer \<Rightarrow> gerr + replay_buffer" where
  "buffer_all cfg codec [] b = Inr b"
| "buffer_all cfg codec (e # es) b =
     (case buffer_event cfg codec e b of
        Inl err \<Rightarrow> Inl err
      | Inr b' \<Rightarrow> buffer_all cfg codec es b')"

text \<open>Events in the order of their numbers, with or without gaps.\<close>

definition increasing :: "server_event list \<Rightarrow> bool" where
  "increasing es = sorted_wrt (<) (map eventID es)"

lemma increasing_append:
  "increasing (xs @ ys) \<longleftrightarrow> increasing xs \<and> increasing ys \<and>
     (\<forall>x \<in> set xs. \<forall>y \<in> set ys. eventID x < eventID y)"
  by (simp add: increasing_def sorted_wrt_append)

lemma increasing_Cons: "increasing (e # es) \<longleftrightarrow> (\<forall>x \<in> set es. eventID e < eventID x) \<and> increasing es"
  by (simp add: increasing_def)

definition entry_of :: "event_codec \<Rightarrow> server_event \<Rightarrow> replay_entry" where
  "entry_of codec e =
     \<lparr>re_EventID = eventID e,
      re_Data = (case ec_marshal codec e of Inr d \<Rightarrow> d | Inl _ \<Rightarrow> [])\<rparr>"

lemma re_EventID_entry_of [simp]: "re_EventID (entry_of codec e) = eventID e"
  by (simp add: entry_of_def)

lemma trim_replay_suffix:
  "config_ok cfg \<Longrightarrow> bytes = total_bytes es \<Longrightarrow> suffix (rb_replay (trim_replay cfg bytes es)) es"
  using trim_replay_longest by blast

lemma buffer_event_suffix:
  assumes "config_ok cfg" "buffer_inv cfg b" "buffer_event cfg codec e b = Inr b'"
  shows "suffix (rb_replay b') (rb_replay b @ [entry_of codec e])"
proof (cases "ec_marshal codec e")
  case (Inr d)
  have "suffix (rb_replay (trim_replay cfg (rb_bytes b + int (length d))
      (rb_replay b @ [entry_of codec e]))) (rb_replay b @ [entry_of codec e])"
    using assms(1,2) Inr by (intro trim_replay_suffix) (simp_all add: buffer_inv_def entry_of_def)
  then show ?thesis using assms(3) Inr by (auto simp: buffer_event_def entry_of_def)
qed (use assms(3) in \<open>simp add: buffer_event_def\<close>)

lemma buffer_all_suffix:
  assumes "config_ok cfg" "buffer_inv cfg b" "buffer_all cfg codec es b = Inr b'"
    "suffix (rb_replay b) (map (entry_of codec) pre)"
  shows "suffix (rb_replay b') (map (entry_of codec) (pre @ es)) \<and> buffer_inv cfg b'"
  using assms(2-)
proof (induction es arbitrary: b pre)
  case (Cons e es)
  then obtain b1 where b1: "buffer_event cfg codec e b = Inr b1" "buffer_all cfg codec es b1 = Inr b'"
    by (auto split: sum.splits)
  have inv: "buffer_inv cfg b1"
    using buffer_event_inv [OF assms(1) Cons.prems(1) b1(1)] .
  have "suffix (rb_replay b @ [entry_of codec e]) (map (entry_of codec) pre @ [entry_of codec e])"
    using Cons.prems(3) unfolding snoc_suffix_snoc by simp
  then have "suffix (rb_replay b1) (map (entry_of codec) pre @ [entry_of codec e])"
    by (rule suffix_order.trans [OF buffer_event_suffix [OF assms(1) Cons.prems(1) b1(1)]])
  then have "suffix (rb_replay b1) (map (entry_of codec) (pre @ [e]))" by (simp only: map_append list.map)
  then show ?case using Cons.IH [OF inv b1(2), of "pre @ [e]"] by simp
qed simp

lemma decode_all_entries:
  "faithful_on codec es \<Longrightarrow> decode_all codec (map (entry_of codec) es) = es"
  by (induction es) (auto simp: faithful_on_def entry_of_def)

lemma increasing_dropWhile:
  "increasing es \<Longrightarrow> dropWhile (\<lambda>e. eventID e \<le> a) es = filter (\<lambda>e. a < eventID e) es"
proof (induction es)
  case (Cons e es)
  show ?case
  proof (cases "eventID e \<le> a")
    case False
    then have "filter (\<lambda>x. a < eventID x) es = es"
      using Cons.prems by (fastforce simp: increasing_Cons filter_id_conv)
    with False show ?thesis by simp
  qed (use Cons in \<open>simp add: increasing_Cons\<close>)
qed simp

lemma dropWhile_entries:
  "dropWhile (\<lambda>e. re_EventID e \<le> a) (map (entry_of codec) es) =
   map (entry_of codec) (dropWhile (\<lambda>e. eventID e \<le> a) es)"
  by (induction es) simp_all

text \<open>Replay from a buffer that holds the last of the events.\<close>

lemma replayAfter_Cons:
  assumes "0 < after" "rb_replay b = first # rest"
  shows "replayAfter codec after exact b =
    (case dropWhile (\<lambda>e. re_EventID e \<le> after) (rb_replay b) of
       [] \<Rightarrow> Inr (ReplayStatusNone, [])
     | later \<Rightarrow>
         if re_EventID first > after + 1 then
           (if exact then Inl replay_error else Inr (ReplayStatusPartial, []))
         else Inr (ReplayStatusFull, decode_all codec later))"
  using assms by (simp add: replayAfter_def)

lemma replay_of_suffix:
  assumes es: "increasing es" "es = dropped @ k # ks" and b: "rb_replay b = map (entry_of codec) (k # ks)"
    and r: "0 < after" "replayAfter codec after exact b = Inr r" "fst r \<noteq> ReplayStatusPartial"
  shows "snd r = decode_all codec (map (entry_of codec) (filter (\<lambda>e. after < eventID e) es))"
proof -
  have inc: "increasing (k # ks)" "\<forall>x \<in> set dropped. eventID x < eventID k"
    using es by (auto simp: increasing_append)
  have drop: "dropWhile (\<lambda>e. re_EventID e \<le> after) (rb_replay b)
      = map (entry_of codec) (filter (\<lambda>e. after < eventID e) (k # ks))"
    by (simp only: b dropWhile_entries increasing_dropWhile [OF inc(1)])
  have early: "filter (\<lambda>e. after < eventID e) dropped = []" if "eventID k \<le> after + 1"
    using inc(2) that by (fastforce simp: filter_empty_conv)
  have replay: "replayAfter codec after exact b =
    (case map (entry_of codec) (filter (\<lambda>e. after < eventID e) (k # ks)) of
       [] \<Rightarrow> Inr (ReplayStatusNone, [])
     | later \<Rightarrow>
         if eventID k > after + 1 then (if exact then Inl replay_error else Inr (ReplayStatusPartial, []))
         else Inr (ReplayStatusFull, decode_all codec later))"
    using replayAfter_Cons [OF r(1) b [unfolded list.map(2)], of codec exact]
    by (simp only: drop re_EventID_entry_of)
  show ?thesis
  proof (cases "filter (\<lambda>e. after < eventID e) (k # ks)")
    case Nil
    then have "eventID k \<le> after" by (auto split: if_splits)
    moreover have "snd r = []" using r(2) unfolding replay Nil by auto
    ultimately show ?thesis unfolding es(2) filter_append Nil by (simp add: early)
  next
    case (Cons f fs)
    then have "eventID k \<le> after + 1" "snd r = decode_all codec (map (entry_of codec) (f # fs))"
      using r(2,3) unfolding replay Cons by (auto split: if_splits)
    then show ?thesis unfolding es(2) filter_append Cons by (simp add: early)
  qed
qed

section \<open>What the buffer holds\<close>

definition longest :: "manager_config \<Rightarrow> replay_entry list \<Rightarrow> replay_entry list \<Rightarrow> bool" where
  "longest cfg s xs =
     (suffix s xs \<and> fits cfg s \<and> (\<forall>t. suffix t xs \<longrightarrow> fits cfg t \<longrightarrow> suffix t s))"

lemma fits_butlast: "fits cfg (t @ [e]) \<Longrightarrow> fits cfg t"
  by (simp add: fits_def)

text \<open>Trimming may forget the events that were trimmed before.\<close>

lemma longest_snoc:
  assumes "longest cfg s xs" "longest cfg s' (s @ [e])"
  shows "longest cfg s' (xs @ [e])"
  unfolding longest_def
proof (intro conjI allI impI)
  show "suffix s' (xs @ [e])"
    using assms by (meson longest_def snoc_suffix_snoc suffix_order.trans)
  show "fits cfg s'" using assms(2) by (simp add: longest_def)
  fix t assume t: "suffix t (xs @ [e])" "fits cfg t"
  show "suffix t s'"
  proof (cases t rule: rev_cases)
    case (snoc u e')
    with t(1) have u: "suffix u xs" "e' = e" by simp_all
    moreover have "fits cfg u" using t(2) snoc fits_butlast by blast
    ultimately have "suffix u s" using assms(1) by (simp add: longest_def)
    then have "suffix t (s @ [e])" using snoc u(2) by simp
    then show ?thesis using assms(2) t(2) unfolding longest_def by blast
  qed simp
qed

lemma buffer_event_longest:
  assumes "config_ok cfg" "buffer_inv cfg b" "buffer_event cfg codec e b = Inr b'"
  shows "longest cfg (rb_replay b') (rb_replay b @ [entry_of codec e])"
proof (cases "ec_marshal codec e")
  case (Inr d)
  have "total_bytes (rb_replay b @ [entry_of codec e]) = rb_bytes b + int (length d)"
    using assms(2) Inr by (simp add: buffer_inv_def entry_of_def)
  then show ?thesis
    using trim_replay_longest [OF assms(1), of "rb_replay b @ [entry_of codec e]"] assms(3) Inr
    by (auto simp: buffer_event_def entry_of_def longest_def)
qed (use assms(3) in \<open>simp add: buffer_event_def\<close>)

lemma buffer_all_longest:
  assumes "config_ok cfg" "buffer_inv cfg b" "buffer_all cfg codec es b = Inr b'"
    "longest cfg (rb_replay b) (map (entry_of codec) pre)"
  shows "longest cfg (rb_replay b') (map (entry_of codec) (pre @ es))"
  using assms(2-)
proof (induction es arbitrary: b pre)
  case (Cons e es)
  then obtain b1 where b1: "buffer_event cfg codec e b = Inr b1" "buffer_all cfg codec es b1 = Inr b'"
    by (auto split: sum.splits)
  have "longest cfg (rb_replay b1) (map (entry_of codec) (pre @ [e]))"
    using longest_snoc [OF Cons.prems(3) buffer_event_longest [OF assms(1) Cons.prems(1) b1(1)]]
    by simp
  then show ?case
    using Cons.IH [OF buffer_event_inv [OF assms(1) Cons.prems(1) b1(1)] b1(2)] by fastforce
qed simp

lemma longest_empty: "config_ok cfg \<Longrightarrow> longest cfg (rb_replay empty_buffer) []"
  by (simp add: longest_def fits_def empty_buffer_def config_ok_def)

text \<open>C19. The replay buffer of a chain holds exactly the longest run of its latest events
  that respects the limits on their number and on their bytes: buffering drops nothing
  that would still fit.\<close>

theorem buffer_is_longest_suffix:
  assumes "config_ok cfg" "buffer_all cfg codec es empty_buffer = Inr b"
  shows "longest cfg (rb_replay b) (map (entry_of codec) es)"
  using buffer_all_longest [OF assms(1) buffer_inv_empty [OF assms(1)] assms(2), of "[]"]
    longest_empty [OF assms(1)] by simp

text \<open>C20. An exact replay after event \<open>n\<close> gives all events after \<open>n\<close>, in order, or it is
  refused, and then the event \<open>n + 1\<close> is not in the buffer. This is so when the events entered the buffer
  in the order of their numbers, gaps allowed. An event whose bytes the decoder refuses is left out without a
  notice; if it decodes every event to what was encoded, the replay is the list of the events themselves.\<close>

theorem exact_replay:
  assumes "config_ok cfg" "buffer_all cfg codec es empty_buffer = Inr b"
    and "increasing es" "0 < after"
  shows "case replayAfter codec after True b of
      Inr (_, events) \<Rightarrow>
        events = decode_all codec (map (entry_of codec) (filter (\<lambda>e. after < eventID e) es)) \<and>
        (faithful_on codec es \<longrightarrow> events = filter (\<lambda>e. after < eventID e) es)
    | Inl e \<Rightarrow> e = replay_error \<and> after + 1 \<notin> re_EventID ` set (rb_replay b)"
proof -
  obtain zs where zs: "map (entry_of codec) es = zs @ rb_replay b"
    using buffer_all_suffix [OF assms(1) buffer_inv_empty [OF assms(1)] assms(2), of "[]"]
    by (auto simp: suffix_def empty_buffer_def)
  then obtain dropped kept where k: "es = dropped @ kept" "rb_replay b = map (entry_of codec) kept"
    by (auto simp: map_eq_append_conv)
  have all: "faithful_on codec (filter (\<lambda>e. after < eventID e) es)" if "faithful_on codec es"
    using that by (auto simp: faithful_on_def list_all_iff)
  show ?thesis
  proof (cases "replayAfter codec after True b")
    case (Inr r)
    then obtain x xs where x: "kept = x # xs" "fst r \<noteq> ReplayStatusPartial"
      using assms(4) k(2) by (cases kept) (auto simp: replayAfter_def split: list.splits if_splits)
    have "snd r = decode_all codec (map (entry_of codec) (filter (\<lambda>e. after < eventID e) es))"
      using replay_of_suffix [OF assms(3) _ _ assms(4) Inr x(2)] k x(1) by simp
    then show ?thesis using Inr decode_all_entries [OF all] by (cases r) simp
  next
    case (Inl e)
    have "eventID x > after + 1" if "x \<in> set kept" for x
    proof (cases kept)
      case (Cons y ys)
      then have "eventID y > after + 1"
        using Inl assms(4) k(2) by (auto simp: replayAfter_def split: list.splits if_splits)
      moreover have "increasing (y # ys)" using assms(3) k(1) Cons by (simp add: increasing_append)
      ultimately show ?thesis using Cons that by (fastforce simp: increasing_Cons)
    qed (use that in simp)
    moreover have "e = replay_error"
      using Inl assms(4) by (auto simp: replayAfter_def split: list.splits if_splits)
    ultimately show ?thesis using Inl k(2) by fastforce
  qed
qed

end
