(* ===== verification/Clone.thy ===== *)
theory Clone
  imports ChainTypes
begin

text \<open>
  The copying helpers of \<open>pkg/gateway/chains/clone_helpers.go\<close>. \<open>cloneJSON\<close> is a
  JSON round trip at the value's type, written out per type: it copies the fields, makes
  the empty \<open>omitempty\<close> slices and maps nil, turns the numbers of an \<open>any\<close> into
  \<open>float64\<close>, and re-decodes the flexible contents.
\<close>

section \<open>Flexible contents\<close>

text \<open>\<open>json.Marshal\<close> of a content held in an \<open>any\<close> (not wrapped by
  \<open>Message.MarshalJSON\<close>), and \<open>json.Unmarshal\<close> into an \<open>any\<close>.\<close>

fun json_of_any :: "content \<Rightarrow> json" where
  "json_of_any CNil = JNull"
| "json_of_any (CStr s) = JStr s"
| "json_of_any (CBlock b) = json_of_block b"
| "json_of_any (CBlocks s) = json_of_blocks s"
| "json_of_any (CJson v) = v"

fun content_of_any :: "json \<Rightarrow> content" where
  "content_of_any JNull = CNil"
| "content_of_any (JStr s) = CStr s"
| "content_of_any v = CJson (jclone v)"

definition decodeFlexibleContentJSON :: "json \<Rightarrow> content" where
  "decodeFlexibleContentJSON v =
     (case v of
        JNull \<Rightarrow> CNil
      | JStr s \<Rightarrow> CStr s
      | _ \<Rightarrow> (case UnmarshalContentBlocks v of
                Some bs \<Rightarrow> CBlocks (Some bs)
              | None \<Rightarrow> content_of_any v))"

definition cloneContentBlocks :: "block slice \<Rightarrow> block slice" where
  "cloneContentBlocks blocks =
     (if elems blocks = [] then None
      else (case UnmarshalContentBlocks (json_of_blocks blocks) of
              None \<Rightarrow> Some (elems blocks)
            | Some decoded \<Rightarrow> Some decoded))"

definition normalizedMessageContent :: "content \<Rightarrow> content" where
  "normalizedMessageContent c =
     (case c of
        CNil \<Rightarrow> CNil
      | CStr s \<Rightarrow> CStr s
      | CBlocks s \<Rightarrow> CBlocks (cloneContentBlocks s)
      | CBlock b \<Rightarrow> CBlocks (cloneContentBlocks (Some [b]))
      | CJson v \<Rightarrow>
          (case UnmarshalContentBlocks v of
             Some bs \<Rightarrow> CBlocks (Some bs)
           | None \<Rightarrow> content_of_any v))"

definition cloneMessages :: "message list \<Rightarrow> message list" where
  "cloneMessages ms =
     map (\<lambda>m. \<lparr>msg_Role = msg_Role m, msg_Content = normalizedMessageContent (msg_Content m)\<rparr>) ms"

definition cloneContentBlocksFromAny :: "content \<Rightarrow> block slice" where
  "cloneContentBlocksFromAny c =
     (case normalizedMessageContent c of
        CBlocks s \<Rightarrow> s
      | CStr t \<Rightarrow> Some [text_block t]
      | _ \<Rightarrow> None)"

definition normalizeToolResultContent :: "block slice \<Rightarrow> block slice" where
  "normalizeToolResultContent c =
     (let cloned = cloneContentBlocks c in
      if elems cloned \<noteq> [] then cloned else Some [text_block []])"

section \<open>Request configuration\<close>

definition clone_slice :: "'a slice \<Rightarrow> 'a slice" where
  "clone_slice s = nil_if_empty (elems s)"

fun clone_schema :: "json_schema \<Rightarrow> json_schema" where
  "clone_schema (JSONSchema t ps rq d en it ap) =
     JSONSchema t
       (case ps of None \<Rightarrow> None
        | Some kv \<Rightarrow> nil_if_empty (map (\<lambda>(k, s). (k, clone_schema s)) kv))
       (clone_slice rq) d (clone_slice en)
       (case it of None \<Rightarrow> None | Some s \<Rightarrow> Some (clone_schema s)) ap"

definition clone_any :: "json option \<Rightarrow> json option" where
  "clone_any v = (case v of None \<Rightarrow> None | Some JNull \<Rightarrow> None | Some j \<Rightarrow> Some (jclone j))"

definition clone_tool :: "tool \<Rightarrow> tool" where
  "clone_tool t = t\<lparr>tool_InputSchema := map_option clone_schema (tool_InputSchema t),
     tool_Config := clone_any (tool_Config t)\<rparr>"

definition clone_output_format :: "output_format \<Rightarrow> output_format" where
  "clone_output_format f = f\<lparr>of_JSONSchema := map_option clone_schema (of_JSONSchema f)\<rparr>"

definition clone_output_config :: "output_config \<Rightarrow> output_config" where
  "clone_output_config c = c\<lparr>oc_Modalities := clone_slice (oc_Modalities c)\<rparr>"

definition clone_tools :: "tool slice \<Rightarrow> tool slice" where
  "clone_tools ts = clone_slice (map_option (map clone_tool) ts)"

text \<open>\<open>cloneJSON\<close> of a \<open>ChainDefaults\<close>; \<open>cloneChainDefaults\<close> replaces its
  system prompt by a normalised copy.\<close>

definition clone_defaults_json :: "chain_defaults \<Rightarrow> chain_defaults" where
  "clone_defaults_json d = d\<lparr>
     cd_System := decodeFlexibleContentJSON (json_of_any (cd_System d)),
     cd_Tools := clone_tools (cd_Tools d),
     cd_GatewayTools := clone_slice (cd_GatewayTools d),
     cd_GatewayToolConfig := jclone_omitempty (cd_GatewayToolConfig d),
     cd_StopSequences := clone_slice (cd_StopSequences d),
     cd_OutputFormat := map_option clone_output_format (cd_OutputFormat d),
     cd_Output := map_option clone_output_config (cd_Output d),
     cd_Extensions := jclone_omitempty (cd_Extensions d),
     cd_Metadata := jclone_omitempty (cd_Metadata d)\<rparr>"

definition cloneChainDefaults :: "chain_defaults \<Rightarrow> chain_defaults" where
  "cloneChainDefaults d =
     (clone_defaults_json d)\<lparr>cd_System := normalizedMessageContent (cd_System d)\<rparr>"

section \<open>Records\<close>

definition clone_session :: "session_record \<Rightarrow> session_record" where
  "clone_session s = s\<lparr>sess_Metadata := jclone_omitempty (sess_Metadata s)\<rparr>"

definition clone_chain :: "chain_record \<Rightarrow> chain_record" where
  "clone_chain c = c\<lparr>ch_Defaults := clone_defaults_json (ch_Defaults c),
     ch_Metadata := jclone_omitempty (ch_Metadata c)\<rparr>"

definition clone_run :: "run_record \<Rightarrow> run_record" where
  "clone_run r = r\<lparr>run_EffectiveConfig := clone_defaults_json (run_EffectiveConfig r),
     run_Metadata := jclone_omitempty (run_Metadata r)\<rparr>"

text \<open>Decoding an item's blocks may fail, and then the whole clone is nil.\<close>

definition clone_item :: "timeline_item \<Rightarrow> timeline_item option" where
  "clone_item i =
     (case (if elems (ti_Content i) = [] then Some []
            else UnmarshalContentBlocks (json_of_blocks (ti_Content i))) of
        None \<Rightarrow> None
      | Some bs \<Rightarrow> Some (i\<lparr>ti_Content := Some bs,
          ti_Tool := map_option (\<lambda>t. t\<lparr>tt_Args := jclone_omitempty (tt_Args t)\<rparr>) (ti_Tool i)\<rparr>))"

definition clone_items :: "timeline_item list \<Rightarrow> timeline_item list" where
  "clone_items is = (case those (map clone_item is) of None \<Rightarrow> [] | Some cs \<Rightarrow> cs)"

definition clone_chain_message :: "chain_message \<Rightarrow> chain_message" where
  "clone_chain_message m = m\<lparr>cm_Content := content_of_any (json_of_any (cm_Content m))\<rparr>"

definition clone_effective_request :: "effective_request \<Rightarrow> effective_request option" where
  "clone_effective_request r =
     (case those (map (message_UnmarshalJSON \<circ> message_MarshalJSON) (er_Messages r)) of
        None \<Rightarrow> None
      | Some ms \<Rightarrow> Some (r\<lparr>er_EffectiveConfig := clone_defaults_json (er_EffectiveConfig r),
                          er_Messages := ms\<rparr>))"

definition clone_idempotency :: "idempotency_record \<Rightarrow> idempotency_record" where
  "clone_idempotency r = r\<lparr>id_ResultRef := jclone_map (id_ResultRef r)\<rparr>"

definition clone_attachment :: "attachment_record \<Rightarrow> attachment_record" where
  "clone_attachment r = r\<lparr>at_CredentialScopeJSON := jclone_map (at_CredentialScopeJSON r)\<rparr>"

section \<open>Message records\<close>

definition message_id :: "string \<Rightarrow> int \<Rightarrow> string" where
  "message_id chainID n = chainID @ ''_msg_'' @ itoa n"

fun message_records ::
  "string \<Rightarrow> string \<Rightarrow> message list \<Rightarrow> int \<Rightarrow> time \<Rightarrow> chain_message list" where
  "message_records chainID runID [] offset createdAt = []"
| "message_records chainID runID (m # ms) offset createdAt =
     \<lparr>cm_ID = message_id chainID (offset + 1), cm_ChainID = chainID, cm_RunID = runID,
      cm_Role = msg_Role m, cm_SequenceInChain = offset + 1,
      cm_Content = normalizedMessageContent (msg_Content m), cm_CreatedAt = createdAt\<rparr>
     # message_records chainID runID ms (offset + 1) createdAt"

definition buildChainMessageRecords ::
  "time \<Rightarrow> string \<Rightarrow> string \<Rightarrow> message list \<Rightarrow> int \<Rightarrow> time \<Rightarrow> chain_message list" where
  "buildChainMessageRecords now chainID runID messages offset createdAt =
     message_records chainID runID messages offset (if createdAt = 0 then now else createdAt)"

lemma length_message_records [simp]:
  "length (message_records c r ms off t) = length ms"
  by (induction ms arbitrary: off) auto

lemma length_buildChainMessageRecords [simp]:
  "length (buildChainMessageRecords now c r ms off t) = length ms"
  by (simp add: buildChainMessageRecords_def)

lemma nth_message_records:
  "i < length ms \<Longrightarrow>
   message_records c r ms off t ! i =
     \<lparr>cm_ID = message_id c (off + int i + 1), cm_ChainID = c, cm_RunID = r,
      cm_Role = msg_Role (ms ! i), cm_SequenceInChain = off + int i + 1,
      cm_Content = normalizedMessageContent (msg_Content (ms ! i)), cm_CreatedAt = t\<rparr>"
proof (induction ms arbitrary: off i)
  case (Cons m ms)
  then show ?case by (cases i) (simp_all add: algebra_simps)
qed simp

lemma message_id_inj: "message_id c m = message_id c n \<longleftrightarrow> m = n"
  by (simp add: message_id_def itoa_inj)

section \<open>Clones of well-formed data\<close>

lemma cloneContentBlocks_well_tagged:
  "list_all well_tagged bs \<Longrightarrow> cloneContentBlocks (Some bs) = nil_if_empty bs"
  by (simp add: cloneContentBlocks_def blocks_roundtrip nil_if_empty_def)

lemma cloneContentBlocks_Nil [simp]: "cloneContentBlocks None = None"
  by (simp add: cloneContentBlocks_def)

lemma length_cloneMessages [simp]: "length (cloneMessages ms) = length ms"
  by (simp add: cloneMessages_def)

lemma cloneMessages_Nil_iff [simp]: "cloneMessages ms = [] \<longleftrightarrow> ms = []"
  by (simp add: cloneMessages_def)

lemma cloneMessages_append: "cloneMessages (xs @ ys) = cloneMessages xs @ cloneMessages ys"
  by (simp add: cloneMessages_def)

lemma map_role_cloneMessages [simp]: "map msg_Role (cloneMessages ms) = map msg_Role ms"
  by (simp add: cloneMessages_def)

lemma clone_slice_idem [simp]: "clone_slice (clone_slice s) = clone_slice s"
  by (simp add: clone_slice_def)

lemma normalizeToolResultContent_ne: "elems (normalizeToolResultContent c) \<noteq> []"
  by (simp add: normalizeToolResultContent_def Let_def)

text \<open>Decoded contents: what a clone of the program's data looks like.\<close>

definition normal_content :: "content \<Rightarrow> bool" where
  "normal_content c =
     (case c of
        CNil \<Rightarrow> True
      | CStr _ \<Rightarrow> True
      | CBlocks None \<Rightarrow> True
      | CBlocks (Some bs) \<Rightarrow> bs \<noteq> [] \<and> list_all well_tagged bs
      | _ \<Rightarrow> False)"

lemma normalizedMessageContent_normal:
  "normal_content c \<Longrightarrow> normalizedMessageContent c = c"
  by (cases c)
    (auto simp: normal_content_def normalizedMessageContent_def cloneContentBlocks_well_tagged
      nil_if_empty_def split: option.splits)

lemma cloneMessages_normal:
  "list_all (\<lambda>m. normal_content (msg_Content m)) ms \<Longrightarrow> cloneMessages ms = ms"
  by (induction ms) (auto simp: cloneMessages_def normalizedMessageContent_normal)

lemma clone_session_fields [simp]:
  "sess_ID (clone_session s) = sess_ID s" "sess_OrgID (clone_session s) = sess_OrgID s"
  "sess_UpdatedAt (clone_session s) = sess_UpdatedAt s"
  "sess_LatestChainID (clone_session s) = sess_LatestChainID s"
  "sess_ExternalSessionID (clone_session s) = sess_ExternalSessionID s"
  by (simp_all add: clone_session_def)

lemma clone_chain_fields [simp]:
  "ch_ID (clone_chain c) = ch_ID c" "ch_OrgID (clone_chain c) = ch_OrgID c"
  "ch_SessionID (clone_chain c) = ch_SessionID c"
  "ch_Status (clone_chain c) = ch_Status c"
  "ch_ChainVersion (clone_chain c) = ch_ChainVersion c"
  "ch_MessageCountCached (clone_chain c) = ch_MessageCountCached c"
  "ch_ActiveAttachment (clone_chain c) = ch_ActiveAttachment c"
  "ch_UpdatedAt (clone_chain c) = ch_UpdatedAt c" "ch_CreatedAt (clone_chain c) = ch_CreatedAt c"
  by (simp_all add: clone_chain_def)

lemma clone_run_fields [simp]:
  "run_ID (clone_run r) = run_ID r" "run_OrgID (clone_run r) = run_OrgID r"
  "run_ChainID (clone_run r) = run_ChainID r" "run_Status (clone_run r) = run_Status r"
  by (simp_all add: clone_run_def)

lemma clone_idempotency_fields [simp]:
  "id_RequestHash (clone_idempotency r) = id_RequestHash r"
  "id_ExpiresAt (clone_idempotency r) = id_ExpiresAt r"
  "id_Key (clone_idempotency r) = id_Key r"
  by (simp_all add: clone_idempotency_def)

lemma clone_idempotency_idem [simp]:
  "clone_idempotency (clone_idempotency r) = clone_idempotency r"
  by (simp add: clone_idempotency_def)

section \<open>Cloning twice\<close>

lemma length_those: "those xs = Some ys \<Longrightarrow> length ys = length xs"
  by (induction xs arbitrary: ys) (auto split: option.splits)

lemma decoded_blocks_ne:
  "UnmarshalContentBlocks (json_of_blocks s) = Some bs \<Longrightarrow> elems s \<noteq> [] \<Longrightarrow> bs \<noteq> []"
  by (cases s) (auto simp: UnmarshalContentBlocks_def json_of_blocks_def dest: length_those)

lemma cloneContentBlocks_idem [simp]: "cloneContentBlocks (cloneContentBlocks s) = cloneContentBlocks s"
proof (cases "elems s = []")
  case False
  then obtain bs where s: "s = Some bs" "bs \<noteq> []" by (cases s) auto
  show ?thesis
  proof (cases "UnmarshalContentBlocks (json_of_blocks s)")
    case None
    then show ?thesis using s by (simp add: cloneContentBlocks_def)
  next
    case (Some ds)
    then have "list_all well_tagged ds" "ds \<noteq> []"
      using decoded_blocks_well_tagged decoded_blocks_ne False by blast+
    then show ?thesis
      using Some False cloneContentBlocks_well_tagged [of ds]
      by (simp add: cloneContentBlocks_def [of s] nil_if_empty_def)
  qed
qed (simp add: cloneContentBlocks_def)

text \<open>Content that is not a raw JSON value.\<close>

definition typed_content :: "content \<Rightarrow> bool" where
  "typed_content c = (case c of CJson _ \<Rightarrow> False | _ \<Rightarrow> True)"

lemma normalizedMessageContent_idem:
  "typed_content c \<Longrightarrow> normalizedMessageContent (normalizedMessageContent c) = normalizedMessageContent c"
  by (cases c) (simp_all add: typed_content_def normalizedMessageContent_def)

lemma normalizedMessageContent_CNil: "typed_content c \<Longrightarrow> normalizedMessageContent c = CNil \<longleftrightarrow> c = CNil"
  by (cases c) (simp_all add: typed_content_def normalizedMessageContent_def)

lemma cloneMessages_idem_aux:
  "list_all (\<lambda>m. typed_content (msg_Content m)) ms \<Longrightarrow> cloneMessages (cloneMessages ms) = cloneMessages ms"
  by (induction ms) (auto simp: cloneMessages_def normalizedMessageContent_idem)

lemma clone_schema_idem [simp]: "clone_schema (clone_schema s) = clone_schema s"
proof (induction s rule: clone_schema.induct)
  case (1 t ps rq d en it ap)
  have ps: "map (\<lambda>x. clone_schema (snd x)) kv = map (\<lambda>x. clone_schema (clone_schema (snd x))) kv" if "ps = Some kv" for kv
   using 1(1)[OF that] by fastforce
  show ?case using 1 ps by (auto simp: nil_if_empty_def case_prod_beta comp_def split: option.splits)
qed

lemma clone_any_idem [simp]: "clone_any (clone_any v) = clone_any v"
  by (auto simp: clone_any_def split: option.splits json.splits)

lemma clone_tool_idem [simp]: "clone_tool (clone_tool t) = clone_tool t"
  by (cases t) (auto simp: clone_tool_def option.map_comp comp_def)

lemma clone_output_idem [simp]:
  "clone_output_format (clone_output_format f) = clone_output_format f"
  "clone_output_config (clone_output_config c) = clone_output_config c"
  by (auto simp: clone_output_format_def clone_output_config_def option.map_comp comp_def)


text \<open>The copies the manager makes of a history are stable: copying a copy changes
  nothing, tool results and unknown blocks included, for messages whose content is a text or
  blocks.\<close>

theorem clone_messages_idempotent:
  assumes "list_all (\<lambda>m. typed_content (msg_Content m)) ms"
  shows "cloneMessages (cloneMessages ms) = cloneMessages ms"
  using assms by (rule cloneMessages_idem_aux)

end
