(* ===== verification/Store.thy ===== *)
theory Store
  imports Clone
begin

text \<open>
  The interface \<open>Store\<close> of \<open>pkg/gateway/chains/store.go\<close>: a record of operations over
  an arbitrary state, so that the manager is written once for every store, and the locale
  \<open>chain_store\<close> with the laws a store promises. The context argument is dropped; the
  current time, where an implementation reads the clock, is an argument.
\<close>

record 's store =
  UpsertSession :: "session_record \<Rightarrow> ('s, gerr + unit) state"
  ListSessions :: "string \<Rightarrow> ('s, gerr + session_record list) state"
  GetSession :: "string \<Rightarrow> ('s, gerr + session_record) state"
  GetSessionByExternal :: "string \<Rightarrow> string \<Rightarrow> ('s, gerr + session_record) state"
  ListSessionChains :: "string \<Rightarrow> ('s, gerr + chain_record list) state"
  SaveChain :: "time \<Rightarrow> chain_record \<Rightarrow> message list \<Rightarrow> ('s, gerr + unit) state"
  UpdateChain :: "chain_record \<Rightarrow> ('s, gerr + unit) state"
  ListChains :: "string \<Rightarrow> string \<Rightarrow> bool \<Rightarrow> ('s, gerr + chain_record list) state"
  GetChain :: "string \<Rightarrow> ('s, gerr + chain_record \<times> message list) state"
  ListChainMessages :: "string \<Rightarrow> ('s, gerr + chain_message list) state"
  AppendChainMessages ::
    "time \<Rightarrow> string \<Rightarrow> string \<Rightarrow> message list \<Rightarrow> ('s, gerr + unit) state"
  SetChainResumeTokenHash :: "string \<Rightarrow> string \<Rightarrow> ('s, gerr + unit) state"
  GetChainResumeTokenHash :: "string \<Rightarrow> ('s, gerr + string) state"
  CreateRun :: "run_record \<Rightarrow> ('s, gerr + unit) state"
  UpdateRun :: "run_record \<Rightarrow> ('s, gerr + unit) state"
  GetRun :: "string \<Rightarrow> ('s, gerr + run_record) state"
  ListChainRuns :: "string \<Rightarrow> ('s, gerr + run_record list) state"
  AppendRunItems :: "string \<Rightarrow> timeline_item list \<Rightarrow> ('s, gerr + unit) state"
  GetRunTimeline :: "string \<Rightarrow> ('s, gerr + timeline_item list) state"
  SaveEffectiveRequest :: "effective_request \<Rightarrow> ('s, gerr + unit) state"
  GetEffectiveRequest :: "string \<Rightarrow> ('s, gerr + effective_request option) state"
  SaveAttachment :: "attachment_record \<Rightarrow> ('s, gerr + unit) state"
  CloseAttachment :: "string \<Rightarrow> string \<Rightarrow> time \<Rightarrow> ('s, gerr + unit) state"
  SaveIdempotency :: "idempotency_record \<Rightarrow> ('s, gerr + unit) state"
  GetIdempotency :: "time \<Rightarrow> idempotency_scope \<Rightarrow> ('s, gerr + idempotency_record) state"

definition scope_of :: "idempotency_record \<Rightarrow> idempotency_scope" where
  "scope_of r = \<lparr>sc_OrgID = id_OrgID r, sc_PrincipalID = id_PrincipalID r,
     sc_ChainID = id_ChainID r, sc_Operation = id_Operation r, sc_Key = id_Key r\<rparr>"

text \<open>A record is readable until it expires; a zero expiry means never.\<close>

definition live :: "time \<Rightarrow> idempotency_record \<Rightarrow> bool" where
  "live now r = (\<not> (id_ExpiresAt r \<noteq> 0 \<and> now > id_ExpiresAt r))"

section \<open>The contract\<close>

text \<open>
  The laws, over views of the abstract state: the chains with their histories, the resume
  token hashes and the idempotency records. \<open>same\<close> says which scopes a store identifies.
\<close>

locale chain_store =
  fixes S :: "'s store"
    and chains :: "'s \<Rightarrow> string \<Rightarrow> chain_record option"
    and hist :: "'s \<Rightarrow> string \<Rightarrow> message list"
    and token :: "'s \<Rightarrow> string \<Rightarrow> string"
    and idem :: "'s \<Rightarrow> idempotency_scope \<Rightarrow> idempotency_record option"
    and same :: "idempotency_scope \<Rightarrow> idempotency_scope \<Rightarrow> bool"
  assumes get_chain:
    "run_state (GetChain S c) s =
       ((case chains s c of None \<Rightarrow> Inl ErrNotFound
         | Some r \<Rightarrow> Inr (clone_chain r, cloneMessages (hist s c))), s)"
    and save_chain:
    "wp (SaveChain S now r h) (\<lambda>x s'. x = Inr () \<and>
       chains s' = (chains s)(ch_ID r \<mapsto> clone_chain r) \<and>
       hist s' = (hist s)(ch_ID r := cloneMessages h) \<and> token s' = token s \<and> idem s' = idem s) s"
    and update_chain:
    "wp (UpdateChain S r) (\<lambda>x s'. hist s' = hist s \<and> token s' = token s \<and> idem s' = idem s \<and>
       (if chains s (ch_ID r) = None then x = Inl ErrNotFound \<and> chains s' = chains s
        else x = Inr () \<and> chains s' = (chains s)(ch_ID r \<mapsto> clone_chain r))) s"
    and append_messages:
    "wp (AppendChainMessages S now c rid ms) (\<lambda>x s'. token s' = token s \<and> idem s' = idem s \<and>
       (case chains s c of
          None \<Rightarrow> x = Inl ErrNotFound \<and> chains s' = chains s \<and> hist s' = hist s
        | Some r \<Rightarrow> x = Inr () \<and>
            hist s' = (hist s)(c := hist s c @ cloneMessages ms) \<and>
            chains s' = (chains s)(c \<mapsto> r\<lparr>ch_MessageCountCached :=
              int (length (hist s c) + length ms)\<rparr>))) s"
    and set_token:
    "wp (SetChainResumeTokenHash S c tok) (\<lambda>x s'. chains s' = chains s \<and> hist s' = hist s \<and>
       idem s' = idem s \<and>
       (if chains s c = None then x = Inl ErrNotFound \<and> token s' = token s
        else x = Inr () \<and> token s' = (token s)(c := tok))) s"
    and get_token:
    "run_state (GetChainResumeTokenHash S c) s =
       (if chains s c = None then Inl ErrNotFound else Inr (token s c), s)"
    and save_idem:
    "wp (SaveIdempotency S ir) (\<lambda>x s'. x = Inr () \<and> chains s' = chains s \<and> hist s' = hist s \<and>
       token s' = token s \<and>
       idem s' = (\<lambda>sc. if same sc (scope_of ir) then Some (clone_idempotency ir) else idem s sc)) s"
    and get_idem:
    "run_state (GetIdempotency S now sc) s =
       ((case idem s sc of None \<Rightarrow> Inl ErrNotFound
         | Some r \<Rightarrow> if live now r then Inr (clone_idempotency r) else Inl ErrNotFound), s)"
    and upsert_session:
    "wp (UpsertSession S sess) (\<lambda>x s'. x = Inr () \<and> chains s' = chains s \<and> hist s' = hist s \<and>
       token s' = token s \<and> idem s' = idem s) s"
    and save_attachment:
    "wp (SaveAttachment S a) (\<lambda>x s'. x = Inr () \<and> chains s' = chains s \<and> hist s' = hist s \<and>
       token s' = token s \<and> idem s' = idem s) s"
    and close_attachment:
    "wp (CloseAttachment S aid reason t) (\<lambda>x s'. chains s' = chains s \<and> hist s' = hist s \<and>
       token s' = token s \<and> idem s' = idem s) s"
    and same_refl: "same sc sc"
begin

text \<open>A saved request is recognised until it expires.\<close>

lemma idempotency_roundtrip:
  assumes "live now r"
  shows "wp (SaveIdempotency S r) (\<lambda>x s'. x = Inr () \<and>
     run_state (GetIdempotency S now (scope_of r)) s' = (Inr (clone_idempotency r), s')) s"
proof (rule wp_mono [OF save_idem])
  fix x s'
  assume "x = Inr () \<and> chains s' = chains s \<and> hist s' = hist s \<and> token s' = token s \<and>
    idem s' = (\<lambda>sc. if same sc (scope_of r) then Some (clone_idempotency r) else idem s sc)"
  moreover have "live now (clone_idempotency r) = live now r" by (simp add: live_def)
  ultimately show "x = Inr () \<and>
      run_state (GetIdempotency S now (scope_of r)) s' = (Inr (clone_idempotency r), s')"
    using assms by (simp add: get_idem same_refl)
qed

text \<open>A saved chain is read back, and its token is what was set last.\<close>

lemma chain_roundtrip:
  "wp (SaveChain S now r h) (\<lambda>x s'. x = Inr () \<and>
     run_state (GetChain S (ch_ID r)) s'
       = (Inr (clone_chain (clone_chain r), cloneMessages (cloneMessages h)), s')) s"
  by (rule wp_mono [OF save_chain]) (simp add: get_chain)

lemma token_roundtrip:
  assumes "chains s c \<noteq> None"
  shows "wp (SetChainResumeTokenHash S c h) (\<lambda>x s'. x = Inr () \<and>
     run_state (GetChainResumeTokenHash S c) s' = (Inr h, s')) s"
  by (rule wp_mono [OF set_token]) (use assms in \<open>auto simp: get_token\<close>)

text \<open>The cached message count is the length of the history after an append.\<close>

lemma append_counts:
  assumes "chains s c \<noteq> None"
  shows "wp (AppendChainMessages S now c rid ms) (\<lambda>x s'. x = Inr () \<and>
     (\<exists>r. chains s' c = Some r \<and> ch_MessageCountCached r = int (length (hist s' c)))) s"
  by (rule wp_mono [OF append_messages]) (use assms in auto)

end

text \<open>A store that also keeps the records of runs, apart from the chains.\<close>

locale run_store = chain_store +
  assumes create_run: "wp (CreateRun S r) (\<lambda>_ s'. chains s' = chains s \<and> hist s' = hist s) s"
    and update_run: "wp (UpdateRun S r) (\<lambda>_ s'. chains s' = chains s \<and> hist s' = hist s) s"
    and append_items: "wp (AppendRunItems S i items) (\<lambda>_ s'. chains s' = chains s \<and> hist s' = hist s) s"
    and save_effective: "wp (SaveEffectiveRequest S e) (\<lambda>_ s'. chains s' = chains s \<and> hist s' = hist s) s"
begin

text \<open>A property of the chains and histories is kept by every operation on runs.\<close>

lemma keeps_runs:
  assumes "\<And>s s'. chains s' = chains s \<Longrightarrow> hist s' = hist s \<Longrightarrow> Q s \<Longrightarrow> Q s'"
  shows "preserves Q (CreateRun S r)" "preserves Q (UpdateRun S r)"
    "preserves Q (AppendRunItems S i items)" "preserves Q (SaveEffectiveRequest S e)"
    "preserves Q (SaveAttachment S a)" "preserves Q (CloseAttachment S j reason t)"
    "preserves Q (SaveIdempotency S ir)" "preserves Q (UpsertSession S sess)"
  by (rule preservesI, rule wp_mono [OF create_run], use assms in blast)
    (rule preservesI, rule wp_mono [OF update_run], use assms in blast,
     rule preservesI, rule wp_mono [OF append_items], use assms in blast,
     rule preservesI, rule wp_mono [OF save_effective], use assms in blast,
     rule preservesI, rule wp_mono [OF save_attachment], use assms in blast,
     rule preservesI, rule wp_mono [OF close_attachment], use assms in blast,
     rule preservesI, rule wp_mono [OF save_idem], use assms in blast,
     rule preservesI, rule wp_mono [OF upsert_session], use assms in blast)

lemma keeps_reads: "preserves Q (GetChain S c)" "preserves Q (GetChainResumeTokenHash S c)"
  "preserves Q (GetIdempotency S t sc)"
  by (simp_all add: preserves_def get_chain get_token get_idem)

end

end
