(* ===== verification/PayloadJson.thy ===== *)
theory PayloadJson
  imports Clone
begin

text \<open>
  \<open>json.Marshal\<close> of the request payloads of the chain APIs, which
  \<open>payloadHash\<close> (\<open>pkg/gateway/chains/manager.go\<close>) hashes to recognise a repeated
  request. Field order and \<open>omitempty\<close> follow the struct tags of
  \<open>pkg/core/types\<close>.
\<close>

definition omit_int :: "string \<Rightarrow> int \<Rightarrow> jobj" where
  "omit_int n i = (if i = 0 then [] else [(n, JInt i)])"

definition omit_num :: "string \<Rightarrow> rat \<Rightarrow> jobj" where
  "omit_num n r = (if r = 0 then [] else [(n, JNum r)])"

definition omit_list :: "string \<Rightarrow> ('a \<Rightarrow> json) \<Rightarrow> 'a list \<Rightarrow> jobj" where
  "omit_list n f xs = (if xs = [] then [] else [(n, JArr (map f xs))])"

definition omit_map :: "string \<Rightarrow> jobj option \<Rightarrow> jobj" where
  "omit_map n m =
     (case m of None \<Rightarrow> [] | Some kv \<Rightarrow> if kv = [] then [] else [(n, JObj kv)])"

fun json_of_schema :: "json_schema \<Rightarrow> json" where
  "json_of_schema (JSONSchema t ps rq d en it ap) =
     JObj ([(''type'', JStr t)]
       @ (case ps of None \<Rightarrow> []
          | Some kv \<Rightarrow> if kv = [] then []
                      else [(''properties'', JObj (map (\<lambda>(k, s). (k, json_of_schema s)) kv))])
       @ omit_list ''required'' JStr (elems rq)
       @ omit_str ''description'' d
       @ omit_list ''enum'' JStr (elems en)
       @ (case it of None \<Rightarrow> [] | Some s \<Rightarrow> [(''items'', json_of_schema s)])
       @ omit_opt ''additionalProperties'' (map_option JBool ap))"

definition json_of_tool :: "tool \<Rightarrow> json" where
  "json_of_tool t =
     JObj ([(''type'', JStr (tool_Type t))]
       @ omit_str ''name'' (tool_Name t)
       @ omit_str ''description'' (tool_Description t)
       @ omit_opt ''input_schema'' (map_option json_of_schema (tool_InputSchema t))
       @ omit_opt ''config'' (tool_Config t))"

definition json_of_tool_choice :: "tool_choice \<Rightarrow> json" where
  "json_of_tool_choice t = JObj ([(''type'', JStr (tc_Type t))] @ omit_str ''name'' (tc_Name t))"

definition json_of_output_format :: "output_format \<Rightarrow> json" where
  "json_of_output_format f =
     JObj ([(''type'', JStr (of_Type f))]
       @ omit_opt ''json_schema'' (map_option json_of_schema (of_JSONSchema f)))"

definition json_of_output_config :: "output_config \<Rightarrow> json" where
  "json_of_output_config c =
     JObj (omit_list ''modalities'' JStr (elems (oc_Modalities c))
       @ omit_opt ''image'' (map_option (\<lambda>s. JObj (omit_str ''size'' s)) (oc_Image c)))"

definition json_of_voice_output :: "voice_output \<Rightarrow> json" where
  "json_of_voice_output v =
     JObj ([(''voice'', JStr (vo_Voice v))]
       @ omit_num ''speed'' (vo_Speed v)
       @ omit_num ''volume'' (vo_Volume v)
       @ omit_str ''emotion'' (vo_Emotion v)
       @ omit_str ''format'' (vo_Format v)
       @ omit_int ''sample_rate'' (vo_SampleRate v))"

definition json_of_voice_config :: "voice_config \<Rightarrow> json" where
  "json_of_voice_config v =
     JObj (omit_opt ''output'' (map_option json_of_voice_output (vc_Output v)))"

definition json_of_defaults :: "chain_defaults \<Rightarrow> json" where
  "json_of_defaults d =
     JObj (omit_str ''model'' (cd_Model d)
       @ (case cd_System d of CNil \<Rightarrow> [] | c \<Rightarrow> [(''system'', json_of_any c)])
       @ omit_list ''tools'' json_of_tool (elems (cd_Tools d))
       @ omit_list ''gateway_tools'' JStr (elems (cd_GatewayTools d))
       @ omit_map ''gateway_tool_config'' (cd_GatewayToolConfig d)
       @ omit_opt ''tool_choice'' (map_option json_of_tool_choice (cd_ToolChoice d))
       @ omit_int ''max_tokens'' (cd_MaxTokens d)
       @ omit_opt ''temperature'' (map_option JNum (cd_Temperature d))
       @ omit_opt ''top_p'' (map_option JNum (cd_TopP d))
       @ omit_opt ''top_k'' (map_option JInt (cd_TopK d))
       @ omit_list ''stop_sequences'' JStr (elems (cd_StopSequences d))
       @ omit_str ''stt_model'' (cd_STTModel d)
       @ omit_str ''tts_model'' (cd_TTSModel d)
       @ omit_opt ''output_format'' (map_option json_of_output_format (cd_OutputFormat d))
       @ omit_opt ''output'' (map_option json_of_output_config (cd_Output d))
       @ omit_opt ''voice'' (map_option json_of_voice_config (cd_Voice d))
       @ omit_map ''extensions'' (cd_Extensions d)
       @ omit_map ''metadata'' (cd_Metadata d))"

definition json_of_start_payload :: "start_payload \<Rightarrow> json" where
  "json_of_start_payload p =
     JObj (omit_str ''external_session_id'' (sp_ExternalSessionID p)
       @ [(''defaults'', json_of_defaults (sp_Defaults p))]
       @ omit_list ''history'' message_MarshalJSON (sp_History p)
       @ omit_map ''metadata'' (sp_Metadata p))"

definition json_of_update_payload :: "chain_defaults \<Rightarrow> json" where
  "json_of_update_payload d = JObj [(''defaults'', json_of_defaults d)]"

definition json_of_messages :: "message list \<Rightarrow> json" where
  "json_of_messages ms = (if ms = [] then JNull else JArr (map message_MarshalJSON ms))"

definition json_of_run_payload :: "run_payload \<Rightarrow> json" where
  "json_of_run_payload p =
     JObj ([(''input'', json_of_messages (rp_Input p))]
       @ omit_opt ''overrides'' (map_option json_of_defaults (rp_Overrides p))
       @ omit_map ''metadata'' (rp_Metadata p))"

definition json_of_fork_request :: "fork_request \<Rightarrow> json" where
  "json_of_fork_request p =
     JObj (omit_list ''history'' message_MarshalJSON (elems (fr_History p))
       @ [(''defaults'', json_of_defaults (fr_Defaults p))]
       @ omit_map ''metadata'' (fr_Metadata p)
       @ omit_str ''forked_from_run_id'' (fr_ForkedFromRunID p))"

definition json_of_regenerate_request :: "regenerate_request \<Rightarrow> json" where
  "json_of_regenerate_request p =
     JObj ([(''defaults'', json_of_defaults (rr_Defaults p))]
       @ omit_map ''metadata'' (rr_Metadata p))"

definition json_of_tool_result_payload :: "block slice \<Rightarrow> bool \<Rightarrow> json" where
  "json_of_tool_result_payload content isError =
     JObj [(''content'', json_of_blocks content), (''is_error'', JBool isError)]"

end
