(* ===== verification/Capabilities.thy ===== *)
theory Capabilities
  imports ChainTypes
begin

text \<open>
  The capability registry (\<open>pkg/core/types/capabilities.go\<close>): the tables of providers
  and models, the lookup with its fallback from a model to its provider, and the validation
  of a request against the capabilities of its model.
\<close>

record model_capability =
  cap_ID :: string
  cap_Provider :: string
  cap_InputModalities :: "string list"
  cap_OutputModalities :: "string list"
  SupportsFunctionTools :: bool
  SupportsGatewayTools :: bool
  SupportsStructuredOutput :: bool
  SupportsReasoningControls :: bool
  SupportsUpstreamWebSocket :: bool
  SupportsContinuation :: bool
  SupportsVision :: bool
  SupportsDocuments :: bool
  SupportsAudioInput :: bool
  SupportsAudioOutput :: bool
  MaxContextWindow :: int

definition zero_capability :: model_capability where
  "zero_capability = \<lparr>cap_ID = [], cap_Provider = [], cap_InputModalities = [],
     cap_OutputModalities = [], SupportsFunctionTools = False, SupportsGatewayTools = False,
     SupportsStructuredOutput = False, SupportsReasoningControls = False,
     SupportsUpstreamWebSocket = False, SupportsContinuation = False, SupportsVision = False,
     SupportsDocuments = False, SupportsAudioInput = False, SupportsAudioOutput = False,
     MaxContextWindow = 0\<rparr>"

text \<open>What every provider of the table supports.\<close>

definition tool_capability :: "string \<Rightarrow> model_capability" where
  "tool_capability p = zero_capability\<lparr>cap_Provider := p, SupportsFunctionTools := True,
     SupportsGatewayTools := True, SupportsStructuredOutput := True\<rparr>"

definition cap_anthropic :: model_capability where
  "cap_anthropic = (tool_capability ''anthropic'')\<lparr>
     cap_InputModalities := [''text'', ''image'', ''document''],
     cap_OutputModalities := [''text''],
     SupportsReasoningControls := True, SupportsVision := True, SupportsDocuments := True,
     MaxContextWindow := 200000\<rparr>"

definition cap_openai :: model_capability where
  "cap_openai = (tool_capability ''openai'')\<lparr>
     cap_InputModalities := [''text'', ''image''], cap_OutputModalities := [''text''],
     SupportsVision := True, MaxContextWindow := 128000\<rparr>"

definition cap_oai_resp :: model_capability where
  "cap_oai_resp = (tool_capability ''oai-resp'')\<lparr>
     cap_InputModalities := [''text'', ''image'', ''document''],
     cap_OutputModalities := [''text'', ''audio''],
     SupportsReasoningControls := True, SupportsUpstreamWebSocket := True,
     SupportsContinuation := True, SupportsVision := True, SupportsDocuments := True,
     SupportsAudioOutput := True, MaxContextWindow := 200000\<rparr>"

definition cap_gemini :: "string \<Rightarrow> model_capability" where
  "cap_gemini p = (tool_capability p)\<lparr>
     cap_InputModalities := [''text'', ''image'', ''document'', ''audio''],
     cap_OutputModalities := [''text'', ''image''],
     SupportsReasoningControls := True, SupportsVision := True, SupportsDocuments := True,
     SupportsAudioInput := True, MaxContextWindow := 1048576\<rparr>"

definition cap_text_image :: "string \<Rightarrow> model_capability" where
  "cap_text_image p = (tool_capability p)\<lparr>
     cap_InputModalities := [''text'', ''image''], cap_OutputModalities := [''text''],
     SupportsVision := True, MaxContextWindow := 128000\<rparr>"

definition cap_cerebras :: model_capability where
  "cap_cerebras = (tool_capability ''cerebras'')\<lparr>
     cap_InputModalities := [''text''], cap_OutputModalities := [''text''],
     MaxContextWindow := 128000\<rparr>"

definition providerCapabilities :: "(string, model_capability) gomap" where
  "providerCapabilities =
     [(''anthropic'', cap_anthropic), (''openai'', cap_openai), (''oai-resp'', cap_oai_resp),
      (''gem-dev'', cap_gemini ''gem-dev''), (''gem-vert'', cap_gemini ''gem-vert''),
      (''groq'', cap_text_image ''groq''), (''cerebras'', cap_cerebras),
      (''openrouter'', cap_text_image ''openrouter'')]"

definition modelCapabilities :: "(string, model_capability) gomap" where
  "modelCapabilities = map (\<lambda>(id, c). (id, c\<lparr>cap_ID := id\<rparr>))
     [(''anthropic/claude-sonnet-4'', cap_anthropic),
      (''anthropic/claude-haiku-4-5'', cap_anthropic),
      (''openai/gpt-4o'', cap_openai),
      (''openai/gpt-4o-mini'', cap_openai),
      (''oai-resp/gpt-5'', cap_oai_resp),
      (''oai-resp/gpt-5-mini'', cap_oai_resp),
      (''gem-dev/gemini-2.5-pro'', cap_gemini ''gem-dev''),
      (''gem-dev/gemini-2.5-flash'', cap_gemini ''gem-dev''),
      (''gem-vert/gemini-2.5-pro'', cap_gemini ''gem-vert''),
      (''gem-vert/gemini-2.5-flash'', cap_gemini ''gem-vert''),
      (''gem-vert/gemini-3-flash-preview'', cap_gemini ''gem-vert''),
      (''groq/llama-3.3-70b-versatile'', cap_text_image ''groq''),
      (''cerebras/llama-3.3-70b'', cap_cerebras),
      (''openrouter/openai/gpt-4o'', cap_text_image ''openrouter'')]"

definition splitCanonicalModelID :: "string \<Rightarrow> (string \<times> string) option" where
  "splitCanonicalModelID model =
     (case cut CHR ''/'' (trim_space model) of
        None \<Rightarrow> None
      | Some (p, n) \<Rightarrow>
          if trim_space p = [] \<or> trim_space n = [] then None else Some (p, n))"

definition LookupCapability :: "string \<Rightarrow> model_capability option" where
  "LookupCapability m =
     (let model = trim_space m in
      case mget modelCapabilities model of
        Some c \<Rightarrow> Some c
      | None \<Rightarrow>
          (case splitCanonicalModelID model of
             None \<Rightarrow> None
           | Some (provider, _) \<Rightarrow>
               map_option (\<lambda>c. c\<lparr>cap_ID := model\<rparr>) (mget providerCapabilities provider)))"

text \<open>The lookup with its Go zero value, for the calls that ignore \<open>ok\<close>.\<close>

definition capability_or_zero :: "string \<Rightarrow> model_capability" where
  "capability_or_zero m =
     (case LookupCapability m of None \<Rightarrow> zero_capability | Some c \<Rightarrow> c)"

fun contentBlockType :: "block \<Rightarrow> string" where
  "contentBlockType (TextBlock ty _) = ty"
| "contentBlockType (ImageBlock ty _) = ty"
| "contentBlockType (AudioBlock ty _ _) = ty"
| "contentBlockType (AudioSTTBlock ty _ _) = ty"
| "contentBlockType (VideoBlock ty _) = ty"
| "contentBlockType (DocumentBlock ty _ _) = ty"
| "contentBlockType (ToolUseBlock ty _ _ _) = ty"
| "contentBlockType (ToolResultBlock ty _ _ _) = ty"
| "contentBlockType (ThinkingBlock ty _ _) = ty"
| "contentBlockType (ServerToolUseBlock ty _ _ _) = ty"
| "contentBlockType (WebSearchToolResultBlock ty _ _) = ty"
| "contentBlockType _ = []"

definition unsupported :: "string \<Rightarrow> canonical_error" where
  "unsupported msg = NewCanonicalError ErrorCodeProtocolUnsupportedCapability msg"

definition block_capability_error :: "model_capability \<Rightarrow> block \<Rightarrow> canonical_error option" where
  "block_capability_error c b =
     (let ty = contentBlockType b in
      if ty = ''image'' then
        (if SupportsVision c then None
         else Some (unsupported ''image input is not supported by the selected model''))
      else if ty = ''document'' then
        (if SupportsDocuments c then None
         else Some (unsupported ''document input is not supported by the selected model''))
      else if ty = ''audio'' \<or> ty = ''audio_stt'' then
        (if SupportsAudioInput c then None
         else Some (unsupported ''audio input is not supported by the selected model''))
      else None)"

fun first_error :: "('a \<Rightarrow> 'e option) \<Rightarrow> 'a list \<Rightarrow> 'e option" where
  "first_error f [] = None"
| "first_error f (x # xs) = (case f x of Some e \<Rightarrow> Some e | None \<Rightarrow> first_error f xs)"

lemma first_error_None: "first_error f xs = None \<longleftrightarrow> (\<forall>x \<in> set xs. f x = None)"
  by (induction xs) (auto split: option.splits)

definition ValidateCapability ::
  "string \<Rightarrow> message list \<Rightarrow> chain_defaults \<Rightarrow> canonical_error option" where
  "ValidateCapability model messages d =
     (case LookupCapability model of
        None \<Rightarrow> Some (unsupported ''requested model is not supported by the capability registry'')
      | Some c \<Rightarrow>
          if elems (cd_Tools d) \<noteq> [] \<and> \<not> SupportsFunctionTools c then
            Some (unsupported ''function tools are not supported by the selected model'')
          else if elems (cd_GatewayTools d) \<noteq> [] \<and> \<not> SupportsGatewayTools c then
            Some (unsupported ''gateway tools are not supported by the selected model'')
          else if cd_OutputFormat d \<noteq> None \<and> \<not> SupportsStructuredOutput c then
            Some (unsupported ''structured output is not supported by the selected model'')
          else if (case cd_Voice d of None \<Rightarrow> False | Some v \<Rightarrow> vc_Output v \<noteq> None)
                  \<and> \<not> SupportsAudioOutput c then
            Some (unsupported ''audio output is not supported by the selected model'')
          else first_error (\<lambda>m. first_error (block_capability_error c) (elems (ContentBlocks m)))
                 messages)"

section \<open>What validation guarantees\<close>

definition block_supported :: "model_capability \<Rightarrow> block \<Rightarrow> bool" where
  "block_supported c b =
     ((contentBlockType b = ''image'' \<longrightarrow> SupportsVision c) \<and>
      (contentBlockType b = ''document'' \<longrightarrow> SupportsDocuments c) \<and>
      (contentBlockType b \<in> {''audio'', ''audio_stt''} \<longrightarrow> SupportsAudioInput c))"

definition request_supported ::
  "model_capability \<Rightarrow> message list \<Rightarrow> chain_defaults \<Rightarrow> bool" where
  "request_supported c messages d =
     ((elems (cd_Tools d) \<noteq> [] \<longrightarrow> SupportsFunctionTools c) \<and>
      (elems (cd_GatewayTools d) \<noteq> [] \<longrightarrow> SupportsGatewayTools c) \<and>
      (cd_OutputFormat d \<noteq> None \<longrightarrow> SupportsStructuredOutput c) \<and>
      (Option.bind (cd_Voice d) vc_Output \<noteq> None \<longrightarrow> SupportsAudioOutput c) \<and>
      (\<forall>m \<in> set messages. \<forall>b \<in> set (elems (ContentBlocks m)). block_supported c b))"

lemma block_capability_error_None: "block_capability_error c b = None \<longleftrightarrow> block_supported c b"
  by (auto simp: block_capability_error_def block_supported_def Let_def)

lemma bind_voice_None:
  "(case v of None \<Rightarrow> False | Some x \<Rightarrow> vc_Output x \<noteq> None) \<longleftrightarrow> Option.bind v vc_Output \<noteq> None"
  by (cases v) auto

lemma validate_capability_aux:
  "ValidateCapability model messages d = None \<longleftrightarrow>
   (\<exists>c. LookupCapability model = Some c \<and> request_supported c messages d)"
proof (cases "LookupCapability model")
  case None
  then show ?thesis by (simp add: ValidateCapability_def)
next
  case (Some c)
  have "first_error (\<lambda>m. first_error (block_capability_error c) (elems (ContentBlocks m))) messages
      = None \<longleftrightarrow> (\<forall>m \<in> set messages. \<forall>b \<in> set (elems (ContentBlocks m)). block_supported c b)"
    by (simp only: first_error_None block_capability_error_None)
  then show ?thesis
    using Some unfolding ValidateCapability_def request_supported_def bind_voice_None
    by simp
qed

lemma first_error_SomeD: "first_error f xs = Some e \<Longrightarrow> \<exists>x \<in> set xs. f x = Some e"
  by (induction xs) (auto split: option.splits)

lemma block_capability_error_code:
  "block_capability_error c b = Some e \<Longrightarrow> err_Code e = ErrorCodeProtocolUnsupportedCapability"
  by (auto simp: block_capability_error_def unsupported_def Let_def split: if_splits)

lemma ValidateCapability_code:
  "ValidateCapability model messages d = Some e \<Longrightarrow>
   err_Code e = ErrorCodeProtocolUnsupportedCapability"
  by (auto simp: ValidateCapability_def unsupported_def split: option.splits if_splits
      dest!: first_error_SomeD block_capability_error_code)

lemmas capability_defs = tool_capability_def cap_anthropic_def cap_openai_def cap_oai_resp_def
  cap_gemini_def cap_text_image_def cap_cerebras_def zero_capability_def

lemma providerCapabilities_all:
  "list_all (\<lambda>(_, c). SupportsFunctionTools c \<and> SupportsGatewayTools c \<and>
     SupportsStructuredOutput c) providerCapabilities"
  by (simp add: providerCapabilities_def capability_defs)

lemma providerCapabilities_tools:
  "mget providerCapabilities p = Some c \<Longrightarrow>
   SupportsFunctionTools c \<and> SupportsGatewayTools c \<and> SupportsStructuredOutput c"
  using providerCapabilities_all by (auto simp: list_all_iff dest!: mget_SomeD)

text \<open>The capability check accepts exactly the requests whose model is known and
  supports everything they use, and it refuses with one error code.\<close>

theorem capability_check_exact:
  "case ValidateCapability model messages d of
     None \<Rightarrow> \<exists>c. LookupCapability model = Some c \<and> request_supported c messages d
   | Some e \<Rightarrow> err_Code e = ErrorCodeProtocolUnsupportedCapability \<and>
       \<not> (\<exists>c. LookupCapability model = Some c \<and> request_supported c messages d)"
  using validate_capability_aux [of model messages d]
  by (auto dest: ValidateCapability_code split: option.split)

end
