(* ===== verification/Defaults.thy ===== *)
theory Defaults
  imports PayloadJson Capabilities "HOL-Library.List_Lexorder" "HOL-Library.Char_ord"
begin

text \<open>
  The pure functions of the chain manager (\<open>pkg/gateway/chains\<close>): merging of defaults
  and metadata, model names, credential scopes, and the statuses a run ends with.
\<close>

section \<open>Merging defaults\<close>

definition override :: "'a option \<Rightarrow> 'a option \<Rightarrow> 'a option" where
  "override current patch = (case patch of None \<Rightarrow> current | Some _ \<Rightarrow> patch)"

definition mergeDefaults :: "chain_defaults \<Rightarrow> chain_defaults \<Rightarrow> chain_defaults" where
  "mergeDefaults current patch = \<lparr>
     cd_Model = (if trim_space (cd_Model patch) \<noteq> [] then cd_Model patch else cd_Model current),
     cd_System = (if cd_System patch \<noteq> CNil then normalizedMessageContent (cd_System patch)
                  else cd_System current),
     cd_Tools = (if cd_Tools patch \<noteq> None then map_option (map clone_tool) (cd_Tools patch)
                 else cd_Tools current),
     cd_GatewayTools = (if cd_GatewayTools patch \<noteq> None then clone_slice (cd_GatewayTools patch)
                        else cd_GatewayTools current),
     cd_GatewayToolConfig = override (cd_GatewayToolConfig current)
                              (jclone_map (cd_GatewayToolConfig patch)),
     cd_ToolChoice = override (cd_ToolChoice current) (cd_ToolChoice patch),
     cd_MaxTokens = (if cd_MaxTokens patch \<noteq> 0 then cd_MaxTokens patch else cd_MaxTokens current),
     cd_Temperature = override (cd_Temperature current) (cd_Temperature patch),
     cd_TopP = override (cd_TopP current) (cd_TopP patch),
     cd_TopK = override (cd_TopK current) (cd_TopK patch),
     cd_StopSequences = (if cd_StopSequences patch \<noteq> None
                         then clone_slice (cd_StopSequences patch) else cd_StopSequences current),
     cd_STTModel = (if cd_STTModel patch \<noteq> [] then cd_STTModel patch else cd_STTModel current),
     cd_TTSModel = (if cd_TTSModel patch \<noteq> [] then cd_TTSModel patch else cd_TTSModel current),
     cd_OutputFormat = override (cd_OutputFormat current)
                         (map_option clone_output_format (cd_OutputFormat patch)),
     cd_Output = override (cd_Output current) (map_option clone_output_config (cd_Output patch)),
     cd_Voice = override (cd_Voice current) (cd_Voice patch),
     cd_Extensions = override (cd_Extensions current) (jclone_map (cd_Extensions patch)),
     cd_Metadata = override (cd_Metadata current) (jclone_map (cd_Metadata patch))\<rparr>"

definition valueOrZero :: "chain_defaults option \<Rightarrow> chain_defaults" where
  "valueOrZero overrides =
     (case overrides of None \<Rightarrow> zero_defaults | Some d \<Rightarrow> cloneChainDefaults d)"

lemma override_simps [simp]:
  "override c None = c" "override c (Some x) = Some x" "override (override c p) p = override c p"
  by (simp_all add: override_def split: option.splits)

lemma jclone_map_None [simp]: "jclone_map None = None"
  by (simp add: jclone_map_def)

lemma merge_zero_aux: "mergeDefaults c zero_defaults = c"
  by (simp add: mergeDefaults_def zero_defaults_def)

lemma merge_idem_aux: "mergeDefaults (mergeDefaults c p) p = mergeDefaults c p"
  by (simp add: mergeDefaults_def)

text \<open>Two patches with disjoint fields may be applied in either order; of two that set
  the same field the later wins. Stated for the model and the sampling settings.\<close>

lemma merge_model:
  "cd_Model (mergeDefaults c p) =
     (if trim_space (cd_Model p) = [] then cd_Model c else cd_Model p)"
  by (simp add: mergeDefaults_def)

section \<open>Metadata\<close>

text \<open>Assigning every member of one map into another.\<close>

definition assign_all :: "jobj \<Rightarrow> jobj \<Rightarrow> jobj" where
  "assign_all kvs m = fold (\<lambda>(k, v) acc. mput k v acc) kvs m"

definition mergeMetadata :: "jobj option \<Rightarrow> jobj option \<Rightarrow> jobj option" where
  "mergeMetadata base over =
     (if base = None \<and> over = None then None
      else Some (assign_all (jclone_obj (elems over)) (jclone_obj (elems base))))"

lemma mget_assign_all:
  "mwf kvs \<Longrightarrow> mget (assign_all kvs m) k = (case mget kvs k of Some v \<Rightarrow> Some v | None \<Rightarrow> mget m k)"
proof (induction kvs arbitrary: m)
  case (Cons p kvs)
  obtain k' v where p: "p = (k', v)" by (cases p)
  have "mwf kvs" "mget kvs k' = None"
    using Cons.prems by (auto simp: p mwf_def mget_def map_of_eq_None_iff)
  then show ?case
    using Cons.IH [of "mput k' v m"] by (auto simp: p assign_all_def mget_Cons split: option.splits)
qed (simp add: assign_all_def)

definition sub_object :: "string \<Rightarrow> jobj \<Rightarrow> jobj" where
  "sub_object n m = (case mget m n of Some (JObj o') \<Rightarrow> o' | _ \<Rightarrow> [])"

definition transportForAttachmentMode :: "AttachmentMode \<Rightarrow> string" where
  "transportForAttachmentMode mode =
     (case mode of
        AttachmentModeTurnWS \<Rightarrow> ''websocket''
      | AttachmentModeLiveWS \<Rightarrow> ''websocket''
      | AttachmentModeStatefulSSE \<Rightarrow> ''sse''
      | _ \<Rightarrow> ''http'')"

definition mergeRunMetadata :: "jobj option \<Rightarrow> AttachmentMode \<Rightarrow> string \<Rightarrow> jobj" where
  "mergeRunMetadata metadata mode protocol =
     (let merged = jclone_obj (elems metadata);
          obs = jclone_obj (sub_object ''observability'' merged)
      in mput ''observability''
           (JObj (mput ''attachment_mode'' (JStr (attachment_mode mode))
             (mput ''protocol'' (JStr (trim_space protocol))
               (mput ''transport'' (JStr (transportForAttachmentMode mode)) obs)))) merged)"

definition withChainRuntimeMetadata :: "jobj \<Rightarrow> int \<Rightarrow> jobj" where
  "withChainRuntimeMetadata metadata inputMessageCount =
     (let merged = jclone_obj metadata;
          rt = jclone_obj (sub_object ''chain_runtime'' merged)
      in mput ''chain_runtime''
           (JObj (mput ''input_message_count'' (JInt inputMessageCount) rt)) merged)"

text \<open>Go's conversion of a \<open>float64\<close> to \<open>int\<close> truncates.\<close>

definition truncate_rat :: "rat \<Rightarrow> int" where
  "truncate_rat r = (if r < 0 then \<lceil>r\<rceil> else \<lfloor>r\<rfloor>)"

definition runInputMessageCount :: "run_record \<Rightarrow> int" where
  "runInputMessageCount run =
     (let meta = jclone_obj (elems (run_Metadata run)) in
      case mget (sub_object ''chain_runtime'' meta) ''input_message_count'' of
        Some (JInt i) \<Rightarrow> i
      | Some (JNum r) \<Rightarrow> truncate_rat r
      | _ \<Rightarrow> 0)"

lemma truncate_of_int [simp]: "truncate_rat (of_int i) = i"
  by (simp add: truncate_rat_def)

lemma mget_sub_clone:
  "mget (sub_object n (jclone_obj m)) k = map_option jclone (mget (sub_object n m) k)"
  by (auto simp: sub_object_def jclone_obj_def [symmetric] split: option.splits json.splits)

lemma jclone_obj_mput: "jclone_obj (mput k v m) = mput k (jclone v) (jclone_obj m)"
  by (induction m) (auto simp: jclone_obj_def mput_Cons)

lemma runInputMessageCount_aux:
  "runInputMessageCount (r\<lparr>run_Metadata :=
     jclone_omitempty (Some (withChainRuntimeMetadata m n))\<rparr>) = n"
  by (simp add: runInputMessageCount_def withChainRuntimeMetadata_def Let_def sub_object_def
      jclone_omitempty_def jclone_obj_mput jclone_obj_def [symmetric])

section \<open>Model names and credential scopes\<close>

definition splitModel :: "string \<Rightarrow> (string \<times> string) option" where
  "splitModel model =
     (case cut CHR ''/'' (trim_space model) of
        None \<Rightarrow> None
      | Some (p, n) \<Rightarrow> if p = [] \<or> n = [] then None else Some (p, n))"

definition providerFromModel :: "string \<Rightarrow> string" where
  "providerFromModel model = (case splitModel model of None \<Rightarrow> [] | Some (p, _) \<Rightarrow> p)"

record credential_scope =
  ProviderKeys :: "(string, string) gomap"
  AllowedGatewayTools :: "string list"

definition provider_key :: "credential_scope \<Rightarrow> string \<Rightarrow> string" where
  "provider_key sc name =
     trim_space (case mget (ProviderKeys sc) name of None \<Rightarrow> [] | Some k \<Rightarrow> k)"

definition providerKeyFor :: "credential_scope \<Rightarrow> string \<Rightarrow> string" where
  "providerKeyFor sc provider =
     (let p = to_lower (trim_space provider) in
      if p = ''oai-resp''
      then (if provider_key sc ''oai-resp'' \<noteq> [] then provider_key sc ''oai-resp''
            else provider_key sc ''openai'')
      else provider_key sc p)"

definition AllowsModel :: "credential_scope \<Rightarrow> string \<Rightarrow> bool" where
  "AllowsModel sc model =
     (case splitModel model of None \<Rightarrow> False | Some (p, _) \<Rightarrow> providerKeyFor sc p \<noteq> [])"

definition AllowsGatewayTool :: "credential_scope \<Rightarrow> string \<Rightarrow> bool" where
  "AllowsGatewayTool sc name = (trim_space name \<in> set (AllowedGatewayTools sc))"

text \<open>The names one key of the scope announces.\<close>

definition announced :: "string \<times> string \<Rightarrow> string list" where
  "announced nk = (case nk of (name, key) \<Rightarrow>
     if trim_space key = [] then []
     else if name = ''openai'' then [''oai-resp'', name] else [name])"

definition AuthorizedProviders :: "credential_scope \<Rightarrow> string list" where
  "AuthorizedProviders sc = sort (remdups (concat (map announced (ProviderKeys sc))))"

definition AuthorizedGatewayTools :: "credential_scope \<Rightarrow> string list" where
  "AuthorizedGatewayTools sc = sort (remdups (AllowedGatewayTools sc))"

text \<open>A provider is announced exactly when its models are allowed; names of the table are
  in lower case and trimmed.\<close>

lemma announced_iff:
  "p \<in> set (announced (n, k)) \<longleftrightarrow>
    trim_space k \<noteq> [] \<and> (p = n \<or> n = ''openai'' \<and> p = ''oai-resp'')"
  by (auto simp: announced_def)

lemma AuthorizedProviders_iff:
  assumes "mwf (ProviderKeys sc)"
  shows "p \<in> set (AuthorizedProviders sc) \<longleftrightarrow>
    provider_key sc p \<noteq> [] \<or> (p = ''oai-resp'' \<and> provider_key sc ''openai'' \<noteq> [])"
proof -
  have key: "provider_key sc n \<noteq> [] \<longleftrightarrow> (\<exists>k. (n, k) \<in> set (ProviderKeys sc) \<and> trim_space k \<noteq> [])" for n
    using assms by (auto simp: provider_key_def mget_eq_Some_iff [symmetric] split: option.splits)
  have "p \<in> set (AuthorizedProviders sc) \<longleftrightarrow>
      (\<exists>n k. (n, k) \<in> set (ProviderKeys sc) \<and> p \<in> set (announced (n, k)))"
    unfolding AuthorizedProviders_def by force
  then show ?thesis unfolding key announced_iff by blast
qed

section \<open>How a run ends\<close>

definition toRunStatus :: "RunStopReason \<Rightarrow> gerr option \<Rightarrow> RunStatus" where
  "toRunStatus stopReason err =
     (case stopReason of
        RunStopReasonEndTurn \<Rightarrow> RunStatusCompleted
      | RunStopReasonCancelled \<Rightarrow> RunStatusCancelled
      | RunStopReasonTimeout \<Rightarrow> RunStatusTimedOut
      | _ \<Rightarrow> if err \<noteq> None then RunStatusFailed else RunStatusCompleted)"

definition stopReasonFromContext :: "gerr option \<Rightarrow> RunStopReason option" where
  "stopReasonFromContext err =
     (case err of
        None \<Rightarrow> None
      | Some e \<Rightarrow>
          if errors_Is e CtxCanceled then Some RunStopReasonCancelled
          else if errors_Is e CtxDeadlineExceeded then Some RunStopReasonTimeout
          else None)"

section \<open>Messages from their records\<close>

definition valueOrCloneMessages :: "message slice \<Rightarrow> message list \<Rightarrow> message list" where
  "valueOrCloneMessages v fallback =
     (case v of Some ms \<Rightarrow> cloneMessages ms | None \<Rightarrow> cloneMessages fallback)"

definition messagesFromRecords :: "chain_message list \<Rightarrow> message list" where
  "messagesFromRecords rs =
     map (\<lambda>r. \<lparr>msg_Role = cm_Role r, msg_Content = normalizedMessageContent (cm_Content r)\<rparr>) rs"

definition inferredRunInputCount :: "chain_message list \<Rightarrow> int" where
  "inferredRunInputCount rs =
     (case rs of
        [] \<Rightarrow> 0
      | r # _ \<Rightarrow> int (length (takeWhile (\<lambda>m. cm_CreatedAt m = cm_CreatedAt r) rs)))"

section \<open>Laws of merging\<close>

definition plain_patch :: "chain_defaults \<Rightarrow> bool" where
  "plain_patch p = (typed_content (cd_System p) \<and> cd_GatewayTools p \<noteq> Some [] \<and> cd_StopSequences p \<noteq> Some [])"


lemma override_assoc: "override (override c p) q = override c (override p q)"
  by (simp add: override_def split: option.split)

lemma map_override: "map_option f (override p q) = override (map_option f p) (map_option f q)"
  by (simp add: override_def split: option.split)

lemma jclone_map_override: "jclone_map (override p q) = override (jclone_map p) (jclone_map q)"
  by (simp add: jclone_map_def map_override)

lemma map_clone_idem: "map_option clone_output_format (map_option clone_output_format x) = map_option clone_output_format x"
  "map_option clone_output_config (map_option clone_output_config y) = map_option clone_output_config y"
  by (simp_all add: option.map_comp comp_def)

lemma clone_slice_None: "s \<noteq> Some [] \<Longrightarrow> clone_slice s = None \<longleftrightarrow> s = None"
  by (cases s) (auto simp: clone_slice_def nil_if_empty_def)

lemma map_clone_tools_idem: "map_option (map clone_tool) (map_option (map clone_tool) x) = map_option (map clone_tool) x"
  by (simp add: option.map_comp comp_def)

text \<open>Patches compose: applying one patch and then another is applying the patch that
  merges the two. (An explicitly empty list of gateway tools or stop sequences is excluded: it
  clears the list, which no merged patch can do.)\<close>

theorem merge_defaults_compose:
  assumes "plain_patch p" "plain_patch q"
  shows "mergeDefaults (mergeDefaults c p) q = mergeDefaults c (mergeDefaults p q)"
  using assms
  by (intro chain_defaults.equality)
    (auto simp: mergeDefaults_def plain_patch_def override_assoc map_override jclone_map_override
     normalizedMessageContent_idem normalizedMessageContent_CNil map_clone_idem clone_slice_None
     map_clone_tools_idem)
text \<open>Merging a patch into the defaults of a chain: the empty patch changes nothing,
  applying a patch twice is applying it once, and a patch that names no model keeps the
  model.\<close>

theorem merge_defaults_laws:
  "mergeDefaults c zero_defaults = c \<and>
   mergeDefaults (mergeDefaults c p) p = mergeDefaults c p \<and>
   cd_Model (mergeDefaults c p) =
     (if trim_space (cd_Model p) = [] then cd_Model c else cd_Model p)"
  by (simp add: merge_zero_aux merge_idem_aux merge_model)

text \<open>A run remembers how many of its messages were input: the count written into the
  metadata of the run is read back, also after the record has gone through JSON.\<close>

theorem run_input_count_roundtrip:
  "runInputMessageCount (r\<lparr>run_Metadata := Some (withChainRuntimeMetadata m n)\<rparr>) = n \<and>
   runInputMessageCount (r\<lparr>run_Metadata :=
     jclone_omitempty (Some (withChainRuntimeMetadata m n))\<rparr>) = n"
  by (simp add: runInputMessageCount_aux)
     (simp add: runInputMessageCount_def withChainRuntimeMetadata_def Let_def sub_object_def
      jclone_obj_mput jclone_obj_def [symmetric])

text \<open>The providers announced to a client are those the scope has a key for, and the
  responses variant of OpenAI when it has an OpenAI key.\<close>

theorem authorized_providers_exact:
  assumes "mwf (ProviderKeys sc)"
  shows "p \<in> set (AuthorizedProviders sc) \<longleftrightarrow>
    provider_key sc p \<noteq> [] \<or> p = ''oai-resp'' \<and> provider_key sc ''openai'' \<noteq> []"
  using AuthorizedProviders_iff [OF assms] by simp

end
