(* ===== verification/ServerTools.thy ===== *)
theory ServerTools
  imports Clone "HOL-Library.List_Lexorder" "HOL-Library.Char_ord"
begin

text \<open>
  Gateway-executed tools (\<open>pkg/gateway/tools/servertools\<close>): the registry of executors,
  the definitions the model is shown, and the image references a planner sees instead of
  image payloads. The SHA-256 of \<open>imageFingerprint\<close>, in hexadecimal, is the argument
  \<open>sha\<close>; the \<open>encoding/json\<close> text parser and printer are \<open>parse\<close> and
  \<open>render\<close>.
\<close>

section \<open>Image references\<close>

type_synonym image = "string \<times> media_source"

record image_refs =
  ir_byID :: "(string, image) gomap"
  ir_byFingerprint :: "(string, string) gomap"
  ir_count :: nat

definition NewImageRefRegistry :: image_refs where
  "NewImageRefRegistry = \<lparr>ir_byID = [], ir_byFingerprint = [], ir_count = 0\<rparr>"

definition imageFingerprint :: "(string \<Rightarrow> string) \<Rightarrow> image \<Rightarrow> string" where
  "imageFingerprint sha im =
     (let s = snd im in
      sha (ms_type s @ [CHR 0x00] @ ms_media_type s @ [CHR 0x00] @ ms_url s @ [CHR 0x00] @ ms_data s))"

text \<open>\<open>fmt.Sprintf("img-%02d", n)\<close>.\<close>

definition image_id :: "nat \<Rightarrow> string" where
  "image_id n = ''img-'' @ (if n < 10 then ''0'' else []) @ dec_nat n"

definition Register :: "(string \<Rightarrow> string) \<Rightarrow> image \<Rightarrow> image_refs \<Rightarrow> string \<times> image_refs" where
  "Register sha im r =
     (let fp = imageFingerprint sha im in
      case mget (ir_byFingerprint r) fp of
        Some i \<Rightarrow> (i, r)
      | None \<Rightarrow>
          (let n = Suc (ir_count r); i = image_id n in
           (i, \<lparr>ir_byID = mput i im (ir_byID r),
                ir_byFingerprint = mput fp i (ir_byFingerprint r), ir_count = n\<rparr>)))"

definition Lookup :: "string \<Rightarrow> image_refs \<Rightarrow> image option" where
  "Lookup i r = mget (ir_byID r) (trim_space i)"

definition IDFor :: "(string \<Rightarrow> string) \<Rightarrow> image \<Rightarrow> image_refs \<Rightarrow> string" where
  "IDFor sha im r =
     (case mget (ir_byFingerprint r) (imageFingerprint sha im) of Some i \<Rightarrow> i | None \<Rightarrow> [])"

fun registerImageRefsInBlocks :: "(string \<Rightarrow> string) \<Rightarrow> block list \<Rightarrow> image_refs \<Rightarrow> image_refs" where
  "registerImageRefsInBlocks sha [] r = r"
| "registerImageRefsInBlocks sha (ImageBlock ty s # bs) r =
     registerImageRefsInBlocks sha bs (snd (Register sha (ty, s) r))"
| "registerImageRefsInBlocks sha (ToolResultBlock ty i c e # bs) r =
     registerImageRefsInBlocks sha bs (registerImageRefsInBlocks sha c r)"
| "registerImageRefsInBlocks sha (b # bs) r = registerImageRefsInBlocks sha bs r"

definition BuildImageRefRegistry :: "(string \<Rightarrow> string) \<Rightarrow> message list \<Rightarrow> image_refs" where
  "BuildImageRefRegistry sha messages =
     fold (\<lambda>m. registerImageRefsInBlocks sha (elems (ContentBlocks m))) messages NewImageRefRegistry"

definition omitted_image :: block where
  "omitted_image = text_block ''[image omitted for non-vision model]''"

fun injectImageRefBlocks ::
  "(string \<Rightarrow> string) \<Rightarrow> bool \<Rightarrow> block list \<Rightarrow> image_refs \<Rightarrow> block list \<times> image_refs" where
  "injectImageRefBlocks sha inc [] r = ([], r)"
| "injectImageRefBlocks sha inc (ImageBlock ty s # bs) r =
     (let (i, r1) = Register sha (ty, s) r;
          (out, r2) = injectImageRefBlocks sha inc bs r1
      in (text_block i # (if inc then ImageBlock ty s else omitted_image) # out, r2))"
| "injectImageRefBlocks sha inc (ToolResultBlock ty i c e # bs) r =
     (let (c', r1) = injectImageRefBlocks sha inc c r;
          (out, r2) = injectImageRefBlocks sha inc bs r1
      in (ToolResultBlock ty i c' e # out, r2))"
| "injectImageRefBlocks sha inc (b # bs) r =
     (let (out, r') = injectImageRefBlocks sha inc bs r in (b # out, r'))"

fun injectPlannerImageRefs ::
  "(string \<Rightarrow> string) \<Rightarrow> bool \<Rightarrow> message list \<Rightarrow> image_refs \<Rightarrow> message list \<times> image_refs" where
  "injectPlannerImageRefs sha inc [] r = ([], r)"
| "injectPlannerImageRefs sha inc (m # ms) r =
     (let blocks = elems (ContentBlocks m);
          (m', r1) =
            (if blocks = [] then (m, r)
             else (let (bs, r') = injectImageRefBlocks sha inc blocks r
                   in (\<lparr>msg_Role = msg_Role m, msg_Content = CBlocks (Some bs)\<rparr>, r')));
          (out, r2) = injectPlannerImageRefs sha inc ms r1
      in (m' # out, r2))"

definition BuildPlannerMessages ::
  "(string \<Rightarrow> string) \<Rightarrow> message list \<Rightarrow> bool \<Rightarrow> message list \<times> image_refs" where
  "BuildPlannerMessages sha messages includeImages =
     injectPlannerImageRefs sha includeImages messages (BuildImageRefRegistry sha messages)"

section \<open>Image tool results\<close>

text \<open>The metadata text of an image result; the decoder of its struct is strict in types
  only.\<close>

record image_meta =
  im_Tool :: string
  im_Provider :: string
  im_Model :: string
  im_Prompt :: string
  im_Referenced :: "string list"
  im_Generated :: "string list"

definition ToolWebSearch :: string where "ToolWebSearch = ''vai_web_search''"
definition ToolWebFetch :: string where "ToolWebFetch = ''vai_web_fetch''"
definition ToolImage :: string where "ToolImage = ''vai_image''"

definition string_or_null :: "json \<Rightarrow> string option" where
  "string_or_null j = (case j of JNull \<Rightarrow> Some [] | _ \<Rightarrow> as_string j)"

definition image_meta_of_json :: "json \<Rightarrow> image_meta option" where
  "image_meta_of_json j = do {
     m \<leftarrow> as_struct j;
     t \<leftarrow> jstring ''tool'' m;
     p \<leftarrow> jstring ''provider'' m;
     mo \<leftarrow> jstring ''model'' m;
     pr \<leftarrow> jstring ''prompt'' m;
     re \<leftarrow> jfield_nil ''referenced_image_ids'' (jarr_of string_or_null) None m;
     ge \<leftarrow> jfield_nil ''generated_image_ids'' (jarr_of string_or_null) None m;
     Some \<lparr>im_Tool = t, im_Provider = p, im_Model = mo, im_Prompt = pr,
           im_Referenced = elems re, im_Generated = elems ge\<rparr>
   }"

definition omit_strings :: "string \<Rightarrow> string list \<Rightarrow> jobj" where
  "omit_strings n xs = (if xs = [] then [] else [(n, JArr (map JStr xs))])"

definition json_of_image_meta :: "image_meta \<Rightarrow> json" where
  "json_of_image_meta m =
     JObj ([(''tool'', JStr (im_Tool m)), (''provider'', JStr (im_Provider m)),
            (''model'', JStr (im_Model m)), (''prompt'', JStr (im_Prompt m))]
       @ omit_strings ''referenced_image_ids'' (im_Referenced m)
       @ omit_strings ''generated_image_ids'' (im_Generated m))"

fun register_images ::
  "(string \<Rightarrow> string) \<Rightarrow> block list \<Rightarrow> image_refs \<Rightarrow> string list \<times> image_refs" where
  "register_images sha [] r = ([], r)"
| "register_images sha (ImageBlock ty s # bs) r =
     (let (i, r1) = Register sha (ty, s) r; (ids, r2) = register_images sha bs r1
      in (i # ids, r2))"
| "register_images sha (b # bs) r = register_images sha bs r"

definition FinalizeImageToolResultContent ::
  "(string \<Rightarrow> string) \<Rightarrow> (string \<Rightarrow> json option) \<Rightarrow> (json \<Rightarrow> string) \<Rightarrow> block slice \<Rightarrow> image_refs
     \<Rightarrow> block slice \<times> image_refs" where
  "FinalizeImageToolResultContent sha parse render content r =
     (case elems content of
        [] \<Rightarrow> (content, r)
      | first # rest \<Rightarrow>
          (let (generated, r') = register_images sha (first # rest) r in
           (case first of
              TextBlock _ t \<Rightarrow>
                (case Option.bind (parse t) image_meta_of_json of
                   None \<Rightarrow> (content, r')
                 | Some meta \<Rightarrow>
                     if im_Tool meta \<noteq> ToolImage then (content, r')
                     else (Some (text_block (render (json_of_image_meta
                             (meta\<lparr>im_Generated := generated\<rparr>))) # rest), r'))
            | _ \<Rightarrow> (content, r'))))"

section \<open>The registry of executors\<close>

text \<open>An executor's \<open>Execute\<close> under the image references of its context.\<close>

type_synonym executor = "image_refs \<Rightarrow> jobj option \<Rightarrow> block slice \<times> api_error option"
type_synonym registry = "(string, executor) gomap"

definition registry_Has :: "registry option \<Rightarrow> string \<Rightarrow> bool" where
  "registry_Has reg name = (case reg of None \<Rightarrow> False | Some m \<Rightarrow> mhas m (trim_space name))"

definition run_error :: "ErrorType \<Rightarrow> string \<Rightarrow> string \<Rightarrow> api_error" where
  "run_error t msg code = \<lparr>ae_Type = error_type t, ae_Message = msg, ae_Param = [], ae_Code = code,
     ae_RequestID = [], ae_ProviderError = None, ae_RetryAfter = None, ae_CompatIssues = []\<rparr>"

text \<open>\<open>%q\<close> of a name without characters to escape.\<close>

definition quoted :: "string \<Rightarrow> string" where
  "quoted s = [CHR 0x22] @ s @ [CHR 0x22]"

definition registry_Execute ::
  "registry option \<Rightarrow> image_refs \<Rightarrow> string \<Rightarrow> jobj option \<Rightarrow> block slice \<times> api_error option" where
  "registry_Execute reg refs name input =
     (case reg of
        None \<Rightarrow> (None, Some (run_error ErrAPI ''server tools registry is not configured''
                        ''server_tool_not_configured''))
      | Some m \<Rightarrow>
          (case mget m (trim_space name) of
             None \<Rightarrow> (None, Some (run_error ErrInvalidRequest
                 (''function tool '' @ quoted name @ '' is not supported on /v1/runs'')
                 ''unsupported_function_tool''))
           | Some ex \<Rightarrow> ex refs input))"

section \<open>Tool definitions\<close>

definition prim_schema :: "string \<Rightarrow> string \<Rightarrow> json_schema" where
  "prim_schema t d = JSONSchema t None None d None None None"

definition object_schema :: "(string \<times> json_schema) list \<Rightarrow> string list \<Rightarrow> json_schema" where
  "object_schema ps rq = JSONSchema ''object'' (Some ps) (Some rq) [] None None (Some False)"

definition function_tool :: "string \<Rightarrow> string \<Rightarrow> json_schema \<Rightarrow> tool" where
  "function_tool n d sc = \<lparr>tool_Type = ToolTypeFunction, tool_Name = n, tool_Description = d,
     tool_InputSchema = Some sc, tool_Config = None\<rparr>"

definition WebSearch_Definition :: tool where
  "WebSearch_Definition = function_tool ToolWebSearch
     ''Search the web and return normalized search results.''
     (object_schema [(''query'', prim_schema ''string'' ''Search query string''),
        (''max_results'', prim_schema ''integer'' ''Optional maximum number of results'')]
        [''query''])"

definition WebFetch_Definition :: tool where
  "WebFetch_Definition = function_tool ToolWebFetch
     ''Fetch page content for a URL and return normalized content.''
     (object_schema [(''url'', prim_schema ''string'' ''URL to fetch'')] [''url''])"

definition Image_Definition :: tool where
  "Image_Definition = function_tool ToolImage
     ''Generate or edit images with Gemini image generation. Use a prompt alone for new images, or pass prior image IDs for edits and variations.''
     (object_schema
        [(''prompt'', prim_schema ''string'' ''Image generation or editing prompt.''),
         (''images'', JSONSchema ''array'' None None [] None
            (Some (object_schema
              [(''id'', prim_schema ''string''
                  ''Synthetic image ID from the conversation history, such as img-01.''),
               (''description'', prim_schema ''string''
                  ''Optional guidance for how to use this image.'')] [''id''])) None),
         (''aspect_ratio'', prim_schema ''string''
            ''Optional output aspect ratio, such as 1:1, 4:3, 16:9, or 21:9.''),
         (''size'', prim_schema ''string'' ''Optional output size: 1K, 2K, or 4K.'')]
        [''prompt''])"

definition gateway_definition :: "string \<Rightarrow> tool option" where
  "gateway_definition name =
     (if name = ToolWebSearch then Some WebSearch_Definition
      else if name = ToolWebFetch then Some WebFetch_Definition
      else if name = ToolImage then Some Image_Definition
      else None)"

text \<open>\<open>mergedTools\<close> of the executor: a definition does not depend on its configuration.\<close>

definition mergedTools :: "tool slice \<Rightarrow> string list \<Rightarrow> tool list" where
  "mergedTools tools gatewayTools =
     map clone_tool (elems tools) @ List.map_filter gateway_definition gatewayTools"

section \<open>Injection and validation of server tools\<close>

definition validation_error :: "string \<Rightarrow> string \<Rightarrow> string \<Rightarrow> core_error" where
  "validation_error msg param code =
     (new_core_error ErrInvalidRequest msg)\<lparr>ce_Param := param, ce_Code := code\<rparr>"

definition indexed :: "string \<Rightarrow> nat \<Rightarrow> string" where
  "indexed field i = field @ ''['' @ dec_nat i @ '']''"

fun select_tools ::
  "(string, tool) gomap \<Rightarrow> nat \<Rightarrow> string list \<Rightarrow> string list \<Rightarrow> core_error + string list" where
  "select_tools defs i sel [] = Inr sel"
| "select_tools defs i sel (n # ns) =
     (let name = trim_space n in
      if name = [] then Inl (validation_error ''server tool name must be non-empty''
          (indexed ''server_tools'' i) ''run_validation_failed'')
      else if name \<in> set sel then Inl (validation_error ''duplicate server tool name''
          (indexed ''server_tools'' i) ''run_validation_failed'')
      else if \<not> mhas defs name then Inl (validation_error
          (''unsupported server tool '' @ quoted name)
          (indexed ''server_tools'' i) ''unsupported_server_tool'')
      else select_tools defs (Suc i) (sel @ [name]) ns)"

fun native_tools :: "string list \<Rightarrow> nat \<Rightarrow> tool list \<Rightarrow> core_error + tool list" where
  "native_tools sel i [] = Inr []"
| "native_tools sel i (t # ts) =
     (if tool_Type t = ToolTypeFunction then
        (if tool_Name t \<in> set sel
         then Inl (validation_error ''function tool name collides with selected server tool''
                (indexed ''tools'' i @ ''.name'') ''run_validation_failed'')
         else Inl (validation_error (''function tool '' @ quoted (tool_Name t)
                @ '' is not supported on /v1/runs (use /v1/messages for client-executed tools)'')
                (indexed ''tools'' i @ ''.name'') ''unsupported_function_tool''))
      else (case native_tools sel (Suc i) ts of Inl e \<Rightarrow> Inl e | Inr out \<Rightarrow> Inr (t # out)))"

definition ValidateAndInject ::
  "(string, tool) gomap option \<Rightarrow> tool list \<Rightarrow> string list \<Rightarrow> core_error + tool list" where
  "ValidateAndInject defs requestTools serverTools =
     (case defs of
        None \<Rightarrow> Inl ((new_core_error ErrAPI ''server tools registry is not configured'')
                   \<lparr>ce_Code := ''server_tool_not_configured''\<rparr>)
      | Some m \<Rightarrow>
          (case select_tools m 0 [] serverTools of
             Inl e \<Rightarrow> Inl e
           | Inr sel \<Rightarrow>
               (case native_tools sel 0 requestTools of
                  Inl e \<Rightarrow> Inl e
                | Inr out \<Rightarrow> Inr (out @ List.map_filter (mget m) sel))))"

section \<open>Asset references\<close>

fun contentBlockHasAssetReference :: "block \<Rightarrow> bool" where
  "contentBlockHasAssetReference (ImageBlock _ s) =
     (equal_fold (trim_space (ms_type s)) ''asset'' \<and> trim_space (ms_asset_id s) \<noteq> [])"
| "contentBlockHasAssetReference (AudioBlock _ s _) =
     (equal_fold (trim_space (av_type s)) ''asset'' \<and> trim_space (av_asset_id s) \<noteq> [])"
| "contentBlockHasAssetReference (AudioSTTBlock _ s _) =
     (equal_fold (trim_space (av_type s)) ''asset'' \<and> trim_space (av_asset_id s) \<noteq> [])"
| "contentBlockHasAssetReference (VideoBlock _ s) =
     (equal_fold (trim_space (av_type s)) ''asset'' \<and> trim_space (av_asset_id s) \<noteq> [])"
| "contentBlockHasAssetReference (DocumentBlock _ s _) =
     (equal_fold (trim_space (ms_type s)) ''asset'' \<and> trim_space (ms_asset_id s) \<noteq> [])"
| "contentBlockHasAssetReference (ToolResultBlock _ _ c _) =
     list_ex contentBlockHasAssetReference c"
| "contentBlockHasAssetReference _ = False"

definition RequestHasAssetReferences :: "content \<Rightarrow> message list \<Rightarrow> bool" where
  "RequestHasAssetReferences system messages =
     ((case system of
         CBlocks s \<Rightarrow> list_ex contentBlockHasAssetReference (elems s)
       | CBlock b \<Rightarrow> contentBlockHasAssetReference b
       | _ \<Rightarrow> False) \<or>
      list_ex (\<lambda>m. list_ex contentBlockHasAssetReference (elems (ContentBlocks m))) messages)"

end
