(* ===== verification/ManagerState.thy ===== *)
theory ManagerState
  imports HotChain Store Defaults ServerTools
begin

text \<open>
  The state of the chain manager (\<open>Manager\<close>, \<open>hotChain\<close>, \<open>writerLease\<close>,
  \<open>activeRun\<close> in \<open>pkg/gateway/chains/manager.go\<close>) and its primitive operations.
  A chain in memory is named by its ID, which stands for the pointer the code passes
  around: the manager never removes a chain from its map. Everything between two
  acquisitions of a mutex is one step, and the operations are sequences of such steps.
\<close>

section \<open>Principals, leases and runs\<close>

record principal =
  pr_OrgID :: string
  pr_PrincipalID :: string
  pr_PrincipalType :: string
  pr_ActorID :: string

text \<open>An attachment sink returns the error of the send, if any.\<close>

type_synonym sink = "server_event \<Rightarrow> gerr option"

record message_request =
  mr_Model :: string
  mr_Messages :: "message list"
  mr_MaxTokens :: int
  mr_System :: content
  mr_Temperature :: "rat option"
  mr_TopP :: "rat option"
  mr_TopK :: "int option"
  mr_StopSequences :: "string slice"
  mr_Tools :: "tool list"
  mr_ToolChoice :: "tool_choice option"
  mr_Stream :: bool
  mr_STTModel :: string
  mr_TTSModel :: string
  mr_OutputFormat :: "output_format option"
  mr_Output :: "output_config option"
  mr_Voice :: "voice_config option"
  mr_Extensions :: "jobj option"
  mr_Metadata :: "jobj option"

text \<open>
  What a provider's event stream returns from its successive \<open>Next\<close> calls: an event,
  an error, or both. After the listed results the stream is at its end (\<open>io.EOF\<close>).
\<close>

type_synonym stream_script = "(stream_event option \<times> gerr option) list"
type_synonym provider = "message_request \<Rightarrow> gerr + stream_script"

record runtime_env =
  env_Principal :: principal
  env_Mode :: AttachmentMode
  env_Protocol :: string
  env_Scope :: credential_scope
  env_NewProvider :: "(string \<Rightarrow> string \<Rightarrow> gerr + provider) option"
  env_BuildGatewayTools :: "(string list \<Rightarrow> jobj option \<Rightarrow> gerr + registry) option"
  env_ResolveMessageRequest :: "(message_request \<Rightarrow> gerr + message_request) option"
  env_Send :: "sink option"
  env_AllowClientTools :: bool

record writer_lease =
  wl_ID :: string
  wl_Mode :: AttachmentMode
  wl_Protocol :: string
  wl_Principal :: principal
  wl_Scope :: credential_scope
  wl_StartedAt :: time
  wl_Sink :: "sink option"
  wl_ResumeTokenHash :: string

record pending_execution =
  pe_ExecutionID :: string
  pe_Name :: string
  pe_Input :: "jobj option"
  pe_DeadlineAt :: time
  pe_EffectClass :: ToolEffectClass
  pe_CallIndex :: int
  pe_Resolved :: bool
  pe_Content :: "block slice"
  pe_IsError :: bool
  pe_PayloadHash :: string

record active_run =
  ar_record :: run_record
  ar_env :: runtime_env
  ar_gatewayTools :: "registry option"
  ar_pending :: "(string, pending_execution) gomap"
  ar_cancelled :: bool
  ar_attachmentID :: string
  ar_ephemeralWriter :: bool
  ar_result :: "run_result option"
  ar_err :: "gerr option"

record hot_chain =
  hc_record :: chain_record
  hc_history :: "message list"
  hc_replay :: replay_buffer
  hc_nextEventID :: int
  hc_orgID :: string
  hc_createdByPrincipalID :: string
  hc_createdByPrincipalType :: string
  hc_actorID :: string
  hc_resumeTokenHash :: string
  hc_writer :: "writer_lease option"
  hc_activeRun :: "active_run option"

section \<open>The manager and its environment\<close>

text \<open>
  The world of a manager: the clock (the time of the n-th reading), the random source (the
  hexadecimal text of the n-th draw of some bytes), SHA-256 in hexadecimal on texts
  (\<open>hashToken\<close>) and on JSON encodings (\<open>payloadHash\<close>), the codec of server events,
  the text parser and printer of \<open>encoding/json\<close>, the store and the configuration.
\<close>

record 's world =
  w_now :: "nat \<Rightarrow> time"
  w_rand :: "nat \<Rightarrow> nat \<Rightarrow> string"
  w_sha :: "string \<Rightarrow> string"
  w_hash :: "json \<Rightarrow> string"
  w_codec :: event_codec
  w_parse :: "string \<Rightarrow> json option"
  w_render :: "json \<Rightarrow> string"
  w_store :: "'s store"
  w_cfg :: manager_config

text \<open>The state: the store, the chains in memory, how often the clock and the random source
  were used, and a log of the events handed to sinks, with the lease they went to.\<close>

record 's manager =
  mg_store :: 's
  mg_chains :: "(string, hot_chain) gomap"
  mg_clock :: nat
  mg_draws :: nat
  mg_sent :: "(string \<times> server_event) list"

type_synonym ('s, 'a) op = "('s manager, 'a) state"
type_synonym ('s, 'a) fop = "('s manager, gerr + 'a) state"

definition NewManager :: "'s \<Rightarrow> 's manager" where
  "NewManager s = \<lparr>mg_store = s, mg_chains = [], mg_clock = 0, mg_draws = 0, mg_sent = []\<rparr>"

section \<open>Primitive operations\<close>

definition now :: "'s world \<Rightarrow> ('s, time) op" where
  "now W = State (\<lambda>m. (w_now W (mg_clock m), m\<lparr>mg_clock := Suc (mg_clock m)\<rparr>))"

definition randomHex :: "'s world \<Rightarrow> nat \<Rightarrow> ('s, string) op" where
  "randomHex W n = State (\<lambda>m. (w_rand W n (mg_draws m), m\<lparr>mg_draws := Suc (mg_draws m)\<rparr>))"

definition newID :: "'s world \<Rightarrow> string \<Rightarrow> ('s, string) op" where
  "newID W pre = do { h \<leftarrow> randomHex W 10; ret (pre @ ''_'' @ h) }"

definition issueResumeToken :: "'s world \<Rightarrow> ('s, string) op" where
  "issueResumeToken W = do { h \<leftarrow> randomHex W 18; ret (''chain_rt_'' @ h) }"

definition hashToken :: "'s world \<Rightarrow> string \<Rightarrow> string" where
  "hashToken W token = w_sha W token"

definition on_store :: "('s, 'a) state \<Rightarrow> ('s, 'a) op" where
  "on_store m = zoom mg_store (\<lambda>s mg. mg\<lparr>mg_store := s\<rparr>) m"

definition hotChain :: "string \<Rightarrow> ('s, hot_chain option) op" where
  "hotChain chainID = gets (\<lambda>m. mget (mg_chains m) chainID)"

definition put_chain :: "string \<Rightarrow> hot_chain \<Rightarrow> ('s, unit) op" where
  "put_chain chainID hc = modify (\<lambda>m. m\<lparr>mg_chains := mput chainID hc (mg_chains m)\<rparr>)"

text \<open>A critical section of a chain's mutex: update the chain, if it is in memory.\<close>

definition upd_chain :: "string \<Rightarrow> (hot_chain \<Rightarrow> hot_chain) \<Rightarrow> ('s, unit) op" where
  "upd_chain chainID f = modify (\<lambda>m.
     case mget (mg_chains m) chainID of
       None \<Rightarrow> m
     | Some hc \<Rightarrow> m\<lparr>mg_chains := mput chainID (f hc) (mg_chains m)\<rparr>)"

definition log_sent :: "string \<Rightarrow> server_event \<Rightarrow> ('s, unit) op" where
  "log_sent lease ev = modify (\<lambda>m. m\<lparr>mg_sent := mg_sent m @ [(lease, ev)]\<rparr>)"

definition nextEvent :: "string \<Rightarrow> ('s, int) op" where
  "nextEvent chainID = do {
     upd_chain chainID (\<lambda>hc. hc\<lparr>hc_nextEventID := hc_nextEventID hc + 1\<rparr>);
     hc \<leftarrow> hotChain chainID;
     ret (case hc of None \<Rightarrow> 0 | Some c \<Rightarrow> hc_nextEventID c) }"

text \<open>\<open>bufferAndEmit\<close>: buffer the event, then hand it to the sink of the writer the
  chain has at that moment. It and \<open>nextEvent\<close> are critical sections of their own: other
  operations may come between the number of an event and its buffering.\<close>

definition bufferAndEmit :: "'s world \<Rightarrow> string \<Rightarrow> server_event \<Rightarrow> ('s, unit) fop" where
  "bufferAndEmit W chainID event = do {
     hc \<leftarrow> hotChain chainID;
     (case hc of
        None \<Rightarrow> ok ()
      | Some c \<Rightarrow>
          (case buffer_event (w_cfg W) (w_codec W) event (hc_replay c) of
             Inl err \<Rightarrow> fail err
           | Inr b \<Rightarrow> do {
               put_chain chainID (c\<lparr>hc_replay := b\<rparr>);
               (case hc_writer c of
                  None \<Rightarrow> ok ()
                | Some lease \<Rightarrow>
                    (case wl_Sink lease of
                       None \<Rightarrow> ok ()
                     | Some send \<Rightarrow> do {
                         log_sent (wl_ID lease) event;
                         (case send event of None \<Rightarrow> ok () | Some err \<Rightarrow> fail err) })) })) }"

lemma run_now [simp]:
  "run_state (now W) m = (w_now W (mg_clock m), m\<lparr>mg_clock := Suc (mg_clock m)\<rparr>)"
  by (simp add: now_def)

lemma wp_now [simp, wp_simps]:
  "wp (now W) Q m = Q (w_now W (mg_clock m)) (m\<lparr>mg_clock := Suc (mg_clock m)\<rparr>)"
  by (simp add: wp_def)

lemma wp_randomHex [simp, wp_simps]:
  "wp (randomHex W n) Q m = Q (w_rand W n (mg_draws m)) (m\<lparr>mg_draws := Suc (mg_draws m)\<rparr>)"
  by (simp add: wp_def randomHex_def)

lemma wp_newID [simp, wp_simps]:
  "wp (newID W p) Q m =
     Q (p @ ''_'' @ w_rand W 10 (mg_draws m)) (m\<lparr>mg_draws := Suc (mg_draws m)\<rparr>)"
  by (simp add: newID_def)

lemma wp_issueResumeToken [simp, wp_simps]:
  "wp (issueResumeToken W) Q m =
     Q (''chain_rt_'' @ w_rand W 18 (mg_draws m)) (m\<lparr>mg_draws := Suc (mg_draws m)\<rparr>)"
  by (simp add: issueResumeToken_def)

lemma wp_on_store [wp_simps]:
  "wp (on_store f) Q m = wp f (\<lambda>a s. Q a (m\<lparr>mg_store := s\<rparr>)) (mg_store m)"
  by (simp add: on_store_def)

lemma wp_hotChain [simp, wp_simps]: "wp (hotChain c) Q m = Q (mget (mg_chains m) c) m"
  by (simp add: hotChain_def)

lemma wp_put_chain [simp, wp_simps]:
  "wp (put_chain c hc) Q m = Q () (m\<lparr>mg_chains := mput c hc (mg_chains m)\<rparr>)"
  by (simp add: put_chain_def)

lemma wp_log_sent [simp, wp_simps]:
  "wp (log_sent l e) Q m = Q () (m\<lparr>mg_sent := mg_sent m @ [(l, e)]\<rparr>)"
  by (simp add: log_sent_def)

text \<open>What a step does to one chain, the other chains and the store aside.\<close>

definition upd_map :: "string \<Rightarrow> (hot_chain \<Rightarrow> hot_chain) \<Rightarrow> 's manager \<Rightarrow> 's manager" where
  "upd_map c f m =
     (case mget (mg_chains m) c of
        None \<Rightarrow> m
      | Some hc \<Rightarrow> m\<lparr>mg_chains := mput c (f hc) (mg_chains m)\<rparr>)"

lemma wp_upd_chain [simp, wp_simps]: "wp (upd_chain c f) Q m = Q () (upd_map c f m)"
  by (simp add: upd_chain_def upd_map_def)

lemma upd_map_chain [simp]:
  "mget (mg_chains (upd_map c f m)) c' =
     (if c' = c then map_option f (mget (mg_chains m) c) else mget (mg_chains m) c')"
  by (simp add: upd_map_def split: option.splits)

lemma upd_map_other [simp]:
  "mg_store (upd_map c f m) = mg_store m" "mg_clock (upd_map c f m) = mg_clock m"
  "mg_draws (upd_map c f m) = mg_draws m" "mg_sent (upd_map c f m) = mg_sent m"
  by (simp_all add: upd_map_def split: option.splits)

end
