(* ===== verification/Manager.thy ===== *)
theory Manager
  imports ManagerState
begin

text \<open>
  The chain manager's operations on sessions, chains and attachments
  (\<open>pkg/gateway/chains/manager.go\<close>), written over an arbitrary store. Each follows the
  code's order of checks, store calls and updates, with its early returns.
\<close>

section \<open>Authorization\<close>

definition authorizeOrgAccess :: "string \<Rightarrow> string \<Rightarrow> canonical_error option" where
  "authorizeOrgAccess resourceOrgID callerOrgID =
     (if trim_space callerOrgID = [] \<or> trim_space resourceOrgID = []
         \<or> trim_space callerOrgID \<noteq> trim_space resourceOrgID
      then Some (NewCanonicalError ErrorCodeAuthChainAccessDenied
                   ''principal is not authorized for this chain'')
      else None)"

definition authorizeChainMutation :: "hot_chain \<Rightarrow> principal \<Rightarrow> canonical_error option" where
  "authorizeChainMutation chain p =
     map_option (WithChain (ch_ID (hc_record chain)))
       (authorizeOrgAccess (hc_orgID chain) (pr_OrgID p))"

definition token_error :: "string \<Rightarrow> canonical_error" where
  "token_error chainID = WithChain chainID
     (NewCanonicalError ErrorCodeAuthResumeTokenInvalid ''resume token is invalid'')"

definition authorizeAttach ::
  "'s world \<Rightarrow> hot_chain \<Rightarrow> principal \<Rightarrow> string \<Rightarrow> canonical_error + string" where
  "authorizeAttach W chain p resumeToken =
     (let chainID = ch_ID (hc_record chain) in
      if trim_space (pr_OrgID p) = [] \<or> trim_space (hc_orgID chain) = []
         \<or> trim_space (pr_OrgID p) \<noteq> trim_space (hc_orgID chain)
      then Inl (token_error chainID)
      else if hc_resumeTokenHash chain = [] \<or> hashToken W resumeToken \<noteq> hc_resumeTokenHash chain
      then Inl (token_error chainID)
      else if hc_actorID chain \<noteq> [] then
        (if trim_space (pr_ActorID p) = []
            \<or> trim_space (pr_ActorID p) \<noteq> trim_space (hc_actorID chain)
         then Inl (WithChain chainID (NewCanonicalError ErrorCodeAuthActorScopeDenied
                     ''actor is not authorized for this chain''))
         else Inr (hc_actorID chain))
      else Inr (trim_space (pr_ActorID p)))"

section \<open>Chains in memory\<close>

definition requireChain :: "'s world \<Rightarrow> string \<Rightarrow> ('s, hot_chain) fop" where
  "requireChain W chainID = do {
     hot \<leftarrow> hotChain chainID;
     (case hot of
        Some hc \<Rightarrow> ok hc
      | None \<Rightarrow>
          attempt (on_store (GetChain (w_store W) chainID)) (\<lambda>(record, history). do {
            tok \<leftarrow> on_store (GetChainResumeTokenHash (w_store W) chainID);
            (case (case tok of Inr h \<Rightarrow> Inr h
                   | Inl e \<Rightarrow> if errors_Is e ErrNotFound then Inr [] else Inl e) of
               Inl e \<Rightarrow> fail e
             | Inr tokenHash \<Rightarrow> do {
                 let hc = \<lparr>hc_record = record, hc_history = history, hc_replay = empty_buffer,
                   hc_nextEventID = 0, hc_orgID = ch_OrgID record,
                   hc_createdByPrincipalID = ch_CreatedByPrincipalID record,
                   hc_createdByPrincipalType = ch_CreatedByPrincipalType record,
                   hc_actorID = ch_ActorID record, hc_resumeTokenHash = tokenHash,
                   hc_writer = None, hc_activeRun = None\<rparr>;
                 put_chain chainID hc;
                 ok hc }) })) }"

definition resolveOrCreateSession ::
  "'s world \<Rightarrow> principal \<Rightarrow> string \<Rightarrow> time \<Rightarrow> ('s, session_record) op" where
  "resolveOrCreateSession W p externalSessionID t = do {
     found \<leftarrow> (if externalSessionID \<noteq> []
              then on_store (GetSessionByExternal (w_store W) (pr_OrgID p) externalSessionID)
              else fail ErrNotFound);
     (case found of
        Inr session \<Rightarrow> ret (session\<lparr>sess_UpdatedAt := t\<rparr>)
      | Inl _ \<Rightarrow> do {
          i \<leftarrow> newID W ''sess'';
          ret \<lparr>sess_ID = i, sess_OrgID = pr_OrgID p, sess_ExternalSessionID = externalSessionID,
            sess_CreatedByPrincipalID = pr_PrincipalID p,
            sess_CreatedByPrincipalType = pr_PrincipalType p, sess_ActorID = pr_ActorID p,
            sess_Metadata = None, sess_CreatedAt = t, sess_UpdatedAt = t,
            sess_LatestChainID = []\<rparr> }) }"

definition buildStartedEvent :: "hot_chain \<Rightarrow> credential_scope \<Rightarrow> string \<Rightarrow> started_event" where
  "buildStartedEvent chain sc externalSessionID =
     \<lparr>se_EventID = 0, se_ChainVersion = ch_ChainVersion (hc_record chain),
      se_ChainID = ch_ID (hc_record chain), se_SessionID = ch_SessionID (hc_record chain),
      se_ExternalSessionID = externalSessionID, se_ResumeToken = [],
      se_ActorID = hc_actorID chain, se_AuthorizedProviders = AuthorizedProviders sc,
      se_AuthorizedGatewayTools = AuthorizedGatewayTools sc,
      se_Defaults = cloneChainDefaults (ch_Defaults (hc_record chain))\<rparr>"

section \<open>Idempotent requests\<close>

definition hours :: "int \<Rightarrow> time" where
  "hours n = n * 3600 * second"

definition GetIdem :: "'s world \<Rightarrow> idempotency_scope \<Rightarrow> ('s, idempotency_record) fop" where
  "GetIdem W sc = do {
     t \<leftarrow> now W;
     on_store (GetIdempotency (w_store W) t sc) }"

definition idem_scope :: "principal \<Rightarrow> string \<Rightarrow> string \<Rightarrow> string \<Rightarrow> idempotency_scope" where
  "idem_scope p chainID operation key =
     \<lparr>sc_OrgID = pr_OrgID p, sc_PrincipalID = pr_PrincipalID p, sc_ChainID = chainID,
      sc_Operation = operation, sc_Key = key\<rparr>"

definition SaveIdem ::
  "'s world \<Rightarrow> principal \<Rightarrow> string \<Rightarrow> string \<Rightarrow> string \<Rightarrow> string \<Rightarrow> jobj \<Rightarrow> time \<Rightarrow> time
     \<Rightarrow> ('s, unit) fop" where
  "SaveIdem W p chainID operation key requestHash ref t lifetime = do {
     i \<leftarrow> newID W ''idem'';
     on_store (SaveIdempotency (w_store W)
       \<lparr>id_ID = i, id_OrgID = pr_OrgID p, id_PrincipalID = pr_PrincipalID p,
        id_ChainID = chainID, id_Operation = operation, id_Key = key,
        id_RequestHash = requestHash, id_ResultRef = Some ref, id_CreatedAt = t,
        id_ExpiresAt = t + lifetime\<rparr>) }"

text \<open>\<open>existing.ResultRef["..."].(string)\<close>, empty when it is not a string.\<close>

definition ref_string :: "string \<Rightarrow> idempotency_record \<Rightarrow> string" where
  "ref_string n r =
     (case mget (elems (id_ResultRef r)) n of Some (JStr s) \<Rightarrow> s | _ \<Rightarrow> [])"

definition conflict_error :: gerr where
  "conflict_error = canonical ErrorCodeToolResultConflict ''idempotent request payload conflict''"

definition key_required :: canonical_error where
  "key_required = NewCanonicalError ErrorCodeProtocolUnknownFrame ''idempotency_key is required''"

section \<open>Attachments\<close>

definition new_attachment ::
  "string \<Rightarrow> principal \<Rightarrow> string \<Rightarrow> string \<Rightarrow> AttachmentMode \<Rightarrow> string \<Rightarrow> string \<Rightarrow> time
     \<Rightarrow> attachment_record" where
  "new_attachment i p actorID chainID mode protocol tokenHash t =
     \<lparr>at_ID = i, at_OrgID = pr_OrgID p, at_ChainID = chainID, at_PrincipalID = pr_PrincipalID p,
      at_PrincipalType = pr_PrincipalType p, at_ActorID = actorID, at_Role = ''writer'',
      at_Mode = mode, at_Protocol = protocol, at_CredentialScopeJSON = None,
      at_ResumeTokenHash = tokenHash, at_NodeID = [], at_CloseReason = [], at_StartedAt = t,
      at_EndedAt = None\<rparr>"

definition new_lease ::
  "string \<Rightarrow> runtime_env \<Rightarrow> principal \<Rightarrow> time \<Rightarrow> string \<Rightarrow> writer_lease" where
  "new_lease i env p t tokenHash =
     \<lparr>wl_ID = i, wl_Mode = env_Mode env, wl_Protocol = env_Protocol env, wl_Principal = p,
      wl_Scope = env_Scope env, wl_StartedAt = t, wl_Sink = env_Send env,
      wl_ResumeTokenHash = tokenHash\<rparr>"

definition stateful :: "AttachmentMode \<Rightarrow> bool" where
  "stateful mode = (mode = AttachmentModeStatefulHTTP \<or> mode = AttachmentModeStatefulSSE)"

section \<open>StartChain\<close>

definition new_chain_record ::
  "string \<Rightarrow> principal \<Rightarrow> string \<Rightarrow> start_payload \<Rightarrow> time \<Rightarrow> chain_record" where
  "new_chain_record chainID p sessionID payload t =
     \<lparr>ch_ID = chainID, ch_OrgID = pr_OrgID p, ch_SessionID = sessionID,
      ch_ExternalSessionID = sp_ExternalSessionID payload,
      ch_CreatedByPrincipalID = pr_PrincipalID p,
      ch_CreatedByPrincipalType = pr_PrincipalType p, ch_ActorID = pr_ActorID p,
      ch_Status = ChainStatusIdle, ch_ChainVersion = 1, ch_ParentChainID = [],
      ch_ForkedFromRunID = [], ch_MessageCountCached = int (length (sp_History payload)),
      ch_TokenEstimateCached = 0, ch_Defaults = cloneChainDefaults (sp_Defaults payload),
      ch_Metadata = jclone_map (sp_Metadata payload), ch_ActiveAttachment = None,
      ch_CreatedAt = t, ch_UpdatedAt = t\<rparr>"

definition start_new_chain ::
  "'s world \<Rightarrow> principal \<Rightarrow> runtime_env \<Rightarrow> start_payload \<Rightarrow> string \<Rightarrow> string
     \<Rightarrow> ('s, started_event \<times> string) fop" where
  "start_new_chain W p env payload key requestHash = do {
     t \<leftarrow> now W;
     session \<leftarrow> resolveOrCreateSession W p (sp_ExternalSessionID payload) t;
     chainID \<leftarrow> newID W ''chain'';
     resumeToken \<leftarrow> issueResumeToken W;
     let tokenHash = hashToken W resumeToken;
     lease \<leftarrow> (if env_Send env = None then ret None
              else do { i \<leftarrow> newID W ''attach''; ret (Some (new_lease i env p t tokenHash)) });
     let record0 = new_chain_record chainID p (sess_ID session) payload t;
     let record = (if lease = None then record0
                   else record0\<lparr>ch_ActiveAttachment :=
                     Some \<lparr>aa_Mode = env_Mode env, aa_StartedAt = t\<rparr>\<rparr>);
     let hot = \<lparr>hc_record = record, hc_history = cloneMessages (sp_History payload),
       hc_replay = empty_buffer, hc_nextEventID = 0, hc_orgID = pr_OrgID p,
       hc_createdByPrincipalID = pr_PrincipalID p,
       hc_createdByPrincipalType = pr_PrincipalType p, hc_actorID = pr_ActorID p,
       hc_resumeTokenHash = tokenHash, hc_writer = lease, hc_activeRun = None\<rparr>;
     attempt (on_store (UpsertSession (w_store W) session)) (\<lambda>_.
     attempt (on_store (SaveChain (w_store W) t record (hc_history hot))) (\<lambda>_.
     attempt (on_store (SetChainResumeTokenHash (w_store W) chainID tokenHash)) (\<lambda>_.
     attempt (case lease of
         None \<Rightarrow> ok ()
       | Some l \<Rightarrow> on_store (SaveAttachment (w_store W)
           (new_attachment (wl_ID l) p (pr_ActorID p) chainID (env_Mode env) (env_Protocol env)
              tokenHash t))) (\<lambda>_. do {
       put_chain chainID hot;
       n \<leftarrow> nextEvent chainID;
       let event = (buildStartedEvent hot (env_Scope env) (sp_ExternalSessionID payload))
         \<lparr>se_ResumeToken := resumeToken, se_EventID := n\<rparr>;
       attempt (bufferAndEmit W chainID (ChainStartedEvent event)) (\<lambda>_.
       attempt (SaveIdem W p [] ''chain.start'' key requestHash
           [(''chain_id'', JStr chainID), (''session_id'', JStr (sess_ID session))] t (hours 24)) (\<lambda>_.
         ok (event, case lease of None \<Rightarrow> [] | Some l \<Rightarrow> wl_ID l))) })))) }"

definition StartChain ::
  "'s world \<Rightarrow> principal \<Rightarrow> runtime_env \<Rightarrow> start_payload \<Rightarrow> string
     \<Rightarrow> ('s, started_event \<times> string) fop" where
  "StartChain W p env payload key =
     (if trim_space key = [] then fail (CanonicalErr key_required)
      else do {
        let requestHash = w_hash W (json_of_start_payload payload);
        existing \<leftarrow> GetIdem W (idem_scope p [] ''chain.start'' key);
        (case existing of
           Inl _ \<Rightarrow> start_new_chain W p env payload key requestHash
         | Inr r \<Rightarrow>
             if id_RequestHash r \<noteq> requestHash then fail conflict_error
             else if ref_string ''chain_id'' r = []
             then start_new_chain W p env payload key requestHash
             else do {
               chain \<leftarrow> requireChain W (ref_string ''chain_id'' r);
               (case chain of
                  Inl _ \<Rightarrow> start_new_chain W p env payload key requestHash
                | Inr hc \<Rightarrow>
                    ok (buildStartedEvent hc (env_Scope env) (sp_ExternalSessionID payload), [])) }) })"

section \<open>AttachChain\<close>

definition attached_run_info :: "hot_chain \<Rightarrow> active_run_info option" where
  "attached_run_info hc =
     map_option (\<lambda>a. \<lparr>ari_RunID = run_ID (ar_record a), ari_Status = run_Status (ar_record a),
       ari_StartedAt = run_StartedAt (ar_record a)\<rparr>) (hc_activeRun hc)"

text \<open>The part of \<open>AttachChain\<close> after its checks: the takeover of the lease.\<close>

definition take_lease ::
  "'s world \<Rightarrow> principal \<Rightarrow> runtime_env \<Rightarrow> string \<Rightarrow> string \<Rightarrow> ReplayStatus \<Rightarrow> server_event list
     \<Rightarrow> ('s, attached_event \<times> server_event list \<times> string) fop" where
  "take_lease W p env chainID actorID status replayed = do {
     resumeToken \<leftarrow> issueResumeToken W;
     let tokenHash = hashToken W resumeToken;
     i \<leftarrow> newID W ''attach'';
     t \<leftarrow> now W;
     upd_chain chainID (\<lambda>hc. hc\<lparr>hc_resumeTokenHash := tokenHash,
       hc_writer := Some (new_lease i env p t tokenHash),
       hc_record := (hc_record hc)\<lparr>
         ch_ActiveAttachment := Some \<lparr>aa_Mode = env_Mode env, aa_StartedAt = t\<rparr>,
         ch_UpdatedAt := t\<rparr>\<rparr>);
     hot \<leftarrow> hotChain chainID;
     (case hot of
        None \<Rightarrow> fail ErrNotFound
      | Some hc \<Rightarrow>
          attempt (on_store (UpdateChain (w_store W) (hc_record hc))) (\<lambda>_.
          attempt (on_store (SetChainResumeTokenHash (w_store W) (ch_ID (hc_record hc))
              tokenHash)) (\<lambda>_.
          attempt (on_store (SaveAttachment (w_store W)
              (new_attachment i p actorID (ch_ID (hc_record hc)) (env_Mode env)
                 (env_Protocol env) tokenHash t))) (\<lambda>_. do {
            n \<leftarrow> nextEvent chainID;
            let event = \<lparr>ae_EventID = n, ae_ChainVersion = ch_ChainVersion (hc_record hc),
              ae_ChainID = ch_ID (hc_record hc), ae_SessionID = ch_SessionID (hc_record hc),
              ae_ResumeToken = resumeToken, ae_ActorID = actorID,
              ae_AuthorizedProviders = AuthorizedProviders (env_Scope env),
              ae_AuthorizedGatewayTools = AuthorizedGatewayTools (env_Scope env),
              ae_ReplayStatus = status, ae_ActiveRun = attached_run_info hc\<rparr>;
            attempt (bufferAndEmit W chainID (ChainAttachedEvent event)) (\<lambda>_.
              ok (event, replayed, i)) })))) }"

definition AttachChain ::
  "'s world \<Rightarrow> principal \<Rightarrow> runtime_env \<Rightarrow> attach_frame
     \<Rightarrow> ('s, attached_event \<times> server_event list \<times> string) fop" where
  "AttachChain W p env frame = do {
     let chainID = af_ChainID frame;
     found \<leftarrow> requireChain W chainID;
     (case found of
        Inl _ \<Rightarrow> fail (CanonicalErr (WithChain chainID
                   (NewCanonicalError ErrorCodeAuthResumeTokenInvalid ''chain is not resumable'')))
      | Inr hc \<Rightarrow>
          (case authorizeAttach W hc p (af_ResumeToken frame) of
             Inl authErr \<Rightarrow> fail (CanonicalErr (WithChain chainID authErr))
           | Inr actorID \<Rightarrow>
               if ch_Status (hc_record hc) = ChainStatusExpired then
                 fail (CanonicalErr (WithChain chainID
                   (NewCanonicalError ErrorCodeChainExpired ''chain is expired'')))
               else if hc_writer hc \<noteq> None \<and> \<not> af_Takeover frame then
                 fail (CanonicalErr (WithChain chainID
                   (NewCanonicalError ErrorCodeChainAttachConflict
                     ''chain already has an active attachment'')))
               else do {
                 (case hc_writer hc of
                    None \<Rightarrow> ret ()
                  | Some l \<Rightarrow> do {
                      t \<leftarrow> now W;
                      _ \<leftarrow> on_store (CloseAttachment (w_store W) (wl_ID l)
                             (error_code ErrorCodeChainAttachConflict) t);
                      ret () });
                 (case replayAfter (w_codec W) (af_AfterEventID frame)
                         (af_RequireExactReplay frame) (hc_replay hc) of
                    Inl replayErr \<Rightarrow> fail (CanonicalErr (WithChain chainID replayErr))
                  | Inr (status, replayed) \<Rightarrow>
                      take_lease W p env chainID actorID status replayed) })) }"

section \<open>Detach\<close>

definition Detach :: "'s world \<Rightarrow> string \<Rightarrow> string \<Rightarrow> string \<Rightarrow> ('s, unit) fop" where
  "Detach W chainID attachmentID reason =
     attempt (requireChain W chainID) (\<lambda>hc.
       case hc_writer hc of
         None \<Rightarrow> ok ()
       | Some l \<Rightarrow>
           if attachmentID \<noteq> [] \<and> wl_ID l \<noteq> attachmentID then ok ()
           else do {
             t \<leftarrow> now W;
             let record = (hc_record hc)\<lparr>ch_ActiveAttachment := None, ch_UpdatedAt := t\<rparr>;
             upd_chain chainID (\<lambda>hc. hc\<lparr>hc_writer := None, hc_record := record\<rparr>);
             _ \<leftarrow> on_store (UpdateChain (w_store W) record);
             t2 \<leftarrow> now W;
             _ \<leftarrow> on_store (CloseAttachment (w_store W) (wl_ID l) reason t2);
             ok () })"

section \<open>Reading chains\<close>

definition writer_attachment :: "hot_chain \<Rightarrow> active_attachment option" where
  "writer_attachment hc =
     map_option (\<lambda>l. \<lparr>aa_Mode = wl_Mode l, aa_StartedAt = wl_StartedAt l\<rparr>) (hc_writer hc)"

text \<open>A stored record with the live state of the chain in memory, if there is one.\<close>

definition overlay :: "hot_chain option \<Rightarrow> chain_record \<Rightarrow> chain_record" where
  "overlay hot record =
     (case hot of
        None \<Rightarrow> record
      | Some hc \<Rightarrow> record\<lparr>ch_Status := ch_Status (hc_record hc),
          ch_ChainVersion := ch_ChainVersion (hc_record hc),
          ch_UpdatedAt := ch_UpdatedAt (hc_record hc),
          ch_Defaults := cloneChainDefaults (ch_Defaults (hc_record hc)),
          ch_ActiveAttachment := writer_attachment hc\<rparr>)"

definition GetChain_live :: "'s world \<Rightarrow> string \<Rightarrow> ('s, chain_record) fop" where
  "GetChain_live W chainID =
     attempt (on_store (GetChain (w_store W) chainID)) (\<lambda>(record, _). do {
       hot \<leftarrow> hotChain chainID;
       ok (overlay hot record) })"

section \<open>UpdateChain\<close>

text \<open>The lease of a request on a stateful transport, or the check that the caller's
  transport holds the lease; the result is the ID of a new lease, if any.\<close>

definition attach_for_request ::
  "'s world \<Rightarrow> string \<Rightarrow> runtime_env \<Rightarrow> ('s, (string \<times> time) option) fop" where
  "attach_for_request W chainID env = do {
     hot \<leftarrow> hotChain chainID;
     (case Option.bind hot hc_writer of
        Some l \<Rightarrow>
          if stateful (env_Mode env) then
            fail (CanonicalErr (WithChain chainID (NewCanonicalError ErrorCodeChainAttachConflict
              ''chain already has an active attachment'')))
          else if wl_Mode l \<noteq> env_Mode env then
            fail (CanonicalErr (WithChain chainID (NewCanonicalError ErrorCodeChainAttachConflict
              ''chain is not attached on this transport'')))
          else ok None
      | None \<Rightarrow>
          if stateful (env_Mode env) then do {
            t \<leftarrow> now W;
            i \<leftarrow> newID W ''attach'';
            upd_chain chainID (\<lambda>hc. hc\<lparr>
              hc_writer := Some (new_lease i env (env_Principal env) t []),
              hc_record := (hc_record hc)\<lparr>ch_ActiveAttachment :=
                Some \<lparr>aa_Mode = env_Mode env, aa_StartedAt = t\<rparr>\<rparr>\<rparr>);
            ok (Some (i, t)) }
          else
            fail (CanonicalErr (WithChain chainID (NewCanonicalError ErrorCodeChainAttachConflict
              ''chain is not attached on this transport'')))) }"

text \<open>The number of the event is drawn before the attachment is saved and the event buffered after it, in
  separate critical sections of the chain; the theory \<open>Interleave\<close> lets other operations come between.\<close>

definition apply_update ::
  "'s world \<Rightarrow> string \<Rightarrow> runtime_env \<Rightarrow> chain_defaults \<Rightarrow> string \<Rightarrow> string
     \<Rightarrow> ('s, updated_event) fop" where
  "apply_update W chainID env patch key requestHash =
     attempt (attach_for_request W chainID env) (\<lambda>lease. do {
       t \<leftarrow> now W;
       upd_chain chainID (\<lambda>hc. hc\<lparr>hc_record := (hc_record hc)\<lparr>
         ch_Defaults := mergeDefaults (ch_Defaults (hc_record hc)) patch,
         ch_ChainVersion := ch_ChainVersion (hc_record hc) + 1,
         ch_UpdatedAt := t\<rparr>\<rparr>);
       hot \<leftarrow> hotChain chainID;
       (case hot of
          None \<Rightarrow> fail ErrNotFound
        | Some hc \<Rightarrow>
            attempt (on_store (UpdateChain (w_store W) (hc_record hc))) (\<lambda>_. do {
              n \<leftarrow> nextEvent chainID;
              let event = \<lparr>ue_EventID = n, ue_ChainVersion = ch_ChainVersion (hc_record hc),
                ue_ChainID = ch_ID (hc_record hc),
                ue_Defaults = cloneChainDefaults (ch_Defaults (hc_record hc))\<rparr>;
              attempt (case lease of
                  None \<Rightarrow> ok ()
                | Some (i, _) \<Rightarrow> on_store (SaveAttachment (w_store W)
                    (new_attachment i (env_Principal env) (pr_ActorID (env_Principal env)) chainID
                       (env_Mode env) (env_Protocol env) [] t))) (\<lambda>_.
              attempt (bufferAndEmit W chainID (ChainUpdatedEvent event)) (\<lambda>_.
              attempt (SaveIdem W (env_Principal env) chainID ''chain.update'' key requestHash
                  [(''chain_id'', JStr chainID)] t (hours 1)) (\<lambda>_. do {
                (case lease of
                   None \<Rightarrow> ret ()
                 | Some (i, _) \<Rightarrow> do { _ \<leftarrow> Detach W chainID i ''request_complete''; ret () });
                ok event }))) })) })"

definition UpdateChain_op ::
  "'s world \<Rightarrow> string \<Rightarrow> runtime_env \<Rightarrow> chain_defaults \<Rightarrow> string \<Rightarrow> ('s, updated_event) fop" where
  "UpdateChain_op W chainID env patch key =
     (if trim_space key = [] then fail (CanonicalErr (WithChain chainID key_required))
      else do {
        found \<leftarrow> requireChain W chainID;
        (case found of
           Inl _ \<Rightarrow> fail ErrNotFound
         | Inr hc \<Rightarrow>
             (case authorizeChainMutation hc (env_Principal env) of
                Some authErr \<Rightarrow> fail (CanonicalErr (WithChain chainID authErr))
              | None \<Rightarrow> do {
                  let requestHash = w_hash W (json_of_update_payload patch);
                  existing \<leftarrow> GetIdem W (idem_scope (env_Principal env) chainID ''chain.update'' key);
                  (case existing of
                     Inl _ \<Rightarrow> apply_update W chainID env patch key requestHash
                   | Inr r \<Rightarrow>
                       if id_RequestHash r \<noteq> requestHash then
                         fail (CanonicalErr (WithChain chainID (NewCanonicalError
                           ErrorCodeToolResultConflict ''idempotent request payload conflict'')))
                       else
                         attempt (GetChain_live W chainID) (\<lambda>record.
                           ok \<lparr>ue_EventID = 0, ue_ChainVersion = ch_ChainVersion record,
                               ue_ChainID = ch_ID record,
                               ue_Defaults = cloneChainDefaults (ch_Defaults record)\<rparr>)) })) })"

end
