(* ===== verification/ManagerRead.thy ===== *)
theory ManagerRead
  imports Manager
begin

text \<open>
  The read operations of the chain manager (\<open>pkg/gateway/chains/manager.go\<close>): every
  authorized reader checks that the caller's organisation owns the record before it
  returns it.
\<close>

section \<open>Sessions\<close>

definition mgr_GetSession :: "'s world \<Rightarrow> string \<Rightarrow> ('s, session_record) fop" where
  "mgr_GetSession W sessionID = on_store (GetSession (w_store W) sessionID)"

definition mgr_ListSessions :: "'s world \<Rightarrow> principal \<Rightarrow> ('s, session_record list) fop" where
  "mgr_ListSessions W p =
     (case authorizeOrgAccess (pr_OrgID p) (pr_OrgID p) of
        Some e \<Rightarrow> fail (CanonicalErr e)
      | None \<Rightarrow> on_store (ListSessions (w_store W) (pr_OrgID p)))"

definition GetSessionAuthorized ::
  "'s world \<Rightarrow> principal \<Rightarrow> string \<Rightarrow> ('s, session_record) fop" where
  "GetSessionAuthorized W p sessionID =
     attempt (on_store (GetSession (w_store W) sessionID)) (\<lambda>record.
       case authorizeOrgAccess (sess_OrgID record) (pr_OrgID p) of
         Some e \<Rightarrow> fail (CanonicalErr (WithChain (sess_LatestChainID record) e))
       | None \<Rightarrow> ok record)"

text \<open>The listing of a session's chains overlays less of the live state than
  \<open>overlay\<close>: the status, the version and an existing lease.\<close>

definition overlay_session_chain :: "hot_chain option \<Rightarrow> chain_record \<Rightarrow> chain_record" where
  "overlay_session_chain hot record =
     (case hot of
        None \<Rightarrow> record
      | Some hc \<Rightarrow>
          (if hc_writer hc = None then record
           else record\<lparr>ch_ActiveAttachment := writer_attachment hc\<rparr>)
            \<lparr>ch_Status := ch_Status (hc_record hc),
             ch_ChainVersion := ch_ChainVersion (hc_record hc)\<rparr>)"

definition mgr_ListSessionChains :: "'s world \<Rightarrow> string \<Rightarrow> ('s, chain_record list) fop" where
  "mgr_ListSessionChains W sessionID =
     attempt (on_store (ListSessionChains (w_store W) sessionID)) (\<lambda>chains. do {
       hot \<leftarrow> gets mg_chains;
       ok (map (\<lambda>c. overlay_session_chain (mget hot (ch_ID c)) c) chains) })"

definition ListSessionChainsAuthorized ::
  "'s world \<Rightarrow> principal \<Rightarrow> string \<Rightarrow> ('s, chain_record list) fop" where
  "ListSessionChainsAuthorized W p sessionID =
     attempt (GetSessionAuthorized W p sessionID) (\<lambda>session.
       mgr_ListSessionChains W (sess_ID session))"

section \<open>Chains\<close>

definition mgr_ListChains ::
  "'s world \<Rightarrow> principal \<Rightarrow> string \<Rightarrow> bool \<Rightarrow> ('s, chain_record list) fop" where
  "mgr_ListChains W p sessionID unsessionedOnly =
     (case authorizeOrgAccess (pr_OrgID p) (pr_OrgID p) of
        Some e \<Rightarrow> fail (CanonicalErr e)
      | None \<Rightarrow>
          attempt (on_store (ListChains (w_store W) (pr_OrgID p) sessionID unsessionedOnly))
            (\<lambda>chains. do {
               hot \<leftarrow> gets mg_chains;
               ok (map (\<lambda>c. overlay (mget hot (ch_ID c)) c) chains) }))"

definition GetChainAuthorized :: "'s world \<Rightarrow> principal \<Rightarrow> string \<Rightarrow> ('s, chain_record) fop" where
  "GetChainAuthorized W p chainID =
     attempt (GetChain_live W chainID) (\<lambda>record.
       case authorizeOrgAccess (ch_OrgID record) (pr_OrgID p) of
         Some e \<Rightarrow> fail (CanonicalErr (WithChain chainID e))
       | None \<Rightarrow> ok record)"

definition GetChainForMutation :: "'s world \<Rightarrow> principal \<Rightarrow> string \<Rightarrow> ('s, chain_record) fop" where
  "GetChainForMutation W p chainID =
     attempt (requireChain W chainID) (\<lambda>hc.
       case authorizeChainMutation hc p of
         Some e \<Rightarrow> fail (CanonicalErr (WithChain chainID e))
       | None \<Rightarrow> GetChain_live W chainID)"

definition GetChainContext :: "'s world \<Rightarrow> string \<Rightarrow> ('s, context_response) fop" where
  "GetChainContext W chainID =
     attempt (on_store (GetChain (w_store W) chainID)) (\<lambda>(record, history).
       ok \<lparr>cx_ChainID = ch_ID record, cx_Messages = history\<rparr>)"

definition GetChainContextAuthorized ::
  "'s world \<Rightarrow> principal \<Rightarrow> string \<Rightarrow> ('s, context_response) fop" where
  "GetChainContextAuthorized W p chainID =
     attempt (GetChainAuthorized W p chainID) (\<lambda>record.
     attempt (GetChainContext W chainID) (\<lambda>resp.
       ok (resp\<lparr>cx_ChainID := ch_ID record\<rparr>)))"

section \<open>Runs\<close>

definition ListRuns :: "'s world \<Rightarrow> string \<Rightarrow> ('s, run_record list) fop" where
  "ListRuns W chainID = on_store (ListChainRuns (w_store W) chainID)"

definition ListRunsAuthorized :: "'s world \<Rightarrow> principal \<Rightarrow> string \<Rightarrow> ('s, run_record list) fop" where
  "ListRunsAuthorized W p chainID =
     attempt (GetChainAuthorized W p chainID) (\<lambda>_. ListRuns W chainID)"

definition mgr_GetRun :: "'s world \<Rightarrow> string \<Rightarrow> ('s, run_record) fop" where
  "mgr_GetRun W runID = on_store (GetRun (w_store W) runID)"

definition GetRunAuthorized :: "'s world \<Rightarrow> principal \<Rightarrow> string \<Rightarrow> ('s, run_record) fop" where
  "GetRunAuthorized W p runID =
     attempt (on_store (GetRun (w_store W) runID)) (\<lambda>run.
       case authorizeOrgAccess (run_OrgID run) (pr_OrgID p) of
         Some e \<Rightarrow> fail (CanonicalErr (WithRun (run_ID run) (WithChain (run_ChainID run) e)))
       | None \<Rightarrow> ok run)"

definition mgr_GetRunTimeline ::
  "'s world \<Rightarrow> string \<Rightarrow> ('s, string \<times> timeline_item list) fop" where
  "mgr_GetRunTimeline W runID =
     attempt (on_store (GetRunTimeline (w_store W) runID)) (\<lambda>items. ok (runID, items))"

definition GetRunTimelineAuthorized ::
  "'s world \<Rightarrow> principal \<Rightarrow> string \<Rightarrow> ('s, string \<times> timeline_item list) fop" where
  "GetRunTimelineAuthorized W p runID =
     attempt (GetRunAuthorized W p runID) (\<lambda>run.
     attempt (mgr_GetRunTimeline W runID) (\<lambda>(_, items). ok (run_ID run, items)))"

definition mgr_GetEffectiveRequest ::
  "'s world \<Rightarrow> string \<Rightarrow> ('s, effective_request option) fop" where
  "mgr_GetEffectiveRequest W runID = on_store (GetEffectiveRequest (w_store W) runID)"

text \<open>The code writes the run ID into the response; a nil one would be a nil dereference,
  \<open>None\<close> here.\<close>

definition GetEffectiveRequestAuthorized ::
  "'s world \<Rightarrow> principal \<Rightarrow> string \<Rightarrow> ('s, effective_request option) fop" where
  "GetEffectiveRequestAuthorized W p runID =
     attempt (GetRunAuthorized W p runID) (\<lambda>run.
     attempt (mgr_GetEffectiveRequest W runID) (\<lambda>resp.
       ok (map_option (\<lambda>r. r\<lparr>er_RunID := run_ID run\<rparr>) resp)))"

definition OwnsAttachment :: "'s world \<Rightarrow> string \<Rightarrow> string \<Rightarrow> ('s, bool) op" where
  "OwnsAttachment W chainID attachmentID =
     (if trim_space chainID = [] \<or> trim_space attachmentID = [] then ret False
      else do {
        found \<leftarrow> requireChain W chainID;
        (case found of
           Inl _ \<Rightarrow> ret False
         | Inr hc \<Rightarrow>
             ret (case hc_writer hc of None \<Rightarrow> False | Some l \<Rightarrow> wl_ID l = attachmentID)) })"

section \<open>What an authorized read reveals\<close>

text \<open>Two organisation IDs name the same organisation when they agree up to surrounding
  white space and are not blank.\<close>

definition same_org :: "string \<Rightarrow> string \<Rightarrow> bool" where
  "same_org a b = (trim_space a = trim_space b \<and> trim_space a \<noteq> [])"

lemma authorizeOrgAccess_None: "authorizeOrgAccess a b = None \<longleftrightarrow> same_org a b"
  by (auto simp: authorizeOrgAccess_def same_org_def)

lemma authorizeOrgAccess_code:
  "authorizeOrgAccess a b = Some e \<Longrightarrow> err_Code e = ErrorCodeAuthChainAccessDenied"
  by (auto simp: authorizeOrgAccess_def split: if_splits)

text \<open>A read that succeeds and whose result satisfies \<open>P\<close> whatever the store did.\<close>

definition yields :: "('s, 'e + 'a) state \<Rightarrow> ('a \<Rightarrow> bool) \<Rightarrow> bool" where
  "yields m P = (\<forall>s. \<forall>x. fst (run_state m s) = Inr x \<longrightarrow> P x)"

lemma yieldsI: "(\<And>s. wp m (\<lambda>r _. \<forall>x. r = Inr x \<longrightarrow> P x) s) \<Longrightarrow> yields m P"
  by (simp add: yields_def wp_def case_prod_beta)

lemma yields_attempt: "(\<And>a. yields (f a) P) \<Longrightarrow> yields (attempt m f) P"
  by (auto simp: yields_def split: prod.splits sum.splits)

lemma yields_ok: "P x \<Longrightarrow> yields (ok x) P"
  by (simp add: yields_def)

lemma yields_fail: "yields (fail e) P"
  by (simp add: yields_def)

lemma yields_attempt_same:
  assumes "yields m Q" "\<And>a. Q a \<Longrightarrow> yields (f a) P"
  shows "yields (attempt m f) P"
  unfolding yields_def
proof (intro allI impI)
  fix s x assume x: "fst (run_state (attempt m f) s) = Inr x"
  then obtain a s' where a: "run_state m s = (Inr a, s')" "fst (run_state (f a) s') = Inr x"
    by (auto split: prod.splits sum.splits)
  then have "Q a" using assms(1) unfolding yields_def by (metis fst_conv)
  then show "P x" using assms(2) a(2) unfolding yields_def by blast
qed

lemma yields_authorized:
  "yields (attempt m (\<lambda>r. case authorizeOrgAccess (org r) o' of
             Some e \<Rightarrow> fail (g r e) | None \<Rightarrow> ok r)) (\<lambda>r. same_org (org r) o')"
  by (rule yields_attempt)
    (auto simp: authorizeOrgAccess_None intro: yields_ok yields_fail split: option.splits)

lemma yields_GetChainAuthorized:
  "yields (GetChainAuthorized W p c) (\<lambda>r. same_org (ch_OrgID r) (pr_OrgID p))"
  unfolding GetChainAuthorized_def by (rule yields_authorized)

lemma yields_GetRunAuthorized:
  "yields (GetRunAuthorized W p r) (\<lambda>r. same_org (run_OrgID r) (pr_OrgID p))"
  unfolding GetRunAuthorized_def by (rule yields_authorized)

lemma yields_GetSessionAuthorized:
  "yields (GetSessionAuthorized W p s) (\<lambda>r. same_org (sess_OrgID r) (pr_OrgID p))"
  unfolding GetSessionAuthorized_def by (rule yields_authorized)

end
