(* ===== verification/Branch.thy ===== *)
theory Branch
  imports ManagerRead
begin

text \<open>
  Forking a chain and regenerating a run (\<open>pkg/gateway/chains/manager_branch.go\<close>): a
  preview of the new chain's history, input and defaults, and its creation under an
  idempotency key.
\<close>

record fork_preview =
  fp_SourceChain :: chain_record
  fp_History :: "message list"
  fp_Input :: "message list"
  fp_Defaults :: chain_defaults
  fp_Metadata :: "jobj option"
  fp_ForkedFromRunID :: string

definition PreviewForkChain ::
  "'s world \<Rightarrow> principal \<Rightarrow> string \<Rightarrow> fork_request \<Rightarrow> ('s, fork_preview) fop" where
  "PreviewForkChain W p sourceChainID payload =
     attempt (requireChain W sourceChainID) (\<lambda>source.
       case authorizeChainMutation source p of
         Some e \<Rightarrow> fail (CanonicalErr (WithChain sourceChainID e))
       | None \<Rightarrow>
           (let record = clone_chain (hc_record source);
                history = cloneMessages (hc_history source)
            in ok \<lparr>fp_SourceChain = record,
                 fp_History = valueOrCloneMessages (fr_History payload) history,
                 fp_Input = [],
                 fp_Defaults = mergeDefaults (cloneChainDefaults (ch_Defaults record))
                                 (fr_Defaults payload),
                 fp_Metadata = mergeMetadata (ch_Metadata record) (fr_Metadata payload),
                 fp_ForkedFromRunID = trim_space (fr_ForkedFromRunID payload)\<rparr>))"

text \<open>The messages before a run and the run's own messages.\<close>

definition before_run :: "string \<Rightarrow> chain_message list \<Rightarrow> chain_message list" where
  "before_run runID ms = takeWhile (\<lambda>m. trim_space (cm_RunID m) \<noteq> runID) ms"

definition of_run :: "string \<Rightarrow> chain_message list \<Rightarrow> chain_message list" where
  "of_run runID ms = filter (\<lambda>m. trim_space (cm_RunID m) = runID) ms"

definition regenerate_input_count :: "run_record \<Rightarrow> chain_message list \<Rightarrow> int" where
  "regenerate_input_count run runMessages =
     (let n = runInputMessageCount run in
      if n \<le> 0 \<or> n > int (length runMessages) then inferredRunInputCount runMessages else n)"

definition PreviewRegenerateRun ::
  "'s world \<Rightarrow> principal \<Rightarrow> string \<Rightarrow> regenerate_request \<Rightarrow> ('s, fork_preview) fop" where
  "PreviewRegenerateRun W p runID payload =
     attempt (on_store (GetRun (w_store W) runID)) (\<lambda>run.
     attempt (requireChain W (run_ChainID run)) (\<lambda>chain.
       case authorizeChainMutation chain p of
         Some e \<Rightarrow> fail (CanonicalErr (WithRun runID (WithChain (run_ChainID run) e)))
       | None \<Rightarrow>
           if run_Status run \<noteq> RunStatusCompleted then
             fail (CoreErr (NewInvalidRequestError ''only completed runs can be regenerated''))
           else
             attempt (on_store (ListChainMessages (w_store W) (run_ChainID run))) (\<lambda>chainMessages.
               let runMessages = of_run (run_ID run) chainMessages in
               if runMessages = [] then fail (PlainErr ''run history is incomplete'')
               else (let inputCount = regenerate_input_count run runMessages in
                 if inputCount \<le> 0 \<or> inputCount > int (length runMessages) then
                   fail (PlainErr ''run input is unavailable for regeneration'')
                 else (let record = clone_chain (hc_record chain) in
                   ok \<lparr>fp_SourceChain = record,
                     fp_History = messagesFromRecords (before_run (run_ID run) chainMessages),
                     fp_Input = messagesFromRecords (take (nat inputCount) runMessages),
                     fp_Defaults = mergeDefaults (cloneChainDefaults (run_EffectiveConfig run))
                                     (rr_Defaults payload),
                     fp_Metadata = mergeMetadata (ch_Metadata record) (rr_Metadata payload),
                     fp_ForkedFromRunID = run_ID run\<rparr>)))))"

definition fork_record ::
  "string \<Rightarrow> principal \<Rightarrow> fork_preview \<Rightarrow> time \<Rightarrow> chain_record" where
  "fork_record chainID p preview t =
     (let src = fp_SourceChain preview; a = trim_space (ch_ActorID src) in
      \<lparr>ch_ID = chainID, ch_OrgID = ch_OrgID src, ch_SessionID = ch_SessionID src,
       ch_ExternalSessionID = ch_ExternalSessionID src,
       ch_CreatedByPrincipalID = pr_PrincipalID p,
       ch_CreatedByPrincipalType = pr_PrincipalType p,
       ch_ActorID = (if a = [] then trim_space (pr_ActorID p) else a),
       ch_Status = ChainStatusIdle, ch_ChainVersion = 1, ch_ParentChainID = ch_ID src,
       ch_ForkedFromRunID = trim_space (fp_ForkedFromRunID preview),
       ch_MessageCountCached = int (length (fp_History preview)), ch_TokenEstimateCached = 0,
       ch_Defaults = cloneChainDefaults (fp_Defaults preview),
       ch_Metadata = jclone_map (fp_Metadata preview), ch_ActiveAttachment = None,
       ch_CreatedAt = t, ch_UpdatedAt = t\<rparr>)"

definition fork_response_of :: "chain_record \<Rightarrow> string \<Rightarrow> message list \<Rightarrow> fork_response" where
  "fork_response_of record resumeToken input =
     \<lparr>fk_ChainID = ch_ID record, fk_SessionID = ch_SessionID record,
      fk_ExternalSessionID = ch_ExternalSessionID record,
      fk_ParentChainID = ch_ParentChainID record, fk_ForkedFromRunID = ch_ForkedFromRunID record,
      fk_Defaults = cloneChainDefaults (ch_Defaults record), fk_ResumeToken = resumeToken,
      fk_Input = cloneMessages input\<rparr>"

definition createForkedChain ::
  "'s world \<Rightarrow> principal \<Rightarrow> fork_preview \<Rightarrow> string \<Rightarrow> string \<Rightarrow> string \<Rightarrow> string
     \<Rightarrow> ('s, fork_response) fop" where
  "createForkedChain W p preview operation sourceChainID key requestHash = do {
     t \<leftarrow> now W;
     chainID \<leftarrow> newID W ''chain'';
     resumeToken \<leftarrow> issueResumeToken W;
     let record = fork_record chainID p preview t;
     let tokenHash = hashToken W resumeToken;
     let hot = \<lparr>hc_record = record, hc_history = cloneMessages (fp_History preview),
       hc_replay = empty_buffer, hc_nextEventID = 0, hc_orgID = ch_OrgID record,
       hc_createdByPrincipalID = pr_PrincipalID p,
       hc_createdByPrincipalType = pr_PrincipalType p, hc_actorID = ch_ActorID record,
       hc_resumeTokenHash = tokenHash, hc_writer = None, hc_activeRun = None\<rparr>;
     attempt (if ch_SessionID record = [] then ok ()
              else do {
                found \<leftarrow> on_store (GetSession (w_store W) (ch_SessionID record));
                (case found of
                   Inl _ \<Rightarrow> ok ()
                 | Inr session \<Rightarrow> on_store (UpsertSession (w_store W)
                     (session\<lparr>sess_UpdatedAt := t, sess_LatestChainID := chainID\<rparr>))) }) (\<lambda>_.
     attempt (on_store (SaveChain (w_store W) t record (hc_history hot))) (\<lambda>_.
     attempt (on_store (SetChainResumeTokenHash (w_store W) chainID tokenHash)) (\<lambda>_. do {
       put_chain chainID hot;
       attempt (SaveIdem W p sourceChainID operation key requestHash
           [(''chain_id'', JStr chainID)] t (hours 24)) (\<lambda>_.
         ok (fork_response_of record resumeToken (fp_Input preview))) }))) }"

definition forkResponse :: "'s world \<Rightarrow> string \<Rightarrow> message list \<Rightarrow> ('s, fork_response) fop" where
  "forkResponse W chainID input =
     attempt (GetChain_live W chainID) (\<lambda>record. ok (fork_response_of record [] input))"

text \<open>What the two branching operations do once the preview is made.\<close>

definition branch ::
  "'s world \<Rightarrow> principal \<Rightarrow> fork_preview \<Rightarrow> string \<Rightarrow> string \<Rightarrow> string \<Rightarrow> string
     \<Rightarrow> canonical_error \<Rightarrow> ('s, fork_response) fop" where
  "branch W p preview operation sourceChainID key requestHash conflict = do {
     existing \<leftarrow> GetIdem W (idem_scope p sourceChainID operation key);
     (case existing of
        Inl _ \<Rightarrow> createForkedChain W p preview operation sourceChainID key requestHash
      | Inr r \<Rightarrow>
          if id_RequestHash r \<noteq> requestHash then fail (CanonicalErr conflict)
          else if ref_string ''chain_id'' r \<noteq> []
          then forkResponse W (ref_string ''chain_id'' r) (fp_Input preview)
          else createForkedChain W p preview operation sourceChainID key requestHash) }"

definition branch_conflict :: canonical_error where
  "branch_conflict =
     NewCanonicalError ErrorCodeToolResultConflict ''idempotent request payload conflict''"

definition ForkChain ::
  "'s world \<Rightarrow> principal \<Rightarrow> string \<Rightarrow> fork_request \<Rightarrow> string \<Rightarrow> ('s, fork_response) fop" where
  "ForkChain W p sourceChainID payload key =
     (if trim_space key = [] then fail (CanonicalErr (WithChain sourceChainID key_required))
      else attempt (PreviewForkChain W p sourceChainID payload) (\<lambda>preview.
        branch W p preview ''chain.fork'' sourceChainID key
          (w_hash W (json_of_fork_request payload)) (WithChain sourceChainID branch_conflict)))"

definition RegenerateRun ::
  "'s world \<Rightarrow> principal \<Rightarrow> string \<Rightarrow> regenerate_request \<Rightarrow> string \<Rightarrow> ('s, fork_response) fop" where
  "RegenerateRun W p runID payload key =
     (if trim_space key = [] then fail (CanonicalErr (WithRun runID key_required))
      else attempt (PreviewRegenerateRun W p runID payload) (\<lambda>preview.
        let sourceChainID = ch_ID (fp_SourceChain preview) in
        branch W p preview ''run.regenerate'' sourceChainID key
          (w_hash W (json_of_regenerate_request payload))
          (WithRun runID (WithChain sourceChainID branch_conflict))))"

section \<open>What a preview holds\<close>

lemma yields_PreviewForkChain_aux:
  "yields (PreviewForkChain W p c payload) (\<lambda>fp.
     fp_Input fp = [] \<and>
     (\<forall>ms. fr_History payload = Some ms \<longrightarrow> fp_History fp = cloneMessages ms))"
  unfolding PreviewForkChain_def
  by (rule yields_attempt)
    (auto simp: Let_def valueOrCloneMessages_def intro!: yields_ok yields_fail split: option.splits)

lemma regenerate_input_count_le:
  "regenerate_input_count run ms \<le> int (length ms)"
proof -
  have "inferredRunInputCount ms \<le> int (length ms)"
    by (cases ms) (simp_all add: inferredRunInputCount_def length_takeWhile_le)
  then show ?thesis by (auto simp: regenerate_input_count_def Let_def)
qed

lemma regenerate_input_count_pos:
  "ms \<noteq> [] \<Longrightarrow> 0 < regenerate_input_count run ms"
  by (cases ms) (auto simp: regenerate_input_count_def Let_def inferredRunInputCount_def)

text \<open>When a run's messages lie together, history and run partition the log around them.\<close>

lemma before_of_run:
  assumes "\<forall>m \<in> set pre. trim_space (cm_RunID m) \<noteq> r" "\<forall>m \<in> set mid. trim_space (cm_RunID m) = r"
    "\<forall>m \<in> set post. trim_space (cm_RunID m) \<noteq> r" "mid \<noteq> []"
  shows "before_run r (pre @ mid @ post) = pre" "of_run r (pre @ mid @ post) = mid"
proof -
  obtain m mid' where "mid = m # mid'" using assms(4) by (cases mid) auto
  then show "before_run r (pre @ mid @ post) = pre"
    using assms(1,2) by (simp add: before_run_def takeWhile_append2)
  show "of_run r (pre @ mid @ post) = mid"
    using assms(1-3) by (simp add: of_run_def filter_empty_conv filter_id_conv)
qed

end
