(* ===== verification/StartRun.thy ===== *)
theory StartRun
  imports Branch
begin

text \<open>
  Starting a run (\<open>startRun\<close> in \<open>pkg/gateway/chains/executor.go\<close>): admission of the
  request, installation of the run in the chain, its persistence with the rollback of the
  in-memory state when a store call fails, and the \<open>run_start\<close> event.
\<close>

section \<open>Admission\<close>

record admission =
  adm_lease :: "(string \<times> time) option"
  adm_effective :: chain_defaults
  adm_registry :: "registry option"
  adm_history :: "message list"

definition chain_error :: "string \<Rightarrow> ErrorCode \<Rightarrow> string \<Rightarrow> gerr" where
  "chain_error chainID code msg = CanonicalErr (WithChain chainID (NewCanonicalError code msg))"

text \<open>The checks on the effective configuration, pure in the chain and the payload.\<close>

definition check_scope ::
  "string \<Rightarrow> runtime_env \<Rightarrow> chain_defaults \<Rightarrow> gerr + registry option" where
  "check_scope chainID env effective =
     (if trim_space (cd_Model effective) = [] then
        Inl (chain_error chainID ErrorCodeProtocolUnsupportedCapability ''model is required'')
      else if \<not> AllowsModel (env_Scope env) (cd_Model effective) then
        Inl (chain_error chainID ErrorCodeAuthCredentialScopeDenied
          ''current credential scope does not allow the requested model'')
      else if list_ex (\<lambda>n. \<not> AllowsGatewayTool (env_Scope env) n)
                (elems (cd_GatewayTools effective)) then
        Inl (chain_error chainID ErrorCodeAuthCredentialScopeDenied
          ''current credential scope does not allow the requested gateway tool'')
      else if elems (cd_GatewayTools effective) = [] then Inr None
      else (case env_BuildGatewayTools env of
              None \<Rightarrow> Inl (chain_error chainID ErrorCodeAuthCredentialScopeDenied
                       ''gateway tools are not configured for this attachment'')
            | Some build \<Rightarrow>
                (case build (elems (cd_GatewayTools effective)) (cd_GatewayToolConfig effective) of
                   Inl e \<Rightarrow> Inl e
                 | Inr reg \<Rightarrow> Inr (Some reg))))"

definition admit_config ::
  "string \<Rightarrow> runtime_env \<Rightarrow> run_payload \<Rightarrow> hot_chain
     \<Rightarrow> gerr + chain_defaults \<times> registry option \<times> message list" where
  "admit_config chainID env payload hc =
     (if hc_activeRun hc \<noteq> None then
        Inl (chain_error chainID ErrorCodeChainAttachConflict ''chain already has an active run'')
      else
        (let effective = mergeDefaults (ch_Defaults (hc_record hc)) (valueOrZero (rp_Overrides payload))
         in case check_scope chainID env effective of
              Inl e \<Rightarrow> Inl e
            | Inr reg \<Rightarrow>
                (let history = cloneMessages (hc_history hc) @ cloneMessages (rp_Input payload)
                 in case ValidateCapability (cd_Model effective) history effective of
                      Some e \<Rightarrow> Inl (CanonicalErr (WithChain chainID e))
                    | None \<Rightarrow> Inr (effective, reg, history))))"

definition admit_run ::
  "'s world \<Rightarrow> string \<Rightarrow> runtime_env \<Rightarrow> run_payload \<Rightarrow> ('s, admission) fop" where
  "admit_run W chainID env payload = do {
     hot \<leftarrow> hotChain chainID;
     (case hot of
        None \<Rightarrow> fail ErrNotFound
      | Some hc \<Rightarrow>
          if ch_Status (hc_record hc) = ChainStatusClosed then
            fail (chain_error chainID ErrorCodeChainExpired ''chain is closed'')
          else
            attempt (attach_for_request W chainID env) (\<lambda>lease.
              case admit_config chainID env payload hc of
                Inl e \<Rightarrow> fail e
              | Inr (effective, reg, history) \<Rightarrow>
                  ok \<lparr>adm_lease = lease, adm_effective = effective, adm_registry = reg,
                      adm_history = history\<rparr>)) }"

section \<open>Installation\<close>

definition lease_id :: "(string \<times> time) option \<Rightarrow> string" where
  "lease_id lease = (case lease of None \<Rightarrow> [] | Some (i, _) \<Rightarrow> i)"

definition new_run_record ::
  "string \<Rightarrow> string \<Rightarrow> hot_chain \<Rightarrow> runtime_env \<Rightarrow> run_payload \<Rightarrow> string \<Rightarrow> chain_defaults
     \<Rightarrow> time \<Rightarrow> string \<Rightarrow> run_record" where
  "new_run_record runID chainID hc env payload key effective t rerunOf =
     \<lparr>run_ID = runID, run_OrgID = ch_OrgID (hc_record hc), run_ChainID = chainID,
      run_SessionID = ch_SessionID (hc_record hc), run_ParentRunID = [],
      run_RerunOfRunID = rerunOf, run_IdempotencyKey = key,
      run_Provider = providerFromModel (cd_Model effective), run_Model = cd_Model effective,
      run_Status = RunStatusRunning, run_StopReason = [], run_ToolCount = 0, run_DurationMS = 0,
      run_Usage = zero_usage, run_EffectiveConfig = clone_defaults_json effective,
      run_Metadata = Some (withChainRuntimeMetadata
        (mergeRunMetadata (rp_Metadata payload) (env_Mode env) (env_Protocol env))
        (int (length (rp_Input payload)))),
      run_StartedAt = t, run_CompletedAt = None\<rparr>"

text \<open>The chain while a run is starting.\<close>

definition running_record :: "chain_record \<Rightarrow> message list \<Rightarrow> time \<Rightarrow> chain_record" where
  "running_record r history t = r\<lparr>ch_Status := ChainStatusRunning,
     ch_ChainVersion := ch_ChainVersion r + 1, ch_UpdatedAt := t,
     ch_MessageCountCached := int (length history)\<rparr>"

definition new_active_run ::
  "run_record \<Rightarrow> runtime_env \<Rightarrow> admission \<Rightarrow> active_run" where
  "new_active_run run env adm =
     \<lparr>ar_record = run, ar_env = env, ar_gatewayTools = adm_registry adm, ar_pending = [],
      ar_cancelled = False, ar_attachmentID = lease_id (adm_lease adm),
      ar_ephemeralWriter = (lease_id (adm_lease adm) \<noteq> []), ar_result = None, ar_err = None\<rparr>"

text \<open>Install the run; the result is its record, the chain as it was and the chain record
  to persist.\<close>

definition install_run ::
  "'s world \<Rightarrow> string \<Rightarrow> runtime_env \<Rightarrow> run_payload \<Rightarrow> string \<Rightarrow> admission
     \<Rightarrow> ('s, (run_record \<times> hot_chain \<times> chain_record) option) op" where
  "install_run W chainID env payload key adm = do {
     hot \<leftarrow> hotChain chainID;
     (case hot of
        None \<Rightarrow> ret None
      | Some hc \<Rightarrow> do {
          t \<leftarrow> now W;
          runID \<leftarrow> newID W ''run'';
          rerunOf \<leftarrow> (if ch_ForkedFromRunID (hc_record hc) = [] then ret []
                     else do {
                       existing \<leftarrow> on_store (ListChainRuns (w_store W) chainID);
                       ret (case existing of
                              Inr [] \<Rightarrow> ch_ForkedFromRunID (hc_record hc)
                            | _ \<Rightarrow> []) });
          let run = new_run_record runID chainID hc env payload key (adm_effective adm) t rerunOf;
          let record = running_record (hc_record hc) (adm_history adm) t;
          put_chain chainID (hc\<lparr>hc_history := adm_history adm, hc_record := record,
            hc_activeRun := Some (new_active_run run env adm)\<rparr>);
          ret (Some (run, hc, record)) }) }"

text \<open>\<open>rollbackStartFailure\<close>.\<close>

definition rollback_chain :: "string \<Rightarrow> string \<Rightarrow> hot_chain \<Rightarrow> hot_chain \<Rightarrow> hot_chain" where
  "rollback_chain runID attachmentID before hc = hc\<lparr>
     hc_activeRun := (case hc_activeRun hc of
        Some a \<Rightarrow> if run_ID (ar_record a) = runID then None else Some a
      | None \<Rightarrow> None),
     hc_writer := (case hc_writer hc of
        Some l \<Rightarrow> if attachmentID \<noteq> [] \<and> wl_ID l = attachmentID then None else Some l
      | None \<Rightarrow> None),
     hc_record := clone_chain (clone_chain (hc_record before)),
     hc_history := cloneMessages (cloneMessages (hc_history before))\<rparr>"

definition rollbackStartFailure ::
  "'s world \<Rightarrow> string \<Rightarrow> string \<Rightarrow> string \<Rightarrow> hot_chain \<Rightarrow> ('s, unit) op" where
  "rollbackStartFailure W chainID runID attachmentID before = do {
     upd_chain chainID (rollback_chain runID attachmentID before);
     (if attachmentID = [] then ret ()
      else do {
        t \<leftarrow> now W;
        _ \<leftarrow> on_store (CloseAttachment (w_store W) attachmentID ''start_failed'' t);
        ret () }) }"

section \<open>Persistence\<close>

fun contentFromAny :: "content \<Rightarrow> block slice" where
  "contentFromAny (CStr s) = Some [text_block s]"
| "contentFromAny (CBlocks s) = cloneContentBlocks s"
| "contentFromAny (CBlock b) = cloneContentBlocks (Some [b])"
| "contentFromAny c = cloneContentBlocksFromAny c"

definition new_item :: "string \<Rightarrow> string \<Rightarrow> time \<Rightarrow> timeline_item" where
  "new_item i kind t = \<lparr>ti_ID = i, ti_Kind = kind, ti_StepIndex = 0, ti_StepID = [],
     ti_ExecutionID = [], ti_SequenceInRun = 0, ti_SequenceInChain = 0, ti_Content = None,
     ti_Tool = None, ti_AssetID = [], ti_CreatedAt = t\<rparr>"

fun input_items ::
  "'s world \<Rightarrow> int \<Rightarrow> message list \<Rightarrow> time \<Rightarrow> ('s, timeline_item list) op" where
  "input_items W seq [] t = ret []"
| "input_items W seq (msg # msgs) t = do {
     i \<leftarrow> newID W ''item'';
     rest \<leftarrow> input_items W (seq + 1) msgs t;
     ret ((new_item i (msg_Role msg) t)\<lparr>ti_SequenceInRun := seq + 1,
            ti_Content := cloneContentBlocks (ContentBlocks msg)\<rparr> # rest) }"

definition buildInitialRunItems ::
  "'s world \<Rightarrow> chain_defaults \<Rightarrow> message list \<Rightarrow> time \<Rightarrow> ('s, timeline_item list) op" where
  "buildInitialRunItems W effective input t =
     (if cd_System effective = CNil then input_items W 0 input t
      else do {
        i \<leftarrow> newID W ''item'';
        rest \<leftarrow> input_items W 1 input t;
        ret ((new_item i ''system'' t)\<lparr>ti_SequenceInRun := 1,
               ti_Content := contentFromAny (cd_System effective)\<rparr> # rest) })"

definition buildEffectiveRequest ::
  "(string \<Rightarrow> string) \<Rightarrow> chain_defaults \<Rightarrow> message list \<Rightarrow> effective_request" where
  "buildEffectiveRequest sha effective history =
     \<lparr>er_RunID = [], er_Provider = providerFromModel (cd_Model effective),
      er_Model = cd_Model effective, er_EffectiveConfig = cloneChainDefaults effective,
      er_Messages = fst (BuildPlannerMessages sha history
        (SupportsVision (capability_or_zero (cd_Model effective))))\<rparr>"

text \<open>An error of a store call, wrapped with \<open>%w\<close>.\<close>

definition wrapped :: "string \<Rightarrow> ('s, gerr + 'a) state \<Rightarrow> ('s, gerr + 'a) state" where
  "wrapped msg m = do {
     r \<leftarrow> m;
     (case r of Inl e \<Rightarrow> fail (WrapErr msg e) | Inr x \<Rightarrow> ok x) }"

definition persist_run ::
  "'s world \<Rightarrow> string \<Rightarrow> runtime_env \<Rightarrow> run_payload \<Rightarrow> string \<Rightarrow> string \<Rightarrow> admission
     \<Rightarrow> run_record \<Rightarrow> chain_record \<Rightarrow> ('s, unit) fop" where
  "persist_run W chainID env payload key requestHash adm run record =
     attempt (wrapped ''save attachment'' (case adm_lease adm of
         None \<Rightarrow> ok ()
       | Some (i, t) \<Rightarrow> on_store (SaveAttachment (w_store W)
           (new_attachment i (env_Principal env) (pr_ActorID (env_Principal env)) chainID
              (env_Mode env) (env_Protocol env) [] t)))) (\<lambda>_.
     attempt (wrapped ''update chain'' (on_store (UpdateChain (w_store W) record))) (\<lambda>_.
     attempt (wrapped ''append chain messages'' (do {
         t \<leftarrow> now W;
         on_store (AppendChainMessages (w_store W) t chainID (run_ID run) (rp_Input payload)) })) (\<lambda>_.
     attempt (wrapped ''create run'' (on_store (CreateRun (w_store W) run))) (\<lambda>_.
     attempt (wrapped ''append run items'' (do {
         items \<leftarrow> buildInitialRunItems W (adm_effective adm) (rp_Input payload) (run_StartedAt run);
         on_store (AppendRunItems (w_store W) (run_ID run) items) })) (\<lambda>_.
     attempt (wrapped ''save effective request'' (on_store (SaveEffectiveRequest (w_store W)
         ((buildEffectiveRequest (w_sha W) (adm_effective adm) (adm_history adm))
            \<lparr>er_RunID := run_ID run\<rparr>)))) (\<lambda>_.
     wrapped ''save idempotency'' (SaveIdem W (env_Principal env) chainID ''run.start'' key
         requestHash [(''run_id'', JStr (run_ID run))] (run_StartedAt run) (hours 24))))))))"

section \<open>The operation\<close>

text \<open>\<open>emitRunEvent\<close>; its callers ignore the error. As in the code, the number is drawn in one critical
  section of the chain (\<open>nextEvent\<close>) and the event enters the buffer in another (\<open>bufferAndEmit\<close>); the
  theory \<open>Interleave\<close> lets other operations come between the two.\<close>

definition emitRunEvent ::
  "'s world \<Rightarrow> string \<Rightarrow> string \<Rightarrow> run_stream_event \<Rightarrow> ('s, unit) fop" where
  "emitRunEvent W chainID runID event = do {
     n \<leftarrow> nextEvent chainID;
     hot \<leftarrow> hotChain chainID;
     (case hot of
        None \<Rightarrow> ok ()
      | Some hc \<Rightarrow> bufferAndEmit W chainID (RunEnvelopeEvent
          \<lparr>en_EventID = n, en_ChainVersion = ch_ChainVersion (hc_record hc), en_RunID = runID,
           en_ChainID = ch_ID (hc_record hc), en_Event = event\<rparr>)) }"

text \<open>What \<open>startRun\<close> leaves: the record of an earlier request, or a started run with
  the history and the configuration its goroutine executes.\<close>

datatype start_outcome =
    Replayed run_record
  | Started run_record "message list" chain_defaults

definition start_new_run ::
  "'s world \<Rightarrow> string \<Rightarrow> runtime_env \<Rightarrow> run_payload \<Rightarrow> string \<Rightarrow> string \<Rightarrow> ('s, start_outcome) fop" where
  "start_new_run W chainID env payload key requestHash =
     attempt (admit_run W chainID env payload) (\<lambda>adm. do {
       installed \<leftarrow> install_run W chainID env payload key adm;
       (case installed of
          None \<Rightarrow> fail ErrNotFound
        | Some (run, before, record) \<Rightarrow> do {
            persisted \<leftarrow> persist_run W chainID env payload key requestHash adm run record;
            (case persisted of
               Inl e \<Rightarrow> do {
                 rollbackStartFailure W chainID (run_ID run) (lease_id (adm_lease adm)) before;
                 fail e }
             | Inr _ \<Rightarrow> do {
                 _ \<leftarrow> emitRunEvent W chainID (run_ID run)
                   (RunStartEvent (run_ID run) (cd_Model (adm_effective adm)) ''1'');
                 ok (Started run (adm_history adm) (adm_effective adm)) }) }) })"

definition startRun ::
  "'s world \<Rightarrow> string \<Rightarrow> runtime_env \<Rightarrow> run_payload \<Rightarrow> string \<Rightarrow> ('s, start_outcome) fop" where
  "startRun W chainID env payload key =
     (if trim_space key = [] then fail (CanonicalErr key_required)
      else do {
        found \<leftarrow> requireChain W chainID;
        (case found of
           Inl _ \<Rightarrow> fail (chain_error chainID ErrorCodeAuthResumeTokenInvalid
                      ''chain is not available'')
         | Inr hc \<Rightarrow>
             (case authorizeChainMutation hc (env_Principal env) of
                Some authErr \<Rightarrow> fail (CanonicalErr (WithChain chainID authErr))
              | None \<Rightarrow> do {
                  let requestHash = w_hash W (json_of_run_payload payload);
                  existing \<leftarrow> GetIdem W (idem_scope (env_Principal env) chainID ''run.start'' key);
                  (case existing of
                     Inl _ \<Rightarrow> start_new_run W chainID env payload key requestHash
                   | Inr r \<Rightarrow>
                       if id_RequestHash r \<noteq> requestHash then
                         fail (chain_error chainID ErrorCodeToolResultConflict
                           ''idempotent request payload conflict'')
                       else if ref_string ''run_id'' r = []
                       then start_new_run W chainID env payload key requestHash
                       else do {
                         run \<leftarrow> on_store (GetRun (w_store W) (ref_string ''run_id'' r));
                         (case run of
                            Inr rr \<Rightarrow> ok (Replayed rr)
                          | Inl _ \<Rightarrow> start_new_run W chainID env payload key requestHash) }) })) })"

definition StartRunAsync ::
  "'s world \<Rightarrow> string \<Rightarrow> runtime_env \<Rightarrow> run_payload \<Rightarrow> string \<Rightarrow> ('s, run_record) fop" where
  "StartRunAsync W chainID env payload key =
     attempt (startRun W chainID env payload key) (\<lambda>out.
       case out of Replayed r \<Rightarrow> ok r | Started r _ _ \<Rightarrow> ok (clone_run r))"

end
