(* ===== verification/TurnLoop.thy ===== *)
theory TurnLoop
  imports Prelude
begin

text \<open>
  The shape the loops of runs share: a turn either goes on with a new state or returns, and the loop makes
  turn after turn over what the environment does in each. The runs of chains (\<open>pkg/gateway/chains\<close>) and
  stateless runs (\<open>pkg/gateway/runloop\<close>) both provide it.
\<close>

locale turn_loop =
  fixes turn :: "'i \<Rightarrow> 'l \<Rightarrow> ('m, 'l + 'o) state"
    and loop :: "'i list \<Rightarrow> 'l \<Rightarrow> ('m, 'l + 'o) state"
  assumes loop_Nil: "loop [] st = ret (Inl st)"
    and loop_Cons: "loop (i # inputs) st = State_Monad.bind (turn i st)
      (\<lambda>r. case r of Inl st' \<Rightarrow> loop inputs st' | Inr out \<Rightarrow> ret (Inr out))"
begin

text \<open>An invariant that counts the turns made.\<close>

lemma loop_count:
  assumes turn: "\<And>n i st m. I n st m \<Longrightarrow>
      wp (turn i st) (\<lambda>r m'. case r of Inl st' \<Rightarrow> I (Suc n) st' m' | Inr out \<Rightarrow> F out m') m"
    and start: "I n st m"
  shows "wp (loop inputs st)
    (\<lambda>r m'. case r of Inl st' \<Rightarrow> I (n + length inputs) st' m' | Inr out \<Rightarrow> F out m') m"
  using start
proof (induction inputs arbitrary: n st m)
  case Nil
  then show ?case by (simp add: loop_Nil)
next
  case (Cons i inputs)
  define Q where "Q = (\<lambda>r m'. case r of Inl st' \<Rightarrow> I (Suc n + length inputs) st' m' | Inr out \<Rightarrow> F out m')"
  have rest: "wp (loop inputs st') Q m'" if "I (Suc n) st' m'" for st' m'
    using Cons.IH [OF that] unfolding Q_def .
  have "wp (loop (i # inputs) st) Q m"
    unfolding loop_Cons wp_bind
  proof (rule wp_mono [OF turn [OF Cons.prems]])
    fix r m'
    assume "case r of Inl st' \<Rightarrow> I (Suc n) st' m' | Inr out \<Rightarrow> F out m'"
    then show "wp (case r of Inl st' \<Rightarrow> loop inputs st' | Inr out \<Rightarrow> ret (Inr out)) Q m'"
      by (cases r) (simp_all add: rest, simp add: Q_def)
  qed
  moreover have "n + length (i # inputs) = Suc n + length inputs" by simp
  ultimately show ?case unfolding Q_def by (simp only:)
qed

lemma loop_invariant:
  assumes "\<And>i st m. I st m \<Longrightarrow> wp (turn i st) (\<lambda>r m'. case r of Inl st' \<Rightarrow> I st' m' | Inr out \<Rightarrow> F out m') m"
    and "I st m"
  shows "wp (loop inputs st) (\<lambda>r m'. case r of Inl st' \<Rightarrow> I st' m' | Inr out \<Rightarrow> F out m') m"
  using loop_count [of "\<lambda>_. I" F 0] assms by simp

lemma loop_preserves:
  assumes "\<And>i st. preserves J (turn i st)" shows "preserves J (loop inputs st)"
proof (rule preservesI)
  fix m assume "J m"
  have "wp (turn i st) (\<lambda>r m'. case r of Inl _ \<Rightarrow> J m' | Inr _ \<Rightarrow> J m') m" if "J m" for i st m
    by (rule wp_mono [OF preservesD [OF assms that]]) (simp split: sum.split)
  then have "wp (loop inputs st) (\<lambda>r m'. case r of Inl _ \<Rightarrow> J m' | Inr _ \<Rightarrow> J m') m"
    by (rule loop_invariant [of "\<lambda>_. J" "\<lambda>_. J"]) (use \<open>J m\<close> in auto)
  then show "wp (loop inputs st) (\<lambda>_. J) m"
    by (rule wp_mono) (simp split: sum.splits)
qed

text \<open>A loop whose invariant bounds the number of turns returns.\<close>

lemma loop_returns:
  assumes "\<And>n i st m. I n st m \<Longrightarrow>
      wp (turn i st) (\<lambda>r m'. case r of Inl st' \<Rightarrow> I (Suc n) st' m' | Inr out \<Rightarrow> F out m') m"
    and "I 0 st m" and "\<And>st m. \<not> I (length inputs) st m"
  shows "\<exists>out. fst (run_state (loop inputs st) m) = Inr out"
  using loop_count [of I F 0, OF assms(1,2), of inputs] assms(3)
  by (auto simp: wp_def split: prod.splits sum.splits)

end

end
