(* ===== verification/Executor.thy ===== *)
theory Executor
  imports StartRun TurnLoop
begin

text \<open>
  Executing a run (\<open>pkg/gateway/chains/executor.go\<close>): one model turn over a provider
  stream, the resolution of its tool calls by the gateway and by the client, the client's
  answers, and the loop of turns. What the environment decides is an input of each turn:
  whether the context is done at its head, and the order in which a wait for client tools
  is woken by results, by the context and by its timer.
\<close>

section \<open>Client tool results\<close>

definition payload_hash_of :: "'s world \<Rightarrow> block slice \<Rightarrow> bool \<Rightarrow> string" where
  "payload_hash_of W content isError = w_hash W (json_of_tool_result_payload content isError)"

text \<open>The decision of \<open>SubmitClientToolResult\<close> on a run that is active.\<close>

definition resolve_pending ::
  "string \<Rightarrow> string \<Rightarrow> tool_result_frame \<Rightarrow> (string, pending_execution) gomap
     \<Rightarrow> canonical_error + (string, pending_execution) gomap" where
  "resolve_pending chainID payloadHash frame pend =
     (let conflict = (\<lambda>msg. Inl (WithExecution (tf_ExecutionID frame) (WithRun (tf_RunID frame)
            (WithChain chainID (NewCanonicalError ErrorCodeToolResultConflict msg))))) in
      case mget pend (tf_ExecutionID frame) of
        None \<Rightarrow> conflict ''tool execution is not pending''
      | Some ex \<Rightarrow>
          if pe_Resolved ex then
            (if pe_PayloadHash ex = payloadHash then Inr pend
             else conflict ''tool result payload conflicts with the existing resolution'')
          else Inr (mput (tf_ExecutionID frame)
            (ex\<lparr>pe_Resolved := True, pe_Content := normalizeToolResultContent (tf_Content frame),
                pe_IsError := tf_IsError frame, pe_PayloadHash := payloadHash\<rparr>) pend))"

definition SubmitClientToolResult ::
  "'s world \<Rightarrow> string \<Rightarrow> tool_result_frame \<Rightarrow> ('s, unit) fop" where
  "SubmitClientToolResult W chainID frame = do {
     found \<leftarrow> requireChain W chainID;
     (case found of
        Inl _ \<Rightarrow> fail (chain_error chainID ErrorCodeAuthResumeTokenInvalid ''chain is not available'')
      | Inr hc \<Rightarrow>
          (case hc_activeRun hc of
             None \<Rightarrow> fail (CanonicalErr (WithRun (tf_RunID frame) (WithChain chainID
               (NewCanonicalError ErrorCodeToolResultConflict
                 ''run is not waiting for this tool result''))))
           | Some a \<Rightarrow>
               if run_ID (ar_record a) \<noteq> tf_RunID frame then
                 fail (CanonicalErr (WithRun (tf_RunID frame) (WithChain chainID
                   (NewCanonicalError ErrorCodeToolResultConflict
                     ''run is not waiting for this tool result''))))
               else
                 (case resolve_pending chainID
                     (payload_hash_of W (tf_Content frame) (tf_IsError frame)) frame (ar_pending a) of
                    Inl e \<Rightarrow> fail (CanonicalErr e)
                  | Inr pend \<Rightarrow> do {
                      put_chain chainID (hc\<lparr>hc_activeRun := Some (a\<lparr>ar_pending := pend\<rparr>)\<rparr>);
                      ok () }))) }"

definition CancelRun :: "'s world \<Rightarrow> string \<Rightarrow> string \<Rightarrow> ('s, unit) fop" where
  "CancelRun W chainID runID =
     attempt (requireChain W chainID) (\<lambda>hc.
       case hc_activeRun hc of
         None \<Rightarrow> ok ()
       | Some a \<Rightarrow>
           if run_ID (ar_record a) \<noteq> runID then ok ()
           else do {
             put_chain chainID (hc\<lparr>hc_activeRun := Some (a\<lparr>ar_cancelled := True\<rparr>)\<rparr>);
             ok () })"

section \<open>Waiting for the client\<close>

text \<open>What may wake the wait. Its timer fires after the listed wakes.\<close>

datatype wake = WakeSubmit tool_result_frame | WakeContext gerr

definition active_pending :: "string \<Rightarrow> ('s, (string, pending_execution) gomap) op" where
  "active_pending chainID = gets (\<lambda>m.
     case Option.bind (mget (mg_chains m) chainID) hc_activeRun of
       None \<Rightarrow> [] | Some a \<Rightarrow> ar_pending a)"

definition upd_pending ::
  "string \<Rightarrow> ((string, pending_execution) gomap \<Rightarrow> (string, pending_execution) gomap)
     \<Rightarrow> ('s, unit) op" where
  "upd_pending chainID f = upd_chain chainID (\<lambda>hc. hc\<lparr>hc_activeRun :=
     map_option (\<lambda>a. a\<lparr>ar_pending := f (ar_pending a)\<rparr>) (hc_activeRun hc)\<rparr>)"

definition resolved_of ::
  "(string, pending_execution) gomap \<Rightarrow> tool_use list \<Rightarrow> pending_execution list" where
  "resolved_of pend uses =
     List.map_filter (\<lambda>u. case mget pend (use_ID u) of
         Some ex \<Rightarrow> if pe_Resolved ex then Some ex else None | None \<Rightarrow> None) uses"

definition all_resolved :: "(string, pending_execution) gomap \<Rightarrow> tool_use list \<Rightarrow> bool" where
  "all_resolved pend uses =
     list_all (\<lambda>u. case mget pend (use_ID u) of None \<Rightarrow> False | Some ex \<Rightarrow> pe_Resolved ex) uses"

definition timeout_execution :: "'s world \<Rightarrow> gerr \<Rightarrow> pending_execution \<Rightarrow> pending_execution" where
  "timeout_execution W cause ex =
     (if pe_Resolved ex then ex
      else (let message = (if errors_Is cause CtxCanceled
                           then ''client tool execution was cancelled''
                           else ''client tool execution timed out'')
            in ex\<lparr>pe_Resolved := True, pe_IsError := True,
                  pe_Content := Some [text_block message],
                  pe_PayloadHash := w_hash W (JStr message)\<rparr>))"

fun timeout_all ::
  "'s world \<Rightarrow> gerr \<Rightarrow> tool_use list \<Rightarrow> (string, pending_execution) gomap
     \<Rightarrow> pending_execution list \<times> (string, pending_execution) gomap" where
  "timeout_all W cause [] pend = ([], pend)"
| "timeout_all W cause (u # us) pend =
     (case mget pend (use_ID u) of
        None \<Rightarrow> timeout_all W cause us pend
      | Some ex \<Rightarrow>
          (let ex' = timeout_execution W cause ex;
               (out, pend') = timeout_all W cause us (mput (use_ID u) ex' pend)
           in (ex' # out, pend')))"

definition timeoutPending ::
  "'s world \<Rightarrow> string \<Rightarrow> tool_use list \<Rightarrow> gerr \<Rightarrow> ('s, pending_execution list) op" where
  "timeoutPending W chainID uses cause = do {
     pend \<leftarrow> active_pending chainID;
     let (out, pend') = timeout_all W cause uses pend;
     upd_pending chainID (\<lambda>_. pend');
     ret out }"

fun waitForClientTools ::
  "'s world \<Rightarrow> string \<Rightarrow> tool_use list \<Rightarrow> wake list
     \<Rightarrow> ('s, pending_execution list \<times> gerr option) op" where
  "waitForClientTools W chainID uses wakes = do {
     pend \<leftarrow> active_pending chainID;
     (if all_resolved pend uses then ret (resolved_of pend uses, None)
      else (case wakes of
              [] \<Rightarrow> do {
                out \<leftarrow> timeoutPending W chainID uses CtxDeadlineExceeded;
                ret (out, Some CtxDeadlineExceeded) }
            | WakeContext e # _ \<Rightarrow> do {
                out \<leftarrow> timeoutPending W chainID uses e;
                ret (out, Some e) }
            | WakeSubmit frame # rest \<Rightarrow> do {
                _ \<leftarrow> SubmitClientToolResult W chainID frame;
                waitForClientTools W chainID uses rest })) }"

declare waitForClientTools.simps [simp del]

section \<open>Calling the client\<close>

definition emitClientToolCall ::
  "'s world \<Rightarrow> string \<Rightarrow> string \<Rightarrow> tool_use \<Rightarrow> time \<Rightarrow> ('s, unit) fop" where
  "emitClientToolCall W chainID runID u deadline = do {
     n \<leftarrow> nextEvent chainID;
     hot \<leftarrow> hotChain chainID;
     (case hot of
        None \<Rightarrow> ok ()
      | Some hc \<Rightarrow> bufferAndEmit W chainID (ClientToolCallEvent
          \<lparr>ct_EventID = n, ct_ChainVersion = ch_ChainVersion (hc_record hc), ct_RunID = runID,
           ct_ChainID = ch_ID (hc_record hc), ct_ExecutionID = use_ID u, ct_Name = use_Name u,
           ct_DeadlineAt = deadline, ct_Input = jclone_map (use_Input u),
           ct_EffectClass = ToolEffectClassUnknown\<rparr>)) }"

definition new_pending :: "tool_use \<Rightarrow> time \<Rightarrow> int \<Rightarrow> pending_execution" where
  "new_pending u deadline i =
     \<lparr>pe_ExecutionID = use_ID u, pe_Name = use_Name u, pe_Input = jclone_map (use_Input u),
      pe_DeadlineAt = deadline, pe_EffectClass = ToolEffectClassUnknown, pe_CallIndex = i,
      pe_Resolved = False, pe_Content = None, pe_IsError = False, pe_PayloadHash = []\<rparr>"

fun register_pending :: "'s world \<Rightarrow> string \<Rightarrow> int \<Rightarrow> tool_use list \<Rightarrow> ('s, unit) op" where
  "register_pending W chainID i [] = ret ()"
| "register_pending W chainID i (u # us) = do {
     t \<leftarrow> now W;
     upd_pending chainID
       (mput (use_ID u) (new_pending u (t + ToolWaitTimeout (w_cfg W)) i));
     register_pending W chainID (i + 1) us }"

fun emit_calls :: "'s world \<Rightarrow> string \<Rightarrow> string \<Rightarrow> tool_use list \<Rightarrow> ('s, unit) fop" where
  "emit_calls W chainID runID [] = ok ()"
| "emit_calls W chainID runID (u # us) = do {
     t \<leftarrow> now W;
     attempt (emitClientToolCall W chainID runID u (t + ToolWaitTimeout (w_cfg W)))
       (\<lambda>_. emit_calls W chainID runID us) }"

definition enqueueClientToolCalls ::
  "'s world \<Rightarrow> string \<Rightarrow> string \<Rightarrow> tool_use list \<Rightarrow> ('s, unit) fop" where
  "enqueueClientToolCalls W chainID runID uses = do {
     register_pending W chainID 0 uses;
     emit_calls W chainID runID uses }"

section \<open>Resolving a batch of tool calls\<close>

record batch =
  b_Results :: "run_tool_result list"
  b_Blocks :: "block list"
  b_Items :: "timeline_item list"

definition empty_batch :: batch where
  "empty_batch = \<lparr>b_Results = [], b_Blocks = [], b_Items = []\<rparr>"

definition tool_result_block :: "string \<Rightarrow> block slice \<Rightarrow> bool \<Rightarrow> block" where
  "tool_result_block i content isError =
     ToolResultBlock ''tool_result'' i (elems content) isError"

text \<open>A result with its block and its timeline item.\<close>

definition add_result ::
  "'s world \<Rightarrow> int \<Rightarrow> string \<Rightarrow> run_tool_result \<Rightarrow> block slice \<Rightarrow> batch \<Rightarrow> ('s, batch) op" where
  "add_result W stepIndex executionID result content b = do {
     i \<leftarrow> newID W ''item'';
     t \<leftarrow> now W;
     ret \<lparr>b_Results = b_Results b @ [result],
          b_Blocks = b_Blocks b @ [tool_result_block executionID content (res_IsError result)],
          b_Items = b_Items b @ [(new_item i ''tool_result'' t)\<lparr>ti_StepIndex := stepIndex,
            ti_ExecutionID := executionID, ti_Content := content\<rparr>]\<rparr> }"

text \<open>The result of a gateway tool: an error without content carries its message.\<close>

definition gateway_result ::
  "'s world \<Rightarrow> registry option \<Rightarrow> image_refs \<Rightarrow> tool_use \<Rightarrow> run_tool_result \<times> image_refs" where
  "gateway_result W reg refs u =
     (case registry_Execute reg refs (use_Name u) (use_Input u) of
        (content, toolErr) \<Rightarrow>
          (let cloned = cloneContentBlocks content;
               base = (case toolErr of
                   Some e \<Rightarrow> if elems cloned = [] then Some [text_block (ae_Message e)] else cloned
                 | None \<Rightarrow> normalizeToolResultContent cloned);
               (final, refs') =
                 (if use_Name u = ToolImage
                  then FinalizeImageToolResultContent (w_sha W) (w_parse W) (w_render W) base refs
                  else (base, refs))
           in (\<lparr>res_ToolUseID = use_ID u, res_Content = final,
                res_IsError = (toolErr \<noteq> None), res_Error = toolErr\<rparr>, refs')))"

fun resolve_gateway ::
  "'s world \<Rightarrow> string \<Rightarrow> string \<Rightarrow> registry option \<Rightarrow> int \<Rightarrow> time \<Rightarrow> tool_use list \<Rightarrow> image_refs
     \<Rightarrow> batch \<Rightarrow> ('s, batch \<times> tool_use list) op" where
  "resolve_gateway W chainID runID reg stepIndex t [] refs b = ret (b, [])"
| "resolve_gateway W chainID runID reg stepIndex t (u # us) refs b = do {
     i \<leftarrow> newID W ''item'';
     let b1 = b\<lparr>b_Items := b_Items b @ [(new_item i ''tool_call'' t)\<lparr>ti_StepIndex := stepIndex,
       ti_ExecutionID := use_ID u,
       ti_Tool := Some \<lparr>tt_Name = use_Name u, tt_Args = jclone_map (use_Input u)\<rparr>\<rparr>]\<rparr>;
     (if registry_Has reg (use_Name u) then do {
        _ \<leftarrow> emitRunEvent W chainID runID
          (RunToolCallStartEvent (use_ID u) (use_Name u) (jclone_map (use_Input u)));
        let (result, refs') = gateway_result W reg refs u;
        let content = cloneContentBlocks (res_Content result);
        b2 \<leftarrow> add_result W stepIndex (use_ID u) result content b1;
        _ \<leftarrow> emitRunEvent W chainID runID (RunToolResultEvent (use_ID u) (use_Name u) content
               (res_IsError result) (res_Error result));
        resolve_gateway W chainID runID reg stepIndex t us refs' b2 }
      else do {
        (b2, clientUses) \<leftarrow> resolve_gateway W chainID runID reg stepIndex t us refs b1;
        ret (b2, u # clientUses) }) }"

definition require_ws_message :: string where
  "require_ws_message = ''client-executed tools require the chain websocket transport''"

fun reject_clients ::
  "'s world \<Rightarrow> int \<Rightarrow> tool_use list \<Rightarrow> batch \<Rightarrow> ('s, batch) op" where
  "reject_clients W stepIndex [] b = ret b"
| "reject_clients W stepIndex (u # us) b = do {
     let content = normalizeToolResultContent (Some [text_block require_ws_message]);
     b' \<leftarrow> add_result W stepIndex (use_ID u)
       \<lparr>res_ToolUseID = use_ID u, res_Content = content, res_IsError = True,
        res_Error = Some (run_error ErrInvalidRequest require_ws_message
          (error_code ErrorCodeTransportClientToolsRequireWS))\<rparr> content b;
     reject_clients W stepIndex us b' }"

fun add_waited ::
  "'s world \<Rightarrow> int \<Rightarrow> pending_execution list \<Rightarrow> batch \<Rightarrow> ('s, batch) op" where
  "add_waited W stepIndex [] b = ret b"
| "add_waited W stepIndex (ex # exs) b = do {
     let content = normalizeToolResultContent (pe_Content ex);
     b' \<leftarrow> add_result W stepIndex (pe_ExecutionID ex)
       \<lparr>res_ToolUseID = pe_ExecutionID ex, res_Content = content, res_IsError = pe_IsError ex,
        res_Error = None\<rparr> content b;
     add_waited W stepIndex exs b' }"

definition wait_stop_reason :: "gerr \<Rightarrow> RunStopReason" where
  "wait_stop_reason e =
     (if errors_Is e CtxDeadlineExceeded then RunStopReasonTimeout
      else if errors_Is e CtxCanceled then RunStopReasonCancelled
      else RunStopReasonError)"

definition resolveToolBatch ::
  "'s world \<Rightarrow> string \<Rightarrow> active_run \<Rightarrow> int \<Rightarrow> tool_use list \<Rightarrow> image_refs \<Rightarrow> wake list
     \<Rightarrow> ('s, batch \<times> RunStopReason \<times> gerr option) op" where
  "resolveToolBatch W chainID active stepIndex uses refs wakes = do {
     let runID = run_ID (ar_record active);
     t \<leftarrow> now W;
     (b, clientUses) \<leftarrow> resolve_gateway W chainID runID (ar_gatewayTools active) stepIndex t uses
                          refs empty_batch;
     (if clientUses = [] then ret (b, RunStopReasonNone, None)
      else if \<not> env_AllowClientTools (ar_env active) then do {
        b' \<leftarrow> reject_clients W stepIndex clientUses b;
        ret (b', RunStopReasonError,
          Some (canonical ErrorCodeTransportClientToolsRequireWS require_ws_message)) }
      else do {
        queued \<leftarrow> enqueueClientToolCalls W chainID runID clientUses;
        (case queued of
           Inl e \<Rightarrow> ret (b, RunStopReasonError, Some e)
         | Inr _ \<Rightarrow> do {
             (waited, waitErr) \<leftarrow> waitForClientTools W chainID clientUses wakes;
             b' \<leftarrow> add_waited W stepIndex waited b;
             ret (b', (case waitErr of None \<Rightarrow> RunStopReasonNone | Some e \<Rightarrow> wait_stop_reason e),
                  waitErr) }) }) }"

section \<open>A model turn\<close>

definition messageRequestFromDefaults ::
  "chain_defaults \<Rightarrow> message list \<Rightarrow> message_request" where
  "messageRequestFromDefaults d messages =
     \<lparr>mr_Model = cd_Model d, mr_Messages = cloneMessages messages, mr_MaxTokens = cd_MaxTokens d,
      mr_System = normalizedMessageContent (cd_System d), mr_Temperature = cd_Temperature d,
      mr_TopP = cd_TopP d, mr_TopK = cd_TopK d,
      mr_StopSequences = clone_slice (cd_StopSequences d),
      mr_Tools = mergedTools (cd_Tools d) (elems (cd_GatewayTools d)),
      mr_ToolChoice = cd_ToolChoice d, mr_Stream = False, mr_STTModel = cd_STTModel d,
      mr_TTSModel = cd_TTSModel d,
      mr_OutputFormat = map_option clone_output_format (cd_OutputFormat d),
      mr_Output = map_option clone_output_config (cd_Output d), mr_Voice = cd_Voice d,
      mr_Extensions = jclone_map (cd_Extensions d), mr_Metadata = jclone_map (cd_Metadata d)\<rparr>"

text \<open>The parser of tool inputs, from the parser of texts.\<close>

definition parse_input :: "'s world \<Rightarrow> string \<Rightarrow> jobj option option" where
  "parse_input W raw =
     (case w_parse W raw of
        Some JNull \<Rightarrow> Some None
      | Some (JObj m) \<Rightarrow> Some (Some (jclone_obj m))
      | _ \<Rightarrow> None)"

text \<open>
  The loop over the stream: each event is accumulated and forwarded; the first error ends
  it. The result is the accumulator and the error other than the end of the stream. An
  event the accumulator panics on ends the stream with an error.
\<close>

definition index_panic :: gerr where
  "index_panic = PlainErr ''runtime error: index out of range''"

fun run_stream ::
  "'s world \<Rightarrow> string \<Rightarrow> string \<Rightarrow> stream_script \<Rightarrow> accumulator \<Rightarrow> ('s, accumulator \<times> gerr option) op"
where
  "run_stream W chainID runID [] acc = ret (acc, None)"
| "run_stream W chainID runID ((ev, err) # rest) acc =
     (case (case ev of None \<Rightarrow> Some acc | Some e \<Rightarrow> Apply (parse_input W) e acc) of
        None \<Rightarrow> ret (acc, Some index_panic)
      | Some acc' \<Rightarrow> do {
          _ \<leftarrow> (case ev of
                  None \<Rightarrow> ok ()
                | Some e \<Rightarrow> emitRunEvent W chainID runID (RunStreamEventWrapper e));
          (case err of
             None \<Rightarrow> run_stream W chainID runID rest acc'
           | Some e \<Rightarrow> ret (acc', if errors_Is e IOEOF then None else Some e)) })"

text \<open>The result of \<open>executeModelTurn\<close>: an error with the partial content, or a
  response with the image references its tools run under.\<close>

type_synonym turn_result = "gerr \<times> block slice + message_response \<times> image_refs"

definition executeModelTurn ::
  "'s world \<Rightarrow> string \<Rightarrow> active_run \<Rightarrow> message list \<Rightarrow> chain_defaults \<Rightarrow> ('s, turn_result) op" where
  "executeModelTurn W chainID active history effective =
     (case splitModel (cd_Model effective) of
        None \<Rightarrow> ret (Inl (PlainErr (''invalid model '' @ quoted (cd_Model effective)), None))
      | Some (providerName, modelName) \<Rightarrow>
          (case env_NewProvider (ar_env active) of
             None \<Rightarrow> ret (Inl (PlainErr ''provider factory is not configured'', None))
           | Some newProvider \<Rightarrow>
               (let apiKey = providerKeyFor (env_Scope (ar_env active)) providerName in
                if apiKey = [] then
                  ret (Inl (canonical ErrorCodeAuthCredentialScopeDenied
                    ''current credential scope does not allow the requested model'', None))
                else (case newProvider providerName apiKey of
                   Inl e \<Rightarrow> ret (Inl (e, None))
                 | Inr provider \<Rightarrow>
                     (let (planner, refs) = BuildPlannerMessages (w_sha W) history
                            (SupportsVision (capability_or_zero (cd_Model effective)));
                          req = messageRequestFromDefaults effective planner
                      in case (case env_ResolveMessageRequest (ar_env active) of
                            Some resolve \<Rightarrow> resolve req
                          | None \<Rightarrow>
                              if RequestHasAssetReferences (mr_System req) (mr_Messages req)
                              then Inl (CoreErr (NewInvalidRequestError
                                ''asset references require gateway asset storage to be configured''))
                              else Inr req) of
                         Inl e \<Rightarrow> ret (Inl (e, None))
                       | Inr req' \<Rightarrow>
                           (case provider (req'\<lparr>mr_Model := modelName\<rparr>) of
                              Inl e \<Rightarrow> ret (Inl (e, None))
                            | Inr script \<Rightarrow> do {
                                (acc, err) \<leftarrow> run_stream W chainID (run_ID (ar_record active)) script
                                                NewStreamAccumulator;
                                let resp = Response (parse_input W) acc;
                                ret (case err of
                                   Some e \<Rightarrow> Inl (e, cloneContentBlocks (Some (resp_Content resp)))
                                 | None \<Rightarrow> Inr (resp, refs)) }))))))"

section \<open>Ending a run\<close>

definition finished_record ::
  "run_record \<Rightarrow> run_result \<Rightarrow> RunStopReason \<Rightarrow> gerr option \<Rightarrow> time \<Rightarrow> time \<Rightarrow> run_record" where
  "finished_record r result stopReason err t t2 = r\<lparr>
     run_Status := toRunStatus stopReason err, run_StopReason := run_stop_reason stopReason,
     run_Usage := rs_Usage result, run_ToolCount := rs_ToolCallCount result,
     run_DurationMS := (t2 - run_StartedAt r) div 1000000, run_CompletedAt := Some t\<rparr>"

definition finish ::
  "'s world \<Rightarrow> string \<Rightarrow> run_result \<Rightarrow> RunStopReason \<Rightarrow> gerr option \<Rightarrow> ('s, run_result) op" where
  "finish W chainID result stopReason err = do {
     t \<leftarrow> now W;
     t2 \<leftarrow> now W;
     let result' = result\<lparr>rs_StopReason := stopReason\<rparr>;
     hot \<leftarrow> hotChain chainID;
     (case Option.bind hot hc_activeRun of
        None \<Rightarrow> ret result'
      | Some a \<Rightarrow> do {
          let r = finished_record (ar_record a) result stopReason err t t2;
          upd_chain chainID (\<lambda>hc. hc\<lparr>hc_activeRun := Some (a\<lparr>ar_record := r,
            ar_result := Some result', ar_err := err\<rparr>)\<rparr>);
          _ \<leftarrow> on_store (UpdateRun (w_store W) r);
          ret result' }) }"

text \<open>The deferred cleanup of \<open>executeRun\<close>; runs are told apart by their ID.\<close>

definition release_run :: "string \<Rightarrow> time \<Rightarrow> hot_chain \<Rightarrow> hot_chain" where
  "release_run runID t hc =
     (case hc_activeRun hc of
        None \<Rightarrow> hc
      | Some a \<Rightarrow>
          if run_ID (ar_record a) \<noteq> runID then hc
          else
          (let own = ar_ephemeralWriter a \<and>
                 (case hc_writer hc of None \<Rightarrow> False | Some l \<Rightarrow> wl_ID l = ar_attachmentID a);
               r0 = hc_record hc;
               r1 = (if own then r0\<lparr>ch_ActiveAttachment := None\<rparr> else r0);
               r2 = (if ch_Status r1 \<noteq> ChainStatusClosed \<and> ch_Status r1 \<noteq> ChainStatusExpired
                     then r1\<lparr>ch_Status := ChainStatusIdle\<rparr> else r1)
           in hc\<lparr>hc_activeRun := None, hc_writer := (if own then None else hc_writer hc),
                 hc_record := r2\<lparr>ch_UpdatedAt := t\<rparr>\<rparr>))"

definition cleanup_run :: "'s world \<Rightarrow> string \<Rightarrow> active_run \<Rightarrow> ('s, unit) op" where
  "cleanup_run W chainID active = do {
     t \<leftarrow> now W;
     upd_chain chainID (release_run (run_ID (ar_record active)) t);
     hot \<leftarrow> hotChain chainID;
     (case hot of
        None \<Rightarrow> ret ()
      | Some hc \<Rightarrow> do {
          _ \<leftarrow> on_store (UpdateChain (w_store W) (clone_chain (hc_record hc)));
          (if ar_ephemeralWriter active \<and> ar_attachmentID active \<noteq> [] then do {
             t2 \<leftarrow> now W;
             _ \<leftarrow> on_store (CloseAttachment (w_store W) (ar_attachmentID active)
                    ''request_complete'' t2);
             ret () }
           else ret ()) }) }"

section \<open>The history of the chain\<close>

definition committed :: "ChainStatus \<Rightarrow> message list \<Rightarrow> time \<Rightarrow> hot_chain \<Rightarrow> hot_chain" where
  "committed status messages t hc =
     (let h = hc_history hc @ cloneMessages messages in
      hc\<lparr>hc_history := h, hc_record := (hc_record hc)\<lparr>ch_Status := status,
        ch_ChainVersion := ch_ChainVersion (hc_record hc) + 1, ch_UpdatedAt := t,
        ch_MessageCountCached := int (length h)\<rparr>\<rparr>)"

definition commitHistory ::
  "'s world \<Rightarrow> string \<Rightarrow> string \<Rightarrow> ChainStatus \<Rightarrow> message list \<Rightarrow> ('s, unit) op" where
  "commitHistory W chainID runID status messages = do {
     t \<leftarrow> now W;
     upd_chain chainID (committed status messages t);
     hot \<leftarrow> hotChain chainID;
     (case hot of
        None \<Rightarrow> ret ()
      | Some hc \<Rightarrow> do {
          t2 \<leftarrow> now W;
          _ \<leftarrow> on_store (AppendChainMessages (w_store W) t2 (ch_ID (hc_record hc)) runID messages);
          _ \<leftarrow> on_store (UpdateChain (w_store W) (clone_chain (hc_record hc)));
          ret () }) }"

section \<open>The loop of turns\<close>

record turn_input =
  tin_ctx :: "gerr option"
  tin_wakes :: "wake list"

record exec_state =
  ex_history :: "message list"
  ex_result :: run_result
  ex_itemSeq :: int
  ex_chainSeq :: int
  ex_step :: int

definition assistant_message :: "message_response \<Rightarrow> message" where
  "assistant_message resp =
     \<lparr>msg_Role = ''assistant'', msg_Content = CBlocks (nil_if_empty (resp_Content resp))\<rparr>"

definition tool_message :: "batch \<Rightarrow> message" where
  "tool_message b = \<lparr>msg_Role = ''user'', msg_Content = CBlocks (Some (b_Blocks b))\<rparr>"

definition assistant_item ::
  "'s world \<Rightarrow> exec_state \<Rightarrow> int \<Rightarrow> block slice \<Rightarrow> ('s, timeline_item) op" where
  "assistant_item W st d content = do {
     i \<leftarrow> newID W ''item'';
     t \<leftarrow> now W;
     ret ((new_item i ''assistant'' t)\<lparr>ti_StepIndex := ex_step st,
       ti_SequenceInRun := ex_itemSeq st + d, ti_SequenceInChain := ex_chainSeq st + d,
       ti_Content := content\<rparr>) }"

definition fail_turn ::
  "'s world \<Rightarrow> string \<Rightarrow> active_run \<Rightarrow> exec_state \<Rightarrow> gerr \<Rightarrow> block slice \<Rightarrow> ('s, run_result) op" where
  "fail_turn W chainID active st err partial = do {
     (if elems partial = [] then ret ()
      else do {
        item \<leftarrow> assistant_item W st 0 partial;
        _ \<leftarrow> on_store (AppendRunItems (w_store W) (run_ID (ar_record active)) [item]);
        ret () });
     let stopReason = (case stopReasonFromContext (Some err) of
       Some r \<Rightarrow> r | None \<Rightarrow> RunStopReasonError);
     result \<leftarrow> finish W chainID (ex_result st) stopReason (Some err);
     _ \<leftarrow> emitRunEvent W chainID (run_ID (ar_record active))
       (RunErrorEvent (run_error ErrAPI (error_text err) []));
     ret result }"

definition final_turn ::
  "'s world \<Rightarrow> string \<Rightarrow> active_run \<Rightarrow> exec_state \<Rightarrow> run_result \<Rightarrow> run_step \<Rightarrow> message_response
     \<Rightarrow> ('s, run_result) op" where
  "final_turn W chainID active st result step resp = do {
     let runID = run_ID (ar_record active);
     let history = ex_history st @ [assistant_message resp];
     let result' = result\<lparr>rs_Response := Some resp, rs_Steps := rs_Steps result @ [step],
       rs_StopReason := RunStopReasonEndTurn, rs_Messages := cloneMessages history\<rparr>;
     item \<leftarrow> assistant_item W st 1 (cloneContentBlocks (Some (resp_Content resp)));
     _ \<leftarrow> on_store (AppendRunItems (w_store W) runID [item]);
     commitHistory W chainID runID ChainStatusIdle [assistant_message resp];
     final \<leftarrow> finish W chainID result' RunStopReasonEndTurn None;
     _ \<leftarrow> emitRunEvent W chainID runID (RunStepCompleteEvent (ex_step st) (Some resp));
     _ \<leftarrow> emitRunEvent W chainID runID
       (RunHistoryDeltaEvent (int (length history) - 1) [assistant_message resp]);
     _ \<leftarrow> emitRunEvent W chainID runID (RunCompleteEvent final);
     ret final }"

definition tool_turn ::
  "'s world \<Rightarrow> string \<Rightarrow> active_run \<Rightarrow> exec_state \<Rightarrow> run_result \<Rightarrow> run_step \<Rightarrow> message_response
     \<Rightarrow> image_refs \<Rightarrow> wake list \<Rightarrow> ('s, exec_state + run_result) op" where
  "tool_turn W chainID active st result step resp refs wakes = do {
     let runID = run_ID (ar_record active);
     let uses = ToolUses resp;
     (b, stopReason, stopErr) \<leftarrow> resolveToolBatch W chainID active (ex_step st) uses refs wakes;
     let step' = step\<lparr>step_ToolCalls := map (\<lambda>u. \<lparr>call_ID = use_ID u, call_Name = use_Name u,
         call_Input = jclone_map (use_Input u)\<rparr>) uses, step_ToolResults := b_Results b\<rparr>;
     let result1 = result\<lparr>rs_ToolCallCount := rs_ToolCallCount result + int (length (b_Results b)),
       rs_Steps := rs_Steps result @ [step']\<rparr>;
     let msgs = [assistant_message resp, tool_message b];
     let history = ex_history st @ msgs;
     commitHistory W chainID runID ChainStatusRunning msgs;
     _ \<leftarrow> on_store (AppendRunItems (w_store W) runID (b_Items b));
     _ \<leftarrow> emitRunEvent W chainID runID (RunStepCompleteEvent (ex_step st) (Some resp));
     _ \<leftarrow> emitRunEvent W chainID runID (RunHistoryDeltaEvent (int (length history) - 2) msgs);
     (case stopErr of
        None \<Rightarrow> ret (Inl (st\<lparr>ex_history := history, ex_result := result1,
          ex_step := ex_step st + 1\<rparr>))
      | Some e \<Rightarrow> do {
          let result2 = result1\<lparr>rs_Response := Some resp, rs_StopReason := stopReason,
            rs_Messages := cloneMessages history\<rparr>;
          final \<leftarrow> finish W chainID result2 stopReason (Some e);
          _ \<leftarrow> emitRunEvent W chainID runID (RunCompleteEvent final);
          ret (Inr final) }) }"

text \<open>One iteration of the loop: the next state, or the final result.\<close>

definition executeTurn ::
  "'s world \<Rightarrow> string \<Rightarrow> active_run \<Rightarrow> chain_defaults \<Rightarrow> turn_input \<Rightarrow> exec_state
     \<Rightarrow> ('s, exec_state + run_result) op" where
  "executeTurn W chainID active effective input st =
     (case stopReasonFromContext (tin_ctx input) of
        Some stopReason \<Rightarrow> do {
          final \<leftarrow> finish W chainID (ex_result st) stopReason (tin_ctx input);
          ret (Inr final) }
      | None \<Rightarrow> do {
          _ \<leftarrow> emitRunEvent W chainID (run_ID (ar_record active)) (RunStepStartEvent (ex_step st));
          t0 \<leftarrow> now W;
          turn \<leftarrow> executeModelTurn W chainID active (ex_history st) effective;
          (case turn of
             Inl (err, partial) \<Rightarrow> do {
               final \<leftarrow> fail_turn W chainID active st err partial;
               ret (Inr final) }
           | Inr (resp, refs) \<Rightarrow> do {
               t1 \<leftarrow> now W;
               let result = (ex_result st)\<lparr>rs_Usage := usage_Add (rs_Usage (ex_result st)) (resp_Usage resp),
                 rs_TurnCount := rs_TurnCount (ex_result st) + 1\<rparr>;
               let step = \<lparr>step_Index = ex_step st, step_Response = Some resp, step_ToolCalls = [],
                 step_ToolResults = [], step_DurationMS = (t1 - t0) div 1000000\<rparr>;
               (if resp_StopReason resp \<noteq> StopReasonToolUse \<or> ToolUses resp = [] then do {
                  final \<leftarrow> final_turn W chainID active st result step resp;
                  ret (Inr final) }
                else tool_turn W chainID active st result step resp refs (tin_wakes input)) }) })"

text \<open>
  The loop, over the inputs of its turns. The code bounds neither the turns nor the tool
  calls of a run, so a loop whose inputs are used up is still running: it yields the state
  of its next turn.
\<close>

fun execute_turns ::
  "'s world \<Rightarrow> string \<Rightarrow> active_run \<Rightarrow> chain_defaults \<Rightarrow> turn_input list \<Rightarrow> exec_state
     \<Rightarrow> ('s, exec_state + run_result) op" where
  "execute_turns W chainID active effective [] st = ret (Inl st)"
| "execute_turns W chainID active effective (i # is) st = do {
     r \<leftarrow> executeTurn W chainID active effective i st;
     (case r of
        Inl st' \<Rightarrow> execute_turns W chainID active effective is st'
      | Inr result \<Rightarrow> ret (Inr result)) }"

interpretation chain_run: turn_loop
  "executeTurn W chainID active effective" "execute_turns W chainID active effective"
  for W chainID active effective
  by unfold_locales simp_all

definition initial_exec :: "message list \<Rightarrow> exec_state" where
  "initial_exec history = \<lparr>ex_history = history, ex_result = empty_result, ex_itemSeq = 1000,
     ex_chainSeq = int (length history) * 10, ex_step = 0\<rparr>"

text \<open>\<open>executeRun\<close>: the loop and its deferred cleanup; \<open>None\<close> while it is running.
  The value is what \<open>waitForRun\<close> and the shared run record then show: the finished
  record, the result and the error.\<close>

definition executeRun ::
  "'s world \<Rightarrow> string \<Rightarrow> active_run \<Rightarrow> message list \<Rightarrow> chain_defaults \<Rightarrow> turn_input list
     \<Rightarrow> ('s, (run_record \<times> run_result \<times> gerr option) option) op" where
  "executeRun W chainID active history effective inputs = do {
     r \<leftarrow> execute_turns W chainID active effective inputs (initial_exec history);
     (case r of
        Inl _ \<Rightarrow> ret None
      | Inr result \<Rightarrow> do {
          hot \<leftarrow> hotChain chainID;
          let done = (case Option.bind hot hc_activeRun of None \<Rightarrow> active | Some a \<Rightarrow> a);
          cleanup_run W chainID active;
          ret (Some (ar_record done, result, ar_err done)) }) }"

definition RunBlocking ::
  "'s world \<Rightarrow> string \<Rightarrow> runtime_env \<Rightarrow> run_payload \<Rightarrow> string \<Rightarrow> turn_input list
     \<Rightarrow> ('s, (run_record \<times> run_result option \<times> gerr option) option) fop" where
  "RunBlocking W chainID env payload key inputs =
     attempt (startRun W chainID env payload key) (\<lambda>out.
       case out of
         Replayed r \<Rightarrow> ok (Some (r, None, None))
       | Started r history effective \<Rightarrow> do {
           hot \<leftarrow> hotChain chainID;
           (case Option.bind hot hc_activeRun of
              None \<Rightarrow> ok None
            | Some a \<Rightarrow> do {
                outcome \<leftarrow> executeRun W chainID a history effective inputs;
                ok (map_option (\<lambda>(rec, result, err). (clone_run rec, Some result, err)) outcome) }) })"

end
