(* ===== verification/ManagerInv.thy ===== *)
theory ManagerInv
  imports Executor
begin

text \<open>
  What every operation of the manager keeps, whatever the store, the sinks, the providers and the tools
  do. The code takes a chain's mutex for single critical sections: it draws an event number in one,
  buffers the event in another, and changes the chain in others. The locale \<open>critical_sections\<close>
  states what a property of managers needs of these sections, and shows once for all operations that they
  keep such a property. Here it is interpreted with the calls a run waits for; \<open>Interleave\<close>
  interprets it with the replay buffers and with the paths of critical sections.
\<close>

section \<open>The calls a run waits for\<close>

definition pending_ok :: "(string, pending_execution) gomap \<Rightarrow> bool" where
  "pending_ok pend =
     (\<forall>i ex. mget pend i = Some ex \<longrightarrow> pe_ExecutionID ex = i \<and>
        (\<not> pe_Resolved ex \<longrightarrow> pe_Content ex = None \<and> \<not> pe_IsError ex \<and> pe_PayloadHash ex = []))"

definition runs_ok :: "hot_chain \<Rightarrow> bool" where
  "runs_ok hc = (case hc_activeRun hc of None \<Rightarrow> True | Some a \<Rightarrow> pending_ok (ar_pending a))"

lemma runs_ok_upd [simp]:
  "runs_ok (hc\<lparr>hc_record := r\<rparr>) = runs_ok hc"
  "runs_ok (hc\<lparr>hc_history := h\<rparr>) = runs_ok hc"
  "runs_ok (hc\<lparr>hc_replay := b\<rparr>) = runs_ok hc"
  "runs_ok (hc\<lparr>hc_nextEventID := n\<rparr>) = runs_ok hc"
  "runs_ok (hc\<lparr>hc_resumeTokenHash := k\<rparr>) = runs_ok hc"
  "runs_ok (hc\<lparr>hc_writer := w\<rparr>) = runs_ok hc"
  "runs_ok (hc\<lparr>hc_activeRun := run\<rparr>) =
     (case run of None \<Rightarrow> True | Some a \<Rightarrow> pending_ok (ar_pending a))"
  by (simp_all add: runs_ok_def)

lemma runs_ok_pending: "runs_ok hc \<Longrightarrow> hc_activeRun hc = Some a \<Longrightarrow> pending_ok (ar_pending a)"
  by (simp add: runs_ok_def)

lemma pending_ok_Nil [simp]: "pending_ok []"
  by (simp add: pending_ok_def)

lemma pending_ok_mput:
  "pending_ok pend \<Longrightarrow> pe_ExecutionID ex = i \<Longrightarrow>
   pe_Resolved ex \<or> pe_Content ex = None \<and> \<not> pe_IsError ex \<and> pe_PayloadHash ex = [] \<Longrightarrow>
   pending_ok (mput i ex pend)"
  by (auto simp: pending_ok_def)

lemma pending_ok_new [simp]: "pending_ok pend \<Longrightarrow> pending_ok (mput (use_ID u) (new_pending u t i) pend)"
  by (rule pending_ok_mput) (simp_all add: new_pending_def)

lemma pending_ok_timeout_all: "pending_ok pend \<Longrightarrow> pending_ok (snd (timeout_all W e us pend))"
proof (induction us arbitrary: pend)
  case (Cons u us)
  show ?case
  proof (cases "mget pend (use_ID u)")
    case (Some ex)
    have "pending_ok (mput (use_ID u) (timeout_execution W e ex) pend)"
      using Cons.prems Some
      by (intro pending_ok_mput) (auto simp: timeout_execution_def Let_def pending_ok_def)
    then show ?thesis using Cons.IH Some by (auto simp: Let_def case_prod_beta)
  qed (simp add: Cons)
qed simp

lemma pending_ok_resolve:
  "pending_ok pend \<Longrightarrow> resolve_pending c h frame pend = Inr pend' \<Longrightarrow> pending_ok pend'"
  by (auto simp: resolve_pending_def Let_def intro!: pending_ok_mput split: option.splits if_splits)
    (auto simp: pending_ok_def)

text \<open>The executions that the runs of the chains in memory wait for are filed under their own ID and empty
  until they are resolved.\<close>

definition runs_inv :: "'s manager \<Rightarrow> bool" where
  "runs_inv m = (\<forall>c hc. mget (mg_chains m) c = Some hc \<longrightarrow> runs_ok hc)"

lemma runs_invD: "runs_inv m \<Longrightarrow> mget (mg_chains m) c = Some hc \<Longrightarrow> runs_ok hc"
  unfolding runs_inv_def by blast

section \<open>Steps that leave the chains alone\<close>

definition on_chains :: "('s manager \<Rightarrow> bool) \<Rightarrow> bool" where
  "on_chains P = (\<forall>m m'. mg_chains m = mg_chains m' \<longrightarrow> P m = P m')"

lemma on_chains_runs [simp]: "on_chains runs_inv"
  by (auto simp: on_chains_def runs_inv_def)

lemma on_chains_eq: "on_chains P \<Longrightarrow> mg_chains m = mg_chains m' \<Longrightarrow> P m = P m'"
  unfolding on_chains_def by blast

lemma on_chains_fields:
  assumes "on_chains P"
  shows "P (m\<lparr>mg_draws := x\<rparr>) = P m" "P (m\<lparr>mg_sent := y\<rparr>) = P m" "P (m\<lparr>mg_clock := z\<rparr>) = P m"
    "P (m\<lparr>mg_store := u\<rparr>) = P m"
  by (rule on_chains_eq [OF assms], simp)+

lemma preserves_on_store: "on_chains P \<Longrightarrow> preserves P (on_store f)"
  by (rule preservesI)
    (simp add: on_store_def wp_def on_chains_fields [where P = P] split: prod.splits)

lemma preserves_now: "on_chains P \<Longrightarrow> preserves P (now W)"
  by (simp add: preserves_def on_chains_fields [where P = P])

lemma preserves_newID: "on_chains P \<Longrightarrow> preserves P (newID W p)"
  by (rule preservesI) (simp add: on_chains_fields [where P = P])

lemma preserves_issueResumeToken: "on_chains P \<Longrightarrow> preserves P (issueResumeToken W)"
  by (rule preservesI) (simp add: on_chains_fields [where P = P])

lemma preserves_hotChain: "preserves P (hotChain c)"
  by (simp add: hotChain_def)

lemma preserves_log_sent: "on_chains P \<Longrightarrow> preserves P (log_sent l e)"
  by (rule preservesI) (simp add: on_chains_fields [where P = P])

lemma preserves_active_pending: "preserves P (active_pending c)"
  by (simp add: active_pending_def)

lemma preserves_input_items:
  "on_chains P \<Longrightarrow> preserves P (input_items W seq msgs t)"
  by (induction msgs arbitrary: seq) (auto intro!: pres_intro preserves_newID)

lemma preserves_initial_items:
  "on_chains P \<Longrightarrow> preserves P (buildInitialRunItems W d msgs t)"
  unfolding buildInitialRunItems_def
  by (intro pres_intro preserves_newID preserves_input_items)

lemma preserves_wrapped [pres_intro]: "preserves P m \<Longrightarrow> preserves P (wrapped msg m)"
  unfolding wrapped_def by (intro pres_intro)

lemma preserves_add_result: "on_chains P \<Longrightarrow> preserves P (add_result W i e r c b)"
  unfolding add_result_def by (intro pres_intro preserves_newID preserves_now)

lemma preserves_reject: "on_chains P \<Longrightarrow> preserves P (reject_clients W i uses b)"
  by (induction uses arbitrary: b) (auto intro!: pres_intro preserves_add_result)

lemma preserves_add_waited: "on_chains P \<Longrightarrow> preserves P (add_waited W i exs b)"
  by (induction exs arbitrary: b) (auto intro!: pres_intro preserves_add_result)

text \<open>A change that keeps a chain's buffer and counter, and its pending calls in order.\<close>

definition kept :: "hot_chain \<Rightarrow> hot_chain \<Rightarrow> bool" where
  "kept hc hc' = (hc_replay hc' = hc_replay hc \<and> hc_nextEventID hc' = hc_nextEventID hc
     \<and> (runs_ok hc \<longrightarrow> runs_ok hc'))"

definition new_chain :: "hot_chain \<Rightarrow> bool" where
  "new_chain hc = (hc_replay hc = empty_buffer \<and> hc_nextEventID hc = 0 \<and> hc_activeRun hc = None)"

lemmas chains_intro = preserves_on_store preserves_now preserves_newID preserves_issueResumeToken
  preserves_hotChain preserves_log_sent preserves_active_pending

section \<open>The operations as steps\<close>

text \<open>A step of the manager is any of its operations, with any arguments and any results
  of the sinks, providers, tools and waits. A run in progress takes one turn at a time, so
  that other operations may come between its turns. What may come between the critical sections of one
  operation is the subject of the theory \<open>Interleave\<close>.\<close>

inductive mgr_step :: "'s world \<Rightarrow> 's manager \<Rightarrow> 's manager \<Rightarrow> bool" for W :: "'s world" where
  step_start: "mgr_step W m (snd (run_state (StartChain W p env sp key) m))"
| step_attach: "mgr_step W m (snd (run_state (AttachChain W p env frame) m))"
| step_update: "mgr_step W m (snd (run_state (UpdateChain_op W c env patch key) m))"
| step_detach: "mgr_step W m (snd (run_state (Detach W c a reason) m))"
| step_fork: "mgr_step W m (snd (run_state (ForkChain W p c fr key) m))"
| step_regenerate: "mgr_step W m (snd (run_state (RegenerateRun W p r rr key) m))"
| step_run: "mgr_step W m (snd (run_state (startRun W c env rp key) m))"
| step_submit: "mgr_step W m (snd (run_state (SubmitClientToolResult W c tf) m))"
| step_cancel: "mgr_step W m (snd (run_state (CancelRun W c r) m))"
| step_turn: "mgr_step W m (snd (run_state (executeTurn W c active d i st) m))"
| step_cleanup: "mgr_step W m (snd (run_state (cleanup_run W c active) m))"

inductive_cases mgr_stepE: "mgr_step W m m'"

section \<open>Critical sections\<close>

text \<open>\<open>I\<close> is a property of managers, \<open>J c n\<close> what holds after the number \<open>n\<close> has been
  drawn for an event of chain \<open>c\<close> and until that event is buffered or given up.\<close>

locale critical_sections =
  fixes W :: "'s world" and I :: "'s manager \<Rightarrow> bool" and J :: "string \<Rightarrow> int \<Rightarrow> 's manager \<Rightarrow> bool"
  assumes I_chains: "on_chains I"
    and J_chains: "on_chains (J c n)"
    and J_I: "J c n m \<Longrightarrow> I m"
    and I_runs: "I m \<Longrightarrow> runs_inv m"
    and I_kept: "I m \<Longrightarrow> mget (mg_chains m) c = Some hc \<Longrightarrow> kept hc hc' \<Longrightarrow>
      I (m\<lparr>mg_chains := mput c hc' (mg_chains m)\<rparr>)"
    and I_new: "I m \<Longrightarrow> new_chain hc \<Longrightarrow> I (m\<lparr>mg_chains := mput c hc (mg_chains m)\<rparr>)"
    and J_draw: "I m \<Longrightarrow> wp (nextEvent c) (\<lambda>n. J c n) m"
    and J_emit: "triple (J c (eventID ev)) (bufferAndEmit W c ev) I"
begin

lemmas on_intro = chains_intro I_chains J_chains

lemma preserves_upd_chain: "(\<And>hc. kept hc (f hc)) \<Longrightarrow> preserves I (upd_chain c f)"
  by (rule preservesI) (simp add: upd_map_def I_kept split: option.split)

lemma preserves_upd_pending:
  "(\<And>p. pending_ok p \<Longrightarrow> pending_ok (f p)) \<Longrightarrow> preserves I (upd_pending c f)"
  unfolding upd_pending_def
  by (rule preserves_upd_chain) (auto simp: kept_def runs_ok_def split: option.splits)

lemma preserves_active_pending_bind:
  assumes "\<And>p. pending_ok p \<Longrightarrow> preserves I (f p)"
  shows "preserves I (State_Monad.bind (active_pending c) f)"
proof (rule preservesI)
  fix m assume m: "I m"
  have "pending_ok (case Option.bind (mget (mg_chains m) c) hc_activeRun of
      None \<Rightarrow> [] | Some a \<Rightarrow> ar_pending a)"
    using runs_invD [OF I_runs [OF m]] by (cases "mget (mg_chains m) c")
      (auto dest: runs_ok_pending split: option.split)
  then show "wp (State_Monad.bind (active_pending c) f) (\<lambda>_. I) m"
    using preservesD [OF assms m] by (simp add: active_pending_def)
qed

lemma preserves_put_chain: "new_chain hc \<Longrightarrow> preserves I (put_chain c hc)"
  by (auto intro!: preservesI I_new)

text \<open>A chain that has just been read is the current one until the next step changes it.\<close>

definition current :: "string \<Rightarrow> hot_chain \<Rightarrow> 's manager \<Rightarrow> bool" where
  "current c hc m = (I m \<and> mget (mg_chains m) c = Some hc)"

lemma current_I: "current c hc m \<Longrightarrow> I m"
  by (simp add: current_def)

lemma on_chains_current [simp]: "on_chains (current c hc)"
  unfolding on_chains_def current_def using on_chains_eq [OF I_chains] by metis

lemma triple_put: "kept hc hc' \<Longrightarrow> triple (current c hc) (put_chain c hc') I"
  by (simp add: triple_def current_def I_kept)

lemma triple_current: "preserves I m \<Longrightarrow> triple (current c hc) m I"
  by (rule triple_weaken [OF current_I])

lemma triple_current_return [simp]:
  "triple (current c hc) (State_Monad.return x) I"
  "triple (current c hc) (ok y) I"
  "triple (current c hc) (fail e) I"
  unfolding ok_def fail_def by (rule triple_return, erule current_I)+

lemma preserves_read_bind:
  assumes "\<And>hot. (\<And>hc. hot = Some hc \<Longrightarrow> runs_ok hc) \<Longrightarrow> preserves I (f hot)"
  shows "preserves I (State_Monad.bind (hotChain c) f)"
proof (rule preservesI)
  fix m assume m: "I m"
  have "preserves I (f (mget (mg_chains m) c))" by (rule assms) (rule runs_invD [OF I_runs [OF m]])
  then show "wp (State_Monad.bind (hotChain c) f) (\<lambda>_. I) m" using m by (simp add: preservesD)
qed

lemma preserves_hotChain_bind:
  assumes "preserves I (f None)" "\<And>hc. runs_ok hc \<Longrightarrow> triple (current c hc) (f (Some hc)) I"
  shows "preserves I (State_Monad.bind (hotChain c) f)"
proof (rule preservesI)
  fix m assume m: "I m"
  show "wp (State_Monad.bind (hotChain c) f) (\<lambda>_. I) m"
  proof (cases "mget (mg_chains m) c")
    case None
    then show ?thesis using preservesD [OF assms(1) m] by simp
  next
    case (Some hc)
    then show ?thesis using assms(2) [OF runs_invD [OF I_runs [OF m] Some]] m
      by (simp add: triple_def current_def)
  qed
qed

lemma wp_requireChain_current:
  assumes "I m"
  shows "wp (requireChain W c) (\<lambda>r m'. I m' \<and> (\<forall>hc. r = Inr hc \<longrightarrow> current c hc m')) m"
proof (cases "mget (mg_chains m) c")
  case (Some hc)
  then show ?thesis using assms by (auto simp: requireChain_def current_def)
next
  case None
  let ?Q = "\<lambda>r m'. I m' \<and> (\<forall>hc. r = Inr hc \<longrightarrow> current c hc m')"
  have store: "wp (on_store f) (\<lambda>r. I) m'" if "I m'" for f :: "('s, 'a) state" and m'
    using preservesD [OF preserves_on_store [OF I_chains] that] .
  have store2: "wp (on_store f) (\<lambda>r. I) m'" if "I m'" for f :: "('s, 'b) state" and m'
    using preservesD [OF preserves_on_store [OF I_chains] that] .
  show ?thesis
    using None unfolding requireChain_def
    apply (simp split del: if_split)
    apply (rule wp_mono [OF store [OF assms]])
    apply (simp split: sum.split prod.split)
    apply (intro allI impI)
    apply (rule wp_mono [OF store2], assumption)
    apply (auto simp: current_def new_chain_def split: sum.splits if_splits intro!: I_new)
    done
qed

lemma inv_requireChain: "preserves I (requireChain W c)"
  by (rule preservesI) (rule wp_mono [OF wp_requireChain_current], auto)

lemma preserves_requireChain_bind:
  assumes "\<And>e. preserves I (f (Inl e))" "\<And>hc. runs_ok hc \<Longrightarrow> triple (current c hc) (f (Inr hc)) I"
  shows "preserves I (State_Monad.bind (requireChain W c) f)"
proof (rule preservesI)
  fix m assume m: "I m"
  have "wp (f r) (\<lambda>_. I) m'" if "I m'" "\<forall>hc. r = Inr hc \<longrightarrow> current c hc m'" for r m'
    using that assms(1) assms(2) [OF runs_invD [OF I_runs]]
    by (cases r) (auto simp: triple_def current_def intro: preservesD)
  then show "wp (State_Monad.bind (requireChain W c) f) (\<lambda>_. I) m"
    using wp_requireChain_current [OF m, of c] by (auto elim!: wp_mono)
qed

lemma preserves_requireChain_attempt:
  "(\<And>hc. runs_ok hc \<Longrightarrow> triple (current c hc) (f hc) I) \<Longrightarrow> preserves I (attempt (requireChain W c) f)"
  unfolding attempt_def by (rule preserves_requireChain_bind) (auto intro: pres_intro)

subsection \<open>Emission\<close>

lemma triple_emit: "eventID ev = n \<Longrightarrow> triple (J c n) (bufferAndEmit W c ev) I"
  using J_emit by blast

lemma preserves_nextEvent_bind:
  assumes "\<And>n. triple (J c n) (f n) I"
  shows "preserves I (State_Monad.bind (nextEvent c) f)"
proof (rule preservesI)
  fix m assume "I m"
  then have "wp (nextEvent c) (\<lambda>n. J c n) m" by (rule J_draw)
  then show "wp (State_Monad.bind (nextEvent c) f) (\<lambda>_. I) m"
    by simp (erule wp_mono, use assms in \<open>auto simp: triple_def\<close>)
qed

lemma inv_emitRunEvent: "preserves I (emitRunEvent W c r e)"
  unfolding emitRunEvent_def
  by (intro preserves_nextEvent_bind triple_bind_pre preserves_hotChain triple_case_option
      triple_emit) (auto simp: triple_def dest: J_I)

lemma inv_emitClientToolCall:
  "preserves I (emitClientToolCall W c r u d)"
  unfolding emitClientToolCall_def
  by (intro preserves_nextEvent_bind triple_bind_pre preserves_hotChain triple_case_option
      triple_emit) (auto simp: triple_def dest: J_I)

subsection \<open>The operations\<close>

lemma inv_GetIdem: "preserves I (GetIdem W sc)"
  unfolding GetIdem_def by (intro pres_intro on_intro)

lemma inv_SaveIdem: "preserves I (SaveIdem W p c o' k h r t l)"
  unfolding SaveIdem_def by (intro pres_intro on_intro)

lemma inv_resolveOrCreateSession: "preserves I (resolveOrCreateSession W p x t)"
  unfolding resolveOrCreateSession_def by (intro pres_intro on_intro)

lemma inv_GetChain_live: "preserves I (GetChain_live W c)"
  unfolding GetChain_live_def by (intro pres_intro on_intro)

lemmas upd_intro = on_intro preserves_upd_chain preserves_upd_pending

lemmas mgr_intro = inv_GetIdem inv_SaveIdem inv_resolveOrCreateSession inv_GetChain_live
  inv_requireChain inv_emitRunEvent inv_emitClientToolCall

lemmas emit_intro = preserves_nextEvent_bind triple_Let triple_attempt_post triple_emit

lemma inv_start_new_chain:
  "preserves I (start_new_chain W p env payload key h)"
  unfolding start_new_chain_def
  by (intro emit_intro pres_intro on_intro mgr_intro preserves_put_chain) (simp_all add: new_chain_def)

lemma inv_StartChain:
  "preserves I (StartChain W p env payload key)"
  unfolding StartChain_def
  by (intro pres_intro on_intro mgr_intro inv_start_new_chain)

lemma inv_take_lease:
  "preserves I (take_lease W p env c a st evs)"
  unfolding take_lease_def
  by (intro emit_intro pres_intro upd_intro mgr_intro) (simp_all add: kept_def)

lemma inv_AttachChain:
  "preserves I (AttachChain W p env frame)"
  unfolding AttachChain_def
  by (intro pres_intro on_intro mgr_intro inv_take_lease)

lemma inv_Detach:
  "preserves I (Detach W c a reason)"
  unfolding Detach_def
  by (intro pres_intro upd_intro mgr_intro) (simp_all add: kept_def)

lemma inv_attach_for_request: "preserves I (attach_for_request W c env)"
  unfolding attach_for_request_def
  by (intro pres_intro upd_intro) (simp_all add: kept_def)

lemma triple_fresh_first:
  "preserves (J c n) m \<Longrightarrow> (\<And>a. triple (J c n) (f a) I) \<Longrightarrow>
   triple (J c n) (attempt m f) I"
  by (rule triple_attempt_pre) (auto dest: J_I)

lemma inv_apply_update:
  "preserves I (apply_update W c env patch key h)"
  unfolding apply_update_def
  by (intro preserves_nextEvent_bind triple_Let triple_fresh_first [OF preserves_case_option]
      triple_attempt_post triple_emit pres_intro upd_intro mgr_intro inv_attach_for_request
      inv_Detach) (simp_all add: kept_def)

lemma inv_UpdateChain:
  "preserves I (UpdateChain_op W c env patch key)"
  unfolding UpdateChain_op_def
  by (intro pres_intro on_intro mgr_intro inv_apply_update)

lemma inv_createForkedChain:
  "preserves I (createForkedChain W p preview operation src key h)"
  unfolding createForkedChain_def
  by (intro pres_intro on_intro mgr_intro preserves_put_chain) (simp add: new_chain_def)

lemma inv_branch:
  "preserves I (branch W p preview operation src key h e)"
  unfolding branch_def forkResponse_def
  by (intro pres_intro on_intro mgr_intro inv_createForkedChain)

lemma inv_ForkChain:
  "preserves I (ForkChain W p c payload key)"
  unfolding ForkChain_def PreviewForkChain_def
  by (intro pres_intro on_intro mgr_intro inv_branch)

lemma inv_RegenerateRun:
  "preserves I (RegenerateRun W p r payload key)"
  unfolding RegenerateRun_def PreviewRegenerateRun_def
  by (intro pres_intro on_intro mgr_intro inv_branch)

subsection \<open>Runs\<close>

lemma inv_admit_run: "preserves I (admit_run W c env payload)"
  unfolding admit_run_def by (intro pres_intro on_intro inv_attach_for_request)

lemma inv_install_run: "preserves I (install_run W c env payload key adm)"
  unfolding install_run_def
  apply (rule preserves_hotChain_bind)
   apply simp
  apply (simp only: option.case)
  apply (rule triple_bind_pre, intro chains_intro on_chains_current)+
  apply (rule triple_bind_pre, intro pres_intro chains_intro on_chains_current)
  apply (intro triple_Let triple_bind_post [OF triple_put] pres_intro)
  apply (simp add: kept_def runs_ok_def new_active_run_def)
  done

lemma inv_rollback: "preserves I (rollbackStartFailure W c r a before)"
  unfolding rollbackStartFailure_def
  by (intro pres_intro upd_intro)
    (auto simp: kept_def rollback_chain_def dest: runs_ok_pending split: option.split)

lemma inv_persist_run: "preserves I (persist_run W c env payload key h adm run r)"
  unfolding persist_run_def
  by (intro pres_intro on_intro mgr_intro preserves_initial_items)

lemma inv_startRun:
  "preserves I (startRun W c env payload key)"
  unfolding startRun_def start_new_run_def
  by (intro pres_intro on_intro mgr_intro inv_admit_run inv_install_run inv_rollback
      inv_persist_run)

lemma inv_SubmitClientToolResult: "preserves I (SubmitClientToolResult W c frame)"
  unfolding SubmitClientToolResult_def
  apply (rule preserves_requireChain_bind)
   apply simp
  apply (auto intro!: triple_bind_post [OF triple_put] split: option.split sum.split)
  apply (auto simp: kept_def runs_ok_def intro: pending_ok_resolve)
  done

lemma inv_CancelRun: "preserves I (CancelRun W c r)"
  unfolding CancelRun_def
  apply (rule preserves_requireChain_attempt)
  apply (auto intro!: triple_bind_post [OF triple_put] split: option.split)
  apply (auto simp: kept_def runs_ok_def)
  done

lemma inv_timeoutPending: "preserves I (timeoutPending W c uses e)"
  unfolding timeoutPending_def
  by (intro preserves_active_pending_bind pres_intro upd_intro)
    (metis pending_ok_timeout_all snd_conv)

lemma inv_waitForClientTools:
  "preserves I (waitForClientTools W c uses wakes)"
proof (induction wakes)
  case Nil
  show ?case
    by (subst waitForClientTools.simps) (auto intro!: pres_intro upd_intro inv_timeoutPending)
next
  case (Cons w wakes)
  then show ?case
    by (subst waitForClientTools.simps)
      (auto intro!: pres_intro upd_intro inv_timeoutPending inv_SubmitClientToolResult
        split: wake.splits)
qed

lemma inv_enqueue:
  "preserves I (enqueueClientToolCalls W c r uses)"
proof -
  have "preserves I (register_pending W c i uses)" for i
    by (induction uses arbitrary: i) (auto intro!: pres_intro upd_intro)
  moreover have "preserves I (emit_calls W c r uses)"
    by (induction uses) (auto intro!: pres_intro upd_intro inv_emitClientToolCall)
  ultimately show ?thesis unfolding enqueueClientToolCalls_def by (intro pres_intro)
qed

lemma inv_resolve_gateway:
  "preserves I (resolve_gateway W c r reg i t uses refs b)"
  by (induction uses arbitrary: refs b)
    (auto intro!: pres_intro upd_intro inv_emitRunEvent preserves_add_result
      simp: case_prod_beta Let_def)

lemma inv_resolveToolBatch:
  "preserves I (resolveToolBatch W c a i uses refs wakes)"
  unfolding resolveToolBatch_def
  by (intro pres_intro upd_intro inv_resolve_gateway preserves_reject preserves_add_waited
      inv_enqueue inv_waitForClientTools)

lemma inv_run_stream:
  "preserves I (run_stream W c r script acc)"
proof (induction script arbitrary: acc)
  case (Cons x script)
  obtain ev err where "x = (ev, err)" by (cases x)
  then show ?case
    using Cons by (auto intro!: pres_intro inv_emitRunEvent split: option.split)
qed simp

lemma inv_executeModelTurn:
  "preserves I (executeModelTurn W c a h d)"
  unfolding executeModelTurn_def
  by (intro pres_intro inv_run_stream)

lemma inv_finish: "preserves I (finish W c res sr e)"
  unfolding finish_def
  by (intro preserves_read_bind pres_intro upd_intro)
    (auto simp: kept_def bind_eq_Some_conv dest: runs_ok_pending)

lemma inv_cleanup: "preserves I (cleanup_run W c a)"
  unfolding cleanup_run_def
  by (intro pres_intro upd_intro)
    (simp add: kept_def release_run_def Let_def split: option.splits)

lemma inv_commitHistory: "preserves I (commitHistory W c r st ms)"
  unfolding commitHistory_def
  by (intro pres_intro upd_intro) (simp add: kept_def committed_def Let_def)

lemma inv_executeTurn:
  "preserves I (executeTurn W c a d i st)"
proof -
  have item: "preserves I (assistant_item W st k content)" for k content
    unfolding assistant_item_def by (intro pres_intro upd_intro)
  show ?thesis
    unfolding executeTurn_def fail_turn_def final_turn_def tool_turn_def
    by (intro pres_intro upd_intro item inv_finish inv_emitRunEvent inv_executeModelTurn
        inv_commitHistory inv_resolveToolBatch)
qed

lemma inv_execute_turns:
  "preserves I (execute_turns W c a d is st)"
  by (intro chain_run.loop_preserves inv_executeTurn)

lemma inv_executeRun:
  "preserves I (executeRun W c a h d is)"
  unfolding executeRun_def
  by (intro pres_intro upd_intro inv_execute_turns inv_cleanup)

lemma preserves_run: "preserves I m \<Longrightarrow> I s \<Longrightarrow> I (snd (run_state m s))"
  by (simp add: preserves_def)

lemma step_keeps: "mgr_step W m m' \<Longrightarrow> I m \<Longrightarrow> I m'"
  by (erule mgr_stepE)
    (auto intro: preserves_run inv_StartChain inv_AttachChain inv_UpdateChain inv_Detach
      inv_ForkChain inv_RegenerateRun inv_startRun inv_SubmitClientToolResult inv_CancelRun
      inv_executeTurn inv_cleanup)

end

interpretation calls: critical_sections W runs_inv "\<lambda>_ _. runs_inv" for W :: "'s world"
proof
  show "triple runs_inv (bufferAndEmit W c ev) runs_inv" for W :: "'s world" and c ev
    unfolding triple_preserves [symmetric] bufferAndEmit_def
    by (rule preservesI) (auto simp: runs_inv_def split: option.split sum.split)
qed (auto simp: runs_inv_def kept_def new_chain_def runs_ok_def nextEvent_def upd_map_def
    split: option.splits if_splits)

end
