(* ===== verification/MemStore.thy ===== *)
theory MemStore
  imports Store "HOL-Library.List_Lexorder" "HOL-Library.Char_ord"
begin

text \<open>
  The in-memory store (\<open>pkg/gateway/chains/memstore.go\<close>): thirteen maps, one operation
  per method, each atomic under the store's mutex. Records are copied in and out. Two
  methods compare strings and sort; Go's \<open><\<close> on strings is the lexicographic order of
  bytes.
\<close>

record memory_store =
  mem_sessions :: "(string, session_record) gomap"
  mem_sessionByExternal :: "(string, string) gomap"
  mem_sessionChains :: "(string, string list) gomap"
  mem_chains :: "(string, chain_record) gomap"
  mem_chainHistory :: "(string, message list) gomap"
  mem_chainMessages :: "(string, chain_message list) gomap"
  mem_chainResume :: "(string, string) gomap"
  mem_runs :: "(string, run_record) gomap"
  mem_chainRuns :: "(string, string list) gomap"
  mem_runItems :: "(string, timeline_item list) gomap"
  mem_effectiveRequest :: "(string, effective_request option) gomap"
  mem_attachments :: "(string, attachment_record) gomap"
  mem_idempotency :: "(string, idempotency_record) gomap"

definition NewMemoryStore :: memory_store where
  "NewMemoryStore = \<lparr>mem_sessions = [], mem_sessionByExternal = [], mem_sessionChains = [],
     mem_chains = [], mem_chainHistory = [], mem_chainMessages = [], mem_chainResume = [],
     mem_runs = [], mem_chainRuns = [], mem_runItems = [], mem_effectiveRequest = [],
     mem_attachments = [], mem_idempotency = []\<rparr>"

type_synonym 'a mem = "(memory_store, gerr + 'a) state"

text \<open>A list-valued Go map yields nil, the empty list, for a missing key.\<close>

definition mlist :: "('k, 'v list) gomap \<Rightarrow> 'k \<Rightarrow> 'v list" where
  "mlist m k = (case mget m k of None \<Rightarrow> [] | Some xs \<Rightarrow> xs)"

lemma mlist_mput [simp]: "mlist (mput k v m) k' = (if k' = k then v else mlist m k')"
  by (simp add: mlist_def)

section \<open>Keys\<close>

definition sessionExternalKey :: "string \<Rightarrow> string \<Rightarrow> string" where
  "sessionExternalKey orgID externalSessionID = orgID @ ''::'' @ externalSessionID"

definition idempotencyMapKey :: "idempotency_scope \<Rightarrow> string" where
  "idempotencyMapKey sc =
     sc_OrgID sc @ ''::'' @ sc_PrincipalID sc @ ''::'' @ sc_ChainID sc @ ''::''
       @ sc_Operation sc @ ''::'' @ sc_Key sc"

section \<open>Recency order\<close>

text \<open>The comparison the two listings sort by: latest update first, then by ID.\<close>

definition recency_cmp :: "time \<times> string \<Rightarrow> time \<times> string \<Rightarrow> int" where
  "recency_cmp a b =
     (if fst a = fst b then (if snd a < snd b then -1 else if snd a > snd b then 1 else 0)
      else if fst a > fst b then -1 else 1)"

text \<open>\<open>slices.SortFunc\<close> as insertion sort; any sort agrees with it when no two elements
  compare as equal.\<close>

fun insert_by :: "('a \<Rightarrow> 'a \<Rightarrow> int) \<Rightarrow> 'a \<Rightarrow> 'a list \<Rightarrow> 'a list" where
  "insert_by cmp x [] = [x]"
| "insert_by cmp x (y # ys) = (if cmp x y \<le> 0 then x # y # ys else y # insert_by cmp x ys)"

definition SortFunc :: "('a \<Rightarrow> 'a \<Rightarrow> int) \<Rightarrow> 'a list \<Rightarrow> 'a list" where
  "SortFunc cmp xs = foldr (insert_by cmp) xs []"

definition session_cmp :: "session_record \<Rightarrow> session_record \<Rightarrow> int" where
  "session_cmp a b = recency_cmp (sess_UpdatedAt a, sess_ID a) (sess_UpdatedAt b, sess_ID b)"

definition chain_cmp :: "chain_record \<Rightarrow> chain_record \<Rightarrow> int" where
  "chain_cmp a b = recency_cmp (ch_UpdatedAt a, ch_ID a) (ch_UpdatedAt b, ch_ID b)"

section \<open>Sessions\<close>

definition mem_UpsertSession :: "session_record \<Rightarrow> unit mem" where
  "mem_UpsertSession session = do {
     modify (\<lambda>s. s\<lparr>mem_sessions := mput (sess_ID session) (clone_session session) (mem_sessions s)\<rparr>);
     (if sess_ExternalSessionID session \<noteq> [] \<and> sess_OrgID session \<noteq> []
      then modify (\<lambda>s. s\<lparr>mem_sessionByExternal :=
             mput (sessionExternalKey (sess_OrgID session) (sess_ExternalSessionID session))
               (sess_ID session) (mem_sessionByExternal s)\<rparr>)
      else ret ());
     ok () }"

definition mem_GetSession :: "string \<Rightarrow> session_record mem" where
  "mem_GetSession sessionID = do {
     session \<leftarrow> gets (\<lambda>s. mget (mem_sessions s) sessionID);
     (case session of None \<Rightarrow> fail ErrNotFound | Some r \<Rightarrow> ok (clone_session r)) }"

definition mem_ListSessions :: "string \<Rightarrow> session_record list mem" where
  "mem_ListSessions orgID = do {
     sessions \<leftarrow> gets (map snd \<circ> mem_sessions);
     ok (SortFunc session_cmp (map clone_session (filter (\<lambda>r. sess_OrgID r = orgID) sessions))) }"

definition mem_GetSessionByExternal :: "string \<Rightarrow> string \<Rightarrow> session_record mem" where
  "mem_GetSessionByExternal orgID externalSessionID = do {
     sid \<leftarrow> gets (\<lambda>s. mget (mem_sessionByExternal s) (sessionExternalKey orgID externalSessionID));
     (case sid of
        None \<Rightarrow> fail ErrNotFound
      | Some sessionID \<Rightarrow> mem_GetSession sessionID) }"

definition mem_ListSessionChains :: "string \<Rightarrow> chain_record list mem" where
  "mem_ListSessionChains sessionID = do {
     s \<leftarrow> gets id;
     ok (List.map_filter (\<lambda>i. map_option clone_chain (mget (mem_chains s) i))
           (mlist (mem_sessionChains s) sessionID)) }"

section \<open>Chains\<close>

text \<open>The session of a saved chain is made the latest, when it is stored.\<close>

definition touch_session :: "chain_record \<Rightarrow> memory_store \<Rightarrow> memory_store" where
  "touch_session chain s =
     (case mget (mem_sessions s) (ch_SessionID chain) of
        None \<Rightarrow> s
      | Some session \<Rightarrow>
          s\<lparr>mem_sessions := mput (ch_SessionID chain)
             (session\<lparr>sess_LatestChainID := ch_ID chain, sess_UpdatedAt := ch_UpdatedAt chain\<rparr>)
             (mem_sessions s)\<rparr>)"

definition mem_SaveChain :: "time \<Rightarrow> chain_record \<Rightarrow> message list \<Rightarrow> unit mem" where
  "mem_SaveChain now chain history = do {
     modify (\<lambda>s. s\<lparr>
       mem_chains := mput (ch_ID chain) (clone_chain chain) (mem_chains s),
       mem_chainHistory := mput (ch_ID chain) (cloneMessages history) (mem_chainHistory s),
       mem_chainMessages := mput (ch_ID chain)
         (buildChainMessageRecords now (ch_ID chain) [] history 0 (ch_CreatedAt chain))
         (mem_chainMessages s)\<rparr>);
     (if ch_SessionID chain \<noteq> []
      then do {
        ids \<leftarrow> gets (\<lambda>s. mlist (mem_sessionChains s) (ch_SessionID chain));
        (if ch_ID chain \<notin> set ids
         then modify (\<lambda>s. s\<lparr>mem_sessionChains :=
                mput (ch_SessionID chain) (ids @ [ch_ID chain]) (mem_sessionChains s)\<rparr>)
         else ret ());
        modify (touch_session chain) }
      else ret ());
     ok () }"

definition mem_UpdateChain :: "chain_record \<Rightarrow> unit mem" where
  "mem_UpdateChain chain = do {
     found \<leftarrow> gets (\<lambda>s. mhas (mem_chains s) (ch_ID chain));
     (if \<not> found then fail ErrNotFound
      else do {
        modify (\<lambda>s. s\<lparr>mem_chains := mput (ch_ID chain) (clone_chain chain) (mem_chains s)\<rparr>);
        (if ch_SessionID chain \<noteq> [] then modify (touch_session chain) else ret ());
        ok () }) }"

definition mem_GetChain :: "string \<Rightarrow> (chain_record \<times> message list) mem" where
  "mem_GetChain chainID = do {
     s \<leftarrow> gets id;
     (case mget (mem_chains s) chainID of
        None \<Rightarrow> fail ErrNotFound
      | Some r \<Rightarrow> ok (clone_chain r, cloneMessages (mlist (mem_chainHistory s) chainID))) }"

definition mem_ListChains :: "string \<Rightarrow> string \<Rightarrow> bool \<Rightarrow> chain_record list mem" where
  "mem_ListChains orgID sessionID unsessionedOnly = do {
     chains \<leftarrow> gets (map snd \<circ> mem_chains);
     ok (SortFunc chain_cmp (map clone_chain (filter (\<lambda>c.
           ch_OrgID c = orgID \<and> \<not> (sessionID \<noteq> [] \<and> ch_SessionID c \<noteq> sessionID) \<and>
           \<not> (unsessionedOnly \<and> ch_SessionID c \<noteq> [])) chains))) }"

definition mem_ListChainMessages :: "string \<Rightarrow> chain_message list mem" where
  "mem_ListChainMessages chainID = do {
     s \<leftarrow> gets id;
     (if \<not> mhas (mem_chains s) chainID then fail ErrNotFound
      else ok (map clone_chain_message (mlist (mem_chainMessages s) chainID))) }"

definition mem_AppendChainMessages ::
  "time \<Rightarrow> string \<Rightarrow> string \<Rightarrow> message list \<Rightarrow> unit mem" where
  "mem_AppendChainMessages now chainID runID messages = do {
     s \<leftarrow> gets id;
     (case mget (mem_chains s) chainID of
        None \<Rightarrow> fail ErrNotFound
      | Some chain \<Rightarrow> do {
          let existing = mlist (mem_chainMessages s) chainID;
          let history = mlist (mem_chainHistory s) chainID @ cloneMessages messages;
          modify (\<lambda>s. s\<lparr>
            mem_chainHistory := mput chainID history (mem_chainHistory s),
            mem_chainMessages := mput chainID (existing @
              buildChainMessageRecords now chainID runID messages (int (length existing)) now)
              (mem_chainMessages s),
            mem_chains := mput chainID (chain\<lparr>ch_MessageCountCached := int (length history)\<rparr>)
              (mem_chains s)\<rparr>);
          ok () }) }"

definition mem_SetChainResumeTokenHash :: "string \<Rightarrow> string \<Rightarrow> unit mem" where
  "mem_SetChainResumeTokenHash chainID resumeTokenHash = do {
     found \<leftarrow> gets (\<lambda>s. mhas (mem_chains s) chainID);
     (if \<not> found then fail ErrNotFound
      else do {
        modify (\<lambda>s. s\<lparr>mem_chainResume := mput chainID resumeTokenHash (mem_chainResume s)\<rparr>);
        ok () }) }"

definition mem_GetChainResumeTokenHash :: "string \<Rightarrow> string mem" where
  "mem_GetChainResumeTokenHash chainID = do {
     s \<leftarrow> gets id;
     (if \<not> mhas (mem_chains s) chainID then fail ErrNotFound
      else ok (case mget (mem_chainResume s) chainID of None \<Rightarrow> [] | Some h \<Rightarrow> h)) }"

section \<open>Runs\<close>

definition mem_CreateRun :: "run_record \<Rightarrow> unit mem" where
  "mem_CreateRun run = do {
     modify (\<lambda>s. s\<lparr>mem_runs := mput (run_ID run) (clone_run run) (mem_runs s),
       mem_chainRuns := mput (run_ChainID run)
         (mlist (mem_chainRuns s) (run_ChainID run) @ [run_ID run]) (mem_chainRuns s)\<rparr>);
     ok () }"

definition mem_UpdateRun :: "run_record \<Rightarrow> unit mem" where
  "mem_UpdateRun run = do {
     found \<leftarrow> gets (\<lambda>s. mhas (mem_runs s) (run_ID run));
     (if \<not> found then fail ErrNotFound
      else do {
        modify (\<lambda>s. s\<lparr>mem_runs := mput (run_ID run) (clone_run run) (mem_runs s)\<rparr>);
        ok () }) }"

definition mem_GetRun :: "string \<Rightarrow> run_record mem" where
  "mem_GetRun runID = do {
     run \<leftarrow> gets (\<lambda>s. mget (mem_runs s) runID);
     (case run of None \<Rightarrow> fail ErrNotFound | Some r \<Rightarrow> ok (clone_run r)) }"

definition mem_ListChainRuns :: "string \<Rightarrow> run_record list mem" where
  "mem_ListChainRuns chainID = do {
     s \<leftarrow> gets id;
     ok (List.map_filter (\<lambda>i. map_option clone_run (mget (mem_runs s) i))
           (mlist (mem_chainRuns s) chainID)) }"

definition mem_AppendRunItems :: "string \<Rightarrow> timeline_item list \<Rightarrow> unit mem" where
  "mem_AppendRunItems runID items = do {
     found \<leftarrow> gets (\<lambda>s. mhas (mem_runs s) runID);
     (if \<not> found then fail ErrNotFound
      else do {
        modify (\<lambda>s. s\<lparr>mem_runItems :=
          mput runID (mlist (mem_runItems s) runID @ clone_items items) (mem_runItems s)\<rparr>);
        ok () }) }"

definition mem_GetRunTimeline :: "string \<Rightarrow> timeline_item list mem" where
  "mem_GetRunTimeline runID = do {
     s \<leftarrow> gets id;
     (case mget (mem_runItems s) runID of
        None \<Rightarrow> if \<not> mhas (mem_runs s) runID then fail ErrNotFound else ok []
      | Some items \<Rightarrow> ok (clone_items items)) }"

definition mem_SaveEffectiveRequest :: "effective_request \<Rightarrow> unit mem" where
  "mem_SaveEffectiveRequest req = do {
     modify (\<lambda>s. s\<lparr>mem_effectiveRequest :=
       mput (er_RunID req) (clone_effective_request req) (mem_effectiveRequest s)\<rparr>);
     ok () }"

definition mem_GetEffectiveRequest :: "string \<Rightarrow> effective_request option mem" where
  "mem_GetEffectiveRequest runID = do {
     req \<leftarrow> gets (\<lambda>s. mget (mem_effectiveRequest s) runID);
     (case req of
        None \<Rightarrow> fail ErrNotFound
      | Some r \<Rightarrow> ok (Option.bind r clone_effective_request)) }"

section \<open>Attachments and idempotency\<close>

definition mem_SaveAttachment :: "attachment_record \<Rightarrow> unit mem" where
  "mem_SaveAttachment attachment = do {
     modify (\<lambda>s. s\<lparr>mem_attachments :=
       mput (at_ID attachment) (clone_attachment attachment) (mem_attachments s)\<rparr>);
     ok () }"

definition mem_CloseAttachment :: "string \<Rightarrow> string \<Rightarrow> time \<Rightarrow> unit mem" where
  "mem_CloseAttachment attachmentID reason endedAt = do {
     attachment \<leftarrow> gets (\<lambda>s. mget (mem_attachments s) attachmentID);
     (case attachment of
        None \<Rightarrow> fail ErrNotFound
      | Some a \<Rightarrow> do {
          modify (\<lambda>s. s\<lparr>mem_attachments := mput attachmentID
            (a\<lparr>at_CloseReason := reason, at_EndedAt := Some endedAt\<rparr>) (mem_attachments s)\<rparr>);
          ok () }) }"

definition mem_SaveIdempotency :: "idempotency_record \<Rightarrow> unit mem" where
  "mem_SaveIdempotency record = do {
     modify (\<lambda>s. s\<lparr>mem_idempotency :=
       mput (idempotencyMapKey (scope_of record)) (clone_idempotency record) (mem_idempotency s)\<rparr>);
     ok () }"

definition mem_GetIdempotency :: "time \<Rightarrow> idempotency_scope \<Rightarrow> idempotency_record mem" where
  "mem_GetIdempotency now sc = do {
     record \<leftarrow> gets (\<lambda>s. mget (mem_idempotency s) (idempotencyMapKey sc));
     (case record of
        None \<Rightarrow> fail ErrNotFound
      | Some r \<Rightarrow>
          if id_ExpiresAt r \<noteq> 0 \<and> now > id_ExpiresAt r then fail ErrNotFound
          else ok (clone_idempotency r)) }"

definition MemoryStore :: "memory_store store" where
  "MemoryStore = \<lparr>
     UpsertSession = mem_UpsertSession,
     ListSessions = mem_ListSessions,
     GetSession = mem_GetSession,
     GetSessionByExternal = mem_GetSessionByExternal,
     ListSessionChains = mem_ListSessionChains,
     SaveChain = mem_SaveChain,
     UpdateChain = mem_UpdateChain,
     ListChains = mem_ListChains,
     GetChain = mem_GetChain,
     ListChainMessages = mem_ListChainMessages,
     AppendChainMessages = mem_AppendChainMessages,
     SetChainResumeTokenHash = mem_SetChainResumeTokenHash,
     GetChainResumeTokenHash = mem_GetChainResumeTokenHash,
     CreateRun = mem_CreateRun,
     UpdateRun = mem_UpdateRun,
     GetRun = mem_GetRun,
     ListChainRuns = mem_ListChainRuns,
     AppendRunItems = mem_AppendRunItems,
     GetRunTimeline = mem_GetRunTimeline,
     SaveEffectiveRequest = mem_SaveEffectiveRequest,
     GetEffectiveRequest = mem_GetEffectiveRequest,
     SaveAttachment = mem_SaveAttachment,
     CloseAttachment = mem_CloseAttachment,
     SaveIdempotency = mem_SaveIdempotency,
     GetIdempotency = mem_GetIdempotency\<rparr>"

end
