(* ===== verification/MemStoreLaws.thy ===== *)
theory MemStoreLaws
  imports MemStore "HOL-Library.Multiset"
begin

text \<open>
  The in-memory store meets the contract \<open>chain_store\<close>, keeps its message log
  consistent with its histories, and lists records in recency order.
\<close>

section \<open>The contract\<close>

definition view_chains :: "memory_store \<Rightarrow> string \<Rightarrow> chain_record option" where
  "view_chains s c = mget (mem_chains s) c"

definition view_hist :: "memory_store \<Rightarrow> string \<Rightarrow> message list" where
  "view_hist s c = mlist (mem_chainHistory s) c"

definition view_token :: "memory_store \<Rightarrow> string \<Rightarrow> string" where
  "view_token s c = (case mget (mem_chainResume s) c of None \<Rightarrow> [] | Some h \<Rightarrow> h)"

definition view_idem :: "memory_store \<Rightarrow> idempotency_scope \<Rightarrow> idempotency_record option" where
  "view_idem s sc = mget (mem_idempotency s) (idempotencyMapKey sc)"

definition same_key :: "idempotency_scope \<Rightarrow> idempotency_scope \<Rightarrow> bool" where
  "same_key a b = (idempotencyMapKey a = idempotencyMapKey b)"

lemmas views = view_chains_def view_hist_def view_token_def view_idem_def

lemma views_touch [simp]:
  "view_chains (touch_session c s) = view_chains s" "view_hist (touch_session c s) = view_hist s"
  "view_token (touch_session c s) = view_token s" "view_idem (touch_session c s) = view_idem s"
  by (simp_all add: views touch_session_def fun_eq_iff split: option.splits)

lemma views_other [simp]:
  "view_chains (s\<lparr>mem_sessionChains := x\<rparr>) = view_chains s"
  "view_hist (s\<lparr>mem_sessionChains := x\<rparr>) = view_hist s"
  "view_token (s\<lparr>mem_sessionChains := x\<rparr>) = view_token s"
  "view_idem (s\<lparr>mem_sessionChains := x\<rparr>) = view_idem s"
  by (simp_all add: views fun_eq_iff)

interpretation mem: chain_store MemoryStore view_chains view_hist view_token view_idem same_key
proof (unfold_locales, goal_cases)
  case (1 c s)
  show ?case by (simp add: MemoryStore_def mem_GetChain_def views split: option.splits)
next
  case (2 now r h s)
  show ?case
    by (simp add: MemoryStore_def mem_SaveChain_def) (simp add: views fun_eq_iff)
next
  case (3 r s)
  show ?case
    by (simp add: MemoryStore_def mem_UpdateChain_def) (simp add: views fun_eq_iff mhas_def)
next
  case (4 now c rid ms s)
  show ?case
    by (cases "mget (mem_chains s) c")
      (simp_all add: MemoryStore_def mem_AppendChainMessages_def views fun_eq_iff)
next
  case (5 c tok s)
  show ?case
    by (simp add: MemoryStore_def mem_SetChainResumeTokenHash_def views fun_eq_iff mhas_def)
next
  case (6 c s)
  show ?case by (simp add: MemoryStore_def mem_GetChainResumeTokenHash_def views mhas_def)
next
  case (7 ir s)
  show ?case
    by (simp add: MemoryStore_def mem_SaveIdempotency_def views same_key_def fun_eq_iff eq_commute)
next
  case (8 now sc s)
  show ?case
    by (simp add: MemoryStore_def mem_GetIdempotency_def views live_def split: option.splits)
next
  case (9 sess s)
  show ?case by (simp add: MemoryStore_def mem_UpsertSession_def views fun_eq_iff)
next
  case (10 a s)
  show ?case by (simp add: MemoryStore_def mem_SaveAttachment_def views fun_eq_iff)
next
  case (11 aid reason t s)
  show ?case
    by (cases "mget (mem_attachments s) aid")
      (simp_all add: MemoryStore_def mem_CloseAttachment_def views fun_eq_iff)
next
  case (12 sc)
  show ?case by (simp add: same_key_def)
qed

lemma views_runs [simp]:
  "view_chains (s\<lparr>mem_runs := x\<rparr>) = view_chains s" "view_hist (s\<lparr>mem_runs := x\<rparr>) = view_hist s"
  "view_chains (s\<lparr>mem_chainRuns := y\<rparr>) = view_chains s"
  "view_hist (s\<lparr>mem_chainRuns := y\<rparr>) = view_hist s"
  "view_chains (s\<lparr>mem_runItems := z\<rparr>) = view_chains s"
  "view_hist (s\<lparr>mem_runItems := z\<rparr>) = view_hist s"
  "view_chains (s\<lparr>mem_effectiveRequest := w\<rparr>) = view_chains s"
  "view_hist (s\<lparr>mem_effectiveRequest := w\<rparr>) = view_hist s"
  by (simp_all add: views fun_eq_iff)

interpretation mem_runs: run_store MemoryStore view_chains view_hist view_token view_idem same_key
proof (unfold_locales, goal_cases)
  case (1 r s)
  show ?case by (simp add: MemoryStore_def mem_CreateRun_def)
next
  case (2 r s)
  show ?case by (simp add: MemoryStore_def mem_UpdateRun_def)
next
  case (3 i items s)
  show ?case by (simp add: MemoryStore_def mem_AppendRunItems_def)
next
  case (4 e s)
  show ?case by (simp add: MemoryStore_def mem_SaveEffectiveRequest_def)
qed

section \<open>The message log\<close>

text \<open>
  The log of a chain parallels its history: as many records as messages, numbered from 1
  without gaps, each with the ID its number gives and the role of its message.
\<close>

definition log_ok :: "string \<Rightarrow> message list \<Rightarrow> chain_message list \<Rightarrow> bool" where
  "log_ok c history entries =
     (length entries = length history \<and>
      (\<forall>i < length entries. cm_ChainID (entries ! i) = c \<and> cm_SequenceInChain (entries ! i) = int i + 1 \<and>
         cm_ID (entries ! i) = message_id c (int i + 1) \<and>
         cm_Role (entries ! i) = msg_Role (history ! i)))"

definition log_inv :: "memory_store \<Rightarrow> bool" where
  "log_inv s = (\<forall>c. log_ok c (mlist (mem_chainHistory s) c) (mlist (mem_chainMessages s) c))"

lemma log_ok_Nil [simp]: "log_ok c [] []"
  by (simp add: log_ok_def)

lemma log_inv_new [simp]: "log_inv NewMemoryStore"
  by (simp add: log_inv_def NewMemoryStore_def mlist_def)

lemma log_ok_build:
  "log_ok c (cloneMessages ms) (buildChainMessageRecords now c r ms 0 t)"
  by (simp add: log_ok_def buildChainMessageRecords_def nth_message_records cloneMessages_def)

lemma log_ok_append:
  assumes "log_ok c h l"
  shows "log_ok c (h @ cloneMessages ms) (l @ buildChainMessageRecords now c r ms (int (length l)) t)"
  using assms
  by (auto simp: log_ok_def buildChainMessageRecords_def nth_append nth_message_records
      cloneMessages_def)

lemma log_inv_unchanged:
  "mem_chainHistory s' = mem_chainHistory s \<Longrightarrow> mem_chainMessages s' = mem_chainMessages s \<Longrightarrow>
   log_inv s' = log_inv s"
  by (simp add: log_inv_def)

lemma log_inv_touch [simp]: "log_inv (touch_session c s) = log_inv s"
  by (rule log_inv_unchanged) (simp_all add: touch_session_def split: option.splits)

lemma touch_session_log [simp]:
  "mem_chainHistory (touch_session c s) = mem_chainHistory s"
  "mem_chainMessages (touch_session c s) = mem_chainMessages s"
  by (simp_all add: touch_session_def split: option.splits)

lemma log_inv_SaveChain: "preserves log_inv (mem_SaveChain now chain history)"
  unfolding mem_SaveChain_def
  by (intro pres_intro) (simp_all add: log_inv_def log_ok_build)

lemma log_inv_AppendChainMessages: "preserves log_inv (mem_AppendChainMessages now c r ms)"
proof (rule preservesI)
  fix s assume "log_inv s"
  then have "log_ok c (mlist (mem_chainHistory s) c) (mlist (mem_chainMessages s) c)"
    by (simp add: log_inv_def)
  then show "wp (mem_AppendChainMessages now c r ms) (\<lambda>_. log_inv) s"
    using \<open>log_inv s\<close>
    by (cases "mget (mem_chains s) c")
      (auto simp: mem_AppendChainMessages_def log_inv_def Let_def intro!: log_ok_append)
qed

text \<open>An operation that leaves the two maps alone keeps the invariant.\<close>

lemma preserves_log_modify:
  "(\<And>s. mem_chainHistory (f s) = mem_chainHistory s) \<Longrightarrow>
   (\<And>s. mem_chainMessages (f s) = mem_chainMessages s) \<Longrightarrow> preserves log_inv (modify f)"
  by (rule preserves_modify) (simp add: log_inv_def)

lemma log_inv_others:
  "preserves log_inv (mem_UpsertSession a)" "preserves log_inv (mem_UpdateChain chain)"
  "preserves log_inv (mem_SetChainResumeTokenHash c t)" "preserves log_inv (mem_CreateRun run)"
  "preserves log_inv (mem_UpdateRun run)" "preserves log_inv (mem_AppendRunItems rid is)"
  "preserves log_inv (mem_SaveEffectiveRequest req)" "preserves log_inv (mem_SaveAttachment att)"
  "preserves log_inv (mem_CloseAttachment aid reason t')"
  "preserves log_inv (mem_SaveIdempotency rec)"
  unfolding mem_UpsertSession_def mem_UpdateChain_def mem_SetChainResumeTokenHash_def
    mem_CreateRun_def mem_UpdateRun_def mem_AppendRunItems_def mem_SaveEffectiveRequest_def
    mem_SaveAttachment_def mem_CloseAttachment_def mem_SaveIdempotency_def
  by (intro pres_intro preserves_log_modify; simp)+

section \<open>Listings\<close>

definition total_cmp :: "('a \<Rightarrow> 'a \<Rightarrow> int) \<Rightarrow> bool" where
  "total_cmp cmp =
     ((\<forall>x y. cmp x y \<le> 0 \<or> cmp y x \<le> 0) \<and>
      (\<forall>x y z. cmp x y \<le> 0 \<longrightarrow> cmp y z \<le> 0 \<longrightarrow> cmp x z \<le> 0))"

lemma mset_insert_by [simp]: "mset (insert_by cmp x xs) = add_mset x (mset xs)"
  by (induction xs) auto

lemma mset_SortFunc [simp]: "mset (SortFunc cmp xs) = mset xs"
  unfolding SortFunc_def by (induction xs) auto

lemma sorted_insert_by:
  "total_cmp cmp \<Longrightarrow> sorted_wrt (\<lambda>x y. cmp x y \<le> 0) xs \<Longrightarrow>
   sorted_wrt (\<lambda>x y. cmp x y \<le> 0) (insert_by cmp x xs)"
proof (induction xs)
  case (Cons y ys)
  have set: "set (insert_by cmp x ys) = insert x (set ys)"
    by (metis mset_insert_by set_mset_add_mset_insert set_mset_mset)
  show ?case
  proof (cases "cmp x y \<le> 0")
    case True
    then show ?thesis using Cons.prems unfolding total_cmp_def by fastforce
  next
    case False
    then have "cmp y x \<le> 0" using Cons.prems(1) unfolding total_cmp_def by blast
    with False Cons show ?thesis by (simp add: set)
  qed
qed simp

lemma sorted_SortFunc: "total_cmp cmp \<Longrightarrow> sorted_wrt (\<lambda>x y. cmp x y \<le> 0) (SortFunc cmp xs)"
  unfolding SortFunc_def by (induction xs) (auto intro: sorted_insert_by)

lemma recency_cmp_le: "recency_cmp a b \<le> 0 \<longleftrightarrow> fst b < fst a \<or> fst a = fst b \<and> snd a \<le> snd b"
  by (auto simp: recency_cmp_def)

lemma total_cmp_recency: "total_cmp (\<lambda>x y. recency_cmp (f x) (f y))"
proof -
  have lin: "recency_cmp a b \<le> 0 \<or> recency_cmp b a \<le> 0" for a b
    unfolding recency_cmp_le using linorder_less_linear [of "fst a" "fst b"] linear [of "snd a" "snd b"]
    by auto
  have trans: "recency_cmp a c \<le> 0" if "recency_cmp a b \<le> 0" "recency_cmp b c \<le> 0" for a b c
    using that unfolding recency_cmp_le by (elim disjE conjE) (simp_all)
  show ?thesis
    unfolding total_cmp_def by (intro conjI allI impI lin) (rule trans)
qed

lemma total_cmp_listing [simp]: "total_cmp session_cmp" "total_cmp chain_cmp"
  using total_cmp_recency [of "\<lambda>s. (sess_UpdatedAt s, sess_ID s)"]
    total_cmp_recency [of "\<lambda>s. (ch_UpdatedAt s, ch_ID s)"]
  by (simp_all add: session_cmp_def [abs_def] chain_cmp_def [abs_def])

section \<open>Keys of idempotent requests\<close>

text \<open>Joining with \<open>::\<close> keeps scopes apart when no component has a colon.\<close>

definition colon_free :: "string \<Rightarrow> bool" where
  "colon_free s = (CHR '':'' \<notin> set s)"

lemma colon_join_inj:
  assumes "colon_free a" "colon_free b" "a @ ''::'' @ x = b @ ''::'' @ y"
  shows "a = b \<and> x = y"
proof -
  have a: "cut CHR '':'' (a @ ''::'' @ x) = Some (a, CHR '':'' # x)"
    using assms(1) by (simp add: cut_append colon_free_def)
  have b: "cut CHR '':'' (b @ ''::'' @ y) = Some (b, CHR '':'' # y)"
    using assms(2) by (simp add: cut_append colon_free_def)
  have "Some (a, CHR '':'' # x) = Some (b, CHR '':'' # y)"
    using a b unfolding assms(3) by (rule trans [OF sym])
  then show ?thesis by simp
qed

lemma idempotencyMapKey_inj:
  assumes "colon_free (sc_OrgID a)" "colon_free (sc_PrincipalID a)" "colon_free (sc_ChainID a)"
    "colon_free (sc_Operation a)"
    and "colon_free (sc_OrgID b)" "colon_free (sc_PrincipalID b)" "colon_free (sc_ChainID b)"
    "colon_free (sc_Operation b)"
    and "idempotencyMapKey a = idempotencyMapKey b"
  shows "a = b"
proof -
  note key = assms(9) [unfolded idempotencyMapKey_def]
  note s1 = colon_join_inj [OF assms(1,5) key]
  note s2 = colon_join_inj [OF assms(2,6) conjunct2 [OF s1]]
  note s3 = colon_join_inj [OF assms(3,7) conjunct2 [OF s2]]
  note s4 = colon_join_inj [OF assms(4,8) conjunct2 [OF s3]]
  show ?thesis using s1 s2 s3 s4 by (cases a; cases b) simp
qed

text \<open>C26. Every operation of the in-memory store that writes keeps the log of each chain in
  step with its history: as many entries, numbered from 1 without gaps, with the message's
  role and the ID its number gives.\<close>

theorem memory_store_keeps_log:
  "preserves log_inv (SaveChain MemoryStore now chain history) \<and>
   preserves log_inv (UpdateChain MemoryStore chain) \<and>
   preserves log_inv (AppendChainMessages MemoryStore now c r ms) \<and>
   preserves log_inv (SetChainResumeTokenHash MemoryStore c h) \<and>
   preserves log_inv (UpsertSession MemoryStore session) \<and>
   preserves log_inv (CreateRun MemoryStore run) \<and> preserves log_inv (UpdateRun MemoryStore run) \<and>
   preserves log_inv (AppendRunItems MemoryStore r items) \<and>
   preserves log_inv (SaveEffectiveRequest MemoryStore req) \<and>
   preserves log_inv (SaveAttachment MemoryStore att) \<and>
   preserves log_inv (CloseAttachment MemoryStore a reason ended) \<and>
   preserves log_inv (SaveIdempotency MemoryStore rec) \<and> log_inv NewMemoryStore"
  by (simp add: MemoryStore_def log_inv_SaveChain log_inv_AppendChainMessages log_inv_others)

definition listed :: "string \<Rightarrow> string \<Rightarrow> bool \<Rightarrow> chain_record \<Rightarrow> bool" where
  "listed orgID sessionID unsessionedOnly c =
     (ch_OrgID c = orgID \<and> (sessionID = [] \<or> ch_SessionID c = sessionID) \<and>
      (\<not> unsessionedOnly \<or> ch_SessionID c = []))"

text \<open>A listing of chains holds exactly the chains of the organisation that match the
  filter, each as often as it is stored, the most recently updated first and ties by ID; it
  does not change the store.\<close>

theorem chain_listing_exact:
  "case run_state (ListChains MemoryStore orgID sessionID unsessionedOnly) s of
     (Inl _, _) \<Rightarrow> False
   | (Inr cs, s') \<Rightarrow> s' = s \<and>
       mset cs = image_mset clone_chain
         (filter_mset (listed orgID sessionID unsessionedOnly) (mset (map snd (mem_chains s)))) \<and>
       sorted_wrt (\<lambda>a b. ch_UpdatedAt b < ch_UpdatedAt a \<or>
         ch_UpdatedAt a = ch_UpdatedAt b \<and> ch_ID a \<le> ch_ID b) cs"
proof -
  have "filter (\<lambda>c. ch_OrgID c = orgID \<and> \<not> (sessionID \<noteq> [] \<and> ch_SessionID c \<noteq> sessionID) \<and>
          \<not> (unsessionedOnly \<and> ch_SessionID c \<noteq> [])) cs = filter (listed orgID sessionID unsessionedOnly) cs"
    for cs by (rule filter_cong) (auto simp: listed_def)
  moreover have "sorted_wrt (\<lambda>a b. ch_UpdatedAt b < ch_UpdatedAt a \<or>
      ch_UpdatedAt a = ch_UpdatedAt b \<and> ch_ID a \<le> ch_ID b) (SortFunc chain_cmp cs)" for cs
    using sorted_SortFunc [of chain_cmp cs] by (simp add: chain_cmp_def recency_cmp_le)
  ultimately show ?thesis
    by (simp add: MemoryStore_def mem_ListChains_def)
qed

text \<open>The key under which an idempotent request is remembered keeps requests of
  different organisations, principals, chains and operations apart, as long as none of these
  names contains a colon; the key the client chose may be any text.\<close>

theorem idempotency_key_injective:
  assumes "list_all colon_free [sc_OrgID a, sc_PrincipalID a, sc_ChainID a, sc_Operation a]"
    and "list_all colon_free [sc_OrgID b, sc_PrincipalID b, sc_ChainID b, sc_Operation b]"
    and "idempotencyMapKey a = idempotencyMapKey b"
  shows "a = b"
  using assms by (auto intro: idempotencyMapKey_inj)

text \<open>Without that restriction two different scopes share a key: a principal whose ID
  ends in the separator and a chain name reads as another principal and chain.\<close>

theorem idempotency_key_collision:
  "\<exists>a b. a \<noteq> b \<and> sc_PrincipalID a \<noteq> sc_PrincipalID b \<and> idempotencyMapKey a = idempotencyMapKey b"
proof (intro exI conjI)
  let ?a = "\<lparr>sc_OrgID = ''o'', sc_PrincipalID = ''p::c'', sc_ChainID = [], sc_Operation = ''run'', sc_Key = ''k''\<rparr>"
  let ?b = "\<lparr>sc_OrgID = ''o'', sc_PrincipalID = ''p'', sc_ChainID = ''c::'', sc_Operation = ''run'', sc_Key = ''k''\<rparr>"
  show "?a \<noteq> ?b" "sc_PrincipalID ?a \<noteq> sc_PrincipalID ?b" by simp_all
  show "idempotencyMapKey ?a = idempotencyMapKey ?b" by (simp add: idempotencyMapKey_def)
qed

end
