(* ===== verification/Examples.thy ===== *)
theory Examples
  imports ManagerInv MemStoreLaws
begin

text \<open>
  A concrete manager over the in-memory store, on which the properties are exercised: a
  clock that ticks a second per reading, a random source that counts in unary, a hash that spells
  out its argument and a codec of events as numbers.
\<close>

fun demo_hash :: "json \<Rightarrow> string" where
  "demo_hash JNull = ''~''"
| "demo_hash (JBool b) = (if b then ''T'' else ''F'')"
| "demo_hash (JNum r) = ''#''"
| "demo_hash (JInt i) = itoa i"
| "demo_hash (JStr s) = s"
| "demo_hash (JArr xs) = ''['' @ concat (map demo_hash xs) @ '']''"
| "demo_hash (JObj m) = ''{'' @ concat (map (\<lambda>(k, v). k @ demo_hash v) m) @ ''}''"

definition demo_event :: "int \<Rightarrow> server_event" where
  "demo_event n = ChainErrorEvent n 1 (NewCanonicalError ErrorCodeChainExpired ''chain is expired'')"

text \<open>Events are written as their number in unary.\<close>

definition demo_codec :: event_codec where
  "demo_codec = \<lparr>ec_marshal = (\<lambda>e. Inr (replicate (nat (eventID e)) CHR ''i'')),
     ec_decode = (\<lambda>s. Inr (demo_event (int (length s))))\<rparr>"

definition demo_config :: manager_config where
  "demo_config = \<lparr>ReplayEventLimit = 4, ReplayByteLimit = 100, ToolWaitTimeout = 30 * second,
     ChainIdleTTL = 900 * second\<rparr>"

definition demo_world :: "memory_store world" where
  "demo_world = \<lparr>w_now = (\<lambda>n. 1000 + int n), w_rand = (\<lambda>b n. replicate n CHR ''x''), w_sha = (\<lambda>s. CHR ''h'' # s),
     w_hash = demo_hash, w_codec = demo_codec, w_parse = (\<lambda>s. Some (JObj [])),
     w_render = demo_hash, w_store = MemoryStore, w_cfg = demo_config\<rparr>"

definition demo_principal :: principal where
  "demo_principal = \<lparr>pr_OrgID = ''org'', pr_PrincipalID = ''key1'',
     pr_PrincipalType = ''api_key'', pr_ActorID = []\<rparr>"

definition demo_scope :: credential_scope where
  "demo_scope = \<lparr>ProviderKeys = [(''anthropic'', ''sk'')], AllowedGatewayTools = []\<rparr>"

text \<open>A client on the websocket, whose sink accepts everything, and one over HTTP.\<close>

definition ws_env :: runtime_env where
  "ws_env = \<lparr>env_Principal = demo_principal, env_Mode = AttachmentModeTurnWS,
     env_Protocol = ''ws'', env_Scope = demo_scope, env_NewProvider = None,
     env_BuildGatewayTools = None, env_ResolveMessageRequest = None,
     env_Send = Some (\<lambda>_. None), env_AllowClientTools = True\<rparr>"

definition http_env :: runtime_env where
  "http_env = ws_env\<lparr>env_Mode := AttachmentModeStatefulHTTP, env_Protocol := ''http'',
     env_Send := None, env_AllowClientTools := False\<rparr>"

definition user_says :: "string \<Rightarrow> message" where
  "user_says t = \<lparr>msg_Role = ''user'', msg_Content = CBlocks (Some [text_block t])\<rparr>"

definition demo_defaults :: chain_defaults where
  "demo_defaults = zero_defaults\<lparr>cd_Model := ''anthropic/claude''\<rparr>"

definition demo_start :: start_payload where
  "demo_start = \<lparr>sp_ExternalSessionID = [], sp_Defaults = demo_defaults,
     sp_History = [user_says ''hi''], sp_Metadata = None\<rparr>"

definition demo_run :: run_payload where
  "demo_run = \<lparr>rp_Input = [user_says ''go''], rp_Overrides = None, rp_Metadata = None\<rparr>"

text \<open>A manager with one idle chain, and the same with a writer on the websocket.\<close>

definition demo_chain :: string where
  "demo_chain = ''c1''"

definition demo_record :: chain_record where
  "demo_record = new_chain_record demo_chain demo_principal ''s1'' demo_start 1000"

definition demo_lease :: writer_lease where
  "demo_lease = new_lease ''a1'' ws_env demo_principal 1000 ''ht1''"

definition idle_chain :: hot_chain where
  "idle_chain = \<lparr>hc_record = demo_record, hc_history = [user_says ''hi''],
     hc_replay = \<lparr>rb_replay = [\<lparr>re_EventID = 1, re_Data = ''i''\<rparr>], rb_bytes = 1\<rparr>,
     hc_nextEventID = 1, hc_orgID = ''org'', hc_createdByPrincipalID = ''key1'',
     hc_createdByPrincipalType = ''api_key'', hc_actorID = [], hc_resumeTokenHash = ''ht1'',
     hc_writer = None, hc_activeRun = None\<rparr>"

definition demo_store :: memory_store where
  "demo_store = NewMemoryStore\<lparr>mem_chains := [(demo_chain, demo_record)],
     mem_chainHistory := [(demo_chain, [user_says ''hi''])]\<rparr>"

definition idle_manager :: "memory_store manager" where
  "idle_manager = (NewManager demo_store)\<lparr>mg_chains := [(demo_chain, idle_chain)]\<rparr>"

definition held_manager :: "memory_store manager" where
  "held_manager = idle_manager\<lparr>mg_chains := [(demo_chain, idle_chain\<lparr>hc_writer := Some demo_lease\<rparr>)]\<rparr>"

text \<open>A client that takes the chain over with its resume token.\<close>

definition demo_attach :: attach_frame where
  "demo_attach = \<lparr>af_ChainID = demo_chain, af_ResumeToken = ''t1'', af_AfterEventID = 0,
     af_RequireExactReplay = False, af_Takeover = True\<rparr>"

end
