(* ===== verification/ChainSat.thy ===== *)
theory ChainSat
  imports ManagerInv
begin

text \<open>
  Facts about one chain in memory: \<open>chain_sat c P\<close> says that the chain \<open>c\<close> is in memory
  and has the property \<open>P\<close>. The rules below say which steps keep such a fact.
\<close>

section \<open>A fact about a chain\<close>

definition chain_sat :: "string \<Rightarrow> (hot_chain \<Rightarrow> bool) \<Rightarrow> 's manager \<Rightarrow> bool" where
  "chain_sat c P m = (\<exists>hc. mget (mg_chains m) c = Some hc \<and> P hc)"

lemma on_chains_sat [simp]: "on_chains (chain_sat c P)"
  by (auto simp: on_chains_def chain_sat_def)

lemma sat_upd: "(\<And>hc. c' = c \<Longrightarrow> P hc \<Longrightarrow> P (f hc)) \<Longrightarrow> preserves (chain_sat c P) (upd_chain c' f)"
  by (rule preservesI) (auto simp: chain_sat_def)

lemma sat_upd_other: "c' \<noteq> c \<Longrightarrow> preserves (chain_sat c P) (upd_chain c' f)"
  by (rule preservesI) (auto simp: chain_sat_def)

lemma sat_put: "c' \<noteq> c \<or> P hc \<Longrightarrow> preserves (chain_sat c P) (put_chain c' hc)"
  by (rule preservesI) (auto simp: chain_sat_def)

lemma sat_hotChain_bind:
  fixes f :: "hot_chain option \<Rightarrow> ('s, 'a) op"
  assumes f: "\<And>hot. (c' = c \<Longrightarrow> \<exists>hc. hot = Some hc \<and> P hc) \<Longrightarrow> preserves (chain_sat c P) (f hot)"
  shows "preserves (chain_sat c P) (State_Monad.bind (hotChain c') f)"
proof (rule preservesI)
  fix m :: "'s manager" assume h: "chain_sat c P m"
  then have "preserves (chain_sat c P) (f (mget (mg_chains m) c'))"
    by (intro f) (auto simp: chain_sat_def)
  then show "wp (State_Monad.bind (hotChain c') f) (\<lambda>_. chain_sat c P) m"
    using h by (simp add: preservesD)
qed

lemma sat_bufferAndEmit:
  "(\<And>hc b. P (hc\<lparr>hc_replay := b\<rparr>) = P hc) \<Longrightarrow> preserves (chain_sat c P) (bufferAndEmit W c' ev)"
  unfolding bufferAndEmit_def
  by (intro sat_hotChain_bind pres_intro sat_put preserves_log_sent on_chains_sat) auto

lemma sat_bufferAndEmit_wp:
  assumes "chain_sat c P m" "\<And>hc b. P (hc\<lparr>hc_replay := b\<rparr>) = P hc"
  shows "wp (bufferAndEmit W c' ev) (\<lambda>_. chain_sat c P) m"
  using preservesD [OF sat_bufferAndEmit assms(1)] assms(2) by blast

lemma chain_satI: "mget (mg_chains m) c = Some hc \<Longrightarrow> P hc \<Longrightarrow> chain_sat c P m"
  by (auto simp: chain_sat_def)

lemma sat_upd_pending:
  "(\<And>hc f. P (hc\<lparr>hc_activeRun := map_option (\<lambda>a. a\<lparr>ar_pending := f (ar_pending a)\<rparr>) (hc_activeRun hc)\<rparr>) = P hc) \<Longrightarrow>
   preserves (chain_sat c P) (upd_pending c' f)"
  unfolding upd_pending_def by (rule sat_upd) simp

lemma sat_nextEvent:
  "(\<And>hc n. P (hc\<lparr>hc_nextEventID := n\<rparr>) = P hc) \<Longrightarrow> preserves (chain_sat c P) (nextEvent c')"
  unfolding nextEvent_def
  by (intro pres_intro preserves_hotChain sat_upd) simp

lemmas sat_intro = preserves_on_store preserves_now preserves_newID preserves_issueResumeToken
  preserves_active_pending sat_upd_pending sat_nextEvent sat_bufferAndEmit on_chains_sat

text \<open>Two steps in a row, the second under what the first one tells of its result.\<close>

lemma preserves_attempt_told:
  assumes m: "\<And>s. I s \<Longrightarrow> wp m (\<lambda>r s'. I s' \<and> (\<forall>x. r = Inr x \<longrightarrow> Q x)) s"
    and f: "\<And>x. Q x \<Longrightarrow> preserves I (f x)"
  shows "preserves I (attempt m f)"
proof (rule preservesI)
  fix s assume "I s"
  then have "wp m (\<lambda>r s'. I s' \<and> (\<forall>x. r = Inr x \<longrightarrow> Q x)) s" by (rule m)
  then show "wp (attempt m f) (\<lambda>_. I) s"
    by (simp only: wp_attempt, elim wp_mono) (auto split: sum.splits intro: preservesD [OF f])
qed

section \<open>Bringing chains to memory\<close>

lemma wp_requireChain_sat:
  assumes "chain_sat c P m"
  shows "wp (requireChain W c') (\<lambda>r m'. chain_sat c P m' \<and>
    (\<forall>hc. c' = c \<longrightarrow> r = Inr hc \<longrightarrow> P hc)) m"
proof (cases "mget (mg_chains m) c'")
  case (Some hc)
  then show ?thesis using assms by (auto simp: requireChain_def chain_sat_def)
next
  case None
  then have ne: "c' \<noteq> c" using assms by (auto simp: chain_sat_def)
  have "preserves (chain_sat c P) (requireChain W c')"
    unfolding requireChain_def
    by (intro pres_intro sat_intro preserves_hotChain sat_put disjI1 ne)
  then show ?thesis using assms ne by (simp add: preservesD)
qed

lemma sat_requireChain: "preserves (chain_sat c P) (requireChain W c')"
  by (rule preservesI) (rule wp_mono [OF wp_requireChain_sat], auto)

lemma sat_requireChain_bind:
  assumes "\<And>r. (\<And>hc. c' = c \<Longrightarrow> r = Inr hc \<Longrightarrow> P hc) \<Longrightarrow> preserves (chain_sat c P) (f r)"
  shows "preserves (chain_sat c P) (State_Monad.bind (requireChain W c') f)"
  by (rule preservesI, simp, rule wp_mono [OF wp_requireChain_sat], assumption)
    (rule preservesD [OF assms], auto)

lemma sat_requireChain_attempt:
  assumes "\<And>hc. (c' = c \<Longrightarrow> P hc) \<Longrightarrow> preserves (chain_sat c P) (f hc)"
  shows "preserves (chain_sat c P) (attempt (requireChain W c') f)"
  unfolding attempt_def
  by (rule sat_requireChain_bind) (auto split: sum.splits intro: assms)

section \<open>Single steps\<close>

lemma wp_store: "(\<And>r s. Q r (m\<lparr>mg_store := s\<rparr>)) \<Longrightarrow> wp (on_store f) Q m"
  by (simp add: on_store_def wp_def split: prod.split)

lemma wp_nextEvent: "mget (mg_chains m) c = Some hc \<Longrightarrow> wp (nextEvent c) Q m = 
   Q (hc_nextEventID hc + 1) (upd_map c (\<lambda>hc. hc\<lparr>hc_nextEventID := hc_nextEventID hc + 1\<rparr>) m)"
  by (simp add: nextEvent_def)


lemma wp_requireChain_hot:
  "wp (requireChain W c) (\<lambda>r m'. case r of Inl _ \<Rightarrow> True | Inr hc \<Rightarrow> mget (mg_chains m') c = Some hc) m"
proof (cases "mget (mg_chains m) c")
  case None
  then show ?thesis
    by (simp add: requireChain_def Let_def wp_store split: sum.split prod.split option.split)
qed (simp add: requireChain_def)

end
