(* ===== verification/Lease.thy ===== *)
theory Lease
  imports ChainSat
begin

text \<open>
  The writer lease of a chain: who may take it, and which operations leave it alone.
\<close>

section \<open>Admission to a chain\<close>

text \<open>What \<open>AttachChain\<close> asks of the caller and of the chain, the replay aside.\<close>

definition may_attach :: "'s world \<Rightarrow> principal \<Rightarrow> attach_frame \<Rightarrow> hot_chain \<Rightarrow> bool" where
  "may_attach W p frame hc =
     (same_org (hc_orgID hc) (pr_OrgID p) \<and>
      hc_resumeTokenHash hc \<noteq> [] \<and> hashToken W (af_ResumeToken frame) = hc_resumeTokenHash hc \<and>
      (hc_actorID hc \<noteq> [] \<longrightarrow>
        trim_space (pr_ActorID p) \<noteq> [] \<and> trim_space (pr_ActorID p) = trim_space (hc_actorID hc)) \<and>
      ch_Status (hc_record hc) \<noteq> ChainStatusExpired \<and>
      (hc_writer hc = None \<or> af_Takeover frame))"

lemma authorizeAttach_iff:
  "(\<exists>a. authorizeAttach W hc p tok = Inr a) \<longleftrightarrow>
     same_org (hc_orgID hc) (pr_OrgID p) \<and> hc_resumeTokenHash hc \<noteq> [] \<and>
     hashToken W tok = hc_resumeTokenHash hc \<and>
     (hc_actorID hc \<noteq> [] \<longrightarrow>
       trim_space (pr_ActorID p) \<noteq> [] \<and> trim_space (pr_ActorID p) = trim_space (hc_actorID hc))"
  by (auto simp: authorizeAttach_def same_org_def Let_def)

definition attach_codes :: "ErrorCode set" where
  "attach_codes = {ErrorCodeAuthResumeTokenInvalid, ErrorCodeAuthActorScopeDenied,
     ErrorCodeChainExpired, ErrorCodeChainAttachConflict}"

lemma authorizeAttach_code:
  "authorizeAttach W hc p tok = Inl e \<Longrightarrow> err_Code e \<in> attach_codes"
  by (auto simp: authorizeAttach_def token_error_def attach_codes_def Let_def split: if_splits)

text \<open>A refused attachment changes nothing but what bringing the chain to memory did.\<close>

lemma attach_refused_aux:
  assumes req: "run_state (requireChain W (af_ChainID frame)) m = (Inr hc, m1)"
    and no: "\<not> may_attach W p frame hc"
  shows "\<exists>e. run_state (AttachChain W p env frame) m = (Inl (CanonicalErr e), m1) \<and>
    err_Code e \<in> attach_codes \<and> err_ChainID e = af_ChainID frame"
proof (cases "authorizeAttach W hc p (af_ResumeToken frame)")
  case (Inl e)
  then show ?thesis
    using req authorizeAttach_code [OF Inl] by (simp add: AttachChain_def Let_def)
next
  case (Inr a)
  then have "ch_Status (hc_record hc) = ChainStatusExpired \<or> hc_writer hc \<noteq> None \<and> \<not> af_Takeover frame"
    using no authorizeAttach_iff [of W hc p "af_ResumeToken frame"]
    by (auto simp: may_attach_def)
  then show ?thesis
    using req Inr by (auto simp: AttachChain_def attach_codes_def Let_def)
qed

lemma attach_needs_chain:
  assumes "run_state (requireChain W (af_ChainID frame)) m = (Inl e, m1)"
  shows "\<exists>e'. run_state (AttachChain W p env frame) m = (Inl (CanonicalErr e'), m1) \<and>
    err_Code e' = ErrorCodeAuthResumeTokenInvalid"
  using assms by (simp add: AttachChain_def Let_def)

lemma attach_admitted_aux:
  assumes "fst (run_state (AttachChain W p env frame) m) = Inr x"
  shows "\<exists>hc m1. run_state (requireChain W (af_ChainID frame)) m = (Inr hc, m1) \<and>
    may_attach W p frame hc"
proof (cases "run_state (requireChain W (af_ChainID frame)) m")
  case (Pair r m1)
  show ?thesis
  proof (cases r)
    case (Inl e)
    with Pair have "run_state (requireChain W (af_ChainID frame)) m = (Inl e, m1)" by simp
    from attach_needs_chain [OF this, where p = p and env = env] assms show ?thesis by auto
  next
    case (Inr hc)
    with Pair have req: "run_state (requireChain W (af_ChainID frame)) m = (Inr hc, m1)" by simp
    then show ?thesis using attach_refused_aux [OF req, where p = p and env = env] assms by fastforce
  qed
qed

section \<open>The lease an attachment takes\<close>

abbreviation holds :: "string \<Rightarrow> writer_lease \<Rightarrow> 's manager \<Rightarrow> bool" where
  "holds c l \<equiv> chain_sat c (\<lambda>hc. hc_writer hc = Some l)"

section \<open>Operations that cannot displace a lease\<close>

lemma holds_GetIdem: "preserves (holds c l) (GetIdem W sc)"
  unfolding GetIdem_def by (intro pres_intro sat_intro)

lemma holds_SaveIdem: "preserves (holds c l) (SaveIdem W p c' o' k h r t li)"
  unfolding SaveIdem_def by (intro pres_intro sat_intro)

lemma holds_Detach:
  "c' \<noteq> c \<or> a \<noteq> [] \<and> a \<noteq> wl_ID l \<Longrightarrow> preserves (holds c l) (Detach W c' a reason)"
  unfolding Detach_def
  by (intro sat_requireChain_attempt pres_intro sat_intro sat_upd) auto

lemma holds_attach_for_request:
  assumes "holds c l m"
  shows "wp (attach_for_request W c' env) (\<lambda>r m'. holds c l m' \<and>
    (\<forall>x. c' = c \<longrightarrow> r = Inr x \<longrightarrow> x = None)) m"
proof (cases "c' = c")
  case True
  then show ?thesis using assms by (auto simp: attach_for_request_def chain_sat_def)
next
  case False
  have "preserves (holds c l) (attach_for_request W c' env)"
    unfolding attach_for_request_def
    by (intro pres_intro sat_intro preserves_hotChain sat_upd_other False)
  then show ?thesis using assms False by (simp add: preservesD)
qed

lemma holds_attach_attempt:
  fixes f :: "(string \<times> time) option \<Rightarrow> ('s, 'a) fop"
  assumes "\<And>x. (c' = c \<Longrightarrow> x = None) \<Longrightarrow> preserves (holds c l) (f x)"
  shows "preserves (holds c l) (attempt (attach_for_request W c' env) f)"
  by (rule preserves_attempt_told [where Q = "\<lambda>x. c' = c \<longrightarrow> x = None"])
    (rule wp_mono [OF holds_attach_for_request], auto intro: assms)

lemma holds_UpdateChain: "preserves (holds c l) (UpdateChain_op W c' env patch key)"
proof -
  have upd: "preserves (holds c l) (apply_update W c' env patch key h)" for h
    unfolding apply_update_def
    by (intro holds_attach_attempt pres_intro sat_intro preserves_hotChain holds_SaveIdem
        sat_upd holds_Detach) auto
  show ?thesis
    unfolding UpdateChain_op_def GetChain_live_def
    by (intro pres_intro sat_intro sat_requireChain holds_GetIdem upd preserves_hotChain)
qed

lemma holds_emitRunEvent: "preserves (holds c l) (emitRunEvent W c' r e)"
  unfolding emitRunEvent_def by (intro pres_intro sat_intro preserves_hotChain) simp_all

lemma holds_start_new_run: "preserves (holds c l) (start_new_run W c' env payload key h)"
proof -
  have persist: "preserves (holds c l) (persist_run W c' env payload key h adm run r)" for adm run r
    unfolding persist_run_def
    by (intro pres_intro sat_intro preserves_initial_items holds_SaveIdem)
  have install: "preserves (holds c l) (install_run W c' env payload key adm)" for adm
    unfolding install_run_def
    by (intro sat_hotChain_bind pres_intro sat_intro sat_put) auto
  have undo: "preserves (holds c l) (rollbackStartFailure W c' r a before)"
    if "c' \<noteq> c \<or> a = []" for r a before
    unfolding rollbackStartFailure_def using that
    by (intro pres_intro sat_intro sat_upd)
      (auto simp: rollback_chain_def split: option.splits)
  have go: "preserves (holds c l) (do {
       installed \<leftarrow> install_run W c' env payload key adm;
       (case installed of
          None \<Rightarrow> fail ErrNotFound
        | Some (run, before, record) \<Rightarrow> do {
            persisted \<leftarrow> persist_run W c' env payload key h adm run record;
            (case persisted of
               Inl e \<Rightarrow> do {
                 rollbackStartFailure W c' (run_ID run) (lease_id (adm_lease adm)) before;
                 fail e }
             | Inr _ \<Rightarrow> do {
                 _ \<leftarrow> emitRunEvent W c' (run_ID run)
                   (RunStartEvent (run_ID run) (cd_Model (adm_effective adm)) ''1'');
                 ok (Started run (adm_history adm) (adm_effective adm)) }) }) })"
    if "c' = c \<Longrightarrow> adm_lease adm = None" for adm
    using that
    by (intro pres_intro install persist undo holds_emitRunEvent) (auto simp: lease_id_def)
  have adm: "wp (admit_run W c' env payload) (\<lambda>r m'. holds c l m' \<and>
      (\<forall>adm. r = Inr adm \<longrightarrow> c' = c \<longrightarrow> adm_lease adm = None)) m" if "holds c l m" for m
    unfolding admit_run_def using that
    by (auto split: option.splits sum.splits
        intro!: wp_mono [OF holds_attach_for_request [OF that]])
  show ?thesis
    unfolding start_new_run_def by (rule preserves_attempt_told [OF adm go]) auto
qed

lemma holds_startRun: "preserves (holds c l) (startRun W c' env payload key)"
  unfolding startRun_def
  by (intro pres_intro sat_intro sat_requireChain holds_GetIdem holds_start_new_run)

lemma holds_SubmitClientToolResult: "preserves (holds c l) (SubmitClientToolResult W c' frame)"
  unfolding SubmitClientToolResult_def
  by (intro sat_requireChain_bind pres_intro sat_put) auto

lemma holds_CancelRun: "preserves (holds c l) (CancelRun W c' r)"
  unfolding CancelRun_def
  by (intro sat_requireChain_attempt pres_intro sat_put) auto

text \<open>Without a takeover an attachment to a chain that has a writer is refused.\<close>

lemma holds_AttachChain:
  "preserves (holds c l) (AttachChain W p env (frame\<lparr>af_Takeover := False\<rparr>))"
proof (cases "af_ChainID frame = c")
  case True
  then show ?thesis
    unfolding AttachChain_def
    by (intro sat_requireChain_bind pres_intro sat_intro) auto
next
  case False
  have "preserves (holds c l) (take_lease W p env (af_ChainID frame) a st evs)" for a st evs
    unfolding take_lease_def
    by (intro pres_intro sat_intro preserves_hotChain sat_upd_other False) simp_all
  then show ?thesis
    unfolding AttachChain_def
    by (intro sat_requireChain_bind pres_intro sat_intro) auto
qed

section \<open>The properties\<close>

text \<open>C6. An attachment is admitted exactly when the chain is known, the caller is of its
  organisation and actor and holds its current resume token, the chain has not expired, and no other
  client writes to it or the caller takes over. Otherwise nothing changes but the loading of the chain, and the
  error has one of four codes. An admitted attachment replays the events first: if that fails the
  error is returned, else the lease is taken.\<close>

theorem attach_authorized:
  "case run_state (requireChain W (af_ChainID frame)) m of
     (Inl e, m1) \<Rightarrow>
       (\<exists>e'. run_state (AttachChain W p env frame) m = (Inl (CanonicalErr e'), m1) \<and>
         err_Code e' = ErrorCodeAuthResumeTokenInvalid)
   | (Inr hc, m1) \<Rightarrow>
       if may_attach W p frame hc then
         (case replayAfter (w_codec W) (af_AfterEventID frame) (af_RequireExactReplay frame)
                 (hc_replay hc) of
            Inl e \<Rightarrow> fst (run_state (AttachChain W p env frame) m) =
              Inl (CanonicalErr (WithChain (af_ChainID frame) e))
          | Inr (status, events) \<Rightarrow>
              \<exists>actor m2. mg_chains m2 = mg_chains m1 \<and> 
                run_state (AttachChain W p env frame) m =
                  run_state (take_lease W p env (af_ChainID frame) actor status events) m2)
       else
         (\<exists>e. run_state (AttachChain W p env frame) m = (Inl (CanonicalErr e), m1) \<and>
           err_Code e \<in> attach_codes)"
proof (cases "run_state (requireChain W (af_ChainID frame)) m")
  case (Pair r m1)
  show ?thesis
  proof (cases r)
    case (Inl e)
    with Pair have req: "run_state (requireChain W (af_ChainID frame)) m = (Inl e, m1)" by simp
    show ?thesis using attach_needs_chain [OF req, of p env] unfolding req by simp
  next
    case (Inr hc)
    with Pair have req: "run_state (requireChain W (af_ChainID frame)) m = (Inr hc, m1)" by simp
    show ?thesis
    proof (cases "may_attach W p frame hc")
      case True
      then obtain a where a: "authorizeAttach W hc p (af_ResumeToken frame) = Inr a"
        using authorizeAttach_iff [of W hc p "af_ResumeToken frame"] by (auto simp: may_attach_def)
      define m2 where "m2 = snd (run_state (case hc_writer hc of None \<Rightarrow> ret ()
          | Some l \<Rightarrow> do {
              t \<leftarrow> now W;
              _ \<leftarrow> on_store (CloseAttachment (w_store W) (wl_ID l)
                     (error_code ErrorCodeChainAttachConflict) t);
              ret () }) m1)"
      have m2: "mg_chains m2 = mg_chains m1"
        by (simp add: m2_def on_store_def case_prod_beta split: option.split)
      have run: "run_state (AttachChain W p env frame) m = run_state
         (case replayAfter (w_codec W) (af_AfterEventID frame)
                 (af_RequireExactReplay frame) (hc_replay hc) of
            Inl replayErr \<Rightarrow> fail (CanonicalErr (WithChain (af_ChainID frame) replayErr))
          | Inr (status, replayed) \<Rightarrow>
              take_lease W p env (af_ChainID frame) a status replayed) m2"
        using True unfolding may_attach_def
          by (auto simp: AttachChain_def Let_def req a m2_def case_prod_beta)
      show ?thesis
        using True m2 unfolding req run by (auto split: sum.splits prod.splits)
    next
      case False
      then show ?thesis using attach_refused_aux [OF req False, of env] unfolding req by auto
    qed
  qed
qed

text \<open>C8. A lease is not displaced: no update of a chain, no start of a run, no tool result, no cancellation and
  no attachment without takeover takes the writer's lease away, and a detachment does so only if it names the
  chain and either the lease itself or, with the empty ID, whoever holds it.\<close>

theorem lease_not_displaced:
  "preserves (holds c l) (UpdateChain_op W c' env patch key) \<and>
   preserves (holds c l) (startRun W c' env payload key) \<and>
   preserves (holds c l) (SubmitClientToolResult W c' result) \<and>
   preserves (holds c l) (CancelRun W c' run) \<and>
   preserves (holds c l) (AttachChain W p env (frame\<lparr>af_Takeover := False\<rparr>)) \<and>
   (a = [] \<or> a = wl_ID l \<or> preserves (holds c l) (Detach W c' a reason)) \<and>
   (c' = c \<or> preserves (holds c l) (Detach W c' a reason))"
  using holds_Detach [of c' c a l W reason]
  by (auto intro: holds_UpdateChain holds_startRun holds_SubmitClientToolResult holds_CancelRun
      holds_AttachChain)

text \<open>The lease and the token of a chain after an attachment.\<close>

definition leased :: "string \<Rightarrow> AttachmentMode \<Rightarrow> string \<Rightarrow> int \<Rightarrow> hot_chain \<Rightarrow> bool" where
  "leased i mode hash n hc = (\<exists>l. hc_writer hc = Some l \<and> wl_ID l = i \<and>
          wl_Mode l = mode \<and> hc_resumeTokenHash hc = hash \<and>
          wl_ResumeTokenHash l = hash \<and> n = hc_nextEventID hc)"

text \<open>Once the chain's token has changed, nobody attaches with a token that hashed to the old one.\<close>

definition token_dead :: "'s world \<Rightarrow> string \<Rightarrow> hot_chain \<Rightarrow> bool" where
  "token_dead W hash hc = (hc_resumeTokenHash hc \<noteq> hash \<and>
     (\<forall>p tok. hashToken W tok = hash \<longrightarrow> isl (authorizeAttach W hc p tok)))"

lemma token_dead_iff: "token_dead W hash hc \<longleftrightarrow> hc_resumeTokenHash hc \<noteq> hash"
  by (auto simp: token_dead_def authorizeAttach_def Let_def)

definition rotated ::
  "'s world \<Rightarrow> string \<Rightarrow> AttachmentMode \<Rightarrow> string \<Rightarrow> gerr + attached_event \<times> server_event list \<times> string
     \<Rightarrow> 's manager \<Rightarrow> bool" where
  "rotated W c mode old r m =
     (case r of Inl _ \<Rightarrow> True
      | Inr (event, _, i) \<Rightarrow>
          chain_sat c (\<lambda>hc. leased i mode (hashToken W (ae_ResumeToken event)) (ae_EventID event) hc \<and>
            token_dead W old hc) m)"

text \<open>What an attachment that succeeded tells of the chain; its token is one of those drawn since the
  \<open>d\<close>-th.\<close>

definition attached ::
  "'s world \<Rightarrow> string \<Rightarrow> AttachmentMode \<Rightarrow> nat \<Rightarrow> gerr + attached_event \<times> server_event list \<times> string
     \<Rightarrow> 's manager \<Rightarrow> bool" where
  "attached W c mode d r m =
     (case r of Inl _ \<Rightarrow> True
      | Inr (event, _, i) \<Rightarrow>
          (\<exists>n \<ge> d. ae_ResumeToken event = ''chain_rt_'' @ w_rand W 18 n) \<and>
          chain_sat c (leased i mode (hashToken W (ae_ResumeToken event)) (ae_EventID event)) m)"

lemma attached_Inl [simp]: "attached W c mode d (Inl e) m"
  by (simp add: attached_def)

lemma attached_rotated:
  "attached W c mode d r m \<Longrightarrow> \<forall>n \<ge> d. hashToken W (''chain_rt_'' @ w_rand W 18 n) \<noteq> old \<Longrightarrow>
   rotated W c mode old r m"
  by (force simp: attached_def rotated_def chain_sat_def token_dead_iff leased_def split: sum.splits)

lemma wp_emit_attached:
  assumes "mget (mg_chains m) c = Some hc"
    "leased i mode (hashToken W (ae_ResumeToken event)) (ae_EventID event) hc"
    "ae_ResumeToken event = ''chain_rt_'' @ w_rand W 18 n" "d \<le> n"
  shows "wp (attempt (bufferAndEmit W c (ChainAttachedEvent event)) (\<lambda>_. ok (event, evs, i)))
    (attached W c mode d) m"
proof -
  let ?P = "leased i mode (hashToken W (ae_ResumeToken event)) (ae_EventID event)"
  have "chain_sat c ?P m" using assms by (auto simp: chain_sat_def)
  then have "wp (bufferAndEmit W c (ChainAttachedEvent event)) (\<lambda>_. chain_sat c ?P) m"
    by (rule sat_bufferAndEmit_wp) (simp add: leased_def)
  then show ?thesis
    unfolding wp_attempt by (rule wp_mono) (use assms(3,4) in \<open>auto simp: attached_def split: sum.split\<close>)
qed

lemma take_lease_attached:
  assumes "mget (mg_chains m) c = Some hc" "d \<le> mg_draws m"
  shows "wp (take_lease W p env c actor st evs) (attached W c (env_Mode env) d) m"
  using assms unfolding take_lease_def
  apply (simp add: Let_def del: append_Cons)
  apply (rule wp_store, simp split: sum.split del: append_Cons, intro allI impI)+
  apply (subst wp_nextEvent, simp del: append_Cons)
  apply (rule wp_emit_attached, simp del: append_Cons)
  apply (simp add: leased_def new_lease_def del: append_Cons)
  apply (simp del: append_Cons, assumption)
  done

lemma AttachChain_attached:
  assumes "run_state (requireChain W (af_ChainID frame)) m = (Inr hc, m1)"
  shows "wp (AttachChain W p env frame) (attached W (af_ChainID frame) (env_Mode env) (mg_draws m1)) m"
proof -
  have "mget (mg_chains m1) (af_ChainID frame) = Some hc"
    using wp_requireChain_hot [of W "af_ChainID frame" m] assms by (simp add: wp_def)
  then have "wp (take_lease W p env (af_ChainID frame) actor st evs)
      (attached W (af_ChainID frame) (env_Mode env) (mg_draws m1)) m2"
    if "mg_chains m2 = mg_chains m1" "mg_draws m2 = mg_draws m1" for actor st evs m2
    using that by (intro take_lease_attached) simp_all
  then show ?thesis
    unfolding AttachChain_def Let_def wp_bind using assms
    by (simp add: wp_def [of "requireChain W _"])
      (auto split: sum.split option.split intro!: wp_store)
qed

text \<open>Who has attached is the writer.\<close>

lemma attached_writer:
  assumes "run_state (AttachChain W p env frame) m = (Inr (event, evs, i), m')"
  shows "chain_sat (af_ChainID frame) (\<lambda>hc. \<exists>l. hc_writer hc = Some l \<and> wl_ID l = i) m'"
proof (cases "run_state (requireChain W (af_ChainID frame)) m")
  case (Pair r m1)
  show ?thesis
  proof (cases r)
    case (Inl e)
    then show ?thesis using attach_needs_chain [of W frame m e m1 p env] Pair assms by auto
  next
    case (Inr hc)
    then show ?thesis using AttachChain_attached [of W frame m hc m1 p env] Pair assms
      by (auto simp: wp_def attached_def chain_sat_def leased_def)
  qed
qed

text \<open>C7. A successful attachment rotates the token: the client holds the lease in its mode, the token it is told
  hashes to the one the chain accepts from now on, the event that tells it has the chain's latest number, and
  the token that was valid before is dead: whoever shows one with its hash is refused. This is so when no token
  that is still to be drawn has the hash of the old one.\<close>

theorem attach_rotates_token:
  assumes "run_state (requireChain W (af_ChainID frame)) m = (Inr hc, m1)"
    and "\<forall>n \<ge> mg_draws m1. hashToken W (''chain_rt_'' @ w_rand W 18 n) \<noteq> hc_resumeTokenHash hc"
  shows "wp (AttachChain W p env frame)
    (rotated W (af_ChainID frame) (env_Mode env) (hc_resumeTokenHash hc)) m"
  by (rule wp_mono [OF AttachChain_attached [OF assms(1)]]) (rule attached_rotated [OF _ assms(2)])

end
