(* ===== verification/RunStart.thy ===== *)
theory RunStart
  imports Lease
begin

text \<open>
  What starting a run asks of the chain and of the request, and what it does to the chain.
\<close>

section \<open>Admission\<close>

text \<open>The configuration and the history a run of the payload has.\<close>

definition run_defaults :: "run_payload \<Rightarrow> hot_chain \<Rightarrow> chain_defaults" where
  "run_defaults payload hc =
     mergeDefaults (ch_Defaults (hc_record hc)) (valueOrZero (rp_Overrides payload))"

definition run_history :: "run_payload \<Rightarrow> hot_chain \<Rightarrow> message list" where
  "run_history payload hc = cloneMessages (hc_history hc) @ cloneMessages (rp_Input payload)"

definition may_start :: "runtime_env \<Rightarrow> run_payload \<Rightarrow> hot_chain \<Rightarrow> bool" where
  "may_start env payload hc =
     (ch_Status (hc_record hc) \<noteq> ChainStatusClosed \<and>
      (if stateful (env_Mode env) then hc_writer hc = None
       else (case hc_writer hc of None \<Rightarrow> False | Some l \<Rightarrow> wl_Mode l = env_Mode env)) \<and>
      hc_activeRun hc = None \<and>
      (let d = run_defaults payload hc in
       trim_space (cd_Model d) \<noteq> [] \<and> AllowsModel (env_Scope env) (cd_Model d) \<and>
       list_all (AllowsGatewayTool (env_Scope env)) (elems (cd_GatewayTools d)) \<and>
       (case LookupCapability (cd_Model d) of None \<Rightarrow> False
        | Some k \<Rightarrow> request_supported k (run_history payload hc) d)))"

lemma check_scope_Inr:
  "check_scope c env d = Inr reg \<Longrightarrow> trim_space (cd_Model d) \<noteq> [] \<and>
   AllowsModel (env_Scope env) (cd_Model d) \<and>
   list_all (AllowsGatewayTool (env_Scope env)) (elems (cd_GatewayTools d)) \<and>
   (reg = None \<longleftrightarrow> elems (cd_GatewayTools d) = [])"
  by (auto simp: check_scope_def list_all_iff list_ex_iff split: if_splits option.splits sum.splits)

lemma admit_config_Inr:
  assumes "admit_config c env payload hc = Inr (d, reg, h)"
  shows "hc_activeRun hc = None" "d = run_defaults payload hc" "h = run_history payload hc"
    "check_scope c env d = Inr reg" "ValidateCapability (cd_Model d) h d = None"
  using assms
  by (auto simp: admit_config_def run_defaults_def run_history_def Let_def
      split: if_splits sum.splits option.splits)

text \<open>The part of a chain that a run works on; a refused request leaves it alone. The
  rollback restores a copy of the history.\<close>

definition same_work :: "hot_chain \<Rightarrow> hot_chain \<Rightarrow> bool" where
  "same_work hc hc' =
     (hc_activeRun hc' = hc_activeRun hc \<and>
      hc_history hc' \<in> {hc_history hc, cloneMessages (cloneMessages (hc_history hc))} \<and>
      ch_Status (hc_record hc') = ch_Status (hc_record hc) \<and>
      ch_ChainVersion (hc_record hc') = ch_ChainVersion (hc_record hc) \<and>
      ch_MessageCountCached (hc_record hc') = ch_MessageCountCached (hc_record hc) \<and>
      hc_orgID hc' = hc_orgID hc \<and> hc_resumeTokenHash hc' = hc_resumeTokenHash hc)"

lemma same_work_refl [simp]: "same_work hc hc"
  by (simp add: same_work_def)

text \<open>A chain as an admitted request leaves it: at most the lease is new.\<close>

definition leased_for :: "(string \<times> time) option \<Rightarrow> hot_chain \<Rightarrow> hot_chain \<Rightarrow> bool" where
  "leased_for lease hc hc' =
     (case lease of None \<Rightarrow> hc' = hc
      | Some (i, _) \<Rightarrow> map_option wl_ID (hc_writer hc') = Some i \<and>
          hc' = hc\<lparr>hc_writer := hc_writer hc', hc_record :=
            (hc_record hc)\<lparr>ch_ActiveAttachment := ch_ActiveAttachment (hc_record hc')\<rparr>\<rparr>)"

definition admitted ::
  "string \<Rightarrow> runtime_env \<Rightarrow> run_payload \<Rightarrow> hot_chain \<Rightarrow> gerr + admission \<Rightarrow> 's manager \<Rightarrow> bool" where
  "admitted c env payload hc r m =
     (case r of
        Inl _ \<Rightarrow> chain_sat c (same_work hc) m
      | Inr adm \<Rightarrow> may_start env payload hc \<and> adm_effective adm = run_defaults payload hc \<and>
          adm_history adm = run_history payload hc \<and>
          chain_sat c (leased_for (adm_lease adm) hc) m)"

lemma wp_attach_for_request:
  assumes "mget (mg_chains m) c = Some hc"
  shows "wp (attach_for_request W c env) (\<lambda>r m'. case r of
       Inl _ \<Rightarrow> m' = m
     | Inr lease \<Rightarrow> chain_sat c (leased_for lease hc) m' \<and>
         (if stateful (env_Mode env) then hc_writer hc = None
          else (case hc_writer hc of None \<Rightarrow> False | Some l \<Rightarrow> wl_Mode l = env_Mode env))) m"
  using assms
  by (auto simp: attach_for_request_def chain_sat_def leased_for_def new_lease_def
      split: option.splits)

lemma leased_for_shape:
  assumes "leased_for lease hc hc'"
  obtains w r where
    "hc' = hc\<lparr>hc_writer := w, hc_record := (hc_record hc)\<lparr>ch_ActiveAttachment := r\<rparr>\<rparr>"
proof (cases lease)
  case None
  then show ?thesis
    using assms by (intro that [where w = "hc_writer hc" and r = "ch_ActiveAttachment (hc_record hc)"])
      (simp add: leased_for_def)
next
  case (Some x)
  then show ?thesis using assms that unfolding leased_for_def by (cases x) auto
qed

lemma leased_for_work: "leased_for lease hc hc' \<Longrightarrow> same_work hc hc'"
  by (erule leased_for_shape) (simp add: same_work_def)

lemma wp_admit_run:
  assumes "mget (mg_chains m) c = Some hc"
  shows "wp (admit_run W c env payload) (admitted c env payload hc) m"
proof (cases "ch_Status (hc_record hc) = ChainStatusClosed")
  case True
  then show ?thesis using assms by (auto simp: admit_run_def admitted_def chain_sat_def)
next
  case False
  have start: "may_start env payload hc" "d = run_defaults payload hc" "h = run_history payload hc"
    if "admit_config c env payload hc = Inr (d, reg, h)"
      "if stateful (env_Mode env) then hc_writer hc = None
       else (case hc_writer hc of None \<Rightarrow> False | Some l \<Rightarrow> wl_Mode l = env_Mode env)" for d reg h
    using admit_config_Inr [OF that(1)] that(2) False check_scope_Inr validate_capability_aux
    by (auto simp: may_start_def Let_def split: option.splits)
  have work: "chain_sat c (same_work hc) m'" if "chain_sat c (leased_for lease hc) m'"
    for lease and m' :: "'a manager"
    using that by (auto simp: chain_sat_def intro: leased_for_work)
  have hot: "chain_sat c (same_work hc) m" using assms by (auto simp: chain_sat_def)
  show ?thesis
    by (simp add: admit_run_def assms False, rule wp_mono [OF wp_attach_for_request [OF assms]])
      (auto simp: admitted_def hot intro: work start split: sum.splits)
qed

section \<open>The started run\<close>

text \<open>The chain with a run that has just started.\<close>

definition runs :: "run_payload \<Rightarrow> hot_chain \<Rightarrow> run_record \<Rightarrow> hot_chain \<Rightarrow> bool" where
  "runs payload hc run hc' =
     (map_option ar_record (hc_activeRun hc') = Some run \<and>
      hc_orgID hc' = hc_orgID hc \<and> hc_resumeTokenHash hc' = hc_resumeTokenHash hc \<and>
      hc_history hc' = run_history payload hc \<and>
      ch_Status (hc_record hc') = ChainStatusRunning \<and>
      ch_ChainVersion (hc_record hc') = ch_ChainVersion (hc_record hc) + 1 \<and>
      ch_MessageCountCached (hc_record hc') = int (length (run_history payload hc)))"

definition new_run :: "string \<Rightarrow> string \<Rightarrow> run_payload \<Rightarrow> hot_chain \<Rightarrow> run_record \<Rightarrow> bool" where
  "new_run c key payload hc run =
     (run_ChainID run = c \<and> run_IdempotencyKey run = key \<and> run_Status run = RunStatusRunning \<and>
      run_OrgID run = ch_OrgID (hc_record hc) \<and> run_CompletedAt run = None \<and>
      run_Model run = cd_Model (run_defaults payload hc) \<and>
      runInputMessageCount run = int (length (rp_Input payload)))"

lemma leased_for_fields:
  "leased_for lease hc hc' \<Longrightarrow> ch_OrgID (hc_record hc') = ch_OrgID (hc_record hc) \<and>
   ch_ChainVersion (hc_record hc') = ch_ChainVersion (hc_record hc) \<and>
   hc_history hc' = hc_history hc"
  by (erule leased_for_shape) simp

lemma runInputMessageCount_meta:
  "run_Metadata r = Some (withChainRuntimeMetadata m n) \<Longrightarrow> runInputMessageCount r = n"
  by (simp add: runInputMessageCount_def withChainRuntimeMetadata_def Let_def sub_object_def
      jclone_obj_mput jclone_obj_def [symmetric])

lemma wp_install_run:
  assumes "chain_sat c (leased_for lease hc) m"
    "adm_effective adm = run_defaults payload hc" "adm_history adm = run_history payload hc"
  shows "wp (install_run W c env payload key adm) (\<lambda>r m'. case r of None \<Rightarrow> False
     | Some (run, prev, record) \<Rightarrow> new_run c key payload hc run \<and> leased_for lease hc prev \<and>
         chain_sat c (runs payload hc run) m') m"
proof -
  obtain hc1 where hc1: "mget (mg_chains m) c = Some hc1" "leased_for lease hc hc1"
    using assms(1) by (auto simp: chain_sat_def)
  have meta: "runInputMessageCount (new_run_record i c hc1 env payload key d t r) = int (length (rp_Input payload))"
    for i d t r
    by (rule runInputMessageCount_meta) (simp add: new_run_record_def)
  have other: "new_run c key payload hc (new_run_record i c hc1 env payload key (adm_effective adm) t r)" for i t r
    using leased_for_fields [OF hc1(2)] assms(2) meta unfolding new_run_def
    by (simp add: new_run_record_def)
  show ?thesis
    using hc1 assms(2,3) other leased_for_fields [OF hc1(2)] leased_for_work [OF hc1(2)]
    unfolding install_run_def
    by (auto simp: Let_def runs_def new_active_run_def running_record_def same_work_def
      chain_sat_def intro!: wp_store)
qed

lemma sat_persist_run: "preserves (chain_sat c P) (persist_run W c' env payload key h adm run r)"
  unfolding persist_run_def SaveIdem_def
  by (intro pres_intro sat_intro preserves_initial_items)

lemma sat_emitRunEvent:
  "(\<And>hc b. P (hc\<lparr>hc_replay := b\<rparr>) = P hc) \<Longrightarrow> (\<And>hc n. P (hc\<lparr>hc_nextEventID := n\<rparr>) = P hc) \<Longrightarrow>
   preserves (chain_sat c P) (emitRunEvent W c' r e)"
  unfolding emitRunEvent_def by (intro pres_intro sat_intro preserves_hotChain) simp_all

lemma rollback_work:
  assumes "leased_for lease hc prev" "hc_activeRun hc = None" "runs payload hc run hc'"
  shows "same_work hc (rollback_chain (run_ID run) i prev hc')"
proof -
  from assms(3) obtain a where "hc_activeRun hc' = Some a" "ar_record a = run"
    by (auto simp: runs_def)
  then show ?thesis
    using assms(2,3) leased_for_work [OF assms(1)] unfolding rollback_chain_def
    by (auto simp: same_work_def runs_def leased_for_fields [OF assms(1)])
qed

definition started ::
  "string \<Rightarrow> runtime_env \<Rightarrow> string \<Rightarrow> run_payload \<Rightarrow> hot_chain \<Rightarrow> gerr + start_outcome
     \<Rightarrow> 's manager \<Rightarrow> bool" where
  "started c env key payload hc r m =
     (case r of
        Inr (Started run history d) \<Rightarrow> may_start env payload hc \<and>
          history = run_history payload hc \<and> d = run_defaults payload hc \<and>
          new_run c key payload hc run \<and> chain_sat c (runs payload hc run) m
      | _ \<Rightarrow> chain_sat c (same_work hc) m)"

lemma wp_start_new_run:
  assumes "mget (mg_chains m) c = Some hc"
  shows "wp (start_new_run W c env payload key h) (started c env key payload hc) m"
proof -
  have persist: "wp (persist_run W c env payload key h adm run rcd) (\<lambda>_. chain_sat c P) m'"
    if "chain_sat c P m'" for adm run rcd P and m' :: "'a manager"
    using preservesD [OF sat_persist_run that] .
  have emit: "wp (emitRunEvent W c i e) (\<lambda>_. chain_sat c (runs payload hc run)) m'"
    if "chain_sat c (runs payload hc run) m'" for i e run and m' :: "'a manager"
    by (rule preservesD [OF sat_emitRunEvent that]) (simp_all add: runs_def)
  have undo: "wp (rollbackStartFailure W c (run_ID run) i prev) (\<lambda>_. chain_sat c (same_work hc)) m'"
    if "chain_sat c (runs payload hc run) m'" "leased_for lease hc prev" "hc_activeRun hc = None"
    for run i prev lease and m' :: "'a manager"
    using that rollback_work [OF that(2,3)] unfolding rollbackStartFailure_def
    by (auto simp: chain_sat_def intro!: wp_store)
  have go: "wp (do {
       installed \<leftarrow> install_run W c env payload key adm;
       (case installed of
          None \<Rightarrow> fail ErrNotFound
        | Some (run, before, record) \<Rightarrow> do {
            persisted \<leftarrow> persist_run W c env payload key h adm run record;
            (case persisted of
               Inl e \<Rightarrow> do {
                 rollbackStartFailure W c (run_ID run) (lease_id (adm_lease adm)) before;
                 fail e }
             | Inr _ \<Rightarrow> do {
                 _ \<leftarrow> emitRunEvent W c (run_ID run)
                   (RunStartEvent (run_ID run) (cd_Model (adm_effective adm)) ''1'');
                 ok (Started run (adm_history adm) (adm_effective adm)) }) }) })
     (started c env key payload hc) m'"
    if adm: "admitted c env payload hc (Inr adm) m'" for adm and m' :: "'a manager"
  proof -
    have start: "may_start env payload hc" "hc_activeRun hc = None"
      using adm by (simp_all add: admitted_def may_start_def)
    have "wp (install_run W c env payload key adm) (\<lambda>r m'. case r of None \<Rightarrow> False
       | Some (run, prev, record) \<Rightarrow> new_run c key payload hc run \<and> leased_for (adm_lease adm) hc prev \<and>
         chain_sat c (runs payload hc run) m') m'"
      using adm by (intro wp_install_run) (simp_all add: admitted_def)
    then show ?thesis
      unfolding wp_bind
      by (rule wp_mono)
        (auto simp: started_def start adm [unfolded admitted_def, simplified]
          split: option.splits sum.split intro!: wp_mono [OF persist] wp_mono [OF undo] wp_mono [OF emit])
  qed
  have step: "case r of Inl e \<Rightarrow> started c env key payload hc (Inl e) m'
      | Inr x \<Rightarrow> wp (f x) (started c env key payload hc) m'"
    if "admitted c env payload hc r m'"
      "\<And>x m'. admitted c env payload hc (Inr x) m' \<Longrightarrow> wp (f x) (started c env key payload hc) m'"
    for r f and m' :: "'a manager"
    using that by (cases r) (simp_all add: admitted_def started_def)
  show ?thesis
    unfolding start_new_run_def wp_attempt
    by (rule wp_mono [OF wp_admit_run [OF assms]]) (erule step, rule go)
qed

section \<open>The operation\<close>

text \<open>C9. Starting a run on a chain in memory. It succeeds only with an idempotency key, for the
  chain's organisation, when the chain is not closed and has no active run, when the caller's transport
  holds the lease or takes a free one, and when the credentials and the model support all the
  merged configuration asks for; then the chain is running, one version on, with the input at the end of its
  history, and the run knows how many of its messages were input. A refused or replayed request
  leaves history, version, status and active run as they were, whatever the store does.\<close>

theorem start_run_exact:
  "case mget (mg_chains m) c of None \<Rightarrow> True
   | Some hc \<Rightarrow> wp (startRun W c env payload key) (\<lambda>r m'. started c env key payload hc r m' \<and>
       (case r of Inl _ \<Rightarrow> True
        | Inr _ \<Rightarrow> trim_space key \<noteq> [] \<and> authorizeChainMutation hc (env_Principal env) = None)) m"
proof (cases "mget (mg_chains m) c")
  case (Some hc)
  have same: "started c env key payload hc (Inl e) m'" "started c env key payload hc (Inr (Replayed x)) m'"
    if "mget (mg_chains m') c = Some hc" for e x and m' :: "'a manager"
    using that by (auto simp: started_def chain_sat_def)
  have new: "wp (start_new_run W c env payload key h) (\<lambda>r m'. started c env key payload hc r m' \<and>
       (case r of Inl _ \<Rightarrow> True | Inr _ \<Rightarrow> b1 \<and> b2)) m'"
    if "mget (mg_chains m') c = Some hc" b1 b2 for h b1 b2 and m' :: "'a manager"
    using wp_start_new_run [OF that(1)] by (rule wp_mono) (simp add: that split: sum.split)
  show ?thesis
    using Some unfolding startRun_def
    by (auto simp: requireChain_def GetIdem_def same intro!: wp_store new split: option.split sum.split)
qed simp

lemma run_hotChain: "run_state (hotChain c) m = (mget (mg_chains m) c, m)"
  by (simp add: hotChain_def)

text \<open>C10. A request over a stateful transport whose run is refused by the checks on the active run, the
  model, the scope, the tools or the capabilities leaves its lease behind: nothing of it is in the store, and the
  next request over a stateful transport is refused for it.\<close>

theorem refused_run_keeps_lease:
  "case mget (mg_chains m) c of None \<Rightarrow> True
   | Some hc \<Rightarrow> (case admit_config c env payload hc of Inr _ \<Rightarrow> True
     | Inl e \<Rightarrow>
         if ch_Status (hc_record hc) \<noteq> ChainStatusClosed \<and> stateful (env_Mode env) \<and> hc_writer hc = None
         then wp (start_new_run W c env payload key h) (\<lambda>r m'. r = Inl e \<and>
           mg_store m' = mg_store m \<and> chain_sat c (\<lambda>hc'. hc_writer hc' \<noteq> None) m' \<and>
           run_state (attach_for_request W c env) m' =
             (Inl (chain_error c ErrorCodeChainAttachConflict
                ''chain already has an active attachment''), m')) m
         else True)"
proof (cases "mget (mg_chains m) c")
  case (Some hc)
  then show ?thesis
    by (auto simp: start_new_run_def admit_run_def attach_for_request_def chain_sat_def
        chain_error_def upd_map_def run_hotChain split: sum.split)
qed simp

end
