(* ===== verification/RunTools.thy ===== *)
theory RunTools
  imports Lease "HOL-Library.Sublist"
begin

text \<open>
  The tool calls of a run: the results clients submit, and the results a batch of calls gets.
\<close>

section \<open>Submitting a result\<close>

lemma mput_same: "mget m k = Some v \<Longrightarrow> mput k v m = m"
  by (induction m) (auto simp: mget_def mput_def)

text \<open>The chain has the execution of the frame, resolved with the frame's payload.\<close>

definition delivered :: "'s world \<Rightarrow> tool_result_frame \<Rightarrow> hot_chain \<Rightarrow> bool" where
  "delivered W frame hc =
     (case hc_activeRun hc of None \<Rightarrow> False
      | Some a \<Rightarrow> run_ID (ar_record a) = tf_RunID frame \<and>
          (case mget (ar_pending a) (tf_ExecutionID frame) of None \<Rightarrow> False
           | Some ex \<Rightarrow> pe_Resolved ex \<and>
               pe_PayloadHash ex = payload_hash_of W (tf_Content frame) (tf_IsError frame)))"

lemma resolve_pending_Inr:
  "resolve_pending c h frame pend = Inr pend' \<Longrightarrow>
   \<exists>ex. mget pend' (tf_ExecutionID frame) = Some ex \<and> pe_Resolved ex \<and> pe_PayloadHash ex = h"
  by (auto simp: resolve_pending_def Let_def split: option.splits if_splits)

lemma wp_submit:
  "wp (SubmitClientToolResult W c frame) (\<lambda>r m'. case r of
      Inl e \<Rightarrow> (\<exists>e'. e = CanonicalErr e' \<and> err_Code e' \<in>
        {ErrorCodeAuthResumeTokenInvalid, ErrorCodeToolResultConflict})
    | Inr _ \<Rightarrow> chain_sat c (delivered W frame) m') m"
  unfolding SubmitClientToolResult_def wp_bind
  by (rule wp_mono [OF wp_requireChain_hot])
    (auto simp: chain_error_def chain_sat_def delivered_def resolve_pending_def Let_def
      split: sum.splits option.splits if_splits)

definition payload_conflict :: "string \<Rightarrow> tool_result_frame \<Rightarrow> gerr" where
  "payload_conflict c frame = CanonicalErr (WithExecution (tf_ExecutionID frame)
     (WithRun (tf_RunID frame) (WithChain c (NewCanonicalError ErrorCodeToolResultConflict
        ''tool result payload conflicts with the existing resolution''))))"

lemma resubmit:
  assumes "chain_sat c (delivered W frame) m"
  shows "run_state (SubmitClientToolResult W c (frame\<lparr>tf_Content := content, tf_IsError := isError\<rparr>)) m =
    (if payload_hash_of W content isError = payload_hash_of W (tf_Content frame) (tf_IsError frame)
     then Inr () else Inl (payload_conflict c frame), m)"
proof -
  obtain hc a ex where hc: "mget (mg_chains m) c = Some hc" "hc_activeRun hc = Some a"
    "run_ID (ar_record a) = tf_RunID frame" "mget (ar_pending a) (tf_ExecutionID frame) = Some ex"
    "pe_Resolved ex" "pe_PayloadHash ex = payload_hash_of W (tf_Content frame) (tf_IsError frame)"
    using assms by (auto simp: chain_sat_def delivered_def split: option.splits)
  have "hc\<lparr>hc_activeRun := Some a\<rparr> = hc" using hc(2) by simp
  then have "m\<lparr>mg_chains := mput c (hc\<lparr>hc_activeRun := Some a\<rparr>) (mg_chains m)\<rparr> = m"
    using hc(1) by (simp only: mput_same) simp
  then show ?thesis
    using hc by (simp add: SubmitClientToolResult_def requireChain_def hotChain_def resolve_pending_def
        put_chain_def payload_conflict_def Let_def)
qed

text \<open>C14. Submitting the result of a client tool is idempotent. Once a submission has succeeded,
  submitting the same payload again succeeds and changes nothing at all, and submitting another
  payload for the same execution is refused as a conflict and changes nothing. A refused
  submission has one of two codes.\<close>

theorem submit_idempotent:
  "wp (SubmitClientToolResult W c frame) (\<lambda>r m'. case r of
      Inl e \<Rightarrow> (\<exists>e'. e = CanonicalErr e' \<and> err_Code e' \<in>
        {ErrorCodeAuthResumeTokenInvalid, ErrorCodeToolResultConflict})
    | Inr _ \<Rightarrow> chain_sat c (delivered W frame) m' \<and>
        run_state (SubmitClientToolResult W c
          (frame\<lparr>tf_Content := content, tf_IsError := isError\<rparr>)) m' =
        (if payload_hash_of W content isError = payload_hash_of W (tf_Content frame) (tf_IsError frame)
         then Inr () else Inl (payload_conflict c frame), m')) m"
  by (rule wp_mono [OF wp_submit]) (auto simp: resubmit split: sum.splits)

section \<open>Waiting\<close>

lemma resolved_of_IDs:
  assumes "pending_ok pend"
  shows "subseq (map pe_ExecutionID (resolved_of pend uses)) (map use_ID uses)"
    "all_resolved pend uses \<Longrightarrow> map pe_ExecutionID (resolved_of pend uses) = map use_ID uses"
  using assms
  by (induction uses) (auto simp: resolved_of_def all_resolved_def pending_ok_def
      map_filter_simps split: option.splits)

lemma timeout_all_IDs:
  "pending_ok pend \<Longrightarrow> subseq (map pe_ExecutionID (fst (timeout_all W e us pend))) (map use_ID us) \<and>
   list_all pe_Resolved (fst (timeout_all W e us pend))"
proof (induction us arbitrary: pend)
  case (Cons u us)
  show ?case
  proof (cases "mget pend (use_ID u)")
    case (Some ex)
    let ?ex = "timeout_execution W e ex"
    have ex: "pe_ExecutionID ?ex = use_ID u" "pe_Resolved ?ex"
      using Cons.prems Some by (auto simp: timeout_execution_def Let_def pending_ok_def)
    then have "pending_ok (mput (use_ID u) ?ex pend)" using Cons.prems by (auto intro: pending_ok_mput)
    then show ?thesis using Cons.IH ex Some by (auto simp: Let_def case_prod_beta)
  qed (use Cons in auto)
qed simp

text \<open>What waiting for some uses yields: every one resolved, or an error and some of them.\<close>

definition waited_for :: "tool_use list \<Rightarrow> pending_execution list \<times> gerr option \<Rightarrow> bool" where
  "waited_for uses r =
     (case r of
        (out, None) \<Rightarrow> map pe_ExecutionID out = map use_ID uses
      | (out, Some _) \<Rightarrow> subseq (map pe_ExecutionID out) (map use_ID uses))"

lemma wp_active_pending:
  "runs_inv m \<Longrightarrow> wp (active_pending c) (\<lambda>p m'. m' = m \<and> pending_ok p) m"
  by (cases "mget (mg_chains m) c")
    (auto simp: active_pending_def runs_inv_def dest: runs_ok_pending split: option.split)

lemma wp_timeoutPending:
  assumes "runs_inv m"
  shows "wp (timeoutPending W c uses e) (\<lambda>out m'. subseq (map pe_ExecutionID out) (map use_ID uses)) m"
  unfolding timeoutPending_def wp_bind
  by (rule wp_mono [OF wp_active_pending [OF assms]])
    (simp add: case_prod_beta Let_def upd_pending_def timeout_all_IDs)

lemma wp_waitForClientTools:
  "runs_inv m \<Longrightarrow> wp (waitForClientTools W c uses wakes) (\<lambda>r _. waited_for uses r) m"
proof (induction wakes arbitrary: m)
  case Nil
  have out: "wp (timeoutPending W c uses e) (\<lambda>out. wp (ret (out, Some x)) (\<lambda>r _. waited_for uses r)) m" for e x
    using wp_timeoutPending [OF Nil] by (rule wp_mono) (simp add: waited_for_def)
  show ?case
    by (subst waitForClientTools.simps, subst wp_bind, rule wp_mono [OF wp_active_pending [OF Nil]])
      (auto simp: waited_for_def [of uses "(resolved_of _ _, _)"] resolved_of_IDs out)
next
  case (Cons wake wakes)
  have out: "wp (timeoutPending W c uses e) (\<lambda>out. wp (ret (out, Some x)) (\<lambda>r _. waited_for uses r)) m" for e x
    using wp_timeoutPending [OF Cons.prems] by (rule wp_mono) (simp add: waited_for_def)
  have sub: "wp (SubmitClientToolResult W c frame) (\<lambda>_ m'. runs_inv m') m" for frame
    using preservesD [OF calls.inv_SubmitClientToolResult Cons.prems] .
  show ?case
    by (subst waitForClientTools.simps, subst wp_bind, rule wp_mono [OF wp_active_pending [OF Cons.prems]])
      (auto simp: waited_for_def [of uses "(resolved_of _ _, _)"] resolved_of_IDs out 
        intro: wp_mono [OF sub] Cons.IH split: wake.split)
qed

section \<open>A batch of calls\<close>

lemma wp_ret_fun: "wp (ret x) Q = Q x"
  by (rule ext) simp

lemma wp_emit_any: "(\<And>r m'. Q r m') \<Longrightarrow> wp (emitRunEvent W c i e) Q m"
  by (simp add: wp_def case_prod_beta)

definition result_ids :: "batch \<Rightarrow> string list" where
  "result_ids b = map res_ToolUseID (b_Results b)"

text \<open>The blocks for the model carry the identities and the error marks of the results.\<close>

definition aligned :: "batch \<Rightarrow> bool" where
  "aligned b = (map (\<lambda>x. (tr_tool_use_id x, tr_is_error x)) (b_Blocks b) =
     map (\<lambda>r. (res_ToolUseID r, res_IsError r)) (b_Results b))"

lemma aligned_empty [simp]: "aligned empty_batch" "result_ids empty_batch = []"
  by (simp_all add: aligned_def empty_batch_def result_ids_def)

lemma aligned_items [simp]: "aligned (b\<lparr>b_Items := x\<rparr>) = aligned b" "result_ids (b\<lparr>b_Items := x\<rparr>) = result_ids b"
  by (simp_all add: aligned_def result_ids_def)

lemma wp_add_result:
  "aligned b \<Longrightarrow> res_ToolUseID r = i \<Longrightarrow> (\<And>b' m'. aligned b' \<Longrightarrow> result_ids b' = result_ids b @ [i] \<Longrightarrow>
     mg_chains m' = mg_chains m \<Longrightarrow> Q b' m') \<Longrightarrow>
   wp (add_result W k i r content b) Q m"
  by (simp add: add_result_def aligned_def result_ids_def tool_result_block_def)

lemma gateway_result_ID: "res_ToolUseID (fst (gateway_result W reg refs u)) = use_ID u"
  by (simp add: gateway_result_def Let_def case_prod_beta)

lemma wp_resolve_gateway:
  "aligned b \<Longrightarrow> wp (resolve_gateway W c run reg k t uses refs b) (\<lambda>(b', clients) _. aligned b' \<and>
     clients = filter (\<lambda>u. \<not> registry_Has reg (use_Name u)) uses \<and>
     result_ids b' = result_ids b @ map use_ID (filter (\<lambda>u. registry_Has reg (use_Name u)) uses)) m"
proof (induction uses arbitrary: b refs m)
  case (Cons u us)
  show ?case
  proof (cases "registry_Has reg (use_Name u)")
    case True
    then show ?thesis
      using Cons.prems
      by (auto simp: case_prod_beta Let_def gateway_result_ID intro!: wp_emit_any wp_add_result
        wp_mono [OF Cons.IH])
  next
    case False
    show ?thesis
      using False Cons.prems by (auto simp: case_prod_beta wp_ret_fun intro!: wp_mono [OF Cons.IH])
  qed
qed simp

lemma wp_reject_clients:
  "aligned b \<Longrightarrow> wp (reject_clients W k uses b)
     (\<lambda>b' _. aligned b' \<and> result_ids b' = result_ids b @ map use_ID uses) m"
proof (induction uses arbitrary: b m)
  case (Cons u us)
  then show ?case by (auto intro!: wp_add_result wp_mono [OF Cons.IH])
qed simp

lemma wp_add_waited:
  "aligned b \<Longrightarrow> wp (add_waited W k exs b)
     (\<lambda>b' _. aligned b' \<and> result_ids b' = result_ids b @ map pe_ExecutionID exs) m"
proof (induction exs arbitrary: b m)
  case (Cons ex exs)
  then show ?case by (auto intro!: wp_add_result wp_mono [OF Cons.IH])
qed simp

text \<open>The uses that the gateway answers, and those that the client answers.\<close>

definition gateway_uses :: "active_run \<Rightarrow> tool_use list \<Rightarrow> tool_use list" where
  "gateway_uses a = filter (\<lambda>u. registry_Has (ar_gatewayTools a) (use_Name u))"

definition client_uses :: "active_run \<Rightarrow> tool_use list \<Rightarrow> tool_use list" where
  "client_uses a = filter (\<lambda>u. \<not> registry_Has (ar_gatewayTools a) (use_Name u))"

definition answered ::
  "active_run \<Rightarrow> tool_use list \<Rightarrow> batch \<times> RunStopReason \<times> gerr option \<Rightarrow> bool" where
  "answered a uses r =
     (case r of (b, reason, err) \<Rightarrow> aligned b \<and>
        (case err of
           None \<Rightarrow> reason = RunStopReasonNone \<and>
             result_ids b = map use_ID (gateway_uses a uses @ client_uses a uses)
         | Some _ \<Rightarrow> reason \<noteq> RunStopReasonNone \<and>
             (\<exists>ids. result_ids b = map use_ID (gateway_uses a uses) @ ids \<and>
               subseq ids (map use_ID (client_uses a uses)))))"

lemma wait_stop_reason_not_None [simp]: "wait_stop_reason e \<noteq> RunStopReasonNone"
  by (simp add: wait_stop_reason_def)

text \<open>C12. Every tool call of a batch is answered once. Without an error the results are those of
  the gateway's tools and then those of the client's tools, each in the order of the calls,
  whatever the client submits meanwhile and in whatever order; with an error the run stops with a
  reason, and the answers are those of the gateway and some of the client's, still in order. The
  blocks given to the model carry the identities and the error marks of the results.\<close>

theorem tool_calls_answered:
  assumes "runs_inv m"
  shows "wp (resolveToolBatch W c a k uses refs wakes) (\<lambda>r _. answered a uses r) m"
proof -
  have gw: "wp (resolve_gateway W c run (ar_gatewayTools a) k t uses refs empty_batch)
      (\<lambda>(b, clients) m'. aligned b \<and> clients = client_uses a uses \<and>
        result_ids b = map use_ID (gateway_uses a uses) \<and> runs_inv m') m'"
    if "runs_inv m'" for run t m'
    using wp_resolve_gateway [of empty_batch W c run "ar_gatewayTools a" k t uses refs m']
      preservesD [OF calls.inv_resolve_gateway that, of W c run "ar_gatewayTools a" k t uses refs empty_batch]
    by (simp add: wp_def case_prod_beta gateway_uses_def client_uses_def)
  have wait: "wp (waitForClientTools W c uses wakes) Q m'"
    if "runs_inv m'" "\<And>r m''. waited_for uses r \<Longrightarrow> Q r m''" for uses Q m'
    using wp_waitForClientTools [OF that(1)] by (rule wp_mono) (rule that(2))
  have enq: "wp (enqueueClientToolCalls W c run us) (\<lambda>_. runs_inv) m'" if "runs_inv m'" for run us m'
    using preservesD [OF calls.inv_enqueue that] .
  show ?thesis
    using assms
    by (auto simp: resolveToolBatch_def answered_def waited_for_def on_chains_fields [OF on_chains_runs]
        intro!: wp_mono [OF gw] wp_mono [OF wp_reject_clients] wp_mono [OF enq] wait wp_mono [OF wp_add_waited]
        split: sum.split option.splits prod.splits)
qed

end
