(* ===== verification/RunLoop.thy ===== *)
theory RunLoop
  imports RunTools
begin

text \<open>
  The accounts of a run: what its result counts and adds up.
\<close>

section \<open>Accounts\<close>

text \<open>The result of a run tells as many turns as steps, numbers the steps from 0, counts the tool
  results of the steps and adds up the usage of their responses.\<close>

definition step_usage :: "run_step \<Rightarrow> usage" where
  "step_usage s = (case step_Response s of None \<Rightarrow> zero_usage | Some resp \<Rightarrow> resp_Usage resp)"

definition tallied :: "run_result \<Rightarrow> bool" where
  "tallied res =
     (rs_TurnCount res = int (length (rs_Steps res)) \<and>
      map step_Index (rs_Steps res) = map int [0..<length (rs_Steps res)] \<and>
      rs_ToolCallCount res = (\<Sum>s\<leftarrow>rs_Steps res. int (length (step_ToolResults s))) \<and>
      rs_Usage res = foldl usage_Add zero_usage (map step_usage (rs_Steps res)))"

definition on_course :: "exec_state \<Rightarrow> bool" where
  "on_course st = (tallied (ex_result st) \<and> ex_step st = int (length (rs_Steps (ex_result st))))"

lemma tallied_other [simp]:
  "tallied (res\<lparr>rs_StopReason := x\<rparr>) = tallied res" "tallied (res\<lparr>rs_Response := y\<rparr>) = tallied res"
  "tallied (res\<lparr>rs_Messages := z\<rparr>) = tallied res"
  by (simp_all add: tallied_def)

lemma on_course_initial [simp]: "on_course (initial_exec h)"
  by (simp add: on_course_def initial_exec_def tallied_def empty_result_def)

text \<open>A step joins the accounts.\<close>

lemma tallied_step:
  assumes "on_course st"
    "res = (ex_result st)\<lparr>rs_Usage := usage_Add (rs_Usage (ex_result st)) (step_usage s),
       rs_TurnCount := rs_TurnCount (ex_result st) + 1,
       rs_ToolCallCount := rs_ToolCallCount (ex_result st) + int (length (step_ToolResults s)),
       rs_Steps := rs_Steps (ex_result st) @ [s]\<rparr>"
    "step_Index s = ex_step st"
  shows "tallied res"
  using assms by (simp add: on_course_def tallied_def)

lemma wp_finish:
  "(\<And>m'. Q (res\<lparr>rs_StopReason := r\<rparr>) m') \<Longrightarrow> wp (finish W c res r e) Q m"
  by (auto simp: finish_def Let_def intro!: wp_store split: option.split)

lemma wp_commit_any: "(\<And>r m'. Q r m') \<Longrightarrow> wp (commitHistory W c i st ms) Q m"
  by (simp add: wp_def case_prod_beta)

lemma wp_item_any: "(\<And>r m'. Q r m') \<Longrightarrow> wp (assistant_item W st d x) Q m"
  by (simp add: wp_def case_prod_beta)

lemma wp_batch_any: "(\<And>r m'. Q r m') \<Longrightarrow> wp (resolveToolBatch W c a k us refs ws) Q m"
  by (simp add: wp_def case_prod_beta)

lemma wp_turn_any: "(\<And>r m'. Q r m') \<Longrightarrow> wp (executeModelTurn W c a h d) Q m"
  by (simp add: wp_def case_prod_beta)

lemmas any_intro = wp_store wp_finish wp_emit_any wp_commit_any wp_item_any wp_batch_any wp_turn_any

lemma wp_fail_turn:
  "tallied (ex_result st) \<Longrightarrow> wp (fail_turn W c a st err p) (\<lambda>r _. tallied r) m"
  unfolding fail_turn_def by (auto simp: Let_def wp_ret_fun intro!: any_intro)

text \<open>The result of a turn before its step is recorded.\<close>

definition counted :: "exec_state \<Rightarrow> message_response \<Rightarrow> run_result" where
  "counted st resp = (ex_result st)\<lparr>
     rs_Usage := usage_Add (rs_Usage (ex_result st)) (resp_Usage resp),
     rs_TurnCount := rs_TurnCount (ex_result st) + 1\<rparr>"

lemma wp_final_turn:
  assumes "on_course st" "step_Index s = ex_step st" "step_Response s = Some resp" "step_ToolResults s = []"
  shows "wp (final_turn W c a st (counted st resp) s resp) (\<lambda>r _. tallied r) m"
proof -
  have "tallied ((counted st resp)\<lparr>rs_Steps := rs_Steps (ex_result st) @ [s]\<rparr>)"
    by (rule tallied_step [OF assms(1) _ assms(2)]) (simp add: counted_def step_usage_def assms)
  then have "tallied ((counted st resp)\<lparr>rs_Response := x, rs_Steps := rs_Steps (counted st resp) @ [s],
      rs_StopReason := y, rs_Messages := z\<rparr>)" for x y z
    by (simp add: tallied_def counted_def)
  then show ?thesis
    unfolding final_turn_def by (auto simp: Let_def wp_ret_fun intro!: any_intro)
qed

lemma wp_tool_turn:
  assumes "on_course st" "step_Index s = ex_step st" "step_Response s = Some resp"
  shows "wp (tool_turn W c a st (counted st resp) s resp refs ws)
    (\<lambda>r _. case r of Inl st' \<Rightarrow> on_course st' | Inr res \<Rightarrow> tallied res) m"
proof -
  let ?step = "\<lambda>x b. s\<lparr>step_ToolCalls := x, step_ToolResults := b_Results b\<rparr>"
  let ?res = "\<lambda>x b. (counted st resp)\<lparr>rs_ToolCallCount := rs_ToolCallCount (counted st resp) +
     int (length (b_Results b)), rs_Steps := rs_Steps (counted st resp) @ [?step x b]\<rparr>"
  have t: "tallied (?res x b)" for x b
    by (rule tallied_step [OF assms(1), where s = "?step x b"])
      (simp_all add: counted_def step_usage_def assms)
  then have t': "tallied ((?res x b)\<lparr>rs_Response := u, rs_StopReason := y, rs_Messages := z\<rparr>)" for x b u y z
    by simp
  have "on_course (st\<lparr>ex_history := h, ex_result := ?res x b, ex_step := ex_step st + 1\<rparr>)" for h x b
    using assms(1) t by (simp add: on_course_def counted_def)
  then show ?thesis
    using t' unfolding tool_turn_def
    by (auto simp: Let_def wp_ret_fun intro!: any_intro split: option.split)
qed

lemma wp_executeTurn:
  assumes "on_course st"
  shows "wp (executeTurn W c a d i st)
    (\<lambda>r _. case r of Inl st' \<Rightarrow> on_course st' | Inr res \<Rightarrow> tallied res) m"
proof -
  have "tallied (ex_result st)" using assms by (simp add: on_course_def)
  then show ?thesis
    using assms unfolding executeTurn_def counted_def [symmetric] Let_def
    by (auto simp: wp_ret_fun intro!: any_intro wp_fail_turn wp_final_turn wp_tool_turn 
       split: option.split sum.split)
qed

text \<open>C13. The accounts of a run add up, however long it runs and however it ends: its result counts
  as many turns as it lists steps, the steps are numbered from 0, its tool call count is the number
  of tool results in the steps, and its usage is the sum of the usage of the responses; so it is
  after every turn of a run that goes on.\<close>

theorem run_accounts:
  "wp (execute_turns W c a d inputs (initial_exec history))
     (\<lambda>r _. case r of Inl st \<Rightarrow> tallied (ex_result st) \<and> ex_step st = int (length (rs_Steps (ex_result st)))
      | Inr res \<Rightarrow> tallied res) m"
proof -
  have "on_course st \<Longrightarrow> wp (execute_turns W c a d inputs st)
     (\<lambda>r _. case r of Inl st \<Rightarrow> on_course st | Inr res \<Rightarrow> tallied res) m" for st m
    by (rule chain_run.loop_invariant [of "\<lambda>st _. on_course st" W c a d "\<lambda>res _. tallied res"])
       (rule wp_executeTurn)
  from this [OF on_course_initial] show ?thesis unfolding on_course_def .
qed

end
