(* ===== verification/InStep.thy ===== *)
theory InStep
  imports RunLoop MemStoreLaws
begin

text \<open>
  The chain in memory and the chain in the store: the turns of a run keep them in step.
\<close>

section \<open>In step\<close>

text \<open>The part of a chain that memory and store share: its ID, history, version, status and
  cached count.\<close>

type_synonym shared = "string \<times> message list \<times> int \<times> ChainStatus \<times> int"

definition shared_of :: "chain_record \<Rightarrow> message list \<Rightarrow> shared" where
  "shared_of r h = (ch_ID r, h, ch_ChainVersion r, ch_Status r, ch_MessageCountCached r)"

definition work :: "hot_chain \<Rightarrow> shared" where
  "work hc = shared_of (hc_record hc) (hc_history hc)"

text \<open>Views of a store, as in the contract \<open>chain_store\<close>.\<close>

definition stored_as ::
  "('s \<Rightarrow> string \<Rightarrow> chain_record option) \<Rightarrow> ('s \<Rightarrow> string \<Rightarrow> message list) \<Rightarrow> string \<Rightarrow> shared \<Rightarrow> 's \<Rightarrow> bool"
where
  "stored_as cs hs c w s =
     (case cs s c of None \<Rightarrow> False | Some r \<Rightarrow> shared_of r (hs s c) = w)"

definition in_step_as ::
  "('s \<Rightarrow> string \<Rightarrow> chain_record option) \<Rightarrow> ('s \<Rightarrow> string \<Rightarrow> message list) \<Rightarrow> string \<Rightarrow> shared
     \<Rightarrow> 's manager \<Rightarrow> bool" where
  "in_step_as cs hs c w m =
     (chain_sat c (\<lambda>hc. work hc = w) m \<and> stored_as cs hs c w (mg_store m))"

text \<open>The chain is in memory under its own ID, and the store agrees with it.\<close>

definition in_step ::
  "('s \<Rightarrow> string \<Rightarrow> chain_record option) \<Rightarrow> ('s \<Rightarrow> string \<Rightarrow> message list) \<Rightarrow> string
     \<Rightarrow> 's manager \<Rightarrow> bool" where
  "in_step cs hs c m =
     (case mget (mg_chains m) c of None \<Rightarrow> False
      | Some hc \<Rightarrow> ch_ID (hc_record hc) = c \<and> stored_as cs hs c (work hc) (mg_store m))"

lemma in_step_iff:
  "in_step cs hs c m \<longleftrightarrow> (\<exists>w. fst w = c \<and> in_step_as cs hs c w m)"
  by (auto simp: in_step_def in_step_as_def chain_sat_def work_def shared_of_def split: option.splits)

section \<open>Steps that leave the shared part alone\<close>

context run_store
begin

abbreviation "step_as \<equiv> in_step_as chains hist"

lemma step_store:
  "preserves (stored_as chains hist c w) f \<Longrightarrow> preserves (step_as c w) (on_store f)"
  by (simp add: preserves_def on_store_def in_step_as_def chain_sat_def case_prod_beta)

lemma keeps_stored:
  "preserves (stored_as chains hist c w) (CreateRun S r)"
  "preserves (stored_as chains hist c w) (UpdateRun S r)"
  "preserves (stored_as chains hist c w) (AppendRunItems S i items)"
  "preserves (stored_as chains hist c w) (SaveEffectiveRequest S e)"
  "preserves (stored_as chains hist c w) (SaveAttachment S a)"
  "preserves (stored_as chains hist c w) (CloseAttachment S j reason t)"
  "preserves (stored_as chains hist c w) (SaveIdempotency S ir)"
  by (rule keeps_runs, simp add: stored_as_def split: option.splits)+

lemma step_upd:
  "(\<And>hc. work (f hc) = work hc) \<Longrightarrow> preserves (step_as c w) (upd_chain c' f)"
  by (rule preservesI) (auto simp: in_step_as_def chain_sat_def)

lemma step_put: "c' \<noteq> c \<or> work hc = w \<Longrightarrow> preserves (step_as c w) (put_chain c' hc)"
  by (rule preservesI) (auto simp: in_step_as_def chain_sat_def)

lemma step_hotChain_bind:
  assumes "\<And>hot. (c' = c \<Longrightarrow> \<exists>hc. hot = Some hc \<and> work hc = w) \<Longrightarrow> preserves (step_as c w) (f hot)"
  shows "preserves (step_as c w) (State_Monad.bind (hotChain c') f)"
proof (rule preservesI)
  fix m :: "'a manager" assume h: "step_as c w m"
  then have "preserves (step_as c w) (f (mget (mg_chains m) c'))"
    by (intro assms) (auto simp: in_step_as_def chain_sat_def)
  then show "wp (State_Monad.bind (hotChain c') f) (\<lambda>_. step_as c w) m"
    using h by (simp add: preservesD)
qed

lemma step_local [simp]:
  "preserves (step_as c w) (now W)" "preserves (step_as c w) (newID W p)"
  "preserves (step_as c w) (hotChain c')" "preserves (step_as c w) (log_sent l e)"
  "preserves (step_as c w) (active_pending c')"
  by (rule preservesI, simp add: in_step_as_def chain_sat_def active_pending_def)+

lemma step_upd_pending: "preserves (step_as c w) (upd_pending c' f)"
  unfolding upd_pending_def by (rule step_upd) (simp add: work_def)

lemma step_nextEvent: "preserves (step_as c w) (nextEvent c')"
  unfolding nextEvent_def by (intro pres_intro step_local step_upd) (simp add: work_def)

lemma step_bufferAndEmit: "preserves (step_as c w) (bufferAndEmit W c' ev)"
  unfolding bufferAndEmit_def
  by (intro step_hotChain_bind pres_intro step_put step_local) (auto simp: work_def)

lemma step_emitRunEvent: "preserves (step_as c w) (emitRunEvent W c' r e)"
  unfolding emitRunEvent_def
  by (intro pres_intro step_nextEvent step_local step_bufferAndEmit)

lemma step_emitClientToolCall: "preserves (step_as c w) (emitClientToolCall W c' r u d)"
  unfolding emitClientToolCall_def
  by (intro pres_intro step_nextEvent step_local step_bufferAndEmit)

lemmas step_intro = step_local step_upd_pending step_nextEvent step_emitRunEvent
  step_emitClientToolCall step_store keeps_stored keeps_reads

lemma step_requireChain_bind:
  assumes W: "w_store W = S"
    and f: "\<And>r. (\<And>hc. c' = c \<Longrightarrow> r = Inr hc \<Longrightarrow> work hc = w) \<Longrightarrow> preserves (step_as c w) (f r)"
  shows "preserves (step_as c w) (State_Monad.bind (requireChain W c') f)"
proof (cases "c' = c")
  case True
  show ?thesis
  proof (rule preservesI)
    fix m :: "'a manager" assume h: "step_as c w m"
    then obtain hc where hc: "mget (mg_chains m) c = Some hc" "work hc = w"
      by (auto simp: in_step_as_def chain_sat_def)
    then have "preserves (step_as c w) (f (Inr hc))" by (intro f) simp
    then show "wp (State_Monad.bind (requireChain W c') f) (\<lambda>_. step_as c w) m"
      using h hc True by (simp add: requireChain_def preservesD)
  qed
next
  case False
  have "preserves (step_as c w) (requireChain W c')"
    unfolding requireChain_def W using False
    by (intro pres_intro step_intro step_put) simp_all
  then show ?thesis using False by (intro preserves_bind f) auto
qed

section \<open>The turns of a run\<close>

lemma step_Submit:
  assumes "w_store W = S"
  shows "preserves (step_as c w) (SubmitClientToolResult W c' frame)"
  unfolding SubmitClientToolResult_def
  by (intro step_requireChain_bind [OF assms] pres_intro step_put) (auto simp: work_def)

lemma step_timeoutPending: "preserves (step_as c w) (timeoutPending W c' uses e)"
  unfolding timeoutPending_def by (intro pres_intro step_intro)

lemma step_waitForClientTools:
  assumes "w_store W = S"
  shows "preserves (step_as c w) (waitForClientTools W c' uses wakes)"
proof (induction wakes)
  case Nil
  show ?case
    by (subst waitForClientTools.simps) (auto intro!: pres_intro step_intro step_timeoutPending)
next
  case (Cons wake wakes)
  then show ?case
    by (subst waitForClientTools.simps)
      (auto intro!: pres_intro step_intro step_timeoutPending step_Submit assms split: wake.splits)
qed

lemma step_enqueue: "preserves (step_as c w) (enqueueClientToolCalls W c' r uses)"
proof -
  have "preserves (step_as c w) (register_pending W c' i uses)" for i
    by (induction uses arbitrary: i) (auto intro!: pres_intro step_intro)
  moreover have "preserves (step_as c w) (emit_calls W c' r uses)"
    by (induction uses) (auto intro!: pres_intro step_intro)
  ultimately show ?thesis unfolding enqueueClientToolCalls_def by (intro pres_intro)
qed

lemma step_add_result: "preserves (step_as c w) (add_result W i e r x b)"
  unfolding add_result_def by (intro pres_intro step_intro)

lemma step_resolve_gateway: "preserves (step_as c w) (resolve_gateway W c' r reg i t uses refs b)"
  by (induction uses arbitrary: refs b)
    (auto intro!: pres_intro step_intro step_add_result simp: case_prod_beta Let_def simp del: step_local)

lemma step_reject: "preserves (step_as c w) (reject_clients W i uses b)"
  by (induction uses arbitrary: b) (auto intro!: pres_intro step_add_result)

lemma step_add_waited: "preserves (step_as c w) (add_waited W i exs b)"
  by (induction exs arbitrary: b) (auto intro!: pres_intro step_add_result)

lemma step_resolveToolBatch:
  assumes "w_store W = S"
  shows "preserves (step_as c w) (resolveToolBatch W c' a i uses refs wakes)"
  unfolding resolveToolBatch_def
  by (intro pres_intro step_intro step_resolve_gateway step_reject step_add_waited step_enqueue
      step_waitForClientTools assms)

lemma step_run_stream: "preserves (step_as c w) (run_stream W c' r script acc)"
proof (induction script arbitrary: acc)
  case (Cons x script)
  obtain ev err where "x = (ev, err)" by (cases x)
  then show ?case
    using Cons by (auto intro!: pres_intro step_emitRunEvent split: option.split)
qed simp

lemma step_executeModelTurn: "preserves (step_as c w) (executeModelTurn W c' a h d)"
  unfolding executeModelTurn_def by (intro pres_intro step_run_stream)

lemma step_finish:
  assumes "w_store W = S"
  shows "preserves (step_as c w) (finish W c' res sr e)"
  unfolding finish_def assms
  by (intro pres_intro step_intro step_upd) (simp add: work_def)

text \<open>Only the commit of a history changes the shared part, on both sides alike.\<close>

lemma in_step_lift: "(\<And>w. preserves (step_as c w) f) \<Longrightarrow> preserves (in_step chains hist c) f"
  unfolding preserves_def in_step_iff by blast

lemma shared_clone [simp]: "shared_of (clone_chain r) h = shared_of r h"
  by (simp add: shared_of_def)

lemma step_commitHistory:
  assumes W: "w_store W = S"
  shows "preserves (in_step chains hist c) (commitHistory W c r st ms)"
proof (rule preservesI)
  fix m :: "'a manager" assume "in_step chains hist c m"
  then obtain hc x where hc: "mget (mg_chains m) c = Some hc" "ch_ID (hc_record hc) = c"
      "chains (mg_store m) c = Some x" "shared_of x (hist (mg_store m) c) = work hc"
    by (auto simp: in_step_def stored_as_def split: option.splits)
  let ?n = "committed st ms (w_now W (mg_clock m)) hc"
  have hist: "hist (mg_store m) c = hc_history hc" using hc(4) by (simp add: work_def shared_of_def)
  have n: "ch_ID (hc_record ?n) = c" "hc_history ?n = hc_history hc @ cloneMessages ms"
    using hc(2) by (simp_all add: committed_def Let_def)
  have upd: "wp (UpdateChain S (clone_chain (hc_record ?n)))
      (\<lambda>_ s'. stored_as chains hist c (work ?n) s') s"
    if "hist s c = hc_history ?n" "chains s c \<noteq> None" for s
    by (rule wp_mono [OF update_chain]) (use that n in \<open>auto simp: stored_as_def work_def\<close>)
  have app: "wp (AppendChainMessages S t c r ms)
      (\<lambda>_ s'. hist s' c = hc_history ?n \<and> chains s' c \<noteq> None) (mg_store m)" for t
    by (rule wp_mono [OF append_messages]) (use hc(3) hist n in auto)
  show "wp (commitHistory W c r st ms) (\<lambda>_. in_step chains hist c) m"
    by (auto simp: commitHistory_def W hc(1) wp_on_store n(1) in_step_def
        intro!: wp_mono [OF app] wp_mono [OF upd])
qed

lemma step_executeTurn:
  assumes "w_store W = S"
  shows "preserves (in_step chains hist c) (executeTurn W c a d i st)"
proof -
  have item: "preserves (step_as c w) (assistant_item W st k x)" for k x w
    unfolding assistant_item_def by (intro pres_intro step_intro)
  note lift = in_step_lift [OF item] in_step_lift [OF step_emitRunEvent]
    in_step_lift [OF step_executeModelTurn] in_step_lift [OF step_finish [OF assms]]
    in_step_lift [OF step_resolveToolBatch [OF assms]] step_commitHistory [OF assms]
    in_step_lift [OF step_store [OF keeps_stored(3)]] in_step_lift [OF step_local(1)]
  show ?thesis
    unfolding executeTurn_def fail_turn_def final_turn_def tool_turn_def assms
    by (intro pres_intro lift)
qed

lemma step_execute_turns:
  assumes "w_store W = S"
  shows "preserves (in_step chains hist c) (execute_turns W c a d is st)"
  by (intro chain_run.loop_preserves step_executeTurn assms)

lemma step_cleanup:
  assumes W: "w_store W = S"
  shows "preserves (in_step chains hist c) (cleanup_run W c a)"
proof (rule preservesI)
  fix m :: "'a manager" assume "in_step chains hist c m"
  then obtain hc x where hc: "mget (mg_chains m) c = Some hc" "ch_ID (hc_record hc) = c"
      "chains (mg_store m) c = Some x" "shared_of x (hist (mg_store m) c) = work hc"
    by (auto simp: in_step_def stored_as_def split: option.splits)
  let ?n = "release_run (run_ID (ar_record a)) (w_now W (mg_clock m)) hc"
  have n: "ch_ID (hc_record ?n) = c" "hc_history ?n = hc_history hc"
    using hc(2) by (auto simp: release_run_def Let_def split: option.splits)
  have hist: "hist (mg_store m) c = hc_history hc" using hc(4) by (simp add: work_def shared_of_def)
  have upd: "wp (UpdateChain S (clone_chain (hc_record ?n)))
      (\<lambda>_ s'. stored_as chains hist c (work ?n) s') (mg_store m)"
    by (rule wp_mono [OF update_chain]) (use hc(3) hist n in \<open>auto simp: stored_as_def work_def\<close>)
  have close: "wp (CloseAttachment S j reason t) (\<lambda>_. stored_as chains hist c w) s"
    if "stored_as chains hist c w s" for j reason t w s
    using preservesD [OF keeps_stored(6) that] .
  show "wp (cleanup_run W c a) (\<lambda>_. in_step chains hist c) m"
    by (auto simp: cleanup_run_def W hc(1) wp_on_store n(1) in_step_def
        intro!: wp_mono [OF upd] wp_mono [OF close])
qed

lemma run_in_step:
  assumes "w_store W = S"
  shows "preserves (in_step chains hist c) (executeRun W c a h d is)"
  unfolding executeRun_def
  by (intro pres_intro step_execute_turns step_cleanup assms in_step_lift [OF step_local(3)])

end

section \<open>The memory store\<close>

text \<open>C11. A run keeps the chain in the memory store in step with the chain in memory: if they
  agree on the history, version, status and message count when the run is executed, they agree
  again when it has ended, and after every turn of a run that goes on, whatever providers, tools, sinks and
  clients do.\<close>

theorem run_keeps_store_in_step:
  assumes "w_store W = MemoryStore" "in_step view_chains view_hist c m"
  shows "wp (executeRun W c a history d inputs) (\<lambda>_. in_step view_chains view_hist c) m"
  using preservesD [OF mem_runs.run_in_step [OF assms(1)] assms(2)] .

end
