(* ===== verification/RateLimit.thy ===== *)
theory RateLimit
  imports Prelude Complex_Main
begin

text \<open>
  The in-process limiter of requests (\<open>pkg/gateway/ratelimit\<close>): a token bucket and three
  semaphores per principal, in a map of bounded size. Numbers of type \<open>float64\<close> are rationals,
  times are nanoseconds. The limiters of principals are objects that permits keep alive after the
  map has dropped them; a map entry is the index of its object.
\<close>

section \<open>State\<close>

record rl_config =
  RPS :: rat
  Burst :: int
  MaxConcurrentRequests :: int
  MaxConcurrentStreams :: int
  MaxConcurrentWSSessions :: int
  MaxEntries :: int
  EntryTTL :: int

record token_bucket =
  tb_rps :: rat
  tb_capacity :: rat
  tb_tokens :: rat
  tb_last :: int

text \<open>A channel of empty structs used as a semaphore: how many are in it, and its capacity.\<close>

record semaphore =
  sem_used :: int
  sem_cap :: int

record principal_limiter =
  pl_tb :: token_bucket
  pl_reqSem :: semaphore
  pl_streamSem :: semaphore
  pl_wsSem :: semaphore
  pl_lastSeen :: int

record limiter =
  rl_cfg :: rl_config
  rl_m :: "(string, nat) gomap"
  rl_objs :: "principal_limiter list"

definition New :: "rl_config \<Rightarrow> limiter" where
  "New cfg =
     (let cfg = (if MaxEntries cfg \<le> 0 then cfg\<lparr>MaxEntries := 10000\<rparr> else cfg);
          cfg = (if EntryTTL cfg \<le> 0 then cfg\<lparr>EntryTTL := 30 * 60 * 1000000000\<rparr> else cfg)
      in \<lparr>rl_cfg = cfg, rl_m = [], rl_objs = []\<rparr>)"

section \<open>The map of principals\<close>

definition gcLocked :: "int \<Rightarrow> limiter \<Rightarrow> limiter" where
  "gcLocked now l = l\<lparr>rl_m :=
     filter (\<lambda>(_, i). \<not> now - pl_lastSeen (rl_objs l ! i) > EntryTTL (rl_cfg l)) (rl_m l)\<rparr>"

definition new_sem :: "int \<Rightarrow> semaphore" where
  "new_sem n = \<lparr>sem_used = 0, sem_cap = max 1 n\<rparr>"

definition new_principal :: "rl_config \<Rightarrow> int \<Rightarrow> principal_limiter" where
  "new_principal cfg now =
     \<lparr>pl_tb = \<lparr>tb_rps = 0, tb_capacity = 0, tb_tokens = 0, tb_last = 0\<rparr>,
      pl_reqSem = new_sem (MaxConcurrentRequests cfg),
      pl_streamSem = new_sem (MaxConcurrentStreams cfg),
      pl_wsSem = new_sem (MaxConcurrentWSSessions cfg), pl_lastSeen = now\<rparr>"

text \<open>Go's iteration of a map starts anywhere: \<open>pick\<close> picks the entry that is dropped.\<close>

definition evict :: "(string list \<Rightarrow> string) \<Rightarrow> int \<Rightarrow> limiter \<Rightarrow> limiter" where
  "evict pick now l =
     (if int (length (rl_m l)) \<ge> MaxEntries (rl_cfg l) then
        (let g = gcLocked now l in
         if int (length (rl_m g)) \<ge> MaxEntries (rl_cfg g) \<and> rl_m g \<noteq> []
         then g\<lparr>rl_m := mdel (pick (map fst (rl_m g))) (rl_m g)\<rparr>
         else g)
      else l)"

definition getOrCreate ::
  "(string list \<Rightarrow> string) \<Rightarrow> string \<Rightarrow> int \<Rightarrow> limiter \<Rightarrow> nat \<times> limiter" where
  "getOrCreate pick who now l =
     (let l = evict pick now l in
      case mget (rl_m l) who of
        Some i \<Rightarrow> (i, l)
      | None \<Rightarrow> (length (rl_objs l),
          l\<lparr>rl_m := mput who (length (rl_objs l)) (rl_m l),
            rl_objs := rl_objs l @ [new_principal (rl_cfg l) now]\<rparr>))"

section \<open>The token bucket\<close>

definition elapsed_seconds :: "int \<Rightarrow> int \<Rightarrow> rat" where
  "elapsed_seconds now t0 = of_int (now - t0) / 1000000000"

definition refill :: "int \<Rightarrow> token_bucket \<Rightarrow> token_bucket" where
  "refill now tb =
     (let elapsed = elapsed_seconds now (tb_last tb) in
      if elapsed > 0
      then tb\<lparr>tb_tokens := min (tb_capacity tb) (tb_tokens tb + elapsed * tb_rps tb), tb_last := now\<rparr>
      else tb)"

definition allowToken :: "int \<Rightarrow> rat \<Rightarrow> int \<Rightarrow> token_bucket \<Rightarrow> (bool \<times> int) \<times> token_bucket" where
  "allowToken now rps burst tb =
     (if burst \<le> 0 \<or> rps \<le> 0 then ((True, 0), tb)
      else
        (let capacity = of_int burst;
             tb = (if tb_capacity tb = 0
                   then \<lparr>tb_rps = rps, tb_capacity = capacity, tb_tokens = capacity, tb_last = now\<rparr>
                   else tb);
             tb = refill now (tb\<lparr>tb_rps := rps, tb_capacity := capacity\<rparr>)
         in if tb_tokens tb \<ge> 1 then ((True, 0), tb\<lparr>tb_tokens := tb_tokens tb - 1\<rparr>)
            else
              (let retryAfter = \<lceil>(1 - tb_tokens tb) / tb_rps tb\<rceil>
               in ((False, if retryAfter < 1 then 1 else retryAfter), tb))))"

section \<open>Permits\<close>

datatype sem_kind = ReqSem | StreamSem | WSSem

text \<open>What releasing a permit does: nothing, or a receive from a semaphore of an object. A
  released permit has \<open>None\<close>.\<close>

datatype release_fn = Noop | Receive sem_kind nat

record permit =
  pm_release :: "release_fn option"

record decision =
  Allowed :: bool
  RetryAfter :: int
  dec_Permit :: "permit option"

definition sem_of :: "sem_kind \<Rightarrow> principal_limiter \<Rightarrow> semaphore" where
  "sem_of k pl = (case k of ReqSem \<Rightarrow> pl_reqSem pl | StreamSem \<Rightarrow> pl_streamSem pl | WSSem \<Rightarrow> pl_wsSem pl)"

definition set_sem :: "sem_kind \<Rightarrow> semaphore \<Rightarrow> principal_limiter \<Rightarrow> principal_limiter" where
  "set_sem k s pl = (case k of ReqSem \<Rightarrow> pl\<lparr>pl_reqSem := s\<rparr> | StreamSem \<Rightarrow> pl\<lparr>pl_streamSem := s\<rparr>
     | WSSem \<Rightarrow> pl\<lparr>pl_wsSem := s\<rparr>)"

definition upd_obj :: "nat \<Rightarrow> (principal_limiter \<Rightarrow> principal_limiter) \<Rightarrow> limiter \<Rightarrow> limiter" where
  "upd_obj i f l = l\<lparr>rl_objs := (rl_objs l)[i := f (rl_objs l ! i)]\<rparr>"

text \<open>The \<open>select\<close> with a default that tries to send on a semaphore.\<close>

definition try_acquire :: "sem_kind \<Rightarrow> int \<Rightarrow> nat \<Rightarrow> limiter \<Rightarrow> decision \<times> limiter" where
  "try_acquire k limit i l =
     (if limit > 0 then
        (let s = sem_of k (rl_objs l ! i) in
         if sem_used s < sem_cap s
         then (\<lparr>Allowed = True, RetryAfter = 0, dec_Permit = Some \<lparr>pm_release = Some (Receive k i)\<rparr>\<rparr>,
               upd_obj i (set_sem k (s\<lparr>sem_used := sem_used s + 1\<rparr>)) l)
         else (\<lparr>Allowed = False, RetryAfter = 1, dec_Permit = None\<rparr>, l))
      else (\<lparr>Allowed = True, RetryAfter = 0, dec_Permit = Some \<lparr>pm_release = Some Noop\<rparr>\<rparr>, l))"

text \<open>\<open>Release\<close>: a second release does nothing. A receive from an empty semaphore would block;
  that never happens to the permits the limiter hands out.\<close>

definition Release :: "permit \<Rightarrow> limiter \<Rightarrow> permit \<times> limiter" where
  "Release p l =
     (case pm_release p of
        None \<Rightarrow> (p, l)
      | Some Noop \<Rightarrow> (p\<lparr>pm_release := None\<rparr>, l)
      | Some (Receive k i) \<Rightarrow> (p\<lparr>pm_release := None\<rparr>,
          upd_obj i (\<lambda>pl. set_sem k ((sem_of k pl)\<lparr>sem_used := sem_used (sem_of k pl) - 1\<rparr>) pl) l))"

section \<open>Requests, streams and sessions\<close>

definition principal_or_anonymous :: "string \<Rightarrow> string" where
  "principal_or_anonymous p = (if p = [] then ''anonymous'' else p)"

definition seen :: "(string list \<Rightarrow> string) \<Rightarrow> string \<Rightarrow> int \<Rightarrow> limiter \<Rightarrow> nat \<times> limiter" where
  "seen pick who now l =
     (let (i, l) = getOrCreate pick (principal_or_anonymous who) now l
      in (i, upd_obj i (\<lambda>pl. pl\<lparr>pl_lastSeen := now\<rparr>) l))"

definition AcquireRequest ::
  "(string list \<Rightarrow> string) \<Rightarrow> string \<Rightarrow> int \<Rightarrow> limiter \<Rightarrow> decision \<times> limiter" where
  "AcquireRequest pick who now l =
     (let (i, l) = seen pick who now l in
      if RPS (rl_cfg l) > 0 \<and> Burst (rl_cfg l) > 0 then
        (let ((allowed, retryAfter), tb) =
               allowToken now (RPS (rl_cfg l)) (Burst (rl_cfg l)) (pl_tb (rl_objs l ! i));
             l = upd_obj i (\<lambda>pl. pl\<lparr>pl_tb := tb\<rparr>) l
         in if \<not> allowed then (\<lparr>Allowed = False, RetryAfter = retryAfter, dec_Permit = None\<rparr>, l)
            else try_acquire ReqSem (MaxConcurrentRequests (rl_cfg l)) i l)
      else try_acquire ReqSem (MaxConcurrentRequests (rl_cfg l)) i l)"

definition AcquireStream ::
  "(string list \<Rightarrow> string) \<Rightarrow> string \<Rightarrow> int \<Rightarrow> limiter \<Rightarrow> decision \<times> limiter" where
  "AcquireStream pick who now l =
     (let (i, l) = seen pick who now l
      in try_acquire StreamSem (MaxConcurrentStreams (rl_cfg l)) i l)"

definition AcquireWSSession ::
  "(string list \<Rightarrow> string) \<Rightarrow> string \<Rightarrow> int \<Rightarrow> limiter \<Rightarrow> decision \<times> limiter" where
  "AcquireWSSession pick who now l =
     (let (i, l) = seen pick who now l
      in try_acquire WSSem (MaxConcurrentWSSessions (rl_cfg l)) i l)"

text \<open>The map key of a principal, from the hexadecimal SHA-256 of its API key or address.\<close>

definition PrincipalKeyFromAPIKey :: "(string \<Rightarrow> string) \<Rightarrow> string \<Rightarrow> string" where
  "PrincipalKeyFromAPIKey sha apiKey = ''k_'' @ take 32 (sha apiKey)"

definition PrincipalKeyFromIP :: "(string \<Rightarrow> string) \<Rightarrow> string \<Rightarrow> string" where
  "PrincipalKeyFromIP sha ip = ''ip_'' @ take 32 (sha ip)"

section \<open>The rate of a bucket\<close>

definition bucket_ok :: "int \<Rightarrow> token_bucket \<Rightarrow> bool" where
  "bucket_ok burst tb =
     (tb_capacity tb = 0 \<or> tb_capacity tb = of_int burst \<and> 0 \<le> tb_tokens tb \<and> tb_tokens tb \<le> of_int burst)"

text \<open>The requests a bucket allows among those at the given times.\<close>

fun allowed_count :: "rat \<Rightarrow> int \<Rightarrow> int list \<Rightarrow> token_bucket \<Rightarrow> nat" where
  "allowed_count rps burst [] tb = 0"
| "allowed_count rps burst (t # ts) tb =
     (let ((allowed, _), tb') = allowToken t rps burst tb
      in (if allowed then 1 else 0) + allowed_count rps burst ts tb')"

lemma bucket_ok_allow:
  assumes "0 < rps" "0 < burst" "bucket_ok burst tb"
  shows "bucket_ok burst (snd (allowToken t rps burst tb))"
  using assms
  by (auto simp: allowToken_def bucket_ok_def refill_def Let_def min_def elapsed_seconds_def
      intro: add_nonneg_nonneg)

text \<open>A bucket that is in use, and how many tokens it can have had by a time.\<close>

definition by_then :: "rat \<Rightarrow> int \<Rightarrow> token_bucket \<Rightarrow> rat" where
  "by_then rps t tb = tb_tokens tb + elapsed_seconds (max t (tb_last tb)) (tb_last tb) * rps"

lemma allow_potential:
  assumes "0 < rps" "0 < burst" "tb_capacity tb = of_int burst" "t \<le> T"
  shows "(if fst (fst (allowToken t rps burst tb)) then 1 else 0)
      + by_then rps T (snd (allowToken t rps burst tb)) \<le> by_then rps T tb"
proof -
  have split: "elapsed_seconds (max T a) a * rps = elapsed_seconds t a * rps + elapsed_seconds (max T t) t * rps"
    if "a < t" for a
    using that assms(4) by (simp add: elapsed_seconds_def max_def field_simps)
  show ?thesis
    using assms split [of "tb_last tb"]
    by (auto simp: allowToken_def refill_def by_then_def Let_def min_def elapsed_seconds_def
        add_divide_distrib)
qed

lemma allow_capacity:
  "0 < rps \<Longrightarrow> 0 < burst \<Longrightarrow> tb_capacity (snd (allowToken t rps burst tb)) = of_int burst"
  by (simp add: allowToken_def refill_def Let_def)

lemma allow_nonneg:
  "0 < rps \<Longrightarrow> 0 < burst \<Longrightarrow> tb_capacity tb = 0 \<or> 0 \<le> tb_tokens tb \<Longrightarrow>
   0 \<le> tb_tokens (snd (allowToken t rps burst tb))"
  by (auto simp: allowToken_def refill_def Let_def min_def elapsed_seconds_def)

lemma count_potential:
  "0 < rps \<Longrightarrow> 0 < burst \<Longrightarrow> tb_capacity tb = of_int burst \<Longrightarrow> 0 \<le> tb_tokens tb \<Longrightarrow> list_all (\<lambda>t. t \<le> T) ts \<Longrightarrow>
   of_nat (allowed_count rps burst ts tb) \<le> by_then rps T tb"
proof (induction ts arbitrary: tb)
  case Nil
  then show ?case by (simp add: by_then_def elapsed_seconds_def)
next
  case (Cons t ts)
  let ?tb = "snd (allowToken t rps burst tb)"
  have "of_nat (allowed_count rps burst ts ?tb) \<le> by_then rps T ?tb"
    using Cons.prems by (intro Cons.IH allow_capacity allow_nonneg) auto
  then show ?case
    using allow_potential [of rps burst tb t T] Cons.prems by (auto simp: case_prod_beta Let_def)
qed

lemma allow_start:
  assumes "0 < rps" "0 < burst" "bucket_ok burst tb"
  shows "(if fst (fst (allowToken t rps burst tb)) then 1 else 0) + tb_tokens (snd (allowToken t rps burst tb))
      \<le> of_int burst \<and> t \<le> tb_last (snd (allowToken t rps burst tb))"
  using assms
  by (auto simp: allowToken_def refill_def bucket_ok_def Let_def min_def elapsed_seconds_def)

text \<open>C16. A bucket lets through at most its burst and what flows in meanwhile: of the requests
  between two times it allows at most the burst plus the rate times the seconds between them, at whatever
  times they come, in or out of order.\<close>

theorem bucket_rate:
  assumes "0 < rps" "0 < burst" "bucket_ok burst tb" "t0 \<le> T" "list_all (\<lambda>t. t0 \<le> t \<and> t \<le> T) ts"
  shows "of_nat (allowed_count rps burst ts tb) \<le> of_int burst + elapsed_seconds T t0 * rps"
proof (cases ts)
  case Nil
  then show ?thesis using assms by (simp add: elapsed_seconds_def)
next
  case (Cons t us)
  let ?a = "allowToken t rps burst tb"
  let ?tb = "snd ?a"
  have start: "(if fst (fst ?a) then 1 else 0) + tb_tokens ?tb \<le> of_int burst" "t0 \<le> tb_last ?tb"
    using allow_start [OF assms(1-3), of t] assms(5) Cons by auto
  have "0 \<le> tb_tokens ?tb"
    using assms(1-3) by (intro allow_nonneg) (auto simp: bucket_ok_def)
  then have "of_nat (allowed_count rps burst us ?tb) \<le> by_then rps T ?tb"
    using assms Cons by (intro count_potential allow_capacity) (auto simp: list_all_iff)
  moreover have "elapsed_seconds (max T (tb_last ?tb)) (tb_last ?tb) * rps \<le> elapsed_seconds T t0 * rps"
    using start(2) assms(1,4) by (intro mult_right_mono) (auto simp: elapsed_seconds_def max_def)
  ultimately show ?thesis
    using start(1) Cons by (simp add: case_prod_beta Let_def by_then_def split: if_splits)
qed

section \<open>Permits and entries\<close>

text \<open>The limiter with the permits it has handed out.\<close>

type_synonym rl_state = "limiter \<times> permit list"

definition handed :: "decision \<times> limiter \<Rightarrow> permit list \<Rightarrow> rl_state" where
  "handed r ps = (case r of (d, l) \<Rightarrow> (l, ps @ (case dec_Permit d of None \<Rightarrow> [] | Some p \<Rightarrow> [p])))"

text \<open>What an iteration of a map yields first is one of its keys.\<close>

definition picks :: "(string list \<Rightarrow> string) \<Rightarrow> bool" where
  "picks pick = (\<forall>ks. ks \<noteq> [] \<longrightarrow> pick ks \<in> set ks)"

inductive rl_step :: "rl_state \<Rightarrow> rl_state \<Rightarrow> bool" where
  rl_request: "picks pick \<Longrightarrow> rl_step (l, ps) (handed (AcquireRequest pick who t l) ps)"
| rl_stream: "picks pick \<Longrightarrow> rl_step (l, ps) (handed (AcquireStream pick who t l) ps)"
| rl_session: "picks pick \<Longrightarrow> rl_step (l, ps) (handed (AcquireWSSession pick who t l) ps)"
| rl_release: "j < length ps \<Longrightarrow>
    rl_step (l, ps) (snd (Release (ps ! j) l), ps[j := fst (Release (ps ! j) l)])"

inductive rl_reachable :: "rl_config \<Rightarrow> rl_state \<Rightarrow> bool" for cfg :: rl_config where
  rl_new: "rl_reachable cfg (New cfg, [])"
| rl_next: "rl_reachable cfg s \<Longrightarrow> rl_step s s' \<Longrightarrow> rl_reachable cfg s'"

definition sem_limit :: "rl_config \<Rightarrow> sem_kind \<Rightarrow> int" where
  "sem_limit cfg k = (case k of ReqSem \<Rightarrow> MaxConcurrentRequests cfg
     | StreamSem \<Rightarrow> MaxConcurrentStreams cfg | WSSem \<Rightarrow> MaxConcurrentWSSessions cfg)"

definition held :: "permit list \<Rightarrow> sem_kind \<Rightarrow> nat \<Rightarrow> int" where
  "held ps k i = int (length (filter (\<lambda>p. pm_release p = Some (Receive k i)) ps))"

definition map_ok :: "limiter \<Rightarrow> bool" where
  "map_ok l = (0 < MaxEntries (rl_cfg l) \<and> mwf (rl_m l) \<and> int (length (rl_m l)) \<le> MaxEntries (rl_cfg l) \<and>
     (\<forall>k i. mget (rl_m l) k = Some i \<longrightarrow> i < length (rl_objs l)))"

text \<open>Every semaphore holds one slot per permit that is out for it, and no more than its
  capacity; every bucket is within its capacity.\<close>

definition obj_ok :: "rl_config \<Rightarrow> permit list \<Rightarrow> nat \<Rightarrow> principal_limiter \<Rightarrow> bool" where
  "obj_ok cfg ps i pl =
     ((0 < RPS cfg \<longrightarrow> 0 < Burst cfg \<longrightarrow> bucket_ok (Burst cfg) (pl_tb pl)) \<and>
      (\<forall>k. sem_cap (sem_of k pl) = max 1 (sem_limit cfg k) \<and> sem_used (sem_of k pl) = held ps k i \<and>
         held ps k i \<le> max 1 (sem_limit cfg k)))"

definition objs_ok :: "limiter \<Rightarrow> permit list \<Rightarrow> bool" where
  "objs_ok l ps =
     ((\<forall>i < length (rl_objs l). obj_ok (rl_cfg l) ps i (rl_objs l ! i)) \<and>
      (\<forall>k i. i \<ge> length (rl_objs l) \<longrightarrow> held ps k i = 0))"

lemma held_simps [simp]:
  "held [] k i = 0"
  "held (ps @ [p]) k i = held ps k i + (if pm_release p = Some (Receive k i) then 1 else 0)"
  by (simp_all add: held_def)

lemma held_nonneg: "0 \<le> held ps k i"
  by (simp add: held_def)

lemma held_Cons: "held (p # ps) k i = held ps k i + (if pm_release p = Some (Receive k i) then 1 else 0)"
  by (simp add: held_def)

lemma held_update:
  "j < length ps \<Longrightarrow> held (ps[j := q]) k i = held ps k i
     - (if pm_release (ps ! j) = Some (Receive k i) then 1 else 0)
     + (if pm_release q = Some (Receive k i) then 1 else 0)"
proof (induction ps arbitrary: j)
  case (Cons p ps)
  then show ?case by (cases j) (auto simp: held_Cons)
qed simp

lemma sem_of_set [simp]:
  "sem_of k (set_sem k' x pl) = (if k = k' then x else sem_of k pl)" "pl_tb (set_sem k' x pl) = pl_tb pl"
  "sem_of k (pl\<lparr>pl_tb := b\<rparr>) = sem_of k pl" "sem_of k (pl\<lparr>pl_lastSeen := t\<rparr>) = sem_of k pl"
  by (auto simp: sem_of_def set_sem_def split: sem_kind.splits)

lemma upd_obj_fields [simp]:
  "rl_cfg (upd_obj i f l) = rl_cfg l" "rl_m (upd_obj i f l) = rl_m l"
  "length (rl_objs (upd_obj i f l)) = length (rl_objs l)"
  "i < length (rl_objs l) \<Longrightarrow> rl_objs (upd_obj i f l) ! i = f (rl_objs l ! i)"
  by (simp_all add: upd_obj_def)

lemma map_ok_upd [simp]: "map_ok (upd_obj i f l) = map_ok l"
  by (simp add: map_ok_def)

lemma obj_ok_cong: "(\<And>k. held ps' k i = held ps k i) \<Longrightarrow> obj_ok cfg ps' i pl = obj_ok cfg ps i pl"
  by (simp add: obj_ok_def)

lemma objs_ok_upd:
  assumes "objs_ok l ps" "i < length (rl_objs l)" "obj_ok (rl_cfg l) ps' i (f (rl_objs l ! i))"
    "\<And>k j. j \<noteq> i \<Longrightarrow> held ps' k j = held ps k j"
  shows "objs_ok (upd_obj i f l) ps'"
  using assms obj_ok_cong [OF assms(4)]
  by (auto simp: objs_ok_def upd_obj_def nth_list_update)

lemma obj_ok_touch: "obj_ok cfg ps i (pl\<lparr>pl_lastSeen := t\<rparr>) = obj_ok cfg ps i pl"
  by (simp add: obj_ok_def)

lemma objs_ok_touch:
  "objs_ok l ps \<Longrightarrow> i < length (rl_objs l) \<Longrightarrow> objs_ok (upd_obj i (\<lambda>pl. pl\<lparr>pl_lastSeen := t\<rparr>) l) ps"
  by (rule objs_ok_upd) (simp_all add: obj_ok_touch, simp add: objs_ok_def)

lemma mget_filter: "mget (filter P m) k = Some i \<Longrightarrow> mwf m \<Longrightarrow> mget m k = Some i"
  by (metis mget_SomeD mget_eq_Some_iff filter_is_subset subsetD)

lemma map_ok_evict:
  assumes "map_ok l" "picks pick"
  shows "map_ok (evict pick now l) \<and> int (length (rl_m (evict pick now l))) < MaxEntries (rl_cfg l) \<and>
    rl_objs (evict pick now l) = rl_objs l \<and> rl_cfg (evict pick now l) = rl_cfg l"
proof -
  let ?g = "gcLocked now l"
  let ?k = "pick (map fst (rl_m ?g))"
  have g: "map_ok ?g" "rl_objs ?g = rl_objs l" "rl_cfg ?g = rl_cfg l"
    using assms(1) unfolding map_ok_def gcLocked_def
    by (auto simp: mwf_def distinct_map_filter dest!: mget_filter
        intro: order_trans [OF of_nat_mono [OF length_filter_le]])
  have "length (rl_m ?g) > length (mdel ?k (rl_m ?g))" if "rl_m ?g \<noteq> []"
  proof (rule length_mdel_less)
    have "?k \<in> set (map fst (rl_m ?g))" using assms(2) that unfolding picks_def by blast
    then show "mget (rl_m ?g) ?k \<noteq> None" by (simp add: mget_def map_of_eq_None_iff)
  qed
  then have "int (length (mdel ?k (rl_m ?g))) < MaxEntries (rl_cfg l)" if "rl_m ?g \<noteq> []"
    using that g by (fastforce simp: map_ok_def)
  moreover have "map_ok (?g\<lparr>rl_m := mdel ?k (rl_m ?g)\<rparr>)"
    using g(1) length_mdel_le [of ?k "rl_m ?g"] by (auto simp: map_ok_def split: if_splits)
  ultimately show ?thesis
    using g assms(1) by (auto simp: evict_def Let_def map_ok_def)
qed

lemma getOrCreate_ok:
  assumes "map_ok l" "objs_ok l ps" "picks pick" "getOrCreate pick who now l = (i, l')"
  shows "map_ok l'" "objs_ok l' ps" "i < length (rl_objs l')" "rl_cfg l' = rl_cfg l"
proof -
  note ev = map_ok_evict [OF assms(1,3), of now]
  have objs: "objs_ok (evict pick now l) ps" using assms(2) ev by (simp add: objs_ok_def)
  have "obj_ok (rl_cfg l) ps (length (rl_objs l)) (new_principal (rl_cfg l) now)"
    using assms(2)
    by (auto simp: objs_ok_def obj_ok_def new_principal_def bucket_ok_def sem_of_def new_sem_def
        sem_limit_def split: sem_kind.split)
  then show "map_ok l'" "objs_ok l' ps" "i < length (rl_objs l')" "rl_cfg l' = rl_cfg l"
    using assms(4) ev objs unfolding getOrCreate_def Let_def
    by (auto simp: map_ok_def objs_ok_def nth_append length_mput less_Suc_eq split: option.splits if_splits)
qed

lemma seen_ok:
  assumes "map_ok l" "objs_ok l ps" "picks pick" "seen pick who now l = (i, l')"
  shows "map_ok l'" "objs_ok l' ps" "i < length (rl_objs l')" "rl_cfg l' = rl_cfg l"
proof -
  obtain l1 where l1: "getOrCreate pick (principal_or_anonymous who) now l = (i, l1)"
    "l' = upd_obj i (\<lambda>pl. pl\<lparr>pl_lastSeen := now\<rparr>) l1"
    using assms(4) by (auto simp: seen_def Let_def split: prod.splits)
  note ok = getOrCreate_ok [OF assms(1-3) l1(1)]
  show "map_ok l'" "objs_ok l' ps" "i < length (rl_objs l')" "rl_cfg l' = rl_cfg l"
    using ok objs_ok_touch [OF ok(2,3)] by (simp_all add: l1(2))
qed

text \<open>The state after an acquisition, and that it is in order.\<close>

definition rl_inv :: "rl_config \<Rightarrow> rl_state \<Rightarrow> bool" where
  "rl_inv cfg s = (case s of (l, ps) \<Rightarrow> rl_cfg l = cfg \<and> map_ok l \<and> objs_ok l ps)"

lemma try_acquire_inv:
  assumes "map_ok l" "objs_ok l ps" "i < length (rl_objs l)" "limit = sem_limit (rl_cfg l) k"
  shows "rl_inv (rl_cfg l) (handed (try_acquire k limit i l) ps)"
proof -
  let ?s = "sem_of k (rl_objs l ! i)"
  let ?p = "\<lparr>pm_release = Some (Receive k i)\<rparr>"
  have noop: "objs_ok l (ps @ [\<lparr>pm_release = Some Noop\<rparr>])"
    using assms(2) by (simp add: objs_ok_def obj_ok_def)
  have obj: "obj_ok (rl_cfg l) ps i (rl_objs l ! i)" using assms(2,3) by (simp add: objs_ok_def)
  have "obj_ok (rl_cfg l) (ps @ [?p]) i (set_sem k (?s\<lparr>sem_used := sem_used ?s + 1\<rparr>) (rl_objs l ! i))"
    if "sem_used ?s < sem_cap ?s"
    using obj that by (auto simp: obj_ok_def)
  then have "objs_ok (upd_obj i (set_sem k (?s\<lparr>sem_used := sem_used ?s + 1\<rparr>)) l) (ps @ [?p])"
    if "sem_used ?s < sem_cap ?s"
    using that by (intro objs_ok_upd [OF assms(2,3)]) auto
  then show ?thesis
    using assms(1,2) noop by (simp add: rl_inv_def handed_def try_acquire_def Let_def)
qed

lemma rl_step_inv: "rl_step s s' \<Longrightarrow> rl_inv cfg s \<Longrightarrow> rl_inv cfg s'"
proof (induction rule: rl_step.induct)
  case (rl_request pick l ps who t)
  obtain i l1 where l1: "seen pick who t l = (i, l1)" by force
  have inv: "map_ok l" "objs_ok l ps" "rl_cfg l = cfg" using rl_request by (simp_all add: rl_inv_def)
  note ok = seen_ok [OF inv(1,2) rl_request(1) l1]
  let ?tb = "snd (allowToken t (RPS cfg) (Burst cfg) (pl_tb (rl_objs l1 ! i)))"
  let ?l2 = "upd_obj i (\<lambda>pl. pl\<lparr>pl_tb := ?tb\<rparr>) l1"
  have "objs_ok ?l2 ps" if "0 < RPS cfg" "0 < Burst cfg"
  proof (rule objs_ok_upd [OF ok(2,3)])
    show "obj_ok (rl_cfg l1) ps i ((rl_objs l1 ! i)\<lparr>pl_tb := ?tb\<rparr>)"
      using ok that inv(3) by (auto simp: objs_ok_def obj_ok_def bucket_ok_allow)
  qed simp
  then show ?case
    using ok inv(3) l1 try_acquire_inv [of ?l2 ps i _ ReqSem] try_acquire_inv [of l1 ps i _ ReqSem]
    by (auto simp: AcquireRequest_def Let_def handed_def rl_inv_def sem_limit_def split: prod.splits)
next
  case (rl_stream pick l ps who t)
  obtain i l1 where l1: "seen pick who t l = (i, l1)" by force
  have inv: "map_ok l" "objs_ok l ps" "rl_cfg l = cfg" using rl_stream by (simp_all add: rl_inv_def)
  note ok = seen_ok [OF inv(1,2) rl_stream(1) l1]
  show ?case using try_acquire_inv [OF ok(1-3), of _ StreamSem] ok(4) inv(3)
    by (simp add: AcquireStream_def l1 sem_limit_def)
next
  case (rl_session pick l ps who t)
  obtain i l1 where l1: "seen pick who t l = (i, l1)" by force
  have inv: "map_ok l" "objs_ok l ps" "rl_cfg l = cfg" using rl_session by (simp_all add: rl_inv_def)
  note ok = seen_ok [OF inv(1,2) rl_session(1) l1]
  show ?case using try_acquire_inv [OF ok(1-3), of _ WSSem] ok(4) inv(3)
    by (simp add: AcquireWSSession_def l1 sem_limit_def)
next
  case (rl_release j ps l)
  have inv: "map_ok l" "objs_ok l ps" "rl_cfg l = cfg" using rl_release by (simp_all add: rl_inv_def)
  show ?case
  proof (cases "pm_release (ps ! j)")
    case None
    then show ?thesis using inv rl_release by (simp add: Release_def rl_inv_def)
  next
    case (Some r)
    show ?thesis
    proof (cases r)
      case Noop
      then have "objs_ok l (ps[j := (ps ! j)\<lparr>pm_release := None\<rparr>])"
        using inv(2) Some rl_release(1) by (simp add: objs_ok_def obj_ok_def held_update)
      then show ?thesis using inv Some Noop by (simp add: Release_def rl_inv_def)
    next
      case (Receive k i)
      let ?ps = "ps[j := (ps ! j)\<lparr>pm_release := None\<rparr>]"
      let ?f = "\<lambda>pl. set_sem k ((sem_of k pl)\<lparr>sem_used := sem_used (sem_of k pl) - 1\<rparr>) pl"
      have held: "held ?ps k' i' = held ps k' i' - (if k' = k \<and> i' = i then 1 else 0)" for k' i'
        using rl_release(1) Some Receive by (auto simp: held_update)
      have "held ps k i \<noteq> 0" using held [of k i] held_nonneg [of ?ps k i] by simp
      then have i: "i < length (rl_objs l)"
        using inv(2) by (auto simp: objs_ok_def not_le [symmetric])
      then have "obj_ok (rl_cfg l) ?ps i (?f (rl_objs l ! i))"
        using inv(2) unfolding objs_ok_def obj_ok_def
        by (auto simp: held intro: order_trans [of "held ps k i - 1" "held ps k i"])
      then have "objs_ok (upd_obj i ?f l) ?ps"
        by (intro objs_ok_upd [OF inv(2) i]) (simp_all add: held)
      then show ?thesis using inv Some Receive by (simp add: Release_def rl_inv_def)
    qed
  qed
qed

lemma rl_inv_New: "rl_inv (rl_cfg (New cfg)) (New cfg, [])"
  by (simp add: rl_inv_def New_def map_ok_def objs_ok_def Let_def)

text \<open>C15. Whatever requests, streams, sessions and releases come in whatever order, the limiter
  keeps its books: a semaphore holds exactly one slot per permit that is out for it, at most as many
  as configured, so a release never blocks; buckets stay within their capacity; and the map of
  principals never exceeds its bound.\<close>

theorem limiter_invariant:
  assumes "rl_reachable cfg s"
  shows "rl_inv (rl_cfg (New cfg)) s"
  using assms by (induction rule: rl_reachable.induct) (auto intro: rl_inv_New rl_step_inv)

text \<open>A limiter whose map is full of entries that have not expired.\<close>

definition full_map :: "int \<Rightarrow> limiter \<Rightarrow> bool" where
  "full_map now l = (int (length (rl_m l)) \<ge> MaxEntries (rl_cfg l) \<and> rl_m l \<noteq> [] \<and>
     list_all (\<lambda>(_, i). now - pl_lastSeen (rl_objs l ! i) \<le> EntryTTL (rl_cfg l)) (rl_m l))"

text \<open>The same limiter when its map has room for one more entry.\<close>

definition with_room :: "limiter \<Rightarrow> limiter" where
  "with_room l = l\<lparr>rl_cfg := (rl_cfg l)\<lparr>MaxEntries := int (length (rl_m l)) + 1\<rparr>\<rparr>"

lemma evict_full:
  assumes "full_map now l"
  shows "evict pick now l = l\<lparr>rl_m := mdel (pick (map fst (rl_m l))) (rl_m l)\<rparr>"
proof -
  have "filter (\<lambda>(_, i). \<not> now - pl_lastSeen (rl_objs l ! i) > EntryTTL (rl_cfg l)) (rl_m l) = rl_m l"
    using assms by (auto simp: full_map_def filter_id_conv list_all_iff)
  then have "gcLocked now l = l" by (simp add: gcLocked_def)
  then show ?thesis using assms by (simp add: evict_def full_map_def Let_def)
qed


lemma new_bucket_allows:
  "0 < burst \<Longrightarrow> fst (fst (allowToken now rps burst \<lparr>tb_rps = 0, tb_capacity = 0, tb_tokens = 0, tb_last = 0\<rparr>))"
  by (simp add: allowToken_def refill_def Let_def elapsed_seconds_def)

text \<open>C17. A full map forgets a principal it knows: a principal that has an entry whose bucket is empty, and is
  refused as long as the map has room, is allowed when the map is full of live entries and the iteration picks
  the principal's own entry to make room. The entry is dropped before it is looked up, so that the
  request is charged to a new one, whatever tokens were spent and whatever permits are out on the old one.\<close>

theorem full_map_forgets_principal:
  assumes full: "full_map now l" and i: "mget (rl_m l) (principal_or_anonymous who) = Some i" "i < length (rl_objs l)"
    and own: "pick (map fst (rl_m l)) = principal_or_anonymous who"
    and spent: "\<not> fst (fst (allowToken now (RPS (rl_cfg l)) (Burst (rl_cfg l)) (pl_tb (rl_objs l ! i))))"
  shows "Allowed (fst (AcquireRequest pick who now l)) \<and>
    \<not> Allowed (fst (AcquireRequest pick who now (with_room l)))"
proof
  have pos: "0 < RPS (rl_cfg l)" "0 < Burst (rl_cfg l)"
    using spent by (auto simp: allowToken_def split: if_splits)
  let ?w = "principal_or_anonymous who"
  let ?l = "l\<lparr>rl_m := mput ?w (length (rl_objs l)) (mdel ?w (rl_m l)),
    rl_objs := rl_objs l @ [new_principal (rl_cfg l) now]\<rparr>"
  have "getOrCreate pick ?w now l = (length (rl_objs l), ?l)"
    by (simp add: getOrCreate_def evict_full [OF full] own)
  moreover have "(0::int) < max 1 n" for n by simp
  ultimately show "Allowed (fst (AcquireRequest pick who now l))"
    using pos new_bucket_allows [OF pos(2), of now "RPS (rl_cfg l)"]
    by (auto simp: AcquireRequest_def seen_def Let_def upd_obj_def new_principal_def try_acquire_def new_sem_def
        sem_of_def nth_append split: prod.splits)
  have "getOrCreate pick ?w now (with_room l) = (i, with_room l)"
    using i by (simp add: getOrCreate_def evict_def with_room_def)
  then show "\<not> Allowed (fst (AcquireRequest pick who now (with_room l)))"
    using pos spent i(2)
    by (auto simp: AcquireRequest_def seen_def Let_def upd_obj_def with_room_def split: prod.splits)
qed

definition spent_limits :: rl_config where
  "spent_limits = \<lparr>RPS = 1, Burst = 1, MaxConcurrentRequests = 1, MaxConcurrentStreams = 1,
     MaxConcurrentWSSessions = 1, MaxEntries = 2, EntryTTL = 1\<rparr>"

definition spent_limiter :: limiter where
  "spent_limiter = snd (AcquireRequest hd ''b'' 0 (snd (AcquireRequest hd ''a'' 0 (New spent_limits))))"

lemma full_map_forgets_principal_witness:
  "\<exists>pick. Allowed (fst (AcquireRequest pick ''b'' 0 spent_limiter)) \<and>
     \<not> Allowed (fst (AcquireRequest pick ''b'' 0 (with_room spent_limiter)))"
proof -
  have "full_map 0 spent_limiter" by code_simp
  moreover have "mget (rl_m spent_limiter) (principal_or_anonymous ''b'') = Some 1" by code_simp
  moreover have "1 < length (rl_objs spent_limiter)" by code_simp
  moreover have "\<not> fst (fst (allowToken 0 (RPS (rl_cfg spent_limiter)) (Burst (rl_cfg spent_limiter))
      (pl_tb (rl_objs spent_limiter ! 1))))" by code_simp
  ultimately have "Allowed (fst (AcquireRequest (\<lambda>_. principal_or_anonymous ''b'') ''b'' 0 spent_limiter)) \<and>
     \<not> Allowed (fst (AcquireRequest (\<lambda>_. principal_or_anonymous ''b'') ''b'' 0 (with_room spent_limiter)))"
    by (intro full_map_forgets_principal) simp_all
  then show ?thesis by blast
qed

end
