(* ===== verification/Interleave.thy ===== *)
theory Interleave
  imports ManagerInv "HOL-Library.Sublist"
begin

text \<open>
  The replay buffers of the chains in memory, under all interleavings of the manager's operations. An event
  gets its number in one critical section of its chain's mutex (\<open>nextEvent\<close>, \<open>emitRunEvent\<close>,
  \<open>emitClientToolCall\<close>, \<open>AttachChain\<close>, \<open>UpdateChain\<close>) and enters the buffer in
  another (\<open>bufferAndEmit\<close>), so that several events of a chain may be under way at once. The steps
  here are those sections; every operation of the manager is a path of them, and what holds after
  every path holds whatever runs concurrently.
\<close>

section \<open>Critical sections as steps\<close>

text \<open>The second part of a state lists the events under way: the chain and the number drawn for it.\<close>

type_synonym under_way = "(string \<times> int) list"

definition pending_of :: "string \<Rightarrow> under_way \<Rightarrow> int list" where
  "pending_of c P = map snd (filter (\<lambda>x. fst x = c) P)"

definition buffers :: "'s manager \<Rightarrow> string \<Rightarrow> (replay_buffer \<times> int) option" where
  "buffers m c = map_option (\<lambda>hc. (hc_replay hc, hc_nextEventID hc)) (mget (mg_chains m) c)"

text \<open>A number is drawn; an event under way is buffered and handed to the sink; an event is given up,
  because an error came between; a chain enters the memory (the events under way for a chain it replaces
  end in the buffer of that chain, which nobody reads any more); and whatever else the manager does
  leaves buffers and counters alone.\<close>

inductive cs_step :: "'s world \<Rightarrow> 's manager \<times> under_way \<Rightarrow> 's manager \<times> under_way \<Rightarrow> bool"
  for W :: "'s world" where
  cs_draw: "mget (mg_chains m) c = Some hc \<Longrightarrow> run_state (nextEvent c) m = (n, m') \<Longrightarrow>
    cs_step W (m, P) (m', (c, n) # P)"
| cs_buffer: "(c, eventID ev) \<in> set P \<Longrightarrow> run_state (bufferAndEmit W c ev) m = (r, m') \<Longrightarrow>
    cs_step W (m, P) (m', remove1 (c, eventID ev) P)"
| cs_drop: "cs_step W (m, P) (m, remove1 x P)"
| cs_create: "hc_replay hc = empty_buffer \<Longrightarrow> hc_nextEventID hc = 0 \<Longrightarrow>
    cs_step W (m, P) (m\<lparr>mg_chains := mput c hc (mg_chains m)\<rparr>, filter (\<lambda>x. fst x \<noteq> c) P)"
| cs_other: "buffers m' = buffers m \<Longrightarrow> cs_step W (m, P) (m', P)"

inductive_cases cs_stepE: "cs_step W s s'"

abbreviation cs_path :: "'s world \<Rightarrow> 's manager \<times> under_way \<Rightarrow> 's manager \<times> under_way \<Rightarrow> bool" where
  "cs_path W \<equiv> (cs_step W)\<^sup>*\<^sup>*"

section \<open>What every interleaving keeps\<close>

text \<open>The buffer is within its limits and its byte count exact; the numbers buffered and under way are
  all different, positive and drawn.\<close>

definition numbers_ok :: "int list \<Rightarrow> int \<Rightarrow> bool" where
  "numbers_ok ns n = (distinct ns \<and> 0 \<le> n \<and> (\<forall>k \<in> set ns. 0 < k \<and> k \<le> n))"

definition cs_inv :: "manager_config \<Rightarrow> 's manager \<Rightarrow> under_way \<Rightarrow> bool" where
  "cs_inv cfg m P = (\<forall>c b n. buffers m c = Some (b, n) \<longrightarrow>
     buffer_inv cfg b \<and> numbers_ok (map re_EventID (rb_replay b) @ pending_of c P) n)"

lemma buffers_draw:
  assumes "run_state (nextEvent c) m = (n, m')" "buffers m c = Some (b, k)"
  shows "n = k + 1 \<and> buffers m' = (buffers m)(c \<mapsto> (b, k + 1))"
proof -
  have "wp (nextEvent c) (\<lambda>n m'. n = k + 1 \<and> buffers m' = (buffers m)(c \<mapsto> (b, k + 1))) m"
    using assms(2) by (auto simp: nextEvent_def buffers_def fun_eq_iff)
  then show ?thesis using assms(1) by (simp add: wp_def)
qed

lemma buffers_buffer:
  assumes "run_state (bufferAndEmit W c ev) m = (r, m')"
  shows "buffers m' = buffers m \<or> (\<exists>b k b'. buffers m c = Some (b, k) \<and>
    buffer_event (w_cfg W) (w_codec W) ev b = Inr b' \<and> buffers m' = (buffers m)(c \<mapsto> (b', k)))"
proof -
  have "wp (bufferAndEmit W c ev) (\<lambda>r m'. buffers m' = buffers m \<or> (\<exists>b k b'. buffers m c = Some (b, k) \<and>
    buffer_event (w_cfg W) (w_codec W) ev b = Inr b' \<and> buffers m' = (buffers m)(c \<mapsto> (b', k)))) m"
    by (auto simp: bufferAndEmit_def buffers_def fun_eq_iff split: option.split sum.split)
  then show ?thesis using assms by (simp add: wp_def)
qed

lemma pending_of_simps [simp]:
  "pending_of c [] = []"
  "pending_of c ((c', n) # P) = (if c' = c then [n] else []) @ pending_of c P"
  "pending_of c (filter (\<lambda>x. fst x \<noteq> c') P) = (if c = c' then [] else pending_of c P)"
  by (auto simp: pending_of_def filter_empty_conv intro!: arg_cong [of _ _ "map snd"] filter_cong)

lemma set_pending_of: "n \<in> set (pending_of c P) \<longleftrightarrow> (c, n) \<in> set P"
  by (force simp: pending_of_def)

lemma pending_of_remove1: "pending_of c (remove1 (c', n) P) =
  (if c' = c then remove1 n (pending_of c P) else pending_of c P)"
  by (induction P) (auto simp: pending_of_def)

lemma numbers_ok_fewer:
  "numbers_ok (xs @ ns) k \<Longrightarrow> distinct ns' \<Longrightarrow> set ns' \<subseteq> set ns \<Longrightarrow> numbers_ok (xs @ ns') k"
  unfolding numbers_ok_def by fastforce

lemma numbers_ok_draw: 
  assumes "numbers_ok (xs @ ns) k"
  shows "numbers_ok (xs @ (k + 1) # ns) (k + 1)"
proof -
  have "k + 1 \<notin> set (xs @ ns)" using assms unfolding numbers_ok_def by (metis add_le_same_cancel1 not_one_le_zero)
  moreover have "0 < j \<and> j \<le> k + 1" if "j \<in> set (xs @ ns)" for j
    using assms that unfolding numbers_ok_def by (meson order_trans zle_add1_eq_le less_imp_le)
  ultimately show ?thesis using assms by (auto simp: numbers_ok_def)
qed

lemma numbers_ok_remove1:
  assumes "numbers_ok (xs @ pending_of c P) k"
  shows "numbers_ok (xs @ pending_of c (remove1 x P)) k"
proof (rule numbers_ok_fewer [OF assms])
  show "set (pending_of c (remove1 x P)) \<subseteq> set (pending_of c P)"
    using set_remove1_subset [of "snd x" "pending_of c P"] by (cases x) (simp add: pending_of_remove1)
  show "distinct (pending_of c (remove1 x P))"
    using assms by (cases x) (simp add: pending_of_remove1 numbers_ok_def distinct_remove1)
qed

lemma numbers_buffered:
  assumes "config_ok cfg" "buffer_inv cfg b" "buffer_event cfg codec ev b = Inr b'"
    and "numbers_ok (map re_EventID (rb_replay b) @ ns) k" "eventID ev \<in> set ns"
    and "distinct ns'" "set ns' \<subseteq> set ns - {eventID ev}"
  shows "buffer_inv cfg b' \<and> numbers_ok (map re_EventID (rb_replay b') @ ns') k"
proof
  show "buffer_inv cfg b'" using buffer_event_inv [OF assms(1-3)] .
  obtain dropped where "rb_replay b @ [entry_of codec ev] = dropped @ rb_replay b'"
    using buffer_event_suffix [OF assms(1-3)] unfolding suffix_def by blast
  then have "map re_EventID (rb_replay b @ [entry_of codec ev]) = map re_EventID (dropped @ rb_replay b')"
    by (rule arg_cong)
  then have eq: "map re_EventID (rb_replay b) @ [eventID ev] = map re_EventID dropped @ map re_EventID (rb_replay b')"
    by simp
  have "distinct (map re_EventID (rb_replay b) @ [eventID ev])"
    using assms(4,5) by (auto simp: numbers_ok_def)
  then have "distinct (map re_EventID (rb_replay b'))" unfolding eq by simp
  moreover have sub: "set (map re_EventID (rb_replay b')) \<subseteq> set (map re_EventID (rb_replay b)) \<union> {eventID ev}"
    using arg_cong [OF eq, of set] by auto
  moreover have "set ns' \<inter> (set (map re_EventID (rb_replay b)) \<union> {eventID ev}) = {}"
    using assms(4,7) by (auto simp: numbers_ok_def)
  moreover have "\<forall>k' \<in> set (map re_EventID (rb_replay b)) \<union> {eventID ev} \<union> set ns'. 0 < k' \<and> k' \<le> k"
    using assms(4,5,7) by (auto simp: numbers_ok_def)
  ultimately show "numbers_ok (map re_EventID (rb_replay b') @ ns') k"
    using assms(4,6) unfolding numbers_ok_def distinct_append set_append by blast
qed

lemma cs_inv_step:
  assumes cfg: "config_ok (w_cfg W)" and step: "cs_step W (m, P) (m', P')" and inv: "cs_inv (w_cfg W) m P"
  shows "cs_inv (w_cfg W) m' P'"
  using step
proof (cases rule: cs_step.cases)
  case (cs_draw c hc n)
  then obtain b k where bk: "buffers m c = Some (b, k)" by (auto simp: buffers_def)
  have ok: "numbers_ok (map re_EventID (rb_replay b) @ pending_of c P) k" and "buffer_inv (w_cfg W) b"
    using inv bk by (auto simp: cs_inv_def)
  moreover have "numbers_ok (map re_EventID (rb_replay b) @ (k + 1) # pending_of c P) (k + 1)"
    by (rule numbers_ok_draw [OF ok])
  ultimately show ?thesis using buffers_draw [OF cs_draw(3) bk] inv cs_draw(1)
    by (auto simp: cs_inv_def)
next
  case (cs_buffer c ev r)
  show ?thesis
  proof (cases "buffers m' = buffers m")
    case True
    then show ?thesis using inv by (auto simp: cs_inv_def cs_buffer(1) intro: numbers_ok_remove1)
  next
    case False
    then obtain b k b' where new: "buffers m c = Some (b, k)"
        "buffer_event (w_cfg W) (w_codec W) ev b = Inr b'" "buffers m' = (buffers m)(c \<mapsto> (b', k))"
      using buffers_buffer [OF cs_buffer(3)] by auto
    have ok: "numbers_ok (map re_EventID (rb_replay b) @ pending_of c P) k" "buffer_inv (w_cfg W) b"
      using inv new(1) by (auto simp: cs_inv_def)
    have "pending_of c P' = remove1 (eventID ev) (pending_of c P)"
      using cs_buffer(1) by (simp add: pending_of_remove1)
    moreover have "distinct (pending_of c P)" using ok(1) by (simp add: numbers_ok_def)
    ultimately have "buffer_inv (w_cfg W) b' \<and> numbers_ok (map re_EventID (rb_replay b') @ pending_of c P') k"
      using cs_buffer(2) by (intro numbers_buffered [OF cfg ok(2) new(2) ok(1)])
        (auto simp: set_pending_of)
    then show ?thesis using inv by (auto simp: cs_inv_def new(3) cs_buffer(1) intro: numbers_ok_remove1)
  qed
next
  case (cs_drop x)
  then show ?thesis using inv by (auto simp: cs_inv_def intro: numbers_ok_remove1)
next
  case (cs_create hc c)
  have "buffers m' c' = (if c' = c then Some (empty_buffer, 0) else buffers m c')" for c'
    using cs_create by (simp add: buffers_def)
  then show ?thesis using inv cfg cs_create(2)
    by (auto simp: cs_inv_def numbers_ok_def empty_buffer_def buffer_inv_empty [unfolded empty_buffer_def] split: if_splits)
next
  case cs_other
  then show ?thesis using inv by (simp add: cs_inv_def)
qed

lemma cs_inv_path:
  "cs_path W s s' \<Longrightarrow> config_ok (w_cfg W) \<Longrightarrow> cs_inv (w_cfg W) (fst s) (snd s) \<Longrightarrow>
   cs_inv (w_cfg W) (fst s') (snd s')"
  by (induction rule: rtranclp_induct) (auto intro: cs_inv_step)

lemma cs_inv_new: "cs_inv cfg (NewManager s0) []"
  by (simp add: cs_inv_def buffers_def NewManager_def)

section \<open>Operations are paths of critical sections\<close>

text \<open>The manager reached from \<open>s\<close> by such a path, with no more events under way than before, and
  the same with one number drawn.\<close>

definition reached :: "'s world \<Rightarrow> 's manager \<times> under_way \<Rightarrow> 's manager \<Rightarrow> bool" where
  "reached W s m = (runs_inv m \<and> (\<exists>P. cs_path W s (m, P) \<and> subseq P (snd s)))"

definition reached_drawn :: "'s world \<Rightarrow> 's manager \<times> under_way \<Rightarrow> string \<Rightarrow> int \<Rightarrow> 's manager \<Rightarrow> bool" where
  "reached_drawn W s c n m = (reached W s m \<and>
     (mget (mg_chains m) c \<noteq> None \<longrightarrow> (\<exists>P. cs_path W s (m, (c, n) # P) \<and> subseq P (snd s))))"

lemma reached_step:
  "reached W s m \<Longrightarrow> runs_inv m' \<Longrightarrow> (\<And>P. \<exists>P'. cs_step W (m, P) (m', P') \<and> subseq P' P) \<Longrightarrow> reached W s m'"
  unfolding reached_def by (meson rtranclp.rtrancl_into_rtrancl subseq_order.order_trans)

lemma path_other: "cs_path W s (m, P) \<Longrightarrow> buffers m' = buffers m \<Longrightarrow> cs_path W s (m', P)"
  by (meson cs_other rtranclp.rtrancl_into_rtrancl)

lemma buffers_eq: "mg_chains m = mg_chains m' \<Longrightarrow> buffers m = buffers m'"
  by (simp add: buffers_def fun_eq_iff)

lemma on_chainsI: "(\<And>m m'. mg_chains m = mg_chains m' \<Longrightarrow> P m \<Longrightarrow> P m') \<Longrightarrow> on_chains P"
  unfolding on_chains_def by metis

lemma on_chains_reached: "on_chains (reached W s)"
proof (rule on_chainsI)
  fix m m' :: "'a manager" assume eq: "mg_chains m = mg_chains m'" and "reached W s m"
  then show "reached W s m'"
    using on_chains_eq [OF on_chains_runs eq] path_other [OF _ buffers_eq [OF eq [symmetric]]]
    unfolding reached_def by blast
qed

lemma on_chains_drawn: "on_chains (reached_drawn W s c n)"
proof (rule on_chainsI)
  fix m m' :: "'a manager" assume eq: "mg_chains m = mg_chains m'" and "reached_drawn W s c n m"
  then show "reached_drawn W s c n m'"
    using on_chains_eq [OF on_chains_reached eq] path_other [OF _ buffers_eq [OF eq [symmetric]]]
    unfolding reached_drawn_def eq by blast
qed

lemma reached_runs: "reached W s m \<Longrightarrow> runs_inv m"
  by (simp add: reached_def)

text \<open>What runs from a reached state, by one critical section, reaches the state it ends in.\<close>

lemma draw_reached:
  assumes "reached W s m"
  shows "wp (nextEvent c) (\<lambda>n. reached_drawn W s c n) m"
proof (cases "mget (mg_chains m) c")
  case None
  then show ?thesis using assms by (simp add: nextEvent_def reached_drawn_def upd_map_def)
next
  case (Some hc)
  obtain n m' where run: "run_state (nextEvent c) m = (n, m')" by (cases "run_state (nextEvent c) m")
  obtain P where P: "cs_path W s (m, P)" "subseq P (snd s)" using assms by (auto simp: reached_def)
  have drawn: "cs_path W s (m', (c, n) # P)"
    using P(1) cs_draw [OF Some run] by (rule rtranclp.rtrancl_into_rtrancl)
  moreover have "cs_step W (m', (c, n) # P) (m', P)" using cs_drop [of W m' "(c, n) # P" "(c, n)"] by simp
  ultimately have "cs_path W s (m', P)" by (rule rtranclp.rtrancl_into_rtrancl)
  moreover have "runs_inv m'"
    using calls.J_draw [OF reached_runs [OF assms], of c] by (simp add: wp_def run)
  ultimately show ?thesis using P(2) drawn by (auto simp: wp_def run reached_drawn_def reached_def)
qed

lemma buffer_reached: "triple (reached_drawn W s c (eventID ev)) (bufferAndEmit W c ev) (reached W s)"
  unfolding triple_def
proof (intro allI impI)
  fix m assume drawn: "reached_drawn W s c (eventID ev) m"
  then have m: "reached W s m" by (simp add: reached_drawn_def)
  show "wp (bufferAndEmit W c ev) (\<lambda>_. reached W s) m"
  proof (cases "mget (mg_chains m) c")
    case None
    then show ?thesis using m by (simp add: bufferAndEmit_def)
  next
    case (Some hc)
    then obtain P where P: "cs_path W s (m, (c, eventID ev) # P)" "subseq P (snd s)"
      using drawn by (auto simp: reached_drawn_def)
    obtain r m' where run: "run_state (bufferAndEmit W c ev) m = (r, m')"
      by (cases "run_state (bufferAndEmit W c ev) m")
    have "cs_path W s (m', P)"
      using P(1) cs_buffer [of c ev "(c, eventID ev) # P", OF _ run]
      by (simp add: rtranclp.rtrancl_into_rtrancl)
    moreover have "runs_inv m'"
      using calls.J_emit [of W c ev] reached_runs [OF m] run by (force simp: triple_def wp_def)
    ultimately show ?thesis using P(2) by (auto simp: wp_def run reached_def)
  qed
qed

interpretation paths: critical_sections W "reached W s" "reached_drawn W s"
  for W :: "'s world" and s :: "'s manager \<times> under_way"
proof
  show "on_chains (reached W s)" "on_chains (reached_drawn W s c n)" for W :: "'s world" and s c n
    by (rule on_chains_reached on_chains_drawn)+
  show "reached W s m" if "reached_drawn W s c n m" for W :: "'s world" and s c n m
    using that by (simp add: reached_drawn_def)
  show "runs_inv m" if "reached W s m" for W :: "'s world" and s m
    using that by (simp add: reached_def)
  show "reached W s (m\<lparr>mg_chains := mput c hc' (mg_chains m)\<rparr>)"
    if "reached W s m" "mget (mg_chains m) c = Some hc" "kept hc hc'" for W :: "'s world" and s m c hc hc'
  proof -
    let ?m = "m\<lparr>mg_chains := mput c hc' (mg_chains m)\<rparr>"
    have "buffers ?m = buffers m" using that(2,3) by (auto simp: buffers_def kept_def fun_eq_iff)
    moreover have "runs_inv ?m" using that unfolding reached_def runs_inv_def kept_def by auto
    ultimately show ?thesis by (intro reached_step [OF that(1)]) (auto intro: cs_other)
  qed
  show "reached W s (m\<lparr>mg_chains := mput c hc (mg_chains m)\<rparr>)"
    if "reached W s m" "new_chain hc" for W :: "'s world" and s m c hc
  proof (rule reached_step [OF that(1)])
    show "runs_inv (m\<lparr>mg_chains := mput c hc (mg_chains m)\<rparr>)"
      using that unfolding reached_def runs_inv_def new_chain_def runs_ok_def by auto
    show "\<exists>P'. cs_step W (m, P) (m\<lparr>mg_chains := mput c hc (mg_chains m)\<rparr>, P') \<and> subseq P' P" for P
      using that(2) cs_create [of hc W m P c] by (auto simp: new_chain_def intro: subseq_filter_left)
  qed
  show "wp (nextEvent c) (\<lambda>n. reached_drawn W s c n) m" if "reached W s m" for W :: "'s world" and s c m
    using that by (rule draw_reached)
  show "triple (reached_drawn W s c (eventID ev)) (bufferAndEmit W c ev) (reached W s)"
    for W :: "'s world" and s c ev
    by (rule buffer_reached)
qed

text \<open>C5. The operations interleave by these steps alone: whatever a whole operation of the manager, a turn of a run
  or the cleanup after it does, it does by a path of critical sections, also while events of other operations
  are under way, and it leaves no event of its own under way.\<close>

theorem operations_interleave:
  assumes "mgr_step W m m'" "runs_inv m"
  shows "\<exists>P'. cs_path W (m, P) (m', P') \<and> subseq P' P"
proof -
  have "reached W (m, P) m" using assms(2) by (auto simp: reached_def)
  then have "reached W (m, P) m'" by (rule paths.step_keeps [OF assms(1)])
  then show ?thesis by (simp add: reached_def)
qed

section \<open>Operations one after the other\<close>

text \<open>When operations do not overlap, events enter the buffer in the order of their numbers.\<close>

definition chain_ok :: "manager_config \<Rightarrow> hot_chain \<Rightarrow> bool" where
  "chain_ok cfg hc =
     (buffer_inv cfg (hc_replay hc) \<and>
      sorted_wrt (<) (map re_EventID (rb_replay (hc_replay hc))) \<and>
      (\<forall>e \<in> set (rb_replay (hc_replay hc)). re_EventID e \<le> hc_nextEventID hc))"

definition mgr_inv :: "'s world \<Rightarrow> 's manager \<Rightarrow> bool" where
  "mgr_inv W m = (\<forall>c hc. mget (mg_chains m) c = Some hc \<longrightarrow> chain_ok (w_cfg W) hc)"

text \<open>Between the drawing of an event number and the buffering of its event.\<close>

definition fresh :: "'s world \<Rightarrow> string \<Rightarrow> int \<Rightarrow> 's manager \<Rightarrow> bool" where
  "fresh W c n m = (mgr_inv W m \<and>
     (\<forall>hc. mget (mg_chains m) c = Some hc \<longrightarrow>
        n \<le> hc_nextEventID hc \<and> (\<forall>e \<in> set (rb_replay (hc_replay hc)). re_EventID e < n)))"

lemma fresh_inv: "fresh W c n m \<Longrightarrow> mgr_inv W m"
  by (simp add: fresh_def)

lemma chain_ok_buffer:
  assumes cfg: "config_ok cfg" and ok: "chain_ok cfg hc"
    and new: "\<forall>e \<in> set (rb_replay (hc_replay hc)). re_EventID e < eventID ev"
      "eventID ev \<le> hc_nextEventID hc"
    and buf: "buffer_event cfg codec ev (hc_replay hc) = Inr b"
  shows "chain_ok cfg (hc\<lparr>hc_replay := b\<rparr>)"
proof -
  have inv: "buffer_inv cfg (hc_replay hc)" using ok by (simp add: chain_ok_def)
  obtain dropped where d: "rb_replay (hc_replay hc) @ [entry_of codec ev] = dropped @ rb_replay b"
    using buffer_event_suffix [OF cfg inv buf] unfolding suffix_def by blast
  have sorted: "sorted_wrt (<) (map re_EventID (dropped @ rb_replay b))"
    unfolding d [symmetric] using ok new(1) by (auto simp: chain_ok_def sorted_wrt_append)
  have "set (rb_replay b) \<subseteq> set (rb_replay (hc_replay hc) @ [entry_of codec ev])"
    unfolding d by simp
  then have "\<forall>e \<in> set (rb_replay b). re_EventID e \<le> hc_nextEventID hc"
    using ok new(2) by (auto simp: chain_ok_def)
  then show ?thesis
    using sorted ok buffer_event_inv [OF cfg inv buf] by (simp add: chain_ok_def sorted_wrt_append)
qed

lemma mgr_inv_put:
  "mgr_inv W m \<Longrightarrow> chain_ok (w_cfg W) hc \<Longrightarrow> mgr_inv W (m\<lparr>mg_chains := mput c hc (mg_chains m)\<rparr>)"
  by (auto simp: mgr_inv_def)

lemma triple_emit_fresh:
  assumes "config_ok (w_cfg W)" "eventID ev = n"
  shows "triple (fresh W c n) (bufferAndEmit W c ev) (mgr_inv W)"
  unfolding triple_def
proof (intro allI impI)
  fix m assume fr: "fresh W c n m"
  then have inv: "mgr_inv W m" by (rule fresh_inv)
  show "wp (bufferAndEmit W c ev) (\<lambda>_. mgr_inv W) m"
  proof (cases "mget (mg_chains m) c")
    case None
    then show ?thesis using inv by (simp add: bufferAndEmit_def)
  next
    case (Some hc)
    show ?thesis
    proof (cases "buffer_event (w_cfg W) (w_codec W) ev (hc_replay hc)")
      case (Inl e)
      then show ?thesis using inv Some by (simp add: bufferAndEmit_def)
    next
      case (Inr b)
      have "chain_ok (w_cfg W) (hc\<lparr>hc_replay := b\<rparr>)"
        using fr inv Some assms by (intro chain_ok_buffer [OF _ _ _ _ Inr])
          (auto simp: fresh_def mgr_inv_def)
      then have put: "mgr_inv W (m\<lparr>mg_chains := mput c (hc\<lparr>hc_replay := b\<rparr>) (mg_chains m)\<rparr>)"
        by (rule mgr_inv_put [OF inv])
      then have "mgr_inv W (m\<lparr>mg_chains := mput c (hc\<lparr>hc_replay := b\<rparr>) (mg_chains m),
          mg_sent := x\<rparr>)" for x
        by (simp add: mgr_inv_def)
      then show ?thesis
        using Some Inr put by (simp add: bufferAndEmit_def split: option.splits)
    qed
  qed
qed

lemma fresh_nextEvent:
  assumes "mgr_inv W m"
  shows "wp (nextEvent c) (\<lambda>n. fresh W c n) m"
proof (cases "mget (mg_chains m) c")
  case None
  then show ?thesis using assms by (simp add: nextEvent_def fresh_def upd_map_def)
next
  case (Some hc)
  then have "chain_ok (w_cfg W) hc" using assms by (simp add: mgr_inv_def)
  then show ?thesis
    using assms Some by (fastforce simp: nextEvent_def fresh_def mgr_inv_def chain_ok_def)
qed

lemma chain_ok_kept: "chain_ok cfg hc \<Longrightarrow> kept hc hc' \<Longrightarrow> chain_ok cfg hc'"
  by (simp add: chain_ok_def kept_def)

lemma chain_ok_new: "config_ok cfg \<Longrightarrow> new_chain hc \<Longrightarrow> chain_ok cfg hc"
  by (simp add: chain_ok_def new_chain_def) (simp add: empty_buffer_def)

lemma wp_both: "wp m P s \<Longrightarrow> wp m Q s \<Longrightarrow> wp m (\<lambda>a s'. P a s' \<and> Q a s') s"
  by (simp add: wp_def case_prod_beta)

lemma on_chains_serial:
  "on_chains (\<lambda>m. runs_inv m \<and> (config_ok (w_cfg W) \<longrightarrow> mgr_inv W m))"
  "on_chains (\<lambda>m. runs_inv m \<and> (config_ok (w_cfg W) \<longrightarrow> fresh W c n m))"
  by (rule on_chainsI, auto simp: mgr_inv_def fresh_def runs_inv_def)+

interpretation serial: critical_sections W "\<lambda>m. runs_inv m \<and> (config_ok (w_cfg W) \<longrightarrow> mgr_inv W m)"
    "\<lambda>c n m. runs_inv m \<and> (config_ok (w_cfg W) \<longrightarrow> fresh W c n m)"
  for W :: "'s world"
proof
  fix W :: "'s world" and c n and m :: "'s manager" and hc hc' ev
  let ?I = "\<lambda>m. runs_inv m \<and> (config_ok (w_cfg W) \<longrightarrow> mgr_inv W m)"
  let ?J = "\<lambda>c n m. runs_inv m \<and> (config_ok (w_cfg W) \<longrightarrow> fresh W c n m)"
  show "on_chains ?I" "on_chains (?J c n)" by (rule on_chains_serial)+
  show "?I m" if "?J c n m" using that fresh_inv by blast
  show "runs_inv m" if "?I m" using that ..
  show "?I (m\<lparr>mg_chains := mput c hc' (mg_chains m)\<rparr>)"
    if "?I m" "mget (mg_chains m) c = Some hc" "kept hc hc'"
    using that calls.I_kept [OF _ that(2,3)] chain_ok_kept [OF _ that(3)]
    by (auto simp: mgr_inv_def [of W m] intro!: mgr_inv_put)
  show "?I (m\<lparr>mg_chains := mput c hc (mg_chains m)\<rparr>)" if "?I m" "new_chain hc"
    using that calls.I_new [OF _ that(2)] by (auto intro!: mgr_inv_put chain_ok_new)
  show "wp (nextEvent c) (\<lambda>n. ?J c n) m" if "?I m"
    using wp_both [OF calls.J_draw [of m c] fresh_nextEvent [of W m c]] calls.J_draw [of m c] that
    by (cases "config_ok (w_cfg W)") simp_all
  show "triple (?J c (eventID ev)) (bufferAndEmit W c ev) ?I"
    using calls.J_emit [of W c ev] triple_emit_fresh [of W ev _ c]
    by (cases "config_ok (w_cfg W)") (auto simp: triple_def intro: wp_both)
qed

text \<open>The managers reached by whole operations.\<close>

inductive reachable :: "'s world \<Rightarrow> 's \<Rightarrow> 's manager \<Rightarrow> bool" for W :: "'s world" and s0 :: 's where
  reach_new: "reachable W s0 (NewManager s0)"
| reach_step: "reachable W s0 m \<Longrightarrow> mgr_step W m m' \<Longrightarrow> reachable W s0 m'"

lemma inv_NewManager: "mgr_inv W (NewManager s0)" "runs_inv (NewManager s0)"
  by (simp_all add: mgr_inv_def runs_inv_def NewManager_def)

lemma reachable_in_order:
  assumes "reachable W s0 m" "config_ok (w_cfg W)"
  shows "mgr_inv W m"
proof -
  have "runs_inv m \<and> (config_ok (w_cfg W) \<longrightarrow> mgr_inv W m)"
    using assms(1) by (induction rule: reachable.induct) (simp add: inv_NewManager, rule serial.step_keeps)
  then show ?thesis using assms(2) by simp
qed

section \<open>Operations that overlap\<close>

text \<open>A buffer whose numbers are all at most the last one the client has seen has nothing to
  replay.\<close>

lemma nothing_to_replay:
  "0 < after \<Longrightarrow> rb_replay b \<noteq> [] \<Longrightarrow> \<forall>e \<in> set (rb_replay b). re_EventID e \<le> after \<Longrightarrow>
   replayAfter codec after exact b = Inr (ReplayStatusNone, [])"
  by (auto simp: replayAfter_def dropWhile_eq_Nil_conv [THEN iffD2] split: list.split)

text \<open>Of two events of a chain the later one may be buffered first: then a client that has seen the later one
  and reattaches is not told of the earlier one, also when it asks for an exact replay, although that event is
  in the buffer.\<close>

lemma buffers_draw_step:
  assumes "buffers m c = Some (b, k)"
  shows "\<exists>m'. cs_step W (m, P) (m', (c, k + 1) # P) \<and> buffers m' c = Some (b, k + 1)"
proof -
  obtain hc where hc: "mget (mg_chains m) c = Some hc" using assms by (auto simp: buffers_def)
  obtain n m' where run: "run_state (nextEvent c) m = (n, m')" by (cases "run_state (nextEvent c) m")
  then show ?thesis using cs_draw [OF hc run, of W P] buffers_draw [OF run assms] by auto
qed

lemma buffers_buffer_step:
  assumes "buffers m c = Some (b, k)" "buffer_event (w_cfg W) (w_codec W) ev b = Inr b'" "(c, eventID ev) \<in> set P"
  shows "\<exists>m'. cs_step W (m, P) (m', remove1 (c, eventID ev) P) \<and> buffers m' c = Some (b', k)"
proof -
  have "wp (bufferAndEmit W c ev) (\<lambda>_ m'. buffers m' c = Some (b', k)) m"
    using assms(1,2) by (auto simp: bufferAndEmit_def buffers_def split: option.split)
  moreover obtain r m' where run: "run_state (bufferAndEmit W c ev) m = (r, m')"
    by (cases "run_state (bufferAndEmit W c ev) m")
  ultimately show ?thesis using cs_buffer [OF assms(3) run] by (auto simp: wp_def)
qed

lemma overtaken_event_not_replayed:
  assumes b: "buffers m c = Some (b, k)" and inv: "cs_inv (w_cfg W) m P" and cfg: "config_ok (w_cfg W)"
    and e: "eventID e1 = k + 1" "eventID e2 = k + 2"
    and b2: "buffer_event (w_cfg W) (w_codec W) e2 b = Inr b2"
    and b1: "buffer_event (w_cfg W) (w_codec W) e1 b2 = Inr b1" and kept: "rb_replay b1 \<noteq> []"
  shows "\<exists>m'. cs_path W (m, P) (m', P) \<and> buffers m' c = Some (b1, k + 2) \<and>
    last (rb_replay b1) = entry_of (w_codec W) e1 \<and>
    replayAfter (w_codec W) (k + 2) True b1 = Inr (ReplayStatusNone, [])"
proof -
  obtain m1 where 1: "cs_step W (m, P) (m1, (c, k + 1) # P)" "buffers m1 c = Some (b, k + 1)"
    using buffers_draw_step [OF b] by blast
  obtain m2 where 2: "cs_step W (m1, (c, k + 1) # P) (m2, (c, k + 2) # (c, k + 1) # P)" "buffers m2 c = Some (b, k + 2)"
    using buffers_draw_step [OF 1(2), of W "(c, k + 1) # P"] by (auto simp: add.assoc)
  obtain m3 where 3: "cs_step W (m2, (c, k + 2) # (c, k + 1) # P) (m3, (c, k + 1) # P)" "buffers m3 c = Some (b2, k + 2)"
    using buffers_buffer_step [OF 2(2) b2, of "(c, k + 2) # (c, k + 1) # P"] e by auto
  obtain m4 where 4: "cs_step W (m3, (c, k + 1) # P) (m4, P)" "buffers m4 c = Some (b1, k + 2)"
    using buffers_buffer_step [OF 3(2) b1, of "(c, k + 1) # P"] e by auto
  have path: "cs_path W (m, P) (m4, P)"
    using 1(1) 2(1) 3(1) 4(1) by (meson rtranclp.rtrancl_into_rtrancl rtranclp.rtrancl_refl)
  have ok: "buffer_inv (w_cfg W) b" and k: "0 \<le> k" "\<forall>x \<in> set (rb_replay b). re_EventID x \<le> k"
    using inv b by (auto simp: cs_inv_def numbers_ok_def)
  have ok2: "buffer_inv (w_cfg W) b2" using buffer_event_inv [OF cfg ok b2] .
  have s2: "suffix (rb_replay b2) (rb_replay b @ [entry_of (w_codec W) e2])"
    and s1: "suffix (rb_replay b1) (rb_replay b2 @ [entry_of (w_codec W) e1])"
    using buffer_event_suffix [OF cfg ok b2] buffer_event_suffix [OF cfg ok2 b1] .
  have "last (rb_replay b1) = entry_of (w_codec W) e1"
    using s1 kept by (auto simp: suffix_def) (metis last_appendR last_snoc)
  moreover have "\<forall>x \<in> set (rb_replay b1). re_EventID x \<le> k + 2"
    using set_mono_suffix [OF s1] set_mono_suffix [OF s2] k e by fastforce
  then have "replayAfter (w_codec W) (k + 2) True b1 = Inr (ReplayStatusNone, [])"
    using k(1) kept by (intro nothing_to_replay) simp_all
  ultimately show ?thesis using path 4(2) by blast
qed

section \<open>The invariant\<close>

text \<open>C4. However the critical sections of the manager's operations interleave, the replay buffer of each chain
  in memory respects the configured limits and its byte count is exact; the numbers of the events in the buffer
  and of those still to be buffered are all different, positive and at most the chain's counter.\<close>

theorem interleaved_invariant:
  assumes "cs_path W (NewManager s0, []) (m, P)" "config_ok (w_cfg W)"
  shows "cs_inv (w_cfg W) m P"
  using cs_inv_path [OF assms] by (simp add: cs_inv_new)

end
