(* ===== verification/Witnesses.thy ===== *)
theory Witnesses
  imports Examples Accumulator RunStart InStep RateLimit Interleave
begin

text \<open>
  Concrete inputs on which the hypotheses of the properties hold.
\<close>

section \<open>Replay\<close>

definition demo_buffer :: replay_buffer where
  "demo_buffer = \<lparr>rb_replay = [\<lparr>re_EventID = 1, re_Data = ''i''\<rparr>, \<lparr>re_EventID = 2, re_Data = ''ii''\<rparr>],
     rb_bytes = 3\<rparr>"

lemma config_ok_demo: "config_ok demo_config"
  by (simp add: config_ok_def demo_config_def second_def)

lemma demo_buffered: "buffer_all demo_config demo_codec [demo_event 1, demo_event 2] empty_buffer = Inr demo_buffer"
  by (simp add: buffer_event_def demo_codec_def demo_event_def demo_config_def empty_buffer_def
      demo_buffer_def numeral_2_eq_2 Let_def)

lemma buffer_is_longest_suffix_witness:
  "longest demo_config (rb_replay demo_buffer) (map (entry_of demo_codec) [demo_event 1, demo_event 2])"
  by (rule buffer_is_longest_suffix [OF config_ok_demo demo_buffered])

lemma exact_replay_witness:
  "case replayAfter demo_codec 1 True demo_buffer of
     Inr (_, events) \<Rightarrow> events = [demo_event 2] | Inl e \<Rightarrow> False"
proof -
  have "increasing [demo_event 1, demo_event 2]" by (simp add: demo_event_def increasing_def)
  moreover have "faithful_on demo_codec [demo_event 1, demo_event 2]"
    by (simp add: faithful_on_def demo_codec_def demo_event_def)
  ultimately show ?thesis
    using exact_replay [OF config_ok_demo demo_buffered, of 1]
    by (auto simp: demo_event_def demo_buffer_def split: sum.splits)
qed

section \<open>Content, messages and usage\<close>

definition demo_result :: block where
  "demo_result = ToolResultBlock ''tool_result'' ''t1'' [TextBlock ''text'' ''ok''] False"

definition demo_message :: message where
  "demo_message = \<lparr>msg_Role = ''user'', msg_Content = CBlocks (Some [demo_result])\<rparr>"

lemma content_blocks_roundtrip_witness:
  "UnmarshalContentBlocks (json_of_blocks (Some [TextBlock ''text'' ''hi'', demo_result])) =
   Some [TextBlock ''text'' ''hi'', demo_result]"
  by (rule content_blocks_roundtrip) (simp add: demo_result_def)

lemma decoded_blocks_canonical_witness:
  "UnmarshalContentBlocks (json_of_blocks (Some [TextBlock ''text'' ''hi''])) =
   Some [TextBlock ''text'' ''hi'']"
proof -
  let ?j = "JArr [JObj [(''type'', JStr ''text''), (''text'', JStr ''hi'')]]"
  have "UnmarshalContentBlocks ?j = Some [TextBlock ''text'' ''hi'']" by code_simp
  from decoded_blocks_canonical [OF this] show ?thesis by simp
qed

lemma message_roundtrip_witness:
  "message_UnmarshalJSON (message_MarshalJSON demo_message) = Some demo_message"
  by (rule message_roundtrip)
    (simp add: demo_message_def demo_result_def well_formed_message_def well_formed_content_def)

definition demo_usage :: usage where
  "demo_usage = zero_usage\<lparr>InputTokens := 3, OutputTokens := 4\<rparr>"

lemma usage_sums_totals_witness:
  "effective_total (foldl usage_Add zero_usage [demo_usage, demo_usage]) = 14"
proof -
  have "list_all usage_nonneg [demo_usage, demo_usage]"
    by (simp add: demo_usage_def usage_nonneg_def zero_usage_def)
  from usage_sums_totals [OF this] show ?thesis
    by (simp add: demo_usage_def effective_total_def zero_usage_def)
qed

lemma clone_messages_idempotent_witness:
  "cloneMessages (cloneMessages ([demo_message])) = cloneMessages ([demo_message])"
  by (rule clone_messages_idempotent) (simp add: demo_message_def typed_content_def)

section \<open>Streams\<close>

lemma streamed_tool_input_witness:
  "case ApplyAll (\<lambda>s. Some (Some [(s, JNull)]))
     [ContentBlockStartEvent 0 (ToolUseBlock ''tool_use'' ''u'' ''look'' None),
      ContentBlockDeltaEvent 0 (InputJSONDelta ''a''),
      ContentBlockDeltaEvent 0 (InputJSONDelta ''b''), ContentBlockStopEvent 0]
     NewStreamAccumulator of
   None \<Rightarrow> False
   | Some a \<Rightarrow> block_at (resp_Content (Response (\<lambda>s. Some (Some [(s, JNull)])) a)) 0 =
       ToolUseBlock ''tool_use'' ''u'' ''look'' (Some [(''ab'', JNull)])"
  (is "case ?run of None \<Rightarrow> False | Some a \<Rightarrow> ?P a")
proof (cases ?run)
  case (Some a)
  then show ?thesis
    using streamed_tool_input [OF Some, of 0 "''tool_use''" "''u''" "''look''" None "''a''" "[''b'']"]
    by (simp add: events_at_def)
qed (simp add: ensureContentIndex_def)

section \<open>Defaults, scopes and keys\<close>

definition demo_patch :: chain_defaults where
  "demo_patch = zero_defaults\<lparr>cd_Model := ''openai/gpt''\<rparr>"

lemma merge_defaults_compose_witness:
  "mergeDefaults (mergeDefaults demo_defaults demo_patch) zero_defaults =
   mergeDefaults demo_defaults (mergeDefaults demo_patch zero_defaults)"
  by (rule merge_defaults_compose)
    (simp_all add: plain_patch_def demo_patch_def zero_defaults_def typed_content_def)

lemma authorized_providers_exact_witness: "''anthropic'' \<in> set (AuthorizedProviders demo_scope)"
proof -
  have "trim_space ''sk'' \<noteq> []" by code_simp
  then show ?thesis
    using authorized_providers_exact [of demo_scope "''anthropic''"]
    by (simp add: demo_scope_def mwf_def provider_key_def mget_def)
qed

lemma idempotency_key_injective_witness:
  "idempotencyMapKey (idem_scope demo_principal [] ''chain.start'' ''k1'') \<noteq>
   idempotencyMapKey (idem_scope demo_principal [] ''chain.start'' ''k2'')"
  using idempotency_key_injective [of "idem_scope demo_principal [] ''chain.start'' ''k1''"
    "idem_scope demo_principal [] ''chain.start'' ''k2''"]
  by (auto simp: idem_scope_def demo_principal_def colon_free_def)

section \<open>Interleaved operations\<close>

text \<open>Two events are under way on a chain; the later one is buffered first.\<close>

definition empty_chain :: hot_chain where
  "empty_chain = idle_chain\<lparr>hc_replay := empty_buffer, hc_nextEventID := 0\<rparr>"

definition cs_state :: "nat \<Rightarrow> memory_store manager" where
  "cs_state k = foldl (\<lambda>m f. f m)
     ((NewManager NewMemoryStore)\<lparr>mg_chains := mput demo_chain empty_chain (mg_chains (NewManager NewMemoryStore))\<rparr>)
     (take k [snd \<circ> run_state (nextEvent demo_chain), snd \<circ> run_state (nextEvent demo_chain),
        snd \<circ> run_state (bufferAndEmit demo_world demo_chain (demo_event 2))])"

lemma cs_state_chain:
  "\<exists>hc. mget (mg_chains (cs_state 0)) demo_chain = Some hc"
  "\<exists>hc. mget (mg_chains (cs_state 1)) demo_chain = Some hc"
proof -
  have "\<not> Option.is_none (mget (mg_chains (cs_state 0)) demo_chain)"
    "\<not> Option.is_none (mget (mg_chains (cs_state 1)) demo_chain)" by code_simp+
  then show "\<exists>hc. mget (mg_chains (cs_state 0)) demo_chain = Some hc"
    "\<exists>hc. mget (mg_chains (cs_state 1)) demo_chain = Some hc"
    by (simp_all add: Option.is_none_def)
qed

lemma interleaved_invariant_witness:
  "cs_inv demo_config (cs_state 3) [(demo_chain, 1)]"
proof -
  have s0: "cs_step demo_world (NewManager NewMemoryStore, []) (cs_state 0, [])"
    using cs_create [of empty_chain demo_world "NewManager NewMemoryStore" "[]" demo_chain]
    by (simp add: cs_state_def empty_chain_def)
  have r1: "run_state (nextEvent demo_chain) (cs_state 0) = (1, cs_state 1)"
  proof (rule prod_eqI)
    show "fst (run_state (nextEvent demo_chain) (cs_state 0)) = fst (1, cs_state 1)" unfolding fst_conv by code_simp
  qed (simp add: cs_state_def)
  have r2: "run_state (nextEvent demo_chain) (cs_state 1) = (2, cs_state 2)"
  proof (rule prod_eqI)
    show "fst (run_state (nextEvent demo_chain) (cs_state 1)) = fst (2, cs_state 2)" unfolding fst_conv by code_simp
  qed (simp add: cs_state_def)
  have r3: "run_state (bufferAndEmit demo_world demo_chain (demo_event 2)) (cs_state 2) =
      (fst (run_state (bufferAndEmit demo_world demo_chain (demo_event 2)) (cs_state 2)), cs_state 3)"
    by (rule prod_eqI) (simp_all add: cs_state_def)
  have s1: "cs_step demo_world (cs_state 0, []) (cs_state 1, [(demo_chain, 1)])"
    using cs_state_chain(1) r1 by (auto intro: cs_draw)
  have s2: "cs_step demo_world (cs_state 1, [(demo_chain, 1)]) (cs_state 2, [(demo_chain, 2), (demo_chain, 1)])"
    using cs_state_chain(2) r2 by (auto intro: cs_draw)
  have "eventID (demo_event 2) = 2" by (simp add: demo_event_def)
  then have s3: "cs_step demo_world (cs_state 2, [(demo_chain, 2), (demo_chain, 1)]) (cs_state 3, [(demo_chain, 1)])"
    using cs_buffer [of demo_chain "demo_event 2" "[(demo_chain, 2), (demo_chain, 1)]", OF _ r3] by simp
  have "cs_path demo_world (NewManager NewMemoryStore, []) (cs_state 3, [(demo_chain, 1)])"
    using s0 s1 s2 s3 by (meson rtranclp.rtrancl_into_rtrancl rtranclp.rtrancl_refl)
  then have "cs_inv (w_cfg demo_world) (cs_state 3) [(demo_chain, 1)]"
    by (rule interleaved_invariant) (simp add: demo_world_def config_ok_demo)
  then show ?thesis by (simp add: demo_world_def)
qed

lemma operations_interleave_witness:
  "\<exists>P'. cs_path demo_world (NewManager NewMemoryStore, [(demo_chain, 1)])
     (snd (run_state (StartChain demo_world demo_principal ws_env demo_start ''k'') (NewManager NewMemoryStore)), P') \<and>
     subseq P' [(demo_chain, 1)]"
  by (rule operations_interleave [OF step_start]) (rule inv_NewManager)

section \<open>Attachments\<close>

lemma attach_rotates_token_witness:
  "case run_state (AttachChain demo_world demo_principal ws_env demo_attach) idle_manager of
     (r, m) \<Rightarrow> rotated demo_world demo_chain AttachmentModeTurnWS ''ht1'' r m \<and> \<not> isl r"
proof -
  have hot: "run_state (requireChain demo_world (af_ChainID demo_attach)) idle_manager = (Inr idle_chain, idle_manager)"
    by (simp add: requireChain_def hotChain_def demo_attach_def idle_manager_def demo_chain_def mget_def)
  have hash: "hc_resumeTokenHash idle_chain = ''ht1''" by (simp add: idle_chain_def)
  have "\<forall>n \<ge> mg_draws idle_manager. hashToken demo_world (''chain_rt_'' @ w_rand demo_world 18 n) \<noteq> hc_resumeTokenHash idle_chain"
    by (simp add: hash hashToken_def demo_world_def)
  from attach_rotates_token [OF hot this, of demo_principal ws_env]
  have "wp (AttachChain demo_world demo_principal ws_env demo_attach)
      (rotated demo_world demo_chain AttachmentModeTurnWS ''ht1'') idle_manager"
    by (simp add: hash demo_attach_def ws_env_def)
  moreover have "\<not> isl (fst (run_state (AttachChain demo_world demo_principal ws_env demo_attach) idle_manager))"
    by code_simp
  ultimately show ?thesis by (simp add: wp_def case_prod_beta)
qed

section \<open>Runs\<close>

definition demo_active :: active_run where
  "demo_active = new_active_run (new_run_record ''r1'' demo_chain idle_chain ws_env demo_run ''k''
     demo_defaults 1000 []) ws_env
     \<lparr>adm_lease = None, adm_effective = demo_defaults, adm_registry = None, adm_history = []\<rparr>"

lemma idle_manager_ok: "runs_inv idle_manager"
  by (simp add: runs_inv_def runs_ok_def idle_manager_def NewManager_def idle_chain_def mget_def)

lemma tool_calls_answered_witness:
  "wp (resolveToolBatch demo_world demo_chain demo_active 0
      [\<lparr>use_ID = ''u1'', use_Name = ''look'', use_Input = None\<rparr>] NewImageRefRegistry [])
    (\<lambda>r _. answered demo_active [\<lparr>use_ID = ''u1'', use_Name = ''look'', use_Input = None\<rparr>] r)
    idle_manager"
  by (rule tool_calls_answered [OF idle_manager_ok])

lemma run_keeps_store_in_step_witness:
  "wp (executeRun demo_world demo_chain demo_active [user_says ''hi''] demo_defaults
      [\<lparr>tin_ctx = None, tin_wakes = []\<rparr>])
    (\<lambda>_. in_step view_chains view_hist demo_chain) idle_manager"
proof (rule run_keeps_store_in_step)
  show "w_store demo_world = MemoryStore" by (simp add: demo_world_def)
  show "in_step view_chains view_hist demo_chain idle_manager"
    by (simp add: in_step_def stored_as_def work_def shared_of_def view_chains_def view_hist_def
        idle_manager_def NewManager_def demo_store_def idle_chain_def demo_record_def
        new_chain_record_def demo_chain_def mget_def mlist_def)
qed

section \<open>Rate limits\<close>

lemma bucket_rate_witness:
  "of_nat (allowed_count 1 2 [0, 0, 0] \<lparr>tb_rps = 0, tb_capacity = 0, tb_tokens = 0, tb_last = 0\<rparr>)
     \<le> of_int 2 + elapsed_seconds 1000000000 0 * 1"
  by (rule bucket_rate) (simp_all add: bucket_ok_def)

definition demo_limits :: rl_config where
  "demo_limits = \<lparr>RPS = 1, Burst = 2, MaxConcurrentRequests = 1, MaxConcurrentStreams = 1,
     MaxConcurrentWSSessions = 1, MaxEntries = 3, EntryTTL = 1\<rparr>"

lemma limiter_invariant_witness:
  "rl_inv (rl_cfg (New demo_limits)) (handed (AcquireRequest hd ''a'' 5 (New demo_limits)) [])"
  by (rule limiter_invariant, rule rl_next [OF rl_new], rule rl_request) (simp add: picks_def)

end
