(* ===== verification/SSE.thy ===== *)
theory SSE
  imports GoStrings
begin

text \<open>
  Server-sent events: the frames the gateway writes (\<open>pkg/gateway/sse\<close>) and the parser with
  which clients and provider adapters read them (\<open>pkg/core/sseframe\<close>). The reader is a text that
  ends in \<open>io.EOF\<close>; read errors are left out.
\<close>

section \<open>Writing\<close>

abbreviation newline :: char where
  "newline \<equiv> CHR 0x0A"

text \<open>What \<open>Send\<close> writes for an event and the JSON of its data.\<close>

definition Send :: "string \<Rightarrow> string \<Rightarrow> string" where
  "Send event b = ''event: '' @ event @ [newline] @ ''data: '' @ b @ [newline, newline]"

section \<open>Reading\<close>

record frame =
  fr_Event :: string
  fr_Data :: string

text \<open>\<open>ReadString('\n')\<close> with the suffixes trimmed: the line, the rest, and whether the text
  ended.\<close>

definition read_line :: "string \<Rightarrow> string \<times> string \<times> bool" where
  "read_line s =
     (case cut newline s of
        Some (line, rest) \<Rightarrow> (trim_suffix line [CHR 0x0D], rest, False)
      | None \<Rightarrow> (trim_suffix s [CHR 0x0D], [], True))"

definition splitField :: "string \<Rightarrow> string \<times> string" where
  "splitField line =
     (case cut CHR '':'' line of
        None \<Rightarrow> (line, [])
      | Some (field, v) \<Rightarrow> (field, if has_prefix v '' '' then tl v else v))"

definition hasFrameContent :: "string \<Rightarrow> string list \<Rightarrow> bool" where
  "hasFrameContent event dataLines = (event \<noteq> [] \<or> dataLines \<noteq> [])"

definition frame_of :: "string \<Rightarrow> string list \<Rightarrow> frame" where
  "frame_of event dataLines = \<lparr>fr_Event = event, fr_Data = join [newline] dataLines\<rparr>"

lemma read_line_shorter: "read_line s = (line, rest, False) \<Longrightarrow> length rest < length s"
  by (auto simp: read_line_def dest!: cut_SomeD split: option.splits prod.splits)

text \<open>The loop of \<open>Next\<close>: a frame, or \<open>None\<close> at the end, and the rest of the text.\<close>

function next_frame :: "string \<Rightarrow> string list \<Rightarrow> string \<Rightarrow> frame option \<times> string" where
  "next_frame event dataLines s =
     (case read_line s of (line, rest, eof) \<Rightarrow>
        (let done = (if hasFrameContent event dataLines
                     then (Some (frame_of event dataLines), rest) else (None, rest)) in
         if line = [] then
           (if hasFrameContent event dataLines then (Some (frame_of event dataLines), rest)
            else if eof then (None, rest)
            else next_frame event dataLines rest)
         else if has_prefix line '':'' then
           (if eof then done else next_frame event dataLines rest)
         else
           (case splitField line of (field, v) \<Rightarrow>
              (let event' = (if field = ''event'' then v else event);
                   dataLines' = (if field = ''data'' then dataLines @ [v] else dataLines)
               in if eof
                  then (if hasFrameContent event' dataLines'
                        then (Some (frame_of event' dataLines'), rest) else (None, rest))
                  else next_frame event' dataLines' rest))))"
  by pat_completeness auto
termination
  by (relation "measure (\<lambda>(_, _, s). length s)") (auto dest: read_line_shorter [OF sym])

definition Next :: "string \<Rightarrow> frame option \<times> string" where
  "Next s = next_frame [] [] s"

declare next_frame.simps [simp del]

lemma read_line_Nil [simp]: "read_line [] = ([], [], True)"
  by (simp add: read_line_def trim_suffix_def)

lemma read_line_shorter': "read_line s = (line, rest, eof) \<Longrightarrow> s \<noteq> [] \<Longrightarrow> length rest < length s"
  by (auto simp: read_line_def dest!: cut_SomeD split: option.splits prod.splits)

lemma next_frame_le: "length (snd (next_frame event dataLines s)) \<le> length s"
proof (induction "length s" arbitrary: event dataLines s rule: less_induct)
  case less
  obtain line rest eof where l: "read_line s = (line, rest, eof)" by (cases "read_line s")
  have le: "length rest \<le> length s"
    using l read_line_shorter' [OF l] by (cases "s = []") auto
  have "length (snd (next_frame e d rest)) \<le> length s" if "\<not> eof" for e d
    using less [of rest e d] read_line_shorter [of s line rest] l le that by auto
  with le show ?case
    by (subst next_frame.simps) (simp add: l Let_def split: prod.split)
qed

lemma next_frame_less: "s \<noteq> [] \<Longrightarrow> length (snd (next_frame event dataLines s)) < length s"
proof -
  assume ne: "s \<noteq> []"
  obtain line rest eof where l: "read_line s = (line, rest, eof)" by (cases "read_line s")
  have le: "length rest < length s" using read_line_shorter' [OF l ne] .
  then have "length (snd (next_frame e d rest)) < length s" for e d
    using next_frame_le [of e d rest] by simp
  with le show ?thesis
    by (subst next_frame.simps) (simp add: l Let_def split: prod.split)
qed

lemma Next_less: "Next s = (Some f, r) \<Longrightarrow> length r < length s"
proof (cases "s = []")
  case True
  then show "Next s = (Some f, r) \<Longrightarrow> length r < length s"
    by (simp add: Next_def next_frame.simps [of "[]" "[]" "[]"] hasFrameContent_def)
next
  case False
  then show "Next s = (Some f, r) \<Longrightarrow> length r < length s"
    using next_frame_less [of s "[]" "[]"] by (simp add: Next_def)
qed

text \<open>A reader that calls \<open>Next\<close> until the end.\<close>

function all_frames :: "string \<Rightarrow> frame list" where
  "all_frames s = (case Next s of (None, _) \<Rightarrow> [] | (Some f, r) \<Rightarrow> f # all_frames r)"
  by pat_completeness auto
termination
  by (relation "measure length") (auto dest: Next_less [OF sym])

declare all_frames.simps [simp del]

section \<open>Round trip\<close>

text \<open>A text that stays on one line.\<close>

definition one_line :: "string \<Rightarrow> bool" where
  "one_line t = (newline \<notin> set t \<and> \<not> has_suffix t [CHR 0x0D])"

lemma one_line_iff: "one_line t \<longleftrightarrow> newline \<notin> set t \<and> (t = [] \<or> last t \<noteq> CHR 0x0D)"
  by (cases t rule: rev_cases) (auto simp: one_line_def has_suffix_def has_prefix_def)

lemma read_line_one: "one_line t \<Longrightarrow> read_line (t @ newline # rest) = (t, rest, False)"
  by (simp add: read_line_def one_line_def cut_append trim_suffix_def)

lemma Next_Send:
  assumes "one_line event" "one_line b"
  shows "Next (Send event b @ rest) = (Some \<lparr>fr_Event = event, fr_Data = b\<rparr>, rest)"
proof -
  have e: "read_line (''event: '' @ event @ newline # r) = (''event: '' @ event, r, False)" for r
    using read_line_one [of "''event: '' @ event" r] assms(1) by (auto simp: one_line_iff split: if_splits)
  have d: "read_line (''data: '' @ b @ newline # r) = (''data: '' @ b, r, False)" for r
    using read_line_one [of "''data: '' @ b" r] assms(2) by (auto simp: one_line_iff split: if_splits)
  have n: "read_line (newline # r) = ([], r, False)" for r
    using read_line_one [of "[]" r] by (simp add: one_line_iff)
  have f: "splitField (''event: '' @ event) = (''event'', event)" "splitField (''data: '' @ b) = (''data'', b)"
    by (simp_all add: splitField_def has_prefix_def)
  have p: "\<not> has_prefix (''event: '' @ t) '':''" "\<not> has_prefix (''data: '' @ t) '':''" for t
    by (simp_all add: has_prefix_def)
  have "next_frame [] [] (''event: '' @ event @ newline # r) = next_frame event [] r" for r
    by (subst next_frame.simps, simp only: e) (use f(1) p(1) [of event] in \<open>simp add: Let_def\<close>)
  moreover have "next_frame event [] (''data: '' @ b @ newline # r) = next_frame event [b] r" for r
    by (subst next_frame.simps, simp only: d) (use f(2) p(2) [of b] in \<open>simp add: Let_def\<close>)
  moreover have "next_frame event [b] (newline # r) = (Some \<lparr>fr_Event = event, fr_Data = b\<rparr>, r)" for r
    by (subst next_frame.simps, simp only: n) (simp add: Let_def hasFrameContent_def frame_of_def)
  ultimately show ?thesis unfolding Next_def Send_def by simp
qed

text \<open>C28. Whatever frames the gateway writes, a reader that parses the stream frame by frame gets them
  back, in order and one by one, when event names and data stay on one line (which the JSON of the data
  does).\<close>

theorem sse_roundtrip:
  assumes "list_all (\<lambda>f. one_line (fr_Event f) \<and> one_line (fr_Data f)) fs"
  shows "all_frames (concat (map (\<lambda>f. Send (fr_Event f) (fr_Data f)) fs)) = fs"
  using assms
proof (induction fs)
  case Nil
  then show ?case
    by (simp add: all_frames.simps [of "[]"] Next_def next_frame.simps [of "[]" "[]" "[]"] hasFrameContent_def)
next
  case (Cons f fs)
  then show ?case by (subst all_frames.simps) (simp add: Next_Send)
qed

text \<open>Two events.\<close>

theorem sse_roundtrip_witness:
  "all_frames (Send ''ping'' ''{}'' @ Send ''run_error'' ''[1]'') =
     [\<lparr>fr_Event = ''ping'', fr_Data = ''{}''\<rparr>, \<lparr>fr_Event = ''run_error'', fr_Data = ''[1]''\<rparr>]"
  using sse_roundtrip [of "[\<lparr>fr_Event = ''ping'', fr_Data = ''{}''\<rparr>, \<lparr>fr_Event = ''run_error'', fr_Data = ''[1]''\<rparr>]"]
  by (simp add: one_line_iff)

end
