(* ===== verification/Sentences.thy ===== *)
theory Sentences
  imports GoStrings
begin

text \<open>
  The sentence buffer of the voice pipeline (\<open>pkg/core/voice/buffer.go\<close>): text comes in pieces,
  sentences go out as soon as they are complete.
\<close>

section \<open>Sentence ends\<close>

definition commonAbbreviations :: "string list" where
  "commonAbbreviations = [
     ''Dr.'', ''Mr.'', ''Mrs.'', ''Ms.'', ''Jr.'', ''Sr.'',
     ''Prof.'', ''Rev.'', ''Gen.'', ''Col.'', ''Lt.'', ''Sgt.'',
     ''Inc.'', ''Ltd.'', ''Corp.'', ''Co.'', ''vs.'', ''etc.'',
     ''i.e.'', ''e.g.'', ''a.m.'', ''p.m.'', ''U.S.'', ''U.K.'']"

definition is_blank :: "char \<Rightarrow> bool" where
  "is_blank c = (c = CHR '' '' \<or> c = CHR 0x0A)"

text \<open>The word that ends at a position: back to the start or to a blank.\<close>

fun word_start :: "string \<Rightarrow> nat \<Rightarrow> nat" where
  "word_start s 0 = 0"
| "word_start s (Suc k) = (if \<not> is_blank (s ! k) then word_start s k else Suc k)"

definition is_upper :: "char \<Rightarrow> bool" where
  "is_upper c = (of_char c \<ge> (65::nat) \<and> of_char c \<le> (90::nat))"

definition slice_of :: "string \<Rightarrow> nat \<Rightarrow> nat \<Rightarrow> string" where
  "slice_of s a b = take (b - a) (drop a s)"

definition isAbbreviation :: "string \<Rightarrow> nat \<Rightarrow> bool" where
  "isAbbreviation s i =
     (if i < 1 then False
      else if list_ex (equal_fold (slice_of s (word_start s i) (i + 1))) commonAbbreviations then True
      else is_upper (s ! (i - 1)) \<and> (i < 2 \<or> is_blank (s ! (i - 2))))"

definition isSentenceEnd :: "string \<Rightarrow> nat \<Rightarrow> bool" where
  "isSentenceEnd s i =
     (if i \<ge> length s then False
      else if s ! i \<noteq> CHR ''.'' \<and> s ! i \<noteq> CHR ''!'' \<and> s ! i \<noteq> CHR ''?'' then False
      else if s ! i = CHR ''.'' \<and> isAbbreviation s i then False
      else \<not> (i + 1 < length s \<and> s ! (i + 1) \<noteq> CHR '' '' \<and> s ! (i + 1) \<noteq> CHR 0x0A \<and>
              s ! (i + 1) \<noteq> CHR 0x0D \<and> s ! (i + 1) \<noteq> CHR 0x09))"

section \<open>The buffer\<close>

text \<open>One iteration of the loop of \<open>Add\<close>: the end of the last sentence and the sentences.\<close>

definition scan :: "string \<Rightarrow> nat \<Rightarrow> nat \<times> string list \<Rightarrow> nat \<times> string list" where
  "scan content i st =
     (case st of (lastEnd, sentences) \<Rightarrow>
        if isSentenceEnd content i then
          (let sentence = trim_space (slice_of content lastEnd (i + 1))
           in (i + 1, if sentence \<noteq> [] then sentences @ [sentence] else sentences))
        else (lastEnd, sentences))"

definition Add :: "string \<Rightarrow> string \<Rightarrow> string list \<times> string" where
  "Add text buffer =
     (let content = buffer @ text;
          (lastEnd, sentences) = fold (scan content) [0..<length content] (0, [])
      in (sentences, if lastEnd > 0 then drop lastEnd content else content))"

definition Flush :: "string \<Rightarrow> string \<times> string" where
  "Flush buffer = (trim_space buffer, [])"

section \<open>Nothing is lost\<close>

text \<open>Raw sentences with what is left over, and what comes out of them.\<close>

definition spoken :: "string list \<Rightarrow> string list" where
  "spoken segs = filter (\<lambda>t. t \<noteq> []) (map trim_space segs)"

definition ends_sentence :: "string \<Rightarrow> bool" where
  "ends_sentence t = (t \<noteq> [] \<and> last t \<in> {CHR ''.'', CHR ''!'', CHR ''?''})"

lemma spoken_append [simp]: "spoken (a @ b) = spoken a @ spoken b"
  by (simp add: spoken_def)

lemma scan_end:
  "isSentenceEnd content i \<Longrightarrow> scan content i (a, spoken segs) =
     (i + 1, spoken (segs @ [slice_of content a (i + 1)]))"
  "\<not> isSentenceEnd content i \<Longrightarrow> scan content i st = st"
  by (simp_all add: scan_def spoken_def Let_def split: prod.split)

lemma slice_ends:
  assumes "isSentenceEnd content n" "a \<le> n"
  shows "ends_sentence (slice_of content a (n + 1))"
proof -
  have n: "n < length content" "content ! n \<in> {CHR ''.'', CHR ''!'', CHR ''?''}"
    using assms(1) by (auto simp: isSentenceEnd_def split: if_splits)
  have ne: "slice_of content a (n + 1) \<noteq> []" using n(1) assms(2) by (simp add: slice_of_def)
  have "length (slice_of content a (n + 1)) = Suc (n - a)" using n(1) assms(2) by (simp add: slice_of_def)
  then have "last (slice_of content a (n + 1)) = slice_of content a (n + 1) ! (n - a)"
    using ne by (simp add: last_conv_nth)
  also have "\<dots> = content ! n" using n(1) assms(2) by (simp add: slice_of_def)
  finally have "last (slice_of content a (n + 1)) = content ! n" .
  then show ?thesis using ne n(2) by (simp add: ends_sentence_def)
qed

lemma scan_segments:
  "n \<le> length content \<Longrightarrow> \<exists>segs. fold (scan content) [0..<n] (0, []) = (length (concat segs), spoken segs) \<and>
     take (length (concat segs)) content = concat segs \<and> length (concat segs) \<le> n \<and>
     list_all ends_sentence segs"
proof (induction n)
  case 0
  show ?case by (rule exI [of _ "[]"]) (simp add: spoken_def)
next
  case (Suc n)
  then obtain segs where segs: "fold (scan content) [0..<n] (0, []) = (length (concat segs), spoken segs)"
    "take (length (concat segs)) content = concat segs" "length (concat segs) \<le> n" "list_all ends_sentence segs"
    by auto
  let ?a = "length (concat segs)"
  let ?seg = "slice_of content ?a (n + 1)"
  show ?case
  proof (cases "isSentenceEnd content n")
    case True
    have len: "length ?seg = n + 1 - ?a" using Suc.prems by (simp add: slice_of_def)
    have "take (n + 1) content = take ?a content @ ?seg"
      using segs(3) by (simp add: slice_of_def take_add [symmetric])
    then show ?thesis
      using segs len slice_ends [OF True segs(3)] scan_end(1) [OF True, of ?a segs]
      by (intro exI [of _ "segs @ [?seg]"]) simp
  next
    case False
    then show ?thesis using segs scan_end(2) [OF False] by (intro exI [of _ segs]) simp
  qed
qed

text \<open>Feeding a list of pieces.\<close>

fun add_all :: "string list \<Rightarrow> string \<Rightarrow> string list \<times> string" where
  "add_all [] buffer = ([], buffer)"
| "add_all (t # ts) buffer =
     (let (ss, buffer') = Add t buffer; (ss', buffer'') = add_all ts buffer' in (ss @ ss', buffer''))"

lemma Add_segments:
  "\<exists>segs. buffer @ text = concat segs @ snd (Add text buffer) \<and> fst (Add text buffer) = spoken segs \<and>
     list_all ends_sentence segs"
proof -
  obtain segs where segs:
    "fold (scan (buffer @ text)) [0..<length (buffer @ text)] (0, []) = (length (concat segs), spoken segs)"
    "take (length (concat segs)) (buffer @ text) = concat segs" "list_all ends_sentence segs"
    using scan_segments [of "length (buffer @ text)" "buffer @ text"] by blast
  define n where "n = length (concat segs)"
  have eq: "Add text buffer = (spoken segs, if n > 0 then drop n (buffer @ text) else buffer @ text)"
    unfolding Add_def Let_def segs(1) prod.case n_def ..
  have "snd (Add text buffer) = drop n (buffer @ text)" unfolding eq by (cases n) simp_all
  moreover have "concat segs = take n (buffer @ text)" using segs(2) unfolding n_def by (rule sym)
  ultimately have "buffer @ text = concat segs @ snd (Add text buffer)" by (simp only: append_take_drop_id)
  moreover have "fst (Add text buffer) = spoken segs" unfolding eq by simp
  ultimately show ?thesis using segs(3) by blast
qed

text \<open>C29. The sentence buffer loses nothing and invents nothing: however the text is cut into pieces,
  it is the sequence of some segments and what is still pending; each segment ends in a full stop,
  an exclamation or a question mark, and what has been spoken are the segments in order, trimmed, without the
  blank ones.\<close>

theorem sentences_lossless:
  "\<exists>segs. buffer @ concat texts = concat segs @ snd (add_all texts buffer) \<and>
     fst (add_all texts buffer) = spoken segs \<and> list_all ends_sentence segs"
proof (induction texts arbitrary: buffer)
  case Nil
  show ?case by (rule exI [of _ "[]"]) (simp add: spoken_def)
next
  case (Cons t ts)
  obtain a where a: "buffer @ t = concat a @ snd (Add t buffer)" "fst (Add t buffer) = spoken a"
    "list_all ends_sentence a" using Add_segments [of buffer t] by blast
  obtain b where b: "snd (Add t buffer) @ concat ts = concat b @ snd (add_all ts (snd (Add t buffer)))"
    "fst (add_all ts (snd (Add t buffer))) = spoken b" "list_all ends_sentence b"
    using Cons.IH [of "snd (Add t buffer)"] by blast
  have s: "add_all (t # ts) buffer = (spoken (a @ b), snd (add_all ts (snd (Add t buffer))))"
    using a(2) b(2) by (simp add: case_prod_beta Let_def)
  have "buffer @ concat (t # ts) = (buffer @ t) @ concat ts" by simp
  also have "\<dots> = concat a @ snd (Add t buffer) @ concat ts" unfolding a(1) by simp
  also have "\<dots> = concat (a @ b) @ snd (add_all ts (snd (Add t buffer)))" unfolding b(1) by simp
  finally show ?case using a(3) b(3) unfolding s by (intro exI [of _ "a @ b"]) simp
qed

text \<open>Where a text is cut does show: at the end of a piece a full stop in a number ends a sentence.\<close>

lemma number_cut_in_two:
  "add_all [''It is 3.'', ''14 now''] [] = ([''It is 3.''], ''14 now'')"
  "add_all [''It is 3.14 now''] [] = ([], ''It is 3.14 now'')"
  by code_simp+

end
