(* ===== verification/ToolArgs.thy ===== *)
theory ToolArgs
  imports GoStrings
begin

text \<open>
  The decoder of a string field in the streamed arguments of a tool
  (\<open>sdk/tool_arg_decoder.go\<close>). A position in the raw text is here the text from it on; strings
  are the bytes of UTF-8.
\<close>

section \<open>Escapes\<close>

definition defaultToolArgStringKeys :: "string list" where
  "defaultToolArgStringKeys = [''content'', ''message'', ''text'']"

definition byte :: "nat \<Rightarrow> char" where
  "byte n = char_of n"

definition code :: "char \<Rightarrow> nat" where
  "code c = of_char c"

definition hex_digit :: "char \<Rightarrow> nat option" where
  "hex_digit c =
     (let n = code c in
      if 48 \<le> n \<and> n \<le> 57 then Some (n - 48)
      else if 65 \<le> n \<and> n \<le> 70 then Some (n - 55)
      else if 97 \<le> n \<and> n \<le> 102 then Some (n - 87) else None)"

fun parse_hex :: "string \<Rightarrow> nat \<Rightarrow> nat option" where
  "parse_hex [] acc = Some acc"
| "parse_hex (c # cs) acc =
     (case hex_digit c of None \<Rightarrow> None | Some d \<Rightarrow> parse_hex cs (16 * acc + d))"

definition parseHexRune :: "string \<Rightarrow> nat option" where
  "parseHexRune s = (if length s \<noteq> 4 then None else parse_hex s 0)"

definition isHighSurrogate :: "nat \<Rightarrow> bool" where
  "isHighSurrogate r = (r \<ge> 0xD800 \<and> r \<le> 0xDBFF)"

definition isLowSurrogate :: "nat \<Rightarrow> bool" where
  "isLowSurrogate r = (r \<ge> 0xDC00 \<and> r \<le> 0xDFFF)"

text \<open>\<open>utf16.DecodeRune\<close> of a surrogate pair and \<open>WriteRune\<close>.\<close>

definition DecodeRune :: "nat \<Rightarrow> nat \<Rightarrow> nat" where
  "DecodeRune r1 r2 = (r1 - 0xD800) * 0x400 + (r2 - 0xDC00) + 0x10000"

definition WriteRune :: "nat \<Rightarrow> string" where
  "WriteRune r =
     (if r < 0x80 then [byte r]
      else if r < 0x800 then [byte (0xC0 + r div 64), byte (0x80 + r mod 64)]
      else if r < 0x10000 then
        [byte (0xE0 + r div 4096), byte (0x80 + (r div 64) mod 64), byte (0x80 + r mod 64)]
      else
        [byte (0xF0 + r div 262144), byte (0x80 + (r div 4096) mod 64),
         byte (0x80 + (r div 64) mod 64), byte (0x80 + r mod 64)])"

text \<open>The text starts at the backslash: the rune and the bytes consumed.\<close>

definition decodeUnicodeEscape :: "string \<Rightarrow> (nat \<times> nat) option" where
  "decodeUnicodeEscape s =
     (if 5 \<ge> length s \<or> take 2 s \<noteq> [CHR 0x5C, CHR ''u''] then None
      else (case parseHexRune (take 4 (drop 2 s)) of
              None \<Rightarrow> None
            | Some r1 \<Rightarrow>
                if isHighSurrogate r1 then
                  (if 11 \<ge> length s then None
                   else if take 2 (drop 6 s) \<noteq> [CHR 0x5C, CHR ''u''] then None
                   else (case parseHexRune (take 4 (drop 8 s)) of
                           None \<Rightarrow> None
                         | Some r2 \<Rightarrow> if \<not> isLowSurrogate r2 then None else Some (DecodeRune r1 r2, 12)))
                else if isLowSurrogate r1 then None
                else Some (r1, 6)))"

text \<open>The switch on the byte after a backslash, which both scanners have: what is written and where
  they go on, or \<open>None\<close> where they stop.\<close>

definition escape :: "string \<Rightarrow> (string \<times> string) option" where
  "escape s =
     (case s of
        _ # e # rest \<Rightarrow>
          (if e = CHR 0x22 \<or> e = CHR 0x5C \<or> e = CHR ''/'' then Some ([e], rest)
           else if e = CHR ''b'' then Some ([CHR 0x08], rest)
           else if e = CHR ''f'' then Some ([CHR 0x0C], rest)
           else if e = CHR ''n'' then Some ([CHR 0x0A], rest)
           else if e = CHR ''r'' then Some ([CHR 0x0D], rest)
           else if e = CHR ''t'' then Some ([CHR 0x09], rest)
           else if e = CHR ''u'' then
             (case decodeUnicodeEscape s of
                None \<Rightarrow> None
              | Some (r, consumed) \<Rightarrow> Some (WriteRune r, drop consumed s))
           else None)
      | _ \<Rightarrow> None)"

lemma decodeUnicodeEscape_consumed:
  "decodeUnicodeEscape s = Some (r, n) \<Longrightarrow> 0 < n \<and> n \<le> length s"
  by (auto simp: decodeUnicodeEscape_def split: if_splits option.splits)

lemma escape_shorter: "escape s = Some (out, rest) \<Longrightarrow> length rest < length s"
  using decodeUnicodeEscape_consumed [of s]
  by (force simp: escape_def split: list.splits if_splits option.splits prod.splits)

section \<open>The scanners\<close>

text \<open>From after the opening quote: the decoded text, and the text after the closing quote when there
  is one.\<close>

function parseJSONStringToken :: "string \<Rightarrow> string \<times> string option" where
  "parseJSONStringToken [] = ([], None)"
| "parseJSONStringToken (ch # s) =
     (if ch = CHR 0x22 then ([], Some s)
      else if ch \<noteq> CHR 0x5C then (case parseJSONStringToken s of (out, r) \<Rightarrow> (ch # out, r))
      else (case escape (ch # s) of
              None \<Rightarrow> ([], None)
            | Some (bs, s') \<Rightarrow> (case parseJSONStringToken s' of (out, r) \<Rightarrow> (bs @ out, r))))"
  by pat_completeness auto
termination by (relation "measure length") (auto dest: escape_shorter)

function decodeJSONStringPrefixFrom :: "string \<Rightarrow> string" where
  "decodeJSONStringPrefixFrom [] = []"
| "decodeJSONStringPrefixFrom (ch # s) =
     (if ch = CHR 0x22 then []
      else if ch \<noteq> CHR 0x5C then ch # decodeJSONStringPrefixFrom s
      else (case escape (ch # s) of
              None \<Rightarrow> []
            | Some (bs, s') \<Rightarrow> bs @ decodeJSONStringPrefixFrom s'))"
  by pat_completeness auto
termination by (relation "measure length") (auto dest: escape_shorter)

definition json_blank :: "char \<Rightarrow> bool" where
  "json_blank c = (c = CHR '' '' \<or> c = CHR 0x09 \<or> c = CHR 0x0A \<or> c = CHR 0x0D)"

definition skipJSONWhitespace :: "string \<Rightarrow> string" where
  "skipJSONWhitespace s = dropWhile json_blank s"

lemma parseJSONStringToken_shorter:
  "parseJSONStringToken s = (out, Some r) \<Longrightarrow> length r < length s"
proof (induction s arbitrary: out r rule: parseJSONStringToken.induct)
  case (2 ch s)
  then show ?case
    by (fastforce dest: escape_shorter split: if_splits option.splits prod.splits)
qed simp

text \<open>After a complete string: go on after it, give up, or the value of one of the keys.\<close>

datatype scan_step = Go_on | Give_up | Value_at string

definition field_step :: "string list \<Rightarrow> nat \<Rightarrow> string \<Rightarrow> string \<Rightarrow> scan_step" where
  "field_step allowed depth decoded end =
     (if depth \<noteq> 1 then Go_on
      else (case skipJSONWhitespace end of
              [] \<Rightarrow> Go_on
            | j # js \<Rightarrow>
                if j \<noteq> CHR '':'' then Go_on
                else (case skipJSONWhitespace js of
                        [] \<Rightarrow> Give_up
                      | v # vs \<Rightarrow>
                          if decoded \<notin> set allowed then Go_on
                          else if v \<noteq> CHR 0x22 then Go_on
                          else Value_at vs)))"

text \<open>The search for the value of one of the keys in the object at the root.\<close>

function findRootStringFieldValueStart :: "string list \<Rightarrow> nat \<Rightarrow> string \<Rightarrow> (string \<times> string) option" where
  "findRootStringFieldValueStart allowed depth [] = None"
| "findRootStringFieldValueStart allowed depth (c # s) =
     (if c = CHR 0x22 then
        (case parseJSONStringToken s of
           (_, None) \<Rightarrow> None
         | (decoded, Some end) \<Rightarrow>
             (case field_step allowed depth decoded end of
                Go_on \<Rightarrow> findRootStringFieldValueStart allowed depth end
              | Give_up \<Rightarrow> None
              | Value_at v \<Rightarrow> Some (decoded, v)))
      else if c = CHR ''{'' \<or> c = CHR ''['' then findRootStringFieldValueStart allowed (depth + 1) s
      else if c = CHR ''}'' \<or> c = CHR '']'' then
        findRootStringFieldValueStart allowed (if depth > 0 then depth - 1 else depth) s
      else findRootStringFieldValueStart allowed depth s)"
  by pat_completeness auto
termination
  by (relation "measure (\<lambda>(_, _, s). length s)")
     (auto dest: parseJSONStringToken_shorter [OF sym] parseJSONStringToken_shorter)

definition extractFirstRootStringFieldPrefix :: "string \<Rightarrow> string list \<Rightarrow> (string \<times> string) option" where
  "extractFirstRootStringFieldPrefix raw keys =
     (if raw = [] \<or> keys = [] then None
      else map_option (\<lambda>(key, v). (key, decodeJSONStringPrefixFrom v))
             (findRootStringFieldValueStart keys 0 raw))"

definition extractRootStringFieldPrefix :: "string \<Rightarrow> string \<Rightarrow> string option" where
  "extractRootStringFieldPrefix raw key =
     (if raw = [] \<or> key = [] then None
      else (case findRootStringFieldValueStart [key] 0 raw of
              None \<Rightarrow> None
            | Some (foundKey, v) \<Rightarrow> if foundKey = [] then None else Some (decodeJSONStringPrefixFrom v)))"

section \<open>The decoder\<close>

record update =
  up_Found :: bool
  up_Key :: string
  up_Full :: string
  up_Delta :: string

definition no_update :: update where
  "no_update = \<lparr>up_Found = False, up_Key = [], up_Full = [], up_Delta = []\<rparr>"

record decoder =
  td_keys :: "string list"
  td_raw :: string
  td_matchedKey :: string
  td_lastFull :: string

fun add_keys :: "string list \<Rightarrow> string list \<Rightarrow> string list" where
  "add_keys out [] = out"
| "add_keys out (k # ks) =
     (let key = trim_space k in
      if key = [] then add_keys out ks
      else if key \<in> set out then add_keys out ks
      else add_keys (out @ [key]) ks)"

definition normalizeToolArgStringKeys :: "string list \<Rightarrow> string list" where
  "normalizeToolArgStringKeys keys =
     (if keys = [] then defaultToolArgStringKeys
      else (let out = add_keys [] keys in if out = [] then defaultToolArgStringKeys else out))"

definition NewToolArgStringDecoder :: "string list \<Rightarrow> decoder" where
  "NewToolArgStringDecoder keys =
     \<lparr>td_keys = normalizeToolArgStringKeys keys, td_raw = [], td_matchedKey = [], td_lastFull = []\<rparr>"

fun commonPrefixLen :: "string \<Rightarrow> string \<Rightarrow> nat" where
  "commonPrefixLen (a # as) (b # bs) = (if a = b then Suc (commonPrefixLen as bs) else 0)"
| "commonPrefixLen _ _ = 0"

definition decodedDelta :: "string \<Rightarrow> string \<Rightarrow> string" where
  "decodedDelta previous current =
     (if previous = [] then current
      else if has_prefix current previous then drop (length previous) current
      else (let common = commonPrefixLen previous current in
            if common \<ge> length current then [] else drop common current))"

definition Push :: "string \<Rightarrow> decoder \<Rightarrow> update \<times> decoder" where
  "Push partialJSON d0 =
     (let d = d0\<lparr>td_raw := td_raw d0 @ partialJSON\<rparr>; raw = td_raw d in
      if raw = [] then (no_update, d)
      else if td_matchedKey d = [] then
        (case extractFirstRootStringFieldPrefix raw (td_keys d) of
           None \<Rightarrow> (no_update, d)
         | Some (key, full) \<Rightarrow>
             (\<lparr>up_Found = True, up_Key = key, up_Full = full, up_Delta = decodedDelta (td_lastFull d) full\<rparr>,
              d\<lparr>td_matchedKey := key, td_lastFull := full\<rparr>))
      else
        (case extractRootStringFieldPrefix raw (td_matchedKey d) of
           None \<Rightarrow> (no_update, d)
         | Some full \<Rightarrow>
             (\<lparr>up_Found = True, up_Key = td_matchedKey d, up_Full = full,
               up_Delta = decodedDelta (td_lastFull d) full\<rparr>,
              d\<lparr>td_lastFull := full\<rparr>)))"

definition Reset :: "decoder \<Rightarrow> decoder" where
  "Reset d = d\<lparr>td_raw := [], td_matchedKey := [], td_lastFull := []\<rparr>"

fun push_all :: "string list \<Rightarrow> decoder \<Rightarrow> update list \<times> decoder" where
  "push_all [] d = ([], d)"
| "push_all (t # ts) d = (let (u, d') = Push t d; (us, d'') = push_all ts d' in (u # us, d''))"

section \<open>More text never changes what was decoded\<close>

lemma decodeUnicodeEscape_more:
  "decodeUnicodeEscape s = Some x \<Longrightarrow> decodeUnicodeEscape (s @ ext) = Some x"
  by (auto simp: decodeUnicodeEscape_def split: if_splits option.splits)

lemma drop_more: "n \<le> Suc (Suc (length s)) \<Longrightarrow> drop n (a # b # s @ ext) = drop n (a # b # s) @ ext"
  using drop_append [of n "a # b # s" ext] by simp

lemma escape_more: "escape s = Some (bs, rest) \<Longrightarrow> escape (s @ ext) = Some (bs, rest @ ext)"
  using decodeUnicodeEscape_more [of s _ ext] decodeUnicodeEscape_consumed [of s]
  by (cases s rule: parseJSONStringToken.cases)
     (auto simp: escape_def drop_more split: list.splits if_splits option.splits prod.splits)

lemma token_more:
  "parseJSONStringToken s = (out, Some r) \<Longrightarrow> parseJSONStringToken (s @ ext) = (out, Some (r @ ext))"
proof (induction s arbitrary: out r rule: parseJSONStringToken.induct)
  case (2 ch s)
  then show ?case
    using escape_more [of "ch # s" _ _ ext]
    by (auto split: if_splits option.splits prod.splits)
qed simp

lemma decode_more: "\<exists>t. decodeJSONStringPrefixFrom (s @ ext) = decodeJSONStringPrefixFrom s @ t"
proof (induction s rule: decodeJSONStringPrefixFrom.induct)
  case (2 ch s)
  then show ?case
    using escape_more [of "ch # s" _ _ ext]
    by (auto split: if_splits option.splits prod.splits)
qed simp

lemma skip_more:
  "skipJSONWhitespace s \<noteq> [] \<Longrightarrow> skipJSONWhitespace (s @ ext) = skipJSONWhitespace s @ ext"
  by (induction s) (auto simp: skipJSONWhitespace_def)

lemma skip_all_more:
  "skipJSONWhitespace s = [] \<Longrightarrow> skipJSONWhitespace (s @ ext) = skipJSONWhitespace ext"
  by (induction s) (auto simp: skipJSONWhitespace_def split: if_splits)

lemma find_blank:
  "skipJSONWhitespace s = [] \<Longrightarrow> findRootStringFieldValueStart allowed depth s = None"
  by (induction s) (auto simp: skipJSONWhitespace_def json_blank_def split: if_splits)

lemma step_go_on:
  assumes "field_step allowed depth decoded s = Go_on" "findRootStringFieldValueStart allowed depth s = Some x"
    "k = fst x"
  shows "field_step allowed depth decoded (s @ ext) = Go_on"
    "k \<in> set allowed \<Longrightarrow> field_step [k] depth decoded (s @ ext) = Go_on"
proof -
  have ne: "skipJSONWhitespace s \<noteq> []" using assms(2) find_blank by fastforce
  show "field_step allowed depth decoded (s @ ext) = Go_on"
    "k \<in> set allowed \<Longrightarrow> field_step [k] depth decoded (s @ ext) = Go_on"
    using assms(1) ne
    by (auto simp: field_step_def skip_more split: list.splits if_splits)
qed

lemma step_value:
  "field_step allowed depth decoded s = Value_at v \<Longrightarrow>
   field_step allowed depth decoded (s @ ext) = Value_at (v @ ext) \<and>
   field_step [decoded] depth decoded (s @ ext) = Value_at (v @ ext) \<and> decoded \<in> set allowed"
  by (auto simp: field_step_def skip_more split: list.splits if_splits)

lemma find_more:
  "findRootStringFieldValueStart allowed depth s = Some (k, v) \<Longrightarrow>
   findRootStringFieldValueStart allowed depth (s @ ext) = Some (k, v @ ext) \<and>
   findRootStringFieldValueStart [k] depth (s @ ext) = Some (k, v @ ext) \<and> k \<in> set allowed"
proof (induction allowed depth s rule: findRootStringFieldValueStart.induct)
  case (1 allowed depth)
  then show ?case by simp
next
  case (2 allowed depth c s)
  show ?case
  proof (cases "c = CHR 0x22")
    case True
    then obtain decoded end' where tok: "parseJSONStringToken s = (decoded, Some end')"
      using "2.prems" by (auto split: prod.splits option.splits)
    show ?thesis
    proof (cases "field_step allowed depth decoded end'")
      case Go_on
      then have f: "findRootStringFieldValueStart allowed depth end' = Some (k, v)"
        using "2.prems" True tok by simp
      then have IH: "findRootStringFieldValueStart allowed depth (end' @ ext) = Some (k, v @ ext) \<and>
         findRootStringFieldValueStart [k] depth (end' @ ext) = Some (k, v @ ext) \<and> k \<in> set allowed"
        using "2.IH"(1) True tok Go_on by simp
      then show ?thesis
        using True token_more [OF tok, of ext] step_go_on [OF Go_on f refl, of ext] by simp
    next
      case Give_up
      then show ?thesis using "2.prems" True tok by simp
    next
      case (Value_at w)
      then show ?thesis
        using "2.prems" True tok token_more [OF tok, of ext] step_value [OF Value_at, of ext] by simp
    qed
  next
    case False
    then show ?thesis using 2 by (auto split: if_splits)
  qed
qed

section \<open>The decoder sees the text, not its pieces\<close>

lemma extract_more:
  assumes "extractFirstRootStringFieldPrefix raw keys = Some (k, full)" "k \<noteq> []"
  shows "\<exists>t. extractFirstRootStringFieldPrefix (raw @ ext) keys = Some (k, full @ t) \<and>
             extractRootStringFieldPrefix (raw @ ext) k = Some (full @ t)"
proof -
  obtain v where v: "findRootStringFieldValueStart keys 0 raw = Some (k, v)"
    "full = decodeJSONStringPrefixFrom v" "raw \<noteq> []" "keys \<noteq> []"
    using assms(1) by (auto simp: extractFirstRootStringFieldPrefix_def split: if_splits)
  obtain t where "decodeJSONStringPrefixFrom (v @ ext) = full @ t" using decode_more v(2) by blast
  then show ?thesis
    using find_more [OF v(1), of ext] v(3,4) assms(2)
    by (auto simp: extractFirstRootStringFieldPrefix_def extractRootStringFieldPrefix_def)
qed

lemma extract_key: "extractFirstRootStringFieldPrefix raw keys = Some (k, full) \<Longrightarrow> k \<in> set keys"
  using find_more [of keys 0 raw k _ "[]"]
  by (auto simp: extractFirstRootStringFieldPrefix_def split: if_splits)

lemma delta_more [simp]: "decodedDelta full (full @ t) = t"
  by (simp add: decodedDelta_def)

text \<open>What the decoder has locked on to and decoded is a function of the text so far.\<close>

definition decoded_of :: "decoder \<Rightarrow> (string \<times> string) option" where
  "decoded_of d = extractFirstRootStringFieldPrefix (td_raw d) (td_keys d)"

definition decoder_ok :: "decoder \<Rightarrow> bool" where
  "decoder_ok d \<longleftrightarrow> [] \<notin> set (td_keys d) \<and>
     (case decoded_of d of
        None \<Rightarrow> td_matchedKey d = [] \<and> td_lastFull d = []
      | Some (key, full) \<Rightarrow> td_matchedKey d = key \<and> td_lastFull d = full)"

lemma Push_step:
  assumes "decoder_ok d"
  shows "decoder_ok (snd (Push t d)) \<and> td_raw (snd (Push t d)) = td_raw d @ t \<and>
     td_keys (snd (Push t d)) = td_keys d \<and>
     td_lastFull (snd (Push t d)) = td_lastFull d @ up_Delta (fst (Push t d)) \<and>
     up_Found (fst (Push t d)) = (decoded_of (snd (Push t d)) \<noteq> None) \<and>
     up_Key (fst (Push t d)) = td_matchedKey (snd (Push t d)) \<and>
     up_Full (fst (Push t d)) = td_lastFull (snd (Push t d))"
proof (cases "decoded_of d")
  case None
  show ?thesis
  proof (cases "extractFirstRootStringFieldPrefix (td_raw d @ t) (td_keys d)")
    case none: None
    then show ?thesis
      using assms None by (auto simp: Push_def Let_def decoder_ok_def decoded_of_def no_update_def)
  next
    case (Some kf)
    obtain k f where kf: "kf = (k, f)" by (cases kf)
    have "td_raw d @ t \<noteq> []" using Some by (auto simp: extractFirstRootStringFieldPrefix_def)
    then show ?thesis
      using assms None Some kf
      by (auto simp: Push_def Let_def decoder_ok_def decoded_of_def decodedDelta_def)
  qed
next
  case (Some kf)
  obtain k f where kf: "decoded_of d = Some (k, f)" using Some by (cases kf) auto
  have k: "k \<noteq> []" using kf assms extract_key by (auto simp: decoded_of_def decoder_ok_def)
  have "td_raw d \<noteq> []" using kf by (auto simp: decoded_of_def extractFirstRootStringFieldPrefix_def)
  moreover obtain u where "extractFirstRootStringFieldPrefix (td_raw d @ t) (td_keys d) = Some (k, f @ u)"
    "extractRootStringFieldPrefix (td_raw d @ t) k = Some (f @ u)"
    using extract_more [of "td_raw d" "td_keys d" k f t] kf k by (auto simp: decoded_of_def)
  ultimately show ?thesis
    using assms kf k by (auto simp: Push_def Let_def decoder_ok_def decoded_of_def)
qed

lemma push_all_steps:
  "decoder_ok d \<Longrightarrow> push_all ts d = (us, d') \<Longrightarrow>
     decoder_ok d' \<and> td_raw d' = td_raw d @ concat ts \<and> td_keys d' = td_keys d \<and>
     td_lastFull d' = td_lastFull d @ concat (map up_Delta us)"
proof (induction ts arbitrary: d us d')
  case (Cons t ts)
  obtain us' where us: "push_all ts (snd (Push t d)) = (us', d')" "us = fst (Push t d) # us'"
    using Cons.prems(2) by (auto simp: Let_def split: prod.splits)
  show ?case
    using Cons.IH [OF _ us(1)] Push_step [OF Cons.prems(1), of t] us(2) by simp
qed simp

lemma add_keys_ne: "[] \<notin> set out \<Longrightarrow> [] \<notin> set (add_keys out ks)"
  by (induction out ks rule: add_keys.induct) (auto simp: Let_def)

lemma new_decoder_ok: "decoder_ok (NewToolArgStringDecoder keys)"
  using add_keys_ne [of "[]" keys]
  by (auto simp: decoder_ok_def decoded_of_def NewToolArgStringDecoder_def extractFirstRootStringFieldPrefix_def
      normalizeToolArgStringKeys_def defaultToolArgStringKeys_def Let_def)

lemma push_all_last:
  "push_all (ts @ [t]) d = (us, d') \<Longrightarrow>
     \<exists>us1 d1. push_all ts d = (us1, d1) \<and> us = us1 @ [fst (Push t d1)] \<and> d' = snd (Push t d1)"
proof (induction ts arbitrary: d us d')
  case Nil
  then show ?case by (auto simp: Let_def split: prod.splits)
next
  case (Cons a ts)
  obtain us' where us: "push_all (ts @ [t]) (snd (Push a d)) = (us', d')" "us = fst (Push a d) # us'"
    using Cons.prems by (auto simp: Let_def split: prod.splits)
  then show ?case using Cons.IH [OF us(1)] by (auto simp: Let_def split: prod.splits)
qed

section \<open>Reading back what was quoted\<close>

text \<open>A JSON encoder of the standard library: quotes, backslashes, control characters and the
  characters of HTML are escaped.\<close>

definition hex_char :: "nat \<Rightarrow> char" where
  "hex_char d = byte (if d < 10 then 48 + d else 87 + d)"

definition quote_byte :: "char \<Rightarrow> string" where
  "quote_byte c =
     (if c = CHR 0x22 \<or> c = CHR 0x5C then [CHR 0x5C, c]
      else if c = CHR 0x0A then [CHR 0x5C, CHR ''n'']
      else if c = CHR 0x0D then [CHR 0x5C, CHR ''r'']
      else if c = CHR 0x09 then [CHR 0x5C, CHR ''t'']
      else if code c < 0x20 \<or> c = CHR ''<'' \<or> c = CHR ''>'' \<or> c = CHR ''&'' then
        [CHR 0x5C, CHR ''u'', CHR ''0'', CHR ''0'', hex_char (code c div 16), hex_char (code c mod 16)]
      else [c])"

definition quote :: "string \<Rightarrow> string" where
  "quote s = concat (map quote_byte s)"

lemma code_byte: "n < 256 \<Longrightarrow> code (byte n) = n"
  by (simp add: code_def byte_def)

lemma byte_code: "byte (code c) = c"
  by (simp add: code_def byte_def)

lemma hex_digit_char: "d < 16 \<Longrightarrow> hex_digit (hex_char d) = Some d"
  by (auto simp: hex_digit_def hex_char_def code_byte Let_def)

lemma escape_u:
  assumes "code c < 128"
  shows "escape (CHR 0x5C # CHR ''u'' # CHR ''0'' # CHR ''0'' # hex_char (code c div 16) #
     hex_char (code c mod 16) # r) = Some ([c], r)"
proof -
  have "hex_digit CHR ''0'' = Some 0" by (simp add: hex_digit_def code_def Let_def)
  then have "parseHexRune [CHR ''0'', CHR ''0'', hex_char (code c div 16), hex_char (code c mod 16)] = Some (code c)"
    using assms by (simp add: parseHexRune_def hex_digit_char)
  then show ?thesis
    using assms by (simp add: escape_def decodeUnicodeEscape_def isHighSurrogate_def isLowSurrogate_def
        WriteRune_def byte_code)
qed

lemma escape_quote:
  "quote_byte c = [c] \<and> c \<noteq> CHR 0x22 \<and> c \<noteq> CHR 0x5C \<or>
   (\<exists>q. quote_byte c = CHR 0x5C # q \<and> (\<forall>r. escape (CHR 0x5C # q @ r) = Some ([c], r)))"
proof (cases "c \<in> {CHR 0x22, CHR 0x5C, CHR 0x0A, CHR 0x0D, CHR 0x09}")
  case True
  then show ?thesis by (auto simp: quote_byte_def escape_def)
next
  case False
  have "code c < 128" if "code c < 0x20 \<or> c = CHR ''<'' \<or> c = CHR ''>'' \<or> c = CHR ''&''"
    using that by (auto simp: code_def)
  with False show ?thesis by (simp add: quote_byte_def escape_u)
qed

lemma token_quote: "parseJSONStringToken (quote s @ CHR 0x22 # r) = (s, Some r)"
proof (induction s)
  case Nil
  then show ?case by (simp add: quote_def)
next
  case (Cons c s)
  then show ?case using escape_quote [of c] by (auto simp: quote_def)
qed

lemma decode_quote: "decodeJSONStringPrefixFrom (quote s @ CHR 0x22 # r) = s"
proof (induction s)
  case Nil
  then show ?case by (simp add: quote_def)
next
  case (Cons c s)
  then show ?case using escape_quote [of c] by (auto simp: quote_def)
qed

section \<open>Claims\<close>

text \<open>C30. Chunking never shows: after any sequence of fragments, the key the decoder has locked on to
  and the text it has decoded are those of the whole text at once; the deltas it has reported, put
  together, are exactly that text, and the last update reports both.\<close>

theorem tool_arg_chunks:
  "case push_all (ts @ [t]) (NewToolArgStringDecoder keys) of (us, d) \<Rightarrow>
     (case extractFirstRootStringFieldPrefix (concat (ts @ [t])) (normalizeToolArgStringKeys keys) of
        None \<Rightarrow> \<not> up_Found (last us) \<and> concat (map up_Delta us) = [] \<and> td_matchedKey d = []
      | Some (key, full) \<Rightarrow>
          last us = \<lparr>up_Found = True, up_Key = key, up_Full = full, up_Delta = up_Delta (last us)\<rparr> \<and>
          concat (map up_Delta us) = full \<and> td_matchedKey d = key)"
proof -
  let ?d0 = "NewToolArgStringDecoder keys"
  obtain us d where p: "push_all (ts @ [t]) ?d0 = (us, d)" by (cases "push_all (ts @ [t]) ?d0")
  obtain us1 d1 where l: "push_all ts ?d0 = (us1, d1)" "us = us1 @ [fst (Push t d1)]" "d = snd (Push t d1)"
    using push_all_last [OF p] by blast
  note all = push_all_steps [OF new_decoder_ok p] and one = push_all_steps [OF new_decoder_ok l(1)]
  have raw: "td_raw d = concat (ts @ [t])" "td_keys d = normalizeToolArgStringKeys keys"
    "td_lastFull d = concat (map up_Delta us)"
    using all by (auto simp: NewToolArgStringDecoder_def)
  have st: "up_Found (last us) = (decoded_of d \<noteq> None)" "up_Key (last us) = td_matchedKey d"
    "up_Full (last us) = td_lastFull d"
    using Push_step [of d1 t] one l(2,3) by auto
  have ok: "decoder_ok d" using all by blast
  show ?thesis
    unfolding p using ok st raw by (auto simp: decoder_ok_def decoded_of_def split: option.splits)
qed

text \<open>Arguments that begin with a quoted key and a quoted text come back as that text, however they are
  cut: the deltas spell the text that was encoded.\<close>

theorem tool_arg_streamed:
  assumes "key \<in> set (normalizeToolArgStringKeys keys)"
    and "concat ts = ''{'' @ [CHR 0x22] @ quote key @ [CHR 0x22, CHR '':'', CHR 0x22] @ quote s @ [CHR 0x22] @ rest"
  shows "concat (map up_Delta (fst (push_all ts (NewToolArgStringDecoder keys)))) = s"
proof -
  have ne: "normalizeToolArgStringKeys keys \<noteq> []" using assms(1) by auto
  have "findRootStringFieldValueStart (normalizeToolArgStringKeys keys) 0 (concat ts) =
      Some (key, quote s @ CHR 0x22 # rest)"
    using assms by (simp add: token_quote field_step_def skipJSONWhitespace_def json_blank_def)
  then have "extractFirstRootStringFieldPrefix (concat ts) (normalizeToolArgStringKeys keys) = Some (key, s)"
    using ne assms(2) by (simp add: extractFirstRootStringFieldPrefix_def decode_quote)
  moreover obtain us d where p: "push_all ts (NewToolArgStringDecoder keys) = (us, d)"
    by (cases "push_all ts (NewToolArgStringDecoder keys)")
  moreover have "td_raw d = concat ts" "td_keys d = normalizeToolArgStringKeys keys"
    "td_lastFull d = concat (map up_Delta us)" "decoder_ok d"
    using push_all_steps [OF new_decoder_ok p] by (simp_all add: NewToolArgStringDecoder_def)
  ultimately show ?thesis by (simp add: decoder_ok_def decoded_of_def)
qed

text \<open>The arguments of a tool in three pieces, cut in the middle of an escape.\<close>

theorem tool_arg_streamed_witness:
  "concat (map up_Delta (fst (push_all
     [''{'' @ [CHR 0x22] @ ''text'' @ [CHR 0x22], '':'' @ [CHR 0x22] @ ''a'' @ [CHR 0x5C],
      ''nb'' @ [CHR 0x22] @ ''}''] (NewToolArgStringDecoder [])))) = ''a'' @ [CHR 0x0A] @ ''b''"
proof (rule tool_arg_streamed [where key = "''text''" and rest = "''}''"])
  show "''text'' \<in> set (normalizeToolArgStringKeys [])" by code_simp
qed (simp add: quote_def quote_byte_def code_def)

end
