(* ===== verification/RequestLimits.thy ===== *)
theory RequestLimits
  imports ManagerState
begin

text \<open>
  The limits of a message request (\<open>pkg/gateway/limits\<close>): numbers of messages and tools, and
  budgets of text and of base64 data over all content blocks, nested ones included. The closures that
  count are functions on a tally; lengths are unbounded integers.
\<close>

section \<open>Budgets\<close>

record limits_config =
  lc_MaxMessages :: int
  lc_MaxTools :: int
  lc_MaxTotalTextBytes :: int
  lc_MaxB64BytesPerBlock :: int
  lc_MaxB64BytesTotal :: int

record tally =
  totalTextBytes :: int
  totalDecodedB64 :: int

definition len :: "'a list \<Rightarrow> int" where
  "len xs = int (length xs)"

definition isBase64Source :: "string \<Rightarrow> bool" where
  "isBase64Source typ = equal_fold (trim_space typ) ''base64''"

definition estimateDecodedB64Bytes :: "string \<Rightarrow> int" where
  "estimateDecodedB64Bytes b64 =
     (let n = len b64 in
      if n \<le> 0 then 0
      else (let pad = (if has_suffix b64 ''=='' then 2 else if has_suffix b64 ''='' then 1 else 0);
                decoded = n * 3 div 4 - pad
            in if decoded < 0 then 0 else decoded))"

definition addText :: "limits_config \<Rightarrow> string \<Rightarrow> string \<Rightarrow> tally \<Rightarrow> core_error + tally" where
  "addText cfg param s t =
     (if lc_MaxTotalTextBytes cfg \<le> 0 then Inr t
      else (let n = len s in
            if totalTextBytes t + n > lc_MaxTotalTextBytes cfg then
              Inl (NewInvalidRequestErrorWithParam
                (''total text bytes '' @ itoa (totalTextBytes t + n) @ '' exceeds limit '' @
                 itoa (lc_MaxTotalTextBytes cfg)) param)
            else Inr (t\<lparr>totalTextBytes := totalTextBytes t + n\<rparr>)))"

definition addB64 :: "limits_config \<Rightarrow> string \<Rightarrow> string \<Rightarrow> tally \<Rightarrow> core_error + tally" where
  "addB64 cfg param b64 t =
     (if lc_MaxB64BytesPerBlock cfg \<le> 0 \<and> lc_MaxB64BytesTotal cfg \<le> 0 then Inr t
      else (let decoded = estimateDecodedB64Bytes b64 in
            if lc_MaxB64BytesPerBlock cfg > 0 \<and> decoded > lc_MaxB64BytesPerBlock cfg then
              Inl (NewInvalidRequestErrorWithParam
                (''decoded base64 payload '' @ itoa decoded @ '' exceeds per-block limit '' @
                 itoa (lc_MaxB64BytesPerBlock cfg)) param)
            else if lc_MaxB64BytesTotal cfg > 0 \<and> totalDecodedB64 t + decoded > lc_MaxB64BytesTotal cfg then
              Inl (NewInvalidRequestErrorWithParam
                (''decoded base64 payload total '' @ itoa (totalDecodedB64 t + decoded) @
                 '' exceeds limit '' @ itoa (lc_MaxB64BytesTotal cfg)) param)
            else Inr (t\<lparr>totalDecodedB64 := totalDecodedB64 t + decoded\<rparr>)))"

definition addSource :: "limits_config \<Rightarrow> string \<Rightarrow> string \<Rightarrow> string \<Rightarrow> tally \<Rightarrow> core_error + tally" where
  "addSource cfg path typ dat t =
     (if isBase64Source typ then addB64 cfg (path @ ''.source.data'') dat t else Inr t)"

text \<open>The loop over the blocks and the switch over the type of each.\<close>

fun validateBlocks :: "limits_config \<Rightarrow> string \<Rightarrow> int \<Rightarrow> block list \<Rightarrow> tally \<Rightarrow> core_error + tally"
and validateBlock :: "limits_config \<Rightarrow> string \<Rightarrow> block \<Rightarrow> tally \<Rightarrow> core_error + tally" where
  "validateBlocks cfg pre i [] t = Inr t"
| "validateBlocks cfg pre i (b # bs) t =
     (case validateBlock cfg (pre @ ''['' @ itoa i @ '']'') b t of
        Inl e \<Rightarrow> Inl e
      | Inr t' \<Rightarrow> validateBlocks cfg pre (i + 1) bs t')"
| "validateBlock cfg path (TextBlock _ s) t = addText cfg (path @ ''.text'') s t"
| "validateBlock cfg path (ImageBlock _ src) t = addSource cfg path (ms_type src) (ms_data src) t"
| "validateBlock cfg path (AudioBlock _ src _) t = addSource cfg path (av_type src) (av_data src) t"
| "validateBlock cfg path (AudioSTTBlock _ src _) t = addSource cfg path (av_type src) (av_data src) t"
| "validateBlock cfg path (VideoBlock _ src) t = addSource cfg path (av_type src) (av_data src) t"
| "validateBlock cfg path (DocumentBlock _ src _) t = addSource cfg path (ms_type src) (ms_data src) t"
| "validateBlock cfg path (ToolResultBlock _ _ c _) t = validateBlocks cfg (path @ ''.content'') 0 c t"
| "validateBlock cfg path _ t = Inr t"

definition validate_system :: "limits_config \<Rightarrow> content \<Rightarrow> tally \<Rightarrow> core_error + tally" where
  "validate_system cfg sys t =
     (case sys of
        CStr s \<Rightarrow> addText cfg ''system'' s t
      | CBlocks bs \<Rightarrow> validateBlocks cfg ''system'' 0 (elems bs) t
      | CNil \<Rightarrow> Inr t
      | _ \<Rightarrow> Inl (NewInvalidRequestErrorWithParam
               ''system must be a string or an array of content blocks'' ''system''))"

definition message_path :: "int \<Rightarrow> string" where
  "message_path i = ''messages['' @ itoa i @ ''].content''"

fun validate_messages :: "limits_config \<Rightarrow> int \<Rightarrow> message list \<Rightarrow> tally \<Rightarrow> core_error + tally" where
  "validate_messages cfg i [] t = Inr t"
| "validate_messages cfg i (m # ms) t =
     (case (case msg_Content m of
              CStr s \<Rightarrow> addText cfg (message_path i) s t
            | CBlocks bs \<Rightarrow> validateBlocks cfg (message_path i) 0 (elems bs) t
            | CNil \<Rightarrow> Inl (NewInvalidRequestErrorWithParam ''content is required'' (message_path i))
            | _ \<Rightarrow> Inl (NewInvalidRequestErrorWithParam
                     ''content must be a string or an array of content blocks'' (message_path i))) of
        Inl e \<Rightarrow> Inl e
      | Inr t' \<Rightarrow> validate_messages cfg (i + 1) ms t')"

definition limits_ValidateMessageRequest :: "message_request option \<Rightarrow> limits_config \<Rightarrow> core_error option" where
  "limits_ValidateMessageRequest req cfg =
     (case req of
        None \<Rightarrow> Some (NewInvalidRequestError ''request is required'')
      | Some r \<Rightarrow>
          if lc_MaxMessages cfg > 0 \<and> len (mr_Messages r) > lc_MaxMessages cfg then
            Some (NewInvalidRequestErrorWithParam
              (''too many messages (max '' @ itoa (lc_MaxMessages cfg) @ '')'') ''messages'')
          else if lc_MaxTools cfg > 0 \<and> len (mr_Tools r) > lc_MaxTools cfg then
            Some (NewInvalidRequestErrorWithParam
              (''too many tools (max '' @ itoa (lc_MaxTools cfg) @ '')'') ''tools'')
          else
            (case validate_system cfg (mr_System r) \<lparr>totalTextBytes = 0, totalDecodedB64 = 0\<rparr> of
               Inl e \<Rightarrow> Some e
             | Inr t \<Rightarrow>
                 (case validate_messages cfg 0 (mr_Messages r) t of Inl e \<Rightarrow> Some e | Inr _ \<Rightarrow> None)))"

section \<open>What is counted\<close>

text \<open>The texts of a block and its base64 data, nested blocks included.\<close>

fun texts :: "block \<Rightarrow> string list" where
  "texts (TextBlock _ s) = [s]"
| "texts (ToolResultBlock _ _ c _) = concat (map texts c)"
| "texts _ = []"

definition b64_of :: "string \<Rightarrow> string \<Rightarrow> string list" where
  "b64_of typ dat = (if isBase64Source typ then [dat] else [])"

fun payloads :: "block \<Rightarrow> string list" where
  "payloads (ImageBlock _ s) = b64_of (ms_type s) (ms_data s)"
| "payloads (AudioBlock _ s _) = b64_of (av_type s) (av_data s)"
| "payloads (AudioSTTBlock _ s _) = b64_of (av_type s) (av_data s)"
| "payloads (VideoBlock _ s) = b64_of (av_type s) (av_data s)"
| "payloads (DocumentBlock _ s _) = b64_of (ms_type s) (ms_data s)"
| "payloads (ToolResultBlock _ _ c _) = concat (map payloads c)"
| "payloads _ = []"

fun content_texts :: "content \<Rightarrow> string list" where
  "content_texts (CStr s) = [s]"
| "content_texts (CBlocks bs) = concat (map texts (elems bs))"
| "content_texts _ = []"

fun content_payloads :: "content \<Rightarrow> string list" where
  "content_payloads (CBlocks bs) = concat (map payloads (elems bs))"
| "content_payloads _ = []"

definition request_contents :: "message_request \<Rightarrow> content list" where
  "request_contents r = mr_System r # map msg_Content (mr_Messages r)"

definition within_limits :: "limits_config \<Rightarrow> string list \<Rightarrow> string list \<Rightarrow> bool" where
  "within_limits cfg ts ps \<longleftrightarrow>
     (lc_MaxTotalTextBytes cfg > 0 \<longrightarrow> sum_list (map len ts) \<le> lc_MaxTotalTextBytes cfg) \<and>
     (lc_MaxB64BytesPerBlock cfg > 0 \<longrightarrow>
        list_all (\<lambda>p. estimateDecodedB64Bytes p \<le> lc_MaxB64BytesPerBlock cfg) ps) \<and>
     (lc_MaxB64BytesTotal cfg > 0 \<longrightarrow>
        sum_list (map estimateDecodedB64Bytes ps) \<le> lc_MaxB64BytesTotal cfg)"

section \<open>The checks as a list of charges\<close>

text \<open>A charge is what one call of the closures counts: a text or a payload.\<close>

type_synonym charge = "bool \<times> string \<times> string"

fun charge :: "limits_config \<Rightarrow> charge list \<Rightarrow> tally \<Rightarrow> core_error + tally" where
  "charge cfg [] t = Inr t"
| "charge cfg ((is_text, path, s) # cs) t =
     (case (if is_text then addText cfg path s t else addB64 cfg path s t) of
        Inl e \<Rightarrow> Inl e | Inr t' \<Rightarrow> charge cfg cs t')"

lemma charge_append:
  "charge cfg (cs @ ds) t = (case charge cfg cs t of Inl e \<Rightarrow> Inl e | Inr t' \<Rightarrow> charge cfg ds t')"
  by (induction cfg cs t rule: charge.induct) (auto split: sum.splits)

definition charged_texts :: "charge list \<Rightarrow> string list" where
  "charged_texts cs = map (snd \<circ> snd) (filter fst cs)"

definition charged_payloads :: "charge list \<Rightarrow> string list" where
  "charged_payloads cs = map (snd \<circ> snd) (filter (\<lambda>c. \<not> fst c) cs)"

lemma charged_append [simp]:
  "charged_texts (a @ b) = charged_texts a @ charged_texts b"
  "charged_payloads (a @ b) = charged_payloads a @ charged_payloads b"
  "charged_texts [] = []" "charged_payloads [] = []"
  by (simp_all add: charged_texts_def charged_payloads_def)

fun block_charges :: "string \<Rightarrow> int \<Rightarrow> block list \<Rightarrow> charge list"
and charges :: "string \<Rightarrow> block \<Rightarrow> charge list" where
  "block_charges pre i [] = []"
| "block_charges pre i (b # bs) =
     charges (pre @ ''['' @ itoa i @ '']'') b @ block_charges pre (i + 1) bs"
| "charges path (TextBlock _ s) = [(True, path @ ''.text'', s)]"
| "charges path (ToolResultBlock _ _ c _) = block_charges (path @ ''.content'') 0 c"
| "charges path b = map (\<lambda>p. (False, path @ ''.source.data'', p)) (payloads b)"

lemma validate_charges:
  "validateBlocks cfg pre i bs t = charge cfg (block_charges pre i bs) t"
  "validateBlock cfg path b t = charge cfg (charges path b) t"
  by (induction cfg pre i bs t and cfg path b t rule: validateBlocks_validateBlock.induct)
     (auto simp: charge_append addSource_def b64_of_def split: sum.splits)

lemma charged_block:
  "charged_texts (block_charges pre i bs) = concat (map texts bs)"
  "charged_texts (charges path b) = texts b"
  by (induction pre i bs and path b rule: block_charges_charges.induct)
     (auto simp: charged_texts_def b64_of_def)

lemma charged_block':
  "charged_payloads (block_charges pre i bs) = concat (map payloads bs)"
  "charged_payloads (charges path b) = payloads b"
  by (induction pre i bs and path b rule: block_charges_charges.induct)
     (auto simp: charged_payloads_def b64_of_def)

text \<open>A list of charges passes iff what it holds affordable into the budgets that are left.\<close>

lemma estimate_nonneg: "0 \<le> estimateDecodedB64Bytes s"
  by (simp add: estimateDecodedB64Bytes_def Let_def)

lemma sum_estimates: "0 \<le> sum_list (map estimateDecodedB64Bytes ps)"
  by (induction ps) (auto simp: estimate_nonneg)

lemma sum_lens: "0 \<le> sum_list (map len ts)"
  by (induction ts) (auto simp: len_def)

definition affordable :: "limits_config \<Rightarrow> tally \<Rightarrow> string list \<Rightarrow> string list \<Rightarrow> bool" where
  "affordable cfg t ts ps \<longleftrightarrow>
     (lc_MaxTotalTextBytes cfg > 0 \<longrightarrow> totalTextBytes t + sum_list (map len ts) \<le> lc_MaxTotalTextBytes cfg) \<and>
     (lc_MaxB64BytesPerBlock cfg > 0 \<longrightarrow>
        list_all (\<lambda>p. estimateDecodedB64Bytes p \<le> lc_MaxB64BytesPerBlock cfg) ps) \<and>
     (lc_MaxB64BytesTotal cfg > 0 \<longrightarrow>
        totalDecodedB64 t + sum_list (map estimateDecodedB64Bytes ps) \<le> lc_MaxB64BytesTotal cfg)"

lemma fits_text:
  "affordable cfg t (s # ts) ps \<longleftrightarrow> (\<exists>t'. addText cfg path s t = Inr t' \<and> affordable cfg t' ts ps)"
  using sum_lens [of ts] by (auto simp: affordable_def addText_def Let_def)

lemma fits_b64:
  "affordable cfg t ts (p # ps) \<longleftrightarrow> (\<exists>t'. addB64 cfg path p t = Inr t' \<and> affordable cfg t' ts ps)"
  using sum_estimates [of ps] by (auto simp: affordable_def addB64_def Let_def)

lemma charge_fits:
  "(\<exists>t'. charge cfg cs t = Inr t' \<and> affordable cfg t' ts ps) \<longleftrightarrow>
     affordable cfg t (charged_texts cs @ ts) (charged_payloads cs @ ps)"
proof (induction cfg cs t rule: charge.induct)
  case (2 cfg is_text path s cs t)
  show ?case
  proof (cases is_text)
    case True
    then show ?thesis
      using 2 fits_text [of cfg t s "charged_texts cs @ ts" "charged_payloads cs @ ps" path]
      by (auto simp: charged_texts_def charged_payloads_def split: sum.splits)
  next
    case False
    then show ?thesis
      using 2 fits_b64 [of cfg t "charged_texts cs @ ts" s "charged_payloads cs @ ps" path]
      by (auto simp: charged_texts_def charged_payloads_def split: sum.splits)
  qed
qed simp

section \<open>The check of a request\<close>

text \<open>The contents that are allowed at the places of a message and of the system prompt.\<close>

fun text_or_blocks :: "content \<Rightarrow> bool" where
  "text_or_blocks (CStr _) = True"
| "text_or_blocks (CBlocks _) = True"
| "text_or_blocks _ = False"

lemma system_fits:
  "(\<exists>t'. validate_system cfg sys t = Inr t' \<and> affordable cfg t' ts ps) \<longleftrightarrow>
     (sys = CNil \<or> text_or_blocks sys) \<and> affordable cfg t (content_texts sys @ ts) (content_payloads sys @ ps)"
  using fits_text [of cfg t _ ts ps "''system''"]
    charge_fits [of cfg "block_charges ''system'' 0 (elems _)" t ts ps]
  by (cases sys) (auto simp: validate_system_def validate_charges charged_block charged_block')

lemma messages_fits:
  "(\<exists>t'. validate_messages cfg i ms t = Inr t' \<and> affordable cfg t' ts ps) \<longleftrightarrow>
     list_all (text_or_blocks \<circ> msg_Content) ms \<and>
     affordable cfg t (concat (map (content_texts \<circ> msg_Content) ms) @ ts)
       (concat (map (content_payloads \<circ> msg_Content) ms) @ ps)"
proof (induction cfg i ms t rule: validate_messages.induct)
  case (2 cfg i m ms t)
  let ?ts = "concat (map (content_texts \<circ> msg_Content) ms) @ ts"
  let ?ps = "concat (map (content_payloads \<circ> msg_Content) ms) @ ps"
  show ?case
  proof (cases "msg_Content m")
    case (CStr s)
    then show ?thesis
      using 2 fits_text [of cfg t s ?ts ?ps "message_path i"] by (auto simp: comp_def split: sum.splits)
  next
    case (CBlocks bs)
    then show ?thesis
      using 2 charge_fits [of cfg "block_charges (message_path i) 0 (elems bs)" t ?ts ?ps]
      by (auto simp: comp_def validate_charges charged_block charged_block' split: sum.splits)
  qed auto
qed simp

lemma charge_keeps: "charge cfg cs t = Inr t' \<Longrightarrow> affordable cfg t [] [] \<Longrightarrow> affordable cfg t' [] []"
  by (induction cfg cs t rule: charge.induct)
     (auto simp: affordable_def addText_def addB64_def Let_def split: sum.splits if_splits)

lemma addText_keeps: "addText cfg path s t = Inr t' \<Longrightarrow> affordable cfg t [] [] \<Longrightarrow> affordable cfg t' [] []"
  using charge_keeps [of cfg "[(True, path, s)]" t t'] by simp

lemma system_keeps: "validate_system cfg sys t = Inr t' \<Longrightarrow> affordable cfg t [] [] \<Longrightarrow> affordable cfg t' [] []"
  by (cases sys) (auto simp: validate_system_def validate_charges dest: charge_keeps addText_keeps)

lemma messages_keeps: "validate_messages cfg i ms t = Inr t' \<Longrightarrow> affordable cfg t [] [] \<Longrightarrow> affordable cfg t' [] []"
  by (induction cfg i ms t rule: validate_messages.induct)
     (auto simp: validate_charges split: sum.splits content.splits dest: charge_keeps addText_keeps)

text \<open>C31. A request passes exactly when it has no more messages and tools than allowed, every content is a
  text or a list of blocks, and its texts and base64 payloads, those of nested tool results included,
  respect the budgets.\<close>

theorem limits_exact:
  "limits_ValidateMessageRequest (Some r) cfg = None \<longleftrightarrow>
     \<not> (lc_MaxMessages cfg > 0 \<and> len (mr_Messages r) > lc_MaxMessages cfg) \<and>
     \<not> (lc_MaxTools cfg > 0 \<and> len (mr_Tools r) > lc_MaxTools cfg) \<and>
     (mr_System r = CNil \<or> text_or_blocks (mr_System r)) \<and>
     list_all (text_or_blocks \<circ> msg_Content) (mr_Messages r) \<and>
     within_limits cfg (concat (map content_texts (request_contents r)))
       (concat (map content_payloads (request_contents r)))"
proof -
  define t0 where "t0 = \<lparr>totalTextBytes = 0, totalDecodedB64 = 0\<rparr>"
  define ok where "ok \<longleftrightarrow> (\<exists>t t'. validate_system cfg (mr_System r) t0 = Inr t \<and>
     validate_messages cfg 0 (mr_Messages r) t = Inr t')"
  have zero: "affordable cfg t0 [] []" by (auto simp: affordable_def t0_def)
  have "ok \<longleftrightarrow> (\<exists>t. validate_system cfg (mr_System r) t0 = Inr t \<and>
      (\<exists>t'. validate_messages cfg 0 (mr_Messages r) t = Inr t' \<and> affordable cfg t' [] []))"
    unfolding ok_def using zero system_keeps messages_keeps by blast
  also have "\<dots> \<longleftrightarrow> list_all (text_or_blocks \<circ> msg_Content) (mr_Messages r) \<and>
     (mr_System r = CNil \<or> text_or_blocks (mr_System r)) \<and>
     affordable cfg t0 (concat (map content_texts (request_contents r)))
       (concat (map content_payloads (request_contents r)))"
    unfolding messages_fits request_contents_def using system_fits [of cfg "mr_System r" t0] by auto
  finally have "ok \<longleftrightarrow> \<dots>" .
  moreover have "limits_ValidateMessageRequest (Some r) cfg = None \<longleftrightarrow>
     \<not> (lc_MaxMessages cfg > 0 \<and> len (mr_Messages r) > lc_MaxMessages cfg) \<and>
     \<not> (lc_MaxTools cfg > 0 \<and> len (mr_Tools r) > lc_MaxTools cfg) \<and> ok"
    unfolding limits_ValidateMessageRequest_def ok_def t0_def by (auto split: sum.splits)
  moreover have "affordable cfg t0 ts ps = within_limits cfg ts ps" for ts ps
    by (simp add: affordable_def within_limits_def t0_def)
  ultimately show ?thesis by blast
qed

text \<open>The estimate of the decoded size is exact for padded base64.\<close>

lemma estimate_exact:
  assumes "length b64 = 4 * ((m + 2) div 3)"
    and "has_suffix b64 ''=='' \<longleftrightarrow> m mod 3 = 1" and "has_suffix b64 ''='' \<longleftrightarrow> m mod 3 \<noteq> 0"
  shows "estimateDecodedB64Bytes b64 = int m"
proof (cases "b64 = []")
  case True
  then show ?thesis using assms(1) by (simp add: estimateDecodedB64Bytes_def len_def)
next
  case False
  define q where "q = m div 3"
  define r where "r = m mod 3"
  have m: "m = 3 * q + r" "r = 0 \<or> r = 1 \<or> r = 2" unfolding q_def r_def by auto
  have "(m + 2) div 3 = q + (if r = 0 then 0 else 1)" using m(2) unfolding m(1) by auto
  then have l: "len b64 = 4 * int (q + (if r = 0 then 0 else 1))" using assms(1) by (simp add: len_def)
  have s: "has_suffix b64 ''=='' \<longleftrightarrow> r = 1" "has_suffix b64 ''='' \<longleftrightarrow> r \<noteq> 0"
    using assms(2,3) by (simp_all add: r_def)
  have "len b64 * 3 div 4 = 3 * int (q + (if r = 0 then 0 else 1))" unfolding l by simp
  moreover have "len b64 > 0" using False by (simp add: len_def)
  ultimately show ?thesis using m(2) s unfolding m(1) by (auto simp: estimateDecodedB64Bytes_def Let_def)
qed

end
