(* ===== verification/Compat.thy ===== *)
theory Compat
  imports ManagerState
begin

text \<open>
  The compatibility catalog (\<open>pkg/gateway/compat\<close>): the curated models, the policies of the
  providers and the check of a request against both. A set of strings is a list.
\<close>

section \<open>The catalog\<close>

datatype Support = SupportUnknown | SupportSupported | SupportUnsupported

record model_capabilities =
  mcap_Streaming :: Support
  mcap_Tools :: Support
  mcap_NativeWebSearch :: Support
  mcap_NativeCodeExec :: Support
  mcap_Vision :: Support
  mcap_Documents :: Support
  mcap_StructuredOutput :: Support
  mcap_Thinking :: Support

record catalog_model =
  cm_ID :: string
  cm_Provider :: string
  cm_Name :: string
  cm_Capabilities :: model_capabilities

definition curatedModels :: "catalog_model list" where
  "curatedModels =
     [
      \<lparr>cm_ID = ''anthropic/claude-sonnet-4'', cm_Provider = ''anthropic'', cm_Name = ''claude-sonnet-4'',
       cm_Capabilities = \<lparr>mcap_Streaming = SupportSupported, mcap_Tools = SupportSupported,
         mcap_NativeWebSearch = SupportSupported, mcap_NativeCodeExec = SupportSupported,
         mcap_Vision = SupportSupported, mcap_Documents = SupportSupported,
         mcap_StructuredOutput = SupportSupported, mcap_Thinking = SupportSupported\<rparr>\<rparr>,
      \<lparr>cm_ID = ''openai/gpt-4o'', cm_Provider = ''openai'', cm_Name = ''gpt-4o'',
       cm_Capabilities = \<lparr>mcap_Streaming = SupportSupported, mcap_Tools = SupportSupported,
         mcap_NativeWebSearch = SupportUnsupported, mcap_NativeCodeExec = SupportUnsupported,
         mcap_Vision = SupportSupported, mcap_Documents = SupportUnsupported,
         mcap_StructuredOutput = SupportSupported, mcap_Thinking = SupportUnsupported\<rparr>\<rparr>,
      \<lparr>cm_ID = ''openai/gpt-4o-mini'', cm_Provider = ''openai'', cm_Name = ''gpt-4o-mini'',
       cm_Capabilities = \<lparr>mcap_Streaming = SupportSupported, mcap_Tools = SupportSupported,
         mcap_NativeWebSearch = SupportUnsupported, mcap_NativeCodeExec = SupportUnsupported,
         mcap_Vision = SupportSupported, mcap_Documents = SupportUnsupported,
         mcap_StructuredOutput = SupportSupported, mcap_Thinking = SupportUnsupported\<rparr>\<rparr>,
      \<lparr>cm_ID = ''oai-resp/gpt-5'', cm_Provider = ''oai-resp'', cm_Name = ''gpt-5'',
       cm_Capabilities = \<lparr>mcap_Streaming = SupportSupported, mcap_Tools = SupportSupported,
         mcap_NativeWebSearch = SupportSupported, mcap_NativeCodeExec = SupportSupported,
         mcap_Vision = SupportSupported, mcap_Documents = SupportSupported,
         mcap_StructuredOutput = SupportSupported, mcap_Thinking = SupportSupported\<rparr>\<rparr>,
      \<lparr>cm_ID = ''oai-resp/gpt-5-mini'', cm_Provider = ''oai-resp'', cm_Name = ''gpt-5-mini'',
       cm_Capabilities = \<lparr>mcap_Streaming = SupportSupported, mcap_Tools = SupportSupported,
         mcap_NativeWebSearch = SupportSupported, mcap_NativeCodeExec = SupportSupported,
         mcap_Vision = SupportSupported, mcap_Documents = SupportSupported,
         mcap_StructuredOutput = SupportSupported, mcap_Thinking = SupportSupported\<rparr>\<rparr>,
      \<lparr>cm_ID = ''gem-dev/gemini-2.5-pro'', cm_Provider = ''gem-dev'', cm_Name = ''gemini-2.5-pro'',
       cm_Capabilities = \<lparr>mcap_Streaming = SupportSupported, mcap_Tools = SupportSupported,
         mcap_NativeWebSearch = SupportSupported, mcap_NativeCodeExec = SupportSupported,
         mcap_Vision = SupportSupported, mcap_Documents = SupportSupported,
         mcap_StructuredOutput = SupportSupported, mcap_Thinking = SupportSupported\<rparr>\<rparr>,
      \<lparr>cm_ID = ''gem-dev/gemini-2.5-flash'', cm_Provider = ''gem-dev'', cm_Name = ''gemini-2.5-flash'',
       cm_Capabilities = \<lparr>mcap_Streaming = SupportSupported, mcap_Tools = SupportSupported,
         mcap_NativeWebSearch = SupportSupported, mcap_NativeCodeExec = SupportSupported,
         mcap_Vision = SupportSupported, mcap_Documents = SupportSupported,
         mcap_StructuredOutput = SupportSupported, mcap_Thinking = SupportSupported\<rparr>\<rparr>,
      \<lparr>cm_ID = ''gem-vert/gemini-2.5-pro'', cm_Provider = ''gem-vert'', cm_Name = ''gemini-2.5-pro'',
       cm_Capabilities = \<lparr>mcap_Streaming = SupportSupported, mcap_Tools = SupportSupported,
         mcap_NativeWebSearch = SupportSupported, mcap_NativeCodeExec = SupportSupported,
         mcap_Vision = SupportSupported, mcap_Documents = SupportSupported,
         mcap_StructuredOutput = SupportSupported, mcap_Thinking = SupportSupported\<rparr>\<rparr>,
      \<lparr>cm_ID = ''gem-vert/gemini-2.5-flash'', cm_Provider = ''gem-vert'', cm_Name = ''gemini-2.5-flash'',
       cm_Capabilities = \<lparr>mcap_Streaming = SupportSupported, mcap_Tools = SupportSupported,
         mcap_NativeWebSearch = SupportSupported, mcap_NativeCodeExec = SupportSupported,
         mcap_Vision = SupportSupported, mcap_Documents = SupportSupported,
         mcap_StructuredOutput = SupportSupported, mcap_Thinking = SupportSupported\<rparr>\<rparr>,
      \<lparr>cm_ID = ''gem-vert/gemini-3-flash-preview'', cm_Provider = ''gem-vert'', cm_Name = ''gemini-3-flash-preview'',
       cm_Capabilities = \<lparr>mcap_Streaming = SupportSupported, mcap_Tools = SupportSupported,
         mcap_NativeWebSearch = SupportSupported, mcap_NativeCodeExec = SupportSupported,
         mcap_Vision = SupportSupported, mcap_Documents = SupportSupported,
         mcap_StructuredOutput = SupportSupported, mcap_Thinking = SupportSupported\<rparr>\<rparr>,
      \<lparr>cm_ID = ''groq/llama-3.3-70b-versatile'', cm_Provider = ''groq'', cm_Name = ''llama-3.3-70b-versatile'',
       cm_Capabilities = \<lparr>mcap_Streaming = SupportSupported, mcap_Tools = SupportSupported,
         mcap_NativeWebSearch = SupportUnsupported, mcap_NativeCodeExec = SupportUnsupported,
         mcap_Vision = SupportSupported, mcap_Documents = SupportUnsupported,
         mcap_StructuredOutput = SupportSupported, mcap_Thinking = SupportUnsupported\<rparr>\<rparr>,
      \<lparr>cm_ID = ''cerebras/llama-3.3-70b'', cm_Provider = ''cerebras'', cm_Name = ''llama-3.3-70b'',
       cm_Capabilities = \<lparr>mcap_Streaming = SupportSupported, mcap_Tools = SupportSupported,
         mcap_NativeWebSearch = SupportUnsupported, mcap_NativeCodeExec = SupportUnsupported,
         mcap_Vision = SupportUnsupported, mcap_Documents = SupportUnsupported,
         mcap_StructuredOutput = SupportSupported, mcap_Thinking = SupportUnsupported\<rparr>\<rparr>,
      \<lparr>cm_ID = ''openrouter/openai/gpt-4o'', cm_Provider = ''openrouter'', cm_Name = ''openai/gpt-4o'',
       cm_Capabilities = \<lparr>mcap_Streaming = SupportSupported, mcap_Tools = SupportSupported,
         mcap_NativeWebSearch = SupportUnsupported, mcap_NativeCodeExec = SupportUnsupported,
         mcap_Vision = SupportSupported, mcap_Documents = SupportUnsupported,
         mcap_StructuredOutput = SupportSupported, mcap_Thinking = SupportUnsupported\<rparr>\<rparr>]"

definition CatalogModels :: "catalog_model list" where
  "CatalogModels = curatedModels"

definition catalog_LookupModel :: "string \<Rightarrow> catalog_model option" where
  "catalog_LookupModel modelID = find (\<lambda>m. cm_ID m = modelID) curatedModels"

text \<open>\<open>SplitN(modelID, "/", 2)\<close> has two parts iff there is a slash.\<close>

definition SplitModelID :: "string \<Rightarrow> (string \<times> string) option" where
  "SplitModelID modelID =
     (case cut CHR ''/'' (trim_space modelID) of
        None \<Rightarrow> None
      | Some (p, n) \<Rightarrow> if trim_space p = [] \<or> trim_space n = [] then None else Some (p, n))"

definition ProviderKeyHeader :: "string \<Rightarrow> string option" where
  "ProviderKeyHeader provider =
     (if provider = ''anthropic'' then Some ''X-Provider-Key-Anthropic''
      else if provider = ''openai'' then Some ''X-Provider-Key-OpenAI''
      else if provider = ''oai-resp'' then Some ''X-Provider-Key-OpenAI''
      else if provider = ''gem-dev'' then Some ''X-Provider-Key-Gemini''
      else if provider = ''gem-vert'' then Some ''X-Provider-Key-VertexAI''
      else if provider = ''groq'' then Some ''X-Provider-Key-Groq''
      else if provider = ''cerebras'' then Some ''X-Provider-Key-Cerebras''
      else if provider = ''openrouter'' then Some ''X-Provider-Key-OpenRouter''
      else None)"

section \<open>Policies\<close>

record provider_policy =
  pp_UnsupportedBlocks :: "string list"
  pp_UnsupportedTools :: "string list"
  pp_Thinking :: Support
  pp_OutputFormat :: Support

definition setOf :: "string list \<Rightarrow> string list" where
  "setOf xs = xs"

definition providerPolicies :: "(string, provider_policy) gomap" where
  "providerPolicies =
     [
      (''anthropic'',
       \<lparr>pp_UnsupportedBlocks = setOf [''video''],
        pp_UnsupportedTools = setOf [ToolTypeFileSearch],
        pp_Thinking = SupportSupported, pp_OutputFormat = SupportSupported\<rparr>),
      (''openai'',
       \<lparr>pp_UnsupportedBlocks = setOf [''video'', ''document'', ''thinking'', ''server_tool_use'',
                                     ''web_search_tool_result''],
        pp_UnsupportedTools = setOf [ToolTypeWebSearch, ToolTypeWebFetch, ToolTypeCodeExecution,
                                    ToolTypeFileSearch, ToolTypeComputerUse, ToolTypeTextEditor],
        pp_Thinking = SupportUnsupported, pp_OutputFormat = SupportSupported\<rparr>),
      (''oai-resp'',
       \<lparr>pp_UnsupportedBlocks = setOf [''video'', ''server_tool_use'', ''web_search_tool_result''],
        pp_UnsupportedTools = setOf [ToolTypeWebFetch, ToolTypeTextEditor],
        pp_Thinking = SupportSupported, pp_OutputFormat = SupportSupported\<rparr>),
      (''gem-dev'',
       \<lparr>pp_UnsupportedBlocks = setOf [''server_tool_use'', ''web_search_tool_result''],
        pp_UnsupportedTools = setOf [ToolTypeWebFetch, ToolTypeFileSearch, ToolTypeComputerUse,
                                    ToolTypeTextEditor],
        pp_Thinking = SupportSupported, pp_OutputFormat = SupportSupported\<rparr>),
      (''gem-vert'',
       \<lparr>pp_UnsupportedBlocks = setOf [''server_tool_use'', ''web_search_tool_result''],
        pp_UnsupportedTools = setOf [ToolTypeWebFetch, ToolTypeFileSearch, ToolTypeComputerUse,
                                    ToolTypeTextEditor],
        pp_Thinking = SupportSupported, pp_OutputFormat = SupportSupported\<rparr>),
      (''groq'',
       \<lparr>pp_UnsupportedBlocks = setOf [''video'', ''document'', ''thinking'', ''server_tool_use'',
                                     ''web_search_tool_result''],
        pp_UnsupportedTools = setOf [ToolTypeWebSearch, ToolTypeWebFetch, ToolTypeCodeExecution,
                                    ToolTypeFileSearch, ToolTypeComputerUse, ToolTypeTextEditor],
        pp_Thinking = SupportUnsupported, pp_OutputFormat = SupportSupported\<rparr>),
      (''cerebras'',
       \<lparr>pp_UnsupportedBlocks = setOf [''image'', ''audio'', ''video'', ''document'', ''thinking'',
                                     ''server_tool_use'', ''web_search_tool_result''],
        pp_UnsupportedTools = setOf [ToolTypeWebSearch, ToolTypeWebFetch, ToolTypeCodeExecution,
                                    ToolTypeFileSearch, ToolTypeComputerUse, ToolTypeTextEditor],
        pp_Thinking = SupportUnsupported, pp_OutputFormat = SupportSupported\<rparr>),
      (''openrouter'',
       \<lparr>pp_UnsupportedBlocks = setOf [''video'', ''document'', ''thinking'', ''server_tool_use'',
                                     ''web_search_tool_result''],
        pp_UnsupportedTools = setOf [ToolTypeWebSearch, ToolTypeWebFetch, ToolTypeCodeExecution,
                                    ToolTypeFileSearch, ToolTypeComputerUse, ToolTypeTextEditor],
        pp_Thinking = SupportUnsupported, pp_OutputFormat = SupportSupported\<rparr>)]"

definition no_policy :: provider_policy where
  "no_policy = \<lparr>pp_UnsupportedBlocks = [], pp_UnsupportedTools = [], pp_Thinking = SupportUnknown,
     pp_OutputFormat = SupportUnknown\<rparr>"

text \<open>The overrides per model, of which there are none.\<close>

definition modelPolicyOverrides :: "(string, provider_policy) gomap" where
  "modelPolicyOverrides = []"

definition resolvePolicy :: "string \<Rightarrow> string \<Rightarrow> provider_policy" where
  "resolvePolicy provider modelID =
     (case mget providerPolicies provider of
        None \<Rightarrow> no_policy
      | Some p \<Rightarrow>
          (case mget modelPolicyOverrides modelID of
             None \<Rightarrow> p
           | Some ov \<Rightarrow>
               \<lparr>pp_UnsupportedBlocks = pp_UnsupportedBlocks p @ pp_UnsupportedBlocks ov,
                pp_UnsupportedTools = pp_UnsupportedTools p @ pp_UnsupportedTools ov,
                pp_Thinking = (if pp_Thinking ov \<noteq> SupportUnknown then pp_Thinking ov else pp_Thinking p),
                pp_OutputFormat = (if pp_OutputFormat ov \<noteq> SupportUnknown then pp_OutputFormat ov
                                   else pp_OutputFormat p)\<rparr>))"

section \<open>The check\<close>

fun compat_blockType :: "block \<Rightarrow> string" where
  "compat_blockType (TextBlock t _) = t"
| "compat_blockType (ImageBlock t _) = t"
| "compat_blockType (AudioBlock t _ _) = t"
| "compat_blockType (AudioSTTBlock t _ _) = t"
| "compat_blockType (VideoBlock t _) = t"
| "compat_blockType (DocumentBlock t _ _) = t"
| "compat_blockType (ToolUseBlock t _ _ _) = t"
| "compat_blockType (ToolResultBlock t _ _ _) = t"
| "compat_blockType (ThinkingBlock t _ _) = t"
| "compat_blockType (ServerToolUseBlock t _ _ _) = t"
| "compat_blockType (WebSearchToolResultBlock t _ _) = t"
| "compat_blockType _ = []"

definition newIssue :: "string \<Rightarrow> string \<Rightarrow> string \<Rightarrow> compat_issue" where
  "newIssue param code message =
     \<lparr>issue_Severity = ''error'', issue_Param = param, issue_Code = code, issue_Message = message\<rparr>"

definition indexed :: "string \<Rightarrow> int \<Rightarrow> string" where
  "indexed path i = path @ ''['' @ itoa i @ '']''"

definition blockIssues :: "string \<Rightarrow> string \<Rightarrow> string \<Rightarrow> provider_policy \<Rightarrow> compat_issue list" where
  "blockIssues blockType param provider policy =
     (if blockType = ''thinking'' \<and> pp_Thinking policy = SupportUnsupported then
        [newIssue param ''unsupported_thinking'' ''extended thinking is not supported by this model'']
      else if blockType \<in> set (pp_UnsupportedBlocks policy) then
        [newIssue param ''unsupported_content_block''
           (blockType @ '' blocks are not supported by '' @ provider)]
      else [])"

fun compat_block :: "block \<Rightarrow> string \<Rightarrow> string \<Rightarrow> provider_policy \<Rightarrow> compat_issue list"
and compat_blocks :: "block list \<Rightarrow> string \<Rightarrow> int \<Rightarrow> string \<Rightarrow> provider_policy \<Rightarrow> compat_issue list" where
  "compat_block block param provider policy =
     (if compat_blockType block = [] then []
      else blockIssues (compat_blockType block) param provider policy @
           (case block of
              ToolResultBlock _ _ c _ \<Rightarrow> compat_blocks c (param @ ''.content'') 0 provider policy
            | _ \<Rightarrow> []))"
| "compat_blocks [] path i provider policy = []"
| "compat_blocks (b # bs) path i provider policy =
     compat_block b (indexed path i) provider policy @ compat_blocks bs path (i + 1) provider policy"

fun compat_messages :: "message list \<Rightarrow> int \<Rightarrow> string \<Rightarrow> provider_policy \<Rightarrow> compat_issue list" where
  "compat_messages [] i provider policy = []"
| "compat_messages (m # ms) i provider policy =
     compat_blocks (elems (ContentBlocks m)) (indexed ''messages'' i @ ''.content'') 0 provider policy @
     compat_messages ms (i + 1) provider policy"

fun compat_tools :: "tool list \<Rightarrow> int \<Rightarrow> string \<Rightarrow> provider_policy \<Rightarrow> compat_issue list" where
  "compat_tools [] i provider policy = []"
| "compat_tools (t # ts) i provider policy =
     (if tool_Type t \<in> set (pp_UnsupportedTools policy) then
        [newIssue (indexed ''tools'' i @ ''.type'') ''unsupported_tool_type''
           (tool_Type t @ '' tools are not supported by '' @ provider)] else []) @
     compat_tools ts (i + 1) provider policy"

text \<open>The policy of the provider, refined by what the catalog knows of the model.\<close>

definition effective_policy :: "catalog_model \<Rightarrow> string \<Rightarrow> string \<Rightarrow> provider_policy" where
  "effective_policy model provider modelID =
     (let policy = resolvePolicy provider modelID;
          policy = (if mcap_Thinking (cm_Capabilities model) \<noteq> SupportUnknown
                    then policy\<lparr>pp_Thinking := mcap_Thinking (cm_Capabilities model)\<rparr> else policy)
      in if mcap_StructuredOutput (cm_Capabilities model) \<noteq> SupportUnknown
         then policy\<lparr>pp_OutputFormat := mcap_StructuredOutput (cm_Capabilities model)\<rparr> else policy)"

definition compat_ValidateMessageRequest ::
  "message_request option \<Rightarrow> string \<Rightarrow> string \<Rightarrow> compat_issue list" where
  "compat_ValidateMessageRequest req provider modelID =
     (case req of
        None \<Rightarrow> []
      | Some r \<Rightarrow>
          (case catalog_LookupModel modelID of
             None \<Rightarrow> []
           | Some model \<Rightarrow>
               if cm_Provider model \<noteq> provider then []
               else (let policy = effective_policy model provider modelID in
                     (case mr_System r of
                        CBlocks bs \<Rightarrow> compat_blocks (elems bs) ''system'' 0 provider policy
                      | _ \<Rightarrow> []) @
                     compat_messages (mr_Messages r) 0 provider policy @
                     compat_tools (mr_Tools r) 0 provider policy @
                     (if mr_OutputFormat r \<noteq> None \<and> pp_OutputFormat policy = SupportUnsupported then
                        [newIssue ''output_format'' ''unsupported_output_format''
                           ''structured output is not supported by this model'']
                      else []))))"

section \<open>What is reported\<close>

text \<open>The blocks of a block: itself and those nested in tool results.\<close>

fun deep :: "block \<Rightarrow> block list" where
  "deep (ToolResultBlock t i c e) =
     ToolResultBlock t i c e # (if t = [] then [] else concat (map deep c))"
| "deep b = [b]"

definition block_unsupported :: "provider_policy \<Rightarrow> block \<Rightarrow> bool" where
  "block_unsupported policy b \<longleftrightarrow> compat_blockType b \<noteq> [] \<and>
     (compat_blockType b = ''thinking'' \<and> pp_Thinking policy = SupportUnsupported \<or>
      compat_blockType b \<in> set (pp_UnsupportedBlocks policy))"

definition request_blocks :: "message_request \<Rightarrow> block list" where
  "request_blocks r =
     concat (map deep ((case mr_System r of CBlocks bs \<Rightarrow> elems bs | _ \<Rightarrow> []) @
                       concat (map (elems \<circ> ContentBlocks) (mr_Messages r))))"

definition unsupported_count :: "provider_policy \<Rightarrow> message_request \<Rightarrow> nat" where
  "unsupported_count policy r =
     length (filter (block_unsupported policy) (request_blocks r)) +
     length (filter (\<lambda>t. tool_Type t \<in> set (pp_UnsupportedTools policy)) (mr_Tools r)) +
     (if mr_OutputFormat r \<noteq> None \<and> pp_OutputFormat policy = SupportUnsupported then 1 else 0)"

declare compat_block.simps [simp del]

lemma compat_block_count:
  "length (compat_block b param provider policy) = length (filter (block_unsupported policy) (deep b))"
  "length (compat_blocks bs path i provider policy) =
     length (filter (block_unsupported policy) (concat (map deep bs)))"
proof (induction b param provider policy and bs path i provider policy rule: compat_block_compat_blocks.induct)
  case (1 block param provider policy)
  then show ?case
    by (cases block) (auto simp: compat_block.simps blockIssues_def block_unsupported_def)
qed simp_all

lemma compat_messages_count:
  "length (compat_messages ms i provider policy) =
     length (filter (block_unsupported policy) (concat (map deep (concat (map (elems \<circ> ContentBlocks) ms)))))"
  by (induction ms i provider policy rule: compat_messages.induct)
     (simp_all add: compat_block_count del: ContentBlocks.simps)

lemma compat_tools_count:
  "length (compat_tools ts i provider policy) =
     length (filter (\<lambda>t. tool_Type t \<in> set (pp_UnsupportedTools policy)) ts)"
  by (induction ts i provider policy rule: compat_tools.induct) auto

text \<open>The check reports one issue for each block, nested ones included, for each tool and for the
  output format that the policy in force does not support, and none for a model the catalog does not list
  for the provider.\<close>

theorem compat_exact:
  "length (compat_ValidateMessageRequest (Some r) provider modelID) =
     (case catalog_LookupModel modelID of
        None \<Rightarrow> 0
      | Some model \<Rightarrow>
          if cm_Provider model \<noteq> provider then 0
          else unsupported_count (effective_policy model provider modelID) r)"
  by (auto simp: compat_ValidateMessageRequest_def unsupported_count_def request_blocks_def Let_def
      compat_block_count compat_messages_count compat_tools_count
      split: option.splits content.splits)

text \<open>Every model of the catalog is listed under the provider its identifier names, and every provider
  of the catalog has a policy and a key header.\<close>

lemma catalog_consistent:
  "list_all (\<lambda>m. SplitModelID (cm_ID m) = Some (cm_Provider m, cm_Name m) \<and>
     catalog_LookupModel (cm_ID m) = Some m \<and> mget providerPolicies (cm_Provider m) \<noteq> None \<and>
     ProviderKeyHeader (cm_Provider m) \<noteq> None) CatalogModels"
  by code_simp

end
