(* ===== verification/ApiError.thy ===== *)
theory ApiError
  imports ChainTypes
begin

text \<open>
  Errors as the gateway reports them over HTTP (\<open>pkg/gateway/apierror/apierror.go\<close>) and in run
  streams (the end of \<open>pkg/gateway/runloop/runloop.go\<close>). The errors of the provider packages
  have types of their own, which are not modelled; the code copies them field by field.
\<close>

fun statusFromType :: "ErrorType \<Rightarrow> int" where
  "statusFromType ErrInvalidRequest = 400"
| "statusFromType ErrAuthentication = 401"
| "statusFromType ErrPermission = 403"
| "statusFromType ErrNotFoundType = 404"
| "statusFromType ErrRateLimit = 429"
| "statusFromType ErrOverloaded = 529"
| "statusFromType ErrProvider = 502"
| "statusFromType ErrAPI = 500"

text \<open>\<open>errors.As\<close> for a core error.\<close>

fun as_core_error :: "gerr \<Rightarrow> core_error option" where
  "as_core_error (CoreErr e) = Some e"
| "as_core_error (WrapErr _ e) = as_core_error e"
| "as_core_error _ = None"

definition FromError :: "gerr \<Rightarrow> string \<Rightarrow> core_error \<times> int" where
  "FromError err requestID =
     (if errors_Is err CtxDeadlineExceeded then
        ((new_core_error ErrAPI ''request timeout'')\<lparr>ce_RequestID := requestID\<rparr>, 504)
      else if errors_Is err CtxCanceled then
        ((new_core_error ErrAPI ''request cancelled'')\<lparr>ce_Code := ''cancelled'', ce_RequestID := requestID\<rparr>, 408)
      else (case as_core_error err of
              Some e \<Rightarrow> (e\<lparr>ce_RequestID := requestID\<rparr>, statusFromType (ce_Type e))
            | None \<Rightarrow> ((new_core_error ErrAPI ''internal error'')\<lparr>ce_RequestID := requestID\<rparr>, 500)))"

text \<open>The issues have the same fields on both sides.\<close>

definition toTypesCompatIssues :: "compat_issue list \<Rightarrow> compat_issue list" where
  "toTypesCompatIssues issues = map (\<lambda>i.
     \<lparr>issue_Severity = issue_Severity i, issue_Param = issue_Param i, issue_Code = issue_Code i,
      issue_Message = issue_Message i\<rparr>) issues"

definition toTypesError :: "gerr \<Rightarrow> string \<Rightarrow> api_error" where
  "toTypesError err requestID =
     (let coreErr = fst (FromError err requestID);
          coreErr = (if ce_Type coreErr = ErrAPI \<and> ce_Message coreErr = ''internal error'' \<and>
                        ce_ProviderError coreErr = None
                     then coreErr\<lparr>ce_ProviderError := Some (JStr (error_text err))\<rparr> else coreErr)
      in \<lparr>ae_Type = error_type (ce_Type coreErr), ae_Message = ce_Message coreErr,
          ae_Param = ce_Param coreErr, ae_Code = ce_Code coreErr, ae_RequestID = ce_RequestID coreErr,
          ae_ProviderError = ce_ProviderError coreErr, ae_RetryAfter = ce_RetryAfter coreErr,
          ae_CompatIssues = toTypesCompatIssues (ce_CompatIssues coreErr)\<rparr>)"

lemma status_range: "400 \<le> snd (FromError err rid) \<and> snd (FromError err rid) < 600"
proof -
  have "400 \<le> statusFromType t \<and> statusFromType t < 600" for t by (cases t) simp_all
  then show ?thesis by (auto simp: FromError_def split: option.split)
qed

end
