(* ===== verification/StreamTurn.thy ===== *)
theory StreamTurn
  imports ServerTools Events ManagerState
begin

text \<open>
  One streamed model turn of a stateless run (\<open>streamTurn\<close> in
  \<open>pkg/gateway/runloop/runloop.go\<close>). The select loop is driven by the list of what it is woken by;
  a list that ends stands for the end of what it waits for. Events go to an emitter, which may fail
  depending on the events before; the state is the log of the events emitted so far.
\<close>

section \<open>Emitting\<close>

type_synonym emitter = "run_stream_event list \<Rightarrow> run_stream_event \<Rightarrow> gerr option"
type_synonym 'a rop = "(run_stream_event list, 'a) state"

definition emit_event :: "emitter \<Rightarrow> run_stream_event \<Rightarrow> gerr option rop" where
  "emit_event em ev = do {
     log \<leftarrow> gets (\<lambda>l. l);
     (case em log ev of
        Some e \<Rightarrow> ret (Some e)
      | None \<Rightarrow> do { modify (\<lambda>l. l @ [ev]); ret None }) }"

text \<open>\<open>base64.StdEncoding\<close>.\<close>

definition b64_char :: "nat \<Rightarrow> char" where
  "b64_char n = char_of (if n < 26 then 65 + n else if n < 52 then 71 + n else if n < 62 then n - 4
     else if n = 62 then 43 else 47 :: nat)"

fun EncodeToString :: "string \<Rightarrow> string" where
  "EncodeToString [] = []"
| "EncodeToString [a] =
     (let n = of_char a * 65536 in
      [b64_char (n div 262144), b64_char ((n div 4096) mod 64), CHR ''='', CHR ''=''])"
| "EncodeToString [a, b] =
     (let n = of_char a * 65536 + of_char b * 256 in
      [b64_char (n div 262144), b64_char ((n div 4096) mod 64), b64_char ((n div 64) mod 64), CHR ''=''])"
| "EncodeToString (a # b # c # s) =
     (let n = of_char a * 65536 + of_char b * 256 + of_char c in
      [b64_char (n div 262144), b64_char ((n div 4096) mod 64), b64_char ((n div 64) mod 64),
       b64_char (n mod 64)]) @ EncodeToString s"

section \<open>Audio\<close>

text \<open>\<open>au_open\<close>: the audio channel is not nil; \<open>au_stream\<close>: the speech stream is not nil;
  \<open>au_fed\<close>: the texts it was fed.\<close>

record audio =
  au_open :: bool
  au_stream :: bool
  au_fed :: "string list"
  au_stopped :: bool
  au_failed :: bool
  au_pending :: string

definition no_audio :: audio where
  "no_audio = \<lparr>au_open = False, au_stream = False, au_fed = [], au_stopped = False, au_failed = False,
     au_pending = []\<rparr>"

definition emitAudio :: "emitter \<Rightarrow> int \<Rightarrow> string \<Rightarrow> bool \<Rightarrow> gerr option rop" where
  "emitAudio em rate chunk final =
     emit_event em (RunAudioChunkEvent ''pcm_s16le'' (EncodeToString chunk) rate final)"

definition flushPendingAudio :: "emitter \<Rightarrow> int \<Rightarrow> bool \<Rightarrow> audio \<Rightarrow> (gerr + audio) rop" where
  "flushPendingAudio em rate final au =
     (if au_stopped au \<or> au_pending au = [] then ret (Inr (au\<lparr>au_pending := []\<rparr>))
      else do {
        err \<leftarrow> emitAudio em rate (au_pending au) final;
        ret (case err of Some e \<Rightarrow> Inl e | None \<Rightarrow> Inr (au\<lparr>au_pending := []\<rparr>)) })"

definition handleAudioChunk :: "emitter \<Rightarrow> int \<Rightarrow> string \<Rightarrow> audio \<Rightarrow> (gerr + audio) rop" where
  "handleAudioChunk em rate chunk au =
     (if chunk = [] \<or> au_stopped au then ret (Inr au)
      else attempt (flushPendingAudio em rate False au) (\<lambda>au'. ok (au'\<lparr>au_pending := chunk\<rparr>)))"

definition emitTTSUnavailable :: "emitter \<Rightarrow> gerr \<Rightarrow> audio \<Rightarrow> audio rop" where
  "emitTTSUnavailable em err au =
     (if au_failed au then ret au
      else do {
        _ \<leftarrow> emit_event em (RunAudioUnavailableEvent ''tts_failed''
               (''TTS synthesis failed: '' @ error_text err));
        ret (au\<lparr>au_failed := True, au_stopped := True, au_pending := [], au_stream := False\<rparr>) })"

text \<open>\<open>OnTextDelta\<close>: its result is a function of the texts fed so far.\<close>

definition feed_text :: "emitter \<Rightarrow> (string list \<Rightarrow> gerr option) \<Rightarrow> string \<Rightarrow> audio \<Rightarrow> audio rop" where
  "feed_text em tts text au =
     (let au' = au\<lparr>au_fed := au_fed au @ [text]\<rparr> in
      case tts (au_fed au') of None \<Rightarrow> ret au' | Some e \<Rightarrow> emitTTSUnavailable em e au')"

definition speak_event :: "emitter \<Rightarrow> (string list \<Rightarrow> gerr option) \<Rightarrow> stream_event \<Rightarrow> audio \<Rightarrow> audio rop" where
  "speak_event em tts ev au =
     (if \<not> au_stream au then ret au
      else (case ev of
              ContentBlockStartEvent _ (TextBlock _ t) \<Rightarrow>
                if trim_space t \<noteq> [] then feed_text em tts t au else ret au
            | ContentBlockDeltaEvent _ (TextDelta t) \<Rightarrow> feed_text em tts t au
            | _ \<Rightarrow> ret au))"

section \<open>The select loop\<close>

datatype stream_wake =
    WakeDone gerr
  | WakeIdle
  | WakeAudio string
  | WakeAudioEnd
  | WakeNext "stream_event option" "gerr option"
  | WakeStreamEnd

datatype flush_wake = FlushDone "gerr option" | FlushAudio string | FlushAudioEnd | FlushCtx gerr

text \<open>The parser of tool inputs, from the parser of texts.\<close>

definition input_parser :: "(string \<Rightarrow> json option) \<Rightarrow> string \<Rightarrow> jobj option option" where
  "input_parser parse raw =
     (case parse raw of
        Some JNull \<Rightarrow> Some None
      | Some (JObj m) \<Rightarrow> Some (Some (jclone_obj m))
      | _ \<Rightarrow> None)"

definition idle_error :: gerr where
  "idle_error = CoreErr (new_core_error ErrAPI ''upstream stream idle timeout'')"

text \<open>The accumulator panics on an event with a negative start index. The code does not recover: the panic
  unwinds the run and is recovered, if at all, by the handler that started it. The model cannot leave a run that way,
  and ends the turn with an error instead, so that what the properties say of runs is meant for runs without such
  an event.\<close>

definition accumulator_panic :: gerr where
  "accumulator_panic = PlainErr ''runtime error: index out of range''"

record speech =
  sp_rate :: int
  sp_tts :: "string list \<Rightarrow> gerr option"

fun read_loop ::
  "emitter \<Rightarrow> (string \<Rightarrow> jobj option option) \<Rightarrow> bool \<Rightarrow> speech \<Rightarrow> stream_wake list \<Rightarrow> accumulator \<times> audio
     \<Rightarrow> (gerr + accumulator \<times> audio) rop"
where
  "read_loop em parse idle sp [] st = ok st"
| "read_loop em parse idle sp (WakeDone e # ws) st = fail e"
| "read_loop em parse idle sp (WakeIdle # ws) st =
     (if idle then fail idle_error else read_loop em parse idle sp ws st)"
| "read_loop em parse idle sp (WakeAudio chunk # ws) (acc, au) =
     (if au_open au
      then attempt (handleAudioChunk em (sp_rate sp) chunk au) (\<lambda>au'. read_loop em parse idle sp ws (acc, au'))
      else read_loop em parse idle sp ws (acc, au))"
| "read_loop em parse idle sp (WakeAudioEnd # ws) (acc, au) =
     read_loop em parse idle sp ws (acc, au\<lparr>au_open := False\<rparr>)"
| "read_loop em parse idle sp (WakeStreamEnd # ws) st = ok st"
| "read_loop em parse idle sp (WakeNext None err # ws) st =
     (case err of
        None \<Rightarrow> read_loop em parse idle sp ws st
      | Some e \<Rightarrow> if errors_Is e IOEOF then ok st else fail e)"
| "read_loop em parse idle sp (WakeNext (Some ev) err # ws) (acc, au) =
     (case Apply parse ev acc of
        None \<Rightarrow> fail accumulator_panic
      | Some acc' \<Rightarrow> do {
          sent \<leftarrow> emit_event em (RunStreamEventWrapper ev);
          (case sent of
             Some e \<Rightarrow> fail e
           | None \<Rightarrow> do {
               au' \<leftarrow> speak_event em (sp_tts sp) ev au;
               (case err of
                  None \<Rightarrow> read_loop em parse idle sp ws (acc', au')
                | Some e \<Rightarrow> if errors_Is e IOEOF then ok (acc', au') else fail e) }) })"

text \<open>Waiting for the end of the flush and of the audio.\<close>

fun flush_loop :: "emitter \<Rightarrow> int \<Rightarrow> flush_wake list \<Rightarrow> bool \<Rightarrow> audio \<Rightarrow> (gerr + audio) rop" where
  "flush_loop em rate [] flushed au = ok (au\<lparr>au_open := False\<rparr>)"
| "flush_loop em rate (w # ws) flushed au =
     (if flushed \<and> \<not> au_open au then ok au
      else (case w of
              FlushDone None \<Rightarrow> flush_loop em rate ws True au
            | FlushDone (Some e) \<Rightarrow> do {
                au' \<leftarrow> emitTTSUnavailable em e au;
                flush_loop em rate ws True au' }
            | FlushAudio chunk \<Rightarrow>
                (if au_open au
                 then attempt (handleAudioChunk em rate chunk au) (flush_loop em rate ws flushed)
                 else flush_loop em rate ws flushed au)
            | FlushAudioEnd \<Rightarrow> flush_loop em rate ws flushed (au\<lparr>au_open := False\<rparr>)
            | FlushCtx e \<Rightarrow> fail e))"

fun drain_audio :: "emitter \<Rightarrow> int \<Rightarrow> string list \<Rightarrow> audio \<Rightarrow> (gerr + audio) rop" where
  "drain_audio em rate [] au = ok au"
| "drain_audio em rate (chunk # chunks) au =
     (if au_stopped au then drain_audio em rate chunks au
      else attempt (handleAudioChunk em rate chunk au) (drain_audio em rate chunks))"

record stream_io =
  si_wakes :: "stream_wake list"
  si_tts :: "string list \<Rightarrow> gerr option"
  si_flush :: "flush_wake list"
  si_ttsErr :: "gerr option"
  si_rest :: "string list"

definition end_speech :: "emitter \<Rightarrow> int \<Rightarrow> stream_io \<Rightarrow> audio \<Rightarrow> (gerr + audio) rop" where
  "end_speech em rate io au0 =
     attempt (if au_stream au0 \<and> \<not> au_stopped au0 \<and> au_fed au0 \<noteq> []
              then flush_loop em rate (si_flush io) False au0
              else ok (au0\<lparr>au_stream := False\<rparr>))
       (\<lambda>au1. do {
          au2 \<leftarrow> (if au_stream au1 \<and> \<not> au_stopped au1 then
                    (case si_ttsErr io of None \<Rightarrow> ret au1 | Some e \<Rightarrow> emitTTSUnavailable em e au1)
                  else ret au1);
          let au3 = au2\<lparr>au_stream := False\<rparr>;
          attempt (if au_open au3 then drain_audio em rate (si_rest io) au3 else ok au3)
            (\<lambda>au4. if \<not> au_stopped au4 then flushPendingAudio em rate True au4 else ok au4) })"

text \<open>The pipeline opens the speech context of a voice configuration and a speech model (after
  \<open>ResolveTTSModel\<close>); speech services are outside.\<close>

definition voice_output_of :: "message_request \<Rightarrow> voice_output option" where
  "voice_output_of req = Option.bind (mr_Voice req) vc_Output"

definition sample_rate :: "message_request \<Rightarrow> int" where
  "sample_rate req =
     (case voice_output_of req of
        Some o' \<Rightarrow> if vo_SampleRate o' > 0 then vo_SampleRate o' else 24000
      | None \<Rightarrow> 24000)"

definition streamTurn ::
  "emitter \<Rightarrow> (string \<Rightarrow> jobj option option) \<Rightarrow> bool \<Rightarrow> (message_request \<Rightarrow> gerr option)
     \<Rightarrow> (message_request \<Rightarrow> gerr + stream_io) \<Rightarrow> message_request \<Rightarrow> (gerr + message_response) rop"
where
  "streamTurn em parse idle open_tts StreamMessage req =
     (case StreamMessage (req\<lparr>mr_Stream := True\<rparr>) of
        Inl e \<Rightarrow> fail e
      | Inr io \<Rightarrow>
          (case (if voice_output_of req \<noteq> None then open_tts req else None) of
             Some e \<Rightarrow> fail e
           | None \<Rightarrow>
               (let speaking = (voice_output_of req \<noteq> None);
                    au = no_audio\<lparr>au_open := speaking, au_stream := speaking\<rparr>;
                    sp = \<lparr>sp_rate = sample_rate req, sp_tts = si_tts io\<rparr>
                in attempt (read_loop em parse idle sp (si_wakes io) (NewStreamAccumulator, au))
                     (\<lambda>(acc, au'). attempt (end_speech em (sample_rate req) io au')
                        (\<lambda>_. ok (Response parse acc))))))"

end
