(* ===== verification/Controller.thy ===== *)
theory Controller
  imports ApiError StreamTurn TurnLoop
begin

text \<open>
  The tool loop of a stateless run (\<open>Controller\<close> in \<open>pkg/gateway/runloop/runloop.go\<close>).
  What the environment decides in a turn (whether the context is done at its head, what the provider, the
  tools and the speech service return, in which order parallel tools run and how long the turn took) is
  listed turn by turn in the input of the loop; a list that ends leaves the loop in its current state.
\<close>

section \<open>Requests and inputs\<close>

record run_config =
  rc_MaxTurns :: int
  rc_MaxToolCalls :: int
  rc_MaxTokens :: int
  rc_TimeoutMS :: int
  rc_ParallelTools :: bool
  rc_ToolTimeoutMS :: int

record run_request =
  rq_Request :: message_request
  rq_Run :: run_config
  rq_ServerTools :: "string slice"
  rq_ServerToolConfig :: "jobj option"
  rq_Builtins :: "string slice"

record voice_pipeline =
  vp_Preprocess :: "message_request \<Rightarrow> gerr + message_request \<times> string"
  vp_AppendVoiceOutput :: "message_request \<Rightarrow> message_response \<Rightarrow> gerr + message_response"
  vp_OpenTTS :: "message_request \<Rightarrow> gerr option"

type_synonym tool_executor =
  "nat \<Rightarrow> string \<Rightarrow> jobj option \<Rightarrow> image_refs \<Rightarrow> block slice \<times> api_error option"

record turn_io =
  io_ctx :: "gerr option"
  io_CreateMessage :: "message_request \<Rightarrow> gerr + message_response"
  io_StreamMessage :: "message_request \<Rightarrow> gerr + stream_io"
  io_Execute :: tool_executor
  io_schedule :: "nat list"
  io_ms :: int

record controller =
  cl_Provider :: bool
  cl_Vision :: bool
  cl_Tools :: bool
  cl_VoicePipeline :: "voice_pipeline option"
  cl_StreamIdleTimeout :: int
  cl_RequestID :: string
  cl_PublicModel :: string
  cl_sha :: "string \<Rightarrow> string"
  cl_parse :: "string \<Rightarrow> json option"
  cl_render :: "json \<Rightarrow> string"

fun blocks_have_audio_stt :: "block list \<Rightarrow> bool"
and has_audio_stt :: "block \<Rightarrow> bool" where
  "blocks_have_audio_stt [] = False"
| "blocks_have_audio_stt (b # bs) = (has_audio_stt b \<or> blocks_have_audio_stt bs)"
| "has_audio_stt (AudioSTTBlock _ _ _) = True"
| "has_audio_stt (ToolResultBlock _ _ c _) = blocks_have_audio_stt c"
| "has_audio_stt _ = False"

definition RequestHasAudioSTT :: "message_request \<Rightarrow> bool" where
  "RequestHasAudioSTT req =
     ((case mr_System req of CBlocks bs \<Rightarrow> blocks_have_audio_stt (elems bs) | _ \<Rightarrow> False) \<or>
      list_ex (\<lambda>m. blocks_have_audio_stt (elems (ContentBlocks m))) (mr_Messages req))"

definition ctx_stop_reason :: "gerr option \<Rightarrow> RunStopReason option" where
  "ctx_stop_reason err =
     (case err of
        None \<Rightarrow> None
      | Some e \<Rightarrow>
          if errors_Is e CtxCanceled then Some RunStopReasonCancelled
          else if errors_Is e CtxDeadlineExceeded then Some RunStopReasonTimeout
          else None)"

section \<open>Tools\<close>

definition emit_opt :: "emitter option \<Rightarrow> run_stream_event \<Rightarrow> gerr option rop" where
  "emit_opt emit ev = (case emit of None \<Rightarrow> ret None | Some em \<Rightarrow> emit_event em ev)"

type_synonym tool_exec_result = "run_tool_call \<times> run_tool_result"

definition call_of :: "tool_use \<Rightarrow> run_tool_call" where
  "call_of u = \<lparr>call_ID = use_ID u, call_Name = use_Name u, call_Input = use_Input u\<rparr>"

definition tool_content :: "block slice \<Rightarrow> api_error option \<Rightarrow> block slice" where
  "tool_content content toolErr =
     (if elems content \<noteq> [] then content
      else (case toolErr of
              Some e \<Rightarrow> Some [text_block (if ae_Message e = [] then ''tool execution failed'' else ae_Message e)]
            | None \<Rightarrow> Some [text_block []]))"

definition exec_one :: "tool_executor \<Rightarrow> image_refs \<Rightarrow> nat \<Rightarrow> tool_use \<Rightarrow> tool_exec_result" where
  "exec_one execute refs i u =
     (case execute i (use_Name u) (use_Input u) refs of
        (content, toolErr) \<Rightarrow>
          (call_of u, \<lparr>res_ToolUseID = use_ID u, res_Content = tool_content content toolErr,
             res_IsError = (toolErr \<noteq> None), res_Error = toolErr\<rparr>))"

text \<open>A goroutine has two steps: it announces the call, and it runs the tool and reports the result. The
  state holds how many steps each has made and the slice of results.\<close>

definition tool_step ::
  "tool_executor \<Rightarrow> image_refs \<Rightarrow> emitter option \<Rightarrow> tool_use list \<Rightarrow> nat
     \<Rightarrow> nat list \<times> tool_exec_result option list \<Rightarrow> (nat list \<times> tool_exec_result option list) rop"
where
  "tool_step execute refs emit uses i st =
     (case st of (steps, results) \<Rightarrow>
        if i \<ge> length uses then ret st
        else (let u = uses ! i in
          if steps ! i = 0 then do {
            _ \<leftarrow> emit_opt emit (RunToolCallStartEvent (use_ID u) (use_Name u) (use_Input u));
            ret (steps[i := 1], results) }
          else if steps ! i = 1 then do {
            let r = exec_one execute refs i u;
            _ \<leftarrow> emit_opt emit (RunToolResultEvent (use_ID u) (use_Name u) (res_Content (snd r))
                   (res_IsError (snd r)) (res_Error (snd r)));
            ret (steps[i := 2], results[i := Some r]) }
          else ret st))"

fun tool_steps ::
  "tool_executor \<Rightarrow> image_refs \<Rightarrow> emitter option \<Rightarrow> tool_use list \<Rightarrow> nat list
     \<Rightarrow> nat list \<times> tool_exec_result option list \<Rightarrow> (nat list \<times> tool_exec_result option list) rop"
where
  "tool_steps execute refs emit uses [] st = ret st"
| "tool_steps execute refs emit uses (i # is) st = do {
     st' \<leftarrow> tool_step execute refs emit uses i st;
     tool_steps execute refs emit uses is st' }"

text \<open>In sequence, or as scheduled until all are done.\<close>

definition tool_schedule :: "bool \<Rightarrow> nat list \<Rightarrow> nat \<Rightarrow> nat list" where
  "tool_schedule par schedule n =
     (if par \<and> n > 1 then schedule else []) @ concat (map (\<lambda>i. [i, i]) [0..<n])"

definition executeTools ::
  "tool_executor \<Rightarrow> image_refs \<Rightarrow> run_config \<Rightarrow> nat list \<Rightarrow> emitter option \<Rightarrow> tool_use list
     \<Rightarrow> tool_exec_result list rop"
where
  "executeTools execute refs cfg schedule emit uses = do {
     (_, results) \<leftarrow> tool_steps execute refs emit uses
        (tool_schedule (rc_ParallelTools cfg) schedule (length uses))
        (replicate (length uses) 0, replicate (length uses) None);
     ret (List.map_filter (\<lambda>r. r) results) }"

text \<open>The results of image tools get the references of their images.\<close>

fun finalize_results ::
  "controller \<Rightarrow> tool_exec_result list \<Rightarrow> image_refs \<Rightarrow> run_tool_result list"
where
  "finalize_results c [] refs = []"
| "finalize_results c ((call, res) # rs) refs =
     (if call_Name call = ToolImage then
        (let (content, refs') = FinalizeImageToolResultContent (cl_sha c) (cl_parse c) (cl_render c)
               (res_Content res) refs
         in res\<lparr>res_Content := content\<rparr> # finalize_results c rs refs')
      else res # finalize_results c rs refs)"

section \<open>The loop\<close>

record loop_state =
  ls_history :: "message list"
  ls_result :: run_result
  ls_step :: int

definition initial_loop :: "message list \<Rightarrow> loop_state" where
  "initial_loop history = \<lparr>ls_history = history, ls_result = empty_result, ls_step = 0\<rparr>"

type_synonym run_outcome = "run_result option \<times> gerr option"

definition assistant_answer :: "message_response \<Rightarrow> message" where
  "assistant_answer resp = \<lparr>msg_Role = ''assistant'', msg_Content = CBlocks (Some (resp_Content resp))\<rparr>"

text \<open>The returns of the loop: the result with its reason and its messages.\<close>

definition stopped_result :: "loop_state \<Rightarrow> RunStopReason \<Rightarrow> run_result" where
  "stopped_result st reason =
     (ls_result st)\<lparr>rs_StopReason := reason, rs_Messages := ls_history st\<rparr>"

definition complete_run :: "emitter option \<Rightarrow> loop_state \<Rightarrow> RunStopReason \<Rightarrow> run_outcome rop" where
  "complete_run emit st reason = do {
     let result = stopped_result st reason;
     _ \<leftarrow> emit_opt emit (RunCompleteEvent result);
     ret (Some result, None) }"

definition error_run :: "controller \<Rightarrow> emitter option \<Rightarrow> loop_state \<Rightarrow> gerr \<Rightarrow> run_outcome rop" where
  "error_run c emit st err = do {
     let reason = (case ctx_stop_reason (Some err) of Some r \<Rightarrow> r | None \<Rightarrow> RunStopReasonError);
     _ \<leftarrow> (if ctx_stop_reason (Some err) = None
           then emit_opt emit (RunErrorEvent (toTypesError err (cl_RequestID c))) else ret None);
     ret (Some (stopped_result st reason), Some err) }"

text \<open>The end of a run with the answer of the model.\<close>

definition answer_run ::
  "emitter option \<Rightarrow> loop_state \<Rightarrow> message_response \<Rightarrow> run_step \<Rightarrow> RunStopReason \<Rightarrow> run_outcome rop"
where
  "answer_run emit st resp step reason = do {
     let st' = st\<lparr>ls_history := ls_history st @ [assistant_answer resp],
                  ls_result := (ls_result st)\<lparr>rs_Response := Some resp,
                    rs_Steps := rs_Steps (ls_result st) @ [step]\<rparr>\<rparr>;
     let result = stopped_result st' reason;
     _ \<leftarrow> emit_opt emit (RunStepCompleteEvent (ls_step st) (Some resp));
     _ \<leftarrow> emit_opt emit (RunHistoryDeltaEvent (int (length (ls_history st')) - 1) [assistant_answer resp]);
     _ \<leftarrow> emit_opt emit (RunCompleteEvent result);
     ret (Some result, None) }"

definition turn_request :: "message_request \<Rightarrow> message list \<Rightarrow> message_request" where
  "turn_request req messages = req\<lparr>mr_Messages := messages, mr_Stream := False\<rparr>"

definition with_transcript :: "string \<Rightarrow> message_response \<Rightarrow> message_response" where
  "with_transcript transcript resp =
     (if transcript = [] then resp
      else resp\<lparr>resp_Metadata := Some (mput ''user_transcript'' (JStr transcript)
             (case resp_Metadata resp of None \<Rightarrow> [] | Some m \<Rightarrow> m))\<rparr>)"

definition model_turn ::
  "controller \<Rightarrow> turn_io \<Rightarrow> emitter option \<Rightarrow> message_request \<Rightarrow> (gerr + message_response) rop"
where
  "model_turn c io emit req =
     (case emit of
        None \<Rightarrow> ret (io_CreateMessage io req)
      | Some em \<Rightarrow>
          streamTurn em (input_parser (cl_parse c)) (cl_StreamIdleTimeout c > 0)
            (case cl_VoicePipeline c of None \<Rightarrow> (\<lambda>_. None) | Some vp \<Rightarrow> vp_OpenTTS vp)
            (io_StreamMessage io) req)"

definition append_voice ::
  "controller \<Rightarrow> message_request \<Rightarrow> message_response \<Rightarrow> gerr + message_response" where
  "append_voice c req resp =
     (case (voice_output_of req, cl_VoicePipeline c) of
        (Some _, Some vp) \<Rightarrow> vp_AppendVoiceOutput vp req resp
      | _ \<Rightarrow> Inr resp)"

text \<open>A turn that calls tools.\<close>

definition tool_turn_loop ::
  "controller \<Rightarrow> run_config \<Rightarrow> turn_io \<Rightarrow> emitter option \<Rightarrow> image_refs \<Rightarrow> loop_state \<Rightarrow> message_response
     \<Rightarrow> run_step \<Rightarrow> loop_state rop"
where
  "tool_turn_loop c cfg io emit refs st resp step = do {
     let uses = ToolUses resp;
     execRes \<leftarrow> executeTools (io_Execute io) refs cfg (io_schedule io) emit uses;
     let results = finalize_results c execRes refs;
     let step' = step\<lparr>step_ToolCalls := map call_of uses, step_ToolResults := results\<rparr>;
     let toolMsg = \<lparr>msg_Role = ''user'', msg_Content = CBlocks (Some (map (\<lambda>r.
           ToolResultBlock ''tool_result'' (res_ToolUseID r) (elems (res_Content r)) (res_IsError r)) results))\<rparr>;
     let append = [assistant_answer resp, toolMsg];
     _ \<leftarrow> emit_opt emit (RunStepCompleteEvent (ls_step st) (Some resp));
     _ \<leftarrow> emit_opt emit (RunHistoryDeltaEvent (int (length (ls_history st))) append);
     ret \<lparr>ls_history = ls_history st @ append,
          ls_result = (ls_result st)\<lparr>
            rs_ToolCallCount := rs_ToolCallCount (ls_result st) + int (length execRes),
            rs_Steps := rs_Steps (ls_result st) @ [step']\<rparr>,
          ls_step = ls_step st + 1\<rparr> }"

text \<open>What follows a response.\<close>

definition after_response ::
  "controller \<Rightarrow> run_request \<Rightarrow> turn_io \<Rightarrow> emitter option \<Rightarrow> image_refs \<Rightarrow> loop_state \<Rightarrow> message_response
     \<Rightarrow> (loop_state + run_outcome) rop"
where
  "after_response c req io emit refs st0 resp =
     (let cfg = rq_Run req;
          st = st0\<lparr>ls_result := (ls_result st0)\<lparr>
                 rs_Usage := usage_Add (rs_Usage (ls_result st0)) (resp_Usage resp),
                 rs_TurnCount := rs_TurnCount (ls_result st0) + 1\<rparr>\<rparr>;
          maxTokensExceeded = (rc_MaxTokens cfg > 0 \<and>
            TotalTokens (rs_Usage (ls_result st)) \<ge> rc_MaxTokens cfg);
          step = (\<lambda>resp. \<lparr>step_Index = ls_step st, step_Response = Some resp, step_ToolCalls = [],
            step_ToolResults = [], step_DurationMS = io_ms io\<rparr>);
          toolUses = ToolUses resp
      in if resp_StopReason resp \<noteq> StopReasonToolUse \<or> toolUses = [] then
           (case append_voice c (rq_Request req) resp of
              Inl err \<Rightarrow> do {
                _ \<leftarrow> emit_opt emit (RunErrorEvent (toTypesError err (cl_RequestID c)));
                ret (Inr (Some (stopped_result st RunStopReasonError), Some err)) }
            | Inr resp' \<Rightarrow> do {
                out \<leftarrow> answer_run emit st resp' (step resp')
                  (if maxTokensExceeded then RunStopReasonMaxTokens else RunStopReasonEndTurn);
                ret (Inr out) })
         else if maxTokensExceeded then do {
           out \<leftarrow> answer_run emit st resp (step resp) RunStopReasonMaxTokens;
           ret (Inr out) }
         else if rc_MaxToolCalls cfg > 0 \<and>
                 rs_ToolCallCount (ls_result st) + int (length toolUses) > rc_MaxToolCalls cfg then do {
           out \<leftarrow> answer_run emit st resp (step resp) RunStopReasonMaxToolCalls;
           ret (Inr out) }
         else do {
           st' \<leftarrow> tool_turn_loop c cfg io emit refs st resp (step resp);
           ret (Inl st') })"

text \<open>One iteration.\<close>

definition loop_turn ::
  "controller \<Rightarrow> run_request \<Rightarrow> message_request \<Rightarrow> string \<Rightarrow> emitter option \<Rightarrow> turn_io \<Rightarrow> loop_state
     \<Rightarrow> (loop_state + run_outcome) rop"
where
  "loop_turn c req workingReq transcript emit io st =
     (let cfg = rq_Run req; result = ls_result st in
      case ctx_stop_reason (io_ctx io) of
        Some reason \<Rightarrow> ret (Inr (Some (stopped_result st reason), io_ctx io))
      | None \<Rightarrow>
          if rc_MaxTurns cfg > 0 \<and> rs_TurnCount result \<ge> rc_MaxTurns cfg then do {
            out \<leftarrow> complete_run emit st RunStopReasonMaxTurns; ret (Inr out) }
          else if rc_MaxTokens cfg > 0 \<and> TotalTokens (rs_Usage result) \<ge> rc_MaxTokens cfg then do {
            out \<leftarrow> complete_run emit st RunStopReasonMaxTokens; ret (Inr out) }
          else do {
            started \<leftarrow> emit_opt emit (RunStepStartEvent (ls_step st));
            (case started of
               Some e \<Rightarrow> ret (Inr (None, Some e))
             | None \<Rightarrow>
                 (let (planner, refs) = BuildPlannerMessages (cl_sha c) (ls_history st) (cl_Vision c) in
                  do {
                    response \<leftarrow> model_turn c io emit (turn_request workingReq planner);
                    (case response of
                       Inl err \<Rightarrow> do { out \<leftarrow> error_run c emit st err; ret (Inr out) }
                     | Inr resp \<Rightarrow>
                         after_response c req io emit refs st (with_transcript transcript resp)) })) })"

fun run_loop ::
  "controller \<Rightarrow> run_request \<Rightarrow> message_request \<Rightarrow> string \<Rightarrow> emitter option \<Rightarrow> turn_io list \<Rightarrow> loop_state
     \<Rightarrow> (loop_state + run_outcome) rop"
where
  "run_loop c req workingReq transcript emit [] st = ret (Inl st)"
| "run_loop c req workingReq transcript emit (io # ios) st = do {
     r \<leftarrow> loop_turn c req workingReq transcript emit io st;
     (case r of
        Inl st' \<Rightarrow> run_loop c req workingReq transcript emit ios st'
      | Inr out \<Rightarrow> ret (Inr out)) }"

interpretation stateless_run: turn_loop
  "loop_turn c req workingReq transcript emit" "run_loop c req workingReq transcript emit"
  for c req workingReq transcript emit
  by unfold_locales simp_all

definition voice_error :: "string \<Rightarrow> gerr" where
  "voice_error msg = CoreErr ((new_core_error ErrInvalidRequest msg)\<lparr>ce_Code := ''unsupported_voice''\<rparr>)"

text \<open>What \<open>run\<close> does before its loop: the request to work with and the transcript of its speech.\<close>

definition prepare_run :: "controller \<Rightarrow> run_request option \<Rightarrow> gerr + run_request \<times> message_request \<times> string" where
  "prepare_run c req0 =
     (if \<not> cl_Provider c then Inl (PlainErr ''provider is required'')
      else if \<not> cl_Tools c then Inl (PlainErr ''tool executor is required'')
      else (case req0 of
        None \<Rightarrow> Inl (PlainErr ''run request is required'')
      | Some req \<Rightarrow>
          (case (if RequestHasAudioSTT (rq_Request req) then
                   (case cl_VoicePipeline c of
                      None \<Rightarrow> Inl (voice_error ''audio_stt is not configured'')
                    | Some vp \<Rightarrow> vp_Preprocess vp (rq_Request req))
                 else Inr (rq_Request req, [])) of
             Inl e \<Rightarrow> Inl e
           | Inr (workingReq, transcript) \<Rightarrow>
               if voice_output_of (rq_Request req) \<noteq> None \<and> cl_VoicePipeline c = None
               then Inl (voice_error ''voice output is not configured'')
               else Inr (req, workingReq, transcript))))"

definition run ::
  "controller \<Rightarrow> run_request option \<Rightarrow> emitter option \<Rightarrow> turn_io list \<Rightarrow> (loop_state + run_outcome) rop"
where
  "run c req0 emit ios =
     (case prepare_run c req0 of
        Inl e \<Rightarrow> ret (Inr (None, Some e))
      | Inr (req, workingReq, transcript) \<Rightarrow>
          run_loop c req workingReq transcript emit ios (initial_loop (mr_Messages workingReq)))"

definition RunBlocking_stateless ::
  "controller \<Rightarrow> run_request option \<Rightarrow> turn_io list \<Rightarrow> (loop_state + run_outcome) rop" where
  "RunBlocking_stateless c req ios = run c req None ios"

definition RunStream ::
  "controller \<Rightarrow> run_request option \<Rightarrow> emitter option \<Rightarrow> turn_io list \<Rightarrow> (loop_state + run_outcome) rop"
where
  "RunStream c req emit ios =
     (case emit of
        None \<Rightarrow> ret (Inr (None, Some (PlainErr ''emit function is required'')))
      | Some em \<Rightarrow> do {
          started \<leftarrow> emit_event em (RunStartEvent (cl_RequestID c) (cl_PublicModel c) ''1'');
          (case started of
             Some e \<Rightarrow> ret (Inr (None, Some e))
           | None \<Rightarrow> run c req emit ios) })"

end
