(* ===== verification/ControllerRun.thy ===== *)
theory ControllerRun
  imports Controller
begin

text \<open>
  What the tool loop of stateless runs guarantees: budgets, termination, the history a client rebuilds
  from the stream, and the independence of parallel tools from their schedule.
\<close>

section \<open>The history a client rebuilds\<close>

text \<open>A client applies the deltas in the stream, each at the length it expects.\<close>

fun apply_delta :: "message list option \<Rightarrow> run_stream_event \<Rightarrow> message list option" where
  "apply_delta (Some h) (RunHistoryDeltaEvent n ms) = (if int (length h) = n then Some (h @ ms) else None)"
| "apply_delta h _ = h"

definition apply_deltas :: "message list \<Rightarrow> run_stream_event list \<Rightarrow> message list option" where
  "apply_deltas h evs = foldl apply_delta (Some h) evs"

fun is_delta :: "run_stream_event \<Rightarrow> bool" where
  "is_delta (RunHistoryDeltaEvent _ _) = True"
| "is_delta _ = False"

lemma apply_delta_other: "\<not> is_delta ev \<Longrightarrow> apply_delta h ev = h"
  by (cases ev; cases h) simp_all

lemma apply_deltas_other [simp]: "\<not> is_delta ev \<Longrightarrow> apply_deltas h (l @ [ev]) = apply_deltas h l"
  by (simp add: apply_deltas_def apply_delta_other)

text \<open>Operations that emit no delta.\<close>

abbreviation quiet :: "message list \<Rightarrow> message list option \<Rightarrow> 'a rop \<Rightarrow> bool" where
  "quiet h x m \<equiv> preserves (\<lambda>l. apply_deltas h l = x) m"

lemma quiet_emit: "\<not> is_delta ev \<Longrightarrow> quiet h x (emit_event em ev)"
  by (auto simp: preserves_def emit_event_def split: option.split)

lemma quiet_emit_opt: "\<not> is_delta ev \<Longrightarrow> quiet h x (emit_opt emit ev)"
  by (auto simp: emit_opt_def quiet_emit split: option.split)

lemma quiet_flushPending: "quiet h x (flushPendingAudio em rate final au)"
  unfolding flushPendingAudio_def emitAudio_def by (auto intro!: pres_intro quiet_emit)

lemma quiet_handleAudio: "quiet h x (handleAudioChunk em rate chunk au)"
  unfolding handleAudioChunk_def by (auto intro!: pres_intro quiet_flushPending)

lemma quiet_unavailable: "quiet h x (emitTTSUnavailable em err au)"
  unfolding emitTTSUnavailable_def by (auto intro!: pres_intro quiet_emit)

lemma quiet_speak: "quiet h x (speak_event em tts ev au)"
  unfolding speak_event_def feed_text_def
  by (auto intro!: pres_intro quiet_unavailable split: stream_event.split block.split delta.split option.split)

lemmas quiet_intro = pres_intro quiet_emit quiet_emit_opt quiet_flushPending quiet_handleAudio
  quiet_unavailable quiet_speak

lemma quiet_read_loop: "quiet h x (read_loop em parse idle sp ws st)"
  by (induction em parse idle sp ws st rule: read_loop.induct)
     (auto intro!: quiet_intro split: option.split prod.split)

lemma quiet_flush_loop: "quiet h x (flush_loop em rate ws flushed au)"
  by (induction em rate ws flushed au rule: flush_loop.induct)
     (auto intro!: quiet_intro split: option.split prod.split flush_wake.split)

lemma quiet_drain: "quiet h x (drain_audio em rate cs au)"
  by (induction em rate cs au rule: drain_audio.induct) (auto intro!: quiet_intro)

lemma quiet_end_speech: "quiet h x (end_speech em rate io au)"
  unfolding end_speech_def
  by (auto intro!: quiet_intro quiet_flush_loop quiet_drain split: option.split)

lemma quiet_streamTurn: "quiet h x (streamTurn em parse idle open_tts f req)"
  unfolding streamTurn_def
  by (auto intro!: quiet_intro quiet_read_loop quiet_end_speech simp: Let_def
      split: option.split prod.split sum.split)

lemma quiet_model_turn: "quiet h x (model_turn c io emit req)"
  unfolding model_turn_def by (auto intro!: quiet_intro quiet_streamTurn split: option.split)

lemma quiet_tool_step: "quiet h x (tool_step ex refs emit uses i st)"
  unfolding tool_step_def by (auto intro!: quiet_intro simp: Let_def split: prod.split)

lemma quiet_tool_steps: "quiet h x (tool_steps ex refs emit uses js st)"
  by (induction ex refs emit uses js st rule: tool_steps.induct) (auto intro!: quiet_intro quiet_tool_step)

section \<open>Tools\<close>

text \<open>Whatever the schedule, a call's slot holds its result once its goroutine is through.\<close>

definition slots_ok ::
  "tool_executor \<Rightarrow> image_refs \<Rightarrow> tool_use list \<Rightarrow> nat list \<Rightarrow> nat list \<times> tool_exec_result option list \<Rightarrow> bool"
where
  "slots_ok ex refs uses past st \<longleftrightarrow>
     length (fst st) = length uses \<and> length (snd st) = length uses \<and>
     (\<forall>i < length uses. fst st ! i = min 2 (count_list past i) \<and>
        snd st ! i = (if count_list past i \<ge> 2 then Some (exec_one ex refs i (uses ! i)) else None))"

lemma wp_any_emit: "(\<And>r m'. Q r m') \<Longrightarrow> wp (emit_opt emit ev) Q s"
  by (simp add: wp_def case_prod_beta)

lemma wp_any_turn: "(\<And>r m'. Q r m') \<Longrightarrow> wp (model_turn c io emit req) Q s"
  by (simp add: wp_def case_prod_beta)

lemma wp_tool_step:
  assumes "slots_ok ex refs uses past st"
  shows "wp (tool_step ex refs emit uses i st) (\<lambda>st' _. slots_ok ex refs uses (past @ [i]) st') l"
proof (cases "i < length uses")
  case False
  then have "slots_ok ex refs uses (past @ [i]) st"
    using assms by (auto simp: slots_ok_def)
  with False show ?thesis by (simp add: tool_step_def split: prod.split)
next
  case True
  obtain steps results where st: "st = (steps, results)" by (cases st)
  have i: "steps ! i = min 2 (count_list past i)" using assms True by (simp add: slots_ok_def st)
  consider "count_list past i = 0" | "count_list past i = 1" | "count_list past i \<ge> 2" by linarith
  then show ?thesis
  proof cases
    case 1
    then have "slots_ok ex refs uses (past @ [i]) (steps[i := 1], results)"
      using assms True by (auto simp: slots_ok_def st nth_list_update)
    then show ?thesis using True i 1 by (auto simp: tool_step_def st Let_def intro!: wp_any_emit)
  next
    case 2
    then have "slots_ok ex refs uses (past @ [i]) (steps[i := 2], results[i := Some (exec_one ex refs i (uses ! i))])"
      using assms True by (auto simp: slots_ok_def st nth_list_update)
    then show ?thesis using True i 2 by (auto simp: tool_step_def st Let_def intro!: wp_any_emit)
  next
    case 3
    then have "slots_ok ex refs uses (past @ [i]) st"
      using assms True by (auto simp: slots_ok_def st)
    then show ?thesis using True i 3 by (auto simp: tool_step_def st Let_def)
  qed
qed

lemma wp_tool_steps:
  "slots_ok ex refs uses past st \<Longrightarrow>
   wp (tool_steps ex refs emit uses js st) (\<lambda>st' _. slots_ok ex refs uses (past @ js) st') l"
proof (induction js arbitrary: past st l)
  case (Cons j js)
  show ?case
    by (simp, rule wp_mono [OF wp_tool_step [OF Cons.prems]]) (use Cons.IH in force)
qed simp

lemma count_schedule: "i < n \<Longrightarrow> 2 \<le> count_list (tool_schedule par schedule n) i"
proof -
  assume i: "i < n"
  have "count_list (concat (map (\<lambda>i. [i, i]) [0..<n])) i = 2"
    using i by (induction n) (auto simp: less_Suc_eq count_list_0_iff)
  then show ?thesis by (simp add: tool_schedule_def)
qed

text \<open>The results are those of the calls one by one, whatever the schedule.\<close>

definition tool_results :: "tool_executor \<Rightarrow> image_refs \<Rightarrow> tool_use list \<Rightarrow> tool_exec_result list" where
  "tool_results ex refs uses = map (\<lambda>i. exec_one ex refs i (uses ! i)) [0..<length uses]"

lemma wp_executeTools:
  "wp (executeTools ex refs cfg schedule emit uses) (\<lambda>r _. r = tool_results ex refs uses) l"
proof -
  let ?js = "tool_schedule (rc_ParallelTools cfg) schedule (length uses)"
  have start: "slots_ok ex refs uses [] (replicate (length uses) 0, replicate (length uses) None)"
    by (simp add: slots_ok_def)
  have fin: "List.map_filter (\<lambda>r. r) (snd st) = tool_results ex refs uses"
    if ok: "slots_ok ex refs uses ?js st" for st
  proof -
    have "snd st = map Some (tool_results ex refs uses)"
      using ok count_schedule by (intro nth_equalityI) (auto simp: slots_ok_def tool_results_def)
    then show ?thesis by (simp add: List.map_filter_def comp_def)
  qed
  show ?thesis
    unfolding executeTools_def
    by (simp, rule wp_mono [OF wp_tool_steps [OF start]]) (auto dest: fin split: prod.split)
qed

lemma length_tool_results [simp]: "length (tool_results ex refs uses) = length uses"
  by (simp add: tool_results_def)

lemma length_finalize [simp]: "length (finalize_results c rs refs) = length rs"
  by (induction c rs refs rule: finalize_results.induct) (auto simp: Let_def split: prod.split)

text \<open>C24. Parallel tools are deterministic: whatever order the goroutines run in, whatever fails to be
  emitted, a batch of tools returns the results of its calls one by one, in the order of the calls.\<close>

theorem parallel_tools_deterministic:
  "fst (run_state (executeTools ex refs cfg schedule emit uses) l) =
     map (\<lambda>i. exec_one ex refs i (uses ! i)) [0..<length uses]"
  using wp_executeTools [of ex refs cfg schedule emit uses l]
  by (simp add: wp_def tool_results_def case_prod_beta)

section \<open>Budgets\<close>

definition budgeted :: "run_config \<Rightarrow> run_result \<Rightarrow> bool" where
  "budgeted cfg res \<longleftrightarrow>
     (rc_MaxTurns cfg > 0 \<longrightarrow> rs_TurnCount res \<le> rc_MaxTurns cfg) \<and>
     (rc_MaxToolCalls cfg > 0 \<longrightarrow> rs_ToolCallCount res \<le> rc_MaxToolCalls cfg) \<and>
     rs_ToolCallCount res = (\<Sum>s\<leftarrow>rs_Steps res. int (length (step_ToolResults s)))"

lemma budgeted_stopped [simp]: "budgeted cfg (stopped_result st reason) = budgeted cfg (ls_result st)"
  by (simp add: budgeted_def stopped_result_def)

text \<open>A turn that goes on has counted one more turn and at least one more tool call.\<close>

definition turn_result :: "run_config \<Rightarrow> loop_state \<Rightarrow> loop_state + run_outcome \<Rightarrow> bool" where
  "turn_result cfg st r \<longleftrightarrow>
     (case r of
        Inl st' \<Rightarrow> budgeted cfg (ls_result st') \<and>
          rs_TurnCount (ls_result st') = rs_TurnCount (ls_result st) + 1 \<and>
          rs_ToolCallCount (ls_result st') > rs_ToolCallCount (ls_result st)
      | Inr (Some res, _) \<Rightarrow> budgeted cfg res
      | Inr (None, e) \<Rightarrow> e \<noteq> None)"

lemma wp_answer_run:
  "budgeted cfg (ls_result st) \<Longrightarrow> step_ToolResults step = [] \<Longrightarrow>
   wp (answer_run emit st resp step reason) (\<lambda>out _. turn_result cfg st0 (Inr out)) l"
  unfolding answer_run_def
  by (auto simp: Let_def turn_result_def budgeted_def stopped_result_def intro!: wp_any_emit)

lemma wp_complete_run:
  "budgeted cfg (ls_result st) \<Longrightarrow> wp (complete_run emit st reason) (\<lambda>out _. turn_result cfg st0 (Inr out)) l"
  unfolding complete_run_def by (auto simp: Let_def turn_result_def intro!: wp_any_emit)

lemma wp_error_run:
  "budgeted cfg (ls_result st) \<Longrightarrow> wp (error_run c emit st err) (\<lambda>out _. turn_result cfg st0 (Inr out)) l"
  unfolding error_run_def by (auto simp: Let_def turn_result_def intro!: wp_any_emit)

lemma wp_tool_turn_loop:
  assumes "budgeted cfg (ls_result st)" "ToolUses resp \<noteq> []" "step_ToolResults step = []"
    "\<not> (rc_MaxToolCalls cfg > 0 \<and>
       rs_ToolCallCount (ls_result st) + int (length (ToolUses resp)) > rc_MaxToolCalls cfg)"
  shows "wp (tool_turn_loop c cfg io emit refs st resp step)
    (\<lambda>st' _. budgeted cfg (ls_result st') \<and> rs_TurnCount (ls_result st') = rs_TurnCount (ls_result st) \<and>
       rs_ToolCallCount (ls_result st') > rs_ToolCallCount (ls_result st)) l"
proof -
  have "0 < length (ToolUses resp)" using assms(2) by simp
  then show ?thesis
    unfolding tool_turn_loop_def Let_def using assms
    by (auto intro!: wp_mono [OF wp_executeTools] wp_any_emit simp: budgeted_def)
qed

lemma wp_after_response:
  assumes "budgeted cfg (ls_result st)" "cfg = rq_Run req"
    "\<not> (rc_MaxTurns cfg > 0 \<and> rs_TurnCount (ls_result st) \<ge> rc_MaxTurns cfg)"
  shows "wp (after_response c req io emit refs st resp) (\<lambda>r _. turn_result cfg st r) l"
proof -
  define st1 where "st1 = st\<lparr>ls_result := (ls_result st)\<lparr>
     rs_Usage := usage_Add (rs_Usage (ls_result st)) (resp_Usage resp),
     rs_TurnCount := rs_TurnCount (ls_result st) + 1\<rparr>\<rparr>"
  have b: "budgeted cfg (ls_result st1)" using assms by (auto simp: budgeted_def st1_def)
  have t: "rs_TurnCount (ls_result st1) = rs_TurnCount (ls_result st) + 1"
    "rs_ToolCallCount (ls_result st1) = rs_ToolCallCount (ls_result st)" by (simp_all add: st1_def)
  show ?thesis
    unfolding after_response_def st1_def [symmetric] Let_def assms(2) [symmetric]
    using b t
    by (auto intro!: wp_answer_run wp_mono [OF wp_answer_run] wp_mono [OF wp_tool_turn_loop] wp_any_emit
        simp: turn_result_def split: sum.split)
qed

lemma turn_result_simps [simp]:
  "turn_result cfg st (Inr (Some res, e)) = budgeted cfg res"
  "turn_result cfg st (Inr (None, e)) = (e \<noteq> None)"
  by (simp_all add: turn_result_def)

lemma wp_loop_turn:
  assumes "budgeted (rq_Run req) (ls_result st)"
  shows "wp (loop_turn c req w transcript emit io st) (\<lambda>r _. turn_result (rq_Run req) st r) l"
  unfolding loop_turn_def Let_def using assms
  by (auto intro!: wp_mono [OF wp_complete_run] wp_mono [OF wp_error_run] wp_after_response wp_any_emit
      wp_any_turn split: option.split sum.split prod.split)

lemma budgeted_initial [simp]: "budgeted cfg (ls_result (initial_loop h))"
  by (simp add: budgeted_def initial_loop_def empty_result_def)

text \<open>After some turns.\<close>

definition counted_state :: "run_config \<Rightarrow> nat \<Rightarrow> loop_state \<Rightarrow> bool" where
  "counted_state cfg n st \<longleftrightarrow> budgeted cfg (ls_result st) \<and> rs_TurnCount (ls_result st) = int n \<and>
     rs_ToolCallCount (ls_result st) \<ge> int n"

definition ended :: "run_config \<Rightarrow> run_outcome \<Rightarrow> bool" where
  "ended cfg out \<longleftrightarrow> (case out of (Some res, _) \<Rightarrow> budgeted cfg res | (None, err) \<Rightarrow> err \<noteq> None)"

lemma counted_initial: "counted_state cfg 0 (initial_loop h)"
  by (simp add: counted_state_def) (simp add: initial_loop_def empty_result_def)

lemma wp_counted_turn:
  "counted_state (rq_Run req) n st \<Longrightarrow>
   wp (loop_turn c req w transcript emit io st)
     (\<lambda>r _. case r of Inl st' \<Rightarrow> counted_state (rq_Run req) (Suc n) st' | Inr out \<Rightarrow> ended (rq_Run req) out) l"
  by (rule wp_mono [OF wp_loop_turn])
     (auto simp: counted_state_def ended_def turn_result_def split: sum.splits prod.splits option.splits)

lemma wp_run_loop:
  "wp (run_loop c req w transcript emit ios (initial_loop h))
     (\<lambda>r _. case r of Inl st' \<Rightarrow> counted_state (rq_Run req) (0 + length ios) st' | Inr out \<Rightarrow> ended (rq_Run req) out) l"
  by (rule stateless_run.loop_count [of "\<lambda>n st _. counted_state (rq_Run req) n st" _ _ _ _ _ "\<lambda>out _. ended (rq_Run req) out"])
     (rule wp_counted_turn counted_initial, assumption?)+

lemma prepare_run_request: "prepare_run c (Some req) = Inr (req', w, t) \<Longrightarrow> req' = req"
  by (auto simp: prepare_run_def split: if_splits option.splits sum.splits prod.splits)

text \<open>C21. A run stays within its budgets: however the model, the tools and the stream behave, its result,
  and its state after any number of turns, has at most \<open>max_turns\<close> turns and at most
  \<open>max_tool_calls\<close> tool calls where these are set, and the tool calls it counts are the results
  in its steps; a run that ends without a result ends with an error.\<close>

theorem run_within_budget:
  "wp (run c (Some req) emit ios)
     (\<lambda>r _. case r of
        Inl st \<Rightarrow> budgeted (rq_Run req) (ls_result st)
      | Inr (Some res, _) \<Rightarrow> budgeted (rq_Run req) res
      | Inr (None, err) \<Rightarrow> err \<noteq> None) l"
proof (cases "prepare_run c (Some req)")
  case (Inl e)
  then show ?thesis by (simp add: run_def)
next
  case (Inr p)
  obtain w t where p: "p = (req, w, t)" using Inr by (cases p) (auto dest: prepare_run_request)
  show ?thesis
    unfolding run_def Inr p sum.case prod.case
    by (rule wp_mono [OF wp_run_loop])
       (auto simp: counted_state_def ended_def split: sum.splits prod.splits option.splits)
qed

lemma run_returns:
  assumes "rc_MaxTurns (rq_Run req) > 0 \<and> int (length ios) > rc_MaxTurns (rq_Run req) \<or>
     rc_MaxToolCalls (rq_Run req) > 0 \<and> int (length ios) > rc_MaxToolCalls (rq_Run req)"
  shows "\<exists>out. fst (run_state (run c (Some req) emit ios) l) = Inr out"
proof (cases "prepare_run c (Some req)")
  case (Inl e)
  then show ?thesis by (simp add: run_def)
next
  case (Inr p)
  obtain w t where p: "p = (req, w, t)"
    using Inr by (cases p) (auto dest: prepare_run_request)
  have "\<not> counted_state (rq_Run req) (length ios) st" for st
    using assms by (auto simp: counted_state_def budgeted_def)
  then show ?thesis
    using stateless_run.loop_returns [of "\<lambda>n st _. counted_state (rq_Run req) n st" c req w t emit
        "\<lambda>out _. ended (rq_Run req) out", OF wp_counted_turn counted_initial]
    by (simp add: run_def Inr p)
qed

text \<open>C22. A run with a budget ends: with a limit on its turns or on its tool calls, a run that gets more
  turns than the limit allows has returned, whatever the model answers.\<close>

theorem run_terminates:
  assumes "rc_MaxTurns (rq_Run req) > 0 \<and> int (length ios) > rc_MaxTurns (rq_Run req) \<or>
     rc_MaxToolCalls (rq_Run req) > 0 \<and> int (length ios) > rc_MaxToolCalls (rq_Run req)"
  shows "\<exists>out. fst (run_state (run c (Some req) emit ios) l) = Inr out"
  using assms by (rule run_returns)

section \<open>The stream tells the history\<close>

text \<open>An emitter that delivers the deltas.\<close>

definition delivers :: "emitter \<Rightarrow> bool" where
  "delivers em \<longleftrightarrow> (\<forall>l n ms. em l (RunHistoryDeltaEvent n ms) = None)"

lemma wp_quiet: "quiet h x m \<Longrightarrow> apply_deltas h l = x \<Longrightarrow> wp m (\<lambda>_ l'. apply_deltas h l' = x) l"
  by (rule preservesD)

lemma wp_quiet_emit:
  "\<not> is_delta ev \<Longrightarrow> apply_deltas h l = x \<Longrightarrow> (\<And>r l'. apply_deltas h l' = x \<Longrightarrow> Q r l') \<Longrightarrow>
   wp (emit_opt emit ev) Q l"
  by (rule wp_mono [OF wp_quiet [OF quiet_emit_opt]]) auto

lemmas wp_quiet_events =
  wp_quiet_emit [of "RunStepStartEvent i" for i, simplified]
  wp_quiet_emit [of "RunStepCompleteEvent i r" for i r, simplified]
  wp_quiet_emit [of "RunCompleteEvent r" for r, simplified]
  wp_quiet_emit [of "RunErrorEvent r" for r, simplified]

lemma wp_delta:
  assumes "delivers em" "apply_deltas h l = Some hist" "n = int (length hist)"
    "\<And>r l'. apply_deltas h l' = Some (hist @ ms) \<Longrightarrow> Q r l'"
  shows "wp (emit_opt (Some em) (RunHistoryDeltaEvent n ms)) Q l"
proof -
  have "apply_deltas h (l @ [RunHistoryDeltaEvent n ms]) = Some (hist @ ms)"
    using assms(2,3) by (simp add: apply_deltas_def)
  then show ?thesis using assms(1,4) by (simp add: emit_opt_def emit_event_def delivers_def)
qed

definition told :: "message list \<Rightarrow> loop_state + run_outcome \<Rightarrow> run_stream_event list \<Rightarrow> bool" where
  "told h r l \<longleftrightarrow>
     (case r of
        Inl st \<Rightarrow> apply_deltas h l = Some (ls_history st)
      | Inr (Some res, _) \<Rightarrow> apply_deltas h l = Some (rs_Messages res)
      | Inr (None, _) \<Rightarrow> True)"

lemma told_simps [simp]:
  "told h (Inl st) l = (apply_deltas h l = Some (ls_history st))"
  "told h (Inr (Some res, e)) l = (apply_deltas h l = Some (rs_Messages res))"
  "told h (Inr (None, e)) l"
  by (simp_all add: told_def)

lemma messages_stopped [simp]: "rs_Messages (stopped_result st reason) = ls_history st"
  by (simp add: stopped_result_def)

lemma told_answer:
  "delivers em \<Longrightarrow> apply_deltas h l = Some (ls_history st) \<Longrightarrow>
   wp (answer_run (Some em) st resp step reason) (\<lambda>out l'. told h (Inr out) l') l"
  unfolding answer_run_def Let_def
  by (auto intro!: wp_quiet_events wp_delta [where hist = "ls_history st"])

lemma told_complete:
  "apply_deltas h l = Some (ls_history st) \<Longrightarrow>
   wp (complete_run emit st reason) (\<lambda>out l'. told h (Inr out) l') l"
  unfolding complete_run_def Let_def by (auto intro!: wp_quiet_events)

lemma told_error:
  "apply_deltas h l = Some (ls_history st) \<Longrightarrow>
   wp (error_run c emit st err) (\<lambda>out l'. told h (Inr out) l') l"
  unfolding error_run_def Let_def by (auto intro!: wp_quiet_events)

lemma quiet_executeTools: "quiet h x (executeTools ex refs cfg schedule emit uses)"
  unfolding executeTools_def by (auto intro!: quiet_intro quiet_tool_steps)

lemma told_tool_turn:
  "delivers em \<Longrightarrow> apply_deltas h l = Some (ls_history st) \<Longrightarrow>
   wp (tool_turn_loop c cfg io (Some em) refs st resp step)
     (\<lambda>st' l'. apply_deltas h l' = Some (ls_history st')) l"
  unfolding tool_turn_loop_def Let_def
  by (auto intro!: wp_mono [OF wp_quiet [OF quiet_executeTools]] wp_quiet_events wp_delta [where hist = "ls_history st"])

lemma told_after_response:
  assumes "delivers em" "apply_deltas h l = Some (ls_history st)"
  shows "wp (after_response c req io (Some em) refs st resp) (\<lambda>r l'. told h r l') l"
proof -
  define st1 where "st1 = st\<lparr>ls_result := (ls_result st)\<lparr>
     rs_Usage := usage_Add (rs_Usage (ls_result st)) (resp_Usage resp),
     rs_TurnCount := rs_TurnCount (ls_result st) + 1\<rparr>\<rparr>"
  have h: "apply_deltas h l = Some (ls_history st1)" using assms(2) by (simp add: st1_def)
  note answer = wp_mono [OF told_answer [OF assms(1) h]] and tools = wp_mono [OF told_tool_turn [OF assms(1) h]]
  show ?thesis
    unfolding after_response_def st1_def [symmetric] Let_def
    using h by (auto intro!: answer tools wp_quiet_events split: sum.split)
qed

lemma told_loop_turn:
  assumes "delivers em" "apply_deltas h l = Some (ls_history st)"
  shows "wp (loop_turn c req w transcript (Some em) io st) (\<lambda>r l'. told h r l') l"
  unfolding loop_turn_def Let_def using assms
  by (auto intro!: wp_mono [OF told_complete] wp_mono [OF told_error] told_after_response wp_quiet_events
      wp_mono [OF wp_quiet [OF quiet_model_turn]] split: option.split sum.split prod.split)

lemma told_cases: "(\<lambda>r l. case r of Inl st \<Rightarrow> told h (Inl st) l | Inr out \<Rightarrow> told h (Inr out) l) = told h"
  by (intro ext) (simp split: sum.split)

lemma told_run_loop:
  assumes "delivers em" "apply_deltas h l = Some (ls_history st)"
  shows "wp (run_loop c req w transcript (Some em) ios st) (\<lambda>r l'. told h r l') l"
proof -
  have "wp (loop_turn c req w transcript (Some em) io st) (told h) l" if "told h (Inl st) l" for io st l
    using told_loop_turn [OF assms(1)] that by simp
  then show ?thesis
    using stateless_run.loop_invariant [of "\<lambda>st l. told h (Inl st) l" c req w transcript "Some em"
        "\<lambda>out l. told h (Inr out) l" st l ios] assms(2)
    unfolding told_cases by simp
qed

text \<open>C23. The stream tells the whole history: a client that starts from the messages of the request and
  applies the history deltas of the stream, each at the length it expects, holds at every turn the history
  of the run and at its end the messages of the result, be it an answer, a limit or an error, as long as the
  emitter delivers the deltas; speech, tools and other events never disturb it.\<close>

theorem stream_tells_history:
  assumes "delivers em" and "prepare_run c (Some req) = Inr (req, w, transcript)"
  shows "wp (RunStream c (Some req) (Some em) ios)
     (\<lambda>r l. case r of
        Inl st \<Rightarrow> apply_deltas (mr_Messages w) l = Some (ls_history st)
      | Inr (Some res, _) \<Rightarrow> apply_deltas (mr_Messages w) l = Some (rs_Messages res)
      | Inr (None, err) \<Rightarrow> True) []"
proof -
  have start: "apply_deltas (mr_Messages w) [] = Some (ls_history (initial_loop (mr_Messages w)))"
    by (simp add: apply_deltas_def initial_loop_def)
  have loop: "wp (run_loop c req w transcript (Some em) ios (initial_loop (mr_Messages w)))
      (\<lambda>r l'. told (mr_Messages w) r l') l" if "apply_deltas (mr_Messages w) l = apply_deltas (mr_Messages w) []" for l
    using told_run_loop [OF assms(1)] that start by simp
  have "wp (RunStream c (Some req) (Some em) ios) (\<lambda>r l'. told (mr_Messages w) r l') []"
    unfolding RunStream_def run_def assms(2)
    by (auto intro!: wp_mono [OF wp_quiet [OF quiet_emit refl]] loop split: option.split)
  then show ?thesis by (simp add: told_def)
qed

section \<open>Witnesses\<close>

text \<open>A model that never stops calling a tool, in a run with at most two turns.\<close>

definition demo_controller :: controller where
  "demo_controller = \<lparr>cl_Provider = True, cl_Vision = False, cl_Tools = True, cl_VoicePipeline = None,
     cl_StreamIdleTimeout = 0, cl_RequestID = ''r'', cl_PublicModel = ''m'', cl_sha = (\<lambda>s. s),
     cl_parse = (\<lambda>_. None), cl_render = (\<lambda>_. [])\<rparr>"

definition demo_tool_response :: message_response where
  "demo_tool_response = empty_response\<lparr>resp_StopReason := StopReasonToolUse,
     resp_Content := [ToolUseBlock ''tool_use'' ''t1'' ''clock'' None]\<rparr>"

definition demo_turn :: turn_io where
  "demo_turn = \<lparr>io_ctx = None, io_CreateMessage = (\<lambda>_. Inr demo_tool_response),
     io_StreamMessage = (\<lambda>_. Inr \<lparr>si_wakes = [WakeNext (Some (MessageStartEvent demo_tool_response)) None],
        si_tts = (\<lambda>_. None), si_flush = [], si_ttsErr = None, si_rest = []\<rparr>),
     io_Execute = (\<lambda>_ _ _ _. (None, None)), io_schedule = [], io_ms = 1\<rparr>"

definition demo_run_request :: run_request where
  "demo_run_request = \<lparr>rq_Request = \<lparr>mr_Model = ''m'',
       mr_Messages = [\<lparr>msg_Role = ''user'', msg_Content = CStr ''hi''\<rparr>], mr_MaxTokens = 10,
       mr_System = CNil, mr_Temperature = None, mr_TopP = None, mr_TopK = None, mr_StopSequences = None,
       mr_Tools = [], mr_ToolChoice = None, mr_Stream = False, mr_STTModel = [], mr_TTSModel = [],
       mr_OutputFormat = None, mr_Output = None, mr_Voice = None, mr_Extensions = None,
       mr_Metadata = None\<rparr>,
     rq_Run = \<lparr>rc_MaxTurns = 2, rc_MaxToolCalls = 0, rc_MaxTokens = 0, rc_TimeoutMS = 0,
       rc_ParallelTools = False, rc_ToolTimeoutMS = 0\<rparr>,
     rq_ServerTools = None, rq_ServerToolConfig = None, rq_Builtins = None\<rparr>"

theorem run_terminates_witness:
  "\<exists>out. fst (run_state (run demo_controller (Some demo_run_request) None
     [demo_turn, demo_turn, demo_turn]) []) = Inr out"
  by (rule run_terminates) (simp add: demo_run_request_def)

theorem stream_tells_history_witness:
  "wp (RunStream demo_controller (Some demo_run_request) (Some (\<lambda>_ _. None))
       [demo_turn, demo_turn, demo_turn])
     (\<lambda>r l. case r of
        Inl st \<Rightarrow> apply_deltas (mr_Messages (rq_Request demo_run_request)) l = Some (ls_history st)
      | Inr (Some res, _) \<Rightarrow> apply_deltas (mr_Messages (rq_Request demo_run_request)) l = Some (rs_Messages res)
      | Inr (None, err) \<Rightarrow> True) []"
proof (rule stream_tells_history)
  show "delivers (\<lambda>_ _. None)" by (simp add: delivers_def)
  show "prepare_run demo_controller (Some demo_run_request) = Inr (demo_run_request, rq_Request demo_run_request, [])"
    by (simp add: prepare_run_def demo_controller_def demo_run_request_def RequestHasAudioSTT_def voice_output_of_def
        text_block_def)
qed

text \<open>What that run comes to: two turns, two tool calls, five messages.\<close>

lemma demo_run_ends:
  "case run_state (RunBlocking_stateless demo_controller (Some demo_run_request) [demo_turn, demo_turn, demo_turn]) [] of
     (Inr (Some res, None), _) \<Rightarrow>
       rs_StopReason res = RunStopReasonMaxTurns \<and> rs_TurnCount res = 2 \<and> rs_ToolCallCount res = 2 \<and>
       length (rs_Messages res) = 5
   | _ \<Rightarrow> False"
  by code_simp

end
