(* ===== verification/PriceCatalog.thy ===== *)
theory PriceCatalog
  imports GoStrings Messages "HOL-Library.Signed_Division"
begin

text \<open>
  The prices of hosted models (\<open>internal/services/pricing.go\<close>): the parser of dollar rates, the
  price specifications of the providers and the default catalog. An \<open>int64\<close> is an integer whose
  operations wrap (\<open>i64\<close>); a panic of the parser is \<open>None\<close>.
\<close>

section \<open>Rates\<close>

definition i64 :: "int \<Rightarrow> int" where
  "i64 x = signed_take_bit 63 x"

lemma i64_id: "- (2 ^ 63) \<le> x \<Longrightarrow> x < 2 ^ 63 \<Longrightarrow> i64 x = x"
  by (simp add: i64_def signed_take_bit_int_eq_self)

text \<open>\<open>strconv.ParseInt(s, 10, 64)\<close>: an optional sign, digits, and the range.\<close>

fun parse_digits :: "string \<Rightarrow> int \<Rightarrow> int option" where
  "parse_digits [] acc = Some acc"
| "parse_digits (c # cs) acc =
     (let d = (of_char c :: nat) in
      if 48 \<le> d \<and> d \<le> 57 then parse_digits cs (10 * acc + int (d - 48)) else None)"

definition ParseInt64 :: "string \<Rightarrow> int option" where
  "ParseInt64 s =
     (let (negative, digits) = (case s of
            c # cs \<Rightarrow> if c = CHR ''-'' then (True, cs) else if c = CHR ''+'' then (False, cs) else (False, s)
          | [] \<Rightarrow> (False, []))
      in if digits = [] then None
         else (case parse_digits digits 0 of
                 None \<Rightarrow> None
               | Some n \<Rightarrow> (let v = (if negative then - n else n) in
                   if - (2 ^ 63) \<le> v \<and> v < 2 ^ 63 then Some v else None)))"

definition usdToMicros :: "string \<Rightarrow> int option" where
  "usdToMicros raw0 =
     (let raw = trim_space raw0 in
      if raw = [] then None
      else (let (whole, fraction) = (case cut CHR ''.'' raw of Some (w, f) \<Rightarrow> (w, f) | None \<Rightarrow> (raw, [])) in
        case ParseInt64 whole of
          None \<Rightarrow> None
        | Some wholePart \<Rightarrow>
            if length fraction > 6 then None
            else (case ParseInt64 (fraction @ replicate (6 - length fraction) CHR ''0'') of
                    None \<Rightarrow> None
                  | Some fractionPart \<Rightarrow> Some (i64 (i64 (wholePart * 1000000) + fractionPart)))))"

definition mustUSDToMicros :: "string \<Rightarrow> int option" where
  "mustUSDToMicros raw = usdToMicros raw"

text \<open>No rate, or a rate; \<open>None\<close> outside is the panic.\<close>

definition optionalUSDToMicros :: "string \<Rightarrow> int option option" where
  "optionalUSDToMicros raw0 =
     (let raw = trim_space raw0 in
      if raw = [] \<or> raw = ''-'' then Some None else map_option Some (mustUSDToMicros raw))"

text \<open>Division truncates, as Go's does.\<close>

definition ceilDiv :: "int \<Rightarrow> int \<Rightarrow> int" where
  "ceilDiv numerator denominator =
     (if numerator \<le> 0 then 0 else i64 (i64 (numerator + denominator) - 1) sdiv denominator)"

section \<open>Specifications\<close>

record hosted_price =
  hp_Model :: string
  hp_DisplayName :: string
  hp_Provider :: string
  hp_PromptTierThresholdTokens :: "int option"
  hp_Input :: int
  hp_LongInput :: "int option"
  hp_AudioInput :: "int option"
  hp_CachedInput :: "int option"
  hp_LongCachedInput :: "int option"
  hp_AudioCachedInput :: "int option"
  hp_CacheWrite5m :: "int option"
  hp_CacheWrite1h :: "int option"
  hp_CacheStorage :: "int option"
  hp_Output :: int
  hp_LongOutput :: "int option"
  hp_ImageOutput :: "int option"
  hp_MinimumChargeCents :: int

definition base_price :: "string \<Rightarrow> string \<Rightarrow> string \<Rightarrow> int \<Rightarrow> int \<Rightarrow> int \<Rightarrow> hosted_price" where
  "base_price model displayName provider inp outp minimum =
     \<lparr>hp_Model = model, hp_DisplayName = displayName, hp_Provider = provider,
      hp_PromptTierThresholdTokens = None, hp_Input = inp, hp_LongInput = None, hp_AudioInput = None,
      hp_CachedInput = None, hp_LongCachedInput = None, hp_AudioCachedInput = None,
      hp_CacheWrite5m = None, hp_CacheWrite1h = None, hp_CacheStorage = None, hp_Output = outp,
      hp_LongOutput = None, hp_ImageOutput = None, hp_MinimumChargeCents = minimum\<rparr>"

definition openAIPrice :: "string \<Rightarrow> string \<Rightarrow> string \<Rightarrow> string \<Rightarrow> string \<Rightarrow> hosted_price option" where
  "openAIPrice model displayName inputUSD cachedUSD outputUSD = do {
     inp \<leftarrow> mustUSDToMicros inputUSD;
     cached \<leftarrow> optionalUSDToMicros cachedUSD;
     outp \<leftarrow> mustUSDToMicros outputUSD;
     Some ((base_price model displayName ''openai'' inp outp 1)\<lparr>hp_CachedInput := cached\<rparr>) }"

definition anthropicPrice ::
  "string \<Rightarrow> string \<Rightarrow> string \<Rightarrow> string \<Rightarrow> string \<Rightarrow> string \<Rightarrow> string \<Rightarrow> hosted_price option" where
  "anthropicPrice model displayName inputUSD write5mUSD write1hUSD readUSD outputUSD = do {
     inp \<leftarrow> mustUSDToMicros inputUSD;
     cached \<leftarrow> optionalUSDToMicros readUSD;
     write5m \<leftarrow> optionalUSDToMicros write5mUSD;
     write1h \<leftarrow> optionalUSDToMicros write1hUSD;
     outp \<leftarrow> mustUSDToMicros outputUSD;
     Some ((base_price model displayName ''anthropic'' inp outp 1)
       \<lparr>hp_CachedInput := cached, hp_CacheWrite5m := write5m, hp_CacheWrite1h := write1h\<rparr>) }"

definition openRouterPrice ::
  "string \<Rightarrow> string \<Rightarrow> string \<Rightarrow> string \<Rightarrow> string \<Rightarrow> string \<Rightarrow> int \<Rightarrow> hosted_price option" where
  "openRouterPrice model displayName inputUSD outputUSD readUSD writeUSD minimum = do {
     inp \<leftarrow> mustUSDToMicros inputUSD;
     cached \<leftarrow> optionalUSDToMicros readUSD;
     write5m \<leftarrow> optionalUSDToMicros writeUSD;
     outp \<leftarrow> mustUSDToMicros outputUSD;
     Some ((base_price model displayName ''openrouter'' inp outp
              (if minimum = 0 \<and> (inp > 0 \<or> outp > 0) then 1 else minimum))
       \<lparr>hp_CachedInput := cached, hp_CacheWrite5m := write5m\<rparr>) }"

definition groqPrice :: "hosted_price option" where
  "groqPrice = do {
     inp \<leftarrow> mustUSDToMicros ''0.59'';
     outp \<leftarrow> mustUSDToMicros ''0.79'';
     Some (base_price ''groq/llama-3.3-70b-versatile'' ''Llama 3.3 70B Versatile'' ''groq'' inp outp 1) }"

record gemini_spec =
  gs_Input :: string
  gs_LongInput :: string
  gs_AudioInput :: string
  gs_CachedInput :: string
  gs_LongCachedInput :: string
  gs_AudioCachedInput :: string
  gs_CacheStorage :: string
  gs_Output :: string
  gs_LongOutput :: string
  gs_ImageOutput :: string
  gs_MinimumChargeCents :: int

definition no_gemini_spec :: gemini_spec where
  "no_gemini_spec = \<lparr>gs_Input = [], gs_LongInput = [], gs_AudioInput = [], gs_CachedInput = [],
     gs_LongCachedInput = [], gs_AudioCachedInput = [], gs_CacheStorage = [], gs_Output = [],
     gs_LongOutput = [], gs_ImageOutput = [], gs_MinimumChargeCents = 0\<rparr>"

definition geminiPrice :: "string \<Rightarrow> string \<Rightarrow> gemini_spec \<Rightarrow> string \<Rightarrow> hosted_price option" where
  "geminiPrice model displayName sp provider = do {
     inp \<leftarrow> mustUSDToMicros (gs_Input sp);
     longInput \<leftarrow> optionalUSDToMicros (gs_LongInput sp);
     audioInput \<leftarrow> optionalUSDToMicros (gs_AudioInput sp);
     cached \<leftarrow> optionalUSDToMicros (gs_CachedInput sp);
     longCached \<leftarrow> optionalUSDToMicros (gs_LongCachedInput sp);
     audioCached \<leftarrow> optionalUSDToMicros (gs_AudioCachedInput sp);
     storage \<leftarrow> optionalUSDToMicros (gs_CacheStorage sp);
     outp \<leftarrow> mustUSDToMicros (gs_Output sp);
     longOutput \<leftarrow> optionalUSDToMicros (gs_LongOutput sp);
     imageOutput \<leftarrow> optionalUSDToMicros (gs_ImageOutput sp);
     Some ((base_price (provider @ ''/'' @ model) displayName provider inp outp
              (if gs_MinimumChargeCents sp = 0 \<and> trim_space (gs_Input sp) \<noteq> ''0.00'' then 1
               else gs_MinimumChargeCents sp))
       \<lparr>hp_PromptTierThresholdTokens :=
          (if longInput \<noteq> None \<or> longCached \<noteq> None \<or> longOutput \<noteq> None then Some 200000 else None),
        hp_LongInput := longInput, hp_AudioInput := audioInput, hp_CachedInput := cached,
        hp_LongCachedInput := longCached, hp_AudioCachedInput := audioCached,
        hp_CacheStorage := storage, hp_LongOutput := longOutput, hp_ImageOutput := imageOutput\<rparr>) }"

definition geminiPrices :: "string \<Rightarrow> string \<Rightarrow> gemini_spec \<Rightarrow> hosted_price option list" where
  "geminiPrices model displayName sp = map (geminiPrice model displayName sp) [''gem-dev'', ''gem-vert'']"

section \<open>The default catalog\<close>

definition anthropic_specs :: "hosted_price option list" where
  "anthropic_specs =
     [anthropicPrice ''anthropic/claude-opus-4.6'' ''Claude Opus 4.6'' ''5.00'' ''6.25'' ''10.00'' ''0.50'' ''25.00'',
      anthropicPrice ''anthropic/claude-opus-4.5'' ''Claude Opus 4.5'' ''5.00'' ''6.25'' ''10.00'' ''0.50'' ''25.00'',
      anthropicPrice ''anthropic/claude-opus-4.1'' ''Claude Opus 4.1'' ''15.00'' ''18.75'' ''30.00'' ''1.50'' ''75.00'',
      anthropicPrice ''anthropic/claude-opus-4'' ''Claude Opus 4'' ''15.00'' ''18.75'' ''30.00'' ''1.50'' ''75.00'',
      anthropicPrice ''anthropic/claude-sonnet-4.6'' ''Claude Sonnet 4.6'' ''3.00'' ''3.75'' ''6.00'' ''0.30'' ''15.00'',
      anthropicPrice ''anthropic/claude-sonnet-4.5'' ''Claude Sonnet 4.5'' ''3.00'' ''3.75'' ''6.00'' ''0.30'' ''15.00'',
      anthropicPrice ''anthropic/claude-sonnet-4'' ''Claude Sonnet 4'' ''3.00'' ''3.75'' ''6.00'' ''0.30'' ''15.00'',
      anthropicPrice ''anthropic/claude-sonnet-3.7'' ''Claude Sonnet 3.7'' ''3.00'' ''3.75'' ''6.00'' ''0.30'' ''15.00'',
      anthropicPrice ''anthropic/claude-haiku-4.5'' ''Claude Haiku 4.5'' ''1.00'' ''1.25'' ''2.00'' ''0.10'' ''5.00'',
      anthropicPrice ''anthropic/claude-haiku-3.5'' ''Claude Haiku 3.5'' ''0.80'' ''1.00'' ''1.60'' ''0.08'' ''4.00'',
      anthropicPrice ''anthropic/claude-opus-3'' ''Claude Opus 3'' ''15.00'' ''18.75'' ''30.00'' ''1.50'' ''75.00'',
      anthropicPrice ''anthropic/claude-haiku-3'' ''Claude Haiku 3'' ''0.25'' ''0.30'' ''0.50'' ''0.03'' ''1.25'',
      anthropicPrice ''anthropic/claude-sonnet-4-6'' ''Claude Sonnet 4.6'' ''3.00'' ''3.75'' ''6.00'' ''0.30'' ''15.00'',
      anthropicPrice ''anthropic/claude-sonnet-4-5'' ''Claude Sonnet 4.5'' ''3.00'' ''3.75'' ''6.00'' ''0.30'' ''15.00'',
      anthropicPrice ''anthropic/claude-haiku-4-5'' ''Claude Haiku 4.5'' ''1.00'' ''1.25'' ''2.00'' ''0.10'' ''5.00'',
      anthropicPrice ''anthropic/claude-haiku-3-5'' ''Claude Haiku 3.5'' ''0.80'' ''1.00'' ''1.60'' ''0.08'' ''4.00'',
      groqPrice]"

definition openai_specs :: "hosted_price option list" where
  "openai_specs =
     [openAIPrice ''oai-resp/gpt-5.4'' ''GPT-5.4 (<272K)'' ''2.50'' ''0.25'' ''15.00'',
      openAIPrice ''oai-resp/gpt-5.4-long'' ''GPT-5.4 (>272K)'' ''5.00'' ''0.50'' ''22.50'',
      openAIPrice ''oai-resp/gpt-5.4-pro'' ''GPT-5.4 Pro (<272K)'' ''30.00'' '''' ''180.00'',
      openAIPrice ''oai-resp/gpt-5.4-pro-long'' ''GPT-5.4 Pro (>272K)'' ''60.00'' '''' ''270.00'',
      openAIPrice ''oai-resp/gpt-5.3-chat-latest'' ''GPT-5.3 Chat Latest'' ''1.75'' ''0.175'' ''14.00'',
      openAIPrice ''oai-resp/gpt-5.3-codex'' ''GPT-5.3 Codex'' ''1.75'' ''0.175'' ''14.00'',
      openAIPrice ''oai-resp/gpt-5.2'' ''GPT-5.2'' ''1.75'' ''0.175'' ''14.00'',
      openAIPrice ''oai-resp/gpt-5.2-chat-latest'' ''GPT-5.2 Chat Latest'' ''1.75'' ''0.175'' ''14.00'',
      openAIPrice ''oai-resp/gpt-5.2-codex'' ''GPT-5.2 Codex'' ''1.75'' ''0.175'' ''14.00'',
      openAIPrice ''oai-resp/gpt-5.2-pro'' ''GPT-5.2 Pro'' ''21.00'' '''' ''168.00'',
      openAIPrice ''oai-resp/gpt-5.1'' ''GPT-5.1'' ''1.25'' ''0.125'' ''10.00'',
      openAIPrice ''oai-resp/gpt-5.1-chat-latest'' ''GPT-5.1 Chat Latest'' ''1.25'' ''0.125'' ''10.00'',
      openAIPrice ''oai-resp/gpt-5.1-codex'' ''GPT-5.1 Codex'' ''1.25'' ''0.125'' ''10.00'',
      openAIPrice ''oai-resp/gpt-5.1-codex-max'' ''GPT-5.1 Codex Max'' ''1.25'' ''0.125'' ''10.00'',
      openAIPrice ''oai-resp/gpt-5.1-codex-mini'' ''GPT-5.1 Codex Mini'' ''0.25'' ''0.025'' ''2.00'',
      openAIPrice ''oai-resp/gpt-5'' ''GPT-5'' ''1.25'' ''0.125'' ''10.00'',
      openAIPrice ''oai-resp/gpt-5-chat-latest'' ''GPT-5 Chat Latest'' ''1.25'' ''0.125'' ''10.00'',
      openAIPrice ''oai-resp/gpt-5-codex'' ''GPT-5 Codex'' ''1.25'' ''0.125'' ''10.00'',
      openAIPrice ''oai-resp/gpt-5-mini'' ''GPT-5 Mini'' ''0.25'' ''0.025'' ''2.00'',
      openAIPrice ''oai-resp/gpt-5-nano'' ''GPT-5 Nano'' ''0.05'' ''0.005'' ''0.40'',
      openAIPrice ''oai-resp/gpt-5-pro'' ''GPT-5 Pro'' ''15.00'' '''' ''120.00'',
      openAIPrice ''oai-resp/gpt-5-search-api'' ''GPT-5 Search API'' ''1.25'' ''0.125'' ''10.00'',
      openAIPrice ''oai-resp/gpt-4.1'' ''GPT-4.1'' ''2.00'' ''0.50'' ''8.00'',
      openAIPrice ''oai-resp/gpt-4.1-mini'' ''GPT-4.1 Mini'' ''0.40'' ''0.10'' ''1.60'',
      openAIPrice ''oai-resp/gpt-4.1-nano'' ''GPT-4.1 Nano'' ''0.10'' ''0.025'' ''0.40'',
      openAIPrice ''oai-resp/gpt-4o'' ''GPT-4o'' ''2.50'' ''1.25'' ''10.00'',
      openAIPrice ''oai-resp/gpt-4o-2024-05-13'' ''GPT-4o 2024-05-13'' ''5.00'' '''' ''15.00'',
      openAIPrice ''oai-resp/gpt-4o-mini'' ''GPT-4o Mini'' ''0.15'' ''0.075'' ''0.60'',
      openAIPrice ''oai-resp/gpt-realtime'' ''GPT Realtime'' ''4.00'' ''0.40'' ''16.00'',
      openAIPrice ''oai-resp/gpt-realtime-1.5'' ''GPT Realtime 1.5'' ''4.00'' ''0.40'' ''16.00'',
      openAIPrice ''oai-resp/gpt-realtime-mini'' ''GPT Realtime Mini'' ''0.60'' ''0.06'' ''2.40'',
      openAIPrice ''oai-resp/gpt-4o-realtime-preview'' ''GPT-4o Realtime Preview'' ''5.00'' ''2.50'' ''20.00'',
      openAIPrice ''oai-resp/gpt-4o-mini-realtime-preview'' ''GPT-4o Mini Realtime Preview'' ''0.60'' ''0.30'' ''2.40'',
      openAIPrice ''oai-resp/gpt-audio'' ''GPT Audio'' ''2.50'' '''' ''10.00'',
      openAIPrice ''oai-resp/gpt-audio-1.5'' ''GPT Audio 1.5'' ''2.50'' '''' ''10.00'',
      openAIPrice ''oai-resp/gpt-audio-mini'' ''GPT Audio Mini'' ''0.60'' '''' ''2.40'',
      openAIPrice ''oai-resp/gpt-4o-audio-preview'' ''GPT-4o Audio Preview'' ''2.50'' '''' ''10.00'',
      openAIPrice ''oai-resp/gpt-4o-mini-audio-preview'' ''GPT-4o Mini Audio Preview'' ''0.15'' '''' ''0.60'',
      openAIPrice ''oai-resp/o1'' ''o1'' ''15.00'' ''7.50'' ''60.00'',
      openAIPrice ''oai-resp/o1-pro'' ''o1 Pro'' ''150.00'' '''' ''600.00'',
      openAIPrice ''oai-resp/o3-pro'' ''o3 Pro'' ''20.00'' '''' ''80.00'',
      openAIPrice ''oai-resp/o3'' ''o3'' ''2.00'' ''0.50'' ''8.00'',
      openAIPrice ''oai-resp/o3-deep-research'' ''o3 Deep Research'' ''10.00'' ''2.50'' ''40.00'',
      openAIPrice ''oai-resp/o4-mini'' ''o4 Mini'' ''1.10'' ''0.275'' ''4.40'',
      openAIPrice ''oai-resp/o4-mini-deep-research'' ''o4 Mini Deep Research'' ''2.00'' ''0.50'' ''8.00'',
      openAIPrice ''oai-resp/o3-mini'' ''o3 Mini'' ''1.10'' ''0.55'' ''4.40'',
      openAIPrice ''oai-resp/o1-mini'' ''o1 Mini'' ''1.10'' ''0.55'' ''4.40'',
      openAIPrice ''oai-resp/codex-mini-latest'' ''Codex Mini Latest'' ''1.50'' ''0.375'' ''6.00'',
      openAIPrice ''oai-resp/gpt-4o-mini-search-preview'' ''GPT-4o Mini Search Preview'' ''0.15'' '''' ''0.60'',
      openAIPrice ''oai-resp/gpt-4o-search-preview'' ''GPT-4o Search Preview'' ''2.50'' '''' ''10.00'',
      openAIPrice ''oai-resp/computer-use-preview'' ''Computer Use Preview'' ''3.00'' '''' ''12.00'',
      openAIPrice ''oai-resp/gpt-image-1.5'' ''GPT Image 1.5'' ''5.00'' ''1.25'' ''10.00'',
      openAIPrice ''oai-resp/chatgpt-image-latest'' ''ChatGPT Image Latest'' ''5.00'' ''1.25'' ''10.00'',
      openAIPrice ''openai/gpt-4.1'' ''GPT-4.1'' ''2.00'' ''0.50'' ''8.00'',
      openAIPrice ''openai/gpt-4.1-mini'' ''GPT-4.1 Mini'' ''0.40'' ''0.10'' ''1.60'',
      openAIPrice ''openai/gpt-4.1-nano'' ''GPT-4.1 Nano'' ''0.10'' ''0.025'' ''0.40'',
      openAIPrice ''openai/gpt-4o'' ''GPT-4o'' ''2.50'' ''1.25'' ''10.00'',
      openAIPrice ''openai/gpt-4o-mini'' ''GPT-4o Mini'' ''0.15'' ''0.075'' ''0.60'']"

definition openrouter1_specs :: "hosted_price option list" where
  "openrouter1_specs =
     [openRouterPrice ''openrouter/anthracite-org/magnum-v4-72b'' ''Magnum v4 72B'' ''3.00'' ''5.00'' '''' '''' 1,
      openRouterPrice ''openrouter/anthropic/claude-3-haiku'' ''Anthropic: Claude 3 Haiku'' ''0.25'' ''1.25'' ''0.03'' ''0.30'' 1,
      openRouterPrice ''openrouter/anthropic/claude-3.5-haiku'' ''Anthropic: Claude 3.5 Haiku'' ''0.80'' ''4.00'' ''0.08'' ''1.00'' 1,
      openRouterPrice ''openrouter/anthropic/claude-3.5-sonnet'' ''Anthropic: Claude 3.5 Sonnet'' ''6.00'' ''30.00'' ''0.60'' ''7.50'' 1,
      openRouterPrice ''openrouter/anthropic/claude-3.7-sonnet'' ''Anthropic: Claude 3.7 Sonnet'' ''3.00'' ''15.00'' ''0.30'' ''3.75'' 1,
      openRouterPrice ''openrouter/anthropic/claude-3.7-sonnet:thinking'' ''Anthropic: Claude 3.7 Sonnet (thinking)'' ''3.00'' ''15.00'' ''0.30'' ''3.75'' 1,
      openRouterPrice ''openrouter/anthropic/claude-haiku-4.5'' ''Anthropic: Claude Haiku 4.5'' ''1.00'' ''5.00'' ''0.10'' ''1.25'' 1,
      openRouterPrice ''openrouter/anthropic/claude-opus-4'' ''Anthropic: Claude Opus 4'' ''15.00'' ''75.00'' ''1.50'' ''18.75'' 1,
      openRouterPrice ''openrouter/anthropic/claude-opus-4.1'' ''Anthropic: Claude Opus 4.1'' ''15.00'' ''75.00'' ''1.50'' ''18.75'' 1,
      openRouterPrice ''openrouter/anthropic/claude-opus-4.5'' ''Anthropic: Claude Opus 4.5'' ''5.00'' ''25.00'' ''0.50'' ''6.25'' 1,
      openRouterPrice ''openrouter/anthropic/claude-opus-4.6'' ''Anthropic: Claude Opus 4.6'' ''5.00'' ''25.00'' ''0.50'' ''6.25'' 1,
      openRouterPrice ''openrouter/anthropic/claude-sonnet-4'' ''Anthropic: Claude Sonnet 4'' ''3.00'' ''15.00'' ''0.30'' ''3.75'' 1,
      openRouterPrice ''openrouter/anthropic/claude-sonnet-4.5'' ''Anthropic: Claude Sonnet 4.5'' ''3.00'' ''15.00'' ''0.30'' ''3.75'' 1,
      openRouterPrice ''openrouter/anthropic/claude-sonnet-4.6'' ''Anthropic: Claude Sonnet 4.6'' ''3.00'' ''15.00'' ''0.30'' ''3.75'' 1,
      openRouterPrice ''openrouter/arcee-ai/coder-large'' ''Arcee AI: Coder Large'' ''0.50'' ''0.80'' '''' '''' 1,
      openRouterPrice ''openrouter/arcee-ai/maestro-reasoning'' ''Arcee AI: Maestro Reasoning'' ''0.90'' ''3.30'' '''' '''' 1,
      openRouterPrice ''openrouter/baidu/ernie-4.5-vl-424b-a47b'' ''Baidu: ERNIE 4.5 VL 424B A47B'' ''0.42'' ''1.25'' '''' '''' 1,
      openRouterPrice ''openrouter/bytedance-seed/seed-1.6'' ''ByteDance Seed: Seed 1.6'' ''0.25'' ''2.00'' '''' '''' 1,
      openRouterPrice ''openrouter/bytedance-seed/seed-1.6-flash'' ''ByteDance Seed: Seed 1.6 Flash'' ''0.07'' ''0.30'' '''' '''' 1,
      openRouterPrice ''openrouter/bytedance-seed/seed-2.0-mini'' ''ByteDance Seed: Seed-2.0-Mini'' ''0.10'' ''0.40'' '''' '''' 1,
      openRouterPrice ''openrouter/bytedance/ui-tars-1.5-7b'' ''ByteDance: UI-TARS 7B'' ''0.10'' ''0.20'' '''' '''' 1,
      openRouterPrice ''openrouter/cognitivecomputations/dolphin-mistral-24b-venice-edition:free'' ''Venice: Uncensored (free)'' ''0.00'' ''0.00'' '''' '''' 0,
      openRouterPrice ''openrouter/cohere/command-a'' ''Cohere: Command A'' ''2.50'' ''10.00'' '''' '''' 1,
      openRouterPrice ''openrouter/cohere/command-r-08-2024'' ''Cohere: Command R (08-2024)'' ''0.15'' ''0.60'' '''' '''' 1,
      openRouterPrice ''openrouter/cohere/command-r-plus-08-2024'' ''Cohere: Command R+ (08-2024)'' ''2.50'' ''10.00'' '''' '''' 1,
      openRouterPrice ''openrouter/cohere/command-r7b-12-2024'' ''Cohere: Command R7B (12-2024)'' ''0.04'' ''0.15'' '''' '''' 1,
      openRouterPrice ''openrouter/deepcogito/cogito-v2.1-671b'' ''Deep Cogito: Cogito v2.1 671B'' ''1.25'' ''1.25'' '''' '''' 1,
      openRouterPrice ''openrouter/deepseek/deepseek-chat'' ''DeepSeek: DeepSeek V3'' ''0.32'' ''0.89'' '''' '''' 1,
      openRouterPrice ''openrouter/deepseek/deepseek-chat-v3-0324'' ''DeepSeek: DeepSeek V3 0324'' ''0.20'' ''0.77'' ''0.13'' '''' 1,
      openRouterPrice ''openrouter/deepseek/deepseek-chat-v3.1'' ''DeepSeek: DeepSeek V3.1'' ''0.15'' ''0.75'' '''' '''' 1,
      openRouterPrice ''openrouter/deepseek/deepseek-r1'' ''DeepSeek: R1'' ''0.70'' ''2.50'' '''' '''' 1,
      openRouterPrice ''openrouter/deepseek/deepseek-r1-0528'' ''DeepSeek: R1 0528'' ''0.45'' ''2.15'' ''0.22'' '''' 1,
      openRouterPrice ''openrouter/deepseek/deepseek-r1-distill-llama-70b'' ''DeepSeek: R1 Distill Llama 70B'' ''0.70'' ''0.80'' '''' '''' 1,
      openRouterPrice ''openrouter/deepseek/deepseek-r1-distill-qwen-32b'' ''DeepSeek: R1 Distill Qwen 32B'' ''0.29'' ''0.29'' '''' '''' 1,
      openRouterPrice ''openrouter/deepseek/deepseek-v3.1-terminus'' ''DeepSeek: DeepSeek V3.1 Terminus'' ''0.21'' ''0.79'' ''0.13'' '''' 1,
      openRouterPrice ''openrouter/deepseek/deepseek-v3.1-terminus:exacto'' ''DeepSeek: DeepSeek V3.1 Terminus (exacto)'' ''0.21'' ''0.79'' ''0.17'' '''' 1,
      openRouterPrice ''openrouter/deepseek/deepseek-v3.2'' ''DeepSeek: DeepSeek V3.2'' ''0.25'' ''0.40'' '''' '''' 1,
      openRouterPrice ''openrouter/deepseek/deepseek-v3.2-exp'' ''DeepSeek: DeepSeek V3.2 Exp'' ''0.27'' ''0.41'' '''' '''' 1,
      openRouterPrice ''openrouter/deepseek/deepseek-v3.2-speciale'' ''DeepSeek: DeepSeek V3.2 Speciale'' ''0.40'' ''1.20'' ''0.20'' '''' 1,
      openRouterPrice ''openrouter/eleutherai/llemma_7b'' ''EleutherAI: Llemma 7b'' ''0.80'' ''1.20'' '''' '''' 1,
      openRouterPrice ''openrouter/essentialai/rnj-1-instruct'' ''EssentialAI: Rnj 1 Instruct'' ''0.15'' ''0.15'' '''' '''' 1,
      openRouterPrice ''openrouter/google/gemma-2-27b-it'' ''Google: Gemma 2 27B'' ''0.65'' ''0.65'' '''' '''' 1,
      openRouterPrice ''openrouter/google/gemma-2-9b-it'' ''Google: Gemma 2 9B'' ''0.03'' ''0.09'' '''' '''' 1,
      openRouterPrice ''openrouter/google/gemma-3-12b-it'' ''Google: Gemma 3 12B'' ''0.04'' ''0.13'' '''' '''' 1,
      openRouterPrice ''openrouter/google/gemma-3-12b-it:free'' ''Google: Gemma 3 12B (free)'' ''0.00'' ''0.00'' '''' '''' 0,
      openRouterPrice ''openrouter/google/gemma-3-27b-it'' ''Google: Gemma 3 27B'' ''0.04'' ''0.15'' ''0.02'' '''' 1,
      openRouterPrice ''openrouter/google/gemma-3-27b-it:free'' ''Google: Gemma 3 27B (free)'' ''0.00'' ''0.00'' '''' '''' 0,
      openRouterPrice ''openrouter/google/gemma-3-4b-it'' ''Google: Gemma 3 4B'' ''0.04'' ''0.08'' '''' '''' 1,
      openRouterPrice ''openrouter/google/gemma-3-4b-it:free'' ''Google: Gemma 3 4B (free)'' ''0.00'' ''0.00'' '''' '''' 0,
      openRouterPrice ''openrouter/google/gemma-3n-e2b-it:free'' ''Google: Gemma 3n 2B (free)'' ''0.00'' ''0.00'' '''' '''' 0,
      openRouterPrice ''openrouter/google/gemma-3n-e4b-it'' ''Google: Gemma 3n 4B'' ''0.02'' ''0.04'' '''' '''' 1,
      openRouterPrice ''openrouter/google/gemma-3n-e4b-it:free'' ''Google: Gemma 3n 4B (free)'' ''0.00'' ''0.00'' '''' '''' 0,
      openRouterPrice ''openrouter/gryphe/mythomax-l2-13b'' ''MythoMax 13B'' ''0.06'' ''0.06'' '''' '''' 1,
      openRouterPrice ''openrouter/ibm-granite/granite-4.0-h-micro'' ''IBM: Granite 4.0 Micro'' ''0.02'' ''0.11'' '''' '''' 1,
      openRouterPrice ''openrouter/inception/mercury'' ''Inception: Mercury'' ''0.25'' ''0.75'' ''0.02'' '''' 1,
      openRouterPrice ''openrouter/inception/mercury-2'' ''Inception: Mercury 2'' ''0.25'' ''0.75'' ''0.02'' '''' 1,
      openRouterPrice ''openrouter/inception/mercury-coder'' ''Inception: Mercury Coder'' ''0.25'' ''0.75'' ''0.02'' '''' 1,
      openRouterPrice ''openrouter/inflection/inflection-3-pi'' ''Inflection: Inflection 3 Pi'' ''2.50'' ''10.00'' '''' '''' 1,
      openRouterPrice ''openrouter/inflection/inflection-3-productivity'' ''Inflection: Inflection 3 Productivity'' ''2.50'' ''10.00'' '''' '''' 1,
      openRouterPrice ''openrouter/kwaipilot/kat-coder-pro'' ''Kwaipilot: KAT-Coder-Pro V1'' ''0.21'' ''0.83'' ''0.04'' '''' 1,
      openRouterPrice ''openrouter/liquid/lfm-2.5-1.2b-instruct:free'' ''LiquidAI: LFM2.5-1.2B-Instruct (free)'' ''0.00'' ''0.00'' '''' '''' 0,
      openRouterPrice ''openrouter/liquid/lfm-2.5-1.2b-thinking:free'' ''LiquidAI: LFM2.5-1.2B-Thinking (free)'' ''0.00'' ''0.00'' '''' '''' 0,
      openRouterPrice ''openrouter/liquid/lfm2-8b-a1b'' ''LiquidAI: LFM2-8B-A1B'' ''0.01'' ''0.02'' '''' '''' 1,
      openRouterPrice ''openrouter/mancer/weaver'' ''Mancer: Weaver (alpha)'' ''0.75'' ''1.00'' '''' '''' 1,
      openRouterPrice ''openrouter/meituan/longcat-flash-chat'' ''Meituan: LongCat Flash Chat'' ''0.20'' ''0.80'' ''0.20'' '''' 1,
      openRouterPrice ''openrouter/meta-llama/llama-3.2-3b-instruct:free'' ''Meta: Llama 3.2 3B Instruct (free)'' ''0.00'' ''0.00'' '''' '''' 0,
      openRouterPrice ''openrouter/meta-llama/llama-3.3-70b-instruct'' ''Meta: Llama 3.3 70B Instruct'' ''0.10'' ''0.32'' '''' '''' 1,
      openRouterPrice ''openrouter/meta-llama/llama-3.3-70b-instruct:free'' ''Meta: Llama 3.3 70B Instruct (free)'' ''0.00'' ''0.00'' '''' '''' 0,
      openRouterPrice ''openrouter/meta-llama/llama-4-maverick'' ''Meta: Llama 4 Maverick'' ''0.15'' ''0.60'' '''' '''' 1,
      openRouterPrice ''openrouter/meta-llama/llama-4-scout'' ''Meta: Llama 4 Scout'' ''0.08'' ''0.30'' '''' '''' 1,
      openRouterPrice ''openrouter/meta-llama/llama-guard-2-8b'' ''Meta: LlamaGuard 2 8B'' ''0.20'' ''0.20'' '''' '''' 1,
      openRouterPrice ''openrouter/meta-llama/llama-guard-3-8b'' ''Llama Guard 3 8B'' ''0.02'' ''0.06'' '''' '''' 1,
      openRouterPrice ''openrouter/meta-llama/llama-guard-4-12b'' ''Meta: Llama Guard 4 12B'' ''0.18'' ''0.18'' '''' '''' 1]"

definition openrouter2_specs :: "hosted_price option list" where
  "openrouter2_specs =
     [openRouterPrice ''openrouter/microsoft/phi-4'' ''Microsoft: Phi 4'' ''0.06'' ''0.14'' '''' '''' 1,
      openRouterPrice ''openrouter/microsoft/wizardlm-2-8x22b'' ''WizardLM-2 8x22B'' ''0.62'' ''0.62'' '''' '''' 1,
      openRouterPrice ''openrouter/minimax/minimax-m2'' ''MiniMax: MiniMax M2'' ''0.26'' ''1.00'' ''0.03'' '''' 1,
      openRouterPrice ''openrouter/minimax/minimax-m2-her'' ''MiniMax: MiniMax M2-her'' ''0.30'' ''1.20'' ''0.03'' '''' 1,
      openRouterPrice ''openrouter/minimax/minimax-m2.1'' ''MiniMax: MiniMax M2.1'' ''0.27'' ''0.95'' ''0.03'' '''' 1,
      openRouterPrice ''openrouter/minimax/minimax-m2.5'' ''MiniMax: MiniMax M2.5'' ''0.29'' ''1.20'' ''0.03'' '''' 1,
      openRouterPrice ''openrouter/mistralai/mistral-small-creative'' ''Mistral: Mistral Small Creative'' ''0.10'' ''0.30'' '''' '''' 1,
      openRouterPrice ''openrouter/mistralai/mixtral-8x22b-instruct'' ''Mistral: Mixtral 8x22B Instruct'' ''2.00'' ''6.00'' '''' '''' 1,
      openRouterPrice ''openrouter/mistralai/mixtral-8x7b-instruct'' ''Mistral: Mixtral 8x7B Instruct'' ''0.54'' ''0.54'' '''' '''' 1,
      openRouterPrice ''openrouter/mistralai/pixtral-large-2411'' ''Mistral: Pixtral Large 2411'' ''2.00'' ''6.00'' '''' '''' 1,
      openRouterPrice ''openrouter/mistralai/voxtral-small-24b-2507'' ''Mistral: Voxtral Small 24B 2507'' ''0.10'' ''0.30'' '''' '''' 1,
      openRouterPrice ''openrouter/moonshotai/kimi-k2'' ''MoonshotAI: Kimi K2 0711'' ''0.55'' ''2.20'' '''' '''' 1,
      openRouterPrice ''openrouter/moonshotai/kimi-k2-0905'' ''MoonshotAI: Kimi K2 0905'' ''0.40'' ''2.00'' ''0.15'' '''' 1,
      openRouterPrice ''openrouter/moonshotai/kimi-k2-0905:exacto'' ''MoonshotAI: Kimi K2 0905 (exacto)'' ''0.60'' ''2.50'' '''' '''' 1,
      openRouterPrice ''openrouter/moonshotai/kimi-k2-thinking'' ''MoonshotAI: Kimi K2 Thinking'' ''0.47'' ''2.00'' ''0.14'' '''' 1,
      openRouterPrice ''openrouter/moonshotai/kimi-k2.5'' ''MoonshotAI: Kimi K2.5'' ''0.45'' ''2.20'' ''0.22'' '''' 1,
      openRouterPrice ''openrouter/morph/morph-v3-fast'' ''Morph: Morph V3 Fast'' ''0.80'' ''1.20'' '''' '''' 1,
      openRouterPrice ''openrouter/morph/morph-v3-large'' ''Morph: Morph V3 Large'' ''0.90'' ''1.90'' '''' '''' 1,
      openRouterPrice ''openrouter/nvidia/nemotron-nano-9b-v2:free'' ''NVIDIA: Nemotron Nano 9B V2 (free)'' ''0.00'' ''0.00'' '''' '''' 0,
      openRouterPrice ''openrouter/openai/gpt-oss-120b'' ''OpenAI: gpt-oss-120b'' ''0.04'' ''0.19'' '''' '''' 1,
      openRouterPrice ''openrouter/openai/gpt-oss-120b:exacto'' ''OpenAI: gpt-oss-120b (exacto)'' ''0.04'' ''0.19'' '''' '''' 1,
      openRouterPrice ''openrouter/openai/gpt-oss-120b:free'' ''OpenAI: gpt-oss-120b (free)'' ''0.00'' ''0.00'' '''' '''' 0,
      openRouterPrice ''openrouter/openai/gpt-oss-20b'' ''OpenAI: gpt-oss-20b'' ''0.03'' ''0.14'' '''' '''' 1,
      openRouterPrice ''openrouter/openai/gpt-oss-20b:free'' ''OpenAI: gpt-oss-20b (free)'' ''0.00'' ''0.00'' '''' '''' 0,
      openRouterPrice ''openrouter/openai/gpt-oss-safeguard-20b'' ''OpenAI: gpt-oss-safeguard-20b'' ''0.07'' ''0.30'' ''0.04'' '''' 1,
      openRouterPrice ''openrouter/openrouter/auto'' ''Auto Router'' ''0.00'' ''0.00'' '''' '''' 0,
      openRouterPrice ''openrouter/openrouter/bodybuilder'' ''Body Builder (beta)'' ''0.00'' ''0.00'' '''' '''' 0,
      openRouterPrice ''openrouter/openrouter/free'' ''Free Models Router'' ''0.00'' ''0.00'' '''' '''' 0,
      openRouterPrice ''openrouter/perplexity/sonar'' ''Perplexity: Sonar'' ''1.00'' ''1.00'' '''' '''' 1,
      openRouterPrice ''openrouter/perplexity/sonar-deep-research'' ''Perplexity: Sonar Deep Research'' ''2.00'' ''8.00'' '''' '''' 1,
      openRouterPrice ''openrouter/perplexity/sonar-pro'' ''Perplexity: Sonar Pro'' ''3.00'' ''15.00'' '''' '''' 1,
      openRouterPrice ''openrouter/perplexity/sonar-pro-search'' ''Perplexity: Sonar Pro Search'' ''3.00'' ''15.00'' '''' '''' 1,
      openRouterPrice ''openrouter/perplexity/sonar-reasoning-pro'' ''Perplexity: Sonar Reasoning Pro'' ''2.00'' ''8.00'' '''' '''' 1,
      openRouterPrice ''openrouter/prime-intellect/intellect-3'' ''Prime Intellect: INTELLECT-3'' ''0.20'' ''1.10'' '''' '''' 1,
      openRouterPrice ''openrouter/qwen/qwen3-235b-a22b'' ''Qwen: Qwen3 235B A22B'' ''0.45'' ''1.82'' '''' '''' 1,
      openRouterPrice ''openrouter/qwen/qwen3-235b-a22b-2507'' ''Qwen: Qwen3 235B A22B Instruct 2507'' ''0.07'' ''0.10'' '''' '''' 1,
      openRouterPrice ''openrouter/qwen/qwen3-235b-a22b-thinking-2507'' ''Qwen: Qwen3 235B A22B Thinking 2507'' ''0.11'' ''0.60'' ''0.06'' '''' 1,
      openRouterPrice ''openrouter/qwen/qwen3-30b-a3b'' ''Qwen: Qwen3 30B A3B'' ''0.08'' ''0.28'' '''' '''' 1,
      openRouterPrice ''openrouter/qwen/qwen3-30b-a3b-instruct-2507'' ''Qwen: Qwen3 30B A3B Instruct 2507'' ''0.09'' ''0.30'' '''' '''' 1,
      openRouterPrice ''openrouter/qwen/qwen3-30b-a3b-thinking-2507'' ''Qwen: Qwen3 30B A3B Thinking 2507'' ''0.05'' ''0.34'' '''' '''' 1,
      openRouterPrice ''openrouter/qwen/qwen3-32b'' ''Qwen: Qwen3 32B'' ''0.08'' ''0.24'' ''0.04'' '''' 1,
      openRouterPrice ''openrouter/qwen/qwen3-4b:free'' ''Qwen: Qwen3 4B (free)'' ''0.00'' ''0.00'' '''' '''' 0,
      openRouterPrice ''openrouter/qwen/qwen3-8b'' ''Qwen: Qwen3 8B'' ''0.05'' ''0.40'' ''0.05'' '''' 1,
      openRouterPrice ''openrouter/qwen/qwen3-coder'' ''Qwen: Qwen3 Coder 480B A35B'' ''0.22'' ''1.00'' ''0.02'' '''' 1,
      openRouterPrice ''openrouter/qwen/qwen3-coder-30b-a3b-instruct'' ''Qwen: Qwen3 Coder 30B A3B Instruct'' ''0.07'' ''0.27'' '''' '''' 1,
      openRouterPrice ''openrouter/qwen/qwen3-coder-flash'' ''Qwen: Qwen3 Coder Flash'' ''0.20'' ''0.97'' ''0.04'' '''' 1,
      openRouterPrice ''openrouter/qwen/qwen3-coder-next'' ''Qwen: Qwen3 Coder Next'' ''0.12'' ''0.75'' ''0.06'' '''' 1,
      openRouterPrice ''openrouter/qwen/qwen3-coder-plus'' ''Qwen: Qwen3 Coder Plus'' ''0.65'' ''3.25'' ''0.13'' '''' 1,
      openRouterPrice ''openrouter/qwen/qwen3-coder:exacto'' ''Qwen: Qwen3 Coder 480B A35B (exacto)'' ''0.22'' ''1.80'' ''0.02'' '''' 1,
      openRouterPrice ''openrouter/qwen/qwen3-coder:free'' ''Qwen: Qwen3 Coder 480B A35B (free)'' ''0.00'' ''0.00'' '''' '''' 0,
      openRouterPrice ''openrouter/qwen/qwen3-max'' ''Qwen: Qwen3 Max'' ''1.20'' ''6.00'' ''0.24'' '''' 1,
      openRouterPrice ''openrouter/qwen/qwen3-max-thinking'' ''Qwen: Qwen3 Max Thinking'' ''0.78'' ''3.90'' '''' '''' 1,
      openRouterPrice ''openrouter/qwen/qwen3-next-80b-a3b-instruct'' ''Qwen: Qwen3 Next 80B A3B Instruct'' ''0.09'' ''1.10'' '''' '''' 1,
      openRouterPrice ''openrouter/qwen/qwen3-next-80b-a3b-instruct:free'' ''Qwen: Qwen3 Next 80B A3B Instruct (free)'' ''0.00'' ''0.00'' '''' '''' 0,
      openRouterPrice ''openrouter/qwen/qwen3-next-80b-a3b-thinking'' ''Qwen: Qwen3 Next 80B A3B Thinking'' ''0.15'' ''1.20'' '''' '''' 1,
      openRouterPrice ''openrouter/qwen/qwen3-vl-235b-a22b-instruct'' ''Qwen: Qwen3 VL 235B A22B Instruct'' ''0.20'' ''0.88'' ''0.11'' '''' 1,
      openRouterPrice ''openrouter/qwen/qwen3-vl-235b-a22b-thinking'' ''Qwen: Qwen3 VL 235B A22B Thinking'' ''0.00'' ''0.00'' '''' '''' 0,
      openRouterPrice ''openrouter/qwen/qwen3-vl-30b-a3b-instruct'' ''Qwen: Qwen3 VL 30B A3B Instruct'' ''0.13'' ''0.52'' '''' '''' 1,
      openRouterPrice ''openrouter/qwen/qwen3-vl-30b-a3b-thinking'' ''Qwen: Qwen3 VL 30B A3B Thinking'' ''0.00'' ''0.00'' '''' '''' 0,
      openRouterPrice ''openrouter/qwen/qwen3-vl-32b-instruct'' ''Qwen: Qwen3 VL 32B Instruct'' ''0.10'' ''0.42'' '''' '''' 1,
      openRouterPrice ''openrouter/qwen/qwen3-vl-8b-instruct'' ''Qwen: Qwen3 VL 8B Instruct'' ''0.08'' ''0.50'' '''' '''' 1,
      openRouterPrice ''openrouter/qwen/qwen3-vl-8b-thinking'' ''Qwen: Qwen3 VL 8B Thinking'' ''0.12'' ''1.36'' '''' '''' 1,
      openRouterPrice ''openrouter/qwen/qwen3.5-122b-a10b'' ''Qwen: Qwen3.5-122B-A10B'' ''0.26'' ''2.08'' '''' '''' 1,
      openRouterPrice ''openrouter/qwen/qwen3.5-27b'' ''Qwen: Qwen3.5-27B'' ''0.20'' ''1.56'' '''' '''' 1,
      openRouterPrice ''openrouter/qwen/qwen3.5-35b-a3b'' ''Qwen: Qwen3.5-35B-A3B'' ''0.16'' ''1.30'' '''' '''' 1,
      openRouterPrice ''openrouter/qwen/qwen3.5-397b-a17b'' ''Qwen: Qwen3.5 397B A17B'' ''0.39'' ''2.34'' '''' '''' 1,
      openRouterPrice ''openrouter/qwen/qwen3.5-flash-02-23'' ''Qwen: Qwen3.5-Flash'' ''0.10'' ''0.40'' '''' '''' 1,
      openRouterPrice ''openrouter/qwen/qwen3.5-plus-02-15'' ''Qwen: Qwen3.5 Plus 2026-02-15'' ''0.26'' ''1.56'' '''' '''' 1,
      openRouterPrice ''openrouter/qwen/qwq-32b'' ''Qwen: QwQ 32B'' ''0.15'' ''0.40'' '''' '''' 1,
      openRouterPrice ''openrouter/x-ai/grok-3'' ''xAI: Grok 3'' ''3.00'' ''15.00'' ''0.75'' '''' 1,
      openRouterPrice ''openrouter/x-ai/grok-3-beta'' ''xAI: Grok 3 Beta'' ''3.00'' ''15.00'' ''0.75'' '''' 1,
      openRouterPrice ''openrouter/x-ai/grok-3-mini'' ''xAI: Grok 3 Mini'' ''0.30'' ''0.50'' ''0.07'' '''' 1,
      openRouterPrice ''openrouter/x-ai/grok-3-mini-beta'' ''xAI: Grok 3 Mini Beta'' ''0.30'' ''0.50'' ''0.07'' '''' 1,
      openRouterPrice ''openrouter/x-ai/grok-4'' ''xAI: Grok 4'' ''3.00'' ''15.00'' ''0.75'' '''' 1,
      openRouterPrice ''openrouter/x-ai/grok-4-fast'' ''xAI: Grok 4 Fast'' ''0.20'' ''0.50'' ''0.05'' '''' 1,
      openRouterPrice ''openrouter/x-ai/grok-4.1-fast'' ''xAI: Grok 4.1 Fast'' ''0.20'' ''0.50'' ''0.05'' '''' 1,
      openRouterPrice ''openrouter/x-ai/grok-code-fast-1'' ''xAI: Grok Code Fast 1'' ''0.20'' ''1.50'' ''0.02'' '''' 1,
      openRouterPrice ''openrouter/z-ai/glm-4.6'' ''Z.ai: GLM 4.6'' ''0.39'' ''1.90'' '''' '''' 1,
      openRouterPrice ''openrouter/z-ai/glm-4.6:exacto'' ''Z.ai: GLM 4.6 (exacto)'' ''0.44'' ''1.76'' ''0.11'' '''' 1,
      openRouterPrice ''openrouter/z-ai/glm-4.6v'' ''Z.ai: GLM 4.6V'' ''0.30'' ''0.90'' '''' '''' 1,
      openRouterPrice ''openrouter/z-ai/glm-4.7'' ''Z.ai: GLM 4.7'' ''0.38'' ''1.98'' ''0.19'' '''' 1,
      openRouterPrice ''openrouter/z-ai/glm-4.7-flash'' ''Z.ai: GLM 4.7 Flash'' ''0.06'' ''0.40'' ''0.01'' '''' 1,
      openRouterPrice ''openrouter/z-ai/glm-5'' ''Z.ai: GLM 5'' ''0.80'' ''2.56'' ''0.16'' '''' 1]"

definition gemini_specs :: "hosted_price option list" where
  "gemini_specs = concat
     [geminiPrices ''gemini-3.1-pro-preview'' ''Gemini 3.1 Pro Preview''
        (no_gemini_spec\<lparr>gs_Input := ''2.00'', gs_LongInput := ''4.00'', gs_CachedInput := ''0.20'', gs_LongCachedInput := ''0.40'', gs_CacheStorage := ''4.50'', gs_Output := ''12.00'', gs_LongOutput := ''18.00''\<rparr>),
      geminiPrices ''gemini-3.1-flash-lite-preview'' ''Gemini 3.1 Flash-Lite Preview''
        (no_gemini_spec\<lparr>gs_Input := ''0.25'', gs_AudioInput := ''0.50'', gs_CachedInput := ''0.025'', gs_AudioCachedInput := ''0.05'', gs_CacheStorage := ''1.00'', gs_Output := ''1.50''\<rparr>),
      geminiPrices ''gemini-3-pro-preview'' ''Gemini 3 Pro Preview''
        (no_gemini_spec\<lparr>gs_Input := ''2.00'', gs_LongInput := ''4.00'', gs_CachedInput := ''0.20'', gs_LongCachedInput := ''0.40'', gs_CacheStorage := ''4.50'', gs_Output := ''12.00'', gs_LongOutput := ''18.00''\<rparr>),
      geminiPrices ''gemini-3-flash-preview'' ''Gemini 3 Flash Preview''
        (no_gemini_spec\<lparr>gs_Input := ''0.50'', gs_AudioInput := ''1.00'', gs_CachedInput := ''0.05'', gs_AudioCachedInput := ''0.10'', gs_CacheStorage := ''1.00'', gs_Output := ''3.00''\<rparr>),
      geminiPrices ''gemini-2.5-pro'' ''Gemini 2.5 Pro''
        (no_gemini_spec\<lparr>gs_Input := ''1.25'', gs_LongInput := ''2.50'', gs_CachedInput := ''0.125'', gs_LongCachedInput := ''0.25'', gs_CacheStorage := ''4.50'', gs_Output := ''10.00'', gs_LongOutput := ''15.00''\<rparr>),
      geminiPrices ''gemini-2.5-flash'' ''Gemini 2.5 Flash''
        (no_gemini_spec\<lparr>gs_Input := ''0.30'', gs_AudioInput := ''1.00'', gs_CachedInput := ''0.03'', gs_AudioCachedInput := ''0.10'', gs_CacheStorage := ''1.00'', gs_Output := ''2.50''\<rparr>),
      geminiPrices ''gemini-2.5-flash-lite'' ''Gemini 2.5 Flash-Lite''
        (no_gemini_spec\<lparr>gs_Input := ''0.10'', gs_AudioInput := ''0.30'', gs_CachedInput := ''0.01'', gs_AudioCachedInput := ''0.03'', gs_CacheStorage := ''1.00'', gs_Output := ''0.40''\<rparr>),
      geminiPrices ''gemini-2.5-flash-lite-preview'' ''Gemini 2.5 Flash-Lite Preview''
        (no_gemini_spec\<lparr>gs_Input := ''0.10'', gs_AudioInput := ''0.30'', gs_CachedInput := ''0.01'', gs_AudioCachedInput := ''0.03'', gs_CacheStorage := ''1.00'', gs_Output := ''0.40''\<rparr>),
      geminiPrices ''gemini-2.0-flash'' ''Gemini 2.0 Flash''
        (no_gemini_spec\<lparr>gs_Input := ''0.10'', gs_AudioInput := ''0.70'', gs_CachedInput := ''0.025'', gs_AudioCachedInput := ''0.175'', gs_CacheStorage := ''1.00'', gs_Output := ''0.40''\<rparr>),
      geminiPrices ''gemini-2.0-flash-lite'' ''Gemini 2.0 Flash-Lite''
        (no_gemini_spec\<lparr>gs_Input := ''0.075'', gs_Output := ''0.30''\<rparr>),
      geminiPrices ''gemma-3'' ''Gemma 3''
        (no_gemini_spec\<lparr>gs_Input := ''0.00'', gs_Output := ''0.00'', gs_MinimumChargeCents := 0\<rparr>),
      geminiPrices ''gemma-3n'' ''Gemma 3n''
        (no_gemini_spec\<lparr>gs_Input := ''0.00'', gs_Output := ''0.00'', gs_MinimumChargeCents := 0\<rparr>),
      geminiPrices ''gemini-3.1-flash-image-preview'' ''Gemini 3.1 Flash Image Preview''
        (no_gemini_spec\<lparr>gs_Input := ''0.50'', gs_Output := ''3.00'', gs_ImageOutput := ''60.00''\<rparr>),
      geminiPrices ''gemini-3-pro-image-preview'' ''Gemini 3 Pro Image Preview''
        (no_gemini_spec\<lparr>gs_Input := ''2.00'', gs_Output := ''12.00'', gs_ImageOutput := ''120.00''\<rparr>),
      geminiPrices ''gemini-2.5-flash-image'' ''Gemini 2.5 Flash Image''
        (no_gemini_spec\<lparr>gs_Input := ''0.30'', gs_Output := ''0.00'', gs_ImageOutput := ''30.00''\<rparr>)]"

record pricing_catalog =
  pc_Version :: string
  pc_ByModel :: "(string, hosted_price) gomap"

text \<open>Later entries of a model replace earlier ones.\<close>

definition DefaultPricingCatalog :: "pricing_catalog option" where
  "DefaultPricingCatalog =
     map_option (\<lambda>specs. \<lparr>pc_Version = ''beta-2026-03-06-hosted-retail-catalog'',
         pc_ByModel = fold (\<lambda>p. mput (trim_space (hp_Model p)) p) specs []\<rparr>)
       (those (anthropic_specs @ openai_specs @ openrouter1_specs @ openrouter2_specs @ gemini_specs))"

text \<open>The rates of a price.\<close>

definition opt_list :: "'a option \<Rightarrow> 'a list" where
  "opt_list r = (case r of None \<Rightarrow> [] | Some x \<Rightarrow> [x])"

definition price_rates :: "hosted_price \<Rightarrow> int list" where
  "price_rates p = [hp_Input p, hp_Output p] @
     concat (map opt_list
       [hp_LongInput p, hp_AudioInput p, hp_CachedInput p, hp_LongCachedInput p, hp_AudioCachedInput p,
        hp_CacheWrite5m p, hp_CacheWrite1h p, hp_CacheStorage p, hp_LongOutput p, hp_ImageOutput p])"

text \<open>Rates up to 1000 dollars and a minimum charge of at most a cent.\<close>

definition price_ok :: "hosted_price \<Rightarrow> bool" where
  "price_ok p \<longleftrightarrow> list_all (\<lambda>r. 0 \<le> r \<and> r \<le> 1000000000) (price_rates p) \<and>
     0 \<le> hp_MinimumChargeCents p \<and> hp_MinimumChargeCents p \<le> 1"

text \<open>The tables parse, and every price in them is sound.\<close>

lemma anthropic_ok: "list_all (\<lambda>x. case x of None \<Rightarrow> False | Some p \<Rightarrow> price_ok p) anthropic_specs"
  by code_simp

lemma openai_ok: "list_all (\<lambda>x. case x of None \<Rightarrow> False | Some p \<Rightarrow> price_ok p) openai_specs"
  by code_simp

lemma openrouter1_ok: "list_all (\<lambda>x. case x of None \<Rightarrow> False | Some p \<Rightarrow> price_ok p) openrouter1_specs"
  by code_simp

lemma openrouter2_ok: "list_all (\<lambda>x. case x of None \<Rightarrow> False | Some p \<Rightarrow> price_ok p) openrouter2_specs"
  by code_simp

lemma gemini_ok: "list_all (\<lambda>x. case x of None \<Rightarrow> False | Some p \<Rightarrow> price_ok p) gemini_specs"
  by code_simp

abbreviation parsed_ok :: "hosted_price option list \<Rightarrow> bool" where
  "parsed_ok \<equiv> list_all (\<lambda>x. case x of None \<Rightarrow> False | Some p \<Rightarrow> price_ok p)"

lemma parsed_those: "parsed_ok xs \<Longrightarrow> \<exists>ps. those xs = Some ps \<and> list_all price_ok ps"
  by (induction xs) (auto split: option.splits)

lemma fold_prices_ok:
  "list_all price_ok ps \<Longrightarrow> \<forall>m p. mget acc m = Some p \<longrightarrow> price_ok p \<Longrightarrow>
   \<forall>m p. mget (fold (\<lambda>p. mput (key p) p) ps acc) m = Some p \<longrightarrow> price_ok p"
proof (induction ps arbitrary: acc)
  case (Cons q ps)
  have "\<forall>m p. mget (mput (key q) q acc) m = Some p \<longrightarrow> price_ok p"
  proof (intro allI impI)
    fix m p
    assume "mget (mput (key q) q acc) m = Some p"
    then have "q = p \<or> mget acc m = Some p" by (simp split: if_splits)
    then show "price_ok p" using Cons.prems by auto
  qed
  from Cons.IH [OF _ this] show ?case using Cons.prems(1) by simp
qed simp

lemma default_prices_ok:
  "\<exists>c. DefaultPricingCatalog = Some c \<and> (\<forall>m p. mget (pc_ByModel c) m = Some p \<longrightarrow> price_ok p)"
proof -
  have "parsed_ok (anthropic_specs @ openai_specs @ openrouter1_specs @ openrouter2_specs @ gemini_specs)"
    using anthropic_ok openai_ok openrouter1_ok openrouter2_ok gemini_ok by simp
  from parsed_those [OF this] show ?thesis
    using fold_prices_ok [of _ "[]" "\<lambda>p. trim_space (hp_Model p)"] by (auto simp: DefaultPricingCatalog_def)
qed

end
