(* ===== verification/Pricing.thy ===== *)
theory Pricing
  imports PriceCatalog
begin

text \<open>
  The charge for a use of a hosted model (\<open>internal/services/pricing.go\<close>): the choice of the
  rates that apply and the arithmetic of the charge in 64-bit integers, with the error it can make.
\<close>

section \<open>The rates that apply\<close>

record pricing_context =
  px_InputModality :: string
  px_OutputModality :: string

definition context_normalized :: "pricing_context \<Rightarrow> pricing_context" where
  "context_normalized c =
     \<lparr>px_InputModality = (if px_InputModality c = [] then ''standard'' else px_InputModality c),
      px_OutputModality = (if px_OutputModality c = [] then ''text'' else px_OutputModality c)\<rparr>"

text \<open>Of the values of a metadata map only a string prints as one of the modalities.\<close>

definition pricingInputModalityFromAny :: "json option \<Rightarrow> string" where
  "pricingInputModalityFromAny v =
     (case v of Some (JStr s) \<Rightarrow> if to_lower (trim_space s) = ''audio'' then ''audio'' else ''standard''
      | _ \<Rightarrow> ''standard'')"

definition pricingOutputModalityFromAny :: "json option \<Rightarrow> string" where
  "pricingOutputModalityFromAny v =
     (case v of Some (JStr s) \<Rightarrow> if to_lower (trim_space s) = ''image'' then ''image'' else ''text''
      | _ \<Rightarrow> ''text'')"

definition PricingContextFromMetadata :: "jobj option \<Rightarrow> pricing_context" where
  "PricingContextFromMetadata metadata =
     (let field = (\<lambda>k. Option.bind metadata (\<lambda>m. mget m k)) in
      \<lparr>px_InputModality = pricingInputModalityFromAny (field ''input_modality''),
       px_OutputModality = pricingOutputModalityFromAny (field ''output_modality'')\<rparr>)"

record selected_tiers =
  st_InputModality :: string
  st_OutputModality :: string
  st_PromptTier :: string
  st_Input :: int
  st_CachedInput :: "int option"
  st_CacheWrite :: "int option"
  st_Output :: int

definition or_else :: "int option \<Rightarrow> int \<Rightarrow> int" where
  "or_else r d = (case r of Some x \<Rightarrow> x | None \<Rightarrow> d)"

definition or_keep :: "int option \<Rightarrow> int option \<Rightarrow> int option" where
  "or_keep r d = (if r \<noteq> None then r else d)"

definition selectPricingTiers :: "hosted_price \<Rightarrow> usage \<Rightarrow> pricing_context \<Rightarrow> selected_tiers" where
  "selectPricingTiers p usage pricingCtx =
     (let ctx = context_normalized pricingCtx;
          s0 = \<lparr>st_InputModality = px_InputModality ctx, st_OutputModality = px_OutputModality ctx,
            st_PromptTier = ''standard'', st_Input = hp_Input p, st_CachedInput = hp_CachedInput p,
            st_CacheWrite = hp_CacheWrite5m p, st_Output = hp_Output p\<rparr>;
          s1 = (case hp_PromptTierThresholdTokens p of
                  Some t \<Rightarrow>
                    if InputTokens usage > t then s0\<lparr>st_PromptTier := ''long'',
                      st_Input := or_else (hp_LongInput p) (st_Input s0),
                      st_CachedInput := or_keep (hp_LongCachedInput p) (st_CachedInput s0),
                      st_Output := or_else (hp_LongOutput p) (st_Output s0)\<rparr>
                    else s0
                | None \<Rightarrow> s0);
          s2 = (if px_InputModality ctx = ''audio'' then s1\<lparr>
                  st_Input := or_else (hp_AudioInput p) (st_Input s1),
                  st_CachedInput := or_keep (hp_AudioCachedInput p) (st_CachedInput s1)\<rparr>
                else s1)
      in if px_OutputModality ctx = ''image''
         then s2\<lparr>st_Output := or_else (hp_ImageOutput p) (st_Output s2)\<rparr> else s2)"

section \<open>The charge\<close>

record pricing_snapshot =
  sn_CatalogVersion :: string
  sn_Selected :: selected_tiers
  sn_Price :: hosted_price
  sn_BilledCents :: int

record pricing_estimate =
  pe_BilledCents :: int
  pe_Snapshot :: pricing_snapshot

definition HostedModel :: "pricing_catalog option \<Rightarrow> string \<Rightarrow> hosted_price option" where
  "HostedModel c model = Option.bind c (\<lambda>c. mget (pc_ByModel c) (trim_space model))"

definition total_tokens :: "usage \<Rightarrow> int" where
  "total_tokens usage =
     (if TotalTokens usage = 0 then i64 (InputTokens usage + OutputTokens usage) else TotalTokens usage)"

definition cache_read_tokens :: "selected_tiers \<Rightarrow> usage \<Rightarrow> int" where
  "cache_read_tokens s usage =
     (case CacheReadTokens usage of
        Some n \<Rightarrow> if n > 0 \<and> st_CachedInput s \<noteq> None then n else 0
      | None \<Rightarrow> 0)"

definition uncached_tokens :: "selected_tiers \<Rightarrow> usage \<Rightarrow> int" where
  "uncached_tokens s usage =
     (let n = i64 (InputTokens usage - cache_read_tokens s usage) in if n < 0 then 0 else n)"

definition micros :: "int \<Rightarrow> int \<Rightarrow> int" where
  "micros tokens rate = ceilDiv (i64 (tokens * rate)) 1000000"

definition total_micros :: "selected_tiers \<Rightarrow> usage \<Rightarrow> int" where
  "total_micros s usage =
     (let cached = cache_read_tokens s usage;
          m0 = micros (uncached_tokens s usage) (st_Input s);
          m1 = (case st_CachedInput s of
                  Some r \<Rightarrow> if cached > 0 then i64 (m0 + micros cached r) else m0
                | None \<Rightarrow> m0);
          m2 = (case (CacheWriteTokens usage, st_CacheWrite s) of
                  (Some n, Some r) \<Rightarrow> if n > 0 then i64 (m1 + micros n r) else m1
                | _ \<Rightarrow> m1)
      in i64 (m2 + micros (OutputTokens usage) (st_Output s)))"

definition Estimate ::
  "pricing_catalog option \<Rightarrow> string \<Rightarrow> usage \<Rightarrow> pricing_context \<Rightarrow> string + pricing_estimate" where
  "Estimate c0 model usage pricingCtx =
     (case c0 of
        None \<Rightarrow> Inl ''pricing catalog is not configured''
      | Some c \<Rightarrow>
          (case mget (pc_ByModel c) (trim_space model) of
             None \<Rightarrow> Inl (''no hosted pricing configured for model '' @ [CHR 0x22] @ model @ [CHR 0x22])
           | Some p \<Rightarrow>
               (let total = total_tokens usage;
                    selected = selectPricingTiers p usage pricingCtx;
                    cents0 = ceilDiv (total_micros selected usage) 10000;
                    cents1 = (if cents0 = 0 \<and> total > 0 then hp_MinimumChargeCents p else cents0);
                    cents = (if cents1 < hp_MinimumChargeCents p \<and> total > 0
                             then hp_MinimumChargeCents p else cents1)
                in Inr \<lparr>pe_BilledCents = cents, pe_Snapshot =
                     \<lparr>sn_CatalogVersion = pc_Version c, sn_Selected = selected, sn_Price = p,
                      sn_BilledCents = cents\<rparr>\<rparr>)))"

section \<open>What a use costs\<close>

text \<open>The cost in units of 1/10000000000 cent.\<close>

definition exact_cost :: "selected_tiers \<Rightarrow> usage \<Rightarrow> int" where
  "exact_cost s usage =
     uncached_tokens s usage * st_Input s +
     cache_read_tokens s usage * or_else (st_CachedInput s) 0 +
     (case (CacheWriteTokens usage, st_CacheWrite s) of (Some n, Some r) \<Rightarrow> n * r | _ \<Rightarrow> 0) +
     OutputTokens usage * st_Output s"

definition count_ok :: "int option \<Rightarrow> bool" where
  "count_ok n = (case n of None \<Rightarrow> True | Some n \<Rightarrow> 0 \<le> n \<and> n \<le> 1000000000)"

definition usage_ok :: "usage \<Rightarrow> bool" where
  "usage_ok u \<longleftrightarrow> count_ok (Some (InputTokens u)) \<and> count_ok (Some (OutputTokens u)) \<and>
     count_ok (CacheReadTokens u) \<and> count_ok (CacheWriteTokens u)"

definition rate_ok :: "int \<Rightarrow> bool" where
  "rate_ok r \<longleftrightarrow> 0 \<le> r \<and> r \<le> 1000000000"

lemma ceilDiv_bounds:
  assumes "0 \<le> n" "n < 2 ^ 62" "0 < d" "d \<le> 1000000"
  shows "n \<le> d * ceilDiv n d" "d * ceilDiv n d < n + d" "0 \<le> ceilDiv n d"
proof -
  have w: "i64 (i64 (n + d) - 1) = n + d - 1" if "n > 0"
  proof -
    have "i64 (n + d) = n + d" using assms by (intro i64_id) simp_all
    moreover have "i64 (n + d - 1) = n + d - 1" using assms that by (intro i64_id) simp_all
    ultimately show ?thesis by simp
  qed
  define q r where "q = (n + d - 1) div d" and "r = (n + d - 1) mod d"
  have qr: "n + d - 1 = d * q + r" "0 \<le> r" "r < d" using assms(3) by (simp_all add: q_def r_def)
  have c: "ceilDiv n d = (if n = 0 then 0 else q)"
    using w assms by (simp add: ceilDiv_def q_def signed_divide_int_def)
  have q: "0 \<le> q" using assms by (simp add: q_def pos_imp_zdiv_nonneg_iff)
  show "n \<le> d * ceilDiv n d" "d * ceilDiv n d < n + d" "0 \<le> ceilDiv n d"
    using qr q assms unfolding c by auto
qed

lemma micros_bounds:
  assumes "0 \<le> t" "t \<le> 1000000000" "rate_ok r"
  shows "t * r \<le> 1000000 * micros t r" "1000000 * micros t r < t * r + 1000000" "0 \<le> micros t r"
    "micros t r \<le> 1000000000001"
proof -
  have "t * r \<le> 1000000000 * 1000000000" using assms by (intro mult_mono) (simp_all add: rate_ok_def)
  moreover have "0 \<le> t * r" using assms by (simp add: rate_ok_def)
  ultimately have p: "0 \<le> t * r" "t * r \<le> 1000000000000000000" by simp_all
  then have "i64 (t * r) = t * r" by (intro i64_id) simp_all
  then have m: "micros t r = ceilDiv (t * r) 1000000" by (simp add: micros_def)
  show "t * r \<le> 1000000 * micros t r" "1000000 * micros t r < t * r + 1000000" "0 \<le> micros t r"
    unfolding m using ceilDiv_bounds [of "t * r" 1000000] p by auto
  then show "micros t r \<le> 1000000000001" using p by linarith
qed

definition opt_ok :: "int option \<Rightarrow> bool" where
  "opt_ok r = (case r of None \<Rightarrow> True | Some x \<Rightarrow> rate_ok x)"

lemma opt_ok_intros [simp]:
  "opt_ok r \<Longrightarrow> rate_ok d \<Longrightarrow> rate_ok (or_else r d)"
  "opt_ok r \<Longrightarrow> opt_ok r2 \<Longrightarrow> opt_ok (or_keep r r2)"
  by (auto simp: opt_ok_def or_else_def or_keep_def split: option.splits)

lemma rates_of_option: "list_all (\<lambda>r. 0 \<le> r \<and> r \<le> 1000000000) (opt_list r) = opt_ok r"
  by (simp add: opt_list_def opt_ok_def rate_ok_def split: option.split)

lemma price_okD:
  assumes "price_ok p"
  shows "rate_ok (hp_Input p)" "rate_ok (hp_Output p)" "opt_ok (hp_LongInput p)" "opt_ok (hp_AudioInput p)"
    "opt_ok (hp_CachedInput p)" "opt_ok (hp_LongCachedInput p)" "opt_ok (hp_AudioCachedInput p)"
    "opt_ok (hp_CacheWrite5m p)" "opt_ok (hp_LongOutput p)" "opt_ok (hp_ImageOutput p)"
  using assms by (simp_all add: price_ok_def price_rates_def rates_of_option rate_ok_def)

lemma selected_ok:
  assumes "price_ok p"
  shows "rate_ok (st_Input (selectPricingTiers p u c)) \<and> rate_ok (st_Output (selectPricingTiers p u c)) \<and>
    opt_ok (st_CachedInput (selectPricingTiers p u c)) \<and> opt_ok (st_CacheWrite (selectPricingTiers p u c))"
  using price_okD [OF assms]
  by (simp add: selectPricingTiers_def Let_def split: option.split)

text \<open>The sum of the parts, each rounded up to a millionth of a dollar.\<close>

lemma total_micros_bounds:
  assumes "usage_ok u" "rate_ok (st_Input s)" "rate_ok (st_Output s)" "opt_ok (st_CachedInput s)" "opt_ok (st_CacheWrite s)"
  shows "exact_cost s u \<le> 1000000 * total_micros s u"
    "1000000 * total_micros s u < exact_cost s u + 4000000" "0 \<le> total_micros s u" "total_micros s u < 2 ^ 62"
proof -
  define n where "n = uncached_tokens s u"
  define k where "k = cache_read_tokens s u"
  define rc where "rc = or_else (st_CachedInput s) 0"
  have k: "0 \<le> k" "k \<le> 1000000000"
    using assms(1) by (auto simp: k_def cache_read_tokens_def usage_ok_def count_ok_def split: option.splits)
  have inp: "0 \<le> InputTokens u" "InputTokens u \<le> 1000000000" "0 \<le> OutputTokens u" "OutputTokens u \<le> 1000000000"
    using assms(1) by (simp_all add: usage_ok_def count_ok_def)
  then have n: "0 \<le> n" "n \<le> 1000000000"
    using k by (auto simp: n_def uncached_tokens_def k_def [symmetric] Let_def i64_id)
  have rc: "rate_ok rc" using assms(4) by (simp add: rc_def rate_ok_def opt_ok_def or_else_def split: option.splits)
  define a where "a = micros n (st_Input s)"
  define b where "b = (if st_CachedInput s \<noteq> None \<and> k > 0 then micros k rc else 0)"
  define w where "w = (case (CacheWriteTokens u, st_CacheWrite s) of (Some m, Some r) \<Rightarrow> m * r | _ \<Rightarrow> 0)"
  define c where "c = (case (CacheWriteTokens u, st_CacheWrite s) of
     (Some m, Some r) \<Rightarrow> if m > 0 then micros m r else 0 | _ \<Rightarrow> 0)"
  define e where "e = micros (OutputTokens u) (st_Output s)"
  have A: "n * st_Input s \<le> 1000000 * a" "1000000 * a < n * st_Input s + 1000000" "0 \<le> a" "a \<le> 1000000000001"
    using micros_bounds [OF n assms(2)] unfolding a_def by auto
  have B: "k * rc \<le> 1000000 * b" "1000000 * b < k * rc + 1000000" "0 \<le> b" "b \<le> 1000000000001"
    using micros_bounds [OF k rc] k unfolding b_def
    by (auto simp: rc_def or_else_def k_def cache_read_tokens_def split: option.splits)
  have C: "w \<le> 1000000 * c \<and> 1000000 * c < w + 1000000 \<and> 0 \<le> c \<and> c \<le> 1000000000001"
  proof (cases "CacheWriteTokens u")
    case (Some m)
    then have m: "0 \<le> m" "m \<le> 1000000000" using assms(1) by (simp_all add: usage_ok_def count_ok_def)
    show ?thesis
    proof (cases "st_CacheWrite s")
      case (Some r)
      then have "rate_ok r" using assms(5) by (simp add: opt_ok_def)
      from micros_bounds [OF m this] show ?thesis
        using m Some \<open>CacheWriteTokens u = Some m\<close> by (auto simp: c_def w_def)
    qed (simp add: c_def w_def \<open>CacheWriteTokens u = Some m\<close>)
  qed (simp add: c_def w_def)
  have E: "OutputTokens u * st_Output s \<le> 1000000 * e" "1000000 * e < OutputTokens u * st_Output s + 1000000"
    "0 \<le> e" "e \<le> 1000000000001"
    using micros_bounds [OF inp(3,4) assms(3)] unfolding e_def by auto
  have "total_micros s u = a + b + c + e"
    using A(3,4) B(3,4) C E(3,4)
    by (auto simp: total_micros_def Let_def n_def [symmetric] k_def [symmetric] a_def [symmetric]
        e_def [symmetric] b_def c_def rc_def or_else_def i64_id split: option.splits)
  note sum = this
  have "exact_cost s u = n * st_Input s + k * rc + w + OutputTokens u * st_Output s"
    by (simp add: exact_cost_def n_def k_def rc_def w_def)
  with sum show "exact_cost s u \<le> 1000000 * total_micros s u"
    "1000000 * total_micros s u < exact_cost s u + 4000000" "0 \<le> total_micros s u"
    using A B C E by linarith+
  show "total_micros s u < 2 ^ 62"
    using sum A B C E by simp
qed

text \<open>C18. The charge is right to a cent: for a hosted model whose rates are at most 1000 dollars and a use of
  at most a thousand million tokens of each kind nothing overflows; the charge covers the cost, and exceeds
  it by less than 1.0003 cents unless it is the minimum charge, which every use of some tokens pays at
  least.\<close>

theorem charge_within_a_cent:
  assumes "mget (pc_ByModel c) (trim_space model) = Some p" and "price_ok p" and "usage_ok u"
  shows "\<exists>est. Estimate (Some c) model u ctx = Inr est \<and>
     exact_cost (selectPricingTiers p u ctx) u \<le> 10000000000 * pe_BilledCents est \<and>
     (pe_BilledCents est = hp_MinimumChargeCents p \<or>
      10000000000 * pe_BilledCents est < exact_cost (selectPricingTiers p u ctx) u + 10003000000) \<and>
     (total_tokens u \<le> 0 \<or> hp_MinimumChargeCents p \<le> pe_BilledCents est)"
proof -
  let ?s = "selectPricingTiers p u ctx"
  have sel: "rate_ok (st_Input ?s)" "rate_ok (st_Output ?s)" "opt_ok (st_CachedInput ?s)" "opt_ok (st_CacheWrite ?s)"
    using selected_ok [OF assms(2)] by blast+
  note m = total_micros_bounds [OF assms(3) sel]
  define cents where "cents = ceilDiv (total_micros ?s u) 10000"
  have c: "total_micros ?s u \<le> 10000 * cents" "10000 * cents < total_micros ?s u + 10000" "0 \<le> cents"
    using ceilDiv_bounds [OF m(3,4), of 10000] unfolding cents_def by simp_all
  have "exact_cost ?s u \<le> 10000000000 * cents" "10000000000 * cents < exact_cost ?s u + 10003000000"
    using m(1,2) c by linarith+
  moreover have "0 \<le> hp_MinimumChargeCents p" using assms(2) by (simp add: price_ok_def)
  ultimately show ?thesis
    using assms(1) by (auto simp: Estimate_def Let_def cents_def [symmetric])
qed

text \<open>A use with cached tokens.\<close>

definition demo_price :: hosted_price where
  "demo_price = (base_price ''m'' ''M'' ''p'' 3000000 15000000 1)\<lparr>hp_CachedInput := Some 300000\<rparr>"

definition demo_usage :: usage where
  "demo_usage = zero_usage\<lparr>InputTokens := 12000, OutputTokens := 800, CacheReadTokens := Some 9000\<rparr>"

theorem charge_within_a_cent_witness:
  "\<exists>est. Estimate (Some \<lparr>pc_Version = [], pc_ByModel = [(''m'', demo_price)]\<rparr>) ''m'' demo_usage
      \<lparr>px_InputModality = [], px_OutputModality = []\<rparr> = Inr est \<and>
     exact_cost (selectPricingTiers demo_price demo_usage \<lparr>px_InputModality = [], px_OutputModality = []\<rparr>) demo_usage
       \<le> 10000000000 * pe_BilledCents est \<and>
     (pe_BilledCents est = hp_MinimumChargeCents demo_price \<or>
      10000000000 * pe_BilledCents est < exact_cost (selectPricingTiers demo_price demo_usage
        \<lparr>px_InputModality = [], px_OutputModality = []\<rparr>) demo_usage + 10003000000) \<and>
     (total_tokens demo_usage \<le> 0 \<or> hp_MinimumChargeCents demo_price \<le> pe_BilledCents est)"
proof (rule charge_within_a_cent)
  have "trim_space ''m'' = ''m''" by code_simp
  then show "mget (pc_ByModel \<lparr>pc_Version = [], pc_ByModel = [(''m'', demo_price)]\<rparr>) (trim_space ''m'') = Some demo_price"
    by (simp add: mget_Cons)
  show "price_ok demo_price" by code_simp
  show "usage_ok demo_usage" by (simp add: usage_ok_def count_ok_def demo_usage_def zero_usage_def)
qed

text \<open>Beyond these bounds the product of tokens and rate can wrap around: twenty thousand million tokens at 600
  dollars cost the minimum charge.\<close>

lemma charge_wraps_around:
  "micros 20000000000 600000000 = 0" "micros 10000000000 600000000 = 6000000000000"
  by code_simp+

text \<open>The sign of a rate is read from its whole part only.\<close>

lemma negative_rate: "usdToMicros ''-1.50'' = Some (- 500000)" "usdToMicros ''-0.50'' = Some 500000"
  by code_simp+

end
