(* ===== verification/StrictValues.thy ===== *)
theory StrictValues
  imports PayloadJson
begin

text \<open>
  What the strict decoders of requests (\<open>pkg/core/types/strict_decode.go\<close>) share: their errors, the
  maps of raw members, and the decoding of the settings of \<open>tool.go\<close>, \<open>request.go\<close> and
  \<open>voice.go\<close>, with or without \<open>DisallowUnknownFields\<close>. In a document a number written without
  fraction and exponent is a \<open>JInt\<close>, any other a \<open>JNum\<close>. Of a struct's member given twice the last
  one counts; that a second object is merged into the first is not modelled.
\<close>

section \<open>Errors\<close>

text \<open>
  An error of \<open>encoding/json\<close> (its text is not modelled), a \<open>StrictDecodeError\<close> with parameter and
  message, and one whose message ends in the text of a JSON error.
\<close>

datatype decode_error =
    JsonError
  | StrictDecodeError string string
  | StrictWrapError string string

type_synonym 'a decoded = "decode_error + 'a"

definition strictErr :: "string \<Rightarrow> string \<Rightarrow> 'a decoded" where
  "strictErr param msg = Inl (StrictDecodeError param msg)"

text \<open>\<open>se.Param = f(se.Param)\<close> on a \<open>StrictDecodeError\<close>.\<close>

fun map_param :: "(string \<Rightarrow> string) \<Rightarrow> decode_error \<Rightarrow> decode_error" where
  "map_param f JsonError = JsonError"
| "map_param f (StrictDecodeError p m) = StrictDecodeError (f p) m"
| "map_param f (StrictWrapError p m) = StrictWrapError (f p) m"

text \<open>\<open>if err != nil { return err }\<close>, also around a JSON error that becomes \<open>e\<close>.\<close>

definition andThen :: "'e + 'a \<Rightarrow> ('a \<Rightarrow> 'e + 'b) \<Rightarrow> 'e + 'b" where
  "andThen r f = (case r of Inl e \<Rightarrow> Inl e | Inr x \<Rightarrow> f x)"

definition orElse :: "decode_error \<Rightarrow> 'a option \<Rightarrow> 'a decoded" where
  "orElse e v = (case v of None \<Rightarrow> Inl e | Some x \<Rightarrow> Inr x)"

definition onError :: "(decode_error \<Rightarrow> decode_error) \<Rightarrow> 'a decoded \<Rightarrow> 'a decoded" where
  "onError f r = (case r of Inl e \<Rightarrow> Inl (f e) | Inr x \<Rightarrow> Inr x)"

definition guard :: "bool \<Rightarrow> decode_error \<Rightarrow> unit decoded" where
  "guard bad e = (if bad then Inl e else Inr ())"

definition checked :: "decode_error option \<Rightarrow> unit decoded" where
  "checked c = (case c of Some e \<Rightarrow> Inl e | None \<Rightarrow> Inr ())"

text \<open>A loop over a slice that stops at the first error.\<close>

fun decode_each :: "(int \<Rightarrow> 'a \<Rightarrow> 'e + 'b) \<Rightarrow> int \<Rightarrow> 'a list \<Rightarrow> 'e + 'b list" where
  "decode_each f i [] = Inr []"
| "decode_each f i (x # xs) =
     (case f i x of Inl e \<Rightarrow> Inl e
      | Inr y \<Rightarrow> (case decode_each f (i + 1) xs of Inl e \<Rightarrow> Inl e | Inr ys \<Rightarrow> Inr (y # ys)))"

lemma decode_each_cong [fundef_cong]:
  "xs = ys \<Longrightarrow> i = j \<Longrightarrow> (\<And>k x. x \<in> set ys \<Longrightarrow> f k x = g k x) \<Longrightarrow>
   decode_each f i xs = decode_each g j ys"
  by (induction xs arbitrary: ys i j) (auto split: sum.splits)

lemma andThen_cong [fundef_cong]:
  "r = r' \<Longrightarrow> (\<And>x. r' = Inr x \<Longrightarrow> f x = g x) \<Longrightarrow> andThen r f = andThen r' g"
  by (auto simp: andThen_def split: sum.split)

lemma andThen_simps [simp]: "andThen (Inl e) f = Inl e" "andThen (Inr x) f = f x"
  by (simp_all add: andThen_def)

lemma andThen_Inr: "andThen r f = Inr y \<longleftrightarrow> (\<exists>x. r = Inr x \<and> f x = Inr y)"
  by (cases r) simp_all

lemma andThen_InrE:
  assumes "andThen r f = Inr y"
  obtains x where "r = Inr x" "f x = Inr y"
  using assms by (auto simp: andThen_Inr)

lemma orElse_simps [simp]: "orElse e None = Inl e" "orElse e (Some x) = Inr x"
  by (simp_all add: orElse_def)

lemma orElse_Inr: "orElse e v = Inr x \<longleftrightarrow> v = Some x"
  by (simp add: orElse_def split: option.split)

lemma onError_Inr [simp]: "onError f r = Inr x \<longleftrightarrow> r = Inr x"
  by (simp add: onError_def split: sum.split)

lemma onError_simp [simp]: "onError f (Inr x) = Inr x"
  by simp

lemma guard_Inr: "guard bad e = Inr u \<longleftrightarrow> \<not> bad"
  by (simp add: guard_def)

lemma guard_False [simp]: "guard False e = Inr ()"
  by (simp add: guard_def)

lemma checked_Inr: "checked c = Inr u \<longleftrightarrow> c = None"
  by (simp add: checked_def split: option.split)

lemma checked_None [simp]: "checked None = Inr ()"
  by (simp add: checked_def)

lemma strictErr_ne [simp]: "strictErr p m \<noteq> Inr x"
  by (simp add: strictErr_def)

lemmas decoded_simps = andThen_Inr orElse_Inr guard_Inr checked_Inr

lemma decode_each_Cons:
  "decode_each f i (x # xs) = Inr ys \<longleftrightarrow>
     (\<exists>y zs. ys = y # zs \<and> f i x = Inr y \<and> decode_each f (i + 1) xs = Inr zs)"
  by (auto split: sum.splits)

lemma decode_each_length: "decode_each f i xs = Inr ys \<Longrightarrow> length ys = length xs"
  by (induction xs arbitrary: i ys) (auto split: sum.splits)

lemma decode_each_nth:
  "decode_each f i xs = Inr ys \<Longrightarrow> k < length xs \<Longrightarrow> f (i + int k) (xs ! k) = Inr (ys ! k)"
proof (induction xs arbitrary: i ys k)
  case (Cons x xs)
  obtain y zs where "ys = y # zs" "f i x = Inr y" "decode_each f (i + 1) xs = Inr zs"
    using Cons.prems(1) unfolding decode_each_Cons by blast
  with Cons.IH [of "i + 1" zs "k - 1"] Cons.prems(2) show ?case
    by (cases k) (simp_all add: algebra_simps)
qed simp

lemma decode_each_member:
  assumes "decode_each f i xs = Inr ys" and "y \<in> set ys"
  obtains k x where "k < length xs" "x = xs ! k" "f (i + int k) x = Inr y"
  using assms decode_each_nth [OF assms(1)] decode_each_length [OF assms(1)]
  by (metis in_set_conv_nth)

lemma decode_each_all:
  "(\<And>k x. x \<in> set xs \<Longrightarrow> f k x = Inr (g x)) \<Longrightarrow> decode_each f i xs = Inr (map g xs)"
  by (induction xs arbitrary: i) auto

lemma decode_each_map:
  "(\<And>k x. x \<in> set xs \<Longrightarrow> f k (h x) = Inr x) \<Longrightarrow> decode_each f i (map h xs) = Inr xs"
  by (induction xs arbitrary: i) auto

section \<open>Maps of raw members\<close>

text \<open>Decoding into \<open>map[string]json.RawMessage\<close>: of equal keys the last one counts, \<open>null\<close> is the nil
  map. The order of the list stands for the unspecified order in which Go iterates.\<close>

definition go_map :: "jobj \<Rightarrow> (string, json) gomap" where
  "go_map m = foldl (\<lambda>acc (k, v). mput k v acc) [] m"

fun raw_map :: "json \<Rightarrow> (string, json) gomap option" where
  "raw_map (JObj m) = Some (go_map m)"
| "raw_map JNull = Some []"
| "raw_map _ = None"

definition isNullOrEmptyJSON :: "json option \<Rightarrow> bool" where
  "isNullOrEmptyJSON raw = (raw = None \<or> raw = Some JNull)"

lemma mwf_go_map: "mwf (go_map m)"
proof -
  have "mwf acc \<Longrightarrow> mwf (foldl (\<lambda>acc (k, v). mput k v acc) acc m)" for acc
    by (induction m arbitrary: acc) auto
  then show ?thesis by (simp add: go_map_def)
qed

lemma mget_go_map: "mget (go_map m) k = map_of (rev m) k"
proof -
  have "mget (foldl (\<lambda>acc (k, v). mput k v acc) acc m) k =
      (case map_of (rev m) k of Some v \<Rightarrow> Some v | None \<Rightarrow> mget acc k)" for acc
    by (induction m arbitrary: acc) (auto simp: map_add_def split: option.splits)
  then show ?thesis by (simp add: go_map_def split: option.splits)
qed

lemma go_map_member: "(k, v) \<in> set (go_map m) \<Longrightarrow> (k, v) \<in> set m"
  using mget_eq_Some_iff [OF mwf_go_map, of m k v]
  by (simp add: mget_go_map) (metis map_of_SomeD set_rev)

lemma go_map_distinct: "distinct (map fst m) \<Longrightarrow> go_map m = m"
proof -
  have "distinct (map fst (acc @ m)) \<Longrightarrow> foldl (\<lambda>acc (k, v). mput k v acc) acc m = acc @ m" for acc
  proof (induction m arbitrary: acc)
    case (Cons p m)
    obtain k v where p: "p = (k, v)" by (cases p)
    have "mput k v acc = acc @ [(k, v)]"
      using Cons.prems p unfolding mput_def by (induction acc) auto
    then show ?case using Cons p by simp
  qed simp
  then show "distinct (map fst m) \<Longrightarrow> go_map m = m"
    by (simp add: go_map_def)
qed

section \<open>Fields of structs\<close>

text \<open>\<open>DisallowUnknownFields\<close>: every member is a field of the struct, up to case.\<close>

definition known_fields :: "bool \<Rightarrow> string list \<Rightarrow> jobj \<Rightarrow> bool" where
  "known_fields disallow names m =
     (disallow \<longrightarrow> list_all (\<lambda>(k, _). list_ex (equal_fold k) names) m)"

definition in_int64 :: "int \<Rightarrow> bool" where
  "in_int64 i = (-(2 ^ 63) \<le> i \<and> i < 2 ^ 63)"

fun as_int :: "json \<Rightarrow> int option" where
  "as_int (JInt i) = (if in_int64 i then Some i else None)"
| "as_int _ = None"

fun as_float :: "json \<Rightarrow> rat option" where
  "as_float (JInt i) = Some (of_int i)"
| "as_float (JNum r) = Some r"
| "as_float _ = None"

text \<open>A \<open>[]string\<close>: a \<open>null\<close> element leaves the empty string of its place.\<close>

definition as_strings :: "json \<Rightarrow> string list option" where
  "as_strings = jarr_of (\<lambda>v. if v = JNull then Some [] else as_string v)"

definition jint :: "string \<Rightarrow> jobj \<Rightarrow> int option" where
  "jint n m = jfield n as_int 0 m"

definition jfloat :: "string \<Rightarrow> jobj \<Rightarrow> rat option" where
  "jfloat n m = jfield n as_float 0 m"

definition jstrings :: "string \<Rightarrow> jobj \<Rightarrow> string slice option" where
  "jstrings n m = jfield_nil n as_strings None m"

text \<open>The members of a document that is decoded into a struct with the given fields.\<close>

definition members :: "bool \<Rightarrow> string list \<Rightarrow> json \<Rightarrow> jobj option" where
  "members disallow names j =
     Option.bind (as_struct j) (\<lambda>m. if known_fields disallow names m then Some m else None)"

section \<open>JSON schemas\<close>

definition schema_fields :: "string list" where
  "schema_fields = [''type'', ''properties'', ''required'', ''description'', ''enum'', ''items'',
     ''additionalProperties'']"

lemma jfield_nil_mem:
  "jfield_nil n d acc m = Some (Some a) \<Longrightarrow> acc = Some a \<or> (\<exists>k v. (k, v) \<in> set m \<and> d v = Some a)"
proof (induction m arbitrary: acc)
  case (Cons p r)
  obtain k v where p: "p = (k, v)" by (cases p)
  consider "jfield_nil n d acc r = Some (Some a)" | "jfield_nil n d None r = Some (Some a)"
    | b where "d v = Some b" "jfield_nil n d (Some b) r = Some (Some a)"
    using Cons.prems unfolding p by (auto split: if_splits option.splits)
  then show ?case
    by cases (use Cons.IH p in fastforce)+
qed simp

lemma size_member: "(k, v) \<in> set m \<Longrightarrow> size v < size (JObj m)"
proof -
  assume kv: "(k, v) \<in> set m"
  have "size v \<le> size_prod (\<lambda>x. 0) size (k, v)" by simp
  also have "\<dots> \<le> size_list (size_prod (\<lambda>x. 0) size) m"
    using kv by (simp add: size_list_estimation' [of _ m])
  also have "\<dots> < size (JObj m)" by simp
  finally show ?thesis .
qed

lemma members_JObj:
  "members disallow names j = Some m \<Longrightarrow> (k, v) \<in> set m \<Longrightarrow> j = JObj m"
  by (cases j) (auto simp: members_def split: if_splits)

lemma schema_items_smaller:
  assumes "members disallow names j = Some m" "jfield_nil n Some None m = Some (Some v)"
  shows "size v < size j"
proof -
  obtain k where "(k, v) \<in> set m" using jfield_nil_mem [OF assms(2)] by auto
  then show ?thesis using members_JObj [OF assms(1)] size_member by blast
qed

lemma schema_properties_smaller:
  assumes "members disallow names j = Some m" "jfield_nil n as_obj None m = Some ps"
    and "p \<in> set (go_map (elems ps))"
  shows "size (snd p) < size j"
proof -
  obtain k v where kv: "p = (k, v)" by (cases p)
  with assms(3) have p: "p = (k, v)" "(k, v) \<in> set (elems ps)"
    using go_map_member by auto
  then obtain kv where ps: "ps = Some kv" by (cases ps) auto
  obtain k' v' where v': "(k', v') \<in> set m" "as_obj v' = Some kv"
    using jfield_nil_mem [of n as_obj None m kv] assms(2) ps by auto
  then have "v' = JObj kv" by (cases v') auto
  then have "size v < size v'" using p ps size_member by auto
  moreover have "size v' < size j"
    using members_JObj [OF assms(1) v'(1)] size_member [OF v'(1)] by simp
  ultimately show ?thesis using p by simp
qed

function json_schema_of_json :: "bool \<Rightarrow> json \<Rightarrow> json_schema option" where
  "json_schema_of_json disallow j =
     (case members disallow schema_fields j of None \<Rightarrow> None | Some m \<Rightarrow>
      (case jfield_nil ''properties'' as_obj None m of None \<Rightarrow> None | Some ps \<Rightarrow>
       (case those (map (\<lambda>p. map_option (Pair (fst p)) (json_schema_of_json disallow (snd p)))
               (go_map (elems ps))) of None \<Rightarrow> None | Some qs \<Rightarrow>
        (case jfield_nil ''items'' Some None m of None \<Rightarrow> None | Some it \<Rightarrow>
         (case (case it of None \<Rightarrow> Some None
                | Some v \<Rightarrow> map_option Some (json_schema_of_json disallow v)) of
            None \<Rightarrow> None
          | Some items \<Rightarrow> do {
              t \<leftarrow> jstring ''type'' m;
              rq \<leftarrow> jstrings ''required'' m;
              d \<leftarrow> jstring ''description'' m;
              en \<leftarrow> jstrings ''enum'' m;
              ap \<leftarrow> jfield_nil ''additionalProperties'' as_bool None m;
              Some (JSONSchema t (map_option (\<lambda>_. qs) ps) rq d en items ap) })))))"
  by pat_completeness auto
termination
  by (relation "measure (\<lambda>(_, j). size j)")
    (auto dest: schema_items_smaller schema_properties_smaller)

declare json_schema_of_json.simps [simp del]

section \<open>Settings\<close>

definition tool_choice_of_json :: "bool \<Rightarrow> json \<Rightarrow> tool_choice option" where
  "tool_choice_of_json disallow j = do {
     m \<leftarrow> members disallow [''type'', ''name''] j;
     t \<leftarrow> jstring ''type'' m;
     n \<leftarrow> jstring ''name'' m;
     Some \<lparr>tc_Type = t, tc_Name = n\<rparr> }"

definition output_format_of_json :: "bool \<Rightarrow> json \<Rightarrow> output_format option" where
  "output_format_of_json disallow j = do {
     m \<leftarrow> members disallow [''type'', ''json_schema''] j;
     t \<leftarrow> jstring ''type'' m;
     s \<leftarrow> jfield_nil ''json_schema'' (json_schema_of_json disallow) None m;
     Some \<lparr>of_Type = t, of_JSONSchema = s\<rparr> }"

text \<open>\<open>ImageConfig\<close> has one field.\<close>

definition image_config_of_json :: "bool \<Rightarrow> json \<Rightarrow> string option" where
  "image_config_of_json disallow j = Option.bind (members disallow [''size''] j) (jstring ''size'')"

definition output_config_of_json :: "bool \<Rightarrow> json \<Rightarrow> output_config option" where
  "output_config_of_json disallow j = do {
     m \<leftarrow> members disallow [''modalities'', ''image''] j;
     ms \<leftarrow> jstrings ''modalities'' m;
     im \<leftarrow> jfield_nil ''image'' (image_config_of_json disallow) None m;
     Some \<lparr>oc_Modalities = ms, oc_Image = im\<rparr> }"

definition voice_output_of_json :: "bool \<Rightarrow> json \<Rightarrow> voice_output option" where
  "voice_output_of_json disallow j = do {
     m \<leftarrow> members disallow [''voice'', ''speed'', ''volume'', ''emotion'', ''format'', ''sample_rate''] j;
     vo \<leftarrow> jstring ''voice'' m;
     sp \<leftarrow> jfloat ''speed'' m;
     vl \<leftarrow> jfloat ''volume'' m;
     em \<leftarrow> jstring ''emotion'' m;
     fo \<leftarrow> jstring ''format'' m;
     sr \<leftarrow> jint ''sample_rate'' m;
     Some \<lparr>vo_Voice = vo, vo_Speed = sp, vo_Volume = vl, vo_Emotion = em, vo_Format = fo,
       vo_SampleRate = sr\<rparr> }"

definition voice_config_of_json :: "bool \<Rightarrow> json \<Rightarrow> voice_config option" where
  "voice_config_of_json disallow j = do {
     m \<leftarrow> members disallow [''output''] j;
     out \<leftarrow> jfield_nil ''output'' (voice_output_of_json disallow) None m;
     Some \<lparr>vc_Output = out\<rparr> }"

end
