(* ===== verification/StrictBlocks.thy ===== *)
theory StrictBlocks
  imports StrictValues ManagerState
begin

text \<open>
  The strict decoders of content blocks, messages and tools and the checks of a request
  (\<open>pkg/core/types/strict_decode.go\<close>). A block, message or tool is refused with the path of its first
  invalid field; the tolerant decoder of \<open>Content\<close> accepts more.
\<close>

section \<open>Content blocks\<close>

text \<open>The \<open>input\<close> of a tool call must be an object; the messages name the kind of block.\<close>

definition strict_input :: "string \<Rightarrow> jobj \<Rightarrow> (string \<times> string \<times> jobj option) decoded" where
  "strict_input kind m =
     andThen (orElse JsonError (jstring ''id'' m)) (\<lambda>i.
     andThen (orElse JsonError (jstring ''name'' m)) (\<lambda>n.
     if trim_space i = [] then strictErr ''id'' (kind @ ''.id is required'')
     else if trim_space n = [] then strictErr ''name'' (kind @ ''.name is required'')
     else if isNullOrEmptyJSON (jraw ''input'' None m) then
       strictErr ''input'' (kind @ ''.input is required'')
     else (case Option.bind (jraw ''input'' None m) as_map of
             None \<Rightarrow> strictErr ''input'' (kind @ ''.input must be an object'')
           | Some kv \<Rightarrow> Inr (i, n, Some kv))))"

function UnmarshalContentBlockStrict :: "json \<Rightarrow> block decoded" where
  "UnmarshalContentBlockStrict j =
     (case as_struct j of None \<Rightarrow> Inl JsonError | Some m \<Rightarrow>
      (case jstring ''type'' m of None \<Rightarrow> Inl JsonError | Some ty \<Rightarrow>
        (if ty = ''tool_result'' then
           (case (jstring ''tool_use_id'' m, jfield_nil ''content'' as_arr None m,
                  jfield ''is_error'' as_bool False m) of
              (Some i, Some c, Some e) \<Rightarrow>
                (if trim_space i = [] then
                   strictErr ''tool_use_id'' ''tool_result.tool_use_id is required''
                 else andThen (decode_each (\<lambda>_. UnmarshalContentBlockStrict) 0 (elems c)) (\<lambda>bs.
                   Inr (ToolResultBlock ty i bs e)))
            | _ \<Rightarrow> Inl JsonError)
         else if ty = ''tool_use'' then
           andThen (strict_input ''tool_use'' m) (\<lambda>(i, n, inp). Inr (ToolUseBlock ty i n inp))
         else if ty = ''server_tool_use'' then
           andThen (strict_input ''server_tool_use'' m) (\<lambda>(i, n, inp).
             Inr (ServerToolUseBlock ty i n inp))
         else if ty = ''text'' then
           orElse JsonError (map_option (TextBlock ty) (jstring ''text'' m))
         else if ty = ''image'' then orElse JsonError
           (map_option (ImageBlock ty) (jfield ''source'' media_source_of_json empty_media m))
         else if ty = ''audio'' then orElse JsonError (do {
           s \<leftarrow> jfield ''source'' av_source_of_json empty_av m;
           t \<leftarrow> jfield_nil ''transcript'' as_string None m;
           Some (AudioBlock ty s t) })
         else if ty = ''audio_stt'' then orElse JsonError (do {
           s \<leftarrow> jfield ''source'' av_source_of_json empty_av m;
           l \<leftarrow> jstring ''language'' m;
           Some (AudioSTTBlock ty s l) })
         else if ty = ''video'' then orElse JsonError
           (map_option (VideoBlock ty) (jfield ''source'' av_source_of_json empty_av m))
         else if ty = ''document'' then orElse JsonError (do {
           s \<leftarrow> jfield ''source'' media_source_of_json empty_media m;
           f \<leftarrow> jstring ''filename'' m;
           Some (DocumentBlock ty s f) })
         else if ty = ''thinking'' then orElse JsonError (do {
           t \<leftarrow> jstring ''thinking'' m;
           s \<leftarrow> jfield_nil ''summary'' as_string None m;
           Some (ThinkingBlock ty t s) })
         else if ty = ''web_search_tool_result'' then
           andThen (orElse JsonError (do {
             i \<leftarrow> jstring ''tool_use_id'' m;
             c \<leftarrow> jfield_nil ''content'' (jarr_of search_entry_of_json) None m;
             Some (i, c) })) (\<lambda>(i, c).
             if trim_space i = [] then
               strictErr ''tool_use_id'' ''web_search_tool_result.tool_use_id is required''
             else Inr (WebSearchToolResultBlock ty i c))
         else strictErr ''type'' (''unknown content block type '' @ quoted ty))))"
  by pat_completeness auto
termination
  by (relation "measure size") (auto dest: tool_result_content_smaller [OF _ sym])

declare UnmarshalContentBlockStrict.simps [simp del]

definition at_index :: "int \<Rightarrow> string" where
  "at_index i = ''['' @ itoa i @ '']''"

text \<open>A JSON error and an error without a parameter stay as they are.\<close>

fun index_param :: "int \<Rightarrow> decode_error \<Rightarrow> decode_error" where
  "index_param i JsonError = JsonError"
| "index_param i (StrictDecodeError p m) =
     StrictDecodeError (if p \<noteq> [] then at_index i @ ''.'' @ p else p) m"
| "index_param i (StrictWrapError p m) =
     StrictWrapError (if p \<noteq> [] then at_index i @ ''.'' @ p else p) m"

definition UnmarshalContentBlocksStrict :: "json \<Rightarrow> block list decoded" where
  "UnmarshalContentBlocksStrict j =
     (case j of
        JNull \<Rightarrow> Inr []
      | JArr xs \<Rightarrow>
          decode_each (\<lambda>i x. onError (index_param i) (UnmarshalContentBlockStrict x)) 0 xs
      | _ \<Rightarrow> Inl JsonError)"

section \<open>Messages\<close>

definition validateContentBlockRoleStrict :: "string \<Rightarrow> block \<Rightarrow> string \<Rightarrow> decode_error option" where
  "validateContentBlockRoleStrict role b param =
     (case b of
        ThinkingBlock _ _ _ \<Rightarrow>
          if role \<noteq> ''assistant'' then Some (StrictDecodeError param
            ''thinking blocks are only allowed in assistant messages'') else None
      | ToolUseBlock _ _ _ _ \<Rightarrow>
          if role \<noteq> ''assistant'' then Some (StrictDecodeError param
            ''tool_use blocks are only allowed in assistant messages'') else None
      | ServerToolUseBlock _ _ _ _ \<Rightarrow>
          if role \<noteq> ''assistant'' then Some (StrictDecodeError param
            ''server_tool_use blocks are only allowed in assistant messages'') else None
      | ToolResultBlock _ _ _ _ \<Rightarrow>
          if role \<noteq> ''user'' then Some (StrictDecodeError param
            ''tool_result blocks are only allowed in user messages'') else None
      | WebSearchToolResultBlock _ _ _ \<Rightarrow>
          if role \<noteq> ''user'' then Some (StrictDecodeError param
            ''web_search_tool_result blocks are only allowed in user messages'') else None
      | _ \<Rightarrow> None)"

text \<open>\<open>json.Unmarshal\<close> of a raw member into a string; a missing member is no document.\<close>

definition unmarshal_string :: "json option \<Rightarrow> string option" where
  "unmarshal_string raw =
     (case raw of Some JNull \<Rightarrow> Some [] | Some (JStr s) \<Rightarrow> Some s | _ \<Rightarrow> None)"

definition unmarshal_raw_list :: "json option \<Rightarrow> json list option" where
  "unmarshal_raw_list raw =
     (case raw of Some JNull \<Rightarrow> Some [] | Some (JArr xs) \<Rightarrow> Some xs | _ \<Rightarrow> None)"

definition message_block :: "string \<Rightarrow> string \<Rightarrow> int \<Rightarrow> json \<Rightarrow> block decoded" where
  "message_block role path i x =
     andThen (onError (map_param (\<lambda>p. path @ ''.content'' @ at_index i @ ''.'' @ p))
       (UnmarshalContentBlockStrict x)) (\<lambda>b.
     andThen (checked (validateContentBlockRoleStrict role b
       (path @ ''.content'' @ at_index i @ ''.type''))) (\<lambda>_. Inr b))"

definition unmarshalMessageStrict :: "json \<Rightarrow> string \<Rightarrow> message decoded" where
  "unmarshalMessageStrict j path =
     andThen (orElse JsonError (as_struct j)) (\<lambda>m.
     andThen (orElse JsonError (jstring ''role'' m)) (\<lambda>raw_role.
     let role = trim_space raw_role; content = jraw ''content'' None m in
     if role = [] then strictErr (path @ ''.role'') ''role is required''
     else if role \<noteq> ''user'' \<and> role \<noteq> ''assistant'' then
       strictErr (path @ ''.role'') ''role must be one of: user, assistant''
     else (case unmarshal_string content of
       Some s \<Rightarrow> Inr \<lparr>msg_Role = role, msg_Content = CStr s\<rparr>
     | None \<Rightarrow>
         andThen (orElse (StrictDecodeError (path @ ''.content'')
             ''content must be a string or an array of content blocks'')
           (unmarshal_raw_list content)) (\<lambda>items.
         andThen (decode_each (message_block role path) 0 items) (\<lambda>bs.
           Inr \<lparr>msg_Role = role, msg_Content = CBlocks (Some bs)\<rparr>)))))"

section \<open>Tools\<close>

lemmas tool_types = ToolTypeWebSearch_def ToolTypeWebFetch_def ToolTypeCodeExecution_def
  ToolTypeFileSearch_def ToolTypeComputerUse_def ToolTypeTextEditor_def ToolTypeFunction_def

text \<open>
  The typed configurations. \<open>Config\<close> is an \<open>any\<close> that holds a pointer to one of these structs; the model
  holds the JSON it stands for, so each decoder yields the document the struct is written as.
\<close>

definition user_location_config :: "json \<Rightarrow> json option" where
  "user_location_config j = do {
     m \<leftarrow> as_struct j;
     c \<leftarrow> jstring ''city'' m;
     r \<leftarrow> jstring ''region'' m;
     co \<leftarrow> jstring ''country'' m;
     tz \<leftarrow> jstring ''timezone'' m;
     Some (JObj (omit_str ''city'' c @ omit_str ''region'' r @ omit_str ''country'' co
       @ omit_str ''timezone'' tz)) }"

definition web_search_config :: "json \<Rightarrow> json option" where
  "web_search_config j = do {
     m \<leftarrow> as_struct j;
     u \<leftarrow> jint ''max_uses'' m;
     a \<leftarrow> jstrings ''allowed_domains'' m;
     b \<leftarrow> jstrings ''blocked_domains'' m;
     l \<leftarrow> jfield_nil ''user_location'' user_location_config None m;
     Some (JObj (omit_int ''max_uses'' u @ omit_list ''allowed_domains'' JStr (elems a)
       @ omit_list ''blocked_domains'' JStr (elems b) @ omit_opt ''user_location'' l)) }"

definition web_fetch_config :: "json \<Rightarrow> json option" where
  "web_fetch_config j = do {
     m \<leftarrow> as_struct j;
     u \<leftarrow> jint ''max_uses'' m;
     a \<leftarrow> jstrings ''allowed_domains'' m;
     b \<leftarrow> jstrings ''blocked_domains'' m;
     Some (JObj (omit_int ''max_uses'' u @ omit_list ''allowed_domains'' JStr (elems a)
       @ omit_list ''blocked_domains'' JStr (elems b))) }"

definition code_execution_config :: "json \<Rightarrow> json option" where
  "code_execution_config j = do {
     m \<leftarrow> as_struct j;
     l \<leftarrow> jstrings ''languages'' m;
     t \<leftarrow> jint ''timeout_seconds'' m;
     Some (JObj (omit_list ''languages'' JStr (elems l) @ omit_int ''timeout_seconds'' t)) }"

definition computer_use_config :: "json \<Rightarrow> json option" where
  "computer_use_config j = do {
     m \<leftarrow> as_struct j;
     w \<leftarrow> jint ''display_width'' m;
     h \<leftarrow> jint ''display_height'' m;
     Some (JObj [(''display_width'', JInt w), (''display_height'', JInt h)]) }"

definition file_search_config :: "json \<Rightarrow> json option" where
  "file_search_config j = do {
     m \<leftarrow> as_struct j;
     n \<leftarrow> jint ''max_results'' m;
     Some (JObj (omit_int ''max_results'' n)) }"

definition text_editor_config :: "json \<Rightarrow> json option" where
  "text_editor_config j = map_option (\<lambda>_. JObj []) (as_struct j)"

definition native_config :: "string \<Rightarrow> (json \<Rightarrow> json option) option" where
  "native_config ty =
     (if ty = ToolTypeWebSearch then Some web_search_config
      else if ty = ToolTypeWebFetch then Some web_fetch_config
      else if ty = ToolTypeCodeExecution then Some code_execution_config
      else if ty = ToolTypeComputerUse then Some computer_use_config
      else if ty = ToolTypeFileSearch then Some file_search_config
      else if ty = ToolTypeTextEditor then Some text_editor_config
      else None)"

definition raw_tool :: "json \<Rightarrow> (tool \<times> json option) option" where
  "raw_tool j = do {
     m \<leftarrow> as_struct j;
     ty \<leftarrow> jstring ''type'' m;
     n \<leftarrow> jstring ''name'' m;
     d \<leftarrow> jstring ''description'' m;
     s \<leftarrow> jfield_nil ''input_schema'' (json_schema_of_json False) None m;
     Some (\<lparr>tool_Type = ty, tool_Name = n, tool_Description = d, tool_InputSchema = s,
       tool_Config = None\<rparr>, jraw ''config'' None m) }"

definition finish_tool :: "string \<Rightarrow> tool \<Rightarrow> json option \<Rightarrow> tool decoded" where
  "finish_tool path t config =
     (case native_config (tool_Type t) of
       Some decode \<Rightarrow>
         if isNullOrEmptyJSON config then Inr t
         else andThen (orElse (StrictWrapError (path @ ''.config'')
             (''invalid '' @ tool_Type t @ '' config: '')) (Option.bind config decode)) (\<lambda>c.
           Inr (t\<lparr>tool_Config := Some c\<rparr>))
     | None \<Rightarrow>
         if tool_Type t = ToolTypeFunction then
           (if \<not> isNullOrEmptyJSON config then
              strictErr (path @ ''.config'') ''function tool config must be null or omitted''
            else if trim_space (tool_Name t) = [] then
              strictErr (path @ ''.name'') ''function tool name is required''
            else if trim_space (tool_Description t) = [] then
              strictErr (path @ ''.description'') ''function tool description is required''
            else if tool_InputSchema t = None then
              strictErr (path @ ''.input_schema'') ''function tool input_schema is required''
            else Inr t)
         else strictErr (path @ ''.type'') (''unknown tool type '' @ quoted (tool_Type t)))"

definition unmarshalToolStrict :: "json \<Rightarrow> string \<Rightarrow> tool decoded" where
  "unmarshalToolStrict j path =
     andThen (orElse JsonError (raw_tool j)) (\<lambda>(t, config).
     if trim_space (tool_Type t) = [] then strictErr (path @ ''.type'') ''tool.type is required''
     else finish_tool path t config)"

end
