(* ===== verification/StrictRequest.thy ===== *)
theory StrictRequest
  imports StrictBlocks Controller
begin

text \<open>
  The strict decoders of a message request (\<open>UnmarshalMessageRequestStrict\<close> in
  \<open>pkg/core/types/strict_decode.go\<close>) and of a run request (\<open>strict_decode_runs.go\<close>), with the checks of
  histories, schemas and model names they end in.
\<close>

section \<open>Checks\<close>

text \<open>The loop over the blocks of the messages with the set of tool calls seen so far, as a list.\<close>

definition history_param :: "int \<Rightarrow> int \<Rightarrow> string" where
  "history_param mi bi = ''messages'' @ at_index mi @ ''.content'' @ at_index bi @ ''.tool_use_id''"

fun check_block :: "int \<Rightarrow> int \<Rightarrow> string list \<Rightarrow> block \<Rightarrow> string list decoded" where
  "check_block mi bi seen (ToolUseBlock _ i _ _) = Inr (i # seen)"
| "check_block mi bi seen (ServerToolUseBlock _ i _ _) = Inr (i # seen)"
| "check_block mi bi seen (ToolResultBlock _ i _ _) =
     (if trim_space i = [] then
        strictErr (history_param mi bi) ''tool_result.tool_use_id is required''
      else if i \<notin> set seen then
        strictErr (history_param mi bi) ''tool_result.tool_use_id does not match any prior tool_use.id''
      else Inr seen)"
| "check_block mi bi seen _ = Inr seen"

fun check_blocks :: "int \<Rightarrow> int \<Rightarrow> string list \<Rightarrow> block list \<Rightarrow> string list decoded" where
  "check_blocks mi bi seen [] = Inr seen"
| "check_blocks mi bi seen (b # bs) =
     andThen (check_block mi bi seen b) (\<lambda>s. check_blocks mi (bi + 1) s bs)"

fun check_messages :: "int \<Rightarrow> string list \<Rightarrow> message list \<Rightarrow> string list decoded" where
  "check_messages mi seen [] = Inr seen"
| "check_messages mi seen (m # ms) =
     andThen (check_blocks mi 0 seen (elems (ContentBlocks m))) (\<lambda>s. check_messages (mi + 1) s ms)"

definition validateToolHistoryStrict :: "message list \<Rightarrow> decode_error option" where
  "validateToolHistoryStrict ms = (case check_messages 0 [] ms of Inl e \<Rightarrow> Some e | Inr _ \<Rightarrow> None)"

definition allowedJSONSchemaTypes :: "string list" where
  "allowedJSONSchemaTypes =
     [''object'', ''array'', ''string'', ''number'', ''integer'', ''boolean'', ''null'']"

fun earliest :: "'e option list \<Rightarrow> 'e option" where
  "earliest [] = None"
| "earliest (None # es) = earliest es"
| "earliest (Some e # _) = Some e"

definition check_required ::
  "string \<Rightarrow> (string \<times> json_schema) list \<Rightarrow> int \<Rightarrow> string \<Rightarrow> decode_error option" where
  "check_required path props idx name =
     (let trimmed = trim_space name; param = path @ ''.required'' @ at_index idx in
      if trimmed = [] then Some (StrictDecodeError param ''required property name must be non-empty'')
      else if mget props trimmed = None then
        Some (StrictDecodeError param (param @ '' references '' @ quoted trimmed @
          '' which is not defined in '' @ path @ ''.properties''))
      else None)"

definition check_required_all ::
  "string \<Rightarrow> (string \<times> json_schema) list \<Rightarrow> string list \<Rightarrow> decode_error option" where
  "check_required_all path props names =
     earliest (map (\<lambda>(i, n). check_required path props (int i) n) (enumerate 0 names))"

lemma schema_property_smaller:
  "p \<in> set (elems ps) \<Longrightarrow> size (snd p) < size (JSONSchema t ps rq d en it ap)"
proof -
  assume p: "p \<in> set (elems ps)"
  then obtain kv where ps: "ps = Some kv" by (cases ps) auto
  have "size (snd p) \<le> size_prod (\<lambda>x. 0) size p" by (cases p) simp
  also have "\<dots> \<le> size_list (size_prod (\<lambda>x. 0) size) kv"
    using p ps by (simp add: size_list_estimation' [of _ kv])
  finally show ?thesis by (simp add: ps)
qed

function validate_schema :: "json_schema \<Rightarrow> string \<Rightarrow> decode_error option" where
  "validate_schema (JSONSchema t ps rq d en it ap) path =
     (let ty = trim_space t in
      if ty = [] then Some (StrictDecodeError (path @ ''.type'') (path @ ''.type is required''))
      else if ty \<notin> set allowedJSONSchemaTypes then
        Some (StrictDecodeError (path @ ''.type'') (path @
          ''.type must be one of: object, array, string, number, integer, boolean, null''))
      else if ty = ''array'' then
        (case it of
           None \<Rightarrow> Some (StrictDecodeError (path @ ''.items'')
             (path @ ''.items is required when '' @ path @ ''.type is '' @ quoted ''array''))
         | Some s \<Rightarrow> validate_schema s (path @ ''.items''))
      else if ty = ''object'' then
        (case earliest (map (\<lambda>p. validate_schema (snd p) (path @ ''.properties.'' @ fst p))
                 (elems ps)) of
           Some e \<Rightarrow> Some e
         | None \<Rightarrow> check_required_all path (elems ps) (elems rq))
      else None)"
  by pat_completeness auto
termination
  by (relation "measure (\<lambda>(s, _). size s)") (use schema_property_smaller in fastforce)+

definition validateJSONSchemaStrict :: "json_schema option \<Rightarrow> string \<Rightarrow> decode_error option" where
  "validateJSONSchemaStrict schema path =
     (case schema of
        None \<Rightarrow> Some (StrictDecodeError path (path @ '' is required''))
      | Some s \<Rightarrow> validate_schema s path)"

definition validateOutputFormatStrict :: "output_format option \<Rightarrow> decode_error option" where
  "validateOutputFormatStrict outputFormat =
     (case outputFormat of None \<Rightarrow> None | Some f \<Rightarrow>
       (let formatType = trim_space (of_Type f) in
        if formatType = [] then
          Some (StrictDecodeError ''output_format.type'' ''output_format.type is required'')
        else if formatType \<noteq> ''json_schema'' then
          Some (StrictDecodeError ''output_format.type''
            (''output_format.type must be '' @ quoted ''json_schema''))
        else if of_JSONSchema f = None then
          Some (StrictDecodeError ''output_format.json_schema''
            (''output_format.json_schema is required when output_format.type is '' @
             quoted ''json_schema''))
        else validateJSONSchemaStrict (of_JSONSchema f) ''output_format.json_schema''))"

definition validateProviderModelIDStrict :: "string \<Rightarrow> string \<Rightarrow> decode_error option" where
  "validateProviderModelIDStrict raw param =
     (let bad = Some (StrictDecodeError param (param @ '' must be in provider/model format'')) in
      if trim_space raw = [] then None
      else (case cut CHR ''/'' (trim_space raw) of
              None \<Rightarrow> bad
            | Some (provider, model) \<Rightarrow>
                if trim_space provider = [] \<or> trim_space model = [] then bad else None))"

section \<open>Parts of a request\<close>

definition decode_voice :: "json \<Rightarrow> string \<Rightarrow> (string \<Rightarrow> string) \<Rightarrow> voice_config decoded" where
  "decode_voice v path sub =
     andThen (orElse (StrictDecodeError path ''voice must be an object'') (raw_map v)) (\<lambda>fields.
     if mhas fields ''input'' then
       strictErr (sub ''voice.input'')
         ''voice.input has been removed; use audio_stt blocks and top-level stt_model''
     else orElse (StrictWrapError path ''invalid voice config: '') (voice_config_of_json True v))"

fun system_error :: "string \<Rightarrow> decode_error \<Rightarrow> decode_error" where
  "system_error path JsonError =
     StrictDecodeError path ''system must be a string or an array of content blocks''"
| "system_error path e =
     map_param (\<lambda>p. path @ (if has_prefix p ''['' then p else ''.'' @ p)) e"

definition unmarshalSystemStrict :: "json \<Rightarrow> content decoded" where
  "unmarshalSystemStrict v =
     (case unmarshal_string (Some v) of
        Some s \<Rightarrow> Inr (CStr s)
      | None \<Rightarrow> andThen (UnmarshalContentBlocksStrict v) (\<lambda>bs. Inr (CBlocks (Some bs))))"

definition decode_optional :: "(json \<Rightarrow> 'a decoded) \<Rightarrow> json option \<Rightarrow> 'a option decoded" where
  "decode_optional f raw =
     (case raw of
        None \<Rightarrow> Inr None
      | Some v \<Rightarrow> if v = JNull then Inr None else andThen (f v) (\<lambda>x. Inr (Some x)))"

definition system_of :: "content option \<Rightarrow> content" where
  "system_of c = (case c of None \<Rightarrow> CNil | Some c \<Rightarrow> c)"

section \<open>Message requests\<close>

text \<open>The raw struct: the request without the parts that are decoded one by one, and those parts.\<close>

record raw_request =
  raw_Messages :: "json list"
  raw_System :: "json option"
  raw_Tools :: "json list"
  raw_Voice :: "json option"

definition raw_message_request :: "json \<Rightarrow> (message_request \<times> raw_request) option" where
  "raw_message_request j = do {
     m \<leftarrow> as_struct j;
     model \<leftarrow> jstring ''model'' m;
     messages \<leftarrow> jfield_nil ''messages'' as_arr None m;
     max_tokens \<leftarrow> jint ''max_tokens'' m;
     temperature \<leftarrow> jfield_nil ''temperature'' as_float None m;
     top_p \<leftarrow> jfield_nil ''top_p'' as_float None m;
     top_k \<leftarrow> jfield_nil ''top_k'' as_int None m;
     stop \<leftarrow> jstrings ''stop_sequences'' m;
     tools \<leftarrow> jfield_nil ''tools'' as_arr None m;
     choice \<leftarrow> jfield_nil ''tool_choice'' (tool_choice_of_json False) None m;
     stream \<leftarrow> jfield ''stream'' as_bool False m;
     stt \<leftarrow> jstring ''stt_model'' m;
     tts \<leftarrow> jstring ''tts_model'' m;
     format \<leftarrow> jfield_nil ''output_format'' (output_format_of_json False) None m;
     out \<leftarrow> jfield_nil ''output'' (output_config_of_json False) None m;
     ext \<leftarrow> jfield_nil ''extensions'' as_map None m;
     meta \<leftarrow> jfield_nil ''metadata'' as_map None m;
     Some (\<lparr>mr_Model = model, mr_Messages = [], mr_MaxTokens = max_tokens, mr_System = CNil,
         mr_Temperature = temperature, mr_TopP = top_p, mr_TopK = top_k, mr_StopSequences = stop,
         mr_Tools = [], mr_ToolChoice = choice, mr_Stream = stream, mr_STTModel = stt,
         mr_TTSModel = tts, mr_OutputFormat = format, mr_Output = out, mr_Voice = None,
         mr_Extensions = ext, mr_Metadata = meta\<rparr>,
       \<lparr>raw_Messages = elems messages, raw_System = jraw ''system'' None m,
         raw_Tools = elems tools, raw_Voice = jraw ''voice'' None m\<rparr>) }"

definition decode_parts :: "message_request \<Rightarrow> raw_request \<Rightarrow> message_request decoded" where
  "decode_parts r raw =
     andThen (checked (validateProviderModelIDStrict (mr_STTModel r) ''stt_model'')) (\<lambda>_.
     andThen (checked (validateProviderModelIDStrict (mr_TTSModel r) ''tts_model'')) (\<lambda>_.
     andThen (decode_optional (\<lambda>v. decode_voice v ''voice'' (\<lambda>p. p)) (raw_Voice raw)) (\<lambda>voice.
     andThen (decode_optional (\<lambda>v. onError (system_error ''system'') (unmarshalSystemStrict v))
       (raw_System raw)) (\<lambda>system.
     andThen (decode_each (\<lambda>i x. unmarshalMessageStrict x (''messages'' @ at_index i)) 0
       (raw_Messages raw)) (\<lambda>messages.
     andThen (decode_each (\<lambda>i x. unmarshalToolStrict x (''tools'' @ at_index i)) 0
       (raw_Tools raw)) (\<lambda>tools.
     andThen (checked (validateOutputFormatStrict (mr_OutputFormat r))) (\<lambda>_.
     andThen (checked (validateToolHistoryStrict messages)) (\<lambda>_.
       Inr (r\<lparr>mr_Voice := voice, mr_System := system_of system, mr_Messages := messages,
         mr_Tools := tools\<rparr>)))))))))"

definition UnmarshalMessageRequestStrict :: "json \<Rightarrow> message_request decoded" where
  "UnmarshalMessageRequestStrict j =
     andThen (orElse JsonError (raw_message_request j)) (\<lambda>(r, raw).
     if trim_space (mr_Model r) = [] then strictErr ''model'' ''model is required''
     else if raw_Messages raw = [] then strictErr ''messages'' ''messages is required''
     else decode_parts r raw)"

section \<open>Run requests\<close>

text \<open>The first key of a map that is not allowed.\<close>

definition rejectUnknownKeys ::
  "(string, json) gomap \<Rightarrow> string list \<Rightarrow> (string \<Rightarrow> string) \<Rightarrow> decode_error option" where
  "rejectUnknownKeys obj allowed path =
     map_option (\<lambda>k. StrictDecodeError (path k) (''unknown field '' @ quoted k))
       (find (\<lambda>k. k \<notin> set allowed) (map fst obj))"

fun tool_names :: "string \<Rightarrow> int \<Rightarrow> string list \<Rightarrow> string list \<Rightarrow> string list decoded" where
  "tool_names field i seen [] = Inr []"
| "tool_names field i seen (n # ns) =
     (let name = trim_space n in
      if name = [] then strictErr (field @ at_index i) ''tool name must be non-empty''
      else if name \<in> set seen then strictErr (field @ at_index i) ''duplicate tool name''
      else andThen (tool_names field (i + 1) (name # seen) ns) (\<lambda>out. Inr (name # out)))"

definition parseRunToolNames :: "json \<Rightarrow> string \<Rightarrow> string list decoded" where
  "parseRunToolNames raw field =
     andThen (orElse (StrictDecodeError field (field @ '' must be an array of strings''))
       (as_strings raw)) (tool_names field 0 [])"

definition equivalentToolSets :: "string list \<Rightarrow> string list \<Rightarrow> bool" where
  "equivalentToolSets left right =
     (length left = length right \<and> list_all (\<lambda>n. n \<in> set left) right)"

text \<open>\<open>builtins\<close> is the older name of \<open>server_tools\<close>: given alone it stands for it, given twice the two
  must agree.\<close>

definition merge_tools :: "string slice \<Rightarrow> string slice \<Rightarrow> string slice decoded" where
  "merge_tools tools builtins =
     (if elems tools \<noteq> [] \<and> elems builtins \<noteq> [] \<and> \<not> equivalentToolSets (elems tools) (elems builtins)
      then strictErr ''server_tools'' ''server_tools and builtins must match when both are provided''
      else Inr (if elems tools = [] \<and> elems builtins \<noteq> [] then builtins else tools))"

definition default_run_config :: run_config where
  "default_run_config = \<lparr>rc_MaxTurns = 8, rc_MaxToolCalls = 20, rc_MaxTokens = 0,
     rc_TimeoutMS = 60000, rc_ParallelTools = True, rc_ToolTimeoutMS = 30000\<rparr>"

definition given :: "'a option \<Rightarrow> 'a \<Rightarrow> 'a" where
  "given v d = (case v of None \<Rightarrow> d | Some x \<Rightarrow> x)"

definition decode_run_config :: "json \<Rightarrow> run_config option" where
  "decode_run_config j = do {
     m \<leftarrow> members True [''max_turns'', ''max_tool_calls'', ''max_tokens'', ''timeout_ms'',
            ''parallel_tools'', ''tool_timeout_ms''] j;
     turns \<leftarrow> jfield_nil ''max_turns'' as_int None m;
     calls \<leftarrow> jfield_nil ''max_tool_calls'' as_int None m;
     tokens \<leftarrow> jfield_nil ''max_tokens'' as_int None m;
     ms \<leftarrow> jfield_nil ''timeout_ms'' as_int None m;
     par \<leftarrow> jfield_nil ''parallel_tools'' as_bool None m;
     tool_ms \<leftarrow> jfield_nil ''tool_timeout_ms'' as_int None m;
     Some \<lparr>rc_MaxTurns = given turns (rc_MaxTurns default_run_config),
       rc_MaxToolCalls = given calls (rc_MaxToolCalls default_run_config),
       rc_MaxTokens = given tokens (rc_MaxTokens default_run_config),
       rc_TimeoutMS = given ms (rc_TimeoutMS default_run_config),
       rc_ParallelTools = given par (rc_ParallelTools default_run_config),
       rc_ToolTimeoutMS = given tool_ms (rc_ToolTimeoutMS default_run_config)\<rparr> }"

definition check_range :: "string \<Rightarrow> int \<Rightarrow> int \<Rightarrow> int \<Rightarrow> decode_error option" where
  "check_range name lo hi v =
     (if v < lo \<or> v > hi then
        Some (StrictDecodeError name (name @ '' must be between '' @ itoa lo @ '' and '' @ itoa hi))
      else None)"

definition validate_run_config :: "run_config \<Rightarrow> decode_error option" where
  "validate_run_config c = earliest
     [check_range ''run.max_turns'' 1 64 (rc_MaxTurns c),
      check_range ''run.max_tool_calls'' 1 256 (rc_MaxToolCalls c),
      check_range ''run.timeout_ms'' 1000 300000 (rc_TimeoutMS c),
      check_range ''run.tool_timeout_ms'' 1000 60000 (rc_ToolTimeoutMS c)]"

text \<open>One entry of \<open>server_tool_config\<close>, added to the map under its trimmed name.\<close>

definition config_entry :: "string \<Rightarrow> json \<Rightarrow> jobj \<Rightarrow> jobj decoded" where
  "config_entry name v acc =
     (let toolName = trim_space name;
          bad = Inl (StrictDecodeError (''server_tool_config.'' @ toolName)
                  ''server_tool_config entries must be objects'') in
      if toolName = [] then
        strictErr ''server_tool_config'' ''server_tool_config keys must be non-empty''
      else if v = JNull then bad
      else (case as_map v of None \<Rightarrow> bad | Some kv \<Rightarrow> Inr (mput toolName (JObj kv) acc)))"

fun config_entries :: "(string, json) gomap \<Rightarrow> jobj \<Rightarrow> jobj decoded" where
  "config_entries [] acc = Inr acc"
| "config_entries ((k, v) # r) acc = andThen (config_entry k v acc) (config_entries r)"

definition decode_server_tool_config :: "json \<Rightarrow> jobj decoded" where
  "decode_server_tool_config v =
     andThen (orElse (StrictDecodeError ''server_tool_config'' ''server_tool_config must be an object'')
       (raw_map v)) (\<lambda>m. config_entries m [])"

fun request_error :: "decode_error \<Rightarrow> decode_error" where
  "request_error e =
     map_param (\<lambda>p. if trim_space p = [] then ''request'' else ''request.'' @ p) e"

definition UnmarshalRunRequestStrict :: "json \<Rightarrow> run_request decoded" where
  "UnmarshalRunRequestStrict j =
     andThen (orElse JsonError (raw_map j)) (\<lambda>obj.
     andThen (checked (rejectUnknownKeys obj
       [''request'', ''run'', ''builtins'', ''server_tools'', ''server_tool_config''] (\<lambda>k. k))) (\<lambda>_.
     if isNullOrEmptyJSON (mget obj ''request'') then strictErr ''request'' ''request is required''
     else
       andThen (onError request_error (UnmarshalMessageRequestStrict (the (mget obj ''request'')))) (\<lambda>req.
       if mr_Stream req then strictErr ''request.stream'' ''request.stream must be false or omitted''
       else
         andThen (decode_optional (\<lambda>v. orElse (StrictWrapError ''run'' ''invalid run config: '')
           (decode_run_config v)) (mget obj ''run'')) (\<lambda>run.
         let cfg = given run default_run_config in
         andThen (checked (validate_run_config cfg)) (\<lambda>_.
         andThen (decode_optional (\<lambda>v. parseRunToolNames v ''server_tools'')
           (mget obj ''server_tools'')) (\<lambda>tools.
         andThen (decode_optional (\<lambda>v. parseRunToolNames v ''builtins'')
           (mget obj ''builtins'')) (\<lambda>builtins.
         andThen (merge_tools tools builtins) (\<lambda>server.
         andThen (decode_optional decode_server_tool_config (mget obj ''server_tool_config'')) (\<lambda>conf.
           Inr \<lparr>rq_Request = req, rq_Run = cfg, rq_ServerTools = server, rq_ServerToolConfig = conf,
             rq_Builtins = builtins\<rparr>)))))))))"

end
