(* ===== verification/StrictTrips.thy ===== *)
theory StrictTrips
  imports StrictValues
begin

text \<open>
  Round trips of the settings: a decoder of \<open>StrictValues\<close> reads what \<open>PayloadJson\<close> writes, unknown
  fields allowed or not, for values that \<open>omitempty\<close> does not change and integers of 64 bits.
\<close>

section \<open>Fields\<close>

definition normal_slice :: "'a slice \<Rightarrow> bool" where
  "normal_slice s = (s \<noteq> Some [])"

lemma nil_if_empty_elems [simp]: "normal_slice s \<Longrightarrow> nil_if_empty (elems s) = s"
  by (cases s) (auto simp: normal_slice_def nil_if_empty_def)

lemma those_strings: "those (map ((\<lambda>v. if v = JNull then Some [] else as_string v) \<circ> JStr) xs) = Some xs"
  by (induction xs) simp_all

lemma as_strings_JArr [simp]: "as_strings (JArr (map JStr xs)) = Some xs"
  by (simp add: as_strings_def jarr_of_def those_strings)

lemma jstrings_omit_list [simp]:
  "jfield_nil n as_strings None (omit_list n JStr xs) = Some (nil_if_empty xs)"
  by (simp add: omit_list_def nil_if_empty_def fold_eval)

lemma jfield_nil_list:
  assumes "\<And>x. x \<in> set xs \<Longrightarrow> f (g x) = Some x"
  shows "jfield_nil n (jarr_of f) None (omit_list n g xs) = Some (nil_if_empty xs)"
  using jarr_of_roundtrip [of xs f g, OF assms]
  by (simp add: omit_list_def nil_if_empty_def fold_eval)

lemma jint_omit_int [simp]: "in_int64 i \<Longrightarrow> jfield n as_int 0 (omit_int n i) = Some i"
  by (simp add: omit_int_def fold_eval)

lemma jfloat_omit_num [simp]: "jfield n as_float 0 (omit_num n r) = Some r"
  by (simp add: omit_num_def fold_eval)

lemma jfield_nil_omit_opt:
  "(\<And>x. v = Some x \<Longrightarrow> f x \<noteq> JNull \<and> d (f x) = Some x) \<Longrightarrow>
   jfield_nil n d None (omit_opt n (map_option f v)) = Some v"
  by (cases v) (simp_all add: omit_opt_def fold_eval)

lemma jfield_skip [simp]:
  "\<not> equal_fold k n \<Longrightarrow> jfield n d acc (omit_list k f xs) = Some acc"
  "\<not> equal_fold k n \<Longrightarrow> jfield n d acc (omit_int k i) = Some acc"
  "\<not> equal_fold k n \<Longrightarrow> jfield n d acc (omit_num k r) = Some acc"
  "\<not> equal_fold k n \<Longrightarrow> jfield n d acc (omit_map k mp) = Some acc"
  by (simp_all add: omit_list_def omit_int_def omit_num_def omit_map_def split: option.split)

lemma jfield_nil_skip [simp]:
  "\<not> equal_fold k n \<Longrightarrow> jfield_nil n d a (omit_list k f xs) = Some a"
  "\<not> equal_fold k n \<Longrightarrow> jfield_nil n d a (omit_int k i) = Some a"
  "\<not> equal_fold k n \<Longrightarrow> jfield_nil n d a (omit_num k r) = Some a"
  "\<not> equal_fold k n \<Longrightarrow> jfield_nil n d a (omit_map k mp) = Some a"
  by (simp_all add: omit_list_def omit_int_def omit_num_def omit_map_def split: option.split)

text \<open>The keys a writer uses are known fields.\<close>

lemma known_append [simp]:
  "known_fields dis names (xs @ ys) \<longleftrightarrow> known_fields dis names xs \<and> known_fields dis names ys"
  by (auto simp: known_fields_def)

lemma known_pieces [simp]:
  "known_fields dis names []"
  "known_fields dis names ((k, v) # r) \<longleftrightarrow>
     (dis \<longrightarrow> list_ex (equal_fold k) names) \<and> known_fields dis names r"
  by (auto simp: known_fields_def)

lemma known_omit [simp]:
  "list_ex (equal_fold k) names \<Longrightarrow> known_fields dis names (omit_str k s)"
  "list_ex (equal_fold k) names \<Longrightarrow> known_fields dis names (omit_opt k v)"
  "list_ex (equal_fold k) names \<Longrightarrow> known_fields dis names (omit_list k f xs)"
  "list_ex (equal_fold k) names \<Longrightarrow> known_fields dis names (omit_int k i)"
  "list_ex (equal_fold k) names \<Longrightarrow> known_fields dis names (omit_num k r)"
  "list_ex (equal_fold k) names \<Longrightarrow> known_fields dis names (omit_map k mp)"
  by (simp_all add: omit_str_def omit_opt_def omit_list_def omit_int_def omit_num_def omit_map_def
      split: option.split)

lemmas field_eval = members_def jstring_def jint_def jfloat_def jstrings_def jfield_append
  jfield_nil_append fold_eval

section \<open>Schemas\<close>

fun normal_schema :: "json_schema \<Rightarrow> bool" where
  "normal_schema (JSONSchema t ps rq d en it ap) =
     ((case ps of None \<Rightarrow> True
       | Some kv \<Rightarrow> kv \<noteq> [] \<and> distinct (map fst kv) \<and> list_all (\<lambda>p. normal_schema (snd p)) kv) \<and>
      normal_slice rq \<and> normal_slice en \<and>
      (case it of None \<Rightarrow> True | Some s \<Rightarrow> normal_schema s))"

lemma json_of_schema_JObj: "\<exists>m. json_of_schema s = JObj m"
  by (cases s) simp

lemma json_of_schema_ne [simp]: "json_of_schema s \<noteq> JNull"
  by (cases s) simp

lemma those_pairs:
  "(\<And>k s. (k, s) \<in> set kv \<Longrightarrow> f (g s) = Some s) \<Longrightarrow>
   those (map (\<lambda>p. map_option (Pair (fst p)) (f (snd p))) (map (\<lambda>(k, s). (k, g s)) kv)) = Some kv"
proof (induction kv)
  case (Cons p kv)
  obtain k s where p: "p = (k, s)" by (cases p)
  have "f (g s) = Some s"
    using Cons.prems [of k s] p by simp
  moreover have "those (map (\<lambda>p. map_option (Pair (fst p)) (f (snd p))) (map (\<lambda>(k, s). (k, g s)) kv))
      = Some kv"
    using Cons.prems by (intro Cons.IH) auto
  ultimately show ?case by (simp add: p)
qed simp

lemma map_fst_properties: "map fst (map (\<lambda>(k, s). (k, f s)) kv) = map fst kv"
  by (induction kv) auto

lemma schema_roundtrip:
  "normal_schema s \<Longrightarrow> json_schema_of_json dis (json_of_schema s) = Some s"
proof (induction s)
  case (JSONSchema t ps rq d en it ap)
  define props where "props = (case ps of None \<Rightarrow> []
     | Some kv \<Rightarrow> if kv = [] then []
                 else [(''properties'', JObj (map (\<lambda>(k, s). (k, json_of_schema s)) kv))])"
  define items where "items = (case it of None \<Rightarrow> [] | Some s \<Rightarrow> [(''items'', json_of_schema s)])"
  define ms where "ms = [(''type'', JStr t)] @ props @ omit_list ''required'' JStr (elems rq)
     @ omit_str ''description'' d @ omit_list ''enum'' JStr (elems en) @ items
     @ omit_opt ''additionalProperties'' (map_option JBool ap)"
  have j: "json_of_schema (JSONSchema t ps rq d en it ap) = JObj ms"
    by (simp add: ms_def props_def items_def)
  have skip: "jfield n e a props = Some a" "jfield_nil n e' a' props = Some a'"
    if "\<not> equal_fold ''properties'' n" for n and e :: "json \<Rightarrow> 'b option" and a and e' :: "json \<Rightarrow> 'c option" and a'
    using that by (auto simp: props_def split: option.splits)
  have skip2: "jfield n e a items = Some a" "jfield_nil n e' a' items = Some a'"
    if "\<not> equal_fold ''items'' n" for n and e :: "json \<Rightarrow> 'b option" and a and e' :: "json \<Rightarrow> 'c option" and a'
    using that by (auto simp: items_def split: option.splits)
  have p1: "jfield_nil ''properties'' as_obj None props
      = Some (map_option (map (\<lambda>(k, s). (k, json_of_schema s))) ps)"
    using JSONSchema.prems by (auto simp: props_def fold_eval split: option.splits)
  have p2: "jfield_nil ''items'' Some None items = Some (map_option json_of_schema it)"
    by (simp add: items_def fold_eval split: option.split)
  have known: "members dis schema_fields (JObj ms) = Some ms"
    by (simp add: members_def ms_def schema_fields_def props_def items_def fold_eval split: option.split)
  have f1: "jfield_nil ''properties'' as_obj None ms
      = Some (map_option (map (\<lambda>(k, s). (k, json_of_schema s))) ps)"
    by (simp add: ms_def field_eval p1 skip2 jfield_nil_omit_opt)
  have f2: "jfield_nil ''items'' Some None ms = Some (map_option json_of_schema it)"
    by (simp add: ms_def field_eval skip p2)
  have f3: "jstring ''type'' ms = Some t" "jstring ''description'' ms = Some d"
    by (simp_all add: ms_def field_eval skip skip2)
  have f4: "jstrings ''required'' ms = Some rq" "jstrings ''enum'' ms = Some en"
    using JSONSchema.prems by (simp_all add: ms_def field_eval skip skip2)
  have f5: "jfield_nil ''additionalProperties'' as_bool None ms = Some ap"
    by (simp add: ms_def field_eval skip skip2 jfield_nil_omit_opt)
  have q: "those (map (\<lambda>p. map_option (Pair (fst p)) (json_schema_of_json dis (snd p)))
      (go_map (elems (map_option (map (\<lambda>(k, s). (k, json_of_schema s))) ps)))) = Some (elems ps)"
  proof (cases ps)
    case (Some kv)
    have "json_schema_of_json dis (json_of_schema s) = Some s" if "(k, s) \<in> set kv" for k s
      using JSONSchema.IH(1) [of kv "(k, s)" s] JSONSchema.prems Some that
      by (auto simp: list_all_iff snds.simps)
    then show ?thesis
      using JSONSchema.prems Some
      by (simp add: go_map_distinct map_fst_properties those_pairs del: map_map)
  qed (simp add: go_map_def)
  have m: "map_option (\<lambda>_. elems ps) (map_option (map (\<lambda>(k, s). (k, json_of_schema s))) ps) = ps"
    by (cases ps) simp_all
  show ?case
  proof (cases it)
    case None
    then show ?thesis
      unfolding j by (subst json_schema_of_json.simps) (simp add: known f1 f2 f3 f4 f5 q m)
  next
    case (Some s)
    then have "json_schema_of_json dis (json_of_schema s) = Some s"
      using JSONSchema.IH(2) [of s] JSONSchema.prems by simp
    with Some show ?thesis
      unfolding j by (subst json_schema_of_json.simps) (simp add: known f1 f2 f3 f4 f5 q m)
  qed
qed

section \<open>Settings\<close>

lemma tool_choice_roundtrip: "tool_choice_of_json dis (json_of_tool_choice c) = Some c"
  by (cases c) (simp add: tool_choice_of_json_def json_of_tool_choice_def field_eval)

definition normal_format :: "output_format \<Rightarrow> bool" where
  "normal_format f = (case of_JSONSchema f of None \<Rightarrow> True | Some s \<Rightarrow> normal_schema s)"

lemma output_format_roundtrip:
  "normal_format f \<Longrightarrow> output_format_of_json dis (json_of_output_format f) = Some f"
  by (cases f) (auto simp: output_format_of_json_def json_of_output_format_def field_eval
      omit_opt_def schema_roundtrip normal_format_def split: option.splits)

definition normal_output :: "output_config \<Rightarrow> bool" where
  "normal_output c = normal_slice (oc_Modalities c)"

lemma image_config_roundtrip: "image_config_of_json dis (JObj (omit_str ''size'' s)) = Some s"
  by (simp add: image_config_of_json_def field_eval)

lemma output_config_roundtrip:
  "normal_output c \<Longrightarrow> output_config_of_json dis (json_of_output_config c) = Some c"
  by (cases c) (simp add: output_config_of_json_def json_of_output_config_def field_eval
      jfield_nil_omit_opt image_config_roundtrip normal_output_def)

definition normal_voice :: "voice_config \<Rightarrow> bool" where
  "normal_voice v = (case vc_Output v of None \<Rightarrow> True | Some o' \<Rightarrow> in_int64 (vo_SampleRate o'))"

lemma voice_output_roundtrip:
  "in_int64 (vo_SampleRate v) \<Longrightarrow> voice_output_of_json dis (json_of_voice_output v) = Some v"
  by (cases v) (simp add: voice_output_of_json_def json_of_voice_output_def field_eval)

lemma json_of_voice_output_ne [simp]: "json_of_voice_output v \<noteq> JNull"
  by (simp add: json_of_voice_output_def)

lemma voice_config_roundtrip:
  "normal_voice v \<Longrightarrow> voice_config_of_json dis (json_of_voice_config v) = Some v"
  by (cases v) (auto simp: voice_config_of_json_def json_of_voice_config_def field_eval
      omit_opt_def voice_output_roundtrip normal_voice_def split: option.splits)

end
