(* ===== verification/StrictLaws.thy ===== *)
theory StrictLaws
  imports StrictRequest StrictTrips
begin

text \<open>
  What the strict decoders accept: blocks, histories, schemas and requests, stated without the paths
  and the order of the checks.
\<close>

section \<open>Blocks\<close>

text \<open>What a block must have beyond the tolerant decoder.\<close>

fun strict_block :: "block \<Rightarrow> bool" where
  "strict_block BNil = False"
| "strict_block (UnknownContentBlock _ _) = False"
| "strict_block (ToolResultBlock _ i c _) = (trim_space i \<noteq> [] \<and> list_all strict_block c)"
| "strict_block (ToolUseBlock _ i n inp) = (trim_space i \<noteq> [] \<and> trim_space n \<noteq> [] \<and> inp \<noteq> None)"
| "strict_block (ServerToolUseBlock _ i n inp) =
     (trim_space i \<noteq> [] \<and> trim_space n \<noteq> [] \<and> inp \<noteq> None)"
| "strict_block (WebSearchToolResultBlock _ i _) = (trim_space i \<noteq> [])"
| "strict_block _ = True"

text \<open>A member read as a value and the same member kept raw.\<close>

definition raw_agrees :: "(json \<Rightarrow> 'a option) \<Rightarrow> 'a option \<Rightarrow> json option \<Rightarrow> bool" where
  "raw_agrees d a raw =
     (case a of
        None \<Rightarrow> isNullOrEmptyJSON raw
      | Some x \<Rightarrow> \<not> isNullOrEmptyJSON raw \<and> Option.bind raw d = Some x)"

lemma jraw_agrees:
  "jfield_nil n d acc m = Some r \<Longrightarrow> raw_agrees d acc raw \<Longrightarrow> raw_agrees d r (jraw n raw m)"
proof (induction m arbitrary: acc raw)
  case (Cons p m)
  obtain k v where p: "p = (k, v)" by (cases p)
  have "raw_agrees d None (Some JNull)"
    by (simp add: raw_agrees_def isNullOrEmptyJSON_def)
  moreover have "v \<noteq> JNull \<Longrightarrow> d v = Some a \<Longrightarrow> raw_agrees d (Some a) (Some v)" for a
    by (simp add: raw_agrees_def isNullOrEmptyJSON_def)
  ultimately show ?case
    using Cons.prems Cons.IH p by (auto split: if_splits option.splits)
qed simp

lemma jraw_agrees_None: "jfield_nil n d None m = Some r \<Longrightarrow> raw_agrees d r (jraw n None m)"
  by (erule jraw_agrees) (simp add: raw_agrees_def isNullOrEmptyJSON_def)

lemma strict_input_exact:
  assumes "jstring ''id'' m = Some i" "jstring ''name'' m = Some n"
    and "jfield_nil ''input'' as_map None m = Some inp"
  shows "strict_input kind m = Inr r \<longleftrightarrow>
    trim_space i \<noteq> [] \<and> trim_space n \<noteq> [] \<and> inp \<noteq> None \<and> r = (i, n, inp)"
  using jraw_agrees_None [OF assms(3)] assms(1,2)
  by (cases inp) (auto simp: strict_input_def raw_agrees_def strictErr_def)

lemma strict_each_exact:
  assumes "those (map tol xs) = Some ys"
    and "\<And>x y b. x \<in> set xs \<Longrightarrow> tol x = Some y \<Longrightarrow> str x = Inr b \<longleftrightarrow> P y \<and> b = y"
  shows "decode_each (\<lambda>_. str) i xs = Inr bs \<longleftrightarrow> list_all P ys \<and> bs = ys"
  using assms
proof (induction xs arbitrary: ys i bs)
  case (Cons x xs)
  obtain y zs where y: "tol x = Some y" "those (map tol xs) = Some zs" "ys = y # zs"
    using Cons.prems(1) by (auto split: option.splits)
  have "str x = Inr b \<longleftrightarrow> P y \<and> b = y" for b
    using Cons.prems(2) y(1) by simp
  moreover have "decode_each (\<lambda>_. str) (i + 1) xs = Inr b \<longleftrightarrow> list_all P zs \<and> b = zs" for b
    using Cons.IH [OF y(2)] Cons.prems(2) by simp
  ultimately show ?case
    unfolding decode_each_Cons by (auto simp: y(3))
qed auto

lemma strict_block_iff:
  "UnmarshalContentBlock j = Some b \<Longrightarrow>
   UnmarshalContentBlockStrict j = Inr b' \<longleftrightarrow> strict_block b \<and> b' = b"
proof (induction j arbitrary: b b' rule: UnmarshalContentBlock.induct)
  case (1 j)
  obtain m where m: "as_struct j = Some m"
    using "1.prems" by (subst (asm) UnmarshalContentBlock.simps) (auto split: option.splits)
  obtain ty where ty: "jstring ''type'' m = Some ty"
    using "1.prems" m by (subst (asm) UnmarshalContentBlock.simps) (auto split: option.splits)
  show ?case
  proof (cases "ty = ''tool_result''")
    case True
    obtain i c e bs where c: "jfield_nil ''content'' as_arr None m = Some c"
        "those (map UnmarshalContentBlock (elems c)) = Some bs" and b: "b = ToolResultBlock ty i bs e"
        and i: "jstring ''tool_use_id'' m = Some i" "jfield ''is_error'' as_bool False m = Some e"
      using "1.prems" m ty True
      by (subst (asm) UnmarshalContentBlock.simps) (auto split: option.splits)
    have each: "decode_each (\<lambda>_. UnmarshalContentBlockStrict) 0 (elems c) = Inr xs \<longleftrightarrow>
        list_all strict_block bs \<and> xs = bs" for xs
      using c(2) by (rule strict_each_exact) (use "1.IH" m ty True c(1) i in auto)
    show ?thesis
      using b m ty True c(1) i
      by (subst UnmarshalContentBlockStrict.simps)
        (auto simp: strictErr_def andThen_Inr each)
  next
    case False
    show ?thesis
    proof (cases "ty = ''tool_use'' \<or> ty = ''server_tool_use''")
      case True
      then obtain i n inp where f: "jstring ''id'' m = Some i" "jstring ''name'' m = Some n"
          "jfield_nil ''input'' as_map None m = Some inp"
        and b: "b = (if ty = ''tool_use'' then ToolUseBlock ty i n inp else ServerToolUseBlock ty i n inp)"
        using "1.prems" unfolding UnmarshalContentBlock.simps [of j] m option.case ty
        by (elim disjE) (auto simp: bind_eq_Some_conv)
      show ?thesis
        using True unfolding UnmarshalContentBlockStrict.simps [of j] m option.case ty b
        by (elim disjE) (auto simp: andThen_Inr strict_input_exact [OF f])
    next
      case other: False
      consider "ty = ''text''" | "ty = ''image''" | "ty = ''audio''" | "ty = ''audio_stt''"
        | "ty = ''video''" | "ty = ''document''" | "ty = ''thinking''"
        | "ty = ''web_search_tool_result''" | "ty \<notin> set known_tags"
        using False other by (auto simp: known_tags_def)
      then show ?thesis
        using "1.prems" unfolding UnmarshalContentBlock.simps [of j] UnmarshalContentBlockStrict.simps [of j]
          m option.case ty
        by cases (auto simp: bind_eq_Some_conv orElse_Inr andThen_Inr strictErr_def dest!: known_tags_simp)
    qed
  qed
qed

lemma strict_input_decoded:
  "strict_input kind m = Inr (i, n, inp) \<Longrightarrow>
   trim_space i \<noteq> [] \<and> trim_space n \<noteq> [] \<and> inp \<noteq> None \<and> jclone_map inp = inp"
  by (auto simp: strict_input_def andThen_Inr as_map_def jclone_map_def bind_eq_Some_conv
      split: if_splits option.splits)

lemma strict_decoded: "UnmarshalContentBlockStrict j = Inr b \<Longrightarrow> strict_block b \<and> well_tagged b"
proof (induction j arbitrary: b rule: UnmarshalContentBlockStrict.induct)
  case (1 j)
  obtain m where m: "as_struct j = Some m"
    using "1.prems" by (subst (asm) UnmarshalContentBlockStrict.simps) (auto split: option.splits)
  obtain ty where ty: "jstring ''type'' m = Some ty"
    using "1.prems" m by (subst (asm) UnmarshalContentBlockStrict.simps) (auto split: option.splits)
  note prems = "1.prems" [unfolded UnmarshalContentBlockStrict.simps [of j] m option.case ty]
  show ?case
  proof (cases "ty = ''tool_result''")
    case True
    then obtain i c e bs where c: "jfield_nil ''content'' as_arr None m = Some c"
        "decode_each (\<lambda>_. UnmarshalContentBlockStrict) 0 (elems c) = Inr bs"
        and b: "b = ToolResultBlock ty i bs e" "trim_space i \<noteq> []"
        and i: "jstring ''tool_use_id'' m = Some i" "jfield ''is_error'' as_bool False m = Some e"
      using prems by (auto simp: andThen_Inr split: option.splits if_splits)
    have IH: "strict_block y \<and> well_tagged y"
      if "x \<in> set (elems c)" "UnmarshalContentBlockStrict x = Inr y" for x y
      using that "1.IH" m ty True c(1) i b(2) by auto
    have "strict_block y \<and> well_tagged y" if y: "y \<in> set bs" for y
      using decode_each_member [OF c(2) y] IH nth_mem by metis
    then show ?thesis using b True by (simp add: list_all_iff)
  next
    case False
    consider "ty = ''tool_use''" | "ty = ''server_tool_use''"
      | "ty = ''text''" | "ty = ''image''" | "ty = ''audio''" | "ty = ''audio_stt''"
      | "ty = ''video''" | "ty = ''document''" | "ty = ''thinking''"
      | "ty = ''web_search_tool_result''" | "ty \<notin> set known_tags"
      using False by (auto simp: known_tags_def)
    then show ?thesis
      using prems
      by cases (auto simp: bind_eq_Some_conv orElse_Inr andThen_Inr
          dest!: known_tags_simp strict_input_decoded split: if_splits)
  qed
qed

lemma strict_roundtrip:
  "well_tagged b \<Longrightarrow> strict_block b \<Longrightarrow> UnmarshalContentBlockStrict (json_of_block b) = Inr b"
  using strict_block_iff [OF block_roundtrip] by simp

lemma strict_decoded_list:
  assumes "UnmarshalContentBlocksStrict j = Inr bs"
  shows "list_all (\<lambda>b. strict_block b \<and> well_tagged b) bs"
  using assms unfolding UnmarshalContentBlocksStrict_def
  by (auto simp: list_all_iff dest: strict_decoded elim!: decode_each_member split: json.splits)

section \<open>Histories\<close>

text \<open>The IDs of the tool calls of some blocks.\<close>

fun call_id :: "block \<Rightarrow> string option" where
  "call_id (ToolUseBlock _ i _ _) = Some i"
| "call_id (ServerToolUseBlock _ i _ _) = Some i"
| "call_id _ = None"

definition all_blocks :: "message list \<Rightarrow> block list" where
  "all_blocks ms = concat (map (\<lambda>m. elems (ContentBlocks m)) ms)"

text \<open>Every tool result answers a call that comes before it.\<close>

definition answers_calls :: "string set \<Rightarrow> block list \<Rightarrow> bool" where
  "answers_calls known bs =
     (\<forall>pre ty i c e post. bs = pre @ ToolResultBlock ty i c e # post \<longrightarrow>
        trim_space i \<noteq> [] \<and> (i \<in> known \<or> (\<exists>b \<in> set pre. call_id b = Some i)))"

lemma answers_calls_Nil [simp]: "answers_calls known []"
  by (simp add: answers_calls_def)

lemma answers_calls_Cons:
  "answers_calls known (b # bs) \<longleftrightarrow>
     (case b of ToolResultBlock _ i _ _ \<Rightarrow> trim_space i \<noteq> [] \<and> i \<in> known | _ \<Rightarrow> True) \<and>
     answers_calls (known \<union> set_option (call_id b)) bs"
  (is "?L \<longleftrightarrow> ?A \<and> ?B")
proof
  assume L: ?L
  have ?A
  proof (cases b)
    case (ToolResultBlock ty i c e)
    then show ?thesis using L [unfolded answers_calls_def, rule_format, of "[]" ty i c e bs] by simp
  qed simp_all
  moreover have ?B
    unfolding answers_calls_def
  proof (intro allI impI)
    fix pre ty i c e post
    assume "bs = pre @ ToolResultBlock ty i c e # post"
    then show "trim_space i \<noteq> [] \<and>
        (i \<in> known \<union> set_option (call_id b) \<or> (\<exists>b \<in> set pre. call_id b = Some i))"
      using L [unfolded answers_calls_def, rule_format, of "b # pre" ty i c e post] by auto
  qed
  ultimately show "?A \<and> ?B" ..
next
  assume R: "?A \<and> ?B"
  show ?L
    unfolding answers_calls_def
  proof (intro allI impI)
    fix pre ty i c e post
    assume eq: "b # bs = pre @ ToolResultBlock ty i c e # post"
    show "trim_space i \<noteq> [] \<and> (i \<in> known \<or> (\<exists>b \<in> set pre. call_id b = Some i))"
    proof (cases pre)
      case Nil
      then show ?thesis using R eq by simp
    next
      case (Cons b' pre')
      then have "bs = pre' @ ToolResultBlock ty i c e # post" "b' = b" using eq by simp_all
      then show ?thesis
        using R Cons unfolding answers_calls_def by (fastforce simp: elem_set)
    qed
  qed
qed

definition call_ids :: "block list \<Rightarrow> string set" where
  "call_ids bs = (\<Union>b \<in> set bs. set_option (call_id b))"

lemma call_ids_simps [simp]:
  "call_ids [] = {}" "call_ids (b # bs) = set_option (call_id b) \<union> call_ids bs"
  "call_ids (bs @ cs) = call_ids bs \<union> call_ids cs"
  by (auto simp: call_ids_def)

lemma answers_calls_append:
  "answers_calls known (bs @ cs) \<longleftrightarrow>
     answers_calls known bs \<and> answers_calls (known \<union> call_ids bs) cs"
  by (induction bs arbitrary: known) (auto simp: answers_calls_Cons Un_assoc)

lemma check_block_Inr:
  "check_block mi bi seen b = Inr s \<longleftrightarrow>
     (case b of ToolResultBlock _ i _ _ \<Rightarrow> trim_space i \<noteq> [] \<and> i \<in> set seen | _ \<Rightarrow> True) \<and>
     s = (case call_id b of None \<Rightarrow> seen | Some i \<Rightarrow> i # seen)"
  by (cases b) (auto simp: strictErr_def)

lemma check_blocks_Inr:
  "check_blocks mi bi seen bs = Inr s \<Longrightarrow> set s = set seen \<union> call_ids bs"
  by (induction bs arbitrary: bi seen) (force simp: andThen_Inr check_block_Inr split: option.splits)+

lemma check_blocks_iff:
  "(\<exists>s. check_blocks mi bi seen bs = Inr s) \<longleftrightarrow> answers_calls (set seen) bs"
proof (induction bs arbitrary: bi seen)
  case (Cons b bs)
  have "set (case call_id b of None \<Rightarrow> seen | Some i \<Rightarrow> i # seen) = set seen \<union> set_option (call_id b)"
    by (auto split: option.splits)
  then show ?case
    using Cons.IH by (auto simp: andThen_Inr check_block_Inr answers_calls_Cons)
qed simp

lemma check_messages_iff:
  "(\<exists>s. check_messages mi seen ms = Inr s) \<longleftrightarrow> answers_calls (set seen) (all_blocks ms)"
proof (induction ms arbitrary: mi seen)
  case (Cons m ms)
  have "(\<exists>s. check_messages mi seen (m # ms) = Inr s) \<longleftrightarrow>
      (\<exists>s. check_blocks mi 0 seen (elems (ContentBlocks m)) = Inr s \<and>
         answers_calls (set s) (all_blocks ms))"
    using Cons.IH by (simp add: andThen_Inr del: ContentBlocks.simps) blast
  also have "\<dots> \<longleftrightarrow> (\<exists>s. check_blocks mi 0 seen (elems (ContentBlocks m)) = Inr s) \<and>
      answers_calls (set seen \<union> call_ids (elems (ContentBlocks m))) (all_blocks ms)"
    by (metis check_blocks_Inr)
  finally show ?case
    by (simp add: check_blocks_iff all_blocks_def answers_calls_append del: ContentBlocks.simps)
qed (simp add: all_blocks_def)

lemma validateToolHistoryStrict_iff:
  "validateToolHistoryStrict ms = None \<longleftrightarrow> answers_calls {} (all_blocks ms)"
  using check_messages_iff [of 0 "[]" ms]
  by (auto simp: validateToolHistoryStrict_def split: sum.splits)

section \<open>Schemas\<close>

lemma earliest_None: "earliest es = None \<longleftrightarrow> list_all (\<lambda>e. e = None) es"
  by (induction es rule: earliest.induct) auto

fun schema_ok :: "json_schema \<Rightarrow> bool" where
  "schema_ok (JSONSchema t ps rq d en it ap) =
     (trim_space t \<in> set allowedJSONSchemaTypes \<and>
      (trim_space t = ''array'' \<longrightarrow> (case it of None \<Rightarrow> False | Some s \<Rightarrow> schema_ok s)) \<and>
      (trim_space t = ''object'' \<longrightarrow>
         (case ps of None \<Rightarrow> True | Some kv \<Rightarrow> list_all (\<lambda>p. schema_ok (snd p)) kv) \<and>
         list_all (\<lambda>n. trim_space n \<in> fst ` set (elems ps)) (elems rq) \<and>
         list_all (\<lambda>n. trim_space n \<noteq> []) (elems rq)))"

lemma check_required_all_None:
  "check_required_all path props names = None \<longleftrightarrow>
     (\<forall>n \<in> set names. trim_space n \<noteq> [] \<and> trim_space n \<in> fst ` set props)"
proof -
  have "check_required path props i n = None \<longleftrightarrow>
      trim_space n \<noteq> [] \<and> trim_space n \<in> fst ` set props" for i n
    by (auto simp: check_required_def Let_def mget_def map_of_eq_None_iff)
  then have "list_all (\<lambda>e. e = None) (map (\<lambda>(i, n). check_required path props (int i) n) (enumerate k names))
      \<longleftrightarrow> (\<forall>n \<in> set names. trim_space n \<noteq> [] \<and> trim_space n \<in> fst ` set props)" for k
    by (induction names arbitrary: k) auto
  then show ?thesis by (simp add: check_required_all_def earliest_None)
qed

lemma validate_schema_iff: "validate_schema s path = None \<longleftrightarrow> schema_ok s"
proof (induction s path rule: validate_schema.induct)
  case (1 t ps rq d en it ap path)
  define ty where "ty = trim_space t"
  consider (bad) "ty \<notin> set allowedJSONSchemaTypes" | (array) "ty = ''array''"
    | (object) "ty = ''object''" | (plain) "ty \<in> set allowedJSONSchemaTypes" "ty \<noteq> ''array''" "ty \<noteq> ''object''"
    by blast
  then show ?case
  proof cases
    case bad
    then show ?thesis by (simp add: Let_def ty_def [symmetric])
  next
    case array
    then show ?thesis
      using "1.IH"(1) by (auto simp: Let_def ty_def [symmetric] allowedJSONSchemaTypes_def split: option.split)
  next
    case object
    have props: "earliest (map (\<lambda>p. validate_schema (snd p) (path @ ''.properties.'' @ fst p)) (elems ps)) = None
        \<longleftrightarrow> list_all (\<lambda>p. schema_ok (snd p)) (elems ps)"
      using "1.IH"(2) object
      by (auto simp: earliest_None list_all_iff ty_def allowedJSONSchemaTypes_def)
    have "(case ps of None \<Rightarrow> True | Some kv \<Rightarrow> list_all (\<lambda>p. schema_ok (snd p)) kv)
        \<longleftrightarrow> list_all (\<lambda>p. schema_ok (snd p)) (elems ps)"
      by (cases ps) simp_all
    then show ?thesis
      using object props
      by (auto simp: Let_def ty_def [symmetric] allowedJSONSchemaTypes_def check_required_all_None list_all_iff
          split: option.split)
  next
    case plain
    then show ?thesis by (auto simp: Let_def ty_def [symmetric] allowedJSONSchemaTypes_def)
  qed
qed

end
