(* ===== verification/StrictAccept.thy ===== *)
theory StrictAccept
  imports StrictLaws
begin

text \<open>
  What an accepted request is: the conditions that the strict decoders of messages, tools and requests
  establish, and that what meets them is accepted when it is written and read back.
\<close>

section \<open>Messages and tools\<close>

definition role_allows :: "string \<Rightarrow> block \<Rightarrow> bool" where
  "role_allows role b =
     (case b of
        ThinkingBlock _ _ _ \<Rightarrow> role = ''assistant''
      | ToolUseBlock _ _ _ _ \<Rightarrow> role = ''assistant''
      | ServerToolUseBlock _ _ _ _ \<Rightarrow> role = ''assistant''
      | ToolResultBlock _ _ _ _ \<Rightarrow> role = ''user''
      | WebSearchToolResultBlock _ _ _ \<Rightarrow> role = ''user''
      | _ \<Rightarrow> True)"

lemma role_check_None: "validateContentBlockRoleStrict role b p = None \<longleftrightarrow> role_allows role b"
  by (cases b) (simp_all add: validateContentBlockRoleStrict_def role_allows_def)

definition strict_message :: "message \<Rightarrow> bool" where
  "strict_message m =
     ((msg_Role m = ''user'' \<or> msg_Role m = ''assistant'') \<and>
      (case msg_Content m of
         CStr _ \<Rightarrow> True
       | CBlocks (Some bs) \<Rightarrow>
           list_all (\<lambda>b. strict_block b \<and> well_tagged b \<and> role_allows (msg_Role m) b) bs
       | _ \<Rightarrow> False))"

lemma message_block_Inr:
  "message_block role path i x = Inr b \<longleftrightarrow> UnmarshalContentBlockStrict x = Inr b \<and> role_allows role b"
  by (auto simp: message_block_def decoded_simps role_check_None)

lemma strict_message_decoded:
  assumes "unmarshalMessageStrict j path = Inr m"
  shows "strict_message m"
proof -
  obtain ms raw_role where ms: "as_struct j = Some ms" "jstring ''role'' ms = Some raw_role"
    using assms unfolding unmarshalMessageStrict_def by (auto simp: decoded_simps)
  define role where "role = trim_space raw_role"
  have role: "role = ''user'' \<or> role = ''assistant''"
    using assms ms unfolding unmarshalMessageStrict_def Let_def role_def by (auto split: if_splits)
  show ?thesis
  proof (cases "unmarshal_string (jraw ''content'' None ms)")
    case None
    then obtain items bs where m: "m = \<lparr>msg_Role = role, msg_Content = CBlocks (Some bs)\<rparr>"
      and bs: "decode_each (message_block role path) 0 items = Inr bs"
      using assms ms unfolding unmarshalMessageStrict_def Let_def role_def
      by (auto simp: decoded_simps split: if_splits)
    have "strict_block b \<and> well_tagged b \<and> role_allows role b" if "b \<in> set bs" for b
      using decode_each_member [OF bs that]
      by (auto simp: message_block_Inr dest: strict_decoded)
    then show ?thesis using role m by (auto simp: strict_message_def list_all_iff)
  next
    case (Some s)
    then have "m = \<lparr>msg_Role = role, msg_Content = CStr s\<rparr>"
      using assms ms unfolding unmarshalMessageStrict_def Let_def role_def by (auto split: if_splits)
    then show ?thesis using role by (simp add: strict_message_def)
  qed
qed

lemma trim_role [simp]: "trim_space ''user'' = ''user''" "trim_space ''assistant'' = ''assistant''"
  by code_simp+

lemma strict_message_roundtrip:
  assumes "strict_message m"
  shows "unmarshalMessageStrict (message_MarshalJSON m) path = Inr m"
proof -
  obtain role c where m: "m = \<lparr>msg_Role = role, msg_Content = c\<rparr>" by (cases m)
  have role: "role = ''user'' \<or> role = ''assistant''"
    using assms m by (auto simp: strict_message_def)
  consider s where "c = CStr s"
    | bs where "c = CBlocks (Some bs)"
      "list_all (\<lambda>b. strict_block b \<and> well_tagged b \<and> role_allows role b) bs"
    using assms m by (auto simp: strict_message_def split: content.splits option.splits)
  then show ?thesis
  proof cases
    case 1
    then show ?thesis
      using role by (auto simp: m message_MarshalJSON_def unmarshalMessageStrict_def jstring_def
          fold_eval unmarshal_string_def)
  next
    case 2
    then have "decode_each (message_block role path) 0 (map json_of_block bs) = Inr bs"
      by (intro decode_each_map) (simp add: message_block_Inr list_all_iff strict_roundtrip)
    then show ?thesis
      using role by (auto simp: m 2(1) message_MarshalJSON_def unmarshalMessageStrict_def
          jstring_def fold_eval unmarshal_string_def unmarshal_raw_list_def json_of_blocks_def Let_def)
  qed
qed

text \<open>A native tool has no configuration or one as its struct is written; a function tool has a name, a
  description and a schema.\<close>

definition strict_tool :: "tool \<Rightarrow> bool" where
  "strict_tool t =
     (case native_config (tool_Type t) of
        Some decode \<Rightarrow> (case tool_Config t of None \<Rightarrow> True | Some c \<Rightarrow> decode c = Some c)
      | None \<Rightarrow> tool_Type t = ToolTypeFunction \<and> tool_Config t = None \<and> trim_space (tool_Name t) \<noteq> [] \<and>
          trim_space (tool_Description t) \<noteq> [] \<and> tool_InputSchema t \<noteq> None)"

lemma jint_in_range: "jint n m = Some i \<Longrightarrow> in_int64 i"
proof -
  have "jfield n as_int acc m = Some i \<Longrightarrow> in_int64 acc \<Longrightarrow> in_int64 i" for acc
  proof (induction n as_int acc m rule: jfield.induct)
    case (2 n acc k v r)
    then show ?case
      by (cases v) (auto split: if_splits)
  qed simp
  then show "jint n m = Some i \<Longrightarrow> in_int64 i"
    by (simp add: jint_def in_int64_def)
qed

lemma elems_nil_if_empty_simp: "jfield_nil n as_strings None (omit_list n JStr (elems s))
    = Some (nil_if_empty (elems s))"
  by simp

lemma user_location_canonical: "user_location_config j = Some c \<Longrightarrow> user_location_config c = Some c \<and> c \<noteq> JNull"
  by (auto simp: user_location_config_def bind_eq_Some_conv field_eval)

lemma jfield_nil_omit_value:
  "(\<And>x. v = Some x \<Longrightarrow> x \<noteq> JNull \<and> d x = Some x) \<Longrightarrow> jfield_nil n d None (omit_opt n v) = Some v"
  by (cases v) (simp_all add: omit_opt_def)

lemma web_search_canonical: "web_search_config j = Some c \<Longrightarrow> web_search_config c = Some c"
proof -
  assume "web_search_config j = Some c"
  then obtain m u a b l where f: "jint ''max_uses'' m = Some u"
      "jfield_nil ''user_location'' user_location_config None m = Some l"
    and c: "c = JObj (omit_int ''max_uses'' u @ omit_list ''allowed_domains'' JStr (elems a)
       @ omit_list ''blocked_domains'' JStr (elems b) @ omit_opt ''user_location'' l)"
    by (auto simp: web_search_config_def bind_eq_Some_conv)
  have "x \<noteq> JNull \<and> user_location_config x = Some x" if "l = Some x" for x
    using jfield_nil_mem [of "''user_location''" user_location_config None m x] f(2) that
    by (auto dest: user_location_canonical)
  then show ?thesis
    using jint_in_range [OF f(1)]
    by (simp add: c web_search_config_def field_eval jfield_nil_omit_value)
qed

lemma config_canonical:
  assumes "native_config ty = Some d" and "d j = Some c"
  shows "d c = Some c \<and> c \<noteq> JNull"
proof (cases "d = web_search_config")
  case True
  then have "c \<noteq> JNull" using assms(2) by (auto simp: web_search_config_def bind_eq_Some_conv)
  then show ?thesis using True assms(2) web_search_canonical by simp
next
  case False
  then have "d \<in> {web_fetch_config, code_execution_config, computer_use_config, file_search_config,
      text_editor_config}"
    using assms(1) by (auto simp: native_config_def split: if_splits)
  then show ?thesis
    using assms(2)
    by (auto simp: web_fetch_config_def code_execution_config_def computer_use_config_def
        file_search_config_def text_editor_config_def bind_eq_Some_conv field_eval
        dest!: jint_in_range [unfolded jint_def])
qed

lemma native_types: "native_config ty = Some d \<Longrightarrow> trim_space ty \<noteq> [] \<and> ty \<noteq> ToolTypeFunction"
proof -
  have "list_all (\<lambda>t. trim_space t \<noteq> [] \<and> t \<noteq> ''function'')
      [''web_search'', ''web_fetch'', ''code_execution'', ''computer_use'', ''file_search'', ''text_editor'']"
    by code_simp
  then show "native_config ty = Some d \<Longrightarrow> trim_space ty \<noteq> [] \<and> ty \<noteq> ToolTypeFunction"
    by (auto simp: native_config_def tool_types split: if_splits)
qed

lemma strict_tool_decoded:
  assumes "unmarshalToolStrict j path = Inr t"
  shows "strict_tool t"
proof -
  obtain t0 config where raw: "raw_tool j = Some (t0, config)" and t: "finish_tool path t0 config = Inr t"
    using assms unfolding unmarshalToolStrict_def
    by (auto simp: andThen_Inr orElse_Inr split: if_splits)
  have none: "tool_Config t0 = None"
    using raw by (auto simp: raw_tool_def bind_eq_Some_conv)
  show ?thesis
  proof (cases "native_config (tool_Type t0)")
    case None
    then show ?thesis using t none by (auto simp: finish_tool_def strict_tool_def split: if_splits)
  next
    case (Some dec)
    then consider "t = t0" | v c where "dec v = Some c" "t = t0\<lparr>tool_Config := Some c\<rparr>"
      using t by (auto simp: finish_tool_def decoded_simps bind_eq_Some_conv split: if_splits)
    then show ?thesis
      by cases (use Some none config_canonical [OF Some] in \<open>auto simp: strict_tool_def\<close>)
  qed
qed

definition normal_tool :: "tool \<Rightarrow> bool" where
  "normal_tool t = (case tool_InputSchema t of None \<Rightarrow> True | Some s \<Rightarrow> normal_schema s)"

lemma trim_function [simp]: "trim_space ''function'' = ''function''"
  by code_simp

lemma strict_tool_roundtrip:
  assumes "strict_tool t" and "normal_tool t"
  shows "unmarshalToolStrict (json_of_tool t) path = Inr t"
proof -
  obtain ty n d s c where t: "t = \<lparr>tool_Type = ty, tool_Name = n, tool_Description = d,
      tool_InputSchema = s, tool_Config = c\<rparr>" by (cases t)
  define ms where "ms = [(''type'', JStr ty)] @ omit_str ''name'' n @ omit_str ''description'' d
      @ omit_opt ''input_schema'' (map_option json_of_schema s) @ omit_opt ''config'' c"
  have j: "json_of_tool t = JObj ms"
    by (simp add: json_of_tool_def ms_def t)
  have f: "jstring ''type'' ms = Some ty" "jstring ''name'' ms = Some n"
    "jstring ''description'' ms = Some d"
    by (simp_all add: ms_def field_eval)
  have schema: "jfield_nil ''input_schema'' (json_schema_of_json False) None ms = Some s"
    using assms(2)
    by (cases s) (simp_all add: ms_def field_eval omit_opt_def schema_roundtrip normal_tool_def t
        split: option.split)
  have raw: "jraw ''config'' None ms = c"
    by (simp add: ms_def fold_eval omit_str_def omit_opt_def split: option.split)
  have rawt: "raw_tool (json_of_tool t) = Some (t\<lparr>tool_Config := None\<rparr>, c)"
    unfolding j raw_tool_def by (simp add: f schema raw t)
  show ?thesis
  proof (cases "native_config ty")
    case None
    then show ?thesis
      using assms(1) unfolding unmarshalToolStrict_def rawt
      by (simp add: finish_tool_def strict_tool_def t isNullOrEmptyJSON_def ToolTypeFunction_def)
  next
    case (Some dec)
    then have "c = None \<or> (\<exists>v. c = Some v \<and> dec v = Some v \<and> v \<noteq> JNull)"
      using assms(1) config_canonical [OF Some] by (auto simp: strict_tool_def t split: option.splits)
    then show ?thesis
      using native_types [OF Some] unfolding unmarshalToolStrict_def rawt
      by (auto simp: finish_tool_def Some t isNullOrEmptyJSON_def)
  qed
qed

section \<open>Requests\<close>

definition provider_model_ok :: "string \<Rightarrow> bool" where
  "provider_model_ok s =
     (trim_space s = [] \<or>
      (\<exists>provider model. trim_space s = provider @ CHR ''/'' # model \<and> CHR ''/'' \<notin> set provider \<and>
         trim_space provider \<noteq> [] \<and> trim_space model \<noteq> []))"

lemma provider_model_None: "validateProviderModelIDStrict s p = None \<longleftrightarrow> provider_model_ok s"
proof -
  have "(\<exists>p m. trim_space s = p @ CHR ''/'' # m \<and> CHR ''/'' \<notin> set p \<and> Q p m) \<longleftrightarrow>
      (\<exists>p m. cut CHR ''/'' (trim_space s) = Some (p, m) \<and> Q p m)" for Q
    by (auto simp: cut_Some_iff)
  then show ?thesis
    unfolding validateProviderModelIDStrict_def provider_model_ok_def Let_def
    by (cases "cut CHR ''/'' (trim_space s)") auto
qed

definition format_ok :: "output_format \<Rightarrow> bool" where
  "format_ok f = (trim_space (of_Type f) = ''json_schema'' \<and>
     (case of_JSONSchema f of None \<Rightarrow> False | Some s \<Rightarrow> schema_ok s))"

lemma output_format_None:
  "validateOutputFormatStrict o' = None \<longleftrightarrow> (case o' of None \<Rightarrow> True | Some f \<Rightarrow> format_ok f)"
  by (auto simp: validateOutputFormatStrict_def validateJSONSchemaStrict_def format_ok_def Let_def
      validate_schema_iff split: option.splits)

definition strict_system :: "content \<Rightarrow> bool" where
  "strict_system c =
     (case c of
        CNil \<Rightarrow> True
      | CStr _ \<Rightarrow> True
      | CBlocks (Some bs) \<Rightarrow> list_all (\<lambda>b. strict_block b \<and> well_tagged b) bs
      | _ \<Rightarrow> False)"

definition strict_request :: "message_request \<Rightarrow> bool" where
  "strict_request r =
     (trim_space (mr_Model r) \<noteq> [] \<and> mr_Messages r \<noteq> [] \<and> list_all strict_message (mr_Messages r) \<and>
      answers_calls {} (all_blocks (mr_Messages r)) \<and> strict_system (mr_System r) \<and>
      list_all strict_tool (mr_Tools r) \<and>
      provider_model_ok (mr_STTModel r) \<and> provider_model_ok (mr_TTSModel r) \<and>
      (case mr_OutputFormat r of None \<Rightarrow> True | Some f \<Rightarrow> format_ok f))"

lemma decode_optional_Inr:
  "decode_optional f raw = Inr v \<longleftrightarrow>
     (if isNullOrEmptyJSON raw then v = None
      else \<exists>j x. raw = Some j \<and> f j = Inr x \<and> v = Some x)"
  by (auto simp: decode_optional_def isNullOrEmptyJSON_def andThen_Inr split: option.splits)

lemma strict_system_decoded: "unmarshalSystemStrict v = Inr c \<Longrightarrow> strict_system c"
  by (auto simp: unmarshalSystemStrict_def strict_system_def andThen_Inr split: option.splits
      dest: strict_decoded_list)

lemma decode_each_set:
  "decode_each f i xs = Inr ys \<Longrightarrow> (\<And>k x y. f k x = Inr y \<Longrightarrow> P y) \<Longrightarrow> list_all P ys"
  by (auto simp: list_all_iff elim!: decode_each_member)

lemma decode_each_Nil_iff: "decode_each f i xs = Inr ys \<Longrightarrow> ys = [] \<longleftrightarrow> xs = []"
  by (auto dest: decode_each_length)

lemma accepted_request:
  assumes "UnmarshalMessageRequestStrict j = Inr r"
  shows "strict_request r"
proof -
  obtain r0 raw where model: "trim_space (mr_Model r0) \<noteq> []" "raw_Messages raw \<noteq> []"
    and parts: "decode_parts r0 raw = Inr r"
    using assms unfolding UnmarshalMessageRequestStrict_def
    by (auto simp: andThen_Inr orElse_Inr split: if_splits)
  obtain voice system messages tools where
      ids: "provider_model_ok (mr_STTModel r0)" "provider_model_ok (mr_TTSModel r0)"
    and sys: "decode_optional (\<lambda>v. onError (system_error ''system'') (unmarshalSystemStrict v))
         (raw_System raw) = Inr system"
    and messages: "decode_each (\<lambda>i x. unmarshalMessageStrict x (''messages'' @ at_index i)) 0
         (raw_Messages raw) = Inr messages"
    and tools: "decode_each (\<lambda>i x. unmarshalToolStrict x (''tools'' @ at_index i)) 0
         (raw_Tools raw) = Inr tools"
    and format: "case mr_OutputFormat r0 of None \<Rightarrow> True | Some f \<Rightarrow> format_ok f"
    and history: "answers_calls {} (all_blocks messages)"
    and r: "r = r0\<lparr>mr_Voice := voice, mr_System := system_of system, mr_Messages := messages,
           mr_Tools := tools\<rparr>"
    using parts unfolding decode_parts_def
    by (elim andThen_InrE)
      (auto simp: checked_Inr provider_model_None output_format_None validateToolHistoryStrict_iff)
  have "messages \<noteq> []" using model(2) decode_each_Nil_iff [OF messages] by simp
  moreover have "list_all strict_message messages"
    using messages by (rule decode_each_set) (rule strict_message_decoded)
  moreover have "list_all strict_tool tools"
    using tools by (rule decode_each_set) (rule strict_tool_decoded)
  moreover have "strict_system (system_of system)"
    using sys by (auto simp: decode_optional_Inr system_of_def dest: strict_system_decoded split: if_splits)
      (simp add: strict_system_def)
  ultimately show ?thesis
    using model(1) ids format history by (simp add: r strict_request_def)
qed

section \<open>Run requests\<close>

definition run_config_ok :: "run_config \<Rightarrow> bool" where
  "run_config_ok c =
     (1 \<le> rc_MaxTurns c \<and> rc_MaxTurns c \<le> 64 \<and> 1 \<le> rc_MaxToolCalls c \<and> rc_MaxToolCalls c \<le> 256 \<and>
      1000 \<le> rc_TimeoutMS c \<and> rc_TimeoutMS c \<le> 300000 \<and>
      1000 \<le> rc_ToolTimeoutMS c \<and> rc_ToolTimeoutMS c \<le> 60000)"

lemma check_range_None: "check_range n lo hi v = None \<longleftrightarrow> lo \<le> v \<and> v \<le> hi"
  by (auto simp: check_range_def)

lemma validate_run_config_None: "validate_run_config c = None \<longleftrightarrow> run_config_ok c"
  by (auto simp: validate_run_config_def earliest_None check_range_None run_config_ok_def)

definition names_ok :: "string list \<Rightarrow> bool" where
  "names_ok ns = (distinct ns \<and> list_all (\<lambda>n. n \<noteq> [] \<and> trim_space n = n) ns)"

lemma tool_names_Inr:
  "tool_names field i seen ns = Inr out \<Longrightarrow> names_ok out \<and> set out \<inter> set seen = {}"
proof (induction ns arbitrary: i seen out)
  case (Cons n ns)
  then obtain out' where o: "out = trim_space n # out'" "trim_space n \<noteq> []" "trim_space n \<notin> set seen"
      "tool_names field (i + 1) (trim_space n # seen) ns = Inr out'"
    by (auto simp: Let_def strictErr_def andThen_Inr split: if_splits)
  then show ?case using Cons.IH [OF o(4)] by (auto simp: names_ok_def)
qed (simp add: names_ok_def)

definition strict_run :: "run_request \<Rightarrow> bool" where
  "strict_run q =
     (strict_request (rq_Request q) \<and> \<not> mr_Stream (rq_Request q) \<and> run_config_ok (rq_Run q) \<and>
      names_ok (elems (rq_ServerTools q)) \<and> names_ok (elems (rq_Builtins q)) \<and>
      (elems (rq_Builtins q) \<noteq> [] \<longrightarrow> set (elems (rq_Builtins q)) = set (elems (rq_ServerTools q))))"

lemma equivalent_sets:
  assumes "equivalentToolSets xs ys" "distinct xs" "distinct ys"
  shows "set ys = set xs"
proof (rule card_subset_eq)
  show "set ys \<subseteq> set xs" using assms(1) by (auto simp: equivalentToolSets_def list_all_iff)
  show "card (set ys) = card (set xs)"
    using assms by (simp add: equivalentToolSets_def distinct_card)
qed simp

lemma decode_names: "decode_optional (\<lambda>v. parseRunToolNames v f) raw = Inr ns \<Longrightarrow> names_ok (elems ns)"
  by (auto simp: decode_optional_Inr parseRunToolNames_def decoded_simps names_ok_def
      dest: tool_names_Inr split: if_splits)

lemma merge_tools_Inr:
  assumes "merge_tools tools builtins = Inr server" "names_ok (elems tools)" "names_ok (elems builtins)"
  shows "names_ok (elems server) \<and> (elems builtins \<noteq> [] \<longrightarrow> set (elems builtins) = set (elems server))"
  using assms equivalent_sets [of "elems tools" "elems builtins"]
  by (auto simp: merge_tools_def names_ok_def split: if_splits)

lemma accepted_run:
  assumes "UnmarshalRunRequestStrict j = Inr q"
  shows "strict_run q"
proof -
  obtain obj req run tools builtins server conf where
      req: "UnmarshalMessageRequestStrict (the (mget obj ''request'')) = Inr req" "\<not> mr_Stream req"
    and cfg: "run_config_ok (given run default_run_config)"
    and names: "decode_optional (\<lambda>v. parseRunToolNames v ''server_tools'') (mget obj ''server_tools'') = Inr tools"
      "decode_optional (\<lambda>v. parseRunToolNames v ''builtins'') (mget obj ''builtins'') = Inr builtins"
    and server: "merge_tools tools builtins = Inr server"
    and q: "q = \<lparr>rq_Request = req, rq_Run = given run default_run_config, rq_ServerTools = server,
             rq_ServerToolConfig = conf, rq_Builtins = builtins\<rparr>"
    using assms unfolding UnmarshalRunRequestStrict_def Let_def
    by (auto elim!: andThen_InrE simp: validate_run_config_None checked_Inr split: if_splits)
  have n: "names_ok (elems tools)" "names_ok (elems builtins)"
    using names by (blast dest: decode_names)+
  then show ?thesis
    using req cfg accepted_request [OF req(1)] merge_tools_Inr [OF server n]
    by (simp add: q strict_run_def)
qed

end
