(* ===== verification/RequestTrip.thy ===== *)
theory RequestTrip
  imports StrictAccept
begin

text \<open>
  A message request written by a client (\<open>pkg/core/types/request.go\<close>) and read by the strict decoder.
\<close>

section \<open>Requests written and read back\<close>

text \<open>\<open>json.Marshal\<close> of a \<open>MessageRequest\<close>.\<close>

definition json_of_message_request :: "message_request \<Rightarrow> json" where
  "json_of_message_request r =
     JObj ([(''model'', JStr (mr_Model r)), (''messages'', json_of_messages (mr_Messages r))]
       @ omit_int ''max_tokens'' (mr_MaxTokens r)
       @ (case mr_System r of CNil \<Rightarrow> [] | c \<Rightarrow> [(''system'', json_of_any c)])
       @ omit_opt ''temperature'' (map_option JNum (mr_Temperature r))
       @ omit_opt ''top_p'' (map_option JNum (mr_TopP r))
       @ omit_opt ''top_k'' (map_option JInt (mr_TopK r))
       @ omit_list ''stop_sequences'' JStr (elems (mr_StopSequences r))
       @ omit_list ''tools'' json_of_tool (mr_Tools r)
       @ omit_opt ''tool_choice'' (map_option json_of_tool_choice (mr_ToolChoice r))
       @ (if mr_Stream r then [(''stream'', JBool True)] else [])
       @ omit_str ''stt_model'' (mr_STTModel r)
       @ omit_str ''tts_model'' (mr_TTSModel r)
       @ omit_opt ''output_format'' (map_option json_of_output_format (mr_OutputFormat r))
       @ omit_opt ''output'' (map_option json_of_output_config (mr_Output r))
       @ omit_opt ''voice'' (map_option json_of_voice_config (mr_Voice r))
       @ omit_map ''extensions'' (mr_Extensions r)
       @ omit_map ''metadata'' (mr_Metadata r))"

text \<open>A value that its own JSON does not change: no empty slice or map where nil is written, integers of
  64 bits, decoder numbers in maps.\<close>

definition normal_map :: "jobj option \<Rightarrow> bool" where
  "normal_map m = (case m of None \<Rightarrow> True | Some kv \<Rightarrow> kv \<noteq> [] \<and> jclone_obj kv = kv)"

definition opt_ok :: "('a \<Rightarrow> bool) \<Rightarrow> 'a option \<Rightarrow> bool" where
  "opt_ok P v = (case v of None \<Rightarrow> True | Some x \<Rightarrow> P x)"

lemma opt_ok_simps [simp]: "opt_ok P None" "opt_ok P (Some x) = P x"
  by (simp_all add: opt_ok_def)

definition normal_request :: "message_request \<Rightarrow> bool" where
  "normal_request r =
     (in_int64 (mr_MaxTokens r) \<and> opt_ok in_int64 (mr_TopK r) \<and> normal_slice (mr_StopSequences r) \<and>
      list_all normal_tool (mr_Tools r) \<and> opt_ok normal_format (mr_OutputFormat r) \<and>
      opt_ok normal_output (mr_Output r) \<and> opt_ok normal_voice (mr_Voice r) \<and>
      normal_map (mr_Extensions r) \<and> normal_map (mr_Metadata r))"

lemma jfield_nil_omit_map:
  "normal_map v \<Longrightarrow> jfield_nil n as_map None (omit_map n v) = Some v"
  by (auto simp: normal_map_def omit_map_def as_map_def split: option.splits)

lemma map_ne_null [simp]:
  "json_of_tool_choice c \<noteq> JNull" "json_of_output_format f \<noteq> JNull"
  "json_of_output_config oc \<noteq> JNull" "json_of_voice_config vc \<noteq> JNull" "json_of_tool t \<noteq> JNull"
  by (simp_all add: json_of_tool_choice_def json_of_output_format_def json_of_output_config_def
      json_of_voice_config_def json_of_tool_def)

lemma jfield_nil_opt:
  "opt_ok P v \<Longrightarrow> (\<And>x. P x \<Longrightarrow> f x \<noteq> JNull \<and> d (f x) = Some x) \<Longrightarrow>
   jfield_nil n d None (omit_opt n (map_option f v)) = Some v"
  by (cases v) (simp_all add: omit_opt_def)

lemma jfield_nil_omit_items:
  "jfield_nil n as_arr None (omit_list n f xs) = Some (if xs = [] then None else Some (map f xs))"
  by (simp add: omit_list_def)

lemma jraw_append: "jraw n acc (xs @ ys) = jraw n (jraw n acc xs) ys"
  by (induction n acc xs rule: jraw.induct) auto

lemma jraw_skip [simp]:
  "\<not> equal_fold k n \<Longrightarrow> jraw n a (omit_str k s) = a"
  "\<not> equal_fold k n \<Longrightarrow> jraw n a (omit_opt k v) = a"
  "\<not> equal_fold k n \<Longrightarrow> jraw n a (omit_list k f xs) = a"
  "\<not> equal_fold k n \<Longrightarrow> jraw n a (omit_int k i) = a"
  "\<not> equal_fold k n \<Longrightarrow> jraw n a (omit_map k mp) = a"
  by (simp_all add: omit_str_def omit_opt_def omit_list_def omit_int_def omit_map_def split: option.split)

lemma jraw_omit_opt: "jraw n None (omit_opt n v) = v"
  by (cases v) (simp_all add: omit_opt_def)

lemma raw_request_roundtrip:
  assumes "normal_request r" "mr_Messages r \<noteq> []"
  shows "raw_message_request (json_of_message_request r) =
    Some (r\<lparr>mr_Messages := [], mr_System := CNil, mr_Tools := [], mr_Voice := None\<rparr>,
      \<lparr>raw_Messages = map message_MarshalJSON (mr_Messages r),
       raw_System = (case mr_System r of CNil \<Rightarrow> None | c \<Rightarrow> Some (json_of_any c)),
       raw_Tools = map json_of_tool (mr_Tools r),
       raw_Voice = map_option json_of_voice_config (mr_Voice r)\<rparr>)"
proof -
  obtain model messages mt sys te tp tk st tools ch str stt tts fm out vo ext me where
    r: "r = \<lparr>mr_Model = model, mr_Messages = messages, mr_MaxTokens = mt, mr_System = sys,
         mr_Temperature = te, mr_TopP = tp, mr_TopK = tk, mr_StopSequences = st,
         mr_Tools = tools, mr_ToolChoice = ch, mr_Stream = str, mr_STTModel = stt,
         mr_TTSModel = tts, mr_OutputFormat = fm, mr_Output = out, mr_Voice = vo,
         mr_Extensions = ext, mr_Metadata = me\<rparr>"
    by (cases r)
  define system where "system = (case sys of CNil \<Rightarrow> [] | c \<Rightarrow> [(''system'', json_of_any c)])"
  define stream where "stream = (if str then [(''stream'', JBool True)] else [])"
  define ms where "ms = [(''model'', JStr model), (''messages'', JArr (map message_MarshalJSON messages))]
       @ omit_int ''max_tokens'' mt @ system @ omit_opt ''temperature'' (map_option JNum te)
       @ omit_opt ''top_p'' (map_option JNum tp) @ omit_opt ''top_k'' (map_option JInt tk)
       @ omit_list ''stop_sequences'' JStr (elems st) @ omit_list ''tools'' json_of_tool tools
       @ omit_opt ''tool_choice'' (map_option json_of_tool_choice ch) @ stream
       @ omit_str ''stt_model'' stt @ omit_str ''tts_model'' tts
       @ omit_opt ''output_format'' (map_option json_of_output_format fm)
       @ omit_opt ''output'' (map_option json_of_output_config out)
       @ omit_opt ''voice'' (map_option json_of_voice_config vo)
       @ omit_map ''extensions'' ext @ omit_map ''metadata'' me"
  have j: "json_of_message_request r = JObj ms"
    using assms(2) by (simp add: json_of_message_request_def ms_def r system_def stream_def json_of_messages_def)
  have skip: "\<not> equal_fold ''system'' n \<Longrightarrow> jfield n e a system = Some a"
      "\<not> equal_fold ''system'' n \<Longrightarrow> jfield_nil n e' a' system = Some a'"
      "\<not> equal_fold ''stream'' n \<Longrightarrow> jfield n e a stream = Some a"
      "\<not> equal_fold ''stream'' n \<Longrightarrow> jfield_nil n e' a' stream = Some a'"
    for n and e :: "json \<Rightarrow> 'b option" and a and e' :: "json \<Rightarrow> 'c option" and a'
    by (auto simp: system_def stream_def split: content.splits)
  note eval = ms_def field_eval skip
  have f1: "jstring ''model'' ms = Some model" by (simp add: eval)
  have f2: "jfield_nil ''messages'' as_arr None ms = Some (Some (map message_MarshalJSON messages))"
    by (simp add: eval)
  have f3: "jint ''max_tokens'' ms = Some mt" using assms(1) by (simp add: eval normal_request_def r)
  have f4: "jfield_nil ''temperature'' as_float None ms = Some te"
      "jfield_nil ''top_p'' as_float None ms = Some tp"
    by (simp_all add: eval jfield_nil_omit_opt)
  have f5: "jfield_nil ''top_k'' as_int None ms = Some tk"
    using assms(1) by (simp add: eval normal_request_def r jfield_nil_opt [of in_int64])
  have f6: "jstrings ''stop_sequences'' ms = Some st"
    using assms(1) by (simp add: eval normal_request_def r)
  have f7: "jfield_nil ''tools'' as_arr None ms =
      Some (if tools = [] then None else Some (map json_of_tool tools))"
    by (simp add: eval jfield_nil_omit_items)
  have f8: "jfield_nil ''tool_choice'' (tool_choice_of_json False) None ms = Some ch"
    by (simp add: eval jfield_nil_omit_opt tool_choice_roundtrip)
  have f9: "jfield ''stream'' as_bool False stream = Some str"
    by (simp add: stream_def fold_eval)
  have f10: "jfield ''stream'' as_bool False ms = Some str"
    by (simp add: eval f9)
  have f11: "jstring ''stt_model'' ms = Some stt" "jstring ''tts_model'' ms = Some tts"
    by (simp_all add: eval)
  have f12: "jfield_nil ''output_format'' (output_format_of_json False) None ms = Some fm"
    using assms(1)
    by (simp add: eval normal_request_def r jfield_nil_opt [of normal_format] output_format_roundtrip)
  have f13: "jfield_nil ''output'' (output_config_of_json False) None ms = Some out"
    using assms(1)
    by (simp add: eval normal_request_def r jfield_nil_opt [of normal_output] output_config_roundtrip)
  have f14: "jfield_nil ''extensions'' as_map None ms = Some ext"
      "jfield_nil ''metadata'' as_map None ms = Some me"
    using assms(1) by (simp_all add: eval normal_request_def r jfield_nil_omit_map)
  have g2: "jraw ''system'' None system = (case sys of CNil \<Rightarrow> None | c \<Rightarrow> Some (json_of_any c))"
      "\<not> equal_fold ''system'' n \<Longrightarrow> jraw n a system = a"
      "\<not> equal_fold ''stream'' n \<Longrightarrow> jraw n a stream = a" for n a
    by (simp_all add: system_def stream_def fold_eval split: content.split)
  have g3: "jraw ''system'' None ms = (case sys of CNil \<Rightarrow> None | c \<Rightarrow> Some (json_of_any c))"
      "jraw ''voice'' None ms = map_option json_of_voice_config vo"
    by (simp_all add: ms_def jraw_append fold_eval g2 jraw_omit_opt)
  show ?thesis
    unfolding j raw_message_request_def
    by (simp add: f1 f2 f3 f4 f5 f6 f7 f8 f10 f11 f12 f13 f14 g3 r)
qed

lemma strict_system_roundtrip:
  assumes "strict_system c"
  shows "decode_optional (\<lambda>v. onError e (unmarshalSystemStrict v))
      (case c of CNil \<Rightarrow> None | c \<Rightarrow> Some (json_of_any c)) = Inr (if c = CNil then None else Some c)"
proof -
  consider "c = CNil" | s where "c = CStr s"
    | bs where "c = CBlocks (Some bs)" "list_all (\<lambda>b. strict_block b \<and> well_tagged b) bs"
    using assms by (auto simp: strict_system_def split: content.splits option.splits)
  then show ?thesis
  proof cases
    case 3
    then have "decode_each (\<lambda>i x. onError (index_param i) (UnmarshalContentBlockStrict x)) 0
        (map json_of_block bs) = Inr bs"
      by (intro decode_each_map) (simp add: list_all_iff strict_roundtrip)
    then show ?thesis
      by (simp add: 3(1) decode_optional_def json_of_blocks_def unmarshalSystemStrict_def
          unmarshal_string_def UnmarshalContentBlocksStrict_def)
  qed (simp_all add: decode_optional_def unmarshalSystemStrict_def unmarshal_string_def)
qed

lemma voice_roundtrip:
  "opt_ok normal_voice v \<Longrightarrow>
   decode_optional (\<lambda>j. decode_voice j path sub) (map_option json_of_voice_config v) = Inr v"
proof (cases v)
  case (Some c)
  moreover have "json_of_voice_config c \<noteq> JNull" by simp
  moreover have "raw_map (json_of_voice_config c) = Some
      (case vc_Output c of None \<Rightarrow> [] | Some vo \<Rightarrow> [(''output'', json_of_voice_output vo)])"
    by (simp add: json_of_voice_config_def omit_opt_def go_map_def split: option.split)
  moreover assume "opt_ok normal_voice v"
  ultimately show ?thesis
    by (simp add: decode_optional_def decode_voice_def voice_config_roundtrip mhas_def mget_Cons
        split: option.split)
qed (simp add: decode_optional_def)

lemma request_trip:
  assumes "strict_request r" and "normal_request r"
  shows "UnmarshalMessageRequestStrict (json_of_message_request r) = Inr r"
proof -
  let ?raw = "\<lparr>raw_Messages = map message_MarshalJSON (mr_Messages r),
       raw_System = (case mr_System r of CNil \<Rightarrow> None | c \<Rightarrow> Some (json_of_any c)),
       raw_Tools = map json_of_tool (mr_Tools r),
       raw_Voice = map_option json_of_voice_config (mr_Voice r)\<rparr>"
  let ?r = "r\<lparr>mr_Messages := [], mr_System := CNil, mr_Tools := [], mr_Voice := None\<rparr>"
  have ms: "mr_Messages r \<noteq> []" and model: "trim_space (mr_Model r) \<noteq> []"
    using assms(1) by (simp_all add: strict_request_def)
  have messages: "decode_each (\<lambda>i x. unmarshalMessageStrict x (''messages'' @ at_index i)) 0
      (map message_MarshalJSON (mr_Messages r)) = Inr (mr_Messages r)"
    using assms(1) by (intro decode_each_map)
      (simp add: strict_request_def list_all_iff strict_message_roundtrip)
  have tools: "decode_each (\<lambda>i x. unmarshalToolStrict x (''tools'' @ at_index i)) 0
      (map json_of_tool (mr_Tools r)) = Inr (mr_Tools r)"
    using assms by (intro decode_each_map)
      (simp add: strict_request_def normal_request_def list_all_iff strict_tool_roundtrip)
  have checks: "validateProviderModelIDStrict (mr_STTModel r) ''stt_model'' = None"
      "validateProviderModelIDStrict (mr_TTSModel r) ''tts_model'' = None"
      "validateOutputFormatStrict (mr_OutputFormat r) = None"
      "validateToolHistoryStrict (mr_Messages r) = None"
    using assms(1) by (simp_all add: strict_request_def provider_model_None output_format_None
        validateToolHistoryStrict_iff)
  have sys: "decode_optional (\<lambda>v. onError (system_error ''system'') (unmarshalSystemStrict v))
      (case mr_System r of CNil \<Rightarrow> None | c \<Rightarrow> Some (json_of_any c))
      = Inr (if mr_System r = CNil then None else Some (mr_System r))"
    using assms(1) by (intro strict_system_roundtrip) (simp add: strict_request_def)
  have voice: "decode_optional (\<lambda>v. decode_voice v ''voice'' (\<lambda>p. p))
      (map_option json_of_voice_config (mr_Voice r)) = Inr (mr_Voice r)"
    using assms(2) by (intro voice_roundtrip) (simp add: normal_request_def)
  have "decode_parts ?r ?raw = Inr r"
    unfolding decode_parts_def
    by (simp add: checks voice sys messages [simplified] tools [simplified]) (simp add: system_of_def)
  then show ?thesis
    unfolding UnmarshalMessageRequestStrict_def raw_request_roundtrip [OF assms(2) ms]
    using ms model by simp
qed

end
