(* ===== verification/ChainFrames.thy ===== *)
theory ChainFrames
  imports RequestTrip
begin

text \<open>
  The strict decoders of the chain protocol (\<open>pkg/core/types/strict_decode_chain.go\<close>): the frames a client
  sends on the websocket and the bodies of the HTTP requests, with the defaults in them.
\<close>

section \<open>Members\<close>

definition prefixPath :: "string \<Rightarrow> string \<Rightarrow> string" where
  "prefixPath pre field = (if pre = [] then field else if field = [] then pre else pre @ ''.'' @ field)"

text \<open>A member that is not a string counts as a missing one.\<close>

definition decodeOptionalStringField :: "(string, json) gomap \<Rightarrow> string \<Rightarrow> string" where
  "decodeOptionalStringField obj key =
     (if isNullOrEmptyJSON (mget obj key) then []
      else (case unmarshal_string (mget obj key) of None \<Rightarrow> [] | Some s \<Rightarrow> trim_space s))"

definition unmarshalLooseObjectStrict :: "json option \<Rightarrow> string \<Rightarrow> jobj option decoded" where
  "unmarshalLooseObjectStrict raw param =
     decode_optional (\<lambda>v. orElse (StrictDecodeError param (param @ '' must be an object'')) (as_map v)) raw"

definition gateway_entry :: "string \<Rightarrow> string \<Rightarrow> json \<Rightarrow> jobj \<Rightarrow> jobj decoded" where
  "gateway_entry param key v acc =
     (let name = trim_space key;
          bad = Inl (StrictDecodeError (prefixPath param name) ''gateway tool config entries must be objects'') in
      if name = [] then strictErr param (param @ '' keys must be non-empty'')
      else if v = JNull then bad
      else (case as_map v of None \<Rightarrow> bad | Some kv \<Rightarrow> Inr (mput name (JObj kv) acc)))"

fun gateway_entries :: "string \<Rightarrow> (string, json) gomap \<Rightarrow> jobj \<Rightarrow> jobj decoded" where
  "gateway_entries param [] acc = Inr acc"
| "gateway_entries param ((k, v) # r) acc =
     andThen (gateway_entry param k v acc) (gateway_entries param r)"

definition unmarshalGatewayToolConfigStrict :: "json option \<Rightarrow> string \<Rightarrow> jobj option decoded" where
  "unmarshalGatewayToolConfigStrict raw param =
     decode_optional (\<lambda>v.
       andThen (orElse (StrictDecodeError param (param @ '' must be an object'')) (raw_map v)) (\<lambda>m.
         gateway_entries param m [])) raw"

definition unmarshalChainMessagesStrict :: "json option \<Rightarrow> string \<Rightarrow> bool \<Rightarrow> message list decoded" where
  "unmarshalChainMessagesStrict raw param required =
     (if isNullOrEmptyJSON raw then
        (if required then strictErr param (param @ '' is required'') else Inr [])
      else
        andThen (orElse (StrictDecodeError param (param @ '' must be an array of messages''))
          (unmarshal_raw_list raw)) (\<lambda>items.
        if required \<and> items = [] then strictErr param (param @ '' must not be empty'')
        else decode_each (\<lambda>i x. unmarshalMessageStrict x (param @ at_index i)) 0 items))"

section \<open>Defaults\<close>

definition default_keys :: "string list" where
  "default_keys = [''model'', ''system'', ''tools'', ''gateway_tools'', ''gateway_tool_config'',
     ''tool_choice'', ''max_tokens'', ''temperature'', ''top_p'', ''top_k'', ''stop_sequences'',
     ''stt_model'', ''tts_model'', ''output_format'', ''output'', ''voice'', ''extensions'', ''metadata'']"

text \<open>A member decoded into a value of the standard library's choosing, with a message of its own.\<close>

definition plain_member ::
  "string \<Rightarrow> (string, json) gomap \<Rightarrow> string \<Rightarrow> (json \<Rightarrow> 'a option) \<Rightarrow> string \<Rightarrow> 'a option decoded" where
  "plain_member param obj key d msg =
     decode_optional (\<lambda>v. orElse (StrictDecodeError (prefixPath param key) msg) (d v)) (mget obj key)"

definition struct_member ::
  "string \<Rightarrow> (string, json) gomap \<Rightarrow> string \<Rightarrow> (json \<Rightarrow> 'a option) \<Rightarrow> string \<Rightarrow> 'a option decoded" where
  "struct_member param obj key d msg =
     decode_optional (\<lambda>v. orElse (StrictWrapError (prefixPath param key) msg) (d v)) (mget obj key)"

definition model_member :: "string \<Rightarrow> (string, json) gomap \<Rightarrow> string \<Rightarrow> string decoded" where
  "model_member param obj key =
     (let s = decodeOptionalStringField obj key in
      andThen (checked (if s = [] then None
        else validateProviderModelIDStrict s (prefixPath param key))) (\<lambda>_. Inr s))"

definition decode_tools :: "string \<Rightarrow> json \<Rightarrow> tool list decoded" where
  "decode_tools path v =
     andThen (orElse (StrictDecodeError path ''tools must be an array'') (as_arr v)) (\<lambda>items.
       decode_each (\<lambda>i x. unmarshalToolStrict x (path @ at_index i)) 0 items)"

definition decode_defaults :: "(string, json) gomap \<Rightarrow> string \<Rightarrow> chain_defaults decoded" where
  "decode_defaults obj param =
     andThen (checked (rejectUnknownKeys obj default_keys (prefixPath param))) (\<lambda>_.
     andThen (model_member param obj ''model'') (\<lambda>model.
     andThen (decode_optional (\<lambda>v. onError (system_error (prefixPath param ''system''))
       (unmarshalSystemStrict v)) (mget obj ''system'')) (\<lambda>system.
     andThen (decode_optional (decode_tools (prefixPath param ''tools'')) (mget obj ''tools'')) (\<lambda>tools.
     andThen (decode_optional (\<lambda>v. parseRunToolNames v (prefixPath param ''gateway_tools''))
       (mget obj ''gateway_tools'')) (\<lambda>names.
     andThen (unmarshalGatewayToolConfigStrict (mget obj ''gateway_tool_config'')
       (prefixPath param ''gateway_tool_config'')) (\<lambda>config.
     andThen (struct_member param obj ''tool_choice'' (tool_choice_of_json True) ''invalid tool_choice: '') (\<lambda>choice.
     andThen (plain_member param obj ''max_tokens'' as_int ''max_tokens must be an integer'') (\<lambda>max_tokens.
     andThen (plain_member param obj ''temperature'' as_float ''temperature must be a number'') (\<lambda>temperature.
     andThen (plain_member param obj ''top_p'' as_float ''top_p must be a number'') (\<lambda>top_p.
     andThen (plain_member param obj ''top_k'' as_int ''top_k must be an integer'') (\<lambda>top_k.
     andThen (plain_member param obj ''stop_sequences'' as_strings
       ''stop_sequences must be an array of strings'') (\<lambda>stop.
     andThen (model_member param obj ''stt_model'') (\<lambda>stt.
     andThen (model_member param obj ''tts_model'') (\<lambda>tts.
     andThen (struct_member param obj ''output_format'' (output_format_of_json True)
       ''invalid output_format: '') (\<lambda>format.
     andThen (struct_member param obj ''output'' (output_config_of_json True)
       ''invalid output config: '') (\<lambda>out.
     andThen (decode_optional (\<lambda>v. decode_voice v (prefixPath param ''voice'') (prefixPath param))
       (mget obj ''voice'')) (\<lambda>voice.
     andThen (unmarshalLooseObjectStrict (mget obj ''extensions'') (prefixPath param ''extensions'')) (\<lambda>ext.
     andThen (unmarshalLooseObjectStrict (mget obj ''metadata'') (prefixPath param ''metadata'')) (\<lambda>meta.
       Inr \<lparr>cd_Model = model, cd_System = system_of system, cd_Tools = tools, cd_GatewayTools = names,
         cd_GatewayToolConfig = config, cd_ToolChoice = choice, cd_MaxTokens = given max_tokens 0,
         cd_Temperature = temperature, cd_TopP = top_p, cd_TopK = top_k, cd_StopSequences = stop,
         cd_STTModel = stt, cd_TTSModel = tts, cd_OutputFormat = format, cd_Output = out,
         cd_Voice = voice, cd_Extensions = ext, cd_Metadata = meta\<rparr>)))))))))))))))))))"

definition unmarshalChainDefaultsStrict :: "json option \<Rightarrow> string \<Rightarrow> chain_defaults decoded" where
  "unmarshalChainDefaultsStrict raw param =
     andThen (decode_optional (\<lambda>v.
       andThen (orElse (StrictDecodeError param (param @ '' must be an object'')) (raw_map v)) (\<lambda>obj.
         decode_defaults obj param)) raw) (\<lambda>d. Inr (given d zero_defaults))"

section \<open>Payloads\<close>

definition parseChainStartPayloadStrict :: "(string, json) gomap \<Rightarrow> string \<Rightarrow> start_payload decoded" where
  "parseChainStartPayloadStrict obj pre =
     andThen (unmarshalChainDefaultsStrict (mget obj ''defaults'') (prefixPath pre ''defaults'')) (\<lambda>defaults.
     andThen (unmarshalChainMessagesStrict (mget obj ''history'') (prefixPath pre ''history'') False) (\<lambda>history.
     andThen (unmarshalLooseObjectStrict (mget obj ''metadata'') (prefixPath pre ''metadata'')) (\<lambda>metadata.
       Inr \<lparr>sp_ExternalSessionID = decodeOptionalStringField obj ''external_session_id'',
         sp_Defaults = defaults, sp_History = history, sp_Metadata = metadata\<rparr>)))"

text \<open>\<open>ChainUpdatePayload\<close> has one field.\<close>

definition parseChainUpdatePayloadStrict :: "(string, json) gomap \<Rightarrow> string \<Rightarrow> chain_defaults decoded" where
  "parseChainUpdatePayloadStrict obj pre =
     unmarshalChainDefaultsStrict (mget obj ''defaults'') (prefixPath pre ''defaults'')"

definition parseRunStartPayloadStrict :: "(string, json) gomap \<Rightarrow> string \<Rightarrow> run_payload decoded" where
  "parseRunStartPayloadStrict obj pre =
     andThen (unmarshalChainMessagesStrict (mget obj ''input'') (prefixPath pre ''input'') True) (\<lambda>input.
     andThen (if isNullOrEmptyJSON (mget obj ''overrides'') then Inr None
        else andThen (unmarshalChainDefaultsStrict (mget obj ''overrides'') (prefixPath pre ''overrides''))
          (\<lambda>d. Inr (Some d))) (\<lambda>overrides.
     andThen (unmarshalLooseObjectStrict (mget obj ''metadata'') (prefixPath pre ''metadata'')) (\<lambda>metadata.
       Inr \<lparr>rp_Input = input, rp_Overrides = overrides, rp_Metadata = metadata\<rparr>)))"

definition UnmarshalChainStartPayloadStrict :: "json \<Rightarrow> start_payload decoded" where
  "UnmarshalChainStartPayloadStrict j =
     andThen (orElse JsonError (raw_map j)) (\<lambda>obj. parseChainStartPayloadStrict obj [])"

definition UnmarshalChainUpdatePayloadStrict :: "json \<Rightarrow> chain_defaults decoded" where
  "UnmarshalChainUpdatePayloadStrict j =
     andThen (orElse JsonError (raw_map j)) (\<lambda>obj. parseChainUpdatePayloadStrict obj [])"

definition UnmarshalChainRunPayloadStrict :: "json \<Rightarrow> run_payload decoded" where
  "UnmarshalChainRunPayloadStrict j =
     andThen (orElse JsonError (raw_map j)) (\<lambda>obj. parseRunStartPayloadStrict obj [])"

section \<open>Frames\<close>

text \<open>\<open>ChainClientFrame\<close>; the first argument is the idempotency key.\<close>

datatype client_frame =
    ChainStartFrame string start_payload
  | ChainAttachFrame string attach_frame
  | ChainUpdateFrame string chain_defaults
  | RunStartFrame string run_payload
  | ClientToolResultFrame string tool_result_frame
  | RunCancelFrame string string
  | ChainCloseFrame string

text \<open>The frames whose members are read from a map: unknown keys are refused, a key is required.\<close>

definition keyed_frame ::
  "json \<Rightarrow> string list \<Rightarrow> ((string, json) gomap \<Rightarrow> 'a decoded) \<Rightarrow> (string \<Rightarrow> 'a \<Rightarrow> client_frame)
     \<Rightarrow> client_frame decoded" where
  "keyed_frame j allowed parse frame =
     andThen (orElse JsonError (raw_map j)) (\<lambda>obj.
     andThen (checked (rejectUnknownKeys obj allowed (\<lambda>k. k))) (\<lambda>_.
     let key = decodeOptionalStringField obj ''idempotency_key'' in
     if key = [] then strictErr ''idempotency_key'' ''idempotency_key is required''
     else andThen (parse obj) (\<lambda>p. Inr (frame key p))))"

definition unmarshalChainStartFrameStrict :: "json \<Rightarrow> client_frame decoded" where
  "unmarshalChainStartFrameStrict j =
     keyed_frame j [''type'', ''idempotency_key'', ''external_session_id'', ''defaults'', ''history'', ''metadata'']
       (\<lambda>obj. parseChainStartPayloadStrict obj []) ChainStartFrame"

definition unmarshalChainUpdateFrameStrict :: "json \<Rightarrow> client_frame decoded" where
  "unmarshalChainUpdateFrameStrict j =
     keyed_frame j [''type'', ''idempotency_key'', ''defaults'']
       (\<lambda>obj. parseChainUpdatePayloadStrict obj []) ChainUpdateFrame"

definition unmarshalRunStartFrameStrict :: "json \<Rightarrow> client_frame decoded" where
  "unmarshalRunStartFrameStrict j =
     keyed_frame j [''type'', ''idempotency_key'', ''input'', ''overrides'', ''metadata'']
       (\<lambda>obj. parseRunStartPayloadStrict obj []) RunStartFrame"

definition required :: "string \<Rightarrow> string \<Rightarrow> unit decoded" where
  "required name v = guard (trim_space v = []) (StrictDecodeError name (name @ '' is required''))"

definition unmarshalChainAttachFrameStrict :: "json \<Rightarrow> client_frame decoded" where
  "unmarshalChainAttachFrameStrict j =
     andThen (orElse (StrictWrapError ''frame'' ''invalid chain attach frame: '') (do {
       m \<leftarrow> members True [''type'', ''idempotency_key'', ''chain_id'', ''resume_token'', ''after_event_id'',
              ''require_exact_replay'', ''takeover''] j;
       _ \<leftarrow> jstring ''type'' m;
       key \<leftarrow> jstring ''idempotency_key'' m;
       chain \<leftarrow> jstring ''chain_id'' m;
       token \<leftarrow> jstring ''resume_token'' m;
       after \<leftarrow> jint ''after_event_id'' m;
       exact \<leftarrow> jfield ''require_exact_replay'' as_bool False m;
       take \<leftarrow> jfield ''takeover'' as_bool False m;
       Some (key, \<lparr>af_ChainID = chain, af_ResumeToken = token, af_AfterEventID = after,
         af_RequireExactReplay = exact, af_Takeover = take\<rparr>) })) (\<lambda>(key, f).
     andThen (required ''idempotency_key'' key) (\<lambda>_.
     andThen (required ''chain_id'' (af_ChainID f)) (\<lambda>_.
     andThen (required ''resume_token'' (af_ResumeToken f)) (\<lambda>_.
       Inr (ChainAttachFrame key f)))))"

definition unmarshalClientToolResultFrameStrict :: "json \<Rightarrow> client_frame decoded" where
  "unmarshalClientToolResultFrameStrict j =
     andThen (orElse (StrictWrapError ''frame'' ''invalid client tool result frame: '') (do {
       m \<leftarrow> members True [''type'', ''idempotency_key'', ''run_id'', ''execution_id'', ''content'', ''is_error''] j;
       _ \<leftarrow> jstring ''type'' m;
       key \<leftarrow> jstring ''idempotency_key'' m;
       run \<leftarrow> jstring ''run_id'' m;
       execution \<leftarrow> jstring ''execution_id'' m;
       content \<leftarrow> jfield_nil ''content'' as_arr None m;
       e \<leftarrow> jfield ''is_error'' as_bool False m;
       Some (key, run, execution, elems content, e) })) (\<lambda>(key, run, execution, content, e).
     andThen (required ''idempotency_key'' key) (\<lambda>_.
     andThen (required ''run_id'' run) (\<lambda>_.
     andThen (required ''execution_id'' execution) (\<lambda>_.
     andThen (orElse JsonError (those (map UnmarshalContentBlock content))) (\<lambda>bs.
       Inr (ClientToolResultFrame key \<lparr>tf_RunID = run, tf_ExecutionID = execution,
         tf_Content = Some bs, tf_IsError = e\<rparr>))))))"

definition unmarshalRunCancelFrameStrict :: "json \<Rightarrow> client_frame decoded" where
  "unmarshalRunCancelFrameStrict j =
     andThen (orElse (StrictWrapError ''frame'' ''invalid run cancel frame: '') (do {
       m \<leftarrow> members True [''type'', ''idempotency_key'', ''run_id''] j;
       _ \<leftarrow> jstring ''type'' m;
       key \<leftarrow> jstring ''idempotency_key'' m;
       run \<leftarrow> jstring ''run_id'' m;
       Some (key, run) })) (\<lambda>(key, run).
     andThen (required ''idempotency_key'' key) (\<lambda>_.
     andThen (required ''run_id'' run) (\<lambda>_.
       Inr (RunCancelFrame key run))))"

definition unmarshalChainCloseFrameStrict :: "json \<Rightarrow> client_frame decoded" where
  "unmarshalChainCloseFrameStrict j =
     andThen (orElse (StrictWrapError ''frame'' ''invalid chain close frame: '') (do {
       m \<leftarrow> members True [''type'', ''idempotency_key''] j;
       _ \<leftarrow> jstring ''type'' m;
       jstring ''idempotency_key'' m })) (\<lambda>key.
     andThen (required ''idempotency_key'' key) (\<lambda>_.
       Inr (ChainCloseFrame key)))"

definition UnmarshalChainClientFrameStrict :: "json \<Rightarrow> client_frame decoded" where
  "UnmarshalChainClientFrameStrict j =
     andThen (orElse JsonError (Option.bind (as_struct j) (jstring ''type''))) (\<lambda>raw_type.
     let ty = trim_space raw_type in
     if ty = ''chain.start'' then unmarshalChainStartFrameStrict j
     else if ty = ''chain.attach'' then unmarshalChainAttachFrameStrict j
     else if ty = ''chain.update'' then unmarshalChainUpdateFrameStrict j
     else if ty = ''run.start'' then unmarshalRunStartFrameStrict j
     else if ty = ''client_tool.result'' then unmarshalClientToolResultFrameStrict j
     else if ty = ''run.cancel'' then unmarshalRunCancelFrameStrict j
     else if ty = ''chain.close'' then unmarshalChainCloseFrameStrict j
     else strictErr ''type'' (''unknown chain client frame type '' @ quoted raw_type))"

end
