(* ===== verification/FrameTrip.thy ===== *)
theory FrameTrip
  imports ChainFrames
begin

text \<open>
  Frames of the chain protocol written by a client (\<open>pkg/core/types/chain_ws.go\<close>) and read by the strict
  decoder, which reads the defaults member by member from a map.
\<close>

section \<open>Members of what is written\<close>

definition over :: "'a option \<Rightarrow> 'a option \<Rightarrow> 'a option" where
  "over a b = (case a of Some v \<Rightarrow> Some v | None \<Rightarrow> b)"

lemma over_simps [simp]: "over None b = b" "over a None = a" "over (Some v) b = Some v"
  by (simp_all add: over_def split: option.split)

lemma member_append: "mget (go_map (xs @ ys)) k = over (mget (go_map ys) k) (mget (go_map xs) k)"
  by (simp add: mget_go_map map_add_def over_def)

lemma member_Cons:
  "mget (go_map ((n, v) # r)) k = over (mget (go_map r) k) (if n = k then Some v else None)"
  by (simp add: mget_go_map map_add_def over_def split: option.split)

lemma member_pieces [simp]:
  "mget (go_map []) k = None"
  "mget (go_map (omit_str n s)) k = (if n = k \<and> s \<noteq> [] then Some (JStr s) else None)"
  "mget (go_map (omit_opt n v)) k = (if n = k then v else None)"
  "mget (go_map (omit_list n f xs)) k = (if n = k \<and> xs \<noteq> [] then Some (JArr (map f xs)) else None)"
  "mget (go_map (omit_int n i)) k = (if n = k \<and> i \<noteq> 0 then Some (JInt i) else None)"
  "mget (go_map (omit_map n mp)) k =
     (if n = k \<and> mp \<noteq> Some [] then map_option JObj mp else None)"
  by (auto simp: go_map_def omit_str_def omit_opt_def omit_list_def omit_int_def omit_map_def mget_Cons
      split: option.split)

lemma go_map_keys: "set (map fst (go_map m)) = set (map fst m)"
proof -
  have "k \<in> set (map fst (go_map m)) \<longleftrightarrow> mget (go_map m) k \<noteq> None" for k
    by (simp add: mget_def map_of_eq_None_iff)
  then show ?thesis by (auto simp: mget_go_map map_of_eq_None_iff)
qed

definition keys_in :: "string list \<Rightarrow> jobj \<Rightarrow> bool" where
  "keys_in names m = list_all (\<lambda>p. fst p \<in> set names) m"

lemma no_unknown_keys: "keys_in names m \<Longrightarrow> rejectUnknownKeys (go_map m) names path = None"
proof -
  assume "keys_in names m"
  then have "\<forall>k \<in> set (map fst (go_map m)). k \<in> set names"
    unfolding go_map_keys by (auto simp: keys_in_def list_all_iff)
  then have "find (\<lambda>k. k \<notin> set names) (map fst (go_map m)) = None"
    by (simp add: find_None_iff)
  then show ?thesis by (simp add: rejectUnknownKeys_def)
qed

lemma keys_in_simps [simp]:
  "keys_in names []" "keys_in names (p # r) \<longleftrightarrow> fst p \<in> set names \<and> keys_in names r"
  "keys_in names (xs @ ys) \<longleftrightarrow> keys_in names xs \<and> keys_in names ys"
  by (simp_all add: keys_in_def)

lemma keys_in_pieces [simp]:
  "n \<in> set names \<Longrightarrow> keys_in names (omit_str n s)"
  "n \<in> set names \<Longrightarrow> keys_in names (omit_opt n v)"
  "n \<in> set names \<Longrightarrow> keys_in names (omit_list n f xs)"
  "n \<in> set names \<Longrightarrow> keys_in names (omit_int n i)"
  "n \<in> set names \<Longrightarrow> keys_in names (omit_map n mp)"
  by (simp_all add: keys_in_def omit_str_def omit_opt_def omit_list_def omit_int_def omit_map_def
      split: option.split)

section \<open>Defaults\<close>

definition trimmed :: "string \<Rightarrow> bool" where
  "trimmed s = (trim_space s = s)"

definition gateway_config_ok :: "jobj option \<Rightarrow> bool" where
  "gateway_config_ok c = (case c of None \<Rightarrow> True
     | Some kv \<Rightarrow> kv \<noteq> [] \<and> distinct (map fst kv) \<and>
         list_all (\<lambda>(k, v). k \<noteq> [] \<and> trimmed k \<and> (case v of JObj o' \<Rightarrow> jclone_obj o' = o' | _ \<Rightarrow> False)) kv)"

text \<open>Defaults the strict decoder can return, and whose JSON loses nothing.\<close>

definition defaults_ok :: "chain_defaults \<Rightarrow> bool" where
  "defaults_ok d =
     (trimmed (cd_Model d) \<and> provider_model_ok (cd_Model d) \<and>
      trimmed (cd_STTModel d) \<and> provider_model_ok (cd_STTModel d) \<and>
      trimmed (cd_TTSModel d) \<and> provider_model_ok (cd_TTSModel d) \<and> strict_system (cd_System d) \<and>
      normal_slice (cd_Tools d) \<and> list_all (\<lambda>t. strict_tool t \<and> normal_tool t) (elems (cd_Tools d)) \<and>
      normal_slice (cd_GatewayTools d) \<and> names_ok (elems (cd_GatewayTools d)) \<and>
      gateway_config_ok (cd_GatewayToolConfig d) \<and> in_int64 (cd_MaxTokens d) \<and> opt_ok in_int64 (cd_TopK d) \<and>
      normal_slice (cd_StopSequences d) \<and> opt_ok normal_format (cd_OutputFormat d) \<and>
      opt_ok normal_output (cd_Output d) \<and> opt_ok normal_voice (cd_Voice d) \<and>
      normal_map (cd_Extensions d) \<and> normal_map (cd_Metadata d))"

lemma model_roundtrip:
  assumes "mget obj key = (if s \<noteq> [] then Some (JStr s) else None)" "trimmed s" "provider_model_ok s"
  shows "model_member param obj key = Inr s"
  using assms provider_model_None [of s "prefixPath param key"]
  by (auto simp: model_member_def decodeOptionalStringField_def isNullOrEmptyJSON_def unmarshal_string_def
      trimmed_def Let_def)

lemma optional_roundtrip:
  assumes "\<And>x. v = Some x \<Longrightarrow> f x \<noteq> JNull \<and> d (f x) = Inr x"
  shows "decode_optional d (map_option f v) = Inr v"
  using assms by (cases v) (simp_all add: decode_optional_def)

lemma tool_names_roundtrip:
  "names_ok ns \<Longrightarrow> set ns \<inter> set seen = {} \<Longrightarrow> tool_names field i seen ns = Inr ns"
  by (induction ns arbitrary: i seen) (auto simp: names_ok_def Let_def)

lemma gateway_entries_roundtrip:
  assumes "distinct (map fst (acc @ kv))"
    and "list_all (\<lambda>(k, v). k \<noteq> [] \<and> trimmed k \<and> (case v of JObj o' \<Rightarrow> jclone_obj o' = o' | _ \<Rightarrow> False)) kv"
  shows "gateway_entries param kv acc = Inr (acc @ kv)"
  using assms
proof (induction kv arbitrary: acc)
  case (Cons p kv)
  obtain k v where p: "p = (k, v)" by (cases p)
  obtain o' where v: "v = JObj o'" "jclone_obj o' = o'"
    using Cons.prems(2) p by (auto split: json.splits)
  have "k \<notin> fst ` set acc" using Cons.prems(1) p by auto
  then have "mput k v acc = acc @ [(k, v)]"
    unfolding mput_def by (induction acc) auto
  then show ?case
    using Cons.IH [of "acc @ [(k, v)]"] Cons.prems p v
    by (simp add: gateway_entry_def Let_def trimmed_def as_map_def)
qed simp

lemma config_roundtrip:
  assumes "gateway_config_ok c"
  shows "unmarshalGatewayToolConfigStrict (if c \<noteq> Some [] then map_option JObj c else None) param = Inr c"
proof (cases c)
  case (Some kv)
  then have kv: "kv \<noteq> []" "distinct (map fst kv)"
    "list_all (\<lambda>(k, v). k \<noteq> [] \<and> trimmed k \<and> (case v of JObj o' \<Rightarrow> jclone_obj o' = o' | _ \<Rightarrow> False)) kv"
    using assms by (simp_all add: gateway_config_ok_def)
  show ?thesis
    using kv gateway_entries_roundtrip [of "[]" kv param]
    by (simp add: Some unmarshalGatewayToolConfigStrict_def decode_optional_def go_map_distinct)
qed (simp add: unmarshalGatewayToolConfigStrict_def decode_optional_def)

lemma loose_roundtrip:
  "normal_map v \<Longrightarrow>
   unmarshalLooseObjectStrict (if v \<noteq> Some [] then map_option JObj v else None) param = Inr v"
  by (cases v) (auto simp: unmarshalLooseObjectStrict_def decode_optional_def as_map_def normal_map_def)

definition defaults_members :: "chain_defaults \<Rightarrow> jobj" where
  "defaults_members d = (case json_of_defaults d of JObj m \<Rightarrow> m | _ \<Rightarrow> [])"

lemma json_of_defaults_members: "json_of_defaults d = JObj (defaults_members d)"
  by (simp add: defaults_members_def json_of_defaults_def)

definition system_members :: "content \<Rightarrow> jobj" where
  "system_members c = (case c of CNil \<Rightarrow> [] | c \<Rightarrow> [(''system'', json_of_any c)])"

lemma defaults_members_eq:
  "defaults_members d =
     omit_str ''model'' (cd_Model d) @ system_members (cd_System d)
       @ omit_list ''tools'' json_of_tool (elems (cd_Tools d))
       @ omit_list ''gateway_tools'' JStr (elems (cd_GatewayTools d))
       @ omit_map ''gateway_tool_config'' (cd_GatewayToolConfig d)
       @ omit_opt ''tool_choice'' (map_option json_of_tool_choice (cd_ToolChoice d))
       @ omit_int ''max_tokens'' (cd_MaxTokens d)
       @ omit_opt ''temperature'' (map_option JNum (cd_Temperature d))
       @ omit_opt ''top_p'' (map_option JNum (cd_TopP d))
       @ omit_opt ''top_k'' (map_option JInt (cd_TopK d))
       @ omit_list ''stop_sequences'' JStr (elems (cd_StopSequences d))
       @ omit_str ''stt_model'' (cd_STTModel d)
       @ omit_str ''tts_model'' (cd_TTSModel d)
       @ omit_opt ''output_format'' (map_option json_of_output_format (cd_OutputFormat d))
       @ omit_opt ''output'' (map_option json_of_output_config (cd_Output d))
       @ omit_opt ''voice'' (map_option json_of_voice_config (cd_Voice d))
       @ omit_map ''extensions'' (cd_Extensions d)
       @ omit_map ''metadata'' (cd_Metadata d)"
  by (simp add: defaults_members_def json_of_defaults_def system_members_def)

lemma system_case:
  "(case c of CNil \<Rightarrow> None | c \<Rightarrow> Some (json_of_any c)) = (if c = CNil then None else Some (json_of_any c))"
  by (cases c) simp_all

lemma system_member [simp]:
  "mget (go_map (system_members c)) k =
     (if k = ''system'' \<and> c \<noteq> CNil then Some (json_of_any c) else None)"
  by (cases c) (auto simp: system_members_def go_map_def mget_Cons)

lemma system_keys [simp]: "''system'' \<in> set names \<Longrightarrow> keys_in names (system_members c)"
  by (simp add: system_members_def split: content.split)

lemma json_of_defaults_ne [simp]: "json_of_defaults d \<noteq> JNull"
  by (simp add: json_of_defaults_members)

lemma default_keys_known: "rejectUnknownKeys (go_map (defaults_members d)) default_keys path = None"
proof (rule no_unknown_keys)
  have "list_all (\<lambda>k. k \<in> set default_keys) default_keys"
    by (simp add: list_all_iff)
  then show "keys_in default_keys (defaults_members d)"
    by (simp add: defaults_members_eq default_keys_def)
qed

lemma strings_member:
  "normal_slice s \<Longrightarrow>
   decode_optional (\<lambda>v. orElse e (as_strings v)) (if elems s \<noteq> [] then Some (JArr (map JStr (elems s))) else None)
     = Inr s"
  by (cases s) (auto simp: decode_optional_def normal_slice_def)

lemma names_member:
  "normal_slice s \<Longrightarrow> names_ok (elems s) \<Longrightarrow>
   decode_optional (\<lambda>v. parseRunToolNames v f) (if elems s \<noteq> [] then Some (JArr (map JStr (elems s))) else None)
     = Inr s"
  by (cases s) (auto simp: decode_optional_def normal_slice_def parseRunToolNames_def tool_names_roundtrip)

lemma tools_member:
  assumes "normal_slice s" "list_all (\<lambda>t. strict_tool t \<and> normal_tool t) (elems s)"
  shows "decode_optional (decode_tools path)
     (if elems s \<noteq> [] then Some (JArr (map json_of_tool (elems s))) else None) = Inr s"
proof (cases s)
  case (Some ts)
  then have "decode_each (\<lambda>i x. unmarshalToolStrict x (path @ at_index i)) 0 (map json_of_tool ts) = Inr ts"
    using assms(2) by (intro decode_each_map) (simp add: list_all_iff strict_tool_roundtrip)
  then show ?thesis
    using assms(1) by (simp add: Some normal_slice_def decode_optional_def decode_tools_def)
qed (simp add: decode_optional_def)

lemma int_member:
  "in_int64 i \<Longrightarrow>
   decode_optional (\<lambda>v. orElse e (as_int v)) (if i \<noteq> 0 then Some (JInt i) else None)
     = Inr (if i = 0 then None else Some i)"
  by (simp add: decode_optional_def)

lemma optional_member:
  "opt_ok P v \<Longrightarrow> (\<And>x. P x \<Longrightarrow> f x \<noteq> JNull \<and> d (f x) = Some x) \<Longrightarrow>
   decode_optional (\<lambda>j. orElse e (d j)) (map_option f v) = Inr v"
  by (cases v) (simp_all add: decode_optional_def)

lemma any_member:
  "(\<And>x. f x \<noteq> JNull \<and> d (f x) = Some x) \<Longrightarrow>
   decode_optional (\<lambda>j. orElse e (d j)) (map_option f v) = Inr v"
  by (cases v) (simp_all add: decode_optional_def)

lemma defaults_members_roundtrip:
  assumes "defaults_ok d"
  shows "decode_defaults (go_map (defaults_members d)) param = Inr d"
proof -
  define obj where "obj = go_map (defaults_members d)"
  note obj_simps = obj_def defaults_members_eq member_append
  have models: "model_member param obj ''model'' = Inr (cd_Model d)"
      "model_member param obj ''stt_model'' = Inr (cd_STTModel d)"
      "model_member param obj ''tts_model'' = Inr (cd_TTSModel d)"
    using assms by (simp_all add: obj_simps defaults_ok_def model_roundtrip)
  have m1: "mget obj ''system'' = (if cd_System d = CNil then None else Some (json_of_any (cd_System d)))"
      "mget obj ''tools'' = (if elems (cd_Tools d) \<noteq> [] then Some (JArr (map json_of_tool (elems (cd_Tools d)))) else None)"
      "mget obj ''gateway_tools'' =
         (if elems (cd_GatewayTools d) \<noteq> [] then Some (JArr (map JStr (elems (cd_GatewayTools d)))) else None)"
      "mget obj ''gateway_tool_config'' =
         (if cd_GatewayToolConfig d \<noteq> Some [] then map_option JObj (cd_GatewayToolConfig d) else None)"
      "mget obj ''tool_choice'' = map_option json_of_tool_choice (cd_ToolChoice d)"
      "mget obj ''max_tokens'' = (if cd_MaxTokens d \<noteq> 0 then Some (JInt (cd_MaxTokens d)) else None)"
    by (simp_all add: obj_simps)
  have m2: "mget obj ''temperature'' = map_option JNum (cd_Temperature d)"
      "mget obj ''top_p'' = map_option JNum (cd_TopP d)" "mget obj ''top_k'' = map_option JInt (cd_TopK d)"
      "mget obj ''stop_sequences'' =
         (if elems (cd_StopSequences d) \<noteq> [] then Some (JArr (map JStr (elems (cd_StopSequences d)))) else None)"
      "mget obj ''output_format'' = map_option json_of_output_format (cd_OutputFormat d)"
      "mget obj ''output'' = map_option json_of_output_config (cd_Output d)"
      "mget obj ''voice'' = map_option json_of_voice_config (cd_Voice d)"
      "mget obj ''extensions'' = (if cd_Extensions d \<noteq> Some [] then map_option JObj (cd_Extensions d) else None)"
      "mget obj ''metadata'' = (if cd_Metadata d \<noteq> Some [] then map_option JObj (cd_Metadata d) else None)"
    by (simp_all add: obj_simps)
  note ok = assms [unfolded defaults_ok_def]
  have f1: "decode_optional (\<lambda>v. onError (system_error (prefixPath param ''system'')) (unmarshalSystemStrict v))
      (mget obj ''system'') = Inr (if cd_System d = CNil then None else Some (cd_System d))"
    using strict_system_roundtrip [of "cd_System d"] ok unfolding m1 system_case by blast
  have f2: "decode_optional (decode_tools (prefixPath param ''tools'')) (mget obj ''tools'') = Inr (cd_Tools d)"
    "decode_optional (\<lambda>v. parseRunToolNames v (prefixPath param ''gateway_tools'')) (mget obj ''gateway_tools'')
      = Inr (cd_GatewayTools d)"
    "unmarshalGatewayToolConfigStrict (mget obj ''gateway_tool_config'') (prefixPath param ''gateway_tool_config'')
      = Inr (cd_GatewayToolConfig d)"
    using ok unfolding m1 by (blast intro: tools_member names_member config_roundtrip)+
  have f3: "struct_member param obj ''tool_choice'' (tool_choice_of_json True) e = Inr (cd_ToolChoice d)" for e
    unfolding struct_member_def m1 by (rule any_member) (simp add: tool_choice_roundtrip)
  have f4: "plain_member param obj ''max_tokens'' as_int e
      = Inr (if cd_MaxTokens d = 0 then None else Some (cd_MaxTokens d))" for e
    unfolding plain_member_def m1 using ok by (blast intro: int_member)
  have f5: "plain_member param obj ''temperature'' as_float e = Inr (cd_Temperature d)"
      "plain_member param obj ''top_p'' as_float e = Inr (cd_TopP d)" for e
    unfolding plain_member_def m2 by (rule any_member, simp)+
  have f6: "plain_member param obj ''top_k'' as_int e = Inr (cd_TopK d)" for e
    unfolding plain_member_def m2 using ok by (auto intro!: optional_member [of in_int64])
  have f6': "plain_member param obj ''stop_sequences'' as_strings e = Inr (cd_StopSequences d)" for e
    unfolding plain_member_def m2 using ok by (blast intro: strings_member)
  have f7: "struct_member param obj ''output_format'' (output_format_of_json True) e = Inr (cd_OutputFormat d)"
      "struct_member param obj ''output'' (output_config_of_json True) e = Inr (cd_Output d)" for e
    unfolding struct_member_def m2 using ok
    by (auto intro!: optional_member [of normal_format] optional_member [of normal_output]
        simp: output_format_roundtrip output_config_roundtrip)
  have f8: "decode_optional (\<lambda>v. decode_voice v (prefixPath param ''voice'') (prefixPath param)) (mget obj ''voice'')
      = Inr (cd_Voice d)"
    unfolding m2 using ok by (blast intro: voice_roundtrip)
  have f9: "unmarshalLooseObjectStrict (mget obj ''extensions'') q = Inr (cd_Extensions d)"
      "unmarshalLooseObjectStrict (mget obj ''metadata'') q = Inr (cd_Metadata d)" for q
    unfolding m2 using ok by (blast intro: loose_roundtrip)+
  have keys: "rejectUnknownKeys obj default_keys path = None" for path
    unfolding obj_def by (rule default_keys_known)
  have sys: "system_of (if cd_System d = CNil then None else Some (cd_System d)) = cd_System d"
    by (simp add: system_of_def)
  have tok: "given (if cd_MaxTokens d = 0 then None else Some (cd_MaxTokens d)) 0 = cd_MaxTokens d"
    by (simp add: given_def)
  show ?thesis
    unfolding obj_def [symmetric] decode_defaults_def keys models f1 f2 f3 f4 f5 f6 f6' f7 f8 f9
      checked_None andThen_simps sys tok
    by (cases d) simp
qed

lemma defaults_roundtrip:
  "defaults_ok d \<Longrightarrow> unmarshalChainDefaultsStrict (Some (json_of_defaults d)) param = Inr d"
  unfolding unmarshalChainDefaultsStrict_def json_of_defaults_members
  by (simp add: decode_optional_def defaults_members_roundtrip given_def)

section \<open>Frames\<close>

definition json_of_frame :: "client_frame \<Rightarrow> json" where
  "json_of_frame f =
     (case f of
        ChainStartFrame key p \<Rightarrow>
          JObj ([(''type'', JStr ''chain.start''), (''idempotency_key'', JStr key)]
            @ omit_str ''external_session_id'' (sp_ExternalSessionID p)
            @ [(''defaults'', json_of_defaults (sp_Defaults p))]
            @ omit_list ''history'' message_MarshalJSON (sp_History p)
            @ omit_map ''metadata'' (sp_Metadata p))
      | ChainAttachFrame key a \<Rightarrow>
          JObj ([(''type'', JStr ''chain.attach''), (''idempotency_key'', JStr key),
             (''chain_id'', JStr (af_ChainID a)), (''resume_token'', JStr (af_ResumeToken a))]
            @ omit_int ''after_event_id'' (af_AfterEventID a)
            @ (if af_RequireExactReplay a then [(''require_exact_replay'', JBool True)] else [])
            @ (if af_Takeover a then [(''takeover'', JBool True)] else []))
      | ChainUpdateFrame key d \<Rightarrow>
          JObj [(''type'', JStr ''chain.update''), (''idempotency_key'', JStr key),
            (''defaults'', json_of_defaults d)]
      | RunStartFrame key p \<Rightarrow>
          JObj ([(''type'', JStr ''run.start''), (''idempotency_key'', JStr key),
             (''input'', json_of_messages (rp_Input p))]
            @ omit_opt ''overrides'' (map_option json_of_defaults (rp_Overrides p))
            @ omit_map ''metadata'' (rp_Metadata p))
      | ClientToolResultFrame key r \<Rightarrow>
          JObj ([(''type'', JStr ''client_tool.result''), (''idempotency_key'', JStr key),
             (''run_id'', JStr (tf_RunID r)), (''execution_id'', JStr (tf_ExecutionID r))]
            @ omit_list ''content'' json_of_block (elems (tf_Content r))
            @ (if tf_IsError r then [(''is_error'', JBool True)] else []))
      | RunCancelFrame key rid \<Rightarrow>
          JObj [(''type'', JStr ''run.cancel''), (''idempotency_key'', JStr key), (''run_id'', JStr rid)]
      | ChainCloseFrame key \<Rightarrow>
          JObj [(''type'', JStr ''chain.close''), (''idempotency_key'', JStr key)])"

definition nonblank :: "string \<Rightarrow> bool" where
  "nonblank s = (trim_space s \<noteq> [])"

definition frame_ok :: "client_frame \<Rightarrow> bool" where
  "frame_ok f =
     (case f of
        ChainStartFrame key p \<Rightarrow> key \<noteq> [] \<and> trimmed key \<and> trimmed (sp_ExternalSessionID p) \<and>
          defaults_ok (sp_Defaults p) \<and> list_all strict_message (sp_History p) \<and> normal_map (sp_Metadata p)
      | ChainAttachFrame key a \<Rightarrow> nonblank key \<and> nonblank (af_ChainID a) \<and> nonblank (af_ResumeToken a) \<and>
          in_int64 (af_AfterEventID a)
      | ChainUpdateFrame key d \<Rightarrow> key \<noteq> [] \<and> trimmed key \<and> defaults_ok d
      | RunStartFrame key p \<Rightarrow> key \<noteq> [] \<and> trimmed key \<and> rp_Input p \<noteq> [] \<and>
          list_all strict_message (rp_Input p) \<and> opt_ok defaults_ok (rp_Overrides p) \<and>
          normal_map (rp_Metadata p)
      | ClientToolResultFrame key r \<Rightarrow> nonblank key \<and> nonblank (tf_RunID r) \<and> nonblank (tf_ExecutionID r) \<and>
          tf_Content r \<noteq> None \<and> list_all well_tagged (elems (tf_Content r))
      | RunCancelFrame key rid \<Rightarrow> nonblank key \<and> nonblank rid
      | ChainCloseFrame key \<Rightarrow> nonblank key)"

lemma frame_types [simp]:
  "trim_space ''chain.start'' = ''chain.start''" "trim_space ''chain.attach'' = ''chain.attach''"
  "trim_space ''chain.update'' = ''chain.update''" "trim_space ''run.start'' = ''run.start''"
  "trim_space ''client_tool.result'' = ''client_tool.result''" "trim_space ''run.cancel'' = ''run.cancel''"
  "trim_space ''chain.close'' = ''chain.close''"
  by code_simp+

lemma key_member:
  "mget obj ''idempotency_key'' = Some (JStr key) \<Longrightarrow> trimmed key \<Longrightarrow>
   decodeOptionalStringField obj ''idempotency_key'' = key"
  by (simp add: decodeOptionalStringField_def isNullOrEmptyJSON_def unmarshal_string_def trimmed_def)

lemma messages_member:
  assumes "list_all strict_message ms"
  shows "ms \<noteq> [] \<Longrightarrow> unmarshalChainMessagesStrict (Some (JArr (map message_MarshalJSON ms))) param b = Inr ms"
proof -
  have "decode_each (\<lambda>i x. unmarshalMessageStrict x (param @ at_index i)) 0 (map message_MarshalJSON ms) = Inr ms"
    using assms by (intro decode_each_map) (simp add: list_all_iff strict_message_roundtrip)
  then show "ms \<noteq> [] \<Longrightarrow> unmarshalChainMessagesStrict (Some (JArr (map message_MarshalJSON ms))) param b = Inr ms"
    by (simp add: unmarshalChainMessagesStrict_def isNullOrEmptyJSON_def unmarshal_raw_list_def)
qed

lemma start_frame_trip:
  assumes "frame_ok (ChainStartFrame key p)"
  shows "unmarshalChainStartFrameStrict (json_of_frame (ChainStartFrame key p)) = Inr (ChainStartFrame key p)"
proof -
  obtain m where j: "json_of_frame (ChainStartFrame key p) = JObj m"
    and m: "m = [(''type'', JStr ''chain.start''), (''idempotency_key'', JStr key)]
            @ omit_str ''external_session_id'' (sp_ExternalSessionID p)
            @ [(''defaults'', json_of_defaults (sp_Defaults p))]
            @ omit_list ''history'' message_MarshalJSON (sp_History p)
            @ omit_map ''metadata'' (sp_Metadata p)"
    by (simp add: json_of_frame_def)
  have ok: "key \<noteq> []" "trimmed key" "trimmed (sp_ExternalSessionID p)" "defaults_ok (sp_Defaults p)"
      "list_all strict_message (sp_History p)" "normal_map (sp_Metadata p)"
    using assms by (simp_all add: frame_ok_def)
  have keys: "rejectUnknownKeys (go_map m) [''type'', ''idempotency_key'', ''external_session_id'', ''defaults'',
      ''history'', ''metadata''] path = None" for path
    by (rule no_unknown_keys) (simp add: m)
  have mem: "mget (go_map m) ''idempotency_key'' = Some (JStr key)"
      "mget (go_map m) ''external_session_id'' =
         (if sp_ExternalSessionID p \<noteq> [] then Some (JStr (sp_ExternalSessionID p)) else None)"
      "mget (go_map m) ''defaults'' = Some (json_of_defaults (sp_Defaults p))"
      "mget (go_map m) ''history'' =
         (if sp_History p \<noteq> [] then Some (JArr (map message_MarshalJSON (sp_History p))) else None)"
      "mget (go_map m) ''metadata'' = (if sp_Metadata p \<noteq> Some [] then map_option JObj (sp_Metadata p) else None)"
    by (simp_all add: m member_append member_Cons)
  have ext: "decodeOptionalStringField (go_map m) ''external_session_id'' = sp_ExternalSessionID p"
    using ok(3) by (simp add: decodeOptionalStringField_def isNullOrEmptyJSON_def mem unmarshal_string_def trimmed_def)
  have hist: "unmarshalChainMessagesStrict (mget (go_map m) ''history'') q False = Inr (sp_History p)" for q
  proof (cases "sp_History p = []")
    case True
    then show ?thesis by (simp add: mem unmarshalChainMessagesStrict_def isNullOrEmptyJSON_def)
  next
    case False
    then show ?thesis using messages_member [OF ok(5)] by (simp add: mem)
  qed
  have meta: "unmarshalLooseObjectStrict (mget (go_map m) ''metadata'') q = Inr (sp_Metadata p)" for q
    unfolding mem using ok(6) by (rule loose_roundtrip)
  show ?thesis
    unfolding unmarshalChainStartFrameStrict_def keyed_frame_def j
    using ok(1)
    by (simp add: keys key_member [OF mem(1) ok(2)] parseChainStartPayloadStrict_def ext hist meta
        mem(3) defaults_roundtrip [OF ok(4)] Let_def)
qed

lemma update_frame_trip:
  assumes "frame_ok (ChainUpdateFrame key d)"
  shows "unmarshalChainUpdateFrameStrict (json_of_frame (ChainUpdateFrame key d)) = Inr (ChainUpdateFrame key d)"
proof -
  obtain m where j: "json_of_frame (ChainUpdateFrame key d) = JObj m"
    and m: "m = [(''type'', JStr ''chain.update''), (''idempotency_key'', JStr key),
            (''defaults'', json_of_defaults d)]"
    by (simp add: json_of_frame_def)
  have ok: "key \<noteq> []" "trimmed key" "defaults_ok d"
    using assms by (simp_all add: frame_ok_def)
  have keys: "rejectUnknownKeys (go_map m) [''type'', ''idempotency_key'', ''defaults''] path = None" for path
    by (rule no_unknown_keys) (simp add: m)
  have mem: "mget (go_map m) ''idempotency_key'' = Some (JStr key)"
      "mget (go_map m) ''defaults'' = Some (json_of_defaults d)"
    by (simp_all add: m member_Cons)
  show ?thesis
    unfolding unmarshalChainUpdateFrameStrict_def keyed_frame_def j
    using ok(1)
    by (simp add: keys key_member [OF mem(1) ok(2)] parseChainUpdatePayloadStrict_def mem(2)
        defaults_roundtrip [OF ok(3)] Let_def)
qed

lemma run_frame_trip:
  assumes "frame_ok (RunStartFrame key p)"
  shows "unmarshalRunStartFrameStrict (json_of_frame (RunStartFrame key p)) = Inr (RunStartFrame key p)"
proof -
  have ok: "key \<noteq> []" "trimmed key" "rp_Input p \<noteq> []" "list_all strict_message (rp_Input p)"
      "opt_ok defaults_ok (rp_Overrides p)" "normal_map (rp_Metadata p)"
    using assms by (simp_all add: frame_ok_def)
  obtain m where j: "json_of_frame (RunStartFrame key p) = JObj m"
    and m: "m = [(''type'', JStr ''run.start''), (''idempotency_key'', JStr key),
             (''input'', JArr (map message_MarshalJSON (rp_Input p)))]
            @ omit_opt ''overrides'' (map_option json_of_defaults (rp_Overrides p))
            @ omit_map ''metadata'' (rp_Metadata p)"
    using ok(3) by (simp add: json_of_frame_def json_of_messages_def)
  have keys: "rejectUnknownKeys (go_map m) [''type'', ''idempotency_key'', ''input'', ''overrides'', ''metadata'']
      path = None" for path
    by (rule no_unknown_keys) (simp add: m)
  have mem: "mget (go_map m) ''idempotency_key'' = Some (JStr key)"
      "mget (go_map m) ''input'' = Some (JArr (map message_MarshalJSON (rp_Input p)))"
      "mget (go_map m) ''overrides'' = map_option json_of_defaults (rp_Overrides p)"
      "mget (go_map m) ''metadata'' = (if rp_Metadata p \<noteq> Some [] then map_option JObj (rp_Metadata p) else None)"
    by (simp_all add: m member_append member_Cons)
  have over: "(if isNullOrEmptyJSON (mget (go_map m) ''overrides'') then Inr None
        else andThen (unmarshalChainDefaultsStrict (mget (go_map m) ''overrides'') q) (\<lambda>d. Inr (Some d)))
      = Inr (rp_Overrides p)" for q
    using ok(5)
    by (cases "rp_Overrides p") (simp_all add: mem(3) isNullOrEmptyJSON_def defaults_roundtrip)
  have meta: "unmarshalLooseObjectStrict (mget (go_map m) ''metadata'') q = Inr (rp_Metadata p)" for q
    unfolding mem using ok(6) by (rule loose_roundtrip)
  have payload: "parseRunStartPayloadStrict (go_map m) [] = Inr p"
    unfolding parseRunStartPayloadStrict_def over meta mem(2)
    using messages_member [OF ok(4) ok(3)] by simp
  show ?thesis
    unfolding unmarshalRunStartFrameStrict_def keyed_frame_def j
    using ok(1) by (simp add: keys key_member [OF mem(1) ok(2)] payload Let_def)
qed

lemma required_nonblank [simp]: "nonblank v \<Longrightarrow> required n v = Inr ()"
  by (simp add: required_def nonblank_def)

definition flag :: "string \<Rightarrow> bool \<Rightarrow> jobj" where
  "flag n b = (if b then [(n, JBool True)] else [])"

lemma flag_simps [simp]:
  "jfield n as_bool False (flag n b) = Some b"
  "\<not> equal_fold k n \<Longrightarrow> jfield n d acc (flag k b) = Some acc"
  "\<not> equal_fold k n \<Longrightarrow> jfield_nil n d' acc' (flag k b) = Some acc'"
  "list_ex (equal_fold k) names \<Longrightarrow> known_fields dis names (flag k b)"
  by (simp_all add: flag_def)

lemma attach_frame_trip:
  assumes "frame_ok (ChainAttachFrame key a)"
  shows "unmarshalChainAttachFrameStrict (json_of_frame (ChainAttachFrame key a)) = Inr (ChainAttachFrame key a)"
  using assms
  by (cases a) (simp add: json_of_frame_def frame_ok_def unmarshalChainAttachFrameStrict_def field_eval
      flag_def [symmetric])

lemma tool_result_frame_trip:
  assumes "frame_ok (ClientToolResultFrame key r)"
  shows "unmarshalClientToolResultFrameStrict (json_of_frame (ClientToolResultFrame key r))
    = Inr (ClientToolResultFrame key r)"
proof -
  obtain rid ex bs e where r: "r = \<lparr>tf_RunID = rid, tf_ExecutionID = ex, tf_Content = Some bs, tf_IsError = e\<rparr>"
    using assms by (cases r) (auto simp: frame_ok_def)
  have bs: "those (map UnmarshalContentBlock (elems (if bs = [] then None else Some (map json_of_block bs)))) = Some bs"
    using assms those_map_inverse [of bs UnmarshalContentBlock json_of_block]
    by (auto simp: frame_ok_def r list_all_iff block_roundtrip)
  show ?thesis
    using assms bs
    by (simp add: json_of_frame_def frame_ok_def r unmarshalClientToolResultFrameStrict_def field_eval
        flag_def [symmetric] jfield_nil_omit_items)
qed

lemma cancel_frame_trip:
  "frame_ok (RunCancelFrame key rid) \<Longrightarrow>
   unmarshalRunCancelFrameStrict (json_of_frame (RunCancelFrame key rid)) = Inr (RunCancelFrame key rid)"
  by (simp add: json_of_frame_def frame_ok_def unmarshalRunCancelFrameStrict_def field_eval)

lemma close_frame_trip:
  "frame_ok (ChainCloseFrame key) \<Longrightarrow>
   unmarshalChainCloseFrameStrict (json_of_frame (ChainCloseFrame key)) = Inr (ChainCloseFrame key)"
  by (simp add: json_of_frame_def frame_ok_def unmarshalChainCloseFrameStrict_def field_eval)

definition frame_type :: "client_frame \<Rightarrow> string" where
  "frame_type f =
     (case f of
        ChainStartFrame _ _ \<Rightarrow> ''chain.start'' | ChainAttachFrame _ _ \<Rightarrow> ''chain.attach''
      | ChainUpdateFrame _ _ \<Rightarrow> ''chain.update'' | RunStartFrame _ _ \<Rightarrow> ''run.start''
      | ClientToolResultFrame _ _ \<Rightarrow> ''client_tool.result'' | RunCancelFrame _ _ \<Rightarrow> ''run.cancel''
      | ChainCloseFrame _ \<Rightarrow> ''chain.close'')"

lemma frame_type_read:
  "Option.bind (as_struct (json_of_frame f)) (jstring ''type'') = Some (frame_type f)"
  by (cases f) (simp_all add: json_of_frame_def frame_type_def field_eval flag_def [symmetric])

lemma frame_trip: "frame_ok f \<Longrightarrow> UnmarshalChainClientFrameStrict (json_of_frame f) = Inr f"
  unfolding UnmarshalChainClientFrameStrict_def frame_type_read
  by (cases f) (simp_all add: frame_type_def Let_def start_frame_trip attach_frame_trip update_frame_trip
      run_frame_trip tool_result_frame_trip cancel_frame_trip close_frame_trip)

text \<open>A member of the defaults that must be a string is ignored when it is none.\<close>

lemma mistyped_model_ignored:
  "unmarshalChainDefaultsStrict (Some (JObj [(''model'', JInt 5)])) ''defaults'' = Inr zero_defaults"
  by code_simp

end
