(* ===== verification/ChainSocket.thy ===== *)
theory ChainSocket
  imports FrameTrip Executor ManagerRead
begin

text \<open>
  The websocket of a chain (\<open>pkg/gateway/handlers/chain_ws.go\<close>): the queue of a session, the dispatch of
  frames to the manager and the read loop. What the queue answers to an event is the sink of the
  environment; the writer goroutine, pings and deadlines are left out.
\<close>

section \<open>The send queue\<close>

definition chainWSQueueLimit :: nat where "chainWSQueueLimit = 256"
definition chainWSQueueBytes :: nat where "chainWSQueueBytes = 2 ^ 20"

text \<open>The channel of encoded events with the bytes it holds, and what the connection got: texts and at
  last the close frame.\<close>

record send_queue =
  sq_sendCh :: "string list"
  sq_queuedBytes :: nat
  sq_closed :: bool
  sq_written :: "string list"
  sq_closeFrame :: "(int \<times> string) option"

definition empty_queue :: send_queue where
  "empty_queue = \<lparr>sq_sendCh = [], sq_queuedBytes = 0, sq_closed = False, sq_written = [],
     sq_closeFrame = None\<rparr>"

definition closeInternal :: "int \<Rightarrow> string \<Rightarrow> string \<Rightarrow> send_queue \<Rightarrow> send_queue" where
  "closeInternal closeCode reason prelude q =
     (if sq_closed q then q
      else q\<lparr>sq_closed := True,
        sq_written := sq_written q @ (if prelude = [] then [] else [prelude]),
        sq_closeFrame := Some (closeCode, reason)\<rparr>)"

definition backpressure :: canonical_error where
  "backpressure = NewCanonicalError ErrorCodeTransportBackpressureExceeded
     ''outbound websocket backpressure exceeded''"

text \<open>\<open>enqueueEvent\<close> of an encoded event; \<open>notice\<close> is the encoding of the backpressure error. The channel
  cannot be full where its length was just checked.\<close>

definition enqueueEvent :: "string \<Rightarrow> string \<Rightarrow> send_queue \<Rightarrow> gerr option \<times> send_queue" where
  "enqueueEvent notice bytes q =
     (if sq_closed q then (Some (PlainErr ''websocket session is closed''), q)
      else if length (sq_sendCh q) \<ge> chainWSQueueLimit
           \<or> sq_queuedBytes q + length bytes > chainWSQueueBytes then
        (Some (CanonicalErr backpressure), closeInternal 1008 (err_Message backpressure) notice q)
      else (None, q\<lparr>sq_sendCh := sq_sendCh q @ [bytes],
              sq_queuedBytes := sq_queuedBytes q + length bytes\<rparr>))"

text \<open>One round of \<open>writerLoop\<close> with something to send; a closed channel is drained first.\<close>

definition write_one :: "send_queue \<Rightarrow> send_queue" where
  "write_one q =
     (case sq_sendCh q of
        [] \<Rightarrow> q
      | bytes # rest \<Rightarrow> q\<lparr>sq_sendCh := rest, sq_queuedBytes := sq_queuedBytes q - length bytes,
          sq_written := sq_written q @ (if sq_closeFrame q = None then [bytes] else [])\<rparr>)"

section \<open>A session\<close>

text \<open>The session with the manager it talks to: chain and attachment, the close frame if it is closed,
  and the events the handler itself has enqueued or sent before closing.\<close>

record 's ws_state =
  ws_manager :: "'s manager"
  ws_chain :: string
  ws_attachment :: string
  ws_closed :: "(int \<times> string) option"
  ws_sent :: "server_event list"

type_synonym ('s, 'a) wsop = "('s ws_state, gerr + 'a) state"

definition on_manager :: "('s manager, 'a) state \<Rightarrow> ('s ws_state, 'a) state" where
  "on_manager m = zoom ws_manager (\<lambda>mg w. w\<lparr>ws_manager := mg\<rparr>) m"

definition setAttachment :: "string \<Rightarrow> string \<Rightarrow> ('s ws_state, unit) state" where
  "setAttachment chainID attachmentID =
     modify (\<lambda>w. w\<lparr>ws_chain := trim_space chainID, ws_attachment := trim_space attachmentID\<rparr>)"

definition clearAttachment :: "('s ws_state, unit) state" where
  "clearAttachment = setAttachment [] []"

definition hasAttachment :: "'s ws_state \<Rightarrow> bool" where
  "hasAttachment w = (ws_chain w \<noteq> [] \<and> ws_attachment w \<noteq> [])"

text \<open>\<open>enqueueEvent\<close> as the sink of the environment answers it.\<close>

definition session_enqueue :: "runtime_env \<Rightarrow> server_event \<Rightarrow> ('s, unit) wsop" where
  "session_enqueue env event = do {
     closed \<leftarrow> gets ws_closed;
     if closed \<noteq> None then fail (PlainErr ''websocket session is closed'')
     else (case Option.bind (env_Send env) (\<lambda>send. send event) of
             Some e \<Rightarrow> fail e
           | None \<Rightarrow> do { modify (\<lambda>w. w\<lparr>ws_sent := ws_sent w @ [event]\<rparr>); ok () }) }"

definition close_session :: "int \<Rightarrow> string \<Rightarrow> server_event list \<Rightarrow> ('s ws_state, unit) state" where
  "close_session closeCode reason prelude =
     modify (\<lambda>w. if ws_closed w \<noteq> None then w
       else w\<lparr>ws_closed := Some (closeCode, reason), ws_sent := ws_sent w @ prelude\<rparr>)"

definition chainErrorEvent :: "string \<Rightarrow> string \<Rightarrow> gerr \<Rightarrow> server_event" where
  "chainErrorEvent chainID runID err =
     ChainErrorEvent 0 0
       (case err of
          CanonicalErr c \<Rightarrow>
            (let c1 = (if err_ChainID c = [] then WithChain chainID c else c) in
             if runID \<noteq> [] \<and> err_RunID c1 = [] then WithRun runID c1 else c1)
        | _ \<Rightarrow> WithRun runID (WithChain chainID
                 (NewCanonicalError ErrorCodeProtocolUnknownFrame ''request failed'')))"

definition closeWithCanonicalError :: "canonical_error \<Rightarrow> int \<Rightarrow> ('s ws_state, unit) state" where
  "closeWithCanonicalError err closeCode =
     close_session closeCode (err_Message err)
       [chainErrorEvent (err_ChainID err) (err_RunID err) (CanonicalErr err)]"

definition sendChainError :: "runtime_env \<Rightarrow> server_event \<Rightarrow> ('s ws_state, unit) state" where
  "sendChainError env event = do { _ \<leftarrow> session_enqueue env event; ret () }"

section \<open>Dispatch\<close>

definition frame_error :: "string \<Rightarrow> gerr" where
  "frame_error msg = CanonicalErr (NewCanonicalError ErrorCodeProtocolUnknownFrame msg)"

definition already_attached :: gerr where
  "already_attached = frame_error ''socket is already attached to a chain''"

definition not_attached :: gerr where
  "not_attached = frame_error ''chain.start or chain.attach is required before mutation''"

fun enqueue_all :: "runtime_env \<Rightarrow> server_event list \<Rightarrow> ('s, unit) wsop" where
  "enqueue_all env [] = ok ()"
| "enqueue_all env (e # es) = attempt (session_enqueue env e) (\<lambda>_. enqueue_all env es)"

text \<open>A frame that changes a chain needs one.\<close>

definition on_attached :: "(string \<Rightarrow> ('s, unit) wsop) \<Rightarrow> ('s, unit) wsop" where
  "on_attached f = do {
     chainID \<leftarrow> gets ws_chain;
     if chainID = [] then fail not_attached else f chainID }"

definition on_free :: "('s, unit) wsop \<Rightarrow> ('s, unit) wsop" where
  "on_free f = do {
     chainID \<leftarrow> gets ws_chain;
     if chainID \<noteq> [] then fail already_attached else f }"

definition dispatchChainFrame ::
  "'s world \<Rightarrow> principal \<Rightarrow> runtime_env \<Rightarrow> client_frame \<Rightarrow> ('s, unit) wsop" where
  "dispatchChainFrame W p env frame =
     (case frame of
        ChainStartFrame key payload \<Rightarrow>
          on_free (attempt (on_manager (StartChain W p env payload key)) (\<lambda>(event, attachmentID). do {
            setAttachment (se_ChainID event) attachmentID;
            (if attachmentID = [] then session_enqueue env (ChainStartedEvent event) else ok ()) }))
      | ChainAttachFrame key f \<Rightarrow>
          on_free (attempt (on_manager (AttachChain W p env f)) (\<lambda>(event, replay, attachmentID). do {
            setAttachment (ae_ChainID event) attachmentID;
            enqueue_all env replay }))
      | ChainUpdateFrame key patch \<Rightarrow>
          on_attached (\<lambda>c. attempt (on_manager (UpdateChain_op W c env patch key)) (\<lambda>_. ok ()))
      | RunStartFrame key payload \<Rightarrow>
          on_attached (\<lambda>c. attempt (on_manager (StartRunAsync W c env payload key)) (\<lambda>_. ok ()))
      | ClientToolResultFrame key f \<Rightarrow> on_attached (\<lambda>c. on_manager (SubmitClientToolResult W c f))
      | RunCancelFrame key runID \<Rightarrow> on_attached (\<lambda>c. on_manager (CancelRun W c runID))
      | ChainCloseFrame key \<Rightarrow> do {
          w \<leftarrow> gets (\<lambda>w. w);
          _ \<leftarrow> (if hasAttachment w
               then on_manager (Detach W (ws_chain w) (ws_attachment w) ''client_closed'') else ok ());
          clearAttachment;
          close_session 1000 ''chain closed'' [];
          ok () })"

section \<open>The read loop\<close>

text \<open>What \<open>ReadMessage\<close> returns: an error, of a normal closure or another, or a message.\<close>

datatype ws_input = ReadError bool gerr | BinaryMessage | TextMessage string

text \<open>\<open>err.Error()\<close>; \<open>jt\<close> is the text of the JSON error.\<close>

fun decode_error_text :: "string \<Rightarrow> decode_error \<Rightarrow> string" where
  "decode_error_text jt JsonError = jt"
| "decode_error_text jt (StrictDecodeError p m) = (if p \<noteq> [] then p @ '': '' @ m else m)"
| "decode_error_text jt (StrictWrapError p m) =
     (if p \<noteq> [] then p @ '': '' @ m @ jt else m @ jt)"

definition lost_lease :: canonical_error where
  "lost_lease = NewCanonicalError ErrorCodeChainAttachConflict ''attachment no longer owns the writer lease''"

definition decode_frame :: "'s world \<Rightarrow> string \<Rightarrow> client_frame decoded" where
  "decode_frame W data = andThen (orElse JsonError (w_parse W data)) UnmarshalChainClientFrameStrict"

text \<open>What the loop does with the result of a dispatch; the result says whether it goes on. An error of
  the protocol closes the session, any other is sent to the client.\<close>

definition protocol_violation :: "gerr \<Rightarrow> canonical_error option" where
  "protocol_violation err =
     (case err of
        CanonicalErr e \<Rightarrow> if err_Code e = ErrorCodeProtocolUnknownFrame then Some e else None
      | _ \<Rightarrow> None)"

definition after_dispatch :: "runtime_env \<Rightarrow> gerr + unit \<Rightarrow> ('s ws_state, bool) state" where
  "after_dispatch env r =
     (case r of
        Inr _ \<Rightarrow> ret True
      | Inl err \<Rightarrow>
          (case protocol_violation err of
             Some e \<Rightarrow> do { closeWithCanonicalError e 1008; ret False }
           | None \<Rightarrow> do {
               c \<leftarrow> gets ws_chain;
               sendChainError env (chainErrorEvent c [] err);
               ret True }))"

definition owns_lease :: "'s world \<Rightarrow> ('s ws_state, bool) state" where
  "owns_lease W = do {
     w \<leftarrow> gets (\<lambda>w. w);
     (if hasAttachment w then on_manager (OwnsAttachment W (ws_chain w) (ws_attachment w)) else ret True) }"

definition handle_frame ::
  "'s world \<Rightarrow> principal \<Rightarrow> runtime_env \<Rightarrow> client_frame \<Rightarrow> ('s ws_state, bool) state" where
  "handle_frame W p env frame = do {
     owns \<leftarrow> owns_lease W;
     (if \<not> owns then do {
        c \<leftarrow> gets ws_chain;
        closeWithCanonicalError (WithChain c lost_lease) 1008;
        ret False }
      else do {
        r \<leftarrow> dispatchChainFrame W p env frame;
        after_dispatch env r }) }"

text \<open>One round of the loop; the result says whether it goes on.\<close>

definition serve_input ::
  "'s world \<Rightarrow> (string \<Rightarrow> string) \<Rightarrow> principal \<Rightarrow> runtime_env \<Rightarrow> ws_input \<Rightarrow> ('s ws_state, bool) state" where
  "serve_input W jt p env input =
     (case input of
        ReadError normal err \<Rightarrow>
          if normal then ret False
          else do {
            c \<leftarrow> gets ws_chain;
            sendChainError env (chainErrorEvent c [] err);
            ret False }
      | BinaryMessage \<Rightarrow> do {
          closeWithCanonicalError (NewCanonicalError ErrorCodeProtocolUnknownFrame
            ''binary websocket frames are not supported'') 1003;
          ret False }
      | TextMessage data \<Rightarrow>
          (case decode_frame W data of
             Inl e \<Rightarrow> do {
               closeWithCanonicalError (NewCanonicalError ErrorCodeProtocolUnknownFrame
                 (decode_error_text (jt data) e)) 1008;
               ret False }
           | Inr frame \<Rightarrow> handle_frame W p env frame))"

text \<open>The deferred clean-up when the loop returns.\<close>

definition end_session :: "'s world \<Rightarrow> ('s ws_state, unit) state" where
  "end_session W = do {
     w \<leftarrow> gets (\<lambda>w. w);
     _ \<leftarrow> (if hasAttachment w
          then on_manager (Detach W (ws_chain w) (ws_attachment w) ''socket_closed'') else ok ());
     close_session 1000 ''bye'' [] }"

text \<open>The loop. It ends when a round says so; closing the session does not end it, so that frames which had
  been read into the buffer of the connection are still handled.\<close>

primrec serve :: "'s world \<Rightarrow> (string \<Rightarrow> string) \<Rightarrow> principal \<Rightarrow> runtime_env \<Rightarrow> ws_input list \<Rightarrow> ('s ws_state, unit) state" where
  "serve W jt p env [] = end_session W"
| "serve W jt p env (i # rest) = do {
     continue \<leftarrow> serve_input W jt p env i;
     (if continue then serve W jt p env rest else end_session W) }"

end
