(* ===== verification/SocketLaws.thy ===== *)
theory SocketLaws
  imports ChainSocket Lease Examples "HOL-Library.Sublist"
begin

text \<open>
  What holds of a chain's websocket: its queue is bounded and in order, it leaves other chains
  alone, and the lease is checked before its frames, save after a replayed start.
\<close>

section \<open>The send queue\<close>

definition queue_ok :: "send_queue \<Rightarrow> bool" where
  "queue_ok q =
     (length (sq_sendCh q) \<le> chainWSQueueLimit \<and> sq_queuedBytes q \<le> chainWSQueueBytes \<and>
      sq_queuedBytes q = sum_list (map length (sq_sendCh q)))"

lemma queue_ok_empty: "queue_ok empty_queue"
  by (simp add: queue_ok_def empty_queue_def)

lemma queue_ok_close: "queue_ok q \<Longrightarrow> queue_ok (closeInternal c r p q)"
  by (simp add: queue_ok_def closeInternal_def)

lemma queue_ok_enqueue: "queue_ok q \<Longrightarrow> queue_ok (snd (enqueueEvent n b q))"
  by (auto simp: enqueueEvent_def queue_ok_close) (auto simp: queue_ok_def)

lemma queue_ok_write: "queue_ok q \<Longrightarrow> queue_ok (write_one q)"
  by (auto simp: queue_ok_def write_one_def split: list.split)

text \<open>What the handler, the manager and the writer do to a queue, with what was accepted so far.\<close>

datatype queue_op = Enqueue string string | WriteOne | CloseQueue int string string

fun queue_step :: "queue_op \<Rightarrow> string list \<times> send_queue \<Rightarrow> string list \<times> send_queue" where
  "queue_step (Enqueue notice bytes) (accepted, q) =
     (case enqueueEvent notice bytes q of
        (None, q') \<Rightarrow> (accepted @ [bytes], q')
      | (Some _, q') \<Rightarrow> (accepted, q'))"
| "queue_step WriteOne (accepted, q) = (accepted, write_one q)"
| "queue_step (CloseQueue c r pre) (accepted, q) = (accepted, closeInternal c r pre q)"

definition delivered :: "string list \<Rightarrow> send_queue \<Rightarrow> bool" where
  "delivered accepted q =
     (if sq_closed q
      then sq_closeFrame q \<noteq> None \<and>
        (\<exists>sent notice. sq_written q = sent @ notice \<and> prefix sent accepted \<and> length notice \<le> 1)
      else sq_closeFrame q = None \<and> sq_written q @ sq_sendCh q = accepted)"

lemma delivered_close:
  assumes "delivered a q"
  shows "delivered a (closeInternal c r p q)"
proof (cases "sq_closed q")
  case False
  then have w: "prefix (sq_written q) a" using assms by (auto simp: delivered_def)
  have "\<exists>sent notice. sq_written q @ x = sent @ notice \<and> prefix sent a \<and> length notice \<le> 1"
    if "length x \<le> 1" for x using w that by blast
  from this [of "if p = [] then [] else [p]"] show ?thesis
    using False by (simp add: delivered_def closeInternal_def del: One_nat_def split: if_splits)
qed (use assms in \<open>simp add: delivered_def closeInternal_def\<close>)

lemma delivered_write: "delivered a q \<Longrightarrow> delivered a (write_one q)"
  by (cases "sq_sendCh q") (auto simp: delivered_def write_one_def)

lemma delivered_enqueue:
  "delivered a q \<Longrightarrow> (case enqueueEvent n b q of
     (None, q') \<Rightarrow> delivered (a @ [b]) q' | (Some _, q') \<Rightarrow> delivered a q')"
  by (auto simp: enqueueEvent_def delivered_close) (auto simp: delivered_def)

definition serving :: "string list \<times> send_queue \<Rightarrow> bool" where
  "serving s = (case s of (accepted, q) \<Rightarrow> delivered accepted q \<and> queue_ok q)"

lemma serving_step: "serving s \<Longrightarrow> serving (queue_step op s)"
proof (cases s; cases op)
  fix a q n b assume s: "serving s" "s = (a, q)" "op = Enqueue n b"
  then show ?thesis
    using delivered_enqueue [where a = a and q = q and n = n and b = b] queue_ok_enqueue [of q n b]
    by (cases "enqueueEvent n b q") (simp add: serving_def split: option.splits)
qed (simp_all add: serving_def delivered_close delivered_write queue_ok_close queue_ok_write)

text \<open>C35. The send queue of a socket holds at most 256 events and 1 MiB. What the client has got and
  what waits for it is, in order and without a gap, what was accepted; a closed socket got a prefix of it, at most one
  notice and a close frame.\<close>

theorem queue_delivers_in_order:
  "case fold queue_step ops ([], empty_queue) of
     (accepted, q) \<Rightarrow> delivered accepted q \<and> queue_ok q"
proof -
  have "serving ([], empty_queue)"
    by (simp add: serving_def delivered_def empty_queue_def queue_ok_def)
  then have "serving (fold queue_step ops ([], empty_queue))"
    by (rule fold_invariant [where Q = "\<lambda>_. True", rotated]) (simp_all add: serving_step)
  then show ?thesis by (simp add: serving_def)
qed

section \<open>A chain that the socket is not attached to\<close>

lemma other_put: "c' \<noteq> c \<Longrightarrow> preserves (chain_sat c P) (put_chain c' hc)"
  by (rule sat_put) simp

lemma other_nextEvent: "c' \<noteq> c \<Longrightarrow> preserves (chain_sat c P) (nextEvent c')"
  unfolding nextEvent_def by (intro pres_intro preserves_hotChain sat_upd_other)

lemma other_emit: "c' \<noteq> c \<Longrightarrow> preserves (chain_sat c P) (bufferAndEmit W c' ev)"
  unfolding bufferAndEmit_def
  by (intro pres_intro preserves_hotChain other_put preserves_log_sent on_chains_sat)

lemma other_GetIdem: "preserves (chain_sat c P) (GetIdem W sc)"
  unfolding GetIdem_def by (intro pres_intro sat_intro)

lemma other_SaveIdem: "preserves (chain_sat c P) (SaveIdem W p c' o' k h r t li)"
  unfolding SaveIdem_def by (intro pres_intro sat_intro)

lemmas other_intro = pres_intro preserves_on_store preserves_now preserves_newID on_chains_sat
  preserves_hotChain sat_requireChain sat_upd_other other_put other_nextEvent other_emit
  other_GetIdem other_SaveIdem preserves_initial_items

lemma other_Detach: "c' \<noteq> c \<Longrightarrow> preserves (chain_sat c P) (Detach W c' a reason)"
  unfolding Detach_def by (intro other_intro)

lemma other_attach_for_request:
  "c' \<noteq> c \<Longrightarrow> preserves (chain_sat c P) (attach_for_request W c' env)"
  unfolding attach_for_request_def by (intro other_intro)

lemma other_UpdateChain: "c' \<noteq> c \<Longrightarrow> preserves (chain_sat c P) (UpdateChain_op W c' env patch key)"
  unfolding UpdateChain_op_def apply_update_def GetChain_live_def
  by (intro other_intro other_attach_for_request other_Detach)

lemma other_emitRunEvent: "c' \<noteq> c \<Longrightarrow> preserves (chain_sat c P) (emitRunEvent W c' r e)"
  unfolding emitRunEvent_def by (intro other_intro)

lemma other_persist_run:
  "preserves (chain_sat c P) (persist_run W c' env payload key h adm rr r)"
  unfolding persist_run_def by (intro other_intro)

lemma other_start_new_run:
  "c' \<noteq> c \<Longrightarrow> preserves (chain_sat c P) (start_new_run W c' env payload key h)"
  unfolding start_new_run_def admit_run_def install_run_def rollbackStartFailure_def
  by (intro other_intro other_attach_for_request other_persist_run other_emitRunEvent)

lemma other_StartRunAsync:
  "c' \<noteq> c \<Longrightarrow> preserves (chain_sat c P) (StartRunAsync W c' env payload key)"
  unfolding StartRunAsync_def startRun_def
  by (intro other_intro other_start_new_run) (simp_all split: start_outcome.split)

lemma other_SubmitClientToolResult:
  "c' \<noteq> c \<Longrightarrow> preserves (chain_sat c P) (SubmitClientToolResult W c' frame)"
  unfolding SubmitClientToolResult_def by (intro other_intro)

lemma other_CancelRun: "c' \<noteq> c \<Longrightarrow> preserves (chain_sat c P) (CancelRun W c' r)"
  unfolding CancelRun_def by (intro other_intro)

lemma other_OwnsAttachment: "preserves (chain_sat c P) (OwnsAttachment W c' a)"
  unfolding OwnsAttachment_def by (intro other_intro)

text \<open>A session on one of the given chains, with a fact about the manager.\<close>

definition on_chain :: "string set \<Rightarrow> ('s manager \<Rightarrow> bool) \<Rightarrow> 's ws_state \<Rightarrow> bool" where
  "on_chain S I w = (I (ws_manager w) \<and> ws_chain w \<in> S)"

lemma on_chain_manager:
  "preserves I f \<Longrightarrow> preserves (on_chain S I) (on_manager f)"
  by (simp add: preserves_def on_manager_def on_chain_def case_prod_beta)

lemma on_chain_enqueue: "preserves (on_chain S I) (session_enqueue env e)"
  unfolding session_enqueue_def
  by (intro pres_intro) (simp add: on_chain_def)

lemma on_chain_close: "preserves (on_chain S I) (close_session code reason es)"
  by (simp add: close_session_def preserves_def on_chain_def)

lemma on_chain_error: "preserves (on_chain S I) (closeWithCanonicalError e code)"
  unfolding closeWithCanonicalError_def by (rule on_chain_close)

lemma on_chain_send: "preserves (on_chain S I) (sendChainError env e)"
  unfolding sendChainError_def by (intro pres_intro on_chain_enqueue)

lemmas on_chain_intro = pres_intro on_chain_enqueue on_chain_close on_chain_error on_chain_send

text \<open>Frames of a session that has a chain go to that chain.\<close>

lemma wp_on_attached:
  "ws_chain w = c' \<Longrightarrow> c' \<noteq> [] \<Longrightarrow> wp (on_attached f) Q w = wp (f c') Q w"
  by (simp add: on_attached_def)

lemma wp_on_free: "ws_chain w \<noteq> [] \<Longrightarrow> wp (on_free f) Q w = Q (Inl already_attached) w"
  by (simp add: on_free_def)

lemma wp_close_frame:
  assumes "I (ws_manager w)" "preserves I (Detach W (ws_chain w) (ws_attachment w) ''client_closed'')"
  shows "wp (dispatchChainFrame W p env (ChainCloseFrame k)) (\<lambda>_. on_chain {[]} I) w"
proof -
  have leave: "wp clearAttachment (\<lambda>_. wp (State_Monad.bind (close_session 1000 ''chain closed'' []) ok)
      (\<lambda>_. on_chain {[]} I)) v" if "I (ws_manager v)" for v :: "'a ws_state"
    using that by (simp add: clearAttachment_def setAttachment_def close_session_def on_chain_def
      trim_space_Nil)
  have "wp (on_manager (Detach W (ws_chain w) (ws_attachment w) ''client_closed''))
      (\<lambda>_ v. I (ws_manager v)) w"
    using preservesD [OF assms(2,1)] by (simp add: on_manager_def)
  then show ?thesis using assms(1)
    by (auto simp: dispatchChainFrame_def intro: leave elim!: wp_mono)
qed

text \<open>A frame other than \<open>chain.close\<close> leaves the session on its chain.\<close>

definition is_close :: "client_frame \<Rightarrow> bool" where
  "is_close frame = (case frame of ChainCloseFrame _ \<Rightarrow> True | _ \<Rightarrow> False)"

definition after_frame :: "string \<Rightarrow> bool \<Rightarrow> string set" where
  "after_frame c' b = (if b then {c', []} else {c'})"

lemma wp_dispatch:
  assumes w: "ws_chain w = c'" "c' \<noteq> []" "c' \<noteq> c" "chain_sat c P (ws_manager w)"
  shows "wp (dispatchChainFrame W p env frame) (\<lambda>_. on_chain (after_frame c' (is_close frame)) (chain_sat c P)) w"
proof -
  let ?I = "on_chain {c'} (chain_sat c P)"
  have here: "?I w" using w by (simp add: on_chain_def)
  have go: "wp (on_attached f) (\<lambda>_. ?I) w" if "preserves ?I (f c')" for f :: "string \<Rightarrow> ('a, unit) wsop"
    using preservesD [OF that here] w by (simp add: wp_on_attached)
  have free: "wp (on_free f) (\<lambda>_. ?I) w" for f :: "('a, unit) wsop"
    using w here by (simp add: wp_on_free)
  note keep = pres_intro on_chain_manager other_UpdateChain other_StartRunAsync
    other_SubmitClientToolResult other_CancelRun w(3)
  show ?thesis
  proof (cases "\<exists>k. frame = ChainCloseFrame k")
    case True
    then obtain k where k: "frame = ChainCloseFrame k" by blast
    have "wp (dispatchChainFrame W p env frame) (\<lambda>_. on_chain {[]} (chain_sat c P)) w"
      unfolding k using w by (intro wp_close_frame other_Detach) simp_all
    then show ?thesis by (rule wp_mono) (simp add: k is_close_def after_frame_def on_chain_def)
  next
    case False
    then have open_frame: "after_frame c' (is_close frame) = {c'}"
      by (auto simp: is_close_def after_frame_def split: client_frame.split)
    show ?thesis using False unfolding dispatchChainFrame_def open_frame
      by (cases frame) (simp_all only: client_frame.case, (intro free go keep | simp)+)
  qed
qed

text \<open>The rounds of the loop, and the loop.\<close>

lemma wp_on_manager_told:
  assumes "preserves I f" "I (ws_manager w)"
  shows "wp (on_manager f) (\<lambda>_ v. I (ws_manager v) \<and> ws_chain v = ws_chain w \<and>
    ws_attachment v = ws_attachment w \<and> ws_closed v = ws_closed w \<and> ws_sent v = ws_sent w) w"
  using preservesD [OF assms] by (simp add: on_manager_def)

lemma on_chain_after: "preserves (on_chain S I) (after_dispatch env r)"
  unfolding after_dispatch_def by (intro on_chain_intro)

lemma wp_owns_lease:
  assumes "chain_sat c P (ws_manager w)"
  shows "wp (owns_lease W) (\<lambda>_ v. chain_sat c P (ws_manager v) \<and> ws_chain v = ws_chain w) w"
proof -
  have "wp (on_manager (OwnsAttachment W (ws_chain w) (ws_attachment w)))
      (\<lambda>_ v. chain_sat c P (ws_manager v) \<and> ws_chain v = ws_chain w) w"
    by (rule wp_mono [OF wp_on_manager_told [OF other_OwnsAttachment assms]]) simp
  then show ?thesis using assms by (simp add: owns_lease_def)
qed

lemma wp_handle_frame:
  assumes w: "ws_chain w = c'" "c' \<noteq> []" "c' \<noteq> c" "chain_sat c P (ws_manager w)"
  shows "wp (handle_frame W p env frame) (\<lambda>_. on_chain (after_frame c' (is_close frame)) (chain_sat c P)) w"
proof -
  let ?I = "on_chain (after_frame c' (is_close frame)) (chain_sat c P)"
  have run: "wp (dispatchChainFrame W p env frame) (\<lambda>r. wp (after_dispatch env r) (\<lambda>_. ?I)) v"
    if "ws_chain v = c'" "chain_sat c P (ws_manager v)" for v :: "'a ws_state"
    using wp_dispatch [OF that(1) w(2,3) that(2)] by (rule wp_mono) (rule preservesD [OF on_chain_after])
  have shut: "wp (closeWithCanonicalError e 1008) (\<lambda>_. wp (ret False) (\<lambda>_. ?I)) v"
    if "ws_chain v = c'" "chain_sat c P (ws_manager v)" for e and v :: "'a ws_state"
    unfolding wp_ret
    by (rule preservesD [where I = ?I, OF on_chain_error])
      (use that in \<open>simp add: on_chain_def after_frame_def\<close>)
  show ?thesis unfolding handle_frame_def wp_bind
    by (rule wp_mono [OF wp_owns_lease [OF w(4)]]) (simp del: wp_ret add: run shut w(1))
qed

text \<open>The input is a \<open>chain.close\<close>.\<close>

definition closes :: "'s world \<Rightarrow> ws_input \<Rightarrow> bool" where
  "closes W input =
     (case input of
        TextMessage data \<Rightarrow> (case decode_frame W data of Inl _ \<Rightarrow> False | Inr frame \<Rightarrow> is_close frame)
      | _ \<Rightarrow> False)"

lemma wp_serve_input:
  assumes w: "ws_chain w = c'" "c' \<noteq> []" "c' \<noteq> c" "chain_sat c P (ws_manager w)"
  shows "wp (serve_input W jt p env i) (\<lambda>_. on_chain (after_frame c' (closes W i)) (chain_sat c P)) w"
proof -
  define S where "S = after_frame c' (closes W i)"
  let ?I = "on_chain S (chain_sat c P)"
  have here: "?I w" using w by (simp add: S_def on_chain_def after_frame_def)
  have keep: "wp f (\<lambda>_. ?I) w" if "preserves ?I f" for f :: "('a ws_state, bool) state"
    using that here by (rule preservesD [where I = ?I])
  have "wp (serve_input W jt p env i) (\<lambda>_. ?I) w"
  proof (cases i)
    case (TextMessage data)
    show ?thesis
    proof (cases "decode_frame W data")
      case (Inl e)
      then have "serve_input W jt p env i = do {
          closeWithCanonicalError (NewCanonicalError ErrorCodeProtocolUnknownFrame
            (decode_error_text (jt data) e)) 1008;
          ret False }"
        using TextMessage by (simp add: serve_input_def)
      then show ?thesis by (simp only:) (intro keep on_chain_intro)
    next
      case (Inr frame)
      then show ?thesis using wp_handle_frame [OF w, of W p env frame] TextMessage
        by (simp add: S_def serve_input_def closes_def)
    qed
  qed (auto simp: serve_input_def here simp del: wp_bind intro!: keep on_chain_intro)
  then show ?thesis by (simp add: S_def)
qed

lemma wp_end_session:
  assumes "on_chain (after_frame c' b) (chain_sat c P) w" "c' \<noteq> c"
  shows "wp (end_session W) (\<lambda>_ v. chain_sat c P (ws_manager v)) w"
proof -
  have sat: "chain_sat c P (ws_manager w)" using assms by (simp add: on_chain_def)
  have leave: "wp (close_session 1000 ''bye'' []) (\<lambda>_ v. chain_sat c P (ws_manager v)) v"
    if "chain_sat c P (ws_manager v)" for v :: "'a ws_state"
    using that by (simp add: close_session_def)
  show ?thesis
  proof (cases "hasAttachment w")
    case True
    then have ne: "ws_chain w \<noteq> c" using assms
      by (auto simp: on_chain_def hasAttachment_def after_frame_def split: if_splits)
    have "wp (on_manager (Detach W (ws_chain w) (ws_attachment w) ''socket_closed''))
        (\<lambda>_. wp (close_session 1000 ''bye'' []) (\<lambda>_ v. chain_sat c P (ws_manager v))) w"
      by (rule wp_mono [OF wp_on_manager_told [OF other_Detach [OF ne] sat]]) (simp add: leave)
    then show ?thesis using True by (simp add: end_session_def)
  qed (simp add: end_session_def leave sat)
qed

lemma wp_serve:
  assumes "ws_chain w = c'" "c' \<noteq> []" "c' \<noteq> c" "chain_sat c P (ws_manager w)"
    and "list_all (\<lambda>i. \<not> closes W i) (butlast inputs)"
  shows "wp (serve W jt p env inputs) (\<lambda>_ v. chain_sat c P (ws_manager v)) w"
  using assms(1,4,5)
proof (induction inputs arbitrary: w)
  case Nil
  then show ?case using assms(3) wp_end_session [of c' False c P w]
    by (auto simp: on_chain_def after_frame_def)
next
  case (Cons i rest)
  have ending: "wp (end_session W) (\<lambda>_ v. chain_sat c P (ws_manager v)) v"
    if "on_chain (after_frame c' (closes W i)) (chain_sat c P) v" for v :: "'a ws_state"
    using that assms(3) by (rule wp_end_session)
  have going: "wp (serve W jt p env rest) (\<lambda>_ v. chain_sat c P (ws_manager v)) v"
    if "on_chain (after_frame c' (closes W i)) (chain_sat c P) v" for v :: "'a ws_state"
  proof (cases "rest = []")
    case True
    then show ?thesis using ending [OF that] by simp
  next
    case False
    then show ?thesis using Cons.prems(3) that
      by (intro Cons.IH) (auto simp: on_chain_def after_frame_def)
  qed
  show ?case
    unfolding serve.simps wp_bind
    by (rule wp_mono [OF wp_serve_input [OF Cons.prems(1) assms(2,3) Cons.prems(2)]])
      (simp add: going ending)
qed

lemma manager_enqueue:
  "ws_manager (snd (run_state (session_enqueue env e) w)) = ws_manager w"
  "ws_chain (snd (run_state (session_enqueue env e) w)) = ws_chain w"
  "ws_attachment (snd (run_state (session_enqueue env e) w)) = ws_attachment w"
  by (simp_all add: session_enqueue_def split: option.split)

lemma manager_after:
  "ws_manager (snd (run_state (after_dispatch env r) w)) = ws_manager w"
  "ws_chain (snd (run_state (after_dispatch env r) w)) = ws_chain w"
  "ws_attachment (snd (run_state (after_dispatch env r) w)) = ws_attachment w"
  by (simp_all add: after_dispatch_def sendChainError_def closeWithCanonicalError_def
      close_session_def manager_enqueue case_prod_beta split: sum.split option.split)

lemma unattached_frame:
  assumes "\<not> hasAttachment w"
  shows "ws_manager (snd (run_state (handle_frame W p env f) w)) =
      ws_manager (snd (run_state (dispatchChainFrame W p env f) w))"
    "ws_chain (snd (run_state (handle_frame W p env f) w)) =
      ws_chain (snd (run_state (dispatchChainFrame W p env f) w))"
    "ws_attachment (snd (run_state (handle_frame W p env f) w)) =
      ws_attachment (snd (run_state (dispatchChainFrame W p env f) w))"
  using assms by (simp_all add: handle_frame_def owns_lease_def manager_after case_prod_beta)

lemma run_on_attached: "ws_chain w \<noteq> [] \<Longrightarrow> run_state (on_attached f) w = run_state (f (ws_chain w)) w"
  by (simp add: on_attached_def)

lemma manager_on_manager:
  "ws_manager (snd (run_state (on_manager f) w)) = snd (run_state f (ws_manager w))"
  "ws_manager (snd (run_state (attempt (on_manager g) (\<lambda>_. ok ())) w)) = snd (run_state g (ws_manager w))"
  by (simp_all add: on_manager_def case_prod_beta split: sum.split)

text \<open>C32. A websocket serves the chain it is attached to and no other: whatever it sends before it sends a
  \<open>chain.close\<close>, and however the session ends, every other chain in memory keeps its record, its history,
  its replay buffer, its writer and its run. (What it sends after that may reach another chain, see
  \<open>attach_after_close\<close>.)\<close>

theorem socket_isolation:
  assumes "ws_chain w \<noteq> []" "ws_chain w \<noteq> c" "mget (mg_chains (ws_manager w)) c = Some hc"
    and "list_all (\<lambda>i. \<not> closes W i) (butlast inputs)"
  shows "mget (mg_chains (ws_manager (snd (run_state (serve W jt p env inputs) w)))) c = Some hc"
proof -
  have "chain_sat c (\<lambda>hc'. hc' = hc) (ws_manager w)" using assms(3) by (simp add: chain_sat_def)
  from wp_serve [OF refl assms(1,2) this assms(4)] show ?thesis
    by (simp add: wp_def chain_sat_def case_prod_beta)
qed

text \<open>After a \<open>chain.close\<close> the session is closed and on no chain, but the loop reads on: a
  \<open>chain.attach\<close> that was already buffered is carried out.\<close>

lemma manager_enqueue_all: "ws_manager (snd (run_state (enqueue_all env es) w)) = ws_manager w"
  by (induction es arbitrary: w) (simp_all add: manager_enqueue case_prod_beta split: sum.split)

lemma attach_after_close:
  assumes "run_state (dispatchChainFrame W p env (ChainCloseFrame k)) w = (Inr (), w1)"
  shows "ws_closed w1 \<noteq> None" "ws_chain w1 = []"
    "ws_manager (snd (run_state (handle_frame W p env (ChainAttachFrame key f)) w1)) =
       snd (run_state (AttachChain W p env f) (ws_manager w1))"
proof -
  show "ws_closed w1 \<noteq> None" and c: "ws_chain w1 = []"
    using assms by (auto simp: dispatchChainFrame_def clearAttachment_def setAttachment_def close_session_def
        trim_space_Nil case_prod_beta)
  then have "\<not> hasAttachment w1" by (simp add: hasAttachment_def)
  then show "ws_manager (snd (run_state (handle_frame W p env (ChainAttachFrame key f)) w1)) =
       snd (run_state (AttachChain W p env f) (ws_manager w1))"
    using c by (simp add: unattached_frame dispatchChainFrame_def on_free_def on_manager_def setAttachment_def
        manager_enqueue_all case_prod_beta split: sum.split)
qed

text \<open>C33. Before each frame of an attached session the writer lease is checked: once another client has attached
  to the chain, the next frame of the session is not carried out. The manager stays as the other client left it,
  the session is told that it lost the lease and is closed, and its loop ends.\<close>

theorem taken_over_frame_refused:
  assumes w: "hasAttachment w" "ws_closed w = None"
    and taken: "run_state (AttachChain W p' env' f) (ws_manager w) = (Inr (event, replayed, i), m)"
      "af_ChainID f = ws_chain w" "i \<noteq> ws_attachment w"
  shows "run_state (handle_frame W p env frame) (w\<lparr>ws_manager := m\<rparr>) =
    (False, w\<lparr>ws_manager := m, ws_closed := Some (1008, err_Message lost_lease),
       ws_sent := ws_sent w @ [ChainErrorEvent 0 0 (WithChain (ws_chain w) lost_lease)]\<rparr>)"
proof -
  obtain hc l where hc: "mget (mg_chains m) (ws_chain w) = Some hc" "hc_writer hc = Some l" "wl_ID l = i"
    using attached_writer [OF taken(1)] taken(2) by (auto simp: chain_sat_def)
  have "run_state (OwnsAttachment W (ws_chain w) (ws_attachment w)) m = (False, m)"
    using hc taken(3) by (simp add: OwnsAttachment_def requireChain_def hotChain_def)
  then show ?thesis
    using w by (simp add: handle_frame_def owns_lease_def hasAttachment_def on_manager_def case_prod_beta
        closeWithCanonicalError_def close_session_def chainErrorEvent_def lost_lease_def WithChain_def
        NewCanonicalError_def Let_def)
qed

text \<open>An update of a chain that the right transport writes to is carried out, whoever holds the lease.\<close>

definition updated :: "chain_defaults \<Rightarrow> hot_chain \<Rightarrow> hot_chain \<Rightarrow> bool" where
  "updated patch hc hc' = (hc_writer hc' = hc_writer hc \<and>
     ch_ChainVersion (hc_record hc') = ch_ChainVersion (hc_record hc) + 1 \<and>
     ch_Defaults (hc_record hc') = mergeDefaults (ch_Defaults (hc_record hc)) patch)"

lemma updated_buffer [simp]:
  "updated patch hc (hc'\<lparr>hc_replay := b\<rparr>) = updated patch hc hc'"
  "updated patch hc (hc'\<lparr>hc_nextEventID := n\<rparr>) = updated patch hc hc'"
  by (simp_all add: updated_def)

lemma apply_update_done:
  assumes m: "mget (mg_chains m) c = Some hc" "hc_writer hc = Some l" "wl_Mode l = env_Mode env"
      "\<not> stateful (env_Mode env)"
  shows "wp (apply_update W c env patch k h) (\<lambda>_. chain_sat c (updated patch hc)) m"
proof -
  have lease: "run_state (attach_for_request W c env) m = (Inr None, m)"
    using m by (simp add: attach_for_request_def hotChain_def)
  let ?S = "chain_sat c (updated patch hc)"
  have store: "wp (on_store f) (\<lambda>_. ?S) m'" if "?S m'" for f :: "('a, 'b) state" and m'
    using preservesD [OF preserves_on_store [OF on_chains_sat] that] .
  have rest: "preserves ?S (State_Monad.bind (nextEvent c) (\<lambda>n. let event = ev n in
              attempt (ok ()) (\<lambda>_.
              attempt (bufferAndEmit W c (ChainUpdatedEvent event)) (\<lambda>_.
              attempt (SaveIdem W p c o' k h ref t li) (\<lambda>_. State_Monad.bind (ret ()) (\<lambda>_. ok event))))))"
    for ev p o' ref t li
    by (intro pres_intro sat_intro other_SaveIdem) simp_all
  show ?thesis
    unfolding apply_update_def using m(1)
    apply (simp add: lease wp_attempt [of "attach_for_request W c env"] wp_def [of "attach_for_request W c env"])
    apply (rule wp_mono [OF store])
     apply (simp add: chain_sat_def updated_def)
    apply (simp del: wp_bind wp_attempt split: sum.split)
    apply (intro impI allI preservesD [OF rest], assumption)
    done
qed

lemma wp_update_done:
  assumes m: "mget (mg_chains m) c = Some hc" "hc_writer hc = Some l" "wl_Mode l = env_Mode env"
      "\<not> stateful (env_Mode env)"
    and k: "trim_space k \<noteq> []" "authorizeChainMutation hc (env_Principal env) = None"
      "isl (fst (run_state (GetIdem W (idem_scope (env_Principal env) c ''chain.update'' k)) m))"
  shows "wp (UpdateChain_op W c env patch k) (\<lambda>_. chain_sat c (updated patch hc)) m"
proof -
  obtain e m1 where g: "run_state (GetIdem W (idem_scope (env_Principal env) c ''chain.update'' k)) m = (Inl e, m1)"
    using k(3) by (cases "run_state (GetIdem W (idem_scope (env_Principal env) c ''chain.update'' k)) m")
      (auto simp: isl_def)
  have "mg_chains m1 = mg_chains m"
    using g by (auto simp: GetIdem_def on_store_def case_prod_beta split: prod.splits)
  then have "wp (apply_update W c env patch k h) (\<lambda>_. chain_sat c (updated patch hc)) m1" for h
    using m by (intro apply_update_done) simp_all
  then show ?thesis
    using m(1) k(1,2) by (simp add: UpdateChain_op_def requireChain_def wp_def [of "GetIdem W _"] g Let_def)
qed

text \<open>C34. The check is void after a replayed start. A \<open>chain.start\<close> that repeats an earlier one
  returns no attachment ID; the session is then on the chain with an empty attachment, and all its frames
  reach the manager although another client holds the lease. An update of the chain is carried out: the
  manager itself only asks that the lease is of the session's transport.\<close>

theorem replayed_start_skips_lease:
  assumes w: "ws_chain w = []" "ws_attachment w = []"
    and start: "run_state (StartChain W p env payload key) (ws_manager w) = (Inr (event, []), m)"
    and c: "trim_space (se_ChainID event) = c" "c \<noteq> []"
    and held: "mget (mg_chains m) c = Some hc" "hc_writer hc = Some l"
    and mode: "wl_Mode l = env_Mode env" "\<not> stateful (env_Mode env)"
    and update: "trim_space k \<noteq> []" "authorizeChainMutation hc (env_Principal env) = None"
      "isl (fst (run_state (GetIdem W (idem_scope (env_Principal env) c ''chain.update'' k)) m))"
  shows "case snd (run_state (handle_frame W p env (ChainStartFrame key payload)) w) of
    w1 \<Rightarrow> ws_chain w1 = c \<and> ws_attachment w1 = [] \<and> ws_manager w1 = m \<and>
      (case ws_manager (snd (run_state (handle_frame W p env (ChainUpdateFrame k patch)) w1)) of
         m' \<Rightarrow> chain_sat c (updated patch hc) m' \<and> holds c l m') \<and>
      ws_manager (snd (run_state (handle_frame W p env (RunStartFrame k rp)) w1)) =
        snd (run_state (StartRunAsync W c env rp k) m) \<and>
      ws_manager (snd (run_state (handle_frame W p env (ClientToolResultFrame k result)) w1)) =
        snd (run_state (SubmitClientToolResult W c result) m) \<and>
      ws_manager (snd (run_state (handle_frame W p env (RunCancelFrame k runID)) w1)) =
        snd (run_state (CancelRun W c runID) m)"
proof -
  define w1 where w1: "w1 = snd (run_state (handle_frame W p env (ChainStartFrame key payload)) w)"
  have free: "\<not> hasAttachment w" using w by (simp add: hasAttachment_def)
  have d: "dispatchChainFrame W p env (ChainStartFrame key payload) =
      on_free (attempt (on_manager (StartChain W p env payload key)) (\<lambda>(event, attachmentID). do {
        setAttachment (se_ChainID event) attachmentID;
        (if attachmentID = [] then session_enqueue env (ChainStartedEvent event) else ok ()) }))"
    by (simp add: dispatchChainFrame_def)
  have on: "ws_chain w1 = c \<and> ws_attachment w1 = [] \<and> ws_manager w1 = m"
    using w(1,2) start c(1) unfolding w1
    by (simp add: unattached_frame [OF free] d on_free_def on_manager_def setAttachment_def
        manager_enqueue)
  then have "\<not> hasAttachment w1" by (simp add: hasAttachment_def)
  note frame = unattached_frame(1) [OF this]
  have "chain_sat c (updated patch hc) (snd (run_state (UpdateChain_op W c env patch k) m))"
    using wp_update_done [OF held mode update, of patch] by (simp add: wp_def case_prod_beta)
  moreover have "holds c l (snd (run_state (UpdateChain_op W c env patch k) m))"
    using preservesD [OF holds_UpdateChain, of c l m W c env patch k] held
    by (simp add: wp_def case_prod_beta chain_sat_def)
  ultimately have "(case ws_manager (snd (run_state (handle_frame W p env (ChainUpdateFrame k patch)) w1)) of
         m' \<Rightarrow> chain_sat c (updated patch hc) m' \<and> holds c l m')"
    using on c(2) by (simp add: frame dispatchChainFrame_def run_on_attached manager_on_manager del: run_attempt)
  then show ?thesis
    using on c(2) unfolding w1 [symmetric]
    by (simp add: frame dispatchChainFrame_def run_on_attached manager_on_manager del: run_attempt)
qed

section \<open>Witnesses\<close>

text \<open>Two chains, the first with a writer, and the record of the \<open>chain.start\<close> that made it.\<close>

definition start_record :: idempotency_record where
  "start_record = \<lparr>id_ID = ''i1'', id_OrgID = ''org'', id_PrincipalID = ''key1'', id_ChainID = [],
     id_Operation = ''chain.start'', id_Key = ''k'',
     id_RequestHash = demo_hash (json_of_start_payload demo_start),
     id_ResultRef = Some [(''chain_id'', JStr demo_chain)], id_CreatedAt = 1000, id_ExpiresAt = 0\<rparr>"

definition two_chains :: "memory_store manager" where
  "two_chains = held_manager\<lparr>
     mg_store := demo_store\<lparr>mem_idempotency := [(idempotencyMapKey (scope_of start_record), start_record)]\<rparr>,
     mg_chains := (''c2'', idle_chain) # mg_chains held_manager\<rparr>"

definition socket_on :: "string \<Rightarrow> string \<Rightarrow> memory_store ws_state" where
  "socket_on chainID attachmentID = \<lparr>ws_manager = two_chains, ws_chain = chainID,
     ws_attachment = attachmentID, ws_closed = None, ws_sent = []\<rparr>"

lemma start_found:
  "run_state (GetIdem demo_world (idem_scope demo_principal [] ''chain.start'' ''k'')) two_chains =
     (Inr (clone_idempotency start_record), two_chains\<lparr>mg_clock := 1\<rparr>)"
  by (simp add: two_chains_def held_manager_def idle_manager_def NewManager_def GetIdem_def on_store_def
      demo_world_def MemoryStore_def mem_GetIdempotency_def start_record_def scope_of_def idem_scope_def
      demo_principal_def idempotencyMapKey_def mget_Cons demo_store_def)

lemma start_record_hash:
  "id_RequestHash start_record = w_hash demo_world (json_of_start_payload demo_start)"
  by (simp add: start_record_def demo_world_def)

lemma start_record_facts:
  "trim_space ''k'' \<noteq> []" "ref_string ''chain_id'' (clone_idempotency start_record) = demo_chain"
  "trim_space demo_chain = demo_chain" "demo_chain \<noteq> []"
  by code_simp+

lemma two_chains_held:
  "mget (mg_chains two_chains) demo_chain = Some (idle_chain\<lparr>hc_writer := Some demo_lease\<rparr>)"
  "mget (mg_chains two_chains) ''c2'' = Some idle_chain"
  by (simp_all add: two_chains_def held_manager_def demo_chain_def mget_Cons)

lemma replayed_start:
  "\<exists>event. run_state (StartChain demo_world demo_principal ws_env demo_start ''k'') two_chains =
     (Inr (event, []), two_chains\<lparr>mg_clock := 1\<rparr>) \<and> se_ChainID event = demo_chain"
  by (simp add: StartChain_def start_record_facts start_record_hash start_found Let_def requireChain_def hotChain_def two_chains_held
      buildStartedEvent_def) (simp add: idle_chain_def demo_record_def new_chain_record_def)

lemma replayed_start_skips_lease_witness:
  "case snd (run_state (handle_frame demo_world demo_principal ws_env (ChainStartFrame ''k'' demo_start))
       (socket_on [] [])) of
     w1 \<Rightarrow> ws_chain w1 = demo_chain \<and>
       (case ws_manager (snd (run_state (handle_frame demo_world demo_principal ws_env
           (ChainUpdateFrame ''k2'' zero_defaults)) w1)) of
         m' \<Rightarrow> chain_sat demo_chain (updated zero_defaults (idle_chain\<lparr>hc_writer := Some demo_lease\<rparr>)) m' \<and>
           holds demo_chain demo_lease m')"
proof -
  obtain event where e: "run_state (StartChain demo_world demo_principal ws_env demo_start ''k'') two_chains =
     (Inr (event, []), two_chains\<lparr>mg_clock := 1\<rparr>)" "se_ChainID event = demo_chain"
    using replayed_start by blast
  let ?m = "two_chains\<lparr>mg_clock := 1\<rparr>" and ?hc = "idle_chain\<lparr>hc_writer := Some demo_lease\<rparr>"
  have fresh: "ws_chain (socket_on [] []) = []" "ws_attachment (socket_on [] []) = []"
    by (simp_all add: socket_on_def)
  have start: "run_state (StartChain demo_world demo_principal ws_env demo_start ''k'')
      (ws_manager (socket_on [] [])) = (Inr (event, []), ?m)"
    using e(1) by (simp add: socket_on_def)
  have held: "mget (mg_chains ?m) demo_chain = Some ?hc" "hc_writer ?hc = Some demo_lease"
    by (simp_all add: two_chains_held)
  have mode: "wl_Mode demo_lease = env_Mode ws_env" "\<not> stateful (env_Mode ws_env)"
    by (simp_all add: demo_lease_def new_lease_def stateful_def ws_env_def)
  have upd: "trim_space ''k2'' \<noteq> []" "authorizeChainMutation ?hc (env_Principal ws_env) = None"
      "isl (fst (run_state (GetIdem demo_world (idem_scope (env_Principal ws_env) demo_chain ''chain.update'' ''k2'')) ?m))"
    by code_simp+
  have c: "trim_space (se_ChainID event) = demo_chain" using e(2) by (simp add: start_record_facts)
  show ?thesis
    using replayed_start_skips_lease [OF fresh start c start_record_facts(4) held mode upd] by metis
qed

text \<open>A client that cancels a run and then sends a binary message.\<close>

definition cancelling_world :: "memory_store world" where
  "cancelling_world = demo_world\<lparr>w_parse := (\<lambda>s. Some (JObj [(''type'', JStr ''run.cancel''),
     (''idempotency_key'', JStr s), (''run_id'', JStr ''r1'')]))\<rparr>"

lemma cancel_decoded: "decode_frame cancelling_world ''k'' = Inr (RunCancelFrame ''k'' ''r1'')"
  unfolding decode_frame_def cancelling_world_def by simp code_simp

lemma socket_isolation_witness:
  "mget (mg_chains (ws_manager (snd (run_state (serve cancelling_world (\<lambda>s. s) demo_principal ws_env
     [TextMessage ''k'', BinaryMessage]) (socket_on demo_chain ''a1''))))) ''c2'' = Some idle_chain"
proof (rule socket_isolation)
  show "list_all (\<lambda>i. \<not> closes cancelling_world i) (butlast [TextMessage ''k'', BinaryMessage])"
    by (simp add: closes_def cancel_decoded is_close_def)
qed (simp_all add: socket_on_def two_chains_held start_record_facts demo_chain_def)

lemma taken_over_frame_refused_witness:
  "case run_state (AttachChain demo_world demo_principal ws_env demo_attach) two_chains of
     (Inr (event, replayed, i), m) \<Rightarrow>
       fst (run_state (handle_frame demo_world demo_principal ws_env (RunCancelFrame ''k'' ''r1''))
         ((socket_on demo_chain ''a1'')\<lparr>ws_manager := m\<rparr>)) = False
   | _ \<Rightarrow> False"
proof -
  have "case fst (run_state (AttachChain demo_world demo_principal ws_env demo_attach) two_chains) of
      Inr (event, replayed, i) \<Rightarrow> i \<noteq> ''a1'' | _ \<Rightarrow> False"
    by code_simp
  then obtain event replayed i m where run: "run_state (AttachChain demo_world demo_principal ws_env demo_attach)
      (ws_manager (socket_on demo_chain ''a1'')) = (Inr (event, replayed, i), m)" "i \<noteq> ''a1''"
    by (cases "run_state (AttachChain demo_world demo_principal ws_env demo_attach) two_chains")
      (auto simp: socket_on_def split: sum.splits)
  have "hasAttachment (socket_on demo_chain ''a1'')" "ws_closed (socket_on demo_chain ''a1'') = None"
    "af_ChainID demo_attach = ws_chain (socket_on demo_chain ''a1'')" "i \<noteq> ws_attachment (socket_on demo_chain ''a1'')"
    using run(2) by (simp_all add: hasAttachment_def socket_on_def start_record_facts demo_attach_def)
  from taken_over_frame_refused [OF this(1,2) run(1) this(3,4)] show ?thesis
    using run(1) by (simp add: socket_on_def)
qed

end
