(* ===== verification/StrictProps.thy ===== *)
theory StrictProps
  imports FrameTrip ControllerRun
begin

text \<open>
  What the strict decoders guarantee to the code behind them, and that what a client writes is
  accepted and read back.
\<close>

section \<open>The properties\<close>




text \<open>C37. A run request that is accepted is well-formed: it has a model and messages of known roles whose
  blocks fit their role, every tool result answers an earlier call, tools, model names and the output schema are
  valid, it does not ask for a stream, its limits are in range and its server tools are distinct and named.\<close>

theorem accepted_run_valid:
  assumes "UnmarshalRunRequestStrict j = Inr q"
  shows "strict_run q"
  using assms by (rule accepted_run)

text \<open>C38. A message request survives the wire: written as JSON and read by the strict decoder, a valid
  request comes back as it was.\<close>

theorem request_roundtrip:
  assumes "strict_request r" "normal_request r"
  shows "UnmarshalMessageRequestStrict (json_of_message_request r) = Inr r"
  using assms by (rule request_trip)

text \<open>C39. A frame of the chain protocol that a client may send survives the wire, whatever its type: written as
  JSON and read by the strict decoder it comes back as it was. What the decoder demands or changes is excluded: keys
  and IDs must not be blank, and where the decoder trims them (the keys of \<open>chain.start\<close>,
  \<open>chain.update\<close> and \<open>run.start\<close>, the external session ID, model names) they have no surrounding
  blanks; messages, defaults and tool content are valid, the input of a run and the content of a tool result are there,
  numbers fit in 64 bits, and optional lists and maps are left out rather than empty.\<close>

theorem frame_roundtrip:
  assumes "frame_ok f"
  shows "UnmarshalChainClientFrameStrict (json_of_frame f) = Inr f"
  using assms by (rule frame_trip)

text \<open>C40. An accepted run returns: with the limits the decoder lets through, a run that gets more than 64 turns has
  returned, whatever the model and the tools answer.\<close>

theorem accepted_run_returns:
  assumes "UnmarshalRunRequestStrict j = Inr req" "length ios > 64"
  shows "\<exists>out. fst (run_state (run c (Some req) emit ios) l) = Inr out"
proof (rule run_returns)
  have "run_config_ok (rq_Run req)"
    using accepted_run [OF assms(1)] by (simp add: strict_run_def)
  then show "rc_MaxTurns (rq_Run req) > 0 \<and> int (length ios) > rc_MaxTurns (rq_Run req) \<or>
     rc_MaxToolCalls (rq_Run req) > 0 \<and> int (length ios) > rc_MaxToolCalls (rq_Run req)"
    using assms(2) by (simp add: run_config_ok_def)
qed

section \<open>Witnesses\<close>

definition tool_call_json :: json where
  "tool_call_json = JObj [(''type'', JStr ''tool_use''), (''id'', JStr ''t1''), (''name'', JStr ''look''),
     (''input'', JObj [(''q'', JStr ''x'')])]"

definition tool_answer_json :: json where
  "tool_answer_json = JObj [(''type'', JStr ''tool_result''), (''tool_use_id'', JStr ''t1''),
     (''content'', JArr [JObj [(''type'', JStr ''text''), (''text'', JStr ''ok'')]])]"


definition run_json :: json where
  "run_json = JObj [(''request'', JObj [(''model'', JStr ''m''), (''messages'', JArr [
     JObj [(''role'', JStr ''user''), (''content'', JStr ''hi'')],
     JObj [(''role'', JStr ''assistant''), (''content'', JArr [tool_call_json])],
     JObj [(''role'', JStr ''user''), (''content'', JArr [tool_answer_json])]])]),
     (''run'', JObj [(''max_turns'', JInt 4)])]"

lemma run_json_accepted: "case UnmarshalRunRequestStrict run_json of Inr q \<Rightarrow> rc_MaxTurns (rq_Run q) = 4 | _ \<Rightarrow> False"
  by code_simp

theorem accepted_run_valid_witness:
  "\<exists>q. UnmarshalRunRequestStrict run_json = Inr q \<and> strict_run q"
  using run_json_accepted accepted_run_valid [of run_json] by (auto split: sum.splits)

theorem accepted_run_returns_witness:
  "\<exists>q out. UnmarshalRunRequestStrict run_json = Inr q \<and>
     fst (run_state (run demo_controller (Some q) None (replicate 65 demo_turn)) []) = Inr out"
proof -
  obtain q where q: "UnmarshalRunRequestStrict run_json = Inr q"
    using run_json_accepted by (auto split: sum.splits)
  from accepted_run_returns [OF q, of "replicate 65 demo_turn"] show ?thesis using q by auto
qed

definition demo_call :: block where
  "demo_call = ToolUseBlock ''tool_use'' ''t1'' ''look'' (Some [(''q'', JStr ''x'')])"

definition demo_answer :: block where
  "demo_answer = ToolResultBlock ''tool_result'' ''t1'' [TextBlock ''text'' ''ok''] False"

definition demo_message_request :: message_request where
  "demo_message_request = (rq_Request demo_run_request)
     \<lparr>mr_Messages := [\<lparr>msg_Role = ''user'', msg_Content = CStr ''hi''\<rparr>,
        \<lparr>msg_Role = ''assistant'', msg_Content = CBlocks (Some [demo_call])\<rparr>,
        \<lparr>msg_Role = ''user'', msg_Content = CBlocks (Some [demo_answer])\<rparr>],
      mr_STTModel := ''a/b''\<rparr>"

lemma demo_messages_ok: "list_all strict_message (mr_Messages demo_message_request)"
proof -
  have trims: "trim_space ''t1'' \<noteq> []" "trim_space ''look'' \<noteq> []" by code_simp+
  have clone: "jclone_map (Some [(''q'', JStr ''x'')]) = Some [(''q'', JStr ''x'')]" by code_simp
  show ?thesis
    using trims clone by (simp add: demo_message_request_def strict_message_def demo_call_def demo_answer_def
        role_allows_def)
qed

theorem request_roundtrip_witness:
  "UnmarshalMessageRequestStrict (json_of_message_request demo_message_request) = Inr demo_message_request"
proof (rule request_roundtrip)
  have trims: "trim_space ''m'' \<noteq> []" by code_simp
  have ids: "provider_model_ok ''a/b''" "provider_model_ok []"
    unfolding provider_model_None [symmetric, where p = "''p''"] by code_simp+
  have history: "answers_calls {} (all_blocks (mr_Messages demo_message_request))"
    unfolding validateToolHistoryStrict_iff [symmetric] by code_simp
  show "strict_request demo_message_request"
    using trims ids history demo_messages_ok
    by (simp add: strict_request_def demo_message_request_def demo_run_request_def strict_system_def)
  show "normal_request demo_message_request"
    by (simp add: normal_request_def demo_message_request_def demo_run_request_def normal_slice_def
        normal_map_def in_int64_def)
qed

text \<open>A \<open>run.start\<close> with a conversation, overrides and metadata.\<close>

definition run_frame :: client_frame where
  "run_frame = RunStartFrame ''k'' \<lparr>rp_Input = mr_Messages demo_message_request,
     rp_Overrides = Some (zero_defaults\<lparr>cd_Model := ''a/b'', cd_GatewayTools := Some [''look''],
       cd_TopK := Some 5, cd_StopSequences := Some [''.'']\<rparr>),
     rp_Metadata = Some [(''n'', JStr ''v'')]\<rparr>"

theorem frame_roundtrip_witness:
  "UnmarshalChainClientFrameStrict (json_of_frame run_frame) = Inr run_frame"
proof (rule frame_roundtrip)
  have trims: "trimmed ''k''" "trimmed ''a/b''" "trimmed []" "names_ok [''look'']" by code_simp+
  have ids: "provider_model_ok ''a/b''" "provider_model_ok []"
    unfolding provider_model_None [symmetric, where p = "''p''"] by code_simp+
  have maps: "normal_map (Some [(''n'', JStr ''v'')])" "normal_map None" by code_simp+
  have "mr_Messages demo_message_request \<noteq> []" by (simp add: demo_message_request_def)
  then show "frame_ok run_frame"
    using trims ids maps demo_messages_ok
    by (simp add: run_frame_def frame_ok_def defaults_ok_def zero_defaults_def normal_slice_def
        strict_system_def gateway_config_ok_def in_int64_def)
qed

end
