(* ===== verification/Http.thy ===== *)
theory Http
  imports RateLimit RequestLimits Branch Executor ApiError
begin

text \<open>
  HTTP requests, response writers and the clients they are attributed to: what the middlewares and the
  handlers of the gateway share (\<open>pkg/gateway/auth\<close>, \<open>principal/resolve.go\<close>,
  \<open>handlers/chain_runtime_helpers.go\<close>, \<open>handlers/error_helpers.go\<close>). A handler is an operation on the
  gateway's state that returns, panics or, when it waits for a run that has not ended, is still at work.
\<close>

section \<open>Requests\<close>

text \<open>
  The fields a handler reads. Header names are compared as \<open>net/http\<close> compares them after it has brought
  them into their canonical form, which only changes their case. \<open>rq_Body\<close> is \<open>None\<close> when reading fails;
  the last two fields are what the middlewares put into the context.
\<close>

record http_request =
  rq_Method :: string
  rq_Path :: string
  rq_Query :: "(string \<times> string) list"
  rq_Header :: "(string \<times> string) list"
  rq_RemoteAddr :: string
  rq_Body :: "string option"
  rq_RequestID :: string
  rq_APIKey :: "string option"

definition header_values :: "(string \<times> string) list \<Rightarrow> string \<Rightarrow> string list" where
  "header_values h name = map snd (filter (\<lambda>(k, _). equal_fold k name) h)"

definition header_get :: "(string \<times> string) list \<Rightarrow> string \<Rightarrow> string" where
  "header_get h name = (case header_values h name of [] \<Rightarrow> [] | v # _ \<Rightarrow> v)"

definition query_get :: "http_request \<Rightarrow> string \<Rightarrow> string" where
  "query_get r key = (case mget (rq_Query r) key of None \<Rightarrow> [] | Some v \<Rightarrow> v)"

section \<open>Configuration\<close>

datatype AuthMode = AuthModeRequired | AuthModeOptional | AuthModeDisabled | AuthModeOther string

record gateway_config =
  gc_AuthMode :: AuthMode
  gc_APIKeys :: "string list"
  gc_TrustProxyHeaders :: bool
  gc_CORSAllowedOrigins :: "string list"
  gc_MaxBodyBytes :: int
  gc_limits :: limits_config
  gc_ModelAllowlist :: "string list"
  gc_LimitMaxConcurrentStreams :: int

text \<open>
  What a request meets: the world of the manager, the configuration, the iteration order and the clock of
  the rate limiter, the random part of a request ID, the parts of \<open>net\<close> the code calls
  (\<open>he_ip\<close> is \<open>ParseIP(s).String()\<close>, \<open>he_host\<close> the host of \<open>SplitHostPort\<close>), the first value
  \<open>json.Decoder\<close> reads, the text of a JSON error, what happens in the turns of a
  run the request starts, whether the client has left by its end, the constructors of providers and gateway tools and
  the assets.
\<close>

record 's http_env =
  he_world :: "'s world"
  he_cfg :: gateway_config
  he_pick :: "string list \<Rightarrow> string"
  he_now :: int
  he_stream_now :: int
  he_rand :: string
  he_sha :: "string \<Rightarrow> string"
  he_ip :: "string \<Rightarrow> string option"
  he_host :: "string \<Rightarrow> string option"
  he_first_value :: "string \<Rightarrow> (json \<times> string) option"
  he_json_error :: "string \<Rightarrow> string"
  he_turns :: "turn_input list"
  he_client_gone :: bool
  he_NewProvider :: "string \<Rightarrow> string \<Rightarrow> gerr + provider"
  he_BuildGatewayTools :: "(string \<times> string) list \<Rightarrow> string list \<Rightarrow> jobj option \<Rightarrow> gerr + registry"
  he_assets :: "(string \<Rightarrow> message_request \<Rightarrow> gerr + message_request) option"

section \<open>Response writers\<close>

datatype api_value =
    StartedDoc started_event
  | UpdatedDoc updated_event
  | ForkDoc fork_response
  | ChainDoc chain_record
  | ChainsDoc "chain_record list"
  | SessionDoc session_record
  | SessionsDoc "session_record list"
  | SessionChainsDoc "chain_record list"
  | ContextDoc context_response string
  | TimelineDoc string string "timeline_item list"
  | RunDoc run_record
  | RunsDoc "run_record list"
  | RunTimelineDoc string "timeline_item list"
  | EffectiveRequestDoc effective_request
  | RunResultDoc run_record "run_result option"

datatype document =
    ErrorEnvelope core_error
  | CanonicalEnvelope canonical_error
  | PlainText string
  | Value api_value
  | StreamedEvent server_event

text \<open>The writer: the header map, the status and the headers that went out with it, and what was written.\<close>

record response =
  rw_Header :: "(string, string) gomap"
  rw_Status :: "int option"
  rw_Sent :: "(string, string) gomap"
  rw_Body :: "document list"

definition new_response :: response where
  "new_response = \<lparr>rw_Header = [], rw_Status = None, rw_Sent = [], rw_Body = []\<rparr>"

record 's gateway =
  gw_manager :: "'s manager"
  gw_limiter :: limiter
  gw_draining :: bool
  gw_out :: response

type_synonym ('s, 'a) gop = "('s gateway, 'a) state"

datatype stop = Panic string | StillRunning

type_synonym 's handler = "http_request \<Rightarrow> ('s gateway, stop + unit) state"

definition with_manager :: "('s manager, 'a) state \<Rightarrow> ('s, 'a) gop" where
  "with_manager = zoom gw_manager (\<lambda>m g. g\<lparr>gw_manager := m\<rparr>)"

definition with_limiter :: "(limiter \<Rightarrow> 'a \<times> limiter) \<Rightarrow> ('s, 'a) gop" where
  "with_limiter f = zoom gw_limiter (\<lambda>l g. g\<lparr>gw_limiter := l\<rparr>) (State f)"

definition upd_out :: "(response \<Rightarrow> response) \<Rightarrow> ('s, unit) gop" where
  "upd_out f = modify (\<lambda>g. g\<lparr>gw_out := f (gw_out g)\<rparr>)"

definition set_header :: "string \<Rightarrow> string \<Rightarrow> ('s, unit) gop" where
  "set_header k v = upd_out (\<lambda>w. w\<lparr>rw_Header := mput k v (rw_Header w)\<rparr>)"

text \<open>Only the first \<open>WriteHeader\<close> counts; the first \<open>Write\<close> calls it with 200.\<close>

definition WriteHeader :: "int \<Rightarrow> ('s, unit) gop" where
  "WriteHeader code = upd_out (\<lambda>w. if rw_Status w \<noteq> None then w
     else w\<lparr>rw_Status := Some code, rw_Sent := rw_Header w\<rparr>)"

definition write_document :: "document \<Rightarrow> ('s, unit) gop" where
  "write_document d = do { WriteHeader 200; upd_out (\<lambda>w. w\<lparr>rw_Body := rw_Body w @ [d]\<rparr>) }"

definition json_content_type :: string where
  "json_content_type = ''application/json; charset=utf-8''"

definition writeJSONError :: "int \<Rightarrow> core_error \<Rightarrow> ('s, unit) gop" where
  "writeJSONError status err = do {
     set_header ''Content-Type'' json_content_type;
     WriteHeader status;
     write_document (ErrorEnvelope err) }"

definition writeCoreErrorJSON :: "string \<Rightarrow> core_error \<Rightarrow> int \<Rightarrow> ('s, unit) gop" where
  "writeCoreErrorJSON reqID err status =
     writeJSONError status (if ce_RequestID err = [] then err\<lparr>ce_RequestID := reqID\<rparr> else err)"

definition writeCanonicalErrorJSON :: "canonical_error \<Rightarrow> ('s, unit) gop" where
  "writeCanonicalErrorJSON err = do {
     set_header ''Content-Type'' json_content_type;
     WriteHeader (HTTPStatusForCanonicalError (err_Code err));
     write_document (CanonicalEnvelope err) }"

definition writeJSON :: "api_value \<Rightarrow> ('s, unit) gop" where
  "writeJSON v = do { set_header ''Content-Type'' json_content_type; write_document (Value v) }"

definition http_Error :: "string \<Rightarrow> int \<Rightarrow> ('s, unit) gop" where
  "http_Error msg code = do {
     set_header ''Content-Type'' ''text/plain; charset=utf-8'';
     set_header ''X-Content-Type-Options'' ''nosniff'';
     WriteHeader code;
     write_document (PlainText msg) }"

definition NotFoundHandler :: "http_request \<Rightarrow> ('s, unit) gop" where
  "NotFoundHandler r =
     writeJSONError 404 ((new_core_error ErrNotFoundType ''not found'')\<lparr>ce_RequestID := rq_RequestID r\<rparr>)"

section \<open>Who a request comes from\<close>

definition bearer_prefix :: string where
  "bearer_prefix = ''Bearer ''"

definition ParseBearer :: "http_request \<Rightarrow> string option" where
  "ParseBearer r =
     (let authz = trim_space (header_get (rq_Header r) ''Authorization'') in
      if authz = [] then None
      else if \<not> has_prefix authz bearer_prefix then None
      else (let token = trim_space (trim_prefix authz bearer_prefix) in
            if token = [] then None else Some token))"

datatype principal_kind = KindAPIKey | KindIP | KindAnon

fun kind_name :: "principal_kind \<Rightarrow> string" where
  "kind_name KindAPIKey = ''api_key''"
| "kind_name KindIP = ''ip''"
| "kind_name KindAnon = ''anonymous''"

record resolved =
  rv_Kind :: principal_kind
  rv_Raw :: string
  rv_Key :: string

definition parseIP :: "'s http_env \<Rightarrow> string \<Rightarrow> string" where
  "parseIP E s0 =
     (let s = trim_space s0 in
      if s = [] then []
      else (let h = (case he_host E s of Some h \<Rightarrow> h | None \<Rightarrow> s) in
            case he_ip E (trim_space h) of None \<Rightarrow> [] | Some ip \<Rightarrow> ip))"

definition forwarded_ip :: "'s http_env \<Rightarrow> http_request \<Rightarrow> string" where
  "forwarded_ip E r =
     (let cf = parseIP E (trim_space (header_get (rq_Header r) ''CF-Connecting-IP''));
          real = parseIP E (trim_space (header_get (rq_Header r) ''X-Real-IP''));
          xff = trim_space (header_get (rq_Header r) ''X-Forwarded-For'')
      in if cf \<noteq> [] then cf
         else if real \<noteq> [] then real
         else if xff \<noteq> [] then parseIP E (trim_space (hd (split_on CHR '','' xff)))
         else [])"

definition remote_ip :: "'s http_env \<Rightarrow> http_request \<Rightarrow> string" where
  "remote_ip E r =
     (let host = trim_space (rq_RemoteAddr r) in
      if host = [] then []
      else parseIP E (case he_host E host of Some h \<Rightarrow> h | None \<Rightarrow> host))"

definition resolveClientIP :: "'s http_env \<Rightarrow> http_request \<Rightarrow> string" where
  "resolveClientIP E r =
     (let forwarded = (if gc_TrustProxyHeaders (he_cfg E) then forwarded_ip E r else [])
      in if forwarded \<noteq> [] then forwarded else remote_ip E r)"

definition resolve_address :: "'s http_env \<Rightarrow> http_request \<Rightarrow> resolved" where
  "resolve_address E r =
     (let ip = resolveClientIP E r in
      if ip = [] then \<lparr>rv_Kind = KindAnon, rv_Raw = [], rv_Key = ''anonymous''\<rparr>
      else \<lparr>rv_Kind = KindIP, rv_Raw = ip, rv_Key = PrincipalKeyFromIP (he_sha E) ip\<rparr>)"

definition Resolve :: "'s http_env \<Rightarrow> http_request \<Rightarrow> resolved" where
  "Resolve E r =
     (case rq_APIKey r of
        Some key \<Rightarrow>
          if trim_space key \<noteq> []
          then \<lparr>rv_Kind = KindAPIKey, rv_Raw = key, rv_Key = PrincipalKeyFromAPIKey (he_sha E) key\<rparr>
          else resolve_address E r
      | None \<Rightarrow> resolve_address E r)"

text \<open>The principal of the chain manager. A header names the organisation of internal callers.\<close>

definition internal_org :: "http_request \<Rightarrow> string" where
  "internal_org r = trim_space (header_get (rq_Header r) ''X-VAI-Internal-Org-ID'')"

definition chainPrincipalFromRequest :: "'s http_env \<Rightarrow> http_request \<Rightarrow> principal" where
  "chainPrincipalFromRequest E r =
     (let org = internal_org r; actor = trim_space (header_get (rq_Header r) ''X-VAI-Actor-ID'') in
      if org \<noteq> [] then
        (let pid = trim_space (header_get (rq_Header r) ''X-VAI-Internal-Principal-ID'');
             ty = trim_space (header_get (rq_Header r) ''X-VAI-Internal-Principal-Type'')
         in \<lparr>pr_OrgID = org, pr_PrincipalID = (if pid = [] then org else pid),
             pr_PrincipalType = (if ty = [] then ''app_session'' else ty), pr_ActorID = actor\<rparr>)
      else
        (let v = Resolve E r; pid = (if rv_Key v = [] then ''anonymous'' else rv_Key v) in
         \<lparr>pr_OrgID = pid, pr_PrincipalID = pid, pr_PrincipalType = kind_name (rv_Kind v),
          pr_ActorID = actor\<rparr>))"

text \<open>The credentials in the headers. The map literal is written in the order of the source.\<close>

definition provider_headers :: "(string \<times> string) list" where
  "provider_headers =
     [(''anthropic'', ''X-Provider-Key-Anthropic''), (''openai'', ''X-Provider-Key-OpenAI''),
      (''oai-resp'', ''X-Provider-Key-OpenAI''), (''gem-dev'', ''X-Provider-Key-Gemini''),
      (''gem-vert'', ''X-Provider-Key-VertexAI''), (''groq'', ''X-Provider-Key-Groq''),
      (''cerebras'', ''X-Provider-Key-Cerebras''), (''openrouter'', ''X-Provider-Key-OpenRouter'')]"

definition given_header :: "(string \<times> string) list \<Rightarrow> string \<Rightarrow> bool" where
  "given_header h name = (trim_space (header_get h name) \<noteq> [])"

definition chainScopeFromHeaders :: "(string \<times> string) list \<Rightarrow> credential_scope" where
  "chainScopeFromHeaders h =
     \<lparr>ProviderKeys = map (\<lambda>(p, n). (p, trim_space (header_get h n)))
        (filter (\<lambda>(p, n). given_header h n) provider_headers),
      AllowedGatewayTools =
        (if given_header h ''X-Provider-Key-Tavily'' \<or> given_header h ''X-Provider-Key-Exa''
         then [ToolWebSearch] else []) @
        (if given_header h ''X-Provider-Key-Tavily'' \<or> given_header h ''X-Provider-Key-Firecrawl''
         then [ToolWebFetch] else []) @
        (if given_header h ''X-Provider-Key-Gemini'' \<or> given_header h ''X-Provider-Key-VertexAI''
         then [ToolImage] else [])\<rparr>"

definition resolveAssetBackedRequestWithOrg ::
  "(string \<Rightarrow> message_request \<Rightarrow> gerr + message_request) option \<Rightarrow> string \<Rightarrow> message_request
     \<Rightarrow> gerr + message_request" where
  "resolveAssetBackedRequestWithOrg assets org req =
     (if \<not> RequestHasAssetReferences (mr_System req) (mr_Messages req) then Inr req
      else (case assets of
              None \<Rightarrow> Inl (CoreErr (NewInvalidRequestError
                ''asset references require gateway asset storage to be configured''))
            | Some resolve \<Rightarrow> resolve org req))"

definition chainEnv ::
  "'s http_env \<Rightarrow> principal \<Rightarrow> (string \<times> string) list \<Rightarrow> AttachmentMode \<Rightarrow> string \<Rightarrow> bool \<Rightarrow> sink option
     \<Rightarrow> runtime_env" where
  "chainEnv E p headers mode protocol allowClientTools send =
     \<lparr>env_Principal = p, env_Mode = mode, env_Protocol = protocol, env_Scope = chainScopeFromHeaders headers,
      env_NewProvider = Some (he_NewProvider E),
      env_BuildGatewayTools = Some (he_BuildGatewayTools E headers),
      env_ResolveMessageRequest = Some (resolveAssetBackedRequestWithOrg (he_assets E) (pr_OrgID p)),
      env_Send = send, env_AllowClientTools = allowClientTools\<rparr>"

end
