(* ===== verification/Middleware.thy ===== *)
theory Middleware
  imports Http
begin

text \<open>
  The middlewares around every handler (\<open>pkg/gateway/mw\<close>) and their order (\<open>Handler\<close> in
  \<open>pkg/gateway/server/server.go\<close>). The access log only writes to the logger and is left out.
\<close>

section \<open>Request IDs and panics\<close>

definition RequestID :: "'s http_env \<Rightarrow> 's handler \<Rightarrow> 's handler" where
  "RequestID E inner r =
     (let given_id = trim_space (header_get (rq_Header r) ''X-Request-ID'');
          i = (if given_id = [] then ''req_'' @ he_rand E else given_id)
      in do { set_header ''X-Request-ID'' i; inner (r\<lparr>rq_RequestID := i\<rparr>) })"

definition panic_error :: "string \<Rightarrow> string \<Rightarrow> core_error" where
  "panic_error reqID panicText = (new_core_error ErrAPI ''internal error'')
     \<lparr>ce_RequestID := reqID, ce_Code := ''panic'',
      ce_ProviderError := Some (JObj [(''panic'', JStr panicText)])\<rparr>"

definition Recover :: "'s handler \<Rightarrow> 's handler" where
  "Recover inner r = do {
     out \<leftarrow> inner r;
     (case out of
        Inl (Panic panicText) \<Rightarrow> do { writeJSONError 500 (panic_error (rq_RequestID r) panicText); ok () }
      | _ \<Rightarrow> ret out) }"

section \<open>Authentication\<close>

definition auth_error :: "string \<Rightarrow> string \<Rightarrow> string \<Rightarrow> core_error" where
  "auth_error msg param reqID =
     (new_core_error ErrAuthentication msg)\<lparr>ce_Param := param, ce_RequestID := reqID\<rparr>"

definition Auth :: "gateway_config \<Rightarrow> 's handler \<Rightarrow> 's handler" where
  "Auth cfg inner r =
     (let token_checked =
        (case ParseBearer r of
           None \<Rightarrow>
             if gc_AuthMode cfg = AuthModeRequired
             then do { writeJSONError 401 (auth_error ''missing bearer token'' ''Authorization'' (rq_RequestID r)); ok () }
             else inner r
         | Some token \<Rightarrow>
             if token \<notin> set (gc_APIKeys cfg)
             then do { writeJSONError 401 (auth_error ''invalid api key'' [] (rq_RequestID r)); ok () }
             else inner (r\<lparr>rq_APIKey := Some token\<rparr>))
      in case gc_AuthMode cfg of
           AuthModeDisabled \<Rightarrow> inner r
         | AuthModeOptional \<Rightarrow> token_checked
         | AuthModeRequired \<Rightarrow> token_checked
         | AuthModeOther _ \<Rightarrow> do {
             writeJSONError 500 ((new_core_error ErrAPI ''invalid auth_mode'')\<lparr>ce_RequestID := rq_RequestID r\<rparr>);
             ok () })"

section \<open>Cross-origin requests\<close>

definition corsAllowedMethods :: string where
  "corsAllowedMethods = ''GET, POST, OPTIONS''"

definition corsAllowedHeaderAllowlist :: "string list" where
  "corsAllowedHeaderAllowlist =
     [''Authorization'', ''Content-Type'', ''X-VAI-Version'', ''X-Provider-Key-Anthropic'',
      ''X-Provider-Key-OpenAI'', ''X-Provider-Key-Gemini'', ''X-Provider-Key-Groq'',
      ''X-Provider-Key-Cerebras'', ''X-Provider-Key-OpenRouter'', ''X-Provider-Key-Cartesia'',
      ''X-Provider-Key-ElevenLabs'', ''X-Provider-Key-Tavily'', ''X-Provider-Key-Exa'',
      ''X-Provider-Key-Firecrawl'']"

definition corsExposedHeaders :: string where
  "corsExposedHeaders = join '', '' [''X-Request-ID'', ''X-Model'', ''X-Input-Tokens'', ''X-Output-Tokens'',
     ''X-Total-Tokens'', ''X-Cost-USD'', ''X-Duration-Ms'']"

definition parseHeaderList :: "string \<Rightarrow> string list" where
  "parseHeaderList raw =
     (if raw = [] then [] else filter (\<lambda>p. p \<noteq> []) (map trim_space (split_on CHR '','' raw)))"

definition headerAllowed :: "string \<Rightarrow> bool" where
  "headerAllowed header0 =
     (let header = trim_space header0 in
      header \<noteq> [] \<and> list_ex (\<lambda>allowed. equal_fold allowed header) corsAllowedHeaderAllowlist)"

fun filter_headers :: "string list \<Rightarrow> string list \<Rightarrow> string list" where
  "filter_headers known [] = []"
| "filter_headers known (h # hs) =
     (let key = to_lower (trim_space h) in
      if key = [] \<or> key \<in> set known then filter_headers known hs
      else if headerAllowed h then trim_space h # filter_headers (key # known) hs
      else filter_headers known hs)"

definition filterAllowedHeaders :: "string list \<Rightarrow> string list" where
  "filterAllowedHeaders requested = filter_headers [] requested"

fun add_values :: "string list \<Rightarrow> string list \<Rightarrow> string list \<Rightarrow> string list" where
  "add_values known existing [] = existing"
| "add_values known existing (v # vs) =
     (let v' = trim_space v; key = to_lower v' in
      if v' = [] \<or> key \<in> set known then add_values known existing vs
      else add_values (key # known) (existing @ [v']) vs)"

definition addVary :: "string list \<Rightarrow> ('s, unit) gop" where
  "addVary values = upd_out (\<lambda>w.
     let existing = parseHeaderList (case mget (rw_Header w) ''Vary'' of None \<Rightarrow> [] | Some v \<Rightarrow> v);
         all = add_values (map to_lower existing) existing values
     in if all = [] then w else w\<lparr>rw_Header := mput ''Vary'' (join '', '' all) (rw_Header w)\<rparr>)"

definition is_preflight :: "http_request \<Rightarrow> bool" where
  "is_preflight r = (rq_Method r = ''OPTIONS'' \<and>
     trim_space (header_get (rq_Header r) ''Access-Control-Request-Method'') \<noteq> [])"

definition answer_preflight :: "http_request \<Rightarrow> string \<Rightarrow> ('s, unit) gop" where
  "answer_preflight r origin = do {
     let allowedHeaders = filterAllowedHeaders (parseHeaderList
       (trim_space (header_get (rq_Header r) ''Access-Control-Request-Headers'')));
     set_header ''Access-Control-Allow-Origin'' origin;
     addVary [''Origin'', ''Access-Control-Request-Headers''];
     set_header ''Access-Control-Allow-Methods'' corsAllowedMethods;
     (if allowedHeaders \<noteq> []
      then set_header ''Access-Control-Allow-Headers'' (join '', '' allowedHeaders) else ret ());
     set_header ''Access-Control-Max-Age'' ''600'';
     WriteHeader 204 }"

definition CORS :: "gateway_config \<Rightarrow> 's handler \<Rightarrow> 's handler" where
  "CORS cfg inner r =
     (let origin = trim_space (header_get (rq_Header r) ''Origin'');
          allowed = gc_CORSAllowedOrigins cfg
      in if is_preflight r then
           (if origin = [] \<or> allowed = [] \<or> origin \<notin> set allowed
            then do { http_Error ''cors preflight not allowed'' 403; ok () }
            else do { answer_preflight r origin; ok () })
         else do {
           (if origin \<noteq> [] \<and> allowed \<noteq> [] \<and> origin \<in> set allowed
            then do {
              set_header ''Access-Control-Allow-Origin'' origin;
              addVary [''Origin''];
              set_header ''Access-Control-Expose-Headers'' corsExposedHeaders }
            else ret ());
           inner r })"

section \<open>API version\<close>

definition headerHasToken :: "(string \<times> string) list \<Rightarrow> string \<Rightarrow> string \<Rightarrow> bool" where
  "headerHasToken h name token =
     list_ex (\<lambda>value. list_ex (\<lambda>part. equal_fold (trim_space part) token) (split_on CHR '','' value))
       (header_values h name)"

definition isWebSocketUpgrade :: "http_request \<Rightarrow> bool" where
  "isWebSocketUpgrade r = (headerHasToken (rq_Header r) ''Connection'' ''upgrade'' \<and>
     equal_fold (trim_space (header_get (rq_Header r) ''Upgrade'')) ''websocket'')"

definition isV1Path :: "string \<Rightarrow> bool" where
  "isV1Path path = (path = ''/v1'' \<or> has_prefix path ''/v1/'')"

definition shouldValidateAPIVersion :: "http_request \<Rightarrow> bool" where
  "shouldValidateAPIVersion r =
     (if rq_Method r = ''OPTIONS'' then False
      else if isWebSocketUpgrade r then False
      else isV1Path (rq_Path r))"

definition parseHeaderCSVValues :: "string list \<Rightarrow> string list" where
  "parseHeaderCSVValues values =
     filter (\<lambda>p. p \<noteq> []) (concat (map (\<lambda>v. map trim_space (split_on CHR '','' v)) values))"

definition version_error :: "string \<Rightarrow> core_error" where
  "version_error reqID = (new_core_error ErrInvalidRequest ''unsupported API version'')
     \<lparr>ce_Param := ''X-VAI-Version'', ce_Code := ''unsupported_version'', ce_RequestID := reqID\<rparr>"

definition APIVersion :: "'s handler \<Rightarrow> 's handler" where
  "APIVersion inner r =
     (if \<not> shouldValidateAPIVersion r then inner r
      else if list_ex (\<lambda>v. v \<noteq> ''1'') (parseHeaderCSVValues (header_values (rq_Header r) ''X-VAI-Version''))
      then do { writeJSONError 400 (version_error (rq_RequestID r)); ok () }
      else inner r)"

section \<open>Rate limit\<close>

definition rate_limit_error :: "int \<Rightarrow> string \<Rightarrow> core_error" where
  "rate_limit_error retryAfter reqID = (new_core_error ErrRateLimit ''rate limit exceeded'')
     \<lparr>ce_RequestID := reqID, ce_RetryAfter := (if retryAfter \<le> 0 then None else Some retryAfter)\<rparr>"

definition release :: "permit option \<Rightarrow> ('s, unit) gop" where
  "release p = (case p of None \<Rightarrow> ret () | Some pm \<Rightarrow> with_limiter (\<lambda>l. ((), snd (Release pm l))))"

text \<open>The permit is released when the handler returns, also with a panic.\<close>

definition RateLimit :: "'s http_env \<Rightarrow> 's handler \<Rightarrow> 's handler" where
  "RateLimit E inner r =
     (if rq_Path r = ''/healthz'' \<or> rq_Path r = ''/readyz'' \<or> rq_Method r = ''OPTIONS'' then inner r
      else do {
        dec \<leftarrow> with_limiter (AcquireRequest (he_pick E) (rv_Key (Resolve E r)) (he_now E));
        (if \<not> Allowed dec then do {
           (if RetryAfter dec > 0 then set_header ''Retry-After'' (itoa (RetryAfter dec)) else ret ());
           writeJSONError 429 (rate_limit_error (RetryAfter dec) (rq_RequestID r));
           ok () }
         else do {
           out \<leftarrow> inner r;
           (if out = Inl StillRunning then ret () else release (dec_Permit dec));
           ret out }) })"

section \<open>The order\<close>

definition Handler :: "'s http_env \<Rightarrow> 's handler \<Rightarrow> 's handler" where
  "Handler E mux =
     RequestID E (Recover (CORS (he_cfg E) (APIVersion (Auth (he_cfg E) (RateLimit E mux)))))"

end
