(* ===== verification/ForkRequests.thy ===== *)
theory ForkRequests
  imports ChainFrames Clone PayloadJson
begin

text \<open>
  The bodies of the requests that fork a chain and regenerate a run: \<open>decodeStrictJSON\<close>
  (\<open>pkg/gateway/handlers/chains_http.go\<close>) with the tolerant decoders of tools, messages and defaults
  (\<open>pkg/core/types/chain_types_json.go\<close>) that \<open>encoding/json\<close> calls for the fields.
\<close>

section \<open>Defaults\<close>

text \<open>\<open>json.Unmarshal\<close> into a \<open>Tool\<close>, whose configuration is an \<open>any\<close>.\<close>

definition tool_of_json :: "json \<Rightarrow> tool option" where
  "tool_of_json j = map_option (\<lambda>(t, config). t\<lparr>tool_Config :=
       (case config of None \<Rightarrow> None | Some v \<Rightarrow> if v = JNull then None else Some (jclone v))\<rparr>) (raw_tool j)"

definition decode_raw_content :: "json option \<Rightarrow> content" where
  "decode_raw_content raw = (case raw of None \<Rightarrow> CNil | Some v \<Rightarrow> decodeFlexibleContentJSON v)"

definition ChainDefaults_UnmarshalJSON :: "json \<Rightarrow> chain_defaults option" where
  "ChainDefaults_UnmarshalJSON j =
     (if j = JNull then Some zero_defaults else do {
     m \<leftarrow> as_struct j;
     model \<leftarrow> jstring ''model'' m;
     tools \<leftarrow> jfield_nil ''tools'' (jarr_of tool_of_json) None m;
     names \<leftarrow> jstrings ''gateway_tools'' m;
     config \<leftarrow> jfield_nil ''gateway_tool_config'' as_map None m;
     choice \<leftarrow> jfield_nil ''tool_choice'' (tool_choice_of_json False) None m;
     max_tokens \<leftarrow> jint ''max_tokens'' m;
     temperature \<leftarrow> jfield_nil ''temperature'' as_float None m;
     top_p \<leftarrow> jfield_nil ''top_p'' as_float None m;
     top_k \<leftarrow> jfield_nil ''top_k'' as_int None m;
     stop \<leftarrow> jstrings ''stop_sequences'' m;
     stt \<leftarrow> jstring ''stt_model'' m;
     tts \<leftarrow> jstring ''tts_model'' m;
     format \<leftarrow> jfield_nil ''output_format'' (output_format_of_json False) None m;
     out \<leftarrow> jfield_nil ''output'' (output_config_of_json False) None m;
     voice \<leftarrow> jfield_nil ''voice'' (voice_config_of_json False) None m;
     ext \<leftarrow> jfield_nil ''extensions'' as_map None m;
     meta \<leftarrow> jfield_nil ''metadata'' as_map None m;
     Some \<lparr>cd_Model = model, cd_System = decode_raw_content (jraw ''system'' None m), cd_Tools = tools,
       cd_GatewayTools = names, cd_GatewayToolConfig = config, cd_ToolChoice = choice,
       cd_MaxTokens = max_tokens, cd_Temperature = temperature, cd_TopP = top_p, cd_TopK = top_k,
       cd_StopSequences = stop, cd_STTModel = stt, cd_TTSModel = tts, cd_OutputFormat = format,
       cd_Output = out, cd_Voice = voice, cd_Extensions = ext, cd_Metadata = meta\<rparr> })"

section \<open>Requests\<close>

text \<open>A field with a decoder of its own sees \<open>null\<close> too: \<open>null\<close> gives the zero defaults.\<close>

definition jdefaults :: "jobj \<Rightarrow> chain_defaults option" where
  "jdefaults m = map_option (\<lambda>d. given d zero_defaults)
     (jfield_nil ''defaults'' ChainDefaults_UnmarshalJSON None m)"

definition fork_request_of_json :: "json \<Rightarrow> fork_request option" where
  "fork_request_of_json j = do {
     m \<leftarrow> members True [''history'', ''defaults'', ''metadata'', ''forked_from_run_id''] j;
     history \<leftarrow> jfield_nil ''history'' (jarr_of message_UnmarshalJSON) None m;
     defaults \<leftarrow> jdefaults m;
     meta \<leftarrow> jfield_nil ''metadata'' as_map None m;
     run \<leftarrow> jstring ''forked_from_run_id'' m;
     Some \<lparr>fr_History = history, fr_Defaults = defaults, fr_Metadata = meta, fr_ForkedFromRunID = run\<rparr> }"

definition regenerate_request_of_json :: "json \<Rightarrow> regenerate_request option" where
  "regenerate_request_of_json j = do {
     m \<leftarrow> members True [''defaults'', ''metadata''] j;
     defaults \<leftarrow> jdefaults m;
     meta \<leftarrow> jfield_nil ''metadata'' as_map None m;
     Some \<lparr>rr_Defaults = defaults, rr_Metadata = meta\<rparr> }"

definition empty_fork_request :: fork_request where
  "empty_fork_request =
     \<lparr>fr_History = None, fr_Defaults = zero_defaults, fr_Metadata = None, fr_ForkedFromRunID = []\<rparr>"

definition empty_regenerate_request :: regenerate_request where
  "empty_regenerate_request = \<lparr>rr_Defaults = zero_defaults, rr_Metadata = None\<rparr>"

text \<open>
  The decoder reads one value from the front of the text (the parameter \<open>first_value\<close>, with the text that
  is left) and then asks \<open>More\<close>, which looks at the next character that is not white space and says no at
  a closing bracket or brace.
\<close>

definition json_space :: "char list" where
  "json_space = [CHR '' '', CHR 0x09, CHR 0x0A, CHR 0x0D]"

definition decoder_More :: "string \<Rightarrow> bool" where
  "decoder_More rest =
     (case dropWhile (\<lambda>c. c \<in> set json_space) rest of
        [] \<Rightarrow> False
      | c # _ \<Rightarrow> c \<noteq> CHR '']'' \<and> c \<noteq> CHR ''}'')"

definition decodeStrictJSON ::
  "(string \<Rightarrow> (json \<times> string) option) \<Rightarrow> 'a \<Rightarrow> (json \<Rightarrow> 'a option) \<Rightarrow> string \<Rightarrow> core_error + 'a" where
  "decodeStrictJSON first_value zero decode body =
     (if trim_space body = [] then Inr zero
      else (case first_value (trim_space body) of
              None \<Rightarrow> Inl (NewInvalidRequestError ''request body is invalid JSON'')
            | Some (v, rest) \<Rightarrow>
                (case decode v of
                   None \<Rightarrow> Inl (NewInvalidRequestError ''request body is invalid JSON'')
                 | Some x \<Rightarrow>
                     if decoder_More rest
                     then Inl (NewInvalidRequestError ''request body must contain a single JSON object'')
                     else Inr x)))"

text \<open>The tolerant decoder reads back what the strict one does. A value followed by a brace that nothing
  opened is accepted.\<close>

lemma stray_brace_accepted:
  assumes "trim_space body \<noteq> []" "first_value (trim_space body) = Some (v, CHR ''}'' # rest)"
    "decode v = Some x"
  shows "decodeStrictJSON first_value zero decode body = Inr x"
  using assms by (simp add: decodeStrictJSON_def decoder_More_def json_space_def)

end
