(* ===== verification/ChainsHttp.thy ===== *)
theory ChainsHttp
  imports Middleware ForkRequests Compat
begin

text \<open>
  The HTTP interface of chains and their runs (\<open>pkg/gateway/handlers/chains_http.go\<close>) over the
  operations of the chain manager. Every handler reads its principal from the request; contexts and their
  timeouts are among the inputs of runs. The server always configures a manager, and its response writer
  can flush.
\<close>

section \<open>Errors and bodies\<close>

datatype handler_error = Failed gerr | Undecodable decode_error

text \<open>\<open>apierror.FromError\<close> on what the strict decoders return: an error of \<open>encoding/json\<close> is none it knows.\<close>

definition FromDecodeError :: "string \<Rightarrow> decode_error \<Rightarrow> string \<Rightarrow> core_error \<times> int" where
  "FromDecodeError jt err reqID =
     (case err of
        JsonError \<Rightarrow> ((new_core_error ErrAPI ''internal error'')\<lparr>ce_RequestID := reqID\<rparr>, 500)
      | StrictDecodeError p m \<Rightarrow>
          ((new_core_error ErrInvalidRequest m)\<lparr>ce_Param := p, ce_RequestID := reqID\<rparr>, 400)
      | StrictWrapError p m \<Rightarrow>
          ((new_core_error ErrInvalidRequest (m @ jt))\<lparr>ce_Param := p, ce_RequestID := reqID\<rparr>, 400))"

definition write_core :: "http_request \<Rightarrow> core_error \<times> int \<Rightarrow> ('s, unit) gop" where
  "write_core r e = writeCoreErrorJSON (rq_RequestID r) (fst e) (snd e)"

definition not_found_error :: "http_request \<Rightarrow> core_error" where
  "not_found_error r = (new_core_error ErrNotFoundType ''resource not found'')\<lparr>ce_RequestID := rq_RequestID r\<rparr>"

definition writeChainError :: "'s http_env \<Rightarrow> http_request \<Rightarrow> handler_error \<Rightarrow> ('s, unit) gop" where
  "writeChainError E r err =
     (case err of
        Undecodable e \<Rightarrow>
          write_core r (FromDecodeError (he_json_error E (case rq_Body r of None \<Rightarrow> [] | Some b \<Rightarrow> b)) e (rq_RequestID r))
      | Failed (CanonicalErr c) \<Rightarrow> writeCanonicalErrorJSON c
      | Failed e \<Rightarrow>
          if errors_Is e ErrNotFound then write_core r (not_found_error r, 404)
          else write_core r (FromError e (rq_RequestID r)))"

definition method_not_allowed :: "http_request \<Rightarrow> ('s, unit) gop" where
  "method_not_allowed r = writeCoreErrorJSON (rq_RequestID r)
     ((new_core_error ErrInvalidRequest ''method not allowed'')
        \<lparr>ce_Code := ''method_not_allowed'', ce_RequestID := rq_RequestID r\<rparr>) 405"

text \<open>The body within its limit, or an error that has been written.\<close>

definition bounded_body :: "http_request \<Rightarrow> int \<Rightarrow> string option" where
  "bounded_body r maxBodyBytes =
     (case rq_Body r of
        None \<Rightarrow> None
      | Some b \<Rightarrow> if len b > max 0 maxBodyBytes then None else Some b)"

definition body_error :: core_error where
  "body_error = NewInvalidRequestError ''failed to read request body''"

definition readBoundedBody :: "http_request \<Rightarrow> int \<Rightarrow> ('s, string option) gop" where
  "readBoundedBody r maxBodyBytes =
     (case bounded_body r maxBodyBytes of
        None \<Rightarrow> do { writeCoreErrorJSON (rq_RequestID r) body_error 400; ret None }
      | Some b \<Rightarrow> ret (Some b))"

definition decode_body :: "'s http_env \<Rightarrow> (json \<Rightarrow> 'a decoded) \<Rightarrow> string \<Rightarrow> 'a decoded" where
  "decode_body E decode body = andThen (orElse JsonError (w_parse (he_world E) body)) decode"

text \<open>A handler's steps: \<open>if err != nil { writeChainError; return }\<close>, and the return of a value.\<close>

definition step_or_error ::
  "'s http_env \<Rightarrow> http_request \<Rightarrow> ('s, gerr + 'a) gop \<Rightarrow> ('a \<Rightarrow> ('s, stop + unit) gop) \<Rightarrow> ('s, stop + unit) gop"
where
  "step_or_error E r m f = do {
     out \<leftarrow> m;
     (case out of
        Inl e \<Rightarrow> do { writeChainError E r (Failed e); ok () }
      | Inr x \<Rightarrow> f x) }"

definition decoded_or_error ::
  "'s http_env \<Rightarrow> http_request \<Rightarrow> handler_error + 'a \<Rightarrow> ('a \<Rightarrow> ('s, stop + unit) gop) \<Rightarrow> ('s, stop + unit) gop"
where
  "decoded_or_error E r d f =
     (case d of Inl e \<Rightarrow> do { writeChainError E r e; ok () } | Inr x \<Rightarrow> f x)"

definition checked_or_error ::
  "'s http_env \<Rightarrow> http_request \<Rightarrow> core_error option \<Rightarrow> ('s, stop + unit) gop \<Rightarrow> ('s, stop + unit) gop"
where
  "checked_or_error E r c f =
     (case c of Some e \<Rightarrow> do { writeChainError E r (Failed (CoreErr e)); ok () } | None \<Rightarrow> f)"

definition answer :: "api_value \<Rightarrow> ('s, stop + unit) gop" where
  "answer v = do { writeJSON v; ok () }"

section \<open>Idempotency keys\<close>

definition idempotency_key :: "http_request \<Rightarrow> string" where
  "idempotency_key r = trim_space (header_get (rq_Header r) ''Idempotency-Key'')"

definition key_header_required :: canonical_error where
  "key_header_required = NewCanonicalError ErrorCodeProtocolUnknownFrame ''Idempotency-Key header is required''"

definition with_key ::
  "http_request \<Rightarrow> (canonical_error \<Rightarrow> canonical_error) \<Rightarrow> (string \<Rightarrow> ('s, stop + unit) gop) \<Rightarrow> ('s, stop + unit) gop"
where
  "with_key r place f =
     (if idempotency_key r = [] then do { writeCanonicalErrorJSON (place key_header_required); ok () }
      else f (idempotency_key r))"

definition with_body ::
  "http_request \<Rightarrow> int \<Rightarrow> (string \<Rightarrow> ('s, stop + unit) gop) \<Rightarrow> ('s, stop + unit) gop" where
  "with_body r limit f = do {
     body \<leftarrow> readBoundedBody r limit;
     (case body of None \<Rightarrow> ok () | Some b \<Rightarrow> f b) }"

section \<open>The check of defaults and history\<close>

text \<open>The merge of \<open>chains_http.go\<close>: as the manager's, but a system prompt is taken as it is.\<close>

definition mergeChainDefaults :: "chain_defaults \<Rightarrow> chain_defaults \<Rightarrow> chain_defaults" where
  "mergeChainDefaults current patch = (mergeDefaults current patch)
     \<lparr>cd_System := (if cd_System patch \<noteq> CNil then cd_System patch else cd_System current)\<rparr>"

definition overrideDefaults :: "chain_defaults option \<Rightarrow> chain_defaults" where
  "overrideDefaults overrides =
     (case overrides of None \<Rightarrow> zero_defaults | Some d \<Rightarrow> clone_defaults_json d)"

definition messageRequestForValidation :: "chain_defaults \<Rightarrow> message list \<Rightarrow> message_request" where
  "messageRequestForValidation d messages =
     \<lparr>mr_Model = cd_Model d, mr_Messages = messages, mr_MaxTokens = cd_MaxTokens d, mr_System = cd_System d,
      mr_Temperature = cd_Temperature d, mr_TopP = cd_TopP d, mr_TopK = cd_TopK d,
      mr_StopSequences = clone_slice (cd_StopSequences d), mr_Tools = map clone_tool (elems (cd_Tools d)),
      mr_ToolChoice = cd_ToolChoice d, mr_Stream = False, mr_STTModel = cd_STTModel d,
      mr_TTSModel = cd_TTSModel d, mr_OutputFormat = map_option clone_output_format (cd_OutputFormat d),
      mr_Output = map_option clone_output_config (cd_Output d), mr_Voice = cd_Voice d,
      mr_Extensions = jclone_map (cd_Extensions d), mr_Metadata = jclone_map (cd_Metadata d)\<rparr>"

definition ParseModelString :: "string \<Rightarrow> core_error + string \<times> string" where
  "ParseModelString model =
     (case cut CHR ''/'' model of
        None \<Rightarrow> Inl (NewInvalidRequestError
          (''invalid model format: '' @ quoted model @ '', expected '' @ [CHR 0x27] @ ''provider/model-name'' @ [CHR 0x27]))
      | Some p \<Rightarrow> Inr p)"

definition check_provider :: "message_request \<Rightarrow> core_error option" where
  "check_provider req =
     (case ParseModelString (mr_Model req) of
        Inl e \<Rightarrow> Some e
      | Inr (providerName, modelName) \<Rightarrow>
          if providerName = ''gemini'' \<or> providerName = ''gemini-oauth'' then
            Some ((new_core_error ErrInvalidRequest
              ''provider has been removed; use gem-vert/<model> or gem-dev/<model>'')\<lparr>ce_Param := ''model''\<rparr>)
          else (let issues = compat_ValidateMessageRequest (Some req) providerName (providerName @ ''/'' @ modelName) in
            if issues \<noteq> [] then
              Some ((new_core_error ErrInvalidRequest
                ''request is incompatible with the selected provider/model'')\<lparr>ce_CompatIssues := issues\<rparr>)
            else None))"

definition validateChainMessageRequest ::
  "gateway_config \<Rightarrow> chain_defaults \<Rightarrow> message list \<Rightarrow> core_error option" where
  "validateChainMessageRequest cfg d history =
     (if trim_space (cd_Model d) = [] then None
      else (let req = messageRequestForValidation d history in
        case limits_ValidateMessageRequest (Some req) (gc_limits cfg) of
          Some e \<Rightarrow> Some e
        | None \<Rightarrow>
            if gc_ModelAllowlist cfg \<noteq> [] \<and> mr_Model req \<notin> set (gc_ModelAllowlist cfg) then
              Some ((new_core_error ErrPermission ''model is not allowlisted'')\<lparr>ce_Param := ''model''\<rparr>)
            else check_provider req))"

section \<open>Chains\<close>

definition http_sse :: "'s http_env \<Rightarrow> http_request \<Rightarrow> runtime_env" where
  "http_sse E r = chainEnv E (chainPrincipalFromRequest E r) (rq_Header r) AttachmentModeStatefulSSE ''sse'' False
     (Some (\<lambda>_. None))"

definition http_plain :: "'s http_env \<Rightarrow> http_request \<Rightarrow> runtime_env" where
  "http_plain E r = chainEnv E (chainPrincipalFromRequest E r) (rq_Header r) AttachmentModeStatefulHTTP ''http'' False None"

definition max_body :: "'s http_env \<Rightarrow> int" where
  "max_body E = gc_MaxBodyBytes (he_cfg E)"

definition body_as ::
  "'s http_env \<Rightarrow> (json \<Rightarrow> 'a decoded) \<Rightarrow> string \<Rightarrow> handler_error + 'a" where
  "body_as E decode body = (case decode_body E decode body of Inl e \<Rightarrow> Inl (Undecodable e) | Inr x \<Rightarrow> Inr x)"

definition small_body_as ::
  "'s http_env \<Rightarrow> 'a \<Rightarrow> (json \<Rightarrow> 'a option) \<Rightarrow> string \<Rightarrow> handler_error + 'a" where
  "small_body_as E zero decode body =
     (case decodeStrictJSON (he_first_value E) zero decode body of
        Inl e \<Rightarrow> Inl (Failed (CoreErr e)) | Inr x \<Rightarrow> Inr x)"

definition createChain :: "'s http_env \<Rightarrow> 's handler" where
  "createChain E r =
     with_key r (\<lambda>e. e) (\<lambda>key.
     with_body r (max_body E) (\<lambda>body.
     decoded_or_error E r (body_as E UnmarshalChainStartPayloadStrict body) (\<lambda>payload.
     checked_or_error E r (validateChainMessageRequest (he_cfg E) (sp_Defaults payload) (sp_History payload))
      (step_or_error E r
        (with_manager (StartChain (he_world E) (chainPrincipalFromRequest E r) (http_plain E r) payload key))
        (\<lambda>(event, _). answer (StartedDoc event))))))"

definition patchChain :: "'s http_env \<Rightarrow> string \<Rightarrow> 's handler" where
  "patchChain E chainID r =
     with_key r (WithChain chainID) (\<lambda>key.
     with_body r (max_body E) (\<lambda>body.
     decoded_or_error E r (body_as E UnmarshalChainUpdatePayloadStrict body) (\<lambda>patch.
     step_or_error E r (with_manager (GetChainForMutation (he_world E) (chainPrincipalFromRequest E r) chainID)) (\<lambda>rec.
     checked_or_error E r (validateChainMessageRequest (he_cfg E) (mergeChainDefaults (ch_Defaults rec) patch) [])
      (step_or_error E r (with_manager (UpdateChain_op (he_world E) chainID (http_plain E r) patch key))
        (\<lambda>event. answer (UpdatedDoc event)))))))"

definition forkChain :: "'s http_env \<Rightarrow> string \<Rightarrow> 's handler" where
  "forkChain E chainID r =
     with_key r (WithChain chainID) (\<lambda>key.
     with_body r (max_body E) (\<lambda>body.
     decoded_or_error E r (small_body_as E empty_fork_request fork_request_of_json body) (\<lambda>payload.
     let p = chainPrincipalFromRequest E r in
     step_or_error E r (with_manager (PreviewForkChain (he_world E) p chainID payload)) (\<lambda>preview.
     checked_or_error E r (validateChainMessageRequest (he_cfg E) (fp_Defaults preview) (fp_History preview))
      (step_or_error E r (with_manager (ForkChain (he_world E) p chainID payload key))
        (\<lambda>resp. answer (ForkDoc resp)))))))"

definition getChain :: "'s http_env \<Rightarrow> string \<Rightarrow> 's handler" where
  "getChain E chainID r =
     step_or_error E r (with_manager (GetChainAuthorized (he_world E) (chainPrincipalFromRequest E r) chainID))
       (\<lambda>rec. answer (ChainDoc rec))"

text \<open>The timelines of the runs, one after the other.\<close>

fun timelines :: "'s world \<Rightarrow> principal \<Rightarrow> string list \<Rightarrow> ('s, timeline_item list) fop" where
  "timelines W p [] = ok []"
| "timelines W p (i # is) =
     attempt (GetRunTimelineAuthorized W p i) (\<lambda>(_, items).
     attempt (timelines W p is) (\<lambda>rest. ok (items @ rest)))"

definition getChainContext :: "'s http_env \<Rightarrow> string \<Rightarrow> 's handler" where
  "getChainContext E chainID r =
     (let p = chainPrincipalFromRequest E r;
          format = to_lower (trim_space (query_get r ''format''));
          atRun = trim_space (query_get r ''at_run_id'')
      in if format = [] \<or> format = ''messages'' then
           step_or_error E r (with_manager (GetChainContextAuthorized (he_world E) p chainID))
             (\<lambda>resp. answer (ContextDoc resp atRun))
         else if format = ''timeline'' then
           step_or_error E r (with_manager (ListRunsAuthorized (he_world E) p chainID)) (\<lambda>runs.
           step_or_error E r (with_manager (timelines (he_world E) p (map run_ID runs)))
             (\<lambda>items. answer (TimelineDoc chainID atRun items)))
         else do {
           writeCoreErrorJSON (rq_RequestID r)
             (NewInvalidRequestErrorWithParam ''unsupported context format'' ''format'') 400;
           ok () })"

definition listChainRuns :: "'s http_env \<Rightarrow> string \<Rightarrow> 's handler" where
  "listChainRuns E chainID r =
     step_or_error E r (with_manager (ListRunsAuthorized (he_world E) (chainPrincipalFromRequest E r) chainID))
       (\<lambda>runs. answer (RunsDoc runs))"

definition listChains :: "'s http_env \<Rightarrow> 's handler" where
  "listChains E r =
     step_or_error E r
       (with_manager (mgr_ListChains (he_world E) (chainPrincipalFromRequest E r)
          (trim_space (query_get r ''session_id''))
          (equal_fold (trim_space (query_get r ''unsessioned_only'')) ''true'')))
       (\<lambda>chains. answer (ChainsDoc chains))"

section \<open>Runs\<close>

text \<open>The error of a body that cannot be read is written by \<open>readBoundedBody\<close> and again by the caller.\<close>

definition readRunPayload :: "'s http_env \<Rightarrow> http_request \<Rightarrow> ('s, handler_error + run_payload) gop" where
  "readRunPayload E r = do {
     body \<leftarrow> readBoundedBody r (max_body E);
     ret (case body of
            None \<Rightarrow> Inl (Failed (CoreErr body_error))
          | Some b \<Rightarrow> body_as E UnmarshalChainRunPayloadStrict b) }"

definition validateRunStartAuthorized ::
  "'s http_env \<Rightarrow> principal \<Rightarrow> string \<Rightarrow> run_payload \<Rightarrow> ('s, core_error option) fop" where
  "validateRunStartAuthorized E p chainID payload =
     attempt (GetChainAuthorized (he_world E) p chainID) (\<lambda>rec.
     attempt (GetChainContextAuthorized (he_world E) p chainID) (\<lambda>resp.
       ok (validateChainMessageRequest (he_cfg E)
         (mergeChainDefaults (ch_Defaults rec) (overrideDefaults (rp_Overrides payload)))
         (cx_Messages resp @ rp_Input payload))))"

definition with_run_payload ::
  "'s http_env \<Rightarrow> string \<Rightarrow> http_request \<Rightarrow> (string \<Rightarrow> run_payload \<Rightarrow> ('s, stop + unit) gop) \<Rightarrow> ('s, stop + unit) gop"
where
  "with_run_payload E chainID r f =
     with_key r (WithChain chainID) (\<lambda>key. do {
       d \<leftarrow> readRunPayload E r;
       decoded_or_error E r d (\<lambda>payload.
       step_or_error E r
         (with_manager (validateRunStartAuthorized E (chainPrincipalFromRequest E r) chainID payload)) (\<lambda>c.
       checked_or_error E r c (f key payload))) })"

definition runChainBlocking :: "'s http_env \<Rightarrow> string \<Rightarrow> 's handler" where
  "runChainBlocking E chainID r =
     with_run_payload E chainID r (\<lambda>key payload.
     step_or_error E r
       (with_manager (RunBlocking (he_world E) chainID (http_plain E r) payload key (he_turns E))) (\<lambda>out.
       case out of
         None \<Rightarrow> fail StillRunning
       | Some (rec, _, Some e) \<Rightarrow> do { writeChainError E r (Failed e); ok () }
       | Some (rec, result, None) \<Rightarrow> answer (RunResultDoc rec result)))"

definition stream_headers :: "('s, unit) gop" where
  "stream_headers = do {
     set_header ''Content-Type'' ''text/event-stream; charset=utf-8'';
     set_header ''Cache-Control'' ''no-cache'';
     set_header ''Connection'' ''keep-alive'';
     set_header ''X-Accel-Buffering'' ''no'' }"

fun send_events :: "server_event list \<Rightarrow> ('s, unit) gop" where
  "send_events [] = ret ()"
| "send_events (e # es) = do { write_document (StreamedEvent e); send_events es }"

definition http_error_event :: "string \<Rightarrow> string \<Rightarrow> gerr \<Rightarrow> server_event" where
  "http_error_event chainID runID err =
     ChainErrorEvent 0 0
       (case err of
          CanonicalErr c \<Rightarrow>
            (let c1 = (if err_ChainID c = [] then WithChain chainID c else c) in
             if runID \<noteq> [] \<and> err_RunID c1 = [] then WithRun runID c1 else c1)
        | _ \<Rightarrow> WithRun runID (WithChain chainID
                 (NewCanonicalError ErrorCodeProtocolUnknownFrame ''request failed'')))"

text \<open>The run with its sink: what the manager hands to the sink is written to the stream in that order.\<close>

definition stream_run :: "'s http_env \<Rightarrow> string \<Rightarrow> http_request \<Rightarrow> string \<Rightarrow> run_payload \<Rightarrow> ('s, stop + unit) gop" where
  "stream_run E chainID r key payload = do {
     stream_headers;
     sent \<leftarrow> with_manager (gets mg_sent);
     out \<leftarrow> with_manager (RunBlocking (he_world E) chainID (http_sse E r) payload key (he_turns E));
     sent' \<leftarrow> with_manager (gets mg_sent);
     send_events (map snd (drop (length sent) sent'));
     (let fail_stream = (\<lambda>runID e. if he_client_gone E then ok ()
          else do { write_document (StreamedEvent (http_error_event chainID runID e)); ok () })
      in case out of
           Inl e \<Rightarrow> fail_stream [] e
         | Inr None \<Rightarrow> fail StillRunning
         | Inr (Some (rec, _, Some e)) \<Rightarrow> fail_stream (run_ID rec) e
         | Inr (Some (_, _, None)) \<Rightarrow> ok ()) }"

definition too_many_streams :: "http_request \<Rightarrow> int \<Rightarrow> ('s, unit) gop" where
  "too_many_streams r retryAfter = do {
     (if retryAfter > 0 then set_header ''Retry-After'' ''1'' else ret ());
     writeCoreErrorJSON (rq_RequestID r) (NewRateLimitError ''too many concurrent streams'' retryAfter) 429 }"

definition draining_error :: "http_request \<Rightarrow> core_error" where
  "draining_error r = (new_core_error ErrOverloaded ''gateway is draining'')
     \<lparr>ce_Code := ''draining'', ce_RequestID := rq_RequestID r\<rparr>"

definition with_stream_permit :: "'s http_env \<Rightarrow> http_request \<Rightarrow> ('s, stop + unit) gop \<Rightarrow> ('s, stop + unit) gop" where
  "with_stream_permit E r f =
     (if gc_LimitMaxConcurrentStreams (he_cfg E) > 0 then do {
        dec \<leftarrow> with_limiter (AcquireStream (he_pick E) (rv_Key (Resolve E r)) (he_stream_now E));
        (if \<not> Allowed dec then do { too_many_streams r (RetryAfter dec); ok () }
         else do {
           out \<leftarrow> f;
           (if out = Inl StillRunning then ret () else release (dec_Permit dec));
           ret out }) }
      else f)"

definition runChainStream :: "'s http_env \<Rightarrow> string \<Rightarrow> 's handler" where
  "runChainStream E chainID r = do {
     draining \<leftarrow> gets gw_draining;
     (if draining then do { writeCoreErrorJSON (rq_RequestID r) (draining_error r) 529; ok () }
      else with_run_payload E chainID r (\<lambda>key payload.
        with_stream_permit E r (stream_run E chainID r key payload))) }"

section \<open>Routes\<close>

definition trim_slashes :: "string \<Rightarrow> string" where
  "trim_slashes s = rev (dropWhile (\<lambda>c. c = CHR ''/'') (rev (dropWhile (\<lambda>c. c = CHR ''/'') s)))"

definition not_found :: "'s handler" where
  "not_found r = do { NotFoundHandler r; ok () }"

definition not_allowed :: "'s handler" where
  "not_allowed r = do { method_not_allowed r; ok () }"

definition serveChainsRoot :: "'s http_env \<Rightarrow> 's handler" where
  "serveChainsRoot E r =
     (if rq_Method r = ''POST'' then createChain E r
      else if rq_Method r = ''GET'' then listChains E r
      else not_allowed r)"

definition serve_chain :: "'s http_env \<Rightarrow> string \<Rightarrow> 's handler" where
  "serve_chain E chainID r =
     (if rq_Method r = ''GET'' then getChain E chainID r
      else if rq_Method r = ''PATCH'' then patchChain E chainID r
      else not_allowed r)"

definition serve_chain_part :: "'s http_env \<Rightarrow> string \<Rightarrow> string \<Rightarrow> 's handler" where
  "serve_chain_part E chainID part r =
     (if part = ''context'' then
        (if rq_Method r \<noteq> ''GET'' then not_allowed r else getChainContext E chainID r)
      else if part = ''runs'' then
        (if rq_Method r = ''GET'' then listChainRuns E chainID r
         else if rq_Method r = ''POST'' then runChainBlocking E chainID r
         else not_allowed r)
      else if part = ''runs:stream'' then
        (if rq_Method r \<noteq> ''POST'' then not_allowed r else runChainStream E chainID r)
      else not_found r)"

definition serveChainPath :: "'s http_env \<Rightarrow> 's handler" where
  "serveChainPath E r =
     (let path = trim_slashes (trim_prefix (rq_Path r) ''/v1/chains/'') in
      if path = [] then not_found r
      else if has_suffix path '':fork'' then
        (let chainID = trim_space (trim_suffix path '':fork'') in
         if chainID = [] then not_found r
         else if rq_Method r \<noteq> ''POST'' then not_allowed r
         else forkChain E chainID r)
      else
        (let parts = split_on CHR ''/'' path; chainID = trim_space (hd parts) in
         if chainID = [] then not_found r
         else (case tl parts of
                 [] \<Rightarrow> serve_chain E chainID r
               | part # _ \<Rightarrow> serve_chain_part E chainID part r)))"

definition ChainsHandler :: "'s http_env \<Rightarrow> 's handler" where
  "ChainsHandler E r =
     (if rq_Path r = ''/v1/chains'' then serveChainsRoot E r
      else if has_prefix (rq_Path r) ''/v1/chains/'' then serveChainPath E r
      else not_found r)"

end
