(* ===== verification/RunsHttp.thy ===== *)
theory RunsHttp
  imports ChainsHttp
begin

text \<open>
  The HTTP interface of sessions and the reads of runs (\<open>SessionsHandler\<close> and \<open>ChainRunsReadHandler\<close> of
  \<open>pkg/gateway/handlers/chains_http.go\<close>), the routes and the whole server (\<open>server.go\<close>).
\<close>

section \<open>Sessions and runs\<close>

definition serve_session :: "'s http_env \<Rightarrow> 's handler" where
  "serve_session E r =
     (let path = trim_slashes (trim_prefix (rq_Path r) ''/v1/sessions/'') in
      if path = [] then not_found r
      else
        (let parts = split_on CHR ''/'' path; sessionID = trim_space (hd parts);
             p = chainPrincipalFromRequest E r in
         if sessionID = [] then not_found r
         else (case tl parts of
                 [] \<Rightarrow> step_or_error E r (with_manager (GetSessionAuthorized (he_world E) p sessionID))
                         (\<lambda>session. answer (SessionDoc session))
               | [part] \<Rightarrow>
                   if part = ''chains'' then
                     step_or_error E r (with_manager (ListSessionChainsAuthorized (he_world E) p sessionID))
                       (\<lambda>chains. answer (SessionChainsDoc chains))
                   else not_found r
               | _ \<Rightarrow> not_found r)))"

text \<open>The listing of sessions has no case of its own for a missing resource.\<close>

definition write_error_of_list :: "http_request \<Rightarrow> gerr \<Rightarrow> ('s, unit) gop" where
  "write_error_of_list r e =
     (case e of CanonicalErr c \<Rightarrow> writeCanonicalErrorJSON c | _ \<Rightarrow> write_core r (FromError e (rq_RequestID r)))"

definition SessionsHandler :: "'s http_env \<Rightarrow> 's handler" where
  "SessionsHandler E r =
     (if rq_Method r \<noteq> ''GET'' then not_allowed r
      else if rq_Path r = ''/v1/sessions'' then do {
        out \<leftarrow> with_manager (mgr_ListSessions (he_world E) (chainPrincipalFromRequest E r));
        (case out of
           Inl e \<Rightarrow> do { write_error_of_list r e; ok () }
         | Inr sessions \<Rightarrow> answer (SessionsDoc sessions)) }
      else if \<not> has_prefix (rq_Path r) ''/v1/sessions/'' then not_found r
      else serve_session E r)"

text \<open>Errors of a regenerated run: a canonical one names the run where \<open>place\<close> says so; a missing record is
  none of the errors it knows.\<close>

definition regenerate_error :: "http_request \<Rightarrow> (canonical_error \<Rightarrow> canonical_error) \<Rightarrow> gerr \<Rightarrow> ('s, unit) gop" where
  "regenerate_error r place e =
     (case e of
        CanonicalErr c \<Rightarrow> writeCanonicalErrorJSON (place c)
      | _ \<Rightarrow> write_core r (FromError e (rq_RequestID r)))"

definition step_or_regenerate_error ::
  "http_request \<Rightarrow> (canonical_error \<Rightarrow> canonical_error) \<Rightarrow> ('s, gerr + 'a) gop \<Rightarrow> ('a \<Rightarrow> ('s, stop + unit) gop)
     \<Rightarrow> ('s, stop + unit) gop"
where
  "step_or_regenerate_error r place m f = do {
     out \<leftarrow> m;
     (case out of Inl e \<Rightarrow> do { regenerate_error r place e; ok () } | Inr x \<Rightarrow> f x) }"

definition regenerateRun :: "'s http_env \<Rightarrow> string \<Rightarrow> 's handler" where
  "regenerateRun E runID r =
     with_key r (WithRun runID) (\<lambda>key.
     with_body r (2 ^ 20) (\<lambda>body.
     case decodeStrictJSON (he_first_value E) empty_regenerate_request regenerate_request_of_json body of
       Inl e \<Rightarrow> do { regenerate_error r (WithRun runID) (CoreErr e); ok () }
     | Inr payload \<Rightarrow>
         (let p = chainPrincipalFromRequest E r in
          step_or_regenerate_error r (WithRun runID)
            (with_manager (PreviewRegenerateRun (he_world E) p runID payload)) (\<lambda>preview.
          case validateChainMessageRequest (he_cfg E) (fp_Defaults preview) (fp_History preview @ fp_Input preview) of
            Some e \<Rightarrow> do { regenerate_error r (\<lambda>c. c) (CoreErr e); ok () }
          | None \<Rightarrow>
              step_or_regenerate_error r (\<lambda>c. c)
                (with_manager (RegenerateRun (he_world E) p runID payload key))
                (\<lambda>resp. answer (ForkDoc resp))))))"

text \<open>The effective request of a run that has none is a nil pointer the manager writes to.\<close>

definition nil_dereference :: string where
  "nil_dereference = ''runtime error: invalid memory address or nil pointer dereference''"

definition read_run :: "'s http_env \<Rightarrow> string \<Rightarrow> string list \<Rightarrow> 's handler" where
  "read_run E runID rest r =
     (let p = chainPrincipalFromRequest E r; W = he_world E in
      if rest = [] then
        step_or_error E r (with_manager (GetRunAuthorized W p runID)) (\<lambda>run. answer (RunDoc run))
      else if rest = [''timeline''] then
        step_or_error E r (with_manager (GetRunTimelineAuthorized W p runID))
          (\<lambda>(i, items). answer (RunTimelineDoc i items))
      else if rest = [''effective-request''] then
        step_or_error E r (with_manager (GetEffectiveRequestAuthorized W p runID)) (\<lambda>resp.
          case resp of None \<Rightarrow> fail (Panic nil_dereference) | Some q \<Rightarrow> answer (EffectiveRequestDoc q))
      else not_found r)"

definition ChainRunsReadHandler :: "'s http_env \<Rightarrow> 's handler" where
  "ChainRunsReadHandler E r =
     (if \<not> has_prefix (rq_Path r) ''/v1/runs/'' then not_found r
      else
        (let path = trim_slashes (trim_prefix (rq_Path r) ''/v1/runs/'') in
         if path = [] then not_found r
         else if has_suffix path '':regenerate'' then
           (let runID = trim_space (trim_suffix path '':regenerate'') in
            if runID = [] then not_found r
            else if rq_Method r \<noteq> ''POST'' then not_allowed r
            else regenerateRun E runID r)
         else if rq_Method r \<noteq> ''GET'' then not_allowed r
         else
           (let parts = split_on CHR ''/'' path; runID = trim_space (hd parts) in
            if runID = [] then not_found r else read_run E runID (tl parts) r)))"

text \<open>The routes of \<open>server.go\<close> that end in these handlers, on paths that are clean; the others are \<open>other\<close>.\<close>

definition routes :: "'s http_env \<Rightarrow> 's handler \<Rightarrow> 's handler" where
  "routes E other r =
     (let path = rq_Path r in
      if path = ''/v1/chains/ws'' then other r
      else if path = ''/v1/chains'' \<or> has_prefix path ''/v1/chains/'' then ChainsHandler E r
      else if path = ''/v1/sessions'' \<or> has_prefix path ''/v1/sessions/'' then SessionsHandler E r
      else if has_prefix path ''/v1/runs/'' then ChainRunsReadHandler E r
      else other r)"

definition ServeHTTP :: "'s http_env \<Rightarrow> 's handler \<Rightarrow> 's handler" where
  "ServeHTTP E other = Handler E (routes E other)"

end
