(* ===== verification/HttpLaws.thy ===== *)
theory HttpLaws
  imports RunsHttp SocketLaws
begin

text \<open>
  What holds of the HTTP interface: a chain is left alone by the requests of other organisations. The lemmas
  follow the handlers: runs on another chain, operations of a foreign principal, what is written to the client,
  the middlewares, the handlers one by one.
\<close>

section \<open>Runs on another chain\<close>

lemma other_emitClientToolCall:
  "c' \<noteq> c \<Longrightarrow> preserves (chain_sat c P) (emitClientToolCall W c' r u d)"
  unfolding emitClientToolCall_def by (intro other_intro)

lemma other_upd_pending: "c' \<noteq> c \<Longrightarrow> preserves (chain_sat c P) (upd_pending c' f)"
  unfolding upd_pending_def by (rule sat_upd_other)

lemma other_timeoutPending: "c' \<noteq> c \<Longrightarrow> preserves (chain_sat c P) (timeoutPending W c' uses e)"
  unfolding timeoutPending_def by (intro other_intro preserves_active_pending other_upd_pending)

lemma other_waitForClientTools: "c' \<noteq> c \<Longrightarrow> preserves (chain_sat c P) (waitForClientTools W c' uses wakes)"
proof (induction wakes)
  case Nil
  then show ?case
    by (subst waitForClientTools.simps)
      (intro other_intro preserves_active_pending other_timeoutPending | simp)+
next
  case (Cons w wakes)
  then show ?case
    by (subst waitForClientTools.simps)
      (cases w; simp only: list.case wake.case;
        (intro other_intro preserves_active_pending other_timeoutPending other_SubmitClientToolResult | simp)+)
qed

lemma other_register_pending: "c' \<noteq> c \<Longrightarrow> preserves (chain_sat c P) (register_pending W c' i uses)"
  by (induction uses arbitrary: i) (simp, simp only: register_pending.simps,
    intro other_intro other_upd_pending, simp_all)

lemma other_emit_calls: "c' \<noteq> c \<Longrightarrow> preserves (chain_sat c P) (emit_calls W c' r uses)"
  by (induction uses) (simp, simp only: emit_calls.simps, intro other_intro other_emitClientToolCall, simp_all)

lemma other_enqueue: "c' \<noteq> c \<Longrightarrow> preserves (chain_sat c P) (enqueueClientToolCalls W c' r uses)"
  unfolding enqueueClientToolCalls_def by (intro other_intro other_register_pending other_emit_calls)

lemma other_add_result: "preserves (chain_sat c P) (add_result W i e r content b)"
  unfolding add_result_def by (intro other_intro)

lemma other_resolve_gateway:
  "c' \<noteq> c \<Longrightarrow> preserves (chain_sat c P) (resolve_gateway W c' r reg i t uses refs b)"
  by (induction uses arbitrary: refs b)
    (simp, simp only: resolve_gateway.simps, intro other_intro other_emitRunEvent other_add_result, simp_all)

lemma other_reject_clients: "preserves (chain_sat c P) (reject_clients W i uses b)"
  by (induction uses arbitrary: b) (simp, simp only: reject_clients.simps, intro other_intro other_add_result)

lemma other_add_waited: "preserves (chain_sat c P) (add_waited W i exs b)"
  by (induction exs arbitrary: b) (simp, simp only: add_waited.simps, intro other_intro other_add_result)

lemma other_resolveToolBatch:
  "c' \<noteq> c \<Longrightarrow> preserves (chain_sat c P) (resolveToolBatch W c' a i uses refs wakes)"
  unfolding resolveToolBatch_def
  by (intro other_intro other_resolve_gateway other_reject_clients other_enqueue other_add_waited
      other_waitForClientTools)

lemma other_run_stream: "c' \<noteq> c \<Longrightarrow> preserves (chain_sat c P) (run_stream W c' r script acc)"
proof (induction script arbitrary: acc)
  case (Cons s script)
  then show ?case
    by (cases s) (simp only: run_stream.simps, intro other_intro other_emitRunEvent, simp_all)
qed simp

lemma other_executeModelTurn:
  "c' \<noteq> c \<Longrightarrow> preserves (chain_sat c P) (executeModelTurn W c' a h d)"
  unfolding executeModelTurn_def by (intro other_intro other_run_stream)

lemma other_finish: "c' \<noteq> c \<Longrightarrow> preserves (chain_sat c P) (finish W c' result reason e)"
  unfolding finish_def by (intro other_intro)

lemma other_commitHistory: "c' \<noteq> c \<Longrightarrow> preserves (chain_sat c P) (commitHistory W c' r status ms)"
  unfolding commitHistory_def by (intro other_intro)

lemma other_assistant_item: "preserves (chain_sat c P) (assistant_item W st d content)"
  unfolding assistant_item_def by (intro other_intro)

lemma other_executeTurn:
  "c' \<noteq> c \<Longrightarrow> preserves (chain_sat c P) (executeTurn W c' a eff i st)"
  unfolding executeTurn_def fail_turn_def final_turn_def tool_turn_def
  by (intro other_intro other_emitRunEvent other_executeModelTurn other_finish other_commitHistory
      other_assistant_item other_resolveToolBatch)

lemma other_execute_turns:
  "c' \<noteq> c \<Longrightarrow> preserves (chain_sat c P) (execute_turns W c' a eff is st)"
  by (induction "is" arbitrary: st) (simp, simp only: execute_turns.simps, intro other_intro other_executeTurn, simp_all)

lemma other_startRun: "c' \<noteq> c \<Longrightarrow> preserves (chain_sat c P) (startRun W c' env payload key)"
  unfolding startRun_def by (intro other_intro other_start_new_run)

lemma other_executeRun: "c' \<noteq> c \<Longrightarrow> preserves (chain_sat c P) (executeRun W c' a h eff is)"
  unfolding executeRun_def cleanup_run_def by (intro other_intro other_execute_turns)

lemma other_RunBlocking:
  "c' \<noteq> c \<Longrightarrow> preserves (chain_sat c P) (RunBlocking W c' env payload key is)"
  unfolding RunBlocking_def
  by (intro other_intro other_startRun other_executeRun) (auto split: start_outcome.split intro!: other_intro other_executeRun)

section \<open>Operations of a foreign principal\<close>

text \<open>The fact \<open>is_foreign hc p\<close>: the principal's organisation is not the chain's.\<close>

definition is_foreign :: "hot_chain \<Rightarrow> principal \<Rightarrow> bool" where
  "is_foreign hc p = (\<not> same_org (hc_orgID hc) (pr_OrgID p))"

lemma foreign_denied: "is_foreign hc p \<Longrightarrow> authorizeChainMutation hc p \<noteq> None"
  by (simp add: is_foreign_def authorizeChainMutation_def authorizeOrgAccess_None)

abbreviation stays :: "string \<Rightarrow> hot_chain \<Rightarrow> 's manager \<Rightarrow> bool" where
  "stays c hc \<equiv> chain_sat c (\<lambda>hc'. hc' = hc)"

lemma stays_GetChain_live: "preserves (chain_sat c P) (GetChain_live W c')"
  unfolding GetChain_live_def by (intro other_intro)

lemma stays_reads:
  "preserves (chain_sat c P) (GetChainAuthorized W p c')"
  "preserves (chain_sat c P) (GetChainForMutation W p c')"
  "preserves (chain_sat c P) (GetChainContextAuthorized W p c')"
  "preserves (chain_sat c P) (ListRunsAuthorized W p c')"
  "preserves (chain_sat c P) (GetRunAuthorized W p r)"
  "preserves (chain_sat c P) (GetRunTimelineAuthorized W p r)"
  "preserves (chain_sat c P) (GetEffectiveRequestAuthorized W p r)"
  "preserves (chain_sat c P) (mgr_ListChains W p i b)"
  "preserves (chain_sat c P) (mgr_ListSessions W p)"
  "preserves (chain_sat c P) (GetSessionAuthorized W p i)"
  "preserves (chain_sat c P) (ListSessionChainsAuthorized W p i)"
  "preserves (chain_sat c P) (PreviewForkChain W p c' q)"
  "preserves (chain_sat c P) (PreviewRegenerateRun W p r q')"
  unfolding GetChainAuthorized_def GetChainForMutation_def GetChainContextAuthorized_def GetChainContext_def
    ListRunsAuthorized_def ListRuns_def GetRunAuthorized_def GetRunTimelineAuthorized_def
    mgr_GetRunTimeline_def GetEffectiveRequestAuthorized_def mgr_GetEffectiveRequest_def mgr_ListChains_def
    mgr_ListSessions_def GetSessionAuthorized_def ListSessionChainsAuthorized_def mgr_ListSessionChains_def
    PreviewForkChain_def PreviewRegenerateRun_def
  by (intro other_intro stays_GetChain_live)+

lemma stays_timelines: "preserves (chain_sat c P) (timelines W p is)"
  by (induction "is") (simp_all add: pres_intro stays_reads split: prod.split)

lemma foreign_requireChain:
  assumes "\<And>r. (\<And>hc'. c' = c \<Longrightarrow> r = Inr hc' \<Longrightarrow> hc' = hc) \<Longrightarrow> preserves (stays c hc) (f r)"
  shows "preserves (stays c hc) (State_Monad.bind (requireChain W c') f)"
  by (rule sat_requireChain_bind) (rule assms)

lemma foreign_UpdateChain:
  assumes "is_foreign hc (env_Principal env)"
  shows "preserves (stays c hc) (UpdateChain_op W c' env patch key)"
proof (cases "c' = c")
  case True
  show ?thesis unfolding UpdateChain_op_def True
    by (intro pres_intro foreign_requireChain) (use foreign_denied [OF assms] in auto)
qed (rule other_UpdateChain)

lemma foreign_startRun:
  assumes "is_foreign hc (env_Principal env)"
  shows "preserves (stays c hc) (startRun W c env payload key)"
  unfolding startRun_def
  by (intro pres_intro foreign_requireChain) (use foreign_denied [OF assms] in auto)

text \<open>A foreign principal starts no run on the chain, so none is executed.\<close>

lemma yields_foreign_startRun:
  fixes m :: "'s manager"
  assumes "is_foreign hc (env_Principal env)" "stays c hc m"
  shows "\<exists>e. fst (run_state (startRun W c env payload key) m) = Inl e"
proof -
  have "mget (mg_chains m) c = Some hc" using assms(2) by (auto simp: chain_sat_def)
  then have "run_state (requireChain W c) m = (Inr hc, m)"
    by (simp add: requireChain_def hotChain_def)
  then show ?thesis using foreign_denied [OF assms(1)]
    by (auto simp: startRun_def case_prod_beta split: option.split)
qed

lemma foreign_RunBlocking:
  fixes W :: "'s world"
  assumes "is_foreign hc (env_Principal env)"
  shows "preserves (stays c hc) (RunBlocking W c' env payload key is)"
proof (cases "c' = c")
  case True
  show ?thesis
  proof (rule preservesI)
    fix m :: "'s manager" assume m: "stays c hc m"
    obtain e m' where r: "run_state (startRun W c env payload key) m = (Inl e, m')"
      using yields_foreign_startRun [OF assms m, of W payload key] by (metis fst_conv surj_pair)
    have "stays c hc m'"
      using preservesD [OF foreign_startRun [OF assms, of c W payload key] m] r by (simp add: wp_def)
    then show "wp (RunBlocking W c' env payload key is) (\<lambda>_. stays c hc) m"
      using r by (simp add: True RunBlocking_def wp_def attempt_def)
  qed
qed (rule other_RunBlocking)

section \<open>New chains\<close>

text \<open>The random source does not draw the chain's ID again.\<close>

definition avoids :: "'s world \<Rightarrow> string \<Rightarrow> nat \<Rightarrow> bool" where
  "avoids W c d = (\<forall>n \<ge> d. ''chain_'' @ w_rand W 10 n \<noteq> c)"

definition drawn :: "nat \<Rightarrow> 's manager \<Rightarrow> bool" where
  "drawn d m = (d \<le> mg_draws m)"

definition stays_drawn :: "string \<Rightarrow> hot_chain \<Rightarrow> nat \<Rightarrow> 's manager \<Rightarrow> bool" where
  "stays_drawn c hc d m = (stays c hc m \<and> drawn d m)"

lemma stays_drawnI:
  "preserves (stays c hc) f \<Longrightarrow> preserves (drawn d) f \<Longrightarrow> preserves (stays_drawn c hc d) f"
  by (simp add: preserves_def stays_drawn_def)

lemma drawn_simple:
  "preserves (drawn d) (on_store f)" "preserves (drawn d) (now W)" "preserves (drawn d) (newID W p)"
  "preserves (drawn d) (issueResumeToken W)" "preserves (drawn d) (put_chain c hc)"
  "preserves (drawn d) (upd_chain c g)" "preserves (drawn d) (log_sent l e)" "preserves (drawn d) (hotChain c)"
  by (auto simp: preserves_def drawn_def on_store_def zoom_def now_def newID_def randomHex_def
      issueResumeToken_def put_chain_def upd_chain_def log_sent_def hotChain_def
      split: prod.split option.split)

lemma drawn_nextEvent: "preserves (drawn d) (nextEvent c)"
  unfolding nextEvent_def by (intro pres_intro drawn_simple)

lemma drawn_emit: "preserves (drawn d) (bufferAndEmit W c e)"
  unfolding bufferAndEmit_def by (intro pres_intro drawn_simple)

lemma drawn_requireChain: "preserves (drawn d) (requireChain W c)"
  unfolding requireChain_def by (intro pres_intro drawn_simple)

lemma drawn_GetIdem: "preserves (drawn d) (GetIdem W sc)"
  unfolding GetIdem_def by (intro pres_intro drawn_simple)

lemma drawn_SaveIdem: "preserves (drawn d) (SaveIdem W p c' o' k h r t li)"
  unfolding SaveIdem_def by (intro pres_intro drawn_simple)

lemma drawn_GetChain_live: "preserves (drawn d) (GetChain_live W c)"
  unfolding GetChain_live_def by (intro pres_intro drawn_simple)

lemma new_chain_bind:
  assumes "avoids W c d" "\<And>i. i \<noteq> c \<Longrightarrow> preserves (stays_drawn c hc d) (f i)"
  shows "preserves (stays_drawn c hc d) (State_Monad.bind (newID W ''chain'') f)"
proof (rule preservesI)
  fix m :: "'a manager" assume m: "stays_drawn c hc d m"
  let ?m = "m\<lparr>mg_draws := Suc (mg_draws m)\<rparr>"
  have "''chain_'' @ w_rand W 10 (mg_draws m) \<noteq> c"
    using assms(1) m by (simp add: avoids_def stays_drawn_def drawn_def)
  moreover have "stays_drawn c hc d ?m"
    using m by (simp add: stays_drawn_def drawn_def chain_sat_def)
  ultimately have "wp (f (''chain_'' @ w_rand W 10 (mg_draws m))) (\<lambda>_. stays_drawn c hc d) ?m"
    by (intro preservesD assms(2))
  then show "wp (State_Monad.bind (newID W ''chain'') f) (\<lambda>_. stays_drawn c hc d) m"
    by (simp add: newID_def randomHex_def wp_def)
qed

lemmas draw_intro = new_chain_bind pres_intro
  stays_drawnI [OF preserves_on_store [OF on_chains_sat] drawn_simple(1)]
  stays_drawnI [OF preserves_now [OF on_chains_sat] drawn_simple(2)]
  stays_drawnI [OF preserves_newID [OF on_chains_sat] drawn_simple(3)]
  stays_drawnI [OF preserves_issueResumeToken [OF on_chains_sat] drawn_simple(4)]
  stays_drawnI [OF other_put drawn_simple(5)]
  stays_drawnI [OF other_nextEvent drawn_nextEvent]
  stays_drawnI [OF other_emit drawn_emit]
  stays_drawnI [OF sat_requireChain drawn_requireChain]
  stays_drawnI [OF other_GetIdem drawn_GetIdem]
  stays_drawnI [OF other_SaveIdem drawn_SaveIdem]
  stays_drawnI [OF stays_GetChain_live drawn_GetChain_live]

lemma draw_StartChain:
  "avoids W c d \<Longrightarrow> preserves (stays_drawn c hc d) (StartChain W p env payload key)"
  unfolding StartChain_def start_new_chain_def resolveOrCreateSession_def by (intro draw_intro)

lemma drawn_previews:
  "preserves (drawn d) (PreviewForkChain W p c' q)" "preserves (drawn d) (PreviewRegenerateRun W p r q')"
  unfolding PreviewForkChain_def PreviewRegenerateRun_def
  by (intro pres_intro drawn_simple drawn_requireChain)+

lemma draw_branch:
  "avoids W c d \<Longrightarrow> preserves (stays_drawn c hc d) (branch W p preview op src key h e)"
  unfolding branch_def createForkedChain_def forkResponse_def by (intro draw_intro)

lemma draw_ForkChain: "avoids W c d \<Longrightarrow> preserves (stays_drawn c hc d) (ForkChain W p src q key)"
  unfolding ForkChain_def
  by (intro draw_intro draw_branch stays_drawnI [OF stays_reads(12) drawn_previews(1)])

lemma draw_RegenerateRun: "avoids W c d \<Longrightarrow> preserves (stays_drawn c hc d) (RegenerateRun W p r q key)"
  unfolding RegenerateRun_def
  by (intro draw_intro draw_branch stays_drawnI [OF stays_reads(13) drawn_previews(2)])

section \<open>The gateway around the manager\<close>

definition on_mgr :: "('s manager \<Rightarrow> bool) \<Rightarrow> 's gateway \<Rightarrow> bool" where
  "on_mgr I g = I (gw_manager g)"

lemma mgr_with_manager: "preserves I f \<Longrightarrow> preserves (on_mgr I) (with_manager f)"
  by (simp add: preserves_def on_mgr_def with_manager_def zoom_def case_prod_beta)

lemma mgr_with_limiter: "preserves (on_mgr I) (with_limiter f)"
  by (simp add: preserves_def on_mgr_def with_limiter_def zoom_def case_prod_beta)

text \<open>What is written to the client leaves everything else alone: \<open>silent I\<close>, when \<open>I\<close> does not read the
  response.\<close>

definition silent :: "('s gateway \<Rightarrow> bool) \<Rightarrow> bool" where
  "silent I = (\<forall>g w. I g \<longrightarrow> I (g\<lparr>gw_out := w\<rparr>))"

definition on_lim :: "(limiter \<Rightarrow> bool) \<Rightarrow> 's gateway \<Rightarrow> bool" where
  "on_lim I g = I (gw_limiter g)"

lemma silent_on [simp, intro]: "silent (on_mgr I)" "silent (on_lim J)"
  by (simp_all add: silent_def on_mgr_def on_lim_def)

lemma lim_with_manager: "preserves (on_lim I) (with_manager f)"
  by (simp add: preserves_def on_lim_def with_manager_def zoom_def case_prod_beta)

lemma silent_upd_out: "silent I \<Longrightarrow> preserves I (upd_out f)"
  by (simp add: preserves_def silent_def upd_out_def)

lemma mgr_release: "preserves (on_mgr I) (release p)"
  unfolding release_def by (intro pres_intro mgr_with_limiter)

lemma mgr_write:
  "silent I \<Longrightarrow> preserves I (set_header k v)" "silent I \<Longrightarrow> preserves I (WriteHeader n)"
  "silent I \<Longrightarrow> preserves I (write_document d)" "silent I \<Longrightarrow> preserves I (addVary vs)"
  unfolding set_header_def WriteHeader_def write_document_def addVary_def
  by (intro pres_intro silent_upd_out; assumption)+

lemma mgr_writers:
  assumes "silent I"
  shows "preserves I (writeJSONError n e)" "preserves I (writeCoreErrorJSON i e n)"
    "preserves I (writeCanonicalErrorJSON c)" "preserves I (writeJSON v)"
    "preserves I (http_Error msg n)" "preserves I (NotFoundHandler r)"
    "preserves I (write_core r e')" "preserves I (method_not_allowed r)"
    "preserves I (answer_preflight r origin)" "preserves I (answer v)"
  unfolding writeJSONError_def writeCoreErrorJSON_def writeCanonicalErrorJSON_def writeJSON_def http_Error_def
    NotFoundHandler_def write_core_def method_not_allowed_def answer_preflight_def answer_def
  by (intro pres_intro mgr_write assms)+

lemma mgr_errors:
  assumes "silent I"
  shows "preserves I (writeChainError E r e)" "preserves I (write_error_of_list r e')"
    "preserves I (regenerate_error r place e')" "preserves I (not_found r)"
    "preserves I (not_allowed r)" "preserves I (readBoundedBody r n)"
    "preserves I (too_many_streams r k)" "preserves I stream_headers"
  unfolding writeChainError_def write_error_of_list_def regenerate_error_def not_found_def not_allowed_def
    readBoundedBody_def too_many_streams_def stream_headers_def
  by (auto intro!: pres_intro mgr_writers mgr_write assms split: handler_error.split gerr.split)

lemma mgr_send_events: "silent I \<Longrightarrow> preserves I (send_events es)"
  by (induction es) (simp_all add: pres_intro mgr_write)

text \<open>What the middlewares do around the inner handler, and the request the inner handler sees.\<close>

definition request_id :: "'s http_env \<Rightarrow> http_request \<Rightarrow> string" where
  "request_id E r = (let i = trim_space (header_get (rq_Header r) ''X-Request-ID'') in
     if i = [] then ''req_'' @ he_rand E else i)"

definition in_context :: "'s http_env \<Rightarrow> http_request \<Rightarrow> http_request" where
  "in_context E r = r\<lparr>rq_RequestID := request_id E r,
     rq_APIKey := (if gc_AuthMode (he_cfg E) = AuthModeDisabled \<or> ParseBearer r = None then rq_APIKey r
                   else ParseBearer r)\<rparr>"

lemma triple_post: "triple A m B \<Longrightarrow> (\<And>a. preserves B (f a)) \<Longrightarrow> triple A (State_Monad.bind m f) B"
  by (rule triple_bind_post)

lemma triple_stop: "\<forall>s. A s \<longrightarrow> B s \<Longrightarrow> preserves A m \<Longrightarrow> triple A m B"
  unfolding triple_def preserves_def wp_def by (auto simp: case_prod_beta)

definition entails :: "('s manager \<Rightarrow> bool) \<Rightarrow> ('s manager \<Rightarrow> bool) \<Rightarrow> bool" where
  "entails A B = (\<forall>m. A m \<longrightarrow> B m)"

lemma mgr_stop: "entails A B \<Longrightarrow> preserves (on_mgr A) f \<Longrightarrow> triple (on_mgr A) f (on_mgr B)"
  by (rule triple_stop) (simp_all add: entails_def on_mgr_def)

lemma refused_stop:
  assumes "entails A B" "preserves (on_mgr A) f"
  shows "triple (on_mgr A) (do { _ \<leftarrow> f; ok () }) (on_mgr B)"
  by (rule mgr_stop [OF assms(1)]) (intro pres_intro assms(2))

lemma refused_stop_eta:
  "entails A B \<Longrightarrow> preserves (on_mgr A) f \<Longrightarrow> triple (on_mgr A) (State_Monad.bind f ok) (on_mgr B)"
  by (rule mgr_stop) (auto intro!: preserves_bind)

lemma ParseBearer_id [simp]: "ParseBearer (r\<lparr>rq_RequestID := i\<rparr>) = ParseBearer r"
  by (simp add: ParseBearer_def)

lemma triple_RateLimit:
  assumes "entails A B" "triple (on_mgr A) (inner r) (on_mgr B)"
  shows "triple (on_mgr A) (RateLimit E inner r) (on_mgr B)"
proof -
  have refused: "triple (on_mgr A) (do { _ \<leftarrow> f; _ \<leftarrow> writeJSONError 429 e; ok () }) (on_mgr B)"
    if "preserves (on_mgr A) f" for f :: "('a, unit) gop" and e
    by (rule triple_bind_pre [OF that]) (rule refused_stop [OF assms(1) mgr_writers(1) [OF silent_on(1)]])
  have served: "triple (on_mgr A) (do { out \<leftarrow> inner r;
      _ \<leftarrow> (if out = Inl StillRunning then ret () else release p); ret out }) (on_mgr B)" for p
    by (rule triple_post [OF assms(2)]) (intro pres_intro mgr_release)
  show ?thesis unfolding RateLimit_def
    by (cases "rq_Path r = ''/healthz'' \<or> rq_Path r = ''/readyz'' \<or> rq_Method r = ''OPTIONS''")
      (simp_all only: if_True if_False assms(2), rule triple_bind_pre [OF mgr_with_limiter],
       simp only: split: if_split, intro conjI impI refused served pres_intro mgr_write silent_on)
qed

lemma triple_Auth:
  assumes "entails A B"
    "triple (on_mgr A) (inner (r\<lparr>rq_APIKey := (if gc_AuthMode cfg = AuthModeDisabled \<or> ParseBearer r = None
       then rq_APIKey r else ParseBearer r)\<rparr>)) (on_mgr B)"
  shows "triple (on_mgr A) (Auth cfg inner r) (on_mgr B)"
  using assms(2)
  by (cases "gc_AuthMode cfg"; cases "ParseBearer r")
    (simp_all add: Auth_def refused_stop_eta [OF assms(1)] mgr_writers)

lemma triple_APIVersion:
  assumes "entails A B" "triple (on_mgr A) (inner r) (on_mgr B)"
  shows "triple (on_mgr A) (APIVersion inner r) (on_mgr B)"
  using assms(2) by (simp add: APIVersion_def refused_stop_eta [OF assms(1)] mgr_writers)

lemma triple_CORS:
  assumes "entails A B" "triple (on_mgr A) (inner r) (on_mgr B)"
  shows "triple (on_mgr A) (CORS cfg inner r) (on_mgr B)"
  using assms(2)
  by (auto simp: CORS_def Let_def intro!: refused_stop_eta [OF assms(1)] triple_bind_pre mgr_writers mgr_write
      pres_intro)

lemma triple_Recover:
  assumes "triple (on_mgr A) (inner r) (on_mgr B)"
  shows "triple (on_mgr A) (Recover inner r) (on_mgr B)"
  unfolding Recover_def
  by (rule triple_post [OF assms]) (auto intro!: pres_intro mgr_writers split: sum.split stop.split)

lemma triple_Handler:
  assumes "entails A B" "triple (on_mgr A) (mux (in_context E r)) (on_mgr B)"
  shows "triple (on_mgr A) (Handler E mux r) (on_mgr B)"
  unfolding Handler_def RequestID_def Let_def request_id_def [unfolded Let_def, symmetric]
  by (intro triple_bind_pre mgr_write silent_on triple_Recover triple_CORS triple_APIVersion triple_Auth triple_RateLimit
      assms(1)) (use assms(2) in \<open>simp add: in_context_def split del: if_split cong: if_cong\<close>)

section \<open>The handlers\<close>

lemma mgr_step_or_error:
  assumes "silent I" "preserves I m" "\<And>x. preserves I (f x)"
  shows "preserves I (step_or_error E r m f)" "preserves I (step_or_regenerate_error r place m f)"
  unfolding step_or_error_def step_or_regenerate_error_def
  by (intro pres_intro assms mgr_errors)+

lemma mgr_guards:
  "silent I \<Longrightarrow> (\<And>x. preserves I (g x)) \<Longrightarrow> preserves I (decoded_or_error E r d g)"
  "silent I \<Longrightarrow> preserves I h \<Longrightarrow> preserves I (checked_or_error E r c h)"
  "silent I \<Longrightarrow> (\<And>k. preserves I (f k)) \<Longrightarrow> preserves I (with_key r place f)"
  "silent I \<Longrightarrow> (\<And>b. preserves I (f' b)) \<Longrightarrow> preserves I (with_body r n f')"
  unfolding decoded_or_error_def checked_or_error_def with_key_def with_body_def
  by (intro pres_intro mgr_errors mgr_writers; assumption)+

lemma mgr_stream_permit:
  "preserves (on_mgr I) h \<Longrightarrow> preserves (on_mgr I) (with_stream_permit E r h)"
  unfolding with_stream_permit_def
  by (intro pres_intro mgr_errors mgr_writers mgr_with_limiter mgr_release silent_on; assumption)+

lemmas handler_intro = pres_intro silent_on mgr_guards mgr_step_or_error mgr_stream_permit mgr_with_manager mgr_errors
  mgr_writers mgr_write mgr_send_events

text \<open>The principal of every operation of a handler is that of its request.\<close>

lemma principal_of_env [simp]:
  "env_Principal (http_plain E r) = chainPrincipalFromRequest E r"
  "env_Principal (http_sse E r) = chainPrincipalFromRequest E r"
  by (simp_all add: http_plain_def http_sse_def chainEnv_def)

lemma stays_validate: "preserves (chain_sat c P) (validateRunStartAuthorized E p c' payload)"
  unfolding validateRunStartAuthorized_def by (intro pres_intro stays_reads)

lemma preserves_case_list:
  "(x = [] \<Longrightarrow> preserves I m) \<Longrightarrow> (\<And>a as. x = a # as \<Longrightarrow> preserves I (f a as)) \<Longrightarrow>
   preserves I (case x of [] \<Rightarrow> m | a # as \<Rightarrow> f a as)"
  by (cases x) auto

lemma stays_reading:
  "preserves (on_mgr (chain_sat c P)) (getChain E c' r)"
  "preserves (on_mgr (chain_sat c P)) (getChainContext E c' r)"
  "preserves (on_mgr (chain_sat c P)) (listChainRuns E c' r)"
  "preserves (on_mgr (chain_sat c P)) (listChains E r)"
  "preserves (on_mgr (chain_sat c P)) (SessionsHandler E r)"
  "preserves (on_mgr (chain_sat c P)) (read_run E i rest r)"
  unfolding getChain_def getChainContext_def listChainRuns_def listChains_def SessionsHandler_def
    serve_session_def read_run_def
  by (intro handler_intro preserves_case_list stays_reads stays_timelines)+

lemma foreign_patch:
  "is_foreign hc (chainPrincipalFromRequest E r) \<Longrightarrow> preserves (on_mgr (stays c hc)) (patchChain E c' r)"
  unfolding patchChain_def by (intro handler_intro stays_reads foreign_UpdateChain) simp

lemma mgr_readRunPayload: "preserves (on_mgr I) (readRunPayload E r)"
  unfolding readRunPayload_def by (intro handler_intro)

lemma foreign_stream_run:
  "is_foreign hc (chainPrincipalFromRequest E r) \<Longrightarrow> preserves (on_mgr (stays c hc)) (stream_run E c' r key payload)"
  unfolding stream_run_def Let_def
  by (intro handler_intro foreign_RunBlocking | simp)+

lemma foreign_runs:
  assumes "is_foreign hc (chainPrincipalFromRequest E r)"
  shows "preserves (on_mgr (stays c hc)) (runChainBlocking E c' r)"
    "preserves (on_mgr (stays c hc)) (runChainStream E c' r)"
  unfolding runChainBlocking_def runChainStream_def with_run_payload_def
  by (intro handler_intro mgr_readRunPayload stays_validate foreign_RunBlocking foreign_stream_run assms
      | simp add: assms)+

text \<open>Handlers that make a new chain start where its ID is still to be drawn.\<close>

lemma mgr_drawn_reads:
  "preserves (on_mgr (stays_drawn c hc d)) (with_manager (PreviewForkChain W p c' q))"
  "preserves (on_mgr (stays_drawn c hc d)) (with_manager (PreviewRegenerateRun W p i q'))"
  by (intro mgr_with_manager stays_drawnI stays_reads drawn_previews)+

lemma drawn_createChain:
  "avoids (he_world E) c d \<Longrightarrow> preserves (on_mgr (stays_drawn c hc d)) (createChain E r)"
  unfolding createChain_def by (intro handler_intro draw_StartChain)

lemma drawn_forkChain:
  "avoids (he_world E) c d \<Longrightarrow> preserves (on_mgr (stays_drawn c hc d)) (forkChain E c' r)"
  unfolding forkChain_def by (intro handler_intro mgr_drawn_reads draw_ForkChain)

lemma drawn_regenerateRun:
  "avoids (he_world E) c d \<Longrightarrow> preserves (on_mgr (stays_drawn c hc d)) (regenerateRun E i r)"
  unfolding regenerateRun_def by (intro handler_intro mgr_drawn_reads draw_RegenerateRun)

lemma entails_drawn: "entails (stays_drawn c hc d) (stays c hc)"
  by (simp add: entails_def stays_drawn_def)

text \<open>From \<open>stays_drawn\<close> to \<open>stays\<close>, whichever of the two a handler keeps.\<close>

lemma leaves_alone:
  "preserves (on_mgr (stays c hc)) f \<Longrightarrow> triple (on_mgr (stays_drawn c hc d)) f (on_mgr (stays c hc))"
  "preserves (on_mgr (stays_drawn c hc d)) f \<Longrightarrow> triple (on_mgr (stays_drawn c hc d)) f (on_mgr (stays c hc))"
  by (auto simp: triple_def preserves_def wp_def on_mgr_def stays_drawn_def case_prod_beta)

definition chain_api :: "string \<Rightarrow> bool" where
  "chain_api path = (path \<noteq> ''/v1/chains/ws'' \<and>
     (path = ''/v1/chains'' \<or> has_prefix path ''/v1/chains/'' \<or> path = ''/v1/sessions'' \<or>
      has_prefix path ''/v1/sessions/'' \<or> has_prefix path ''/v1/runs/''))"

lemma foreign_chains:
  assumes "is_foreign hc (chainPrincipalFromRequest E r)" "avoids (he_world E) c d"
  shows "triple (on_mgr (stays_drawn c hc d)) (ChainsHandler E r) (on_mgr (stays c hc))"
proof -
  note reads = stays_reading [THEN leaves_alone(1)] mgr_errors [THEN leaves_alone(1)]
    foreign_patch [OF assms(1), THEN leaves_alone(1)] foreign_runs [OF assms(1), THEN leaves_alone(1)]
    drawn_createChain [OF assms(2), THEN leaves_alone(2)] drawn_forkChain [OF assms(2), THEN leaves_alone(2)]
  show ?thesis
    unfolding ChainsHandler_def serveChainsRoot_def serveChainPath_def serve_chain_def serve_chain_part_def
    by (simp add: reads Let_def split: list.split)
qed

lemma foreign_run_reads:
  assumes "avoids (he_world E) c d"
  shows "triple (on_mgr (stays_drawn c hc d)) (ChainRunsReadHandler E r) (on_mgr (stays c hc))"
proof -
  note reads = stays_reading [THEN leaves_alone(1)] mgr_errors [THEN leaves_alone(1)]
    drawn_regenerateRun [OF assms, THEN leaves_alone(2)]
  show ?thesis unfolding ChainRunsReadHandler_def by (simp add: reads Let_def)
qed

text \<open>C1. Whatever a client sends to the HTTP interface of chains, sessions and runs, and however the
  middlewares and handlers deal with it, a chain in memory of another organisation than the one the request
  is attributed to stays exactly as it is, as long as the random source does not draw the chain's ID again
  for a new chain.\<close>

theorem http_tenant_isolation:
  assumes "chain_api (rq_Path r)" and c: "mget (mg_chains (gw_manager g)) c = Some hc"
    and "\<not> same_org (hc_orgID hc) (pr_OrgID (chainPrincipalFromRequest E (in_context E r)))"
    and "\<forall>n \<ge> mg_draws (gw_manager g). ''chain_'' @ w_rand (he_world E) 10 n \<noteq> c"
  shows "mget (mg_chains (gw_manager (snd (run_state (ServeHTTP E other r) g)))) c = Some hc"
proof -
  let ?d = "mg_draws (gw_manager g)" and ?r = "in_context E r"
  have f: "is_foreign hc (chainPrincipalFromRequest E ?r)" and a: "avoids (he_world E) c ?d"
    using assms(3,4) by (simp_all add: is_foreign_def avoids_def)
  have "rq_Path ?r = rq_Path r" by (simp add: in_context_def)
  then have "triple (on_mgr (stays_drawn c hc ?d)) (routes E other ?r) (on_mgr (stays c hc))"
    using assms(1) foreign_chains [OF f a] foreign_run_reads [OF a] stays_reading(5) [THEN leaves_alone(1)]
    by (auto simp: routes_def chain_api_def Let_def)
  then have "triple (on_mgr (stays_drawn c hc ?d)) (ServeHTTP E other r) (on_mgr (stays c hc))"
    unfolding ServeHTTP_def by (rule triple_Handler [OF entails_drawn])
  moreover have "on_mgr (stays_drawn c hc ?d) g"
    using c by (simp add: on_mgr_def stays_drawn_def drawn_def chain_sat_def)
  ultimately show ?thesis
    by (auto simp: triple_def wp_def on_mgr_def chain_sat_def case_prod_beta)
qed

section \<open>An example\<close>

definition demo_gateway_config :: gateway_config where
  "demo_gateway_config = \<lparr>gc_AuthMode = AuthModeRequired, gc_APIKeys = [''k1''], gc_TrustProxyHeaders = False,
     gc_CORSAllowedOrigins = [], gc_MaxBodyBytes = 1000,
     gc_limits = \<lparr>lc_MaxMessages = 10, lc_MaxTools = 10, lc_MaxTotalTextBytes = 1000,
       lc_MaxB64BytesPerBlock = 1000, lc_MaxB64BytesTotal = 1000\<rparr>,
     gc_ModelAllowlist = [], gc_LimitMaxConcurrentStreams = 1\<rparr>"

definition demo_http :: "memory_store http_env" where
  "demo_http = \<lparr>he_world = demo_world, he_cfg = demo_gateway_config, he_pick = hd, he_now = 0, he_stream_now = 0,
     he_rand = ''r'', he_sha = (\<lambda>s. s), he_ip = (\<lambda>_. None), he_host = (\<lambda>_. None), he_first_value = (\<lambda>_. None),
     he_json_error = (\<lambda>_. []), he_turns = [], he_client_gone = False,
     he_NewProvider = (\<lambda>_ _. Inl ErrNotFound), he_BuildGatewayTools = (\<lambda>_ _ _. Inl ErrNotFound),
     he_assets = None\<rparr>"

definition demo_rate_limits :: rl_config where
  "demo_rate_limits = \<lparr>RPS = 1, Burst = 1, MaxConcurrentRequests = 1, MaxConcurrentStreams = 1,
     MaxConcurrentWSSessions = 1, MaxEntries = 10, EntryTTL = 1\<rparr>"

definition demo_gateway :: "memory_store gateway" where
  "demo_gateway = \<lparr>gw_manager = idle_manager, gw_limiter = New demo_rate_limits, gw_draining = False,
     gw_out = new_response\<rparr>"

text \<open>A client with the listed key that asks for another run of the chain.\<close>

definition demo_request :: "(string \<times> string) list \<Rightarrow> http_request" where
  "demo_request headers = \<lparr>rq_Method = ''POST'', rq_Path = ''/v1/chains/c1/runs'', rq_Query = [],
     rq_Header = headers, rq_RemoteAddr = [], rq_Body = Some ''{}'', rq_RequestID = [], rq_APIKey = None\<rparr>"

lemma demo_chain_held: "mget (mg_chains (gw_manager demo_gateway)) demo_chain = Some idle_chain"
  by (simp add: demo_gateway_def idle_manager_def mget_def)

lemma http_tenant_isolation_witness:
  "mget (mg_chains (gw_manager (snd (run_state (ServeHTTP demo_http not_found (demo_request
     [(''Authorization'', ''Bearer k1''), (''Idempotency-Key'', ''i1'')])) demo_gateway)))) demo_chain = Some idle_chain"
proof (rule http_tenant_isolation)
  show "chain_api (rq_Path (demo_request [(''Authorization'', ''Bearer k1''), (''Idempotency-Key'', ''i1'')]))"
    by code_simp
  show "\<not> same_org (hc_orgID idle_chain) (pr_OrgID (chainPrincipalFromRequest demo_http (in_context demo_http
     (demo_request [(''Authorization'', ''Bearer k1''), (''Idempotency-Key'', ''i1'')]))))"
    by code_simp
qed (rule demo_chain_held, simp add: demo_http_def demo_world_def demo_chain_def)

end
