(* ===== verification/HttpGuards.thy ===== *)
theory HttpGuards
  imports HttpLaws
begin

text \<open>
  What the middlewares guard: no handler sees a request without a listed key, every permit of the rate
  limiter comes back, and which organisation a request speaks for.
\<close>

section \<open>Authentication\<close>

definition unauthenticated :: "gateway_config \<Rightarrow> http_request \<Rightarrow> bool" where
  "unauthenticated cfg r = (gc_AuthMode cfg = AuthModeRequired \<and>
     (case ParseBearer r of None \<Rightarrow> True | Some token \<Rightarrow> token \<notin> set (gc_APIKeys cfg)))"

text \<open>The response is a refusal: a status among the given ones and no data of the gateway.\<close>

definition refusal :: "int list \<Rightarrow> response \<Rightarrow> bool" where
  "refusal codes w = (\<exists>c \<in> set codes. rw_Status w = Some c \<and>
     list_all (\<lambda>d. case d of Value _ \<Rightarrow> False | StreamedEvent _ \<Rightarrow> False | _ \<Rightarrow> True) (rw_Body w))"

text \<open>The operation ends without running a handler: it returns, writes a refusal and changes nothing else.\<close>

definition refuses :: "int list \<Rightarrow> ('s, stop + unit) gop \<Rightarrow> bool" where
  "refuses codes m = (\<forall>g. rw_Status (gw_out g) = None \<longrightarrow> rw_Body (gw_out g) = [] \<longrightarrow>
     (case run_state m g of (out, g') \<Rightarrow>
        out = Inr () \<and> g' = g\<lparr>gw_out := gw_out g'\<rparr> \<and> refusal codes (gw_out g')))"

definition headers_only :: "('s, unit) gop \<Rightarrow> bool" where
  "headers_only m = (\<forall>g. \<exists>h. snd (run_state m g) = g\<lparr>gw_out := (gw_out g)\<lparr>rw_Header := h\<rparr>\<rparr>)"

lemma same_headers: "\<exists>h. g = g\<lparr>gw_out := (gw_out g)\<lparr>rw_Header := h\<rparr>\<rparr>"
  by (intro exI [of _ "rw_Header (gw_out g)"]) simp

lemma headers_only_ret: "headers_only (ret ())"
  unfolding headers_only_def run_ret snd_conv by (intro allI same_headers)

lemma headers_only_upd: "(\<And>w. \<exists>h. f w = w\<lparr>rw_Header := h\<rparr>) \<Longrightarrow> headers_only (upd_out f)"
  by (simp add: headers_only_def upd_out_def) metis

lemma same_header_map: "\<exists>h. w = w\<lparr>rw_Header := h\<rparr>"
  by (intro exI [of _ "rw_Header w"]) simp

lemma headers_only_set: "headers_only (set_header k v)" "headers_only (addVary vs)"
  unfolding set_header_def addVary_def
  by (intro headers_only_upd; auto simp: Let_def intro: same_header_map)+

lemma headers_only_bind:
  assumes "headers_only m" "headers_only n"
  shows "headers_only (do { _ \<leftarrow> m; n })"
  unfolding headers_only_def
proof
  fix g :: "'a gateway"
  obtain h where h: "snd (run_state m g) = g\<lparr>gw_out := (gw_out g)\<lparr>rw_Header := h\<rparr>\<rparr>"
    using assms(1) by (auto simp: headers_only_def)
  show "\<exists>h. snd (run_state (do { _ \<leftarrow> m; n }) g) = g\<lparr>gw_out := (gw_out g)\<lparr>rw_Header := h\<rparr>\<rparr>"
    using assms(2) [unfolded headers_only_def, rule_format, of "g\<lparr>gw_out := (gw_out g)\<lparr>rw_Header := h\<rparr>\<rparr>"]
    by (auto simp: case_prod_beta h)
qed

lemma headers_only_if: "headers_only m \<Longrightarrow> headers_only n \<Longrightarrow> headers_only (if b then m else n)"
  by simp

lemma refuses_if: "(b \<Longrightarrow> refuses codes m) \<Longrightarrow> (\<not> b \<Longrightarrow> refuses codes n) \<Longrightarrow> refuses codes (if b then m else n)"
  by simp

lemma refuses_after:
  assumes "headers_only m" "refuses codes n"
  shows "refuses codes (do { _ \<leftarrow> m; n })"
  unfolding refuses_def
proof (intro allI impI)
  fix g :: "'a gateway"
  assume g: "rw_Status (gw_out g) = None" "rw_Body (gw_out g) = []"
  obtain h where h: "snd (run_state m g) = g\<lparr>gw_out := (gw_out g)\<lparr>rw_Header := h\<rparr>\<rparr>"
    using assms(1) by (auto simp: headers_only_def)
  show "case run_state (do { _ \<leftarrow> m; n }) g of (out, g') \<Rightarrow>
      out = Inr () \<and> g' = g\<lparr>gw_out := gw_out g'\<rparr> \<and> refusal codes (gw_out g')"
    using assms(2) [unfolded refuses_def, rule_format, of "g\<lparr>gw_out := (gw_out g)\<lparr>rw_Header := h\<rparr>\<rparr>"] g h
    by (auto simp: case_prod_beta)
qed

lemma refuses_error: "c \<in> set codes \<Longrightarrow> refuses codes (do { _ \<leftarrow> writeJSONError c e; ok () })"
  by (simp add: refuses_def refusal_def writeJSONError_def set_header_def write_document_def WriteHeader_def
      upd_out_def)

lemma refuses_plain: "c \<in> set codes \<Longrightarrow> refuses codes (do { _ \<leftarrow> http_Error msg c; ok () })"
  by (simp add: refuses_def refusal_def http_Error_def set_header_def write_document_def WriteHeader_def
      upd_out_def)

lemma refuses_WriteHeader: "c \<in> set codes \<Longrightarrow> refuses codes (do { _ \<leftarrow> WriteHeader c; ok () })"
  by (simp add: refuses_def refusal_def WriteHeader_def upd_out_def)

lemma refuses_preflight: "204 \<in> set codes \<Longrightarrow> refuses codes (do { _ \<leftarrow> answer_preflight r origin; ok () })"
  unfolding answer_preflight_def Let_def
  by (simp only: bind_assoc)
    (intro refuses_after headers_only_set headers_only_ret headers_only_if refuses_WriteHeader)

lemma refuses_Auth:
  assumes "unauthenticated cfg r" "401 \<in> set codes"
  shows "refuses codes (Auth cfg inner r)"
proof (cases "ParseBearer r")
  case None
  then show ?thesis
    using assms by (simp only: unauthenticated_def Auth_def Let_def AuthMode.case option.case if_True refl not_False_eq_True refuses_error)
next
  case (Some token)
  then show ?thesis
    using assms by (simp only: unauthenticated_def Auth_def Let_def AuthMode.case option.case if_True refl not_False_eq_True refuses_error)
qed

lemma refuses_Recover: "refuses codes (inner r) \<Longrightarrow> refuses codes (Recover inner r)"
  unfolding Recover_def refuses_def by (fastforce simp: case_prod_beta)

lemma unauthenticated_id [simp]:
  "unauthenticated cfg (r\<lparr>rq_RequestID := i\<rparr>) = unauthenticated cfg r"
  by (simp add: unauthenticated_def)

text \<open>The status such a request is answered with, whatever its path: a preflight is answered by the CORS rules,
  any other request with the missing version or the missing key.\<close>

definition unauthenticated_status :: "gateway_config \<Rightarrow> http_request \<Rightarrow> int" where
  "unauthenticated_status cfg r =
     (let origin = trim_space (header_get (rq_Header r) ''Origin'') in
      if is_preflight r then (if origin \<noteq> [] \<and> origin \<in> set (gc_CORSAllowedOrigins cfg) then 204 else 403)
      else if shouldValidateAPIVersion r \<and>
          list_ex (\<lambda>v. v \<noteq> ''1'') (parseHeaderCSVValues (header_values (rq_Header r) ''X-VAI-Version''))
      then 400 else 401)"

lemma unauthenticated_status_id [simp]:
  "unauthenticated_status cfg (r\<lparr>rq_RequestID := i\<rparr>) = unauthenticated_status cfg r"
  by (simp add: unauthenticated_status_def is_preflight_def shouldValidateAPIVersion_def isWebSocketUpgrade_def)

lemma refuses_CORS_exact:
  assumes "\<not> is_preflight r \<Longrightarrow> refuses [unauthenticated_status cfg r] (inner r)"
  shows "refuses [unauthenticated_status cfg r] (CORS cfg inner r)"
proof (cases "is_preflight r")
  case True
  then show ?thesis
    unfolding CORS_def Let_def
    by (intro refuses_if refuses_plain refuses_preflight) (auto simp: unauthenticated_status_def)
next
  case False
  then show ?thesis
    unfolding CORS_def Let_def
    by (simp only: if_False)
      (intro refuses_after headers_only_set headers_only_if headers_only_ret headers_only_bind assms)
qed

lemma refuses_APIVersion_exact:
  assumes "\<not> is_preflight r" "refuses [401] (inner r)"
  shows "refuses [unauthenticated_status cfg r] (APIVersion inner r)"
  unfolding APIVersion_def
  by (intro refuses_if refuses_error) (use assms in \<open>auto simp: unauthenticated_status_def Let_def\<close>)

lemma refuses_ServeHTTP:
  assumes "unauthenticated (he_cfg E) r"
  shows "refuses [unauthenticated_status (he_cfg E) r] (ServeHTTP E other r)"
proof -
  have "refuses [unauthenticated_status (he_cfg E) (r\<lparr>rq_RequestID := i\<rparr>)]
      (CORS (he_cfg E) (APIVersion (Auth (he_cfg E) (RateLimit E (routes E other)))) (r\<lparr>rq_RequestID := i\<rparr>))" for i
    by (intro refuses_CORS_exact refuses_APIVersion_exact refuses_Auth) (simp_all add: assms)
  then show ?thesis
    unfolding ServeHTTP_def Handler_def RequestID_def Let_def
    by (intro refuses_after headers_only_set refuses_Recover) simp
qed

text \<open>C2. Where authentication is required, a request without a listed key never reaches a handler, the rate
  limiter or the chains, whatever its path (also \<open>/healthz\<close> and \<open>/readyz\<close>): nothing but the response
  changes, which carries no data. A preflight is answered with 204 if its origin is listed and with 403 if not, a
  request that asks for another API version with 400, and any other with 401.\<close>

theorem requests_authenticated:
  assumes "unauthenticated (he_cfg E) r" "gw_out g = new_response"
  shows "case run_state (ServeHTTP E other r) g of (out, g') \<Rightarrow>
    out = Inr () \<and> g' = g\<lparr>gw_out := gw_out g'\<rparr> \<and> refusal [unauthenticated_status (he_cfg E) r] (gw_out g')"
  using refuses_ServeHTTP [OF assms(1), of other] assms(2) by (simp add: refuses_def new_response_def)

text \<open>A health probe without a key.\<close>

lemma probe_refused:
  assumes "unauthenticated (he_cfg E) r" "gw_out g = new_response"
    and "rq_Method r = ''GET''" "rq_Path r = ''/healthz'' \<or> rq_Path r = ''/readyz''"
  shows "rw_Status (gw_out (snd (run_state (ServeHTTP E other r) g))) = Some 401"
proof -
  have "\<not> isV1Path (rq_Path r)" using assms(4) by (elim disjE; simp) code_simp+
  then have "unauthenticated_status (he_cfg E) r = 401"
    using assms(3) by (simp add: unauthenticated_status_def is_preflight_def shouldValidateAPIVersion_def)
  then show ?thesis
    using refuses_ServeHTTP [OF assms(1), of other] assms(2)
    by (auto simp: refuses_def new_response_def refusal_def case_prod_beta)
qed

section \<open>Permits\<close>

text \<open>An operation that returns has given back what it took: it keeps the limiter in order for the permits that
  were out before.\<close>

definition lim_ok :: "rl_config \<Rightarrow> permit list \<Rightarrow> limiter \<Rightarrow> bool" where
  "lim_ok cfg ps l = rl_inv cfg (l, ps)"

definition balanced :: "rl_config \<Rightarrow> ('s, stop + unit) gop \<Rightarrow> bool" where
  "balanced cfg m = (\<forall>g ps. lim_ok cfg ps (gw_limiter g) \<longrightarrow> fst (run_state m g) \<noteq> Inl StillRunning \<longrightarrow>
     lim_ok cfg ps (gw_limiter (snd (run_state m g))))"

lemma balanced_preserves:
  assumes "\<And>I. preserves (on_lim I) m"
  shows "balanced cfg m"
  unfolding balanced_def
  using assms [of "lim_ok cfg ps" for ps] by (simp add: preserves_def on_lim_def)

lemma balanced_bind:
  assumes "\<And>I. preserves (on_lim I) m" "\<And>a. balanced cfg (f a)"
  shows "balanced cfg (State_Monad.bind m f)"
  unfolding balanced_def
proof (intro allI impI)
  fix g :: "'a gateway" and ps
  assume "lim_ok cfg ps (gw_limiter g)" "fst (run_state (State_Monad.bind m f) g) \<noteq> Inl StillRunning"
  moreover from this have "lim_ok cfg ps (gw_limiter (snd (run_state m g)))"
    using assms(1) [of "lim_ok cfg ps"] by (simp add: preserves_def on_lim_def)
  ultimately show "lim_ok cfg ps (gw_limiter (snd (run_state (State_Monad.bind m f) g)))"
    using assms(2) by (auto simp: balanced_def case_prod_beta)
qed

text \<open>The permit of a decision, once released, counts no more.\<close>

lemma lim_ok_spent: "lim_ok cfg (ps @ [\<lparr>pm_release = None\<rparr>]) l \<Longrightarrow> lim_ok cfg ps l"
  by (simp add: lim_ok_def rl_inv_def objs_ok_def obj_ok_def split: prod.splits) metis

lemma spent: "fst (Release p l) = \<lparr>pm_release = None\<rparr>"
  by (cases p) (auto simp: Release_def split: option.split release_fn.split)

lemma release_returns:
  assumes "lim_ok cfg (ps @ [p]) (gw_limiter g)"
  shows "lim_ok cfg ps (gw_limiter (snd (run_state (release (Some p)) g)))"
proof -
  have "rl_step (gw_limiter g, ps @ [p]) (snd (Release p (gw_limiter g)), ps @ [fst (Release p (gw_limiter g))])"
    using rl_release [of "length ps" "ps @ [p]" "gw_limiter g"] by simp
  from rl_step_inv [OF this] assms
  have "lim_ok cfg (ps @ [\<lparr>pm_release = None\<rparr>]) (snd (Release p (gw_limiter g)))"
    by (simp add: lim_ok_def spent)
  then show ?thesis
    using lim_ok_spent by (simp add: release_def with_limiter_def zoom_def)
qed

text \<open>An acquisition that hands out a permit exactly when it allows.\<close>

definition acquires :: "rl_config \<Rightarrow> (limiter \<Rightarrow> decision \<times> limiter) \<Rightarrow> bool" where
  "acquires cfg acq = (\<forall>l ps. lim_ok cfg ps l \<longrightarrow> rl_inv cfg (handed (acq l) ps) \<and>
     (Allowed (fst (acq l)) \<longleftrightarrow> dec_Permit (fst (acq l)) \<noteq> None))"

lemma try_acquire_permit: "Allowed (fst (try_acquire k n i l)) \<longleftrightarrow> dec_Permit (fst (try_acquire k n i l)) \<noteq> None"
  by (simp add: try_acquire_def Let_def)

lemma acquires_request: "picks pick \<Longrightarrow> acquires cfg (AcquireRequest pick who t)"
  unfolding acquires_def lim_ok_def
  by (auto intro!: rl_step_inv [OF rl_request]) (auto simp: AcquireRequest_def Let_def try_acquire_permit split: prod.splits if_splits)

lemma acquires_stream: "picks pick \<Longrightarrow> acquires cfg (AcquireStream pick who t)"
  unfolding acquires_def lim_ok_def
  by (auto intro!: rl_step_inv [OF rl_stream]) (auto simp: AcquireStream_def Let_def try_acquire_permit split: prod.splits)

lemma balanced_bracket:
  assumes "acquires cfg acq" "balanced cfg m" "\<And>I d. preserves (on_lim I) (refuse d)"
  shows "balanced cfg (do {
     dec \<leftarrow> with_limiter acq;
     (if \<not> Allowed dec then refuse dec
      else do { out \<leftarrow> m; (if out = Inl StillRunning then ret () else release (dec_Permit dec)); ret out }) })"
  unfolding balanced_def
proof (intro allI impI)
  fix g :: "'a gateway" and ps
  let ?op = "do {
     dec \<leftarrow> with_limiter acq;
     (if \<not> Allowed dec then refuse dec
      else do { out \<leftarrow> m; (if out = Inl StillRunning then ret () else release (dec_Permit dec)); ret out }) }"
  assume g: "lim_ok cfg ps (gw_limiter g)" and ends: "fst (run_state ?op g) \<noteq> Inl StillRunning"
  obtain d l where a: "acq (gw_limiter g) = (d, l)" by force
  let ?g = "g\<lparr>gw_limiter := l\<rparr>"
  have inv: "rl_inv cfg (handed (d, l) ps)" and d: "Allowed d \<longleftrightarrow> dec_Permit d \<noteq> None"
    using assms(1) [unfolded acquires_def, rule_format, OF g] a by simp_all
  have start: "run_state (with_limiter acq) g = (d, ?g)" by (simp add: with_limiter_def zoom_def a)
  show "lim_ok cfg ps (gw_limiter (snd (run_state ?op g)))"
  proof (cases "dec_Permit d")
    case None
    then have "on_lim (lim_ok cfg ps) ?g" using inv by (simp add: handed_def lim_ok_def on_lim_def)
    with assms(3) [of "lim_ok cfg ps" d] have "lim_ok cfg ps (gw_limiter (snd (run_state (refuse d) ?g)))"
      by (simp add: preserves_def on_lim_def)
    then show ?thesis using None d start by (simp add: case_prod_beta)
  next
    case (Some p)
    obtain out g2 where r: "run_state m ?g = (out, g2)" by force
    have "out \<noteq> Inl StillRunning" using ends Some d start r by (auto simp: case_prod_beta)
    moreover have "lim_ok cfg (ps @ [p]) (gw_limiter ?g)" using inv Some by (simp add: handed_def lim_ok_def)
    ultimately have "lim_ok cfg (ps @ [p]) (gw_limiter g2)"
      using assms(2) r unfolding balanced_def by (metis fst_conv snd_conv)
    from release_returns [OF this] show ?thesis
      using \<open>out \<noteq> Inl StillRunning\<close> Some d start r by (simp add: case_prod_beta)
  qed
qed

lemmas lim_intro = pres_intro silent_on mgr_guards mgr_step_or_error lim_with_manager mgr_errors mgr_writers
  mgr_write mgr_send_events preserves_case_list

lemma lim_reads:
  "preserves (on_lim I) (getChain E c r)" "preserves (on_lim I) (getChainContext E c r)"
  "preserves (on_lim I) (listChainRuns E c r)" "preserves (on_lim I) (listChains E r)"
  "preserves (on_lim I) (SessionsHandler E r)" "preserves (on_lim I) (read_run E i rest r)"
  unfolding getChain_def getChainContext_def listChainRuns_def listChains_def SessionsHandler_def
    serve_session_def read_run_def
  by (intro lim_intro)+

lemma lim_readRunPayload: "preserves (on_lim I) (readRunPayload E r)"
  unfolding readRunPayload_def by (intro lim_intro)

lemma lim_writes:
  "preserves (on_lim I) (createChain E r)" "preserves (on_lim I) (patchChain E c r)"
  "preserves (on_lim I) (forkChain E c r)" "preserves (on_lim I) (regenerateRun E i r)"
  "preserves (on_lim I) (runChainBlocking E c r)" "preserves (on_lim I) (stream_run E c r key payload)"
  unfolding createChain_def patchChain_def forkChain_def regenerateRun_def runChainBlocking_def
    with_run_payload_def stream_run_def Let_def
  by (intro lim_intro lim_readRunPayload)+

lemma balanced_if: "(b \<Longrightarrow> balanced cfg m) \<Longrightarrow> (\<not> b \<Longrightarrow> balanced cfg n) \<Longrightarrow> balanced cfg (if b then m else n)"
  by simp

lemma balanced_case_sum:
  "(\<And>e. x = Inl e \<Longrightarrow> balanced cfg (f e)) \<Longrightarrow> (\<And>a. x = Inr a \<Longrightarrow> balanced cfg (h a)) \<Longrightarrow>
   balanced cfg (case x of Inl e \<Rightarrow> f e | Inr a \<Rightarrow> h a)"
  by (cases x) auto

lemma balanced_case_option:
  "(x = None \<Longrightarrow> balanced cfg m) \<Longrightarrow> (\<And>a. x = Some a \<Longrightarrow> balanced cfg (h a)) \<Longrightarrow>
   balanced cfg (case x of None \<Rightarrow> m | Some a \<Rightarrow> h a)"
  by (cases x) auto

lemma balanced_quiet: "(\<And>I. preserves (on_lim I) (do { _ \<leftarrow> m; n })) \<Longrightarrow> balanced cfg (do { _ \<leftarrow> m; n })"
  by (rule balanced_preserves)

lemma balanced_stream:
  assumes "picks (he_pick E)"
  shows "balanced cfg (runChainStream E c r)"
proof -
  have "balanced cfg (with_stream_permit E r (stream_run E c r key payload))" for key payload
    unfolding with_stream_permit_def
    by (intro balanced_if balanced_bracket [OF acquires_stream [OF assms]] balanced_preserves lim_writes
        | intro lim_intro)+
  then show ?thesis
    unfolding runChainStream_def with_run_payload_def with_key_def decoded_or_error_def step_or_error_def
      checked_or_error_def
    by (intro balanced_bind balanced_if balanced_case_sum balanced_case_option balanced_quiet lim_readRunPayload | assumption
        | intro lim_intro)+
qed

lemma balanced_routes:
  assumes "picks (he_pick E)" "chain_api (rq_Path r)"
  shows "balanced cfg (routes E other r)"
proof -
  note ops = balanced_stream [OF assms(1)] lim_reads [THEN balanced_preserves] lim_writes [THEN balanced_preserves]
    mgr_errors(4,5) [OF silent_on(2), THEN balanced_preserves]
  have "balanced cfg (ChainsHandler E r)"
    unfolding ChainsHandler_def serveChainsRoot_def serveChainPath_def serve_chain_def serve_chain_part_def
    by (simp add: ops Let_def split: list.split)
  moreover have "balanced cfg (ChainRunsReadHandler E r)"
    unfolding ChainRunsReadHandler_def by (simp add: ops Let_def)
  ultimately show ?thesis
    using assms(2) by (auto simp: routes_def chain_api_def Let_def ops)
qed

lemma balanced_RateLimit:
  assumes "picks (he_pick E)" "balanced cfg (inner r)"
  shows "balanced cfg (RateLimit E inner r)"
  unfolding RateLimit_def
  by (intro balanced_if balanced_bracket [OF acquires_request [OF assms(1)]] assms(2) | intro lim_intro)+

lemma balanced_Auth:
  fixes inner :: "'s handler"
  assumes "\<And>k. balanced cfg (inner (r\<lparr>rq_APIKey := k\<rparr>))"
  shows "balanced cfg (Auth c inner r)"
proof -
  have "balanced cfg (inner r)" using assms [of "rq_APIKey r"] by simp
  moreover have "balanced cfg (do { _ \<leftarrow> writeJSONError n e; ok () } :: ('s, stop + unit) gop)" for n e
    by (intro balanced_quiet lim_intro)
  ultimately show ?thesis
    using assms unfolding Auth_def Let_def
    by (simp only: split: AuthMode.split option.split if_split) simp
qed

lemma balanced_APIVersion: "balanced cfg (inner r) \<Longrightarrow> balanced cfg (APIVersion inner r)"
  unfolding APIVersion_def by (intro balanced_if balanced_quiet | assumption | intro lim_intro)+

lemma balanced_CORS: "balanced cfg (inner r) \<Longrightarrow> balanced cfg (CORS c inner r)"
  unfolding CORS_def Let_def by (intro balanced_if balanced_bind balanced_quiet | assumption | intro lim_intro)+

lemma balanced_Recover:
  assumes "balanced cfg (inner r)"
  shows "balanced cfg (Recover inner r)"
  unfolding balanced_def
proof (intro allI impI)
  fix g :: "'a gateway" and ps
  assume g: "lim_ok cfg ps (gw_limiter g)" and ends: "fst (run_state (Recover inner r) g) \<noteq> Inl StillRunning"
  obtain out g' where r: "run_state (inner r) g = (out, g')" by force
  have "out \<noteq> Inl StillRunning" using ends r by (auto simp: Recover_def case_prod_beta)
  then have "lim_ok cfg ps (gw_limiter g')" using assms g r unfolding balanced_def by (metis fst_conv snd_conv)
  then have g': "on_lim (lim_ok cfg ps) g'" by (simp add: on_lim_def)
  have "preserves (on_lim (lim_ok cfg ps)) (do { _ \<leftarrow> writeJSONError n e; ok () })" for n e
    by (intro lim_intro)
  from this [unfolded preserves_def, rule_format, OF g'] g' show "lim_ok cfg ps (gw_limiter (snd (run_state (Recover inner r) g)))"
    using r by (cases out rule: sum.exhaust) (auto simp: Recover_def on_lim_def case_prod_beta split: stop.split)
qed

text \<open>C3. Every request to the HTTP interface of chains gives its permits back: when it has returned, normally,
  with an error or by a panic, the books of the limiter are in order for the permits that were out before,
  so the semaphores of requests and streams hold no slot for it.\<close>

theorem request_returns_permits:
  assumes "picks (he_pick E)" "chain_api (rq_Path r)" "rl_inv cfg (gw_limiter g, ps)"
    and "run_state (ServeHTTP E other r) g = (out, g')" "out \<noteq> Inl StillRunning"
  shows "rl_inv cfg (gw_limiter g', ps)"
proof -
  have "balanced cfg (ServeHTTP E other r)"
    unfolding ServeHTTP_def Handler_def RequestID_def Let_def
    by (intro balanced_bind balanced_Recover balanced_CORS balanced_APIVersion balanced_Auth balanced_RateLimit
        balanced_routes assms(1) lim_intro) (simp_all add: assms(2))
  then show ?thesis
    using assms(3-5) unfolding balanced_def lim_ok_def by (metis fst_conv snd_conv)
qed

section \<open>Organisations\<close>

text \<open>A header decides which organisation a request speaks for, whatever its API key: with any value in
  it the request's principal has that organisation.\<close>

lemma org_of_header:
  "internal_org r \<noteq> [] \<Longrightarrow> pr_OrgID (chainPrincipalFromRequest E (in_context E r)) = internal_org r"
  by (simp add: chainPrincipalFromRequest_def Let_def in_context_def internal_org_def)

section \<open>Examples\<close>

lemma requests_authenticated_witness:
  "case run_state (ServeHTTP demo_http not_found (demo_request [(''Authorization'', ''Bearer k2'')])) demo_gateway of
     (out, g') \<Rightarrow> out = Inr () \<and> g' = demo_gateway\<lparr>gw_out := gw_out g'\<rparr> \<and>
       refusal [unauthenticated_status (he_cfg demo_http) (demo_request [(''Authorization'', ''Bearer k2'')])] (gw_out g')"
proof (rule requests_authenticated)
  show "unauthenticated (he_cfg demo_http) (demo_request [(''Authorization'', ''Bearer k2'')])" by code_simp
  show "gw_out demo_gateway = new_response" by (simp add: demo_gateway_def)
qed

text \<open>A client that reads a chain.\<close>

definition read_request :: "(string \<times> string) list \<Rightarrow> http_request" where
  "read_request headers = (demo_request headers)\<lparr>rq_Method := ''GET'', rq_Path := ''/v1/chains/c1''\<rparr>"

lemma demo_limiter: "rl_inv demo_rate_limits (gw_limiter demo_gateway, [])"
  using rl_inv_New [of demo_rate_limits] by (simp add: demo_gateway_def) (simp add: New_def demo_rate_limits_def)

lemma request_returns_permits_witness:
  "rl_inv demo_rate_limits (gw_limiter (snd (run_state (ServeHTTP demo_http not_found (read_request
     [(''Authorization'', ''Bearer k1'')])) demo_gateway)), [])"
proof (rule request_returns_permits [OF _ _ demo_limiter prod.collapse [symmetric]])
  show "picks (he_pick demo_http)" by (simp add: picks_def demo_http_def)
  show "chain_api (rq_Path (read_request [(''Authorization'', ''Bearer k1'')]))" by code_simp
  show "fst (run_state (ServeHTTP demo_http not_found (read_request [(''Authorization'', ''Bearer k1'')]))
      demo_gateway) \<noteq> Inl StillRunning" by code_simp
qed

end
