(* ===== verification/Spec2Isabelle.thy ===== *)
theory Spec2Isabelle
  imports Witnesses SSE Sentences ToolArgs RequestLimits Compat ControllerRun Pricing SocketLaws StrictProps HttpGuards
begin

text \<open>
  A verification library for the VAI gateway, a Go service between applications and model providers. It
  models the parts that decide something: the chain manager with its store and its runs, the HTTP interface and
  the websocket that reach it, the strict decoders of what clients send, the tool loop of stateless runs, the
  checks that admit a request, the streams clients read, and the charge for hosted models. Paths below are
  those of the repository under \<open>src/\<close>.

  The parts and their theories.

  Values. \<open>Json\<close> is what \<open>encoding/json\<close> exchanges: documents as trees, objects as lists of
  fields in which a decoder takes the last of a name. \<open>Content\<close> and \<open>Messages\<close> hold the
  content blocks, messages, usage and responses of \<open>pkg/core/types\<close> with their encoders and tolerant
  decoders; \<open>ChainTypes\<close>, \<open>PayloadJson\<close> and \<open>Events\<close> the records of sessions, chains and
  runs, the JSON of those that are hashed, and the events of a run and of a chain's websocket;
  \<open>ChainErrors\<close> and \<open>ApiError\<close> the errors, their texts and their HTTP status. \<open>GoStrings\<close> is
  the part of Go's \<open>strings\<close> and \<open>strconv\<close> that they use; \<open>Clone\<close> the copies of
  \<open>clone_helpers.go\<close>. Lemmas: round trips of blocks and messages, idempotence of copies, totals of usage.

  The chain manager (\<open>pkg/gateway/chains\<close>). \<open>Store\<close> is the interface of \<open>store.go\<close> as a record
  of operations, with the locales \<open>chain_store\<close> and \<open>run_store\<close> for the laws the manager relies on;
  \<open>MemStore\<close> is \<open>memstore.go\<close> and \<open>MemStoreLaws\<close> interprets both locales on it. \<open>HotChain\<close>
  is the replay buffer of a chain in memory, \<open>ManagerState\<close> the manager's state and its environment,
  \<open>Manager\<close> and \<open>ManagerRead\<close> the operations of \<open>manager.go\<close> (start, attach, update, detach, the
  reads with and without authorisation), \<open>Branch\<close> those of \<open>manager_branch.go\<close>, \<open>StartRun\<close> and
  \<open>Executor\<close> those of \<open>executor.go\<close>: admission of a run, its turns, gateway and client tools, the
  commit of history, submission of tool results, cancellation and clean-up. \<open>Defaults\<close> and
  \<open>Capabilities\<close> are the pure functions they call, \<open>ServerTools\<close> the registry of gateway tools and the
  image references, \<open>Accumulator\<close> the accumulator of provider streams.
  What is shown: \<open>ManagerInv\<close> that what its locale \<open>critical_sections\<close> asks of single
  critical sections carries over to every operation, turn and cleanup of the manager (\<open>mgr_step\<close>);
  \<open>Interleave\<close> an invariant of the replay buffers under all interleavings of those sections, and that
  every operation is a path of them; \<open>Lease\<close> that the writer lease is
  admitted exactly under its conditions and never displaced otherwise; \<open>RunStart\<close>, \<open>RunTools\<close>,
  \<open>RunLoop\<close> and \<open>InStep\<close> what it takes to start a run, that every tool call is answered once, that the
  accounts of a run add up and that the chain in memory stays in step with the store. \<open>ChainSat\<close> is the
  logic these proofs share: predicates on one chain in memory, kept by operations that leave it alone.

  What reaches the manager (\<open>pkg/gateway/handlers\<close>, \<open>mw\<close>, \<open>auth\<close>, \<open>principal\<close>).
  \<open>Http\<close> holds requests, response writers and the principal a request is attributed to, and its record
  \<open>http_env\<close> the configuration and what is not under \<open>src/\<close> (parsers of addresses, of the first JSON
  value of a text and of hosts, the hash, the clock); \<open>Middleware\<close> the chain of \<open>mw\<close> and the order
  of \<open>server.go\<close>; \<open>ForkRequests\<close> the bodies that fork a chain or regenerate a run;
  \<open>ChainsHttp\<close> and \<open>RunsHttp\<close> the handlers of \<open>chains_http.go\<close>. \<open>HttpLaws\<close> shows
  that requests of other organisations leave a chain alone, \<open>HttpGuards\<close> that without a listed key no
  handler is reached and that permits come back. \<open>ChainSocket\<close> is \<open>chain_ws.go\<close>: the queue of a
  session, the dispatch of frames and the loop that reads them; \<open>SocketLaws\<close> shows that the queue
  delivers in order, that a session which has closed no chain touches only its own, that a writer who lost the lease is
  refused, and how a replayed start skips that check.

  Strict decoders (\<open>strict_decode.go\<close>, \<open>strict_decode_runs.go\<close>, \<open>strict_decode_chain.go\<close>).
  \<open>StrictValues\<close>, \<open>StrictBlocks\<close>, \<open>StrictRequest\<close> decode settings, blocks and messages,
  requests and runs, with the path of the first error; \<open>ChainFrames\<close> the frames a client of a chain sends.
  \<open>StrictAccept\<close> and \<open>StrictLaws\<close> say what they accept without the order of their checks,
  \<open>StrictTrips\<close>, \<open>RequestTrip\<close> and \<open>FrameTrip\<close> that what a client writes is read back, and
  \<open>StrictProps\<close> what the code behind them may rely on.

  Stateless runs (\<open>pkg/gateway/runloop\<close>). \<open>StreamTurn\<close> is one streamed model turn with its speech,
  \<open>Controller\<close> the loop with its budgets and its tools. \<open>ControllerRun\<close> shows that a run keeps to its
  budgets and ends, that the stream tells a client the whole history, and that parallel tools are
  deterministic. Both kinds of runs are loops of turns that go on or end: \<open>TurnLoop\<close> is that interface, a
  locale with its counting, invariant and termination lemmas, interpreted in \<open>Executor\<close> and in
  \<open>Controller\<close>.

  Admission. \<open>RateLimit\<close> is \<open>pkg/gateway/ratelimit\<close> (token buckets, semaphores, the bounded map of
  principals), \<open>RequestLimits\<close> \<open>pkg/gateway/limits\<close>, \<open>Compat\<close> the catalog and validation of
  \<open>pkg/gateway/compat\<close>. Each has a theorem that says exactly what passes.

  Streams at the edges. \<open>SSE\<close> pairs the writer of \<open>pkg/gateway/sse\<close> with the parser of
  \<open>pkg/core/sseframe\<close>; \<open>ToolArgs\<close> is the decoder of streamed tool arguments of the SDK;
  \<open>Sentences\<close> the sentence buffer of the voice pipeline. Each is shown to depend on the text only, or
  to lose nothing of it, however it is cut.

  Charges. \<open>PriceCatalog\<close> and \<open>Pricing\<close> are \<open>internal/services/pricing.go\<close>, in 64-bit integers.

  \<open>Examples\<close> is a concrete manager over the memory store and \<open>Witnesses\<close> the inputs on which the
  hypotheses of the properties hold; other theories carry their own witnesses.

  How the code corresponds to the model. A struct is a record with a prefix for its fields, an enumeration a
  datatype, a Go map an association list with one pair per key (\<open>gomap\<close>), a slice that may be nil an
  optional list (\<open>slice\<close>). A method that changes state is a value of the state monad over the state of
  its component, and \<open>wp\<close> is its weakest precondition; \<open>(value, error)\<close> is a sum, a panic an error or
  \<open>None\<close>. Operations are written as a whole. Those of the rate limiter and of the
  memory store run under one mutex in the code as well. Those of the manager do not: they draw the number of an event,
  buffer the event and change a chain in several critical sections of the mutex of that chain.
  \<open>Interleave\<close> breaks them into those sections and says what holds however they interleave
  (\<open>interleaved_invariant\<close>), an overtaken event included; the other properties of the manager
  and its runs are about operations that run without interruption, in any order (\<open>reachable\<close>).

  Parameters. The store, the codec of server events (its decoder is \<open>UnmarshalChainServerEventStrict\<close>, which is
  not modelled: \<open>exact_replay\<close> says what a replay returns in terms of what is decoded, and, where the codec
  is faithful, of what was sent), the parser and printer of JSON texts, the clock, the
  random source, the hash functions, the providers, the tools, the sinks and the voice pipeline are arguments of
  the definitions; laws of them are named where a property needs one. The memory store discharges those of
  the store.

  Where the model says less than the code. A field that an object repeats is taken at its last
  occurrence, whereas \<open>encoding/json\<close> merges repeated objects into one map; properties that would be decided by this
  assume fields without repetition (\<open>single_members\<close>). Case folding is that of ASCII. A panic
  of the accumulator ends a streamed turn of the stateless loop with an error.

  Bounds and fuel. Loops over data are structural or have a measure (\<open>next_frame\<close>, the scanners of
  \<open>ToolArgs\<close>). The loops of runs go over the list of what the environment does turn by turn: a list that ends
  leaves the run in its state, so a property of all lists is one of runs of any length, and
  \<open>run_terminates\<close> says which length suffices. A select loop whose list ends has seen the end of what it
  waits for. Go's \<open>int\<close> is unbounded except in \<open>Pricing\<close>, where the products of tokens and rates are
  large; \<open>float64\<close> is a rational number.

  Not modelled. The Postgres store, whose behaviour is that of the database; the handlers of messages, of
  stateless runs, of server tools and of live voice sessions, the upgrade of a websocket, pings and deadlines, which
  are network input and output around the operations above; the decoders of server events and of provider streams; the
  translations to the wire formats of the providers; the SDK but for the decoder of tool arguments; the voice
  pipeline but for the sentence buffer; blob storage; the database, accounts and user interface of the hosted
  application. Timers, the blocking of locks and cancellation are inputs.
\<close>

end
